(* ===== verification/Prelude.thy ===== *)
theory Prelude
  imports Main
    "HOL-Library.AList"
    "HOL-Library.Char_ord"
    "HOL-Library.List_Lexorder"
    "HOL-Library.Product_Lexorder"
begin

text \<open>
  Shared vocabulary of the development: insertion-ordered dictionaries (Python's \<open>dict\<close>)
  as association lists with distinct keys, the helpers on lists that several
  components use, and the collections of facts that the component proofs draw on.

  A dictionary is a list of key/value pairs in insertion order.  Assigning to an
  existing key keeps its position and a new key goes to the end, which is what
  \<open>AList.update\<close> does; \<open>AList.delete\<close> is \<open>dict.pop\<close>.
\<close>

named_theorems op_simps \<open>unfolding rules for the state-passing operations\<close>
named_theorems inv_intros \<open>preservation of the components' invariants\<close>

section \<open>Dictionaries\<close>

type_synonym 'v dict = "(string \<times> 'v) list"

abbreviation dget :: "'v dict \<Rightarrow> string \<Rightarrow> 'v option" where
  "dget d k \<equiv> map_of d k"

abbreviation dset :: "string \<Rightarrow> 'v \<Rightarrow> 'v dict \<Rightarrow> 'v dict" where
  "dset k v d \<equiv> AList.update k v d"

abbreviation dpop :: "string \<Rightarrow> 'v dict \<Rightarrow> 'v dict" where
  "dpop k d \<equiv> AList.delete k d"

definition dhas :: "'v dict \<Rightarrow> string \<Rightarrow> bool" where
  "dhas d k \<longleftrightarrow> map_of d k \<noteq> None"

text \<open>\<open>dict.update(other)\<close>: the other dictionary's items are assigned in their order.\<close>

fun dmerge :: "'v dict \<Rightarrow> 'v dict \<Rightarrow> 'v dict" where
  "dmerge d [] = d"
| "dmerge d ((k, v) # e) = dmerge (dset k v d) e"

abbreviation dkeys :: "'v dict \<Rightarrow> string list" where
  "dkeys d \<equiv> map fst d"

lemma dget_dset [simp]: "dget (dset k v d) k' = (if k' = k then Some v else dget d k')"
  by (simp add: update_conv')

lemma dget_dpop [simp]: "dget (dpop k d) k' = (if k' = k then None else dget d k')"
  by (simp add: delete_conv')

lemma dkeys_dset:
  "dkeys (dset k v d) = (if k \<in> set (dkeys d) then dkeys d else dkeys d @ [k])"
  by (induction d) auto

lemma distinct_dset [simp]: "distinct (dkeys d) \<Longrightarrow> distinct (dkeys (dset k v d))"
  by (rule distinct_update)

lemma distinct_dpop [simp]: "distinct (dkeys d) \<Longrightarrow> distinct (dkeys (dpop k d))"
  by (rule distinct_delete)

lemma set_dset_subset: "set (dset k v d) \<subseteq> insert (k, v) (set d)"
  by (induction d) auto

lemma set_dpop_subset: "set (dpop k d) \<subseteq> set d"
  by (induction d) auto

lemma distinct_dmerge [simp]: "distinct (dkeys d) \<Longrightarrow> distinct (dkeys (dmerge d e))"
  by (induction d e rule: dmerge.induct) simp_all

lemma set_dmerge_subset: "set (dmerge d e) \<subseteq> set d \<union> set e"
proof (induction d e rule: dmerge.induct)
  case (2 d k v e)
  then show ?case using set_dset_subset [of k v d] by auto
qed simp

lemma dget_None_keys: "dget d k = None \<longleftrightarrow> k \<notin> set (dkeys d)"
  by (simp add: map_of_eq_None_iff)

lemma dget_dmerge_notin: "k \<notin> set (dkeys e) \<Longrightarrow> dget (dmerge d e) k = dget d k"
  by (induction d e rule: dmerge.induct) auto

lemma dget_dmerge:
  "distinct (dkeys e) \<Longrightarrow>
   dget (dmerge d e) k = (case dget e k of Some v \<Rightarrow> Some v | None \<Rightarrow> dget d k)"
proof (induction d e rule: dmerge.induct)
  case (2 d k' v e)
  show ?case
  proof (cases "k = k'")
    case True
    with 2 have "dget e k = None" by (simp add: dget_None_keys)
    with True 2 show ?thesis by simp
  next
    case False
    with 2 show ?thesis by (simp split: option.splits)
  qed
qed simp

lemma dget_dmerge_mono: "dget d k \<noteq> None \<Longrightarrow> dget (dmerge d e) k \<noteq> None"
  by (induction d e rule: dmerge.induct) auto

lemma dget_Some_set: "dget d k = Some v \<Longrightarrow> (k, v) \<in> set d"
  by (rule map_of_SomeD)

section \<open>Lists\<close>

text \<open>The position of the first element that satisfies a predicate.\<close>

fun find_pos :: "('a \<Rightarrow> bool) \<Rightarrow> 'a list \<Rightarrow> nat option" where
  "find_pos P [] = None"
| "find_pos P (x # xs) = (if P x then Some 0 else map_option Suc (find_pos P xs))"

lemma find_pos_SomeD:
  "find_pos P xs = Some i \<Longrightarrow> i < length xs \<and> P (xs ! i) \<and> (\<forall>j < i. \<not> P (xs ! j))"
proof (induction xs arbitrary: i)
  case (Cons x xs)
  show ?case
  proof (cases "P x")
    case True
    with Cons.prems show ?thesis by simp
  next
    case False
    with Cons.prems obtain j where j: "find_pos P xs = Some j" "i = Suc j" by auto
    with Cons.IH [OF j(1)] False show ?thesis
      by (auto simp: nth_Cons split: nat.splits)
  qed
qed simp

lemma find_pos_None: "find_pos P xs = None \<longleftrightarrow> (\<forall>x \<in> set xs. \<not> P x)"
  by (induction xs) auto

lemma find_pos_cong_update:
  "find_pos P xs = Some i \<Longrightarrow> P y \<Longrightarrow> find_pos P (xs[i := y]) = Some i"
  by (induction xs arbitrary: i) (auto split: if_splits nat.splits)

lemma filter_update_notin:
  "i < length xs \<Longrightarrow> \<not> P (xs ! i) \<Longrightarrow> \<not> P y \<Longrightarrow> filter P (xs[i := y]) = filter P xs"
  by (induction xs arbitrary: i) (auto split: nat.splits)

lemma map_update_same: "i < length xs \<Longrightarrow> f y = f (xs ! i) \<Longrightarrow> map f (xs[i := y]) = map f xs"
  by (metis list_update_id map_update)

lemma sorted_wrt_update:
  "sorted_wrt R xs \<Longrightarrow>
   (\<And>j. j < length xs \<Longrightarrow> j < i \<Longrightarrow> R (xs ! j) y) \<Longrightarrow>
   (\<And>j. j < length xs \<Longrightarrow> i < j \<Longrightarrow> R y (xs ! j)) \<Longrightarrow> sorted_wrt R (xs[i := y])"
  by (cases "i < length xs")
    (auto simp: sorted_wrt_iff_nth_less nth_list_update list_update_beyond)

text \<open>
  \<open>list(dict.fromkeys(xs))\<close>: duplicates dropped, the first occurrence kept in place.
\<close>

fun dedup :: "'a list \<Rightarrow> 'a list" where
  "dedup [] = []"
| "dedup (x # xs) = x # filter (\<lambda>y. y \<noteq> x) (dedup xs)"

lemma set_dedup [simp]: "set (dedup xs) = set xs"
  by (induction xs) auto

lemma distinct_dedup [simp]: "distinct (dedup xs)"
  by (induction xs) auto

lemma dedup_id: "distinct xs \<Longrightarrow> dedup xs = xs"
  by (induction xs) (auto simp: filter_id_conv)

text \<open>Sequential checks that stop at the first failure, as a loop that raises does.\<close>

fun first_error :: "('a \<Rightarrow> 'e + unit) \<Rightarrow> 'a list \<Rightarrow> 'e + unit" where
  "first_error f [] = Inr ()"
| "first_error f (x # xs) = (case f x of Inl e \<Rightarrow> Inl e | Inr _ \<Rightarrow> first_error f xs)"

lemma first_error_Inr: "first_error f xs = Inr u \<longleftrightarrow> (\<forall>x \<in> set xs. f x = Inr ())"
  by (induction xs) (auto split: sum.splits)

fun map_err :: "('a \<Rightarrow> 'e + 'b) \<Rightarrow> 'a list \<Rightarrow> 'e + 'b list" where
  "map_err f [] = Inr []"
| "map_err f (x # xs) =
     (case f x of Inl e \<Rightarrow> Inl e
      | Inr y \<Rightarrow> (case map_err f xs of Inl e \<Rightarrow> Inl e | Inr ys \<Rightarrow> Inr (y # ys)))"

lemma map_err_Inr:
  "map_err f xs = Inr ys \<longleftrightarrow> list_all2 (\<lambda>x y. f x = Inr y) xs ys"
proof (induction xs arbitrary: ys)
  case (Cons x xs)
  show ?case by (cases ys) (auto simp: Cons.IH [symmetric] split: sum.splits)
qed auto

lemma map_err_all_Inr: "(\<And>x. x \<in> set xs \<Longrightarrow> f x = Inr (g x)) \<Longrightarrow> map_err f xs = Inr (map g xs)"
  by (induction xs) auto

text \<open>A comprehension whose condition may raise.\<close>

fun filter_err :: "('a \<Rightarrow> 'e + bool) \<Rightarrow> 'a list \<Rightarrow> 'e + 'a list" where
  "filter_err f [] = Inr []"
| "filter_err f (x # xs) =
     (case f x of Inl e \<Rightarrow> Inl e
      | Inr b \<Rightarrow> (case filter_err f xs of Inl e \<Rightarrow> Inl e | Inr ys \<Rightarrow> Inr (if b then x # ys else ys)))"

lemma filter_err_Inr:
  "filter_err f xs = Inr ys \<longleftrightarrow>
   (\<forall>x \<in> set xs. \<exists>b. f x = Inr b) \<and> ys = filter (\<lambda>x. f x = Inr True) xs"
proof (induction xs arbitrary: ys)
  case (Cons x xs)
  show ?case
  proof (cases "f x")
    case (Inr b)
    show ?thesis
    proof (cases "filter_err f xs")
      case Inl
      with Cons.IH show ?thesis by (auto simp: Inr)
    next
      case (Inr zs)
      with Cons.IH [of zs] \<open>f x = Inr b\<close> show ?thesis by auto
    qed
  qed simp
qed auto

text \<open>The lexicographic sort of a nonempty list starts with a least element.\<close>

lemma sort_key_hd_least:
  "x \<in> set xs \<Longrightarrow> f (hd (sort_key f xs)) \<le> f x"
proof -
  assume x: "x \<in> set xs"
  obtain y ys where ys: "sort_key f xs = y # ys"
    using x by (metis list.exhaust empty_iff list.set(1) set_sort)
  have "sorted (map f (sort_key f xs))" by (rule sorted_sort_key)
  with ys have "\<forall>z \<in> set ys. f y \<le> f z" by simp
  moreover have "x \<in> set (y # ys)" using x by (simp flip: ys)
  ultimately show ?thesis by (auto simp: ys)
qed

lemma hd_sort_key_in: "xs \<noteq> [] \<Longrightarrow> hd (sort_key f xs) \<in> set xs"
  by (metis length_0_conv length_sort list.set_sel(1) set_sort)

text \<open>Loops whose body keeps an invariant keep it for the whole list.\<close>

lemma foldl_invariant:
  "I s \<Longrightarrow> (\<And>s x. x \<in> set xs \<Longrightarrow> I s \<Longrightarrow> I (f s x)) \<Longrightarrow> I (foldl f s xs)"
  by (induction xs arbitrary: s) auto

end
