(* ===== verification/Json.thy ===== *)
theory Json
  imports Prelude
begin

text \<open>
  JSON values as Python sees them, the text produced by \<open>json.dumps\<close> in the three
  layouts the program uses, and the reader \<open>json.loads\<close>.  Strings are UTF-8 byte
  lists, so a layout with \<open>ensure_ascii=False\<close> copies every byte except the quote, the
  backslash and the control characters.  Numbers are integers: the program's ledgers
  hold no fractions, and a number with a fraction or an exponent is outside the model
  (the reader rejects it).
\<close>

section \<open>Values, Python equality, truth value, hashability\<close>

datatype json =
    JNull
  | JBool bool
  | JInt int
  | JStr string
  | JArr "json list"
  | JObj "(string \<times> json) list"

text \<open>
  Python's \<open>==\<close>: \<open>True\<close> equals 1 and \<open>False\<close> equals 0, and dictionaries are equal
  when they have equal values under the same keys, in any order.  Values are brought
  to a normal form in which both differences disappear.
\<close>

fun pynorm :: "json \<Rightarrow> json" where
  "pynorm (JBool b) = JInt (of_bool b)"
| "pynorm (JArr xs) = JArr (map pynorm xs)"
| "pynorm (JObj d) = JObj (sort_key fst (map (\<lambda>(k, v). (k, pynorm v)) d))"
| "pynorm v = v"

definition pyeq :: "json \<Rightarrow> json \<Rightarrow> bool" where
  "pyeq a b \<longleftrightarrow> pynorm a = pynorm b"

lemma pyeq_refl [simp]: "pyeq a a"
  by (simp add: pyeq_def)

lemma pyeq_sym: "pyeq a b \<Longrightarrow> pyeq b a"
  by (simp add: pyeq_def)

lemma pyeq_trans: "pyeq a b \<Longrightarrow> pyeq b c \<Longrightarrow> pyeq a c"
  by (simp add: pyeq_def)

lemma pynorm_JStr_iff [simp]: "pynorm v = JStr s \<longleftrightarrow> v = JStr s"
  by (cases v) auto

lemma pynorm_JNull_iff [simp]: "pynorm v = JNull \<longleftrightarrow> v = JNull"
  by (cases v) auto

lemma pyeq_JStr [simp]: "pyeq v (JStr s) \<longleftrightarrow> v = JStr s" "pyeq (JStr s) v \<longleftrightarrow> v = JStr s"
proof -
  show "pyeq v (JStr s) \<longleftrightarrow> v = JStr s" by (simp add: pyeq_def)
  show "pyeq (JStr s) v \<longleftrightarrow> v = JStr s"
    using pynorm_JStr_iff [of v s] by (simp add: pyeq_def eq_commute [of "JStr s"])
qed

lemma pyeq_JNull [simp]: "pyeq v JNull \<longleftrightarrow> v = JNull" "pyeq JNull v \<longleftrightarrow> v = JNull"
proof -
  show "pyeq v JNull \<longleftrightarrow> v = JNull" by (simp add: pyeq_def)
  show "pyeq JNull v \<longleftrightarrow> v = JNull"
    using pynorm_JNull_iff [of v] by (simp add: pyeq_def eq_commute [of JNull])
qed

definition hashable :: "json \<Rightarrow> bool" where
  "hashable v = (case v of JArr _ \<Rightarrow> False | JObj _ \<Rightarrow> False | _ \<Rightarrow> True)"

fun truthy :: "json \<Rightarrow> bool" where
  "truthy JNull = False"
| "truthy (JBool b) = b"
| "truthy (JInt n) = (n \<noteq> 0)"
| "truthy (JStr s) = (s \<noteq> [])"
| "truthy (JArr xs) = (xs \<noteq> [])"
| "truthy (JObj d) = (d \<noteq> [])"

lemma truthy_pyeq: "pyeq a b \<Longrightarrow> truthy a = truthy b"
proof -
  have norm: "truthy (pynorm v) = truthy v" for v
  proof (cases v)
    case (JObj d)
    have "sort_key fst (map (\<lambda>(k, v). (k, pynorm v)) d) = [] \<longleftrightarrow> d = []"
      by (metis (no_types, lifting) length_0_conv length_map length_sort)
    with JObj show ?thesis by simp
  qed auto
  assume "pyeq a b"
  then have "truthy (pynorm a) = truthy (pynorm b)" by (simp add: pyeq_def)
  with norm show ?thesis by simp
qed

definition is_arr :: "json \<Rightarrow> bool" where
  "is_arr v = (case v of JArr _ \<Rightarrow> True | _ \<Rightarrow> False)"

definition is_obj :: "json \<Rightarrow> bool" where
  "is_obj v = (case v of JObj _ \<Rightarrow> True | _ \<Rightarrow> False)"

definition is_str :: "json \<Rightarrow> bool" where
  "is_str v = (case v of JStr _ \<Rightarrow> True | _ \<Rightarrow> False)"

text \<open>\<open>isinstance(v, int)\<close> holds of booleans too; \<open>int_of\<close> is the number they stand for.\<close>

definition is_int :: "json \<Rightarrow> bool" where
  "is_int v = (case v of JInt _ \<Rightarrow> True | JBool _ \<Rightarrow> True | _ \<Rightarrow> False)"

fun int_of :: "json \<Rightarrow> int" where
  "int_of (JInt n) = n"
| "int_of (JBool b) = of_bool b"
| "int_of _ = 0"

abbreviation str_list :: "string list \<Rightarrow> json" where
  "str_list xs \<equiv> JArr (map JStr xs)"

text \<open>Values that can exist in Python: every dictionary has distinct keys.\<close>

fun jwf :: "json \<Rightarrow> bool" where
  "jwf (JArr xs) = (\<forall>x \<in> set xs. jwf x)"
| "jwf (JObj d) = (distinct (map fst d) \<and> (\<forall>p \<in> set d. jwf (snd p)))"
| "jwf _ = True"

abbreviation dict_wf :: "json dict \<Rightarrow> bool" where
  "dict_wf d \<equiv> jwf (JObj d)"

lemma dict_wf_dset [simp]: "dict_wf d \<Longrightarrow> jwf v \<Longrightarrow> dict_wf (dset k v d)"
  using set_dset_subset [of k v d] by fastforce

lemma dict_wf_dpop [simp]: "dict_wf d \<Longrightarrow> dict_wf (dpop k d)"
  using set_dpop_subset [of k d] by fastforce

lemma dict_wf_dmerge: "dict_wf d \<Longrightarrow> dict_wf e \<Longrightarrow> dict_wf (dmerge d e)"
proof -
  assume d: "dict_wf d" and e: "dict_wf e"
  from d have "distinct (dkeys (dmerge d e))" by (intro distinct_dmerge) simp
  moreover from d e have "\<forall>p \<in> set d \<union> set e. jwf (snd p)" by auto
  then have "\<forall>p \<in> set (dmerge d e). jwf (snd p)"
    using set_dmerge_subset [of d e] by blast
  ultimately show ?thesis by simp
qed

lemma dict_wf_dget: "dict_wf d \<Longrightarrow> dget d k = Some v \<Longrightarrow> jwf v"
proof -
  assume wf: "dict_wf d" and "dget d k = Some v"
  from this(2) have "(k, v) \<in> set d" by (rule dget_Some_set)
  moreover from wf have "\<forall>p \<in> set d. jwf (snd p)" by simp
  ultimately show "jwf v" by fastforce
qed

end
