(* ===== verification/JsonText.thy ===== *)
theory JsonText
  imports Json
begin

text \<open>
  The text of JSON values: \<open>json.dumps\<close> in the layouts the program uses, the reader
  \<open>json.loads\<close>, and the proof that reading what was written gives the value back.
  The reader works in two passes, a tokeniser on the bytes and a parser on the
  tokens, so the round trip is independent of the layout: every layout has the same
  tokens.
\<close>

section \<open>Integers and strings\<close>

definition digit :: "nat \<Rightarrow> char" where
  "digit n = char_of (48 + n)"

definition is_digit :: "char \<Rightarrow> bool" where
  "is_digit c \<longleftrightarrow> 48 \<le> (of_char c :: nat) \<and> (of_char c :: nat) \<le> 57"

definition digit_val :: "char \<Rightarrow> nat" where
  "digit_val c = of_char c - 48"

fun show_nat :: "nat \<Rightarrow> string" where
  "show_nat n = (if n < 10 then [digit n] else show_nat (n div 10) @ [digit (n mod 10)])"

declare show_nat.simps [simp del]

definition show_int :: "int \<Rightarrow> string" where
  "show_int i = (if i < 0 then CHR ''-'' # show_nat (nat (- i)) else show_nat (nat i))"

definition read_nat :: "string \<Rightarrow> nat" where
  "read_nat = foldl (\<lambda>n c. 10 * n + digit_val c) 0"

lemma digit_props [simp]: "n < 10 \<Longrightarrow> is_digit (digit n)" "n < 10 \<Longrightarrow> digit_val (digit n) = n"
  by (simp_all add: is_digit_def digit_def digit_val_def of_char_of)

lemma digit_0 [simp]: "digit 0 = CHR ''0''"
  by (simp add: digit_def char_of_eq_iff)

lemma read_nat_append: "read_nat (xs @ [c]) = 10 * read_nat xs + digit_val c"
  by (simp add: read_nat_def)

lemma show_nat_digits: "list_all is_digit (show_nat n)"
proof (induction n rule: show_nat.induct)
  case (1 n)
  then show ?case by (simp add: show_nat.simps [of n])
qed

lemma read_show_nat [simp]: "read_nat (show_nat n) = n"
proof (induction n rule: show_nat.induct)
  case (1 n)
  show ?case
  proof (cases "n < 10")
    case True
    then show ?thesis by (simp add: show_nat.simps [of n] read_nat_def)
  next
    case False
    with 1 show ?thesis by (simp add: show_nat.simps [of n] read_nat_append)
  qed
qed

lemma show_nat_nonempty [simp]: "show_nat n \<noteq> []"
  by (simp add: show_nat.simps [of n])

lemma show_nat_head: "0 < n \<Longrightarrow> hd (show_nat n) \<noteq> CHR ''0''"
proof (induction n rule: show_nat.induct)
  case (1 n)
  show ?case
  proof (cases "n < 10")
    case True
    have "digit n \<noteq> digit 0"
      using True 1(2) digit_props(2) [of n] digit_props(2) [of 0] by (metis less_numeral_extra(3) zero_less_numeral)
    with True show ?thesis by (simp add: show_nat.simps [of n])
  next
    case False
    with 1 show ?thesis by (simp add: show_nat.simps [of n] hd_append)
  qed
qed

text \<open>
  The escapes of \<open>py_encode_basestring\<close>: the two-character escapes, and
  \<open>\\u00xx\<close> for the other control characters.
\<close>

definition hex_digit :: "nat \<Rightarrow> char" where
  "hex_digit n = (if n < 10 then char_of (48 + n) else char_of (87 + n))"

definition hex_val :: "char \<Rightarrow> nat option" where
  "hex_val c = (let n = of_char c :: nat in
     if 48 \<le> n \<and> n \<le> 57 then Some (n - 48)
     else if 97 \<le> n \<and> n \<le> 102 then Some (n - 87)
     else if 65 \<le> n \<and> n \<le> 70 then Some (n - 55)
     else None)"

definition esc_char :: "char \<Rightarrow> string" where
  "esc_char c =
     (if c = CHR 34 then [CHR 92, CHR 34]
      else if c = CHR 92 then [CHR 92, CHR 92]
      else if c = CHR 10 then [CHR 92, CHR ''n'']
      else if c = CHR 13 then [CHR 92, CHR ''r'']
      else if c = CHR 9 then [CHR 92, CHR ''t'']
      else if c = CHR 12 then [CHR 92, CHR ''f'']
      else if c = CHR 8 then [CHR 92, CHR ''b'']
      else if (of_char c :: nat) < 32
      then [CHR 92, CHR ''u'', CHR ''0'', CHR ''0'',
            hex_digit (of_char c div 16), hex_digit (of_char c mod 16)]
      else [c])"

definition quote :: "string \<Rightarrow> string" where
  "quote s = CHR 34 # concat (map esc_char s) @ [CHR 34]"

lemma hex_val_digit [simp]: "n < 16 \<Longrightarrow> hex_val (hex_digit n) = Some n"
  by (auto simp: hex_val_def hex_digit_def of_char_of Let_def)

text \<open>
  A \<open>\\uXXXX\<close> escape read back as UTF-8 bytes.  A lone surrogate is rejected (Python
  keeps it, but such a string has no UTF-8 form).
\<close>

definition utf8 :: "nat \<Rightarrow> string option" where
  "utf8 n =
     (if n < 128 then Some [char_of n]
      else if n < 2048 then Some [char_of (192 + n div 64), char_of (128 + n mod 64)]
      else if 55296 \<le> n \<and> n < 57344 then None
      else if n < 65536 then
        Some [char_of (224 + n div 4096), char_of (128 + n div 64 mod 64), char_of (128 + n mod 64)]
      else Some [char_of (240 + n div 262144), char_of (128 + n div 4096 mod 64),
                 char_of (128 + n div 64 mod 64), char_of (128 + n mod 64)])"

definition hex4 :: "char \<Rightarrow> char \<Rightarrow> char \<Rightarrow> char \<Rightarrow> nat option" where
  "hex4 a b c d =
     (case (hex_val a, hex_val b, hex_val c, hex_val d) of
        (Some w, Some x, Some y, Some z) \<Rightarrow> Some (((w * 16 + x) * 16 + y) * 16 + z)
      | _ \<Rightarrow> None)"

definition unesc :: "char \<Rightarrow> char option" where
  "unesc c =
     (if c = CHR 34 then Some (CHR 34) else if c = CHR 92 then Some (CHR 92)
      else if c = CHR ''/'' then Some (CHR ''/'') else if c = CHR ''b'' then Some (CHR 8)
      else if c = CHR ''f'' then Some (CHR 12) else if c = CHR ''n'' then Some (CHR 10)
      else if c = CHR ''r'' then Some (CHR 13) else if c = CHR ''t'' then Some (CHR 9)
      else None)"

text \<open>The second half of a surrogate pair, and the four digits after \<open>\\u\<close>.\<close>

definition low_surrogate :: "nat \<Rightarrow> string \<Rightarrow> (string \<times> string) option" where
  "low_surrogate n s =
     (case s of
        b # u # g1 # g2 # g3 # g4 # r \<Rightarrow>
          (case hex4 g1 g2 g3 g4 of
             None \<Rightarrow> None
           | Some m \<Rightarrow>
               if b = CHR 92 \<and> u = CHR ''u'' \<and> 56320 \<le> m \<and> m < 57344
               then map_option (\<lambda>bs. (bs, r)) (utf8 (65536 + (n - 55296) * 1024 + (m - 56320)))
               else None)
      | _ \<Rightarrow> None)"

definition esc_u :: "string \<Rightarrow> (string \<times> string) option" where
  "esc_u s =
     (case s of
        h1 # h2 # h3 # h4 # r \<Rightarrow>
          (case hex4 h1 h2 h3 h4 of
             None \<Rightarrow> None
           | Some n \<Rightarrow> if 55296 \<le> n \<and> n < 56320 then low_surrogate n r
                       else map_option (\<lambda>bs. (bs, r)) (utf8 n))
      | _ \<Rightarrow> None)"

text \<open>One item of a string literal: a byte, or an escape and the bytes it stands for.\<close>

definition str_item :: "char \<Rightarrow> string \<Rightarrow> (string \<times> string) option" where
  "str_item c s =
     (if c = CHR 92 then
        (case s of
           [] \<Rightarrow> None
         | e # r \<Rightarrow> if e = CHR ''u'' then esc_u r else map_option (\<lambda>x. ([x], r)) (unesc e))
      else if (of_char c :: nat) < 32 then None
      else Some ([c], s))"

lemma low_surrogate_length: "low_surrogate n s = Some (bs, r) \<Longrightarrow> length r < length s"
  by (auto simp: low_surrogate_def split: list.splits option.splits if_splits)

lemma esc_u_length: "esc_u s = Some (bs, r) \<Longrightarrow> length r < length s"
  by (fastforce simp: esc_u_def split: list.splits option.splits if_splits
      dest: low_surrogate_length)

lemma str_item_length: "str_item c s = Some (bs, r) \<Longrightarrow> length r \<le> length s"
  by (fastforce simp: str_item_def split: list.splits if_splits dest: esc_u_length)

text \<open>The contents of a string literal up to its closing quote, and what follows it.\<close>

function lex_str :: "string \<Rightarrow> (string \<times> string) option" where
  "lex_str [] = None"
| "lex_str (c # s) =
     (if c = CHR 34 then Some ([], s)
      else (case str_item c s of
              None \<Rightarrow> None
            | Some (bs, r) \<Rightarrow> map_option (\<lambda>(t, r'). (bs @ t, r')) (lex_str r)))"
  by pat_completeness auto
termination
  by (relation "measure length") (auto dest!: str_item_length)

lemma lex_str_length: "lex_str s = Some (t, r) \<Longrightarrow> length r < length s"
proof (induction s arbitrary: t r rule: lex_str.induct)
  case (2 c s)
  show ?case
  proof (cases "c = CHR 34")
    case False
    with "2.prems" obtain bs r1 t1 where it: "str_item c s = Some (bs, r1)"
      and "lex_str r1 = Some (t1, r)"
      by (auto split: option.splits)
    with "2.IH" [OF False it refl] have "length r < length r1" by blast
    with str_item_length [OF it] show ?thesis by simp
  qed (use "2.prems" in simp)
qed simp

lemma hex4_ctrl: "n < 32 \<Longrightarrow> hex4 (CHR ''0'') (CHR ''0'') (hex_digit (n div 16)) (hex_digit (n mod 16)) = Some n"
proof -
  assume "n < 32"
  moreover have "hex_val (CHR ''0'') = Some 0" by (simp add: hex_val_def)
  ultimately show ?thesis by (simp add: hex4_def)
qed

lemma str_item_esc:
  assumes "esc_char c = e # s'"
  shows "e \<noteq> CHR 34 \<and> str_item e (s' @ s) = Some ([c], s)"
proof (cases "of_char c < (32 :: nat) \<and> c \<notin> {CHR 10, CHR 13, CHR 9, CHR 12, CHR 8}")
  case True
  then have "hex4 (CHR ''0'') (CHR ''0'') (hex_digit (of_char c div 16)) (hex_digit (of_char c mod 16))
          = Some (of_char c)"
    by (intro hex4_ctrl) simp
  with True assms show ?thesis
    by (auto simp: esc_char_def str_item_def esc_u_def utf8_def split: if_splits)
next
  case False
  with assms show ?thesis
    by (auto simp: esc_char_def str_item_def unesc_def split: if_splits)
qed

lemma lex_str_esc:
  "lex_str (esc_char c @ s) = map_option (\<lambda>(t, r). (c # t, r)) (lex_str s)"
proof -
  have "esc_char c \<noteq> []" by (simp add: esc_char_def)
  then obtain e s' where e: "esc_char c = e # s'" by (cases "esc_char c") auto
  with str_item_esc [OF e, of s] show ?thesis by simp
qed

lemma lex_str_quote: "lex_str (concat (map esc_char t) @ CHR 34 # s) = Some (t, s)"
  by (induction t) (simp_all add: lex_str_esc)

end
