(* ===== verification/JsonCodec.thy ===== *)
theory JsonCodec
  imports JsonText
begin

text \<open>
  The writer \<open>json.dumps\<close> over a layout (separators and indentation), the reader
  \<open>json.loads\<close> (a tokeniser and a parser with fuel), the interface \<open>codec\<close> that the
  ledgers rely on, and its instances for the layouts of the program:
  \<open>indented\<close> (\<open>indent=2\<close>, the ledger and checkpoint files), \<open>canonical\<close> (sorted keys,
  no blanks, the hashed form) and \<open>json_line\<close> (sorted keys, default separators, the
  lines of the evidence ledger).
\<close>

section \<open>The writer\<close>

record fmt =
  item_sep :: string
  key_sep :: string
  indent_width :: "nat option"

definition newline_indent :: "fmt \<Rightarrow> nat \<Rightarrow> string" where
  "newline_indent f level =
     (case indent_width f of None \<Rightarrow> [] | Some w \<Rightarrow> CHR 10 # replicate (w * level) (CHR '' ''))"

fun join :: "'a list \<Rightarrow> 'a list list \<Rightarrow> 'a list" where
  "join sep [] = []"
| "join sep [x] = x"
| "join sep (x # y # zs) = x @ sep @ join sep (y # zs)"

fun enc :: "fmt \<Rightarrow> nat \<Rightarrow> json \<Rightarrow> string" where
  "enc f l JNull = ''null''"
| "enc f l (JBool b) = (if b then ''true'' else ''false'')"
| "enc f l (JInt i) = show_int i"
| "enc f l (JStr s) = quote s"
| "enc f l (JArr xs) =
     (if xs = [] then ''[]''
      else CHR ''['' # newline_indent f (Suc l)
           @ join (item_sep f @ newline_indent f (Suc l)) (map (enc f (Suc l)) xs)
           @ newline_indent f l @ '']'')"
| "enc f l (JObj d) =
     (if d = [] then ''{}''
      else CHR ''{'' # newline_indent f (Suc l)
           @ join (item_sep f @ newline_indent f (Suc l))
                  (map (\<lambda>(k, v). quote k @ key_sep f @ enc f (Suc l) v) d)
           @ newline_indent f l @ ''}'')"

text \<open>\<open>sort_keys=True\<close>: the items of every dictionary sorted by key.\<close>

fun sort_keys :: "json \<Rightarrow> json" where
  "sort_keys (JArr xs) = JArr (map sort_keys xs)"
| "sort_keys (JObj d) = JObj (sort_key fst (map (\<lambda>(k, v). (k, sort_keys v)) d))"
| "sort_keys v = v"

definition fmt_indent2 :: fmt where
  "fmt_indent2 = \<lparr>item_sep = '','', key_sep = '': '', indent_width = Some 2\<rparr>"

definition fmt_compact :: fmt where
  "fmt_compact = \<lparr>item_sep = '','', key_sep = '':'', indent_width = None\<rparr>"

definition fmt_default :: fmt where
  "fmt_default = \<lparr>item_sep = '', '', key_sep = '': '', indent_width = None\<rparr>"

definition dumps_indent2 :: "json \<Rightarrow> string" where
  "dumps_indent2 j = enc fmt_indent2 0 j"

definition dumps_canonical :: "json \<Rightarrow> string" where
  "dumps_canonical j = enc fmt_compact 0 (sort_keys j)"

definition dumps_sorted :: "json \<Rightarrow> string" where
  "dumps_sorted j = enc fmt_default 0 (sort_keys j)"

section \<open>The reader\<close>

datatype tok = TLBrace | TRBrace | TLBrack | TRBrack | TColon | TComma
  | TStr string | TInt int | TTrue | TFalse | TNull

definition is_ws :: "char \<Rightarrow> bool" where
  "is_ws c \<longleftrightarrow> c = CHR '' '' \<or> c = CHR 9 \<or> c = CHR 10 \<or> c = CHR 13"

definition punct :: "char \<Rightarrow> tok option" where
  "punct c =
     (if c = CHR ''{'' then Some TLBrace else if c = CHR ''}'' then Some TRBrace
      else if c = CHR ''['' then Some TLBrack else if c = CHR '']'' then Some TRBrack
      else if c = CHR '':'' then Some TColon else if c = CHR '','' then Some TComma
      else None)"

text \<open>An integer literal; a leading zero, a fraction or an exponent is rejected.\<close>

definition lex_num :: "string \<Rightarrow> (int \<times> string) option" where
  "lex_num s =
     (let neg = (s \<noteq> [] \<and> hd s = CHR ''-'');
          body = (if neg then tl s else s);
          ds = takeWhile is_digit body;
          r = dropWhile is_digit body
      in if ds = [] \<or> (hd ds = CHR ''0'' \<and> 1 < length ds)
            \<or> (r \<noteq> [] \<and> (hd r = CHR ''.'' \<or> hd r = CHR ''e'' \<or> hd r = CHR ''E''))
         then None
         else Some ((if neg then - int (read_nat ds) else int (read_nat ds)), r))"

lemma length_dropWhile_lt: "takeWhile P s \<noteq> [] \<Longrightarrow> length (dropWhile P s) < length s"
  by (metis add_diff_cancel_right' diff_less dropWhile_eq_drop length_drop length_greater_0_conv
      takeWhile_eq_Nil_iff)

lemma lex_num_length: "lex_num s = Some (i, r) \<Longrightarrow> length r < length s"
  by (auto simp: lex_num_def Let_def split: if_splits dest: length_dropWhile_lt
      intro: less_le_trans)

function tokenise :: "string \<Rightarrow> tok list option" where
  "tokenise [] = Some []"
| "tokenise (c # s) =
     (if is_ws c then tokenise s
      else case punct c of
        Some t \<Rightarrow> map_option ((#) t) (tokenise s)
      | None \<Rightarrow>
        if c = CHR 34 then
          (case lex_str s of None \<Rightarrow> None | Some (t, r) \<Rightarrow> map_option ((#) (TStr t)) (tokenise r))
        else if is_digit c \<or> c = CHR ''-'' then
          (case lex_num (c # s) of None \<Rightarrow> None | Some (i, r) \<Rightarrow> map_option ((#) (TInt i)) (tokenise r))
        else if c = CHR ''t'' \<and> take 3 s = ''rue'' then map_option ((#) TTrue) (tokenise (drop 3 s))
        else if c = CHR ''f'' \<and> take 4 s = ''alse'' then map_option ((#) TFalse) (tokenise (drop 4 s))
        else if c = CHR ''n'' \<and> take 3 s = ''ull'' then map_option ((#) TNull) (tokenise (drop 3 s))
        else None)"
  by pat_completeness auto
termination
  by (relation "measure length") (auto dest!: lex_str_length lex_num_length)

fun pval :: "nat \<Rightarrow> tok list \<Rightarrow> (json \<times> tok list) option"
and parr :: "nat \<Rightarrow> tok list \<Rightarrow> (json list \<times> tok list) option"
and pobj :: "nat \<Rightarrow> tok list \<Rightarrow> ((string \<times> json) list \<times> tok list) option" where
  "pval 0 ts = None"
| "pval (Suc n) ts =
     (case ts of
        TStr s # r \<Rightarrow> Some (JStr s, r)
      | TInt i # r \<Rightarrow> Some (JInt i, r)
      | TTrue # r \<Rightarrow> Some (JBool True, r)
      | TFalse # r \<Rightarrow> Some (JBool False, r)
      | TNull # r \<Rightarrow> Some (JNull, r)
      | TLBrack # r \<Rightarrow>
          (case r of TRBrack # r' \<Rightarrow> Some (JArr [], r')
           | _ \<Rightarrow> map_option (\<lambda>(xs, r'). (JArr xs, r')) (parr n r))
      | TLBrace # r \<Rightarrow>
          (case r of TRBrace # r' \<Rightarrow> Some (JObj [], r')
           | _ \<Rightarrow> map_option (\<lambda>(d, r'). (JObj (dmerge [] d), r')) (pobj n r))
      | _ \<Rightarrow> None)"
| "parr 0 ts = None"
| "parr (Suc n) ts =
     (case pval n ts of
        Some (x, TComma # r) \<Rightarrow> map_option (\<lambda>(xs, r'). (x # xs, r')) (parr n r)
      | Some (x, TRBrack # r) \<Rightarrow> Some ([x], r)
      | _ \<Rightarrow> None)"
| "pobj 0 ts = None"
| "pobj (Suc n) ts =
     (case ts of
        TStr k # TColon # r \<Rightarrow>
          (case pval n r of
             Some (v, TComma # r') \<Rightarrow> map_option (\<lambda>(d, r''). ((k, v) # d, r'')) (pobj n r')
           | Some (v, TRBrace # r') \<Rightarrow> Some ([(k, v)], r')
           | _ \<Rightarrow> None)
      | _ \<Rightarrow> None)"

definition parse :: "tok list \<Rightarrow> json option" where
  "parse ts = (case pval (2 * length ts) ts of Some (j, []) \<Rightarrow> Some j | _ \<Rightarrow> None)"

definition loads :: "string \<Rightarrow> json option" where
  "loads s = Option.bind (tokenise s) parse"

end
