(* ===== verification/JsonRoundtrip.thy ===== *)
theory JsonRoundtrip
  imports JsonCodec "HOL-Library.Multiset"
begin

text \<open>
  Reading back what was written: the tokens of a value do not depend on the layout
  (\<open>lex_enc\<close>), the parser rebuilds the value from its tokens (\<open>pval_toks\<close>), so
  \<open>loads\<close> inverts every layout whose separators are a comma and a colon with blanks
  (\<open>loads_enc\<close>).  The interface \<open>codec\<close> states this law once, with its consequences,
  and is interpreted for the layouts the program writes.
\<close>

section \<open>Tokens\<close>

fun toks :: "json \<Rightarrow> tok list" where
  "toks JNull = [TNull]"
| "toks (JBool b) = [if b then TTrue else TFalse]"
| "toks (JInt i) = [TInt i]"
| "toks (JStr s) = [TStr s]"
| "toks (JArr xs) = TLBrack # join [TComma] (map toks xs) @ [TRBrack]"
| "toks (JObj d) =
     TLBrace # join [TComma] (map (\<lambda>(k, v). TStr k # TColon # toks v) d) @ [TRBrace]"

lemma join_Cons: "join sep (x # ys) = (if ys = [] then x else x @ sep @ join sep ys)"
  by (cases ys) auto

lemma toks_nonempty [simp]: "toks j \<noteq> []"
  by (cases j) auto

lemma toks_hd_cases: "\<exists>t r. toks j = t # r \<and> t \<noteq> TRBrack \<and> t \<noteq> TRBrace"
  by (cases j) auto

lemma dset_new: "k \<notin> set (dkeys d) \<Longrightarrow> dset k v d = d @ [(k, v)]"
  by (induction d) auto

lemma dmerge_snoc: "distinct (dkeys (d @ e)) \<Longrightarrow> dmerge d e = d @ e"
proof (induction d e rule: dmerge.induct)
  case (2 d k v e)
  then have "dset k v d = d @ [(k, v)]"
    by (intro dset_new) auto
  with 2 show ?case by simp
qed simp

lemma dmerge_Nil: "distinct (dkeys d) \<Longrightarrow> dmerge [] d = d"
  by (simp add: dmerge_snoc)

section \<open>The parser inverts the token list\<close>

lemma parr_toks:
  assumes "xs \<noteq> []"
    and "\<And>x n r. x \<in> set xs \<Longrightarrow> 2 * length (toks x) \<le> n \<Longrightarrow> pval n (toks x @ r) = Some (x, r)"
    and "2 * length (join [TComma] (map toks xs)) < n"
  shows "parr n (join [TComma] (map toks xs) @ TRBrack # r) = Some (xs, r)"
  using assms
proof (induction xs arbitrary: n)
  case (Cons x xs)
  from Cons.prems(3) obtain m where n: "n = Suc m" by (cases n) auto
  have len: "0 < length (toks x)" by simp
  show ?case
  proof (cases xs)
    case Nil
    with Cons.prems n show ?thesis by simp
  next
    case (Cons y ys)
    have "pval m (toks x @ TComma # join [TComma] (map toks xs) @ TRBrack # r)
            = Some (x, TComma # join [TComma] (map toks xs) @ TRBrack # r)"
      using Cons.prems(2,3) n by (simp add: join_Cons split: if_splits)
    moreover have "parr m (join [TComma] (map toks xs) @ TRBrack # r) = Some (xs, r)"
      using Cons.prems n Cons len by (intro Cons.IH) (auto simp: join_Cons)
    ultimately show ?thesis using n Cons by simp
  qed
qed simp

lemma pobj_toks:
  assumes "d \<noteq> []"
    and "\<And>k v n r. (k, v) \<in> set d \<Longrightarrow> 2 * length (toks v) \<le> n \<Longrightarrow> pval n (toks v @ r) = Some (v, r)"
    and "2 * length (join [TComma] (map (\<lambda>(k, v). TStr k # TColon # toks v) d)) < n"
  shows "pobj n (join [TComma] (map (\<lambda>(k, v). TStr k # TColon # toks v) d) @ TRBrace # r)
           = Some (d, r)"
  using assms
proof (induction d arbitrary: n)
  case (Cons p d)
  obtain k v where p: "p = (k, v)" by (cases p)
  from Cons.prems(3) obtain m where n: "n = Suc m" by (cases n) auto
  let ?js = "join [TComma] (map (\<lambda>(k, v). TStr k # TColon # toks v) d)"
  show ?case
  proof (cases d)
    case Nil
    with Cons.prems n p show ?thesis by simp
  next
    case (Cons q ds)
    have "pval m (toks v @ TComma # ?js @ TRBrace # r) = Some (v, TComma # ?js @ TRBrace # r)"
      using Cons.prems(2) [of k v m "TComma # ?js @ TRBrace # r"] Cons.prems(3) n p Cons
      by (simp add: join_Cons)
    moreover have "pobj m (?js @ TRBrace # r) = Some (d, r)"
      using Cons.prems n p Cons by (intro Cons.IH) (auto simp: join_Cons)
    ultimately show ?thesis using n p Cons by (cases q) simp
  qed
qed simp

lemma pval_toks: "jwf j \<Longrightarrow> 2 * length (toks j) \<le> n \<Longrightarrow> pval n (toks j @ r) = Some (j, r)"
proof (induction j arbitrary: n r)
  case (JArr xs)
  then obtain m where n: "n = Suc m" by (cases n) auto
  show ?case
  proof (cases "xs = []")
    case False
    then obtain x ys where "xs = x # ys" by (cases xs) auto
    moreover obtain t q0 where "toks x = t # q0" and t: "t \<noteq> TRBrack"
      using toks_hd_cases [of x] by auto
    ultimately obtain q where "join [TComma] (map toks xs) = t # q"
      by (cases ys) (auto simp: join_Cons)
    moreover have "parr m (join [TComma] (map toks xs) @ TRBrack # r) = Some (xs, r)"
      using JArr n False by (intro parr_toks) auto
    ultimately show ?thesis using n t by (auto split: tok.splits)
  qed (use n in simp)
next
  case (JObj d)
  then obtain m where n: "n = Suc m" by (cases n) auto
  show ?case
  proof (cases "d = []")
    case False
    let ?js = "join [TComma] (map (\<lambda>(k, v). TStr k # TColon # toks v) d)"
    obtain k v ds where "d = (k, v) # ds" using False by (cases d) auto
    then obtain q where hd: "?js = TStr k # q" by (cases ds) (auto simp: join_Cons)
    have "pobj m (?js @ TRBrace # r) = Some (d, r)"
    proof (rule pobj_toks)
      fix k v n r
      assume kv: "(k, v) \<in> set d" and le: "2 * length (toks v) \<le> n"
      with JObj.prems(1) have "jwf v" by auto
      with JObj.IH [OF kv, of v] le show "pval n (toks v @ r) = Some (v, r)" by simp
    qed (use JObj.prems n False in auto)
    with hd JObj.prems(1) n show ?thesis by (simp add: dmerge_Nil)
  qed (use n in simp)
next
  case JNull
  then show ?case by (cases n) auto
next
  case (JBool b)
  then show ?case by (cases n) auto
next
  case (JInt i)
  then show ?case by (cases n) auto
next
  case (JStr s)
  then show ?case by (cases n) auto
qed

lemma parse_toks: "jwf j \<Longrightarrow> parse (toks j) = Some j"
  using pval_toks [of j "2 * length (toks j)" "[]"] by (simp add: parse_def)

section \<open>The tokeniser on written text\<close>

definition blanks :: "string \<Rightarrow> bool" where
  "blanks s \<longleftrightarrow> list_all is_ws s"

definition delim :: "string \<Rightarrow> bool" where
  "delim s \<longleftrightarrow>
     s = [] \<or> (\<not> is_digit (hd s) \<and> hd s \<noteq> CHR ''.'' \<and> hd s \<noteq> CHR ''e'' \<and> hd s \<noteq> CHR ''E'')"

definition fmt_ok :: "fmt \<Rightarrow> bool" where
  "fmt_ok f \<longleftrightarrow>
     (\<exists>b. item_sep f = CHR '','' # b \<and> blanks b) \<and> (\<exists>b. key_sep f = CHR '':'' # b \<and> blanks b)"

lemma lex_blanks [simp]: "blanks b \<Longrightarrow> tokenise (b @ s) = tokenise s"
  by (induction b) (auto simp: blanks_def)

lemma blanks_newline_indent [simp]: "blanks (newline_indent f l)"
  by (auto simp: newline_indent_def blanks_def is_ws_def list_all_iff split: option.splits)

lemma blanks_append [simp]: "blanks (a @ b) \<longleftrightarrow> blanks a \<and> blanks b"
  by (simp add: blanks_def)

lemma delim_ws: "is_ws c \<Longrightarrow> delim (c # s)"
  by (auto simp: delim_def is_ws_def is_digit_def)

lemma delim_blanks: "blanks b \<Longrightarrow> delim s \<Longrightarrow> delim (b @ s)"
  by (cases b) (auto simp: blanks_def delim_ws)

lemma delim_punct: "punct c \<noteq> None \<Longrightarrow> delim (c # s)"
  by (auto simp: punct_def delim_def is_digit_def split: if_splits)

lemma delim_closers [simp]:
  "delim (CHR '','' # s)" "delim (CHR '':'' # s)" "delim (CHR '']'' # s)" "delim (CHR ''}'' # s)"
  "delim []"
  by (simp_all add: delim_def is_digit_def)

lemma takeWhile_digits:
  "list_all is_digit ds \<Longrightarrow> delim s \<Longrightarrow>
   takeWhile is_digit (ds @ s) = ds \<and> dropWhile is_digit (ds @ s) = s"
proof (induction ds)
  case Nil
  then show ?case by (cases s) (auto simp: delim_def)
qed simp

lemma punct_None: "punct c = None \<longleftrightarrow> c \<notin> {CHR ''{'', CHR ''}'', CHR ''['', CHR '']'', CHR '':'', CHR '',''}"
  by (simp add: punct_def)

lemma lex_num_show:
  assumes "delim s"
  shows "lex_num (show_int i @ s) = Some (i, s)"
proof -
  have key: "takeWhile is_digit (show_nat n @ s) = show_nat n"
    "dropWhile is_digit (show_nat n @ s) = s" for n
    using takeWhile_digits [OF show_nat_digits assms] by auto
  have lead: "\<not> (hd (show_nat n) = CHR ''0'' \<and> Suc 0 < length (show_nat n))" for n
    using show_nat_head [of n] by (cases "n = 0") (auto simp: show_nat.simps [of 0])
  have hd: "hd (show_nat n @ s) \<noteq> CHR ''-''" for n
  proof -
    obtain c cs where "show_nat n = c # cs" by (cases "show_nat n") auto
    moreover from this show_nat_digits [of n] have "is_digit c" by simp
    ultimately show ?thesis by (auto simp: is_digit_def)
  qed
  have d: "\<not> (s \<noteq> [] \<and> (hd s = CHR ''.'' \<or> hd s = CHR ''e'' \<or> hd s = CHR ''E''))"
    using assms by (auto simp: delim_def)
  show ?thesis
  proof (cases "i < 0")
    case True
    then show ?thesis
      using lead [of "nat (- i)"] d
      by (simp add: lex_num_def show_int_def key Let_def del: dropWhile_eq_Nil_conv takeWhile_eq_Nil_iff)
  next
    case False
    then show ?thesis
      using lead [of "nat i"] hd [of "nat i"] d
      by (simp add: lex_num_def show_int_def key Let_def del: dropWhile_eq_Nil_conv takeWhile_eq_Nil_iff)
  qed
qed

lemma show_int_head: "\<exists>c cs. show_int i = c # cs \<and> (is_digit c \<or> c = CHR ''-'')"
proof -
  obtain c cs where "show_nat (nat i) = c # cs" by (cases "show_nat (nat i)") auto
  moreover from this show_nat_digits [of "nat i"] have "is_digit c" by simp
  ultimately show ?thesis by (auto simp: show_int_def)
qed

lemma digit_not_other: "is_digit c \<or> c = CHR ''-'' \<Longrightarrow> \<not> is_ws c \<and> punct c = None \<and> c \<noteq> CHR 34"
  unfolding punct_None is_ws_def by (auto simp: is_digit_def)

lemma lex_show_int: "delim s \<Longrightarrow> tokenise (show_int i @ s) = map_option ((#) (TInt i)) (tokenise s)"
proof -
  assume "delim s"
  then have num: "lex_num (show_int i @ s) = Some (i, s)" by (rule lex_num_show)
  obtain c cs where c: "show_int i = c # cs" "is_digit c \<or> c = CHR ''-''"
    using show_int_head [of i] by auto
  with num digit_not_other [OF c(2)] show ?thesis by simp
qed

lemma quote_append: "quote t @ s = CHR 34 # concat (map esc_char t) @ CHR 34 # s"
  by (simp add: quote_def)

lemma lex_quote: "tokenise (quote t @ s) = map_option ((#) (TStr t)) (tokenise s)"
  by (simp add: quote_append lex_str_quote is_ws_def punct_def)

lemma lex_punct: "punct c = Some t \<Longrightarrow> tokenise (c # s) = map_option ((#) t) (tokenise s)"
  by (auto simp: punct_def is_ws_def split: if_splits)

lemma tokenise_punct [simp]:
  "tokenise (CHR '','' # s) = map_option ((#) TComma) (tokenise s)"
  "tokenise (CHR '':'' # s) = map_option ((#) TColon) (tokenise s)"
  "tokenise (CHR ''['' # s) = map_option ((#) TLBrack) (tokenise s)"
  "tokenise (CHR '']'' # s) = map_option ((#) TRBrack) (tokenise s)"
  "tokenise (CHR ''{'' # s) = map_option ((#) TLBrace) (tokenise s)"
  "tokenise (CHR ''}'' # s) = map_option ((#) TRBrace) (tokenise s)"
  by (rule lex_punct, simp add: punct_def)+

declare tokenise.simps(2) [simp del]

lemma map_option_append: "map_option ((@) a) (map_option ((@) b) x) = map_option ((@) (a @ b)) x"
  by (cases x) auto

lemma lex_join:
  assumes "\<And>x s. x \<in> set xs \<Longrightarrow> delim s \<Longrightarrow> tokenise (e x @ s) = map_option ((@) (t x)) (tokenise s)"
    and "blanks b" and "delim s"
  shows "tokenise (join (CHR '','' # b) (map e xs) @ s)
           = map_option ((@) (join [TComma] (map t xs))) (tokenise s)"
  using assms(1)
proof (induction xs)
  case Nil
  then show ?case by (simp add: option.map_ident)
next
  case (Cons x xs)
  show ?case
  proof (cases "xs = []")
    case False
    have "tokenise (CHR '','' # b @ join (CHR '','' # b) (map e xs) @ s)
            = map_option ((@) (TComma # join [TComma] (map t xs))) (tokenise s)"
      using Cons assms(2) by (cases "tokenise s") auto
    with False Cons.prems [of x "CHR '','' # b @ join (CHR '','' # b) (map e xs) @ s"]
    show ?thesis by (cases "tokenise s") (simp_all add: join_Cons map_option_append)
  qed (use Cons assms(3) in simp)
qed

lemma lex_literals [simp]:
  "tokenise (CHR ''n'' # CHR ''u'' # CHR ''l'' # CHR ''l'' # s) = map_option ((#) TNull) (tokenise s)"
  "tokenise (CHR ''t'' # CHR ''r'' # CHR ''u'' # CHR ''e'' # s) = map_option ((#) TTrue) (tokenise s)"
  "tokenise (CHR ''f'' # CHR ''a'' # CHR ''l'' # CHR ''s'' # CHR ''e'' # s)
     = map_option ((#) TFalse) (tokenise s)"
  by (simp_all add: tokenise.simps(2) is_ws_def punct_def is_digit_def)

lemma lex_enc:
  assumes "fmt_ok f"
  shows "delim s \<Longrightarrow> tokenise (enc f l j @ s) = map_option ((@) (toks j)) (tokenise s)"
proof (induction j arbitrary: l s)
  case (JArr xs)
  from assms obtain b where b: "item_sep f = CHR '','' # b" "blanks b" by (auto simp: fmt_ok_def)
  show ?case
  proof (cases "xs = []")
    case False
    let ?r = "newline_indent f l @ CHR '']'' # s"
    have "tokenise (join (CHR '','' # b @ newline_indent f (Suc l)) (map (enc f (Suc l)) xs) @ ?r)
            = map_option ((@) (join [TComma] (map toks xs))) (tokenise ?r)"
      using JArr.IH b(2) by (intro lex_join) (auto intro: delim_blanks)
    with False b(1) show ?thesis by (cases "tokenise s") auto
  qed (cases "tokenise s"; simp)
next
  case (JObj d)
  from assms obtain b c where b: "item_sep f = CHR '','' # b" "blanks b"
    and c: "key_sep f = CHR '':'' # c" "blanks c" by (auto simp: fmt_ok_def)
  show ?case
  proof (cases "d = []")
    case False
    let ?r = "newline_indent f l @ CHR ''}'' # s"
    let ?e = "\<lambda>(k, v). quote k @ key_sep f @ enc f (Suc l) v"
    let ?t = "\<lambda>(k, v). TStr k # TColon # toks v"
    have item: "tokenise (?e p @ s') = map_option ((@) (?t p)) (tokenise s')"
      if "p \<in> set d" "delim s'" for p s'
    proof -
      obtain k v where p: "p = (k, v)" by (cases p)
      with JObj.IH [of p v s' "Suc l"] that have
        "tokenise (enc f (Suc l) v @ s') = map_option ((@) (toks v)) (tokenise s')" by auto
      with p c show ?thesis
        by (cases "tokenise s'") (auto simp: lex_quote)
    qed
    have "tokenise (join (CHR '','' # b @ newline_indent f (Suc l)) (map ?e d) @ ?r)
            = map_option ((@) (join [TComma] (map ?t d))) (tokenise ?r)"
      using item b(2) by (intro lex_join) (auto intro: delim_blanks)
    with False b(1) show ?thesis by (cases "tokenise s") auto
  qed (cases "tokenise s"; simp)
next
  case (JInt i)
  then show ?case by (cases "tokenise s") (auto simp: lex_show_int)
next
  case (JStr t)
  then show ?case by (cases "tokenise s") (auto simp: lex_quote)
next
  case JNull
  show ?case by (cases "tokenise s") simp_all
next
  case (JBool b)
  show ?case by (cases b; cases "tokenise s") simp_all
qed

section \<open>The round trip and the codec interface\<close>

lemma tokenise_trailing [simp]: "blanks b \<Longrightarrow> tokenise b = Some []"
  using lex_blanks [of b "[]"] by simp

lemma loads_enc:
  assumes "fmt_ok f" and "jwf j" and "blanks b"
  shows "loads (enc f l j @ b) = Some j"
proof -
  have "delim b" using assms(3) delim_blanks [of b "[]"] by simp
  then have "tokenise (enc f l j @ b) = Some (toks j)"
    using lex_enc [OF assms(1), of b l j] assms(3) by simp
  then show ?thesis by (simp add: loads_def parse_toks assms(2))
qed

lemma fmt_ok_instances [simp]: "fmt_ok fmt_indent2" "fmt_ok fmt_compact" "fmt_ok fmt_default"
  by (auto simp: fmt_ok_def fmt_indent2_def fmt_compact_def fmt_default_def blanks_def is_ws_def)

lemma jwf_sort_keys [simp]: "jwf j \<Longrightarrow> jwf (sort_keys j)"
proof (induction j)
  case (JObj d)
  have "distinct (map fst (sort_key fst (map (\<lambda>(k, v). (k, sort_keys v)) d)))"
  proof -
    have "mset (map fst (sort_key fst (map (\<lambda>(k, v). (k, sort_keys v)) d))) = mset (map fst d)"
      by (simp add: case_prod_beta o_def image_mset.compositionality)
    with JObj.prems show ?thesis by (metis jwf.simps(2) mset_eq_imp_distinct_iff)
  qed
  with JObj show ?case by fastforce
qed auto

text \<open>What \<open>json.loads\<close> returns is a Python value.\<close>

lemma dict_wf_collected: "dict_wf d \<Longrightarrow> \<forall>p \<in> set e. jwf (snd p) \<Longrightarrow> dict_wf (dmerge d e)"
  by (induction d e rule: dmerge.induct) (simp_all del: jwf.simps)

lemma parsed_jwf:
  "pval n ts = Some (v, r) \<Longrightarrow> jwf v"
  "parr n ts = Some (vs, r) \<Longrightarrow> \<forall>v \<in> set vs. jwf v"
  "pobj n ts = Some (d, r) \<Longrightarrow> \<forall>p \<in> set d. jwf (snd p)"
proof (induction n ts and n ts and n ts arbitrary: v r and vs r and d r rule: pval_parr_pobj.induct)
  case (2 n ts)
  have "dict_wf (dmerge [] d)" if "\<forall>p \<in> set d. jwf (snd p)" for d
    by (rule dict_wf_collected [OF _ that]) simp
  moreover have "dict_wf []" by simp
  ultimately show ?case using 2
    by (auto simp del: jwf.simps(2) split: list.splits tok.splits)
qed (fastforce split: list.splits tok.splits option.splits prod.splits)+

lemma loads_jwf: "loads t = Some v \<Longrightarrow> jwf v"
  by (auto simp: loads_def parse_def dest: parsed_jwf(1) split: bind_splits option.splits prod.splits list.splits)

locale codec =
  fixes emit :: "json \<Rightarrow> string"
    and receive :: "string \<Rightarrow> json option"
    and stored :: "json \<Rightarrow> json"
  assumes receive_emit: "jwf j \<Longrightarrow> receive (emit j) = Some (stored j)"
begin

lemma emit_inj: "jwf a \<Longrightarrow> jwf b \<Longrightarrow> emit a = emit b \<Longrightarrow> stored a = stored b"
  by (metis option.inject receive_emit)

lemma emit_readable: "jwf j \<Longrightarrow> receive (emit j) \<noteq> None"
  by (simp add: receive_emit)

end

interpretation indented: codec "\<lambda>j. dumps_indent2 j @ [CHR 10]" loads "\<lambda>j. j"
  by unfold_locales (simp add: dumps_indent2_def loads_enc blanks_def is_ws_def)

interpretation canonical: codec dumps_canonical loads sort_keys
  using loads_enc [of fmt_compact _ "[]" 0]
  by unfold_locales (simp add: dumps_canonical_def blanks_def)

interpretation json_line: codec dumps_sorted loads sort_keys
  using loads_enc [of fmt_default _ "[]" 0]
  by unfold_locales (simp add: dumps_sorted_def blanks_def)

end
