(* ===== verification/PyWorld.thy ===== *)
theory PyWorld
  imports JsonRoundtrip
begin

text \<open>
  The environment the stateful components run in, and operations on it.  The \<open>world\<close>
  holds the files by path, the successive readings of the clock (\<open>_now()\<close>), the digest
  function \<open>hashlib.sha256(...).hexdigest()\<close>, and the state of the continuity lock: the
  thread's nesting depth and whether the lock file is held.

  An operation takes a state and returns an error or a result together with the new
  state, so that what a raising operation has already changed in memory stays visible.
  A file is written by a temporary file and \<open>os.replace\<close>, which is one step of the
  model; failures of the disk are not modelled.
\<close>

section \<open>Errors and operations\<close>

datatype py_error =
    ValueError string
  | ValueErrorOn string json
  | MissingFields string "string list"
  | KeyError string
  | TypeError string
  | RuntimeError string
  | AttributeError string
  | ExternalEffectHold string
  | CapabilityError string string
  | NativeADIError string string
  | IndexError string
  | FileNotFoundError string
  | OverflowError string
  | FieldApplicationError string string
  | JSONDecodeError
  | LedgerParseFailure string string

type_synonym ('s, 'a) op = "'s \<Rightarrow> (py_error + 'a) \<times> 's"

definition ret :: "'a \<Rightarrow> ('s, 'a) op" where
  "ret a = (\<lambda>s. (Inr a, s))"

definition raise :: "py_error \<Rightarrow> ('s, 'a) op" where
  "raise e = (\<lambda>s. (Inl e, s))"

definition m_bind :: "('s, 'a) op \<Rightarrow> ('a \<Rightarrow> ('s, 'b) op) \<Rightarrow> ('s, 'b) op" where
  "m_bind m f = (\<lambda>s. case m s of (Inl e, s') \<Rightarrow> (Inl e, s') | (Inr a, s') \<Rightarrow> f a s')"

definition m_then :: "('s, 'a) op \<Rightarrow> ('s, 'b) op \<Rightarrow> ('s, 'b) op" where
  "m_then m n = m_bind m (\<lambda>_. n)"

definition lift :: "py_error + 'a \<Rightarrow> ('s, 'a) op" where
  "lift r = (\<lambda>s. (r, s))"

definition guard :: "bool \<Rightarrow> py_error \<Rightarrow> ('s, unit) op" where
  "guard b e = (if b then ret () else raise e)"

definition gets :: "('s \<Rightarrow> 'a) \<Rightarrow> ('s, 'a) op" where
  "gets f = (\<lambda>s. (Inr (f s), s))"

definition modify :: "('s \<Rightarrow> 's) \<Rightarrow> ('s, unit) op" where
  "modify f = (\<lambda>s. (Inr (), f s))"

lemma ret_apply [simp]: "ret a s = (Inr a, s)"
  by (simp add: ret_def)

lemma raise_apply [simp]: "raise e s = (Inl e, s)"
  by (simp add: raise_def)

lemma lift_apply [simp]: "lift r s = (r, s)"
  by (simp add: lift_def)

lemma gets_apply [simp]: "gets f s = (Inr (f s), s)"
  by (simp add: gets_def)

lemma modify_apply [simp]: "modify f s = (Inr (), f s)"
  by (simp add: modify_def)

lemma guard_apply [simp]: "guard b e s = (if b then (Inr (), s) else (Inl e, s))"
  by (simp add: guard_def)

lemma m_bind_Inr [simp]: "m s = (Inr a, s') \<Longrightarrow> m_bind m f s = f a s'"
  by (simp add: m_bind_def)

lemma m_bind_Inl [simp]: "m s = (Inl e, s') \<Longrightarrow> m_bind m f s = (Inl e, s')"
  by (simp add: m_bind_def)

lemma m_then_Inr [simp]: "m s = (Inr a, s') \<Longrightarrow> m_then m n s = n s'"
  by (simp add: m_then_def)

lemma m_then_Inl [simp]: "m s = (Inl e, s') \<Longrightarrow> m_then m n s = (Inl e, s')"
  by (simp add: m_then_def)

lemma m_bind_InrD:
  "m_bind m f s = (Inr b, t) \<longleftrightarrow> (\<exists>a s'. m s = (Inr a, s') \<and> f a s' = (Inr b, t))"
  by (auto simp: m_bind_def split: prod.splits sum.splits)

lemma m_then_InrD:
  "m_then m n s = (Inr b, t) \<longleftrightarrow> (\<exists>a s'. m s = (Inr a, s') \<and> n s' = (Inr b, t))"
  by (simp add: m_then_def m_bind_InrD)

lemma m_bind_InlD:
  "m_bind m f s = (Inl e, t) \<longleftrightarrow>
   m s = (Inl e, t) \<or> (\<exists>a s'. m s = (Inr a, s') \<and> f a s' = (Inl e, t))"
  by (auto simp: m_bind_def split: prod.splits sum.splits)

lemma m_then_InlD:
  "m_then m n s = (Inl e, t) \<longleftrightarrow>
   m s = (Inl e, t) \<or> (\<exists>a s'. m s = (Inr a, s') \<and> n s' = (Inl e, t))"
  by (simp add: m_then_def m_bind_InlD)

lemma guard_InrD: "guard b e s = (Inr u, t) \<longleftrightarrow> b \<and> t = s"
  by auto

lemmas op_InrD = m_bind_InrD m_then_InrD

lemma m_then_lift [simp]:
  "m_then (lift r) n s = (case r of Inl e \<Rightarrow> (Inl e, s) | Inr _ \<Rightarrow> n s)"
  by (cases r) simp_all

lemma m_bind_lift [simp]:
  "m_bind (lift r) f s = (case r of Inl e \<Rightarrow> (Inl e, s) | Inr a \<Rightarrow> f a s)"
  by (cases r) simp_all

lemma m_then_guard [simp]: "m_then (guard b e) n s = (if b then n s else (Inl e, s))"
  by simp

text \<open>A predicate on states kept by an operation whatever its outcome.\<close>

definition keeps :: "('s \<Rightarrow> 's \<Rightarrow> bool) \<Rightarrow> ('s, 'a) op \<Rightarrow> bool" where
  "keeps R m \<longleftrightarrow> (\<forall>s. R s (snd (m s)))"

lemma keeps_bind [inv_intros]:
  assumes "keeps R m" "\<And>a. keeps R (f a)" "\<And>s. R s s" "\<And>s t u. R s t \<Longrightarrow> R t u \<Longrightarrow> R s u"
  shows "keeps R (m_bind m f)"
  unfolding keeps_def
proof
  fix s
  obtain r t where m: "m s = (r, t)" by (cases "m s")
  with assms(1) have st: "R s t" by (metis keeps_def snd_conv)
  show "R s (snd (m_bind m f s))"
  proof (cases r)
    case (Inr a)
    have "R t (snd (f a t))" using assms(2) by (simp add: keeps_def)
    with m Inr st show ?thesis by (simp add: assms(4))
  qed (use m st in simp)
qed

section \<open>Dictionary access and sets of JSON values\<close>

text \<open>\<open>d[k]\<close> raises \<open>KeyError\<close>; \<open>x in S\<close> raises \<open>TypeError\<close> for a list or a dict.\<close>

definition item :: "json dict \<Rightarrow> string \<Rightarrow> py_error + json" where
  "item d k = (case dget d k of None \<Rightarrow> Inl (KeyError k) | Some v \<Rightarrow> Inr v)"

definition get_or_none :: "json dict \<Rightarrow> string \<Rightarrow> json" where
  "get_or_none d k = (case dget d k of None \<Rightarrow> JNull | Some v \<Rightarrow> v)"

definition in_strings :: "json \<Rightarrow> string list \<Rightarrow> py_error + bool" where
  "in_strings v names =
     (if hashable v then Inr (\<exists>s \<in> set names. v = JStr s) else Inl (TypeError ''unhashable type''))"

lemma item_Inr: "item d k = Inr v \<longleftrightarrow> dget d k = Some v"
  by (auto simp: item_def split: option.splits)

lemma get_or_none_item: "item d k = Inr v \<Longrightarrow> get_or_none d k = v"
  by (simp add: item_Inr get_or_none_def)

lemma in_strings_True: "in_strings v names = Inr True \<longleftrightarrow> (\<exists>s \<in> set names. v = JStr s)"
  by (auto simp: in_strings_def hashable_def split: if_splits json.splits)

lemma in_strings_JStr [simp]: "in_strings (JStr s) names = Inr (s \<in> set names)"
  by (simp add: in_strings_def hashable_def)

text \<open>Sequencing of pure checks.\<close>

definition e_bind :: "py_error + 'a \<Rightarrow> ('a \<Rightarrow> py_error + 'b) \<Rightarrow> py_error + 'b" where
  "e_bind r f = (case r of Inl e \<Rightarrow> Inl e | Inr a \<Rightarrow> f a)"

definition check :: "bool \<Rightarrow> py_error \<Rightarrow> py_error + unit" where
  "check b e = (if b then Inr () else Inl e)"

lemma e_bind_simps [simp]: "e_bind (Inl e) f = Inl e" "e_bind (Inr a) f = f a"
  by (simp_all add: e_bind_def)

lemma e_bind_cong [fundef_cong]:
  "r = r' \<Longrightarrow> (\<And>a. r' = Inr a \<Longrightarrow> f a = f' a) \<Longrightarrow> e_bind r f = e_bind r' f'"
  by (cases r') simp_all

lemma e_bind_InrD: "e_bind r f = Inr b \<longleftrightarrow> (\<exists>a. r = Inr a \<and> f a = Inr b)"
  by (cases r) auto

lemma check_Inr [simp]: "check b e = Inr u \<longleftrightarrow> b"
  by (simp add: check_def)

text \<open>
  \<open>REQUIRED - set(v)\<close>: the required names that are not keys of \<open>v\<close>, reported sorted.
  \<open>set\<close> of a string is its characters, of a list its elements; other values are not
  iterable.  A list with all the names passes, and then the first \<open>v["..."]\<close> raises.
\<close>

definition required_fields :: "string \<Rightarrow> string list \<Rightarrow> json \<Rightarrow> py_error + json dict" where
  "required_fields msg req v =
     (case v of
        JObj d \<Rightarrow>
          let missing = filter (\<lambda>k. \<not> dhas d k) req
          in if missing = [] then Inr d else Inl (MissingFields msg (sort missing))
      | JStr _ \<Rightarrow> Inl (MissingFields msg (sort req))
      | JArr xs \<Rightarrow>
          if \<exists>x \<in> set xs. \<not> hashable x then Inl (TypeError ''unhashable type'')
          else let missing = filter (\<lambda>k. JStr k \<notin> set xs) req
               in if missing = [] then Inl (TypeError ''list indices must be integers or slices'')
                  else Inl (MissingFields msg (sort missing))
      | _ \<Rightarrow> Inl (TypeError ''object is not iterable''))"

lemma required_fields_Inr:
  "required_fields msg req v = Inr d \<longleftrightarrow> v = JObj d \<and> (\<forall>k \<in> set req. dhas d k)"
  by (auto simp: required_fields_def Let_def filter_empty_conv split: json.splits if_splits)

text \<open>
  \<open>d[k]\<close> for a key that a preceding check guarantees, and the dictionary a validated
  list element is.
\<close>

abbreviation fld :: "json dict \<Rightarrow> string \<Rightarrow> json" where
  "fld d k \<equiv> get_or_none d k"

fun dict_of :: "json \<Rightarrow> json dict" where
  "dict_of (JObj d) = d"
| "dict_of _ = []"

fun str_of :: "json \<Rightarrow> string" where
  "str_of (JStr s) = s"
| "str_of _ = []"

fun arr_of :: "json \<Rightarrow> json list" where
  "arr_of (JArr xs) = xs"
| "arr_of _ = []"

lemma fld_dset [simp]: "fld (dset k v d) k' = (if k' = k then v else fld d k')"
  by (simp add: get_or_none_def)

lemma fld_dpop [simp]: "fld (dpop k d) k' = (if k' = k then JNull else fld d k')"
  by (simp add: get_or_none_def)

lemma fld_Nil [simp]: "fld [] k = JNull"
  by (simp add: get_or_none_def)

lemma fld_Cons [simp]: "fld ((k, v) # d) k' = (if k' = k then v else fld d k')"
  by (simp add: get_or_none_def)

lemma fld_dmerge:
  "distinct (dkeys e) \<Longrightarrow> fld (dmerge d e) k = (if dhas e k then fld e k else fld d k)"
  by (auto simp: get_or_none_def dget_dmerge dhas_def split: option.splits)

lemma dhas_dset [simp]: "dhas (dset k v d) k' \<longleftrightarrow> k' = k \<or> dhas d k'"
  by (simp add: dhas_def)

lemma dhas_dmerge_mono: "dhas d k \<Longrightarrow> dhas (dmerge d e) k"
  by (simp add: dhas_def dget_dmerge_mono)

lemma jwf_fld [simp]: "dict_wf d \<Longrightarrow> jwf (fld d k)"
  by (cases "dget d k") (auto simp: get_or_none_def dict_wf_dget)

section \<open>The world\<close>

record world =
  files :: "string \<Rightarrow> string option"
  clock :: "nat \<Rightarrow> string"
  ticks :: nat
  sha256 :: "string \<Rightarrow> string"
  scope_depth :: nat
  lock_held :: bool

text \<open>An object's state paired with the world it lives in.\<close>

type_synonym ('o, 'a) obj_op = "('o \<times> world, 'a) op"

definition now_op :: "('o, string) obj_op" where
  "now_op = (\<lambda>(ob, w). (Inr (clock w (ticks w)), (ob, w\<lparr>ticks := Suc (ticks w)\<rparr>)))"

definition read_file :: "string \<Rightarrow> ('o, string) obj_op" where
  "read_file p = (\<lambda>(ob, w). case files w p of
     None \<Rightarrow> (Inl (FileNotFoundError p), (ob, w)) | Some t \<Rightarrow> (Inr t, (ob, w)))"

definition replace_file :: "string \<Rightarrow> string \<Rightarrow> ('o, unit) obj_op" where
  "replace_file p t = (\<lambda>(ob, w). (Inr (), (ob, w\<lparr>files := (files w)(p \<mapsto> t)\<rparr>)))"

definition loads_op :: "string \<Rightarrow> ('s, json) op" where
  "loads_op t = lift (case loads t of None \<Rightarrow> Inl JSONDecodeError | Some j \<Rightarrow> Inr j)"

definition obj :: "('o, 'o) obj_op" where
  "obj = gets fst"

definition set_obj :: "'o \<Rightarrow> ('o, unit) obj_op" where
  "set_obj ob = modify (\<lambda>(_, w). (ob, w))"

lemma now_op_apply [simp]:
  "now_op (ob, w) = (Inr (clock w (ticks w)), (ob, w\<lparr>ticks := Suc (ticks w)\<rparr>))"
  by (simp add: now_op_def)

lemma read_file_apply [simp]:
  "read_file p (ob, w) = (case files w p of
     None \<Rightarrow> (Inl (FileNotFoundError p), (ob, w)) | Some t \<Rightarrow> (Inr t, (ob, w)))"
  by (simp add: read_file_def)

lemma replace_file_apply [simp]:
  "replace_file p t (ob, w) = (Inr (), (ob, w\<lparr>files := (files w)(p \<mapsto> t)\<rparr>))"
  by (simp add: replace_file_def)

lemma obj_apply [simp]: "obj (ob, w) = (Inr ob, (ob, w))"
  by (simp add: obj_def)

lemma set_obj_apply [simp]: "set_obj ob' (ob, w) = (Inr (), (ob', w))"
  by (simp add: set_obj_def)

lemma loads_op_apply [simp]:
  "loads_op t s = (case loads t of None \<Rightarrow> (Inl JSONDecodeError, s) | Some j \<Rightarrow> (Inr j, s))"
  by (simp add: loads_op_def split: option.splits)

end
