(* ===== verification/ActionLedger.thy ===== *)
theory ActionLedger
  imports PyWorld
begin

text \<open>
  \<open>core/execution_continuity.py\<close>: the re-entrant continuity lock and the ledger of
  actions, one JSON file that every process reloads under the lock before it changes it.

  Required keys of an action are read with \<open>fld\<close>: every action that reaches these
  reads was checked by \<open>validate_action\<close>, and an update never removes a key.  Action
  timestamps and identifiers are compared as strings, which is what the code writes.
\<close>

section \<open>The continuity scope\<close>

definition continuity_effect_scope :: "('o, 'a) obj_op \<Rightarrow> ('o, 'a) obj_op" where
  "continuity_effect_scope body =
     (\<lambda>(ob, w).
        if scope_depth w \<noteq> 0 then
          (case body (ob, w\<lparr>scope_depth := scope_depth w + 1\<rparr>) of
             (r, (ob', w')) \<Rightarrow> (r, (ob', w'\<lparr>scope_depth := scope_depth w\<rparr>)))
        else
          (case body (ob, w\<lparr>lock_held := True, scope_depth := 1\<rparr>) of
             (r, (ob', w')) \<Rightarrow> (r, (ob', w'\<lparr>scope_depth := 0, lock_held := False\<rparr>))))"

text \<open>The lock is balanced when it is held exactly inside a scope.\<close>

definition lock_ok :: "world \<Rightarrow> bool" where
  "lock_ok w \<longleftrightarrow> (lock_held w \<longleftrightarrow> 0 < scope_depth w)"

definition lock_same :: "'o \<times> world \<Rightarrow> 'o \<times> world \<Rightarrow> bool" where
  "lock_same s t \<longleftrightarrow>
     (lock_ok (snd s) \<longrightarrow>
        scope_depth (snd t) = scope_depth (snd s) \<and> lock_held (snd t) = lock_held (snd s))"

lemma lock_same_refl [simp]: "lock_same s s"
  by (simp add: lock_same_def)

lemma lock_same_trans: "lock_same s t \<Longrightarrow> lock_same t u \<Longrightarrow> lock_same s u"
  by (simp add: lock_same_def lock_ok_def)

section \<open>Constants and keys\<close>

definition ACTION_STATES :: "string list" where
  "ACTION_STATES = [''RUNNING'', ''WAITING'', ''INTERRUPTED'', ''RESUMED'', ''DONE'', ''FAILED'', ''HOLD'']"

definition TERMINAL_ACTION_STATES :: "string list" where
  "TERMINAL_ACTION_STATES = [''DONE'', ''FAILED'']"

definition RESUMABLE_ACTION_STATES :: "string list" where
  "RESUMABLE_ACTION_STATES = [''INTERRUPTED'', ''HOLD'']"

definition REQUIRED_ACTION_FIELDS :: "string list" where
  "REQUIRED_ACTION_FIELDS =
     [''ACTION_ID'', ''TASK_ID'', ''TURN_ID'', ''PROCESS_ID'', ''STATE'', ''TARGET_COORDINATE'',
      ''TOOL'', ''IDEMPOTENCY_KEY'', ''STARTED_AT'', ''LAST_UPDATE'', ''LAST_CONFIRMED_EFFECT'',
      ''LAST_TOOL_EFFECT'', ''RESUME_FROM'', ''ERROR'']"

definition IMMUTABLE_ACTION_FIELDS :: "string list" where
  "IMMUTABLE_ACTION_FIELDS =
     [''ACTION_ID'', ''TASK_ID'', ''TURN_ID'', ''TARGET_COORDINATE'', ''TOOL'',
      ''IDEMPOTENCY_KEY'', ''STARTED_AT'']"

definition build_idempotency_key ::
  "(string \<Rightarrow> string) \<Rightarrow> string \<Rightarrow> string \<Rightarrow> string \<Rightarrow> string \<Rightarrow> string" where
  "build_idempotency_key sha task_id target_coordinate operation intent_hash =
     sha (dumps_canonical (JObj
       [(''task_id'', JStr task_id), (''target_coordinate'', JStr target_coordinate),
        (''operation'', JStr operation), (''intent_hash'', JStr intent_hash)]))"

section \<open>The ledger object\<close>

record action_ledger =
  al_path :: string
  al_data :: "json dict"

definition actions :: "json dict \<Rightarrow> json dict list" where
  "actions d = map dict_of (arr_of (fld d ''ACTIONS''))"

definition set_actions :: "json dict list \<Rightarrow> json dict \<Rightarrow> json dict" where
  "set_actions as d = dset ''ACTIONS'' (JArr (map JObj as)) d"

definition in_state :: "string list \<Rightarrow> json dict \<Rightarrow> bool" where
  "in_state names a \<longleftrightarrow> (\<exists>s \<in> set names. fld a ''STATE'' = JStr s)"

definition validate_action :: "json \<Rightarrow> py_error + unit" where
  "validate_action v =
     e_bind (required_fields ''action missing fields'' REQUIRED_ACTION_FIELDS v) (\<lambda>a.
     e_bind (in_strings (fld a ''STATE'') ACTION_STATES) (\<lambda>ok.
     e_bind (check ok (ValueErrorOn ''invalid action STATE'' (fld a ''STATE''))) (\<lambda>_.
     e_bind (check (truthy (fld a ''IDEMPOTENCY_KEY'')) (ValueError ''IDEMPOTENCY_KEY required'')) (\<lambda>_.
     check (\<not> (in_state TERMINAL_ACTION_STATES a \<and> fld a ''RESUME_FROM'' \<noteq> JNull))
           (ValueError ''terminal action cannot retain RESUME_FROM'')))))"

fun check_actions :: "json list \<Rightarrow> json list \<Rightarrow> py_error + unit" where
  "check_actions seen [] = Inr ()"
| "check_actions seen (a # as) =
     e_bind (validate_action a) (\<lambda>_.
       let i = fld (dict_of a) ''ACTION_ID'' in
       if \<not> hashable i then Inl (TypeError ''unhashable type'')
       else if \<exists>j \<in> set seen. pyeq j i then Inl (ValueErrorOn ''duplicate ACTION_ID'' i)
       else check_actions (i # seen) as)"

text \<open>The part of \<open>_load_or_init\<close> that reads an existing file's text.\<close>

definition parse_action_file :: "string \<Rightarrow> py_error + json dict" where
  "parse_action_file t =
     (case loads t of
        None \<Rightarrow> Inl JSONDecodeError
      | Some (JObj d) \<Rightarrow>
          (case dget d ''ACTIONS'' of
             Some (JArr as) \<Rightarrow> e_bind (check_actions [] as) (\<lambda>_. Inr d)
           | _ \<Rightarrow> Inl (ValueError ''ACTION_LEDGER ACTIONS must be a list''))
      | Some _ \<Rightarrow> Inl (AttributeError ''get''))"

definition load_or_init :: "string \<Rightarrow> ('o, json dict) obj_op" where
  "load_or_init path =
     (\<lambda>(ob, w). case files w path of
        None \<Rightarrow>
          m_bind now_op (\<lambda>now.
          ret [(''LEDGER_VERSION'', JStr ''1.0''), (''UPDATED_AT'', JStr now), (''ACTIONS'', JArr [])]) (ob, w)
      | Some t \<Rightarrow> lift (parse_action_file t) (ob, w))"

definition open_action_ledger :: "string \<Rightarrow> world \<Rightarrow> (py_error + action_ledger) \<times> world" where
  "open_action_ledger path w =
     (case load_or_init path ((), w) of
        (Inl e, (_, w')) \<Rightarrow> (Inl e, w')
      | (Inr d, (_, w')) \<Rightarrow> (Inr \<lparr>al_path = path, al_data = d\<rparr>, w'))"

definition al_save :: "(action_ledger, unit) obj_op" where
  "al_save =
     m_bind now_op (\<lambda>now.
     m_bind obj (\<lambda>l.
       let d = dset ''UPDATED_AT'' (JStr now) (al_data l) in
       m_then (set_obj (l\<lparr>al_data := d\<rparr>))
              (replace_file (al_path l) (dumps_indent2 (JObj d) @ [CHR 10]))))"

definition exclusive_mutation :: "(action_ledger, 'a) obj_op \<Rightarrow> (action_ledger, 'a) obj_op" where
  "exclusive_mutation body =
     continuity_effect_scope
       (m_bind obj (\<lambda>l.
        m_bind (load_or_init (al_path l)) (\<lambda>d.
        m_then (set_obj (l\<lparr>al_data := d\<rparr>)) body)))"

definition action_pos :: "json \<Rightarrow> json dict \<Rightarrow> nat option" where
  "action_pos action_id d = find_pos (\<lambda>a. pyeq (fld a ''ACTION_ID'') action_id) (actions d)"

text \<open>\<open>sort(key=(LAST_UPDATE, ACTION_ID), reverse=True)\<close>, stable among equal keys.\<close>

definition recency :: "json dict \<Rightarrow> string \<times> string" where
  "recency a = (str_of (fld a ''LAST_UPDATE''), str_of (fld a ''ACTION_ID''))"

definition newest_first :: "json dict list \<Rightarrow> json dict list" where
  "newest_first as = rev (sort_key recency (rev as))"

definition same_key :: "json \<Rightarrow> json dict \<Rightarrow> bool" where
  "same_key key a \<longleftrightarrow> pyeq (fld a ''IDEMPOTENCY_KEY'') key"

section \<open>Operations\<close>

definition new_action ::
  "json \<Rightarrow> json \<Rightarrow> json \<Rightarrow> json \<Rightarrow> json \<Rightarrow> json \<Rightarrow> json \<Rightarrow> string \<Rightarrow> json dict" where
  "new_action action_id task_id turn_id process_id target_coordinate tool key now =
     [(''ACTION_ID'', action_id), (''TASK_ID'', task_id), (''TURN_ID'', turn_id),
      (''PROCESS_ID'', process_id), (''STATE'', JStr ''RUNNING''),
      (''TARGET_COORDINATE'', target_coordinate), (''TOOL'', tool), (''IDEMPOTENCY_KEY'', key),
      (''STARTED_AT'', JStr now), (''LAST_UPDATE'', JStr now), (''LAST_CONFIRMED_EFFECT'', JNull),
      (''LAST_TOOL_EFFECT'', JNull), (''RESUME_FROM'', JNull), (''ERROR'', JNull)]"

definition begin_body ::
  "json \<Rightarrow> json \<Rightarrow> json \<Rightarrow> json \<Rightarrow> json \<Rightarrow> json \<Rightarrow> json \<Rightarrow> (action_ledger, json) obj_op" where
  "begin_body action_id task_id turn_id process_id target_coordinate tool key =
       m_bind obj (\<lambda>l.
        let as = actions (al_data l);
            same = filter (same_key key) as;
            completed = newest_first (filter (in_state [''DONE'']) same);
            active = newest_first (filter (\<lambda>a. \<not> in_state TERMINAL_ACTION_STATES a) same)
        in
        m_then (guard (\<not> (\<exists>a \<in> set as. pyeq (fld a ''ACTION_ID'') action_id))
                      (ValueErrorOn ''ACTION_ID already exists'' action_id))
       (m_then (guard (completed = [])
                  (ValueErrorOn ''completed action with same IDEMPOTENCY_KEY''
                     (fld (hd completed) ''ACTION_ID'')))
       (m_then (guard (active = [])
                  (ValueErrorOn ''active action with same IDEMPOTENCY_KEY''
                     (fld (hd active) ''ACTION_ID'')))
       (m_bind now_op (\<lambda>now.
        let action = new_action action_id task_id turn_id process_id target_coordinate tool key now
        in m_then (lift (validate_action (JObj action)))
          (m_then (set_obj (l\<lparr>al_data := set_actions (as @ [action]) (al_data l)\<rparr>))
          (m_then al_save (ret (JObj action)))))))))"

definition begin_action ::
  "json \<Rightarrow> json \<Rightarrow> json \<Rightarrow> json \<Rightarrow> json \<Rightarrow> json \<Rightarrow> json \<Rightarrow> (action_ledger, json) obj_op" where
  "begin_action action_id task_id turn_id process_id target_coordinate tool key =
     exclusive_mutation
       (begin_body action_id task_id turn_id process_id target_coordinate tool key)"

definition changed_immutables :: "json dict \<Rightarrow> json dict \<Rightarrow> string list" where
  "changed_immutables changes a =
     filter (\<lambda>f. dhas changes f \<and> \<not> pyeq (fld changes f) (fld a f)) IMMUTABLE_ACTION_FIELDS"

definition effective :: "json dict \<Rightarrow> json dict \<Rightarrow> json dict" where
  "effective changes a = filter (\<lambda>(k, v). \<not> pyeq (fld a k) v) changes"

definition update_body :: "json \<Rightarrow> json dict \<Rightarrow> (action_ledger, json) obj_op" where
  "update_body action_id changes =
     m_bind obj (\<lambda>l.
     case action_pos action_id (al_data l) of
       None \<Rightarrow> raise (KeyError ''action_id'')
     | Some i \<Rightarrow>
       let as = actions (al_data l); a = as ! i in
       m_then (guard (changed_immutables changes a = [])
                 (ValueErrorOn ''immutable'' (str_list (changed_immutables changes a))))
      (if in_state TERMINAL_ACTION_STATES a then
         m_then (guard (effective changes a = []) (ValueError ''terminal action is immutable''))
                (ret (JObj a))
       else
         m_then (guard (\<not> (fld changes ''STATE'' = JStr ''RESUMED''
                            \<and> \<not> in_state RESUMABLE_ACTION_STATES a))
                   (ValueErrorOn ''action not resumable from state'' (fld a ''STATE'')))
        (m_bind now_op (\<lambda>now.
         let a' = dset ''LAST_UPDATE'' (JStr now) (dmerge a changes) in
         m_then (set_obj (l\<lparr>al_data := set_actions (as[i := a']) (al_data l)\<rparr>))
        (m_then (lift (validate_action (JObj a')))
        (m_then al_save (ret (JObj a'))))))))"

definition update_action :: "json \<Rightarrow> json dict \<Rightarrow> (action_ledger, json) obj_op" where
  "update_action action_id changes =
     m_then (guard (\<not> (dhas changes ''ACTION_ID'' \<and> \<not> pyeq (fld changes ''ACTION_ID'') action_id))
               (ValueError ''ACTION_ID is immutable''))
    (m_bind (if dhas changes ''STATE''
             then lift (in_strings (fld changes ''STATE'') ACTION_STATES) else ret True) (\<lambda>ok.
     m_then (guard ok (ValueErrorOn ''invalid action STATE'' (fld changes ''STATE'')))
            (exclusive_mutation (update_body action_id changes))))"

definition mark_waiting :: "json \<Rightarrow> json \<Rightarrow> (action_ledger, json) obj_op" where
  "mark_waiting action_id last_tool_effect =
     update_action action_id
       [(''STATE'', JStr ''WAITING''), (''LAST_TOOL_EFFECT'', last_tool_effect)]"

definition mark_interrupted :: "json \<Rightarrow> json \<Rightarrow> json \<Rightarrow> json \<Rightarrow> json \<Rightarrow> (action_ledger, json) obj_op" where
  "mark_interrupted action_id error last_confirmed_effect last_tool_effect resume_from =
     update_action action_id
       [(''STATE'', JStr ''INTERRUPTED''), (''ERROR'', error),
        (''LAST_CONFIRMED_EFFECT'', last_confirmed_effect),
        (''LAST_TOOL_EFFECT'', last_tool_effect), (''RESUME_FROM'', resume_from)]"

definition resume_action :: "json \<Rightarrow> json \<Rightarrow> json \<Rightarrow> (action_ledger, json) obj_op" where
  "resume_action action_id new_process_id resume_from =
     m_bind obj (\<lambda>l.
     case action_pos action_id (al_data l) of
       None \<Rightarrow> raise (KeyError ''action_id'')
     | Some i \<Rightarrow>
       let a = actions (al_data l) ! i in
       m_then (guard (in_state RESUMABLE_ACTION_STATES a)
                 (ValueErrorOn ''action not resumable from state'' (fld a ''STATE'')))
              (update_action action_id
                 [(''STATE'', JStr ''RESUMED''), (''PROCESS_ID'', new_process_id),
                  (''RESUME_FROM'', resume_from), (''ERROR'', JNull)]))"

definition complete_action :: "json \<Rightarrow> json \<Rightarrow> (action_ledger, json) obj_op" where
  "complete_action action_id confirmed_effect =
     update_action action_id
       [(''STATE'', JStr ''DONE''), (''LAST_CONFIRMED_EFFECT'', confirmed_effect),
        (''RESUME_FROM'', JNull), (''ERROR'', JNull)]"

definition fail_action :: "json \<Rightarrow> json \<Rightarrow> json \<Rightarrow> (action_ledger, json) obj_op" where
  "fail_action action_id error last_tool_effect =
     update_action action_id
       [(''STATE'', JStr ''FAILED''), (''ERROR'', error),
        (''LAST_TOOL_EFFECT'', last_tool_effect), (''RESUME_FROM'', JNull)]"

definition list_open_actions :: "action_ledger \<Rightarrow> json dict list" where
  "list_open_actions l =
     filter (\<lambda>a. \<not> in_state TERMINAL_ACTION_STATES a) (actions (al_data l))"

definition find_all_by_idempotency_key :: "json \<Rightarrow> (action_ledger, json dict list) obj_op" where
  "find_all_by_idempotency_key key =
     exclusive_mutation
       (m_bind obj (\<lambda>l. ret (newest_first (filter (same_key key) (actions (al_data l))))))"

definition find_by_idempotency_key :: "json \<Rightarrow> (action_ledger, json dict option) obj_op" where
  "find_by_idempotency_key key =
     m_bind (find_all_by_idempotency_key key) (\<lambda>ms.
     let completed = filter (in_state [''DONE'']) ms
     in ret (if completed \<noteq> [] then Some (hd completed) else if ms \<noteq> [] then Some (hd ms) else None))"

definition get_resumable_action :: "action_ledger \<Rightarrow> json dict option" where
  "get_resumable_action l =
     (let candidates = filter (in_state RESUMABLE_ACTION_STATES) (actions (al_data l))
      in if candidates = [] then None else Some (hd (newest_first candidates)))"

definition recovery_decision ::
  "action_ledger \<Rightarrow> json \<Rightarrow> bool \<Rightarrow> bool \<Rightarrow> bool \<Rightarrow> py_error + string \<times> string" where
  "recovery_decision l action_id process_exists stream_available effect_confirmed =
     (case action_pos action_id (al_data l) of
        None \<Rightarrow> Inl (KeyError ''action_id'')
      | Some i \<Rightarrow>
          Inr (if effect_confirmed then (''EFFECT_ALREADY_CONFIRMED'', ''VERIFY_AND_COMPLETE'')
               else if process_exists \<and> stream_available then (''RUNNING'', ''OBSERVE_ONLY'')
               else if process_exists \<and> \<not> stream_available
               then (''STREAM_DETACHED'', ''OBSERVE_PROCESS_EFFECT'')
               else (''INTERRUPTED_UNKNOWN_EFFECT'', ''CHECK_ACTUAL_EFFECT_BEFORE_RESUME'')))"

end
