(* ===== verification/EntryTable.thy ===== *)
theory EntryTable
  imports PyWorld
begin

text \<open>
  What the action ledger and the work ledger have in common: a JSON file with a list of
  entries, checked one by one when the file is read, with pairwise different
  identifiers.  The locales state what a ledger's reader does for each entry and for the
  whole text; the ledgers provide their readers.
\<close>

section \<open>Lists of entries\<close>

definition entries :: "string \<Rightarrow> json dict \<Rightarrow> json dict list" where
  "entries f d = map dict_of (arr_of (fld d f))"

definition set_entries :: "string \<Rightarrow> json dict list \<Rightarrow> json dict \<Rightarrow> json dict" where
  "set_entries f es d = dset f (JArr (map JObj es)) d"

definition distinct_by :: "string \<Rightarrow> json dict list \<Rightarrow> bool" where
  "distinct_by key es \<longleftrightarrow> sorted_wrt (\<lambda>a b. \<not> pyeq (fld a key) (fld b key)) es"

text \<open>The text \<open>json.dump(data, indent=2)\<close> with a newline that both ledgers store.\<close>

definition render :: "json dict \<Rightarrow> string" where
  "render d = dumps_indent2 (JObj d) @ [CHR 10]"

lemma loads_render: "dict_wf d \<Longrightarrow> loads (render d) = Some (JObj d)"
  unfolding render_def by (rule indented.receive_emit)

lemma render_inject: "dict_wf d \<Longrightarrow> dict_wf d' \<Longrightarrow> render d = render d' \<Longrightarrow> d = d'"
  by (metis loads_render json.inject(5) option.inject)

lemma entries_set [simp]: "entries f (set_entries f es d) = es"
  by (simp add: entries_def set_entries_def o_def)

lemma entries_dset_other [simp]: "k \<noteq> f \<Longrightarrow> entries f (dset k v d) = entries f d"
  by (simp add: entries_def)

lemma distinct_by_Nil [simp]: "distinct_by key []"
  by (simp add: distinct_by_def)

lemma distinct_by_snoc:
  "distinct_by key es \<Longrightarrow> \<forall>b \<in> set es. \<not> pyeq (fld b key) (fld a key) \<Longrightarrow>
   distinct_by key (es @ [a])"
  by (simp add: distinct_by_def sorted_wrt_append)

lemma distinct_by_replace:
  assumes "distinct_by key es" and "i < length es" and "pyeq (fld a key) (fld (es ! i) key)"
  shows "distinct_by key (es[i := a])"
  unfolding distinct_by_def
proof (rule sorted_wrt_update)
  show "sorted_wrt (\<lambda>a b. \<not> pyeq (fld a key) (fld b key)) es"
    using assms(1) by (simp add: distinct_by_def)
qed (use assms in \<open>auto simp: distinct_by_def sorted_wrt_iff_nth_less pyeq_def\<close>)

lemma distinct_byD:
  assumes "distinct_by key es" and "i < length es" and "j < length es"
    and "pyeq (fld (es ! i) key) (fld (es ! j) key)"
  shows "i = j"
proof -
  have H: "\<not> pyeq (fld (es ! a) key) (fld (es ! b) key)" if "a < b" "b < length es" for a b
    using assms(1) that by (simp add: distinct_by_def sorted_wrt_iff_nth_less)
  from H [of i j] H [of j i] assms(2-4) pyeq_sym [OF assms(4)] show ?thesis
    by (cases i j rule: linorder_cases) auto
qed

lemma set_update_all: "\<forall>x \<in> set xs. P x \<Longrightarrow> P y \<Longrightarrow> \<forall>x \<in> set (xs[i := y]). P x"
  by (auto dest: set_update_subset_insert [THEN subsetD])

section \<open>Readers\<close>

text \<open>A reader's loop over the entries: each is valid and has a new, hashable identifier.\<close>

locale entry_table =
  fixes key :: string
    and validate :: "json \<Rightarrow> py_error + unit"
    and check_all :: "json list \<Rightarrow> json list \<Rightarrow> py_error + unit"
  assumes check_Nil: "check_all seen [] = Inr ()"
    and check_Cons: "check_all seen (JObj a # es) = Inr () \<longleftrightarrow>
      validate (JObj a) = Inr () \<and> hashable (fld a key) \<and>
      (\<forall>j \<in> set seen. \<not> pyeq j (fld a key)) \<and> check_all (fld a key # seen) es = Inr ()"
begin

lemma check_iff:
  "check_all seen (map JObj es) = Inr () \<longleftrightarrow>
   (\<forall>a \<in> set es. validate (JObj a) = Inr () \<and> hashable (fld a key) \<and>
      (\<forall>j \<in> set seen. \<not> pyeq j (fld a key))) \<and> distinct_by key es"
  by (induction es arbitrary: seen) (auto simp: check_Nil check_Cons distinct_by_def)

end

text \<open>The whole file: the entries under one field of the top-level object.\<close>

locale entry_file = entry_table +
  fixes field :: string
    and parse :: "string \<Rightarrow> py_error + json dict"
  assumes parse_object: "loads t = Some (JObj d) \<Longrightarrow> dget d field = Some (JArr es) \<Longrightarrow>
      parse t = e_bind (check_all [] es) (\<lambda>_. Inr d)"
begin

lemma parse_rendered:
  assumes "dict_wf d" and "dget d field = Some (JArr (map JObj es))"
    and "\<forall>a \<in> set es. validate (JObj a) = Inr () \<and> hashable (fld a key)" and "distinct_by key es"
  shows "parse (render d) = Inr d"
proof -
  have "check_all [] (map JObj es) = Inr ()"
    using assms(3,4) by (simp add: check_iff)
  with parse_object [OF loads_render [OF assms(1)] assms(2)] show ?thesis by simp
qed

end

end
