(* ===== verification/ActionInvariant.thy ===== *)
theory ActionInvariant
  imports ActionLedger EntryTable
begin

text \<open>
  What every process may rely on when it reloads the action ledger: the file holds
  well-formed actions with distinct identifiers, and of the actions that share an
  idempotency key at most one has not failed.  Each operation keeps this, so it holds
  after any interleaving of operations by any number of processes.
\<close>

section \<open>Well-formed ledger data\<close>

definition failed :: "json dict \<Rightarrow> bool" where
  "failed a \<longleftrightarrow> fld a ''STATE'' = JStr ''FAILED''"

abbreviation distinct_ids :: "json dict list \<Rightarrow> bool" where
  "distinct_ids as \<equiv> distinct_by ''ACTION_ID'' as"

definition once_only :: "json dict list \<Rightarrow> bool" where
  "once_only as \<longleftrightarrow>
     sorted_wrt (\<lambda>a b. pyeq (fld a ''IDEMPOTENCY_KEY'') (fld b ''IDEMPOTENCY_KEY'') \<longrightarrow>
                       failed a \<or> failed b) as"

definition action_ok :: "json dict \<Rightarrow> bool" where
  "action_ok a \<longleftrightarrow>
     dict_wf a \<and> validate_action (JObj a) = Inr () \<and> hashable (fld a ''ACTION_ID'')"

definition al_ok :: "json dict \<Rightarrow> bool" where
  "al_ok d \<longleftrightarrow>
     dict_wf d \<and> dget d ''ACTIONS'' = Some (JArr (map JObj (actions d))) \<and>
     (\<forall>a \<in> set (actions d). action_ok a) \<and> distinct_ids (actions d) \<and> once_only (actions d)"

definition disk_ok :: "string \<Rightarrow> world \<Rightarrow> bool" where
  "disk_ok p w \<longleftrightarrow> files w p = None \<or> (\<exists>d. al_ok d \<and> files w p = Some (render d))"

lemma actions_set_actions [simp]: "actions (set_actions as d) = as"
  by (simp add: actions_def set_actions_def o_def)

lemma actions_dset_other [simp]: "k \<noteq> ''ACTIONS'' \<Longrightarrow> actions (dset k v d) = actions d"
  by (simp add: actions_def)

lemma al_okI:
  assumes "dict_wf d" and "\<forall>a \<in> set as. action_ok a" and "distinct_ids as" and "once_only as"
  shows "al_ok (dset ''UPDATED_AT'' (JStr t) (set_actions as d))"
proof -
  have "dict_wf (set_actions as d)"
    unfolding set_actions_def
    using assms(1,2) by (intro dict_wf_dset) (auto simp: action_ok_def)
  then have "dict_wf (dset ''UPDATED_AT'' (JStr t) (set_actions as d))"
    by (rule dict_wf_dset) simp
  moreover have "dget (dset ''UPDATED_AT'' (JStr t) (set_actions as d)) ''ACTIONS''
      = Some (JArr (map JObj as))"
    by (simp add: set_actions_def)
  ultimately show ?thesis
    using assms by (simp add: al_ok_def)
qed

interpretation action_file: entry_file "''ACTION_ID''" validate_action check_actions "''ACTIONS''"
    parse_action_file
  by unfold_locales (auto simp: parse_action_file_def e_bind_InrD Let_def)

lemma parse_render: "al_ok d \<Longrightarrow> parse_action_file (render d) = Inr d"
  by (rule action_file.parse_rendered [of d "actions d"])
    (simp_all add: al_ok_def action_ok_def)

lemma al_ok_empty:
  "al_ok [(''LEDGER_VERSION'', JStr v), (''UPDATED_AT'', JStr t), (''ACTIONS'', JArr [])]"
  by (simp add: al_ok_def actions_def distinct_by_def once_only_def)

section \<open>Bodies that keep the ledger well formed and extend its history\<close>

text \<open>
  A later version of the ledger: no entry disappears, a terminal entry is unchanged,
  immutable fields keep their value, and an entry is resumed only from a resumable state.
\<close>

definition al_extends :: "json dict \<Rightarrow> json dict \<Rightarrow> bool" where
  "al_extends d d' \<longleftrightarrow>
     length (actions d) \<le> length (actions d') \<and>
     (\<forall>i < length (actions d).
        (in_state TERMINAL_ACTION_STATES (actions d ! i) \<longrightarrow> actions d' ! i = actions d ! i) \<and>
        (\<forall>k \<in> set IMMUTABLE_ACTION_FIELDS. pyeq (fld (actions d' ! i) k) (fld (actions d ! i) k)) \<and>
        (in_state [''RESUMED''] (actions d' ! i) \<longrightarrow>
           in_state (''RESUMED'' # RESUMABLE_ACTION_STATES) (actions d ! i)))"

text \<open>The data a process loads, and one process's effect on the ledger file.\<close>

definition loaded :: "string \<Rightarrow> world \<Rightarrow> json dict \<Rightarrow> bool" where
  "loaded p w d \<longleftrightarrow> al_ok d \<and> (case files w p of None \<Rightarrow> actions d = [] | Some t \<Rightarrow> t = render d)"

definition disk_step :: "string \<Rightarrow> world \<Rightarrow> world \<Rightarrow> bool" where
  "disk_step p w w' \<longleftrightarrow>
     files w' = files w \<or>
     (\<exists>d d'. loaded p w d \<and> al_ok d' \<and> al_extends d d' \<and> files w' = (files w)(p \<mapsto> render d'))"

lemma disk_step_ok: "disk_ok p w \<Longrightarrow> disk_step p w w' \<Longrightarrow> disk_ok p w'"
  by (auto simp: disk_ok_def disk_step_def)

lemma disk_step_refl [simp]: "disk_step p w w"
  by (simp add: disk_step_def)

lemma load_or_init_ok:
  assumes "disk_ok p w"
  obtains d w1 where "load_or_init p (ob, w) = (Inr d, (ob, w1))" "loaded p w d"
    "files w1 = files w" "scope_depth w1 = scope_depth w" "lock_held w1 = lock_held w"
proof (cases "files w p")
  case None
  then show ?thesis
    by (intro that [of _ "w\<lparr>ticks := Suc (ticks w)\<rparr>"])
      (auto simp: load_or_init_def loaded_def actions_def intro: al_ok_empty)
next
  case (Some t)
  with assms obtain d where "al_ok d" "t = render d" by (auto simp: disk_ok_def)
  with Some show ?thesis
    by (intro that [of d w]) (simp_all add: load_or_init_def parse_render loaded_def)
qed

text \<open>
  A body run on well-formed data leaves the files alone or replaces the ledger's file
  by well-formed data.
\<close>

definition body_ok :: "(action_ledger, 'a) obj_op \<Rightarrow> bool" where
  "body_ok m \<longleftrightarrow>
     (\<forall>l w r l' w'. al_ok (al_data l) \<longrightarrow> m (l, w) = (r, (l', w')) \<longrightarrow>
        files w' = files w \<or> (\<exists>d. al_ok d \<and> al_extends (al_data l) d \<and>
          files w' = (files w)(al_path l \<mapsto> render d)))"

lemma body_okD:
  "body_ok m \<Longrightarrow> al_ok (al_data l) \<Longrightarrow> m (l, w) = (r, (l', w')) \<Longrightarrow>
   files w' = files w \<or> (\<exists>d. al_ok d \<and> al_extends (al_data l) d \<and>
          files w' = (files w)(al_path l \<mapsto> render d))"
  unfolding body_ok_def by blast

lemma scope_files:
  "continuity_effect_scope m (ob, w) = (r, (ob', w')) \<Longrightarrow>
   \<exists>w1 w2. m (ob, w1) = (r, (ob', w2)) \<and> files w1 = files w \<and> clock w1 = clock w \<and>
     ticks w1 = ticks w \<and> sha256 w1 = sha256 w \<and> files w2 = files w' \<and> ticks w2 = ticks w'"
  by (fastforce simp: continuity_effect_scope_def split: if_splits prod.splits)

lemma exclusive_disk_step:
  assumes "body_ok m" and "disk_ok (al_path l) w"
    and "exclusive_mutation m (l, w) = (r, (l', w'))"
  shows "disk_step (al_path l) w w'"
proof -
  obtain w1 w2 where run: "m_bind obj (\<lambda>l. m_bind (load_or_init (al_path l)) (\<lambda>d.
        m_then (set_obj (l\<lparr>al_data := d\<rparr>)) m)) (l, w1) = (r, (l', w2))"
    and f: "files w1 = files w" "files w2 = files w'"
    using scope_files [OF assms(3) [unfolded exclusive_mutation_def]] by blast
  from assms(2) f(1) have "disk_ok (al_path l) w1" by (simp add: disk_ok_def)
  then obtain d w3 where ld: "load_or_init (al_path l) (l, w1) = (Inr d, (l, w3))"
    "loaded (al_path l) w1 d" "files w3 = files w1" by (rule load_or_init_ok)
  with run have "m (l\<lparr>al_data := d\<rparr>, w3) = (r, (l', w2))" by simp
  from body_okD [OF assms(1) _ this] ld(2)
  have "files w2 = files w3 \<or> (\<exists>d'. al_ok d' \<and> al_extends d d' \<and>
          files w2 = (files w3)(al_path l \<mapsto> render d'))"
    by (simp add: loaded_def)
  moreover have "loaded (al_path l) w d" using ld(2) f(1) by (simp add: loaded_def)
  ultimately show ?thesis using f ld(3) by (auto simp: disk_step_def)
qed

section \<open>The two mutating bodies\<close>

lemma al_save_run:
  "al_save (l, w) =
     (Inr (), (l\<lparr>al_data := dset ''UPDATED_AT'' (JStr (clock w (ticks w))) (al_data l)\<rparr>,
       w\<lparr>ticks := Suc (ticks w),
         files := (files w)(al_path l \<mapsto>
           render (dset ''UPDATED_AT'' (JStr (clock w (ticks w))) (al_data l)))\<rparr>))"
  by (simp add: al_save_def render_def Let_def)

lemma guard_bind_cases:
  "m_then (guard b e) n s = (r, t) \<longleftrightarrow> (b \<and> n s = (r, t)) \<or> (\<not> b \<and> r = Inl e \<and> t = s)"
  by (cases b) auto

lemma pyeq_hashable: "pyeq a b \<Longrightarrow> hashable a = hashable b"
  by (cases a; cases b) (auto simp: pyeq_def hashable_def)

lemma validate_action_JObj:
  "validate_action (JObj a) = Inr () \<longleftrightarrow>
     (\<forall>k \<in> set REQUIRED_ACTION_FIELDS. dhas a k) \<and> in_state ACTION_STATES a \<and>
     truthy (fld a ''IDEMPOTENCY_KEY'') \<and>
     (in_state TERMINAL_ACTION_STATES a \<longrightarrow> fld a ''RESUME_FROM'' = JNull)"
  by (auto simp: validate_action_def e_bind_InrD required_fields_Inr in_strings_True in_state_def)

lemma not_terminal_not_failed: "\<not> in_state TERMINAL_ACTION_STATES a \<Longrightarrow> \<not> failed a"
  by (simp add: in_state_def TERMINAL_ACTION_STATES_def failed_def)

lemma once_only_snoc:
  "once_only as \<Longrightarrow> \<forall>b \<in> set as. same_key (fld a ''IDEMPOTENCY_KEY'') b \<longrightarrow> failed b \<Longrightarrow>
   once_only (as @ [a])"
  by (auto simp: once_only_def sorted_wrt_append same_key_def)

lemma once_only_replace:
  assumes "once_only as" and "i < length as" and "\<not> failed (as ! i)"
    and "pyeq (fld a' ''IDEMPOTENCY_KEY'') (fld (as ! i) ''IDEMPOTENCY_KEY'')"
  shows "once_only (as[i := a'])"
  unfolding once_only_def
proof (rule sorted_wrt_update)
  show "sorted_wrt (\<lambda>a b. pyeq (fld a ''IDEMPOTENCY_KEY'') (fld b ''IDEMPOTENCY_KEY'') \<longrightarrow>
                          failed a \<or> failed b) as"
    using assms(1) by (simp add: once_only_def)
qed (use assms in \<open>auto simp: once_only_def sorted_wrt_iff_nth_less pyeq_def\<close>)

lemma changed_immutables_fld:
  "changed_immutables changes a = [] \<Longrightarrow> k \<in> set IMMUTABLE_ACTION_FIELDS \<Longrightarrow> dict_wf changes \<Longrightarrow>
   k \<noteq> ''LAST_UPDATE'' \<Longrightarrow>
   pyeq (fld (dset ''LAST_UPDATE'' v (dmerge a changes)) k) (fld a k)"
  by (auto simp: changed_immutables_def filter_empty_conv fld_dmerge)

lemma newest_first_Nil [simp]: "newest_first as = [] \<longleftrightarrow> as = []"
  by (metis newest_first_def length_0_conv length_rev length_sort)

lemma begin_guard_failed:
  assumes "newest_first (filter (in_state [''DONE'']) (filter (same_key key) as)) = []"
    and "newest_first (filter (\<lambda>a. \<not> in_state TERMINAL_ACTION_STATES a) (filter (same_key key) as)) = []"
    and "b \<in> set as" and "same_key key b"
  shows "failed b"
  using assms
  by (auto simp: filter_empty_conv in_state_def TERMINAL_ACTION_STATES_def failed_def)

lemma save_step:
  assumes "m_then al_save (ret v) (l\<lparr>al_data := set_actions as d\<rparr>, w) = (r, (l', w'))"
    and "dict_wf d" "\<forall>a \<in> set as. action_ok a" "distinct_ids as" "once_only as"
  shows "\<exists>d'. al_ok d' \<and> actions d' = as \<and> files w' = (files w)(al_path l \<mapsto> render d')"
  using assms(1) al_okI [OF assms(2-5), of "clock w (ticks w)"]
  by (auto simp: al_save_run)

lemma al_extends_snoc: "actions d' = actions d @ as \<Longrightarrow> al_extends d d'"
  by (auto simp: al_extends_def nth_append in_state_def)

lemma al_extends_update:
  assumes "actions d' = (actions d)[i := a']" and "i < length (actions d)"
    and "a = actions d ! i" and "a' = dset ''LAST_UPDATE'' (JStr t) (dmerge a changes)"
    and "dict_wf changes" and "changed_immutables changes a = []"
    and "\<not> in_state TERMINAL_ACTION_STATES a"
    and "fld changes ''STATE'' = JStr ''RESUMED'' \<longrightarrow> in_state RESUMABLE_ACTION_STATES a"
  shows "al_extends d d'"
proof -
  have "pyeq (fld a' k) (fld a k)" if "k \<in> set IMMUTABLE_ACTION_FIELDS" for k
    unfolding assms(4) using assms(5,6) that
    by (intro changed_immutables_fld) (auto simp: IMMUTABLE_ACTION_FIELDS_def)
  moreover have "in_state [''RESUMED''] a' \<longrightarrow> in_state (''RESUMED'' # RESUMABLE_ACTION_STATES) a"
    using assms(4,5,8) by (auto simp: in_state_def fld_dmerge)
  ultimately show ?thesis
    using assms(1-3,7) by (auto simp: al_extends_def nth_list_update in_state_def)
qed

lemma new_action_ok:
  assumes "jwf action_id" "jwf task_id" "jwf turn_id" "jwf process_id" "jwf target" "jwf tool"
    "jwf key" "hashable action_id" "truthy key"
  shows "action_ok (new_action action_id task_id turn_id process_id target tool key now)"
  using assms
  by (simp add: action_ok_def validate_action_JObj new_action_def REQUIRED_ACTION_FIELDS_def
      in_state_def ACTION_STATES_def TERMINAL_ACTION_STATES_def dhas_def)

lemma begin_body_ok:
  assumes j: "jwf action_id" "jwf task_id" "jwf turn_id" "jwf process_id" "jwf target" "jwf tool"
    "jwf key" and h: "hashable action_id"
  shows "body_ok (begin_body action_id task_id turn_id process_id target tool key)"
  unfolding body_ok_def
proof (intro allI impI)
  fix l w r l' w'
  assume ok: "al_ok (al_data l)" and eq: "begin_body action_id task_id turn_id process_id target tool key (l, w) = (r, (l', w'))"
  let ?as = "actions (al_data l)"
  let ?a = "new_action action_id task_id turn_id process_id target tool key (clock w (ticks w))"
  let ?w = "w\<lparr>ticks := Suc (ticks w)\<rparr>"
  show "files w' = files w \<or> (\<exists>d. al_ok d \<and> al_extends (al_data l) d \<and>
          files w' = (files w)(al_path l \<mapsto> render d))"
  proof (cases "files w' = files w")
    case False
    with eq have fresh: "\<forall>b \<in> set ?as. \<not> pyeq (fld b ''ACTION_ID'') action_id"
      and fail: "\<forall>b \<in> set ?as. same_key key b \<longrightarrow> failed b"
      and val: "validate_action (JObj ?a) = Inr ()"
      and sv: "m_then al_save (ret (JObj ?a)) (l\<lparr>al_data := set_actions (?as @ [?a]) (al_data l)\<rparr>, ?w)
                 = (r, (l', w'))"
      using begin_guard_failed [of key ?as]
      by (auto simp: begin_body_def guard_bind_cases Let_def split: sum.splits if_splits)
    from val have "truthy key" by (simp add: validate_action_JObj new_action_def)
    with j h have new: "action_ok ?a" by (simp add: new_action_ok)
    from ok fresh fail have "distinct_ids (?as @ [?a])" "once_only (?as @ [?a])"
      by (auto simp: al_ok_def new_action_def intro!: distinct_by_snoc once_only_snoc)
    moreover from ok new have "dict_wf (al_data l)" "\<forall>a \<in> set (?as @ [?a]). action_ok a"
      by (simp_all add: al_ok_def)
    ultimately obtain d' where "al_ok d'" "actions d' = ?as @ [?a]"
      "files w' = (files w)(al_path l \<mapsto> render d')"
      using save_step [OF sv] by auto
    with al_extends_snoc show ?thesis by blast
  qed simp
qed

lemma action_pos_Some:
  "action_pos action_id d = Some i \<Longrightarrow>
   i < length (actions d) \<and> pyeq (fld (actions d ! i) ''ACTION_ID'') action_id"
  unfolding action_pos_def by (drule find_pos_SomeD) simp

text \<open>What a successful update has checked, and the entry it stores.\<close>

lemma update_body_cases:
  assumes "update_body action_id changes (l, w) = (r, (l', w'))"
  obtains (no_write) "files w' = files w"
  | (stored) i a a' where "action_pos action_id (al_data l) = Some i"
      "a = actions (al_data l) ! i" "changed_immutables changes a = []"
      "\<not> in_state TERMINAL_ACTION_STATES a"
      "fld changes ''STATE'' = JStr ''RESUMED'' \<longrightarrow> in_state RESUMABLE_ACTION_STATES a"
      "a' = dset ''LAST_UPDATE'' (JStr (clock w (ticks w))) (dmerge a changes)"
      "validate_action (JObj a') = Inr ()"
      "m_then al_save (ret (JObj a'))
         (l\<lparr>al_data := set_actions ((actions (al_data l))[i := a']) (al_data l)\<rparr>,
          w\<lparr>ticks := Suc (ticks w)\<rparr>) = (r, (l', w'))"
proof (cases "files w' = files w")
  case False
  from False assms obtain i where i: "action_pos action_id (al_data l) = Some i"
    by (cases "action_pos action_id (al_data l)") (auto simp: update_body_def)
  show ?thesis
    by (rule stored [OF i refl _ _ _ refl])
      (use False assms i in \<open>auto simp: update_body_def guard_bind_cases Let_def
         split: if_splits sum.splits\<close>)
qed (rule no_write)

lemma updated_action_ok:
  assumes "action_ok a" and "dict_wf changes" and "changed_immutables changes a = []"
    and "validate_action (JObj (dset ''LAST_UPDATE'' (JStr t) (dmerge a changes))) = Inr ()"
  shows "action_ok (dset ''LAST_UPDATE'' (JStr t) (dmerge a changes))"
proof -
  let ?a = "dset ''LAST_UPDATE'' (JStr t) (dmerge a changes)"
  have "dict_wf ?a"
    using assms(1,2) by (intro dict_wf_dset dict_wf_dmerge) (auto simp: action_ok_def)
  moreover have "pyeq (fld ?a ''ACTION_ID'') (fld a ''ACTION_ID'')"
    using assms(2,3) by (intro changed_immutables_fld) (auto simp: IMMUTABLE_ACTION_FIELDS_def)
  ultimately show ?thesis
    using assms(1,4) pyeq_hashable by (auto simp: action_ok_def)
qed

lemma update_body_ok: "dict_wf changes \<Longrightarrow> body_ok (update_body action_id changes)"
  unfolding body_ok_def
proof (intro allI impI)
  fix l w r l' w'
  assume wf: "dict_wf changes" and ok: "al_ok (al_data l)"
    and run: "update_body action_id changes (l, w) = (r, (l', w'))"
  let ?as = "actions (al_data l)"
  from run show "files w' = files w \<or> (\<exists>d. al_ok d \<and> al_extends (al_data l) d \<and>
          files w' = (files w)(al_path l \<mapsto> render d))"
  proof (cases rule: update_body_cases)
    case (stored i a a')
    from action_pos_Some [OF stored(1)] have i: "i < length ?as" by simp
    with ok stored(2) have a: "action_ok a" by (auto simp: al_ok_def)
    have im: "pyeq (fld a' k) (fld a k)" if "k \<in> set IMMUTABLE_ACTION_FIELDS" "k \<noteq> ''LAST_UPDATE''" for k
      unfolding stored(6) using stored(3) that wf by (intro changed_immutables_fld)
    have "action_ok a'"
      unfolding stored(6) using a wf stored(3,6,7) by (intro updated_action_ok) auto
    with ok have all: "\<forall>b \<in> set (?as[i := a']). action_ok b"
      by (auto simp: al_ok_def dest: set_update_subset_insert [THEN subsetD])
    have dis: "distinct_ids (?as[i := a'])"
      using ok i im [of "''ACTION_ID''"] stored(2)
      by (intro distinct_by_replace) (auto simp: al_ok_def IMMUTABLE_ACTION_FIELDS_def)
    have once: "once_only (?as[i := a'])"
      using ok i im [of "''IDEMPOTENCY_KEY''"] stored(2,4) not_terminal_not_failed
      by (intro once_only_replace) (auto simp: al_ok_def IMMUTABLE_ACTION_FIELDS_def)
    from ok have wfd: "dict_wf (al_data l)" by (simp add: al_ok_def)
    from save_step [OF stored(8) wfd all dis once] obtain d' where d': "al_ok d'"
      "actions d' = ?as[i := a']" "files w' = (files w)(al_path l \<mapsto> render d')"
      by auto
    have "al_extends (al_data l) d'"
      by (rule al_extends_update [OF d'(2) i stored(2,6) wf stored(3,4,5)])
    with d' show ?thesis by blast
  qed simp
qed

lemma query_body_ok: "body_ok (m_bind obj (\<lambda>l. ret (f l)))"
  by (simp add: body_ok_def)

section \<open>Calls of any process\<close>

text \<open>
  The public operations that touch the file, with their arguments; \<open>well_formed_call\<close> says
  the arguments are Python values (dictionaries have distinct keys) and a new identifier
  is hashable.
\<close>

datatype action_call =
    Begin json json json json json json json
  | Update json "json dict"
  | Waiting json json
  | Interrupted json json json json json
  | Resume json json json
  | Complete json json
  | Fail json json json
  | FindAll json

fun run_call :: "action_call \<Rightarrow> (action_ledger, json) obj_op" where
  "run_call (Begin i t u p c x k) = begin_action i t u p c x k"
| "run_call (Update i ch) = update_action i ch"
| "run_call (Waiting i e) = mark_waiting i e"
| "run_call (Interrupted i er c t r) = mark_interrupted i er c t r"
| "run_call (Resume i p r) = resume_action i p r"
| "run_call (Complete i e) = complete_action i e"
| "run_call (Fail i er t) = fail_action i er t"
| "run_call (FindAll k) =
     m_bind (find_all_by_idempotency_key k) (\<lambda>as. ret (JArr (map JObj as)))"

fun well_formed_call :: "action_call \<Rightarrow> bool" where
  "well_formed_call (Begin i t u p c x k) \<longleftrightarrow>
     (\<forall>v \<in> set [i, t, u, p, c, x, k]. jwf v) \<and> hashable i"
| "well_formed_call (Update i ch) \<longleftrightarrow> dict_wf ch"
| "well_formed_call (Waiting i e) \<longleftrightarrow> jwf e"
| "well_formed_call (Interrupted i er c t r) \<longleftrightarrow> (\<forall>v \<in> set [er, c, t, r]. jwf v)"
| "well_formed_call (Resume i p r) \<longleftrightarrow> jwf p \<and> jwf r"
| "well_formed_call (Complete i e) \<longleftrightarrow> jwf e"
| "well_formed_call (Fail i er t) \<longleftrightarrow> jwf er \<and> jwf t"
| "well_formed_call (FindAll k) \<longleftrightarrow> True"

lemma update_action_disk_step:
  assumes "dict_wf changes" and "disk_ok (al_path l) w"
    and "update_action action_id changes (l, w) = (r, (l', w'))"
  shows "disk_step (al_path l) w w'"
proof (cases "w' = w")
  case False
  with assms(3) have "exclusive_mutation (update_body action_id changes) (l, w) = (r, (l', w'))"
    by (auto simp: update_action_def guard_bind_cases split: if_splits sum.splits)
  with update_body_ok [OF assms(1)] assms(2) show ?thesis by (rule exclusive_disk_step)
qed simp

lemma m_bind_ret_state: "m_bind m (\<lambda>a. ret (f a)) s = (r, t) \<Longrightarrow> \<exists>r'. m s = (r', t)"
  by (auto simp: m_bind_def split: prod.splits sum.splits)

definition resume_changes :: "json \<Rightarrow> json \<Rightarrow> json dict" where
  "resume_changes p f =
     [(''STATE'', JStr ''RESUMED''), (''PROCESS_ID'', p), (''RESUME_FROM'', f), (''ERROR'', JNull)]"

lemma resume_action_eq:
  "resume_action i p f (l, w) =
     (case action_pos i (al_data l) of
        None \<Rightarrow> (Inl (KeyError ''action_id''), (l, w))
      | Some k \<Rightarrow>
          if in_state RESUMABLE_ACTION_STATES (actions (al_data l) ! k)
          then update_action i (resume_changes p f) (l, w)
          else (Inl (ValueErrorOn ''action not resumable from state''
                       (fld (actions (al_data l) ! k) ''STATE'')), (l, w)))"
  by (cases "action_pos i (al_data l)") (simp_all add: resume_action_def resume_changes_def Let_def)

lemma resume_action_wrote:
  "resume_action i p f (l, w) = (r, (l', w')) \<Longrightarrow> w' \<noteq> w \<Longrightarrow>
   update_action i (resume_changes p f) (l, w) = (r, (l', w'))"
  by (auto simp: resume_action_eq split: option.splits if_splits)

lemma run_call_disk_step:
  assumes "well_formed_call c" and "disk_ok (al_path l) w" and "run_call c (l, w) = (r, (l', w'))"
  shows "disk_step (al_path l) w w'"
proof (cases c)
  case (Begin i t u p c x k)
  with assms(1) have "body_ok (begin_body i t u p c x k)" by (intro begin_body_ok) auto
  moreover from assms(3) Begin
  have "exclusive_mutation (begin_body i t u p c x k) (l, w) = (r, (l', w'))"
    by (simp add: begin_action_def)
  ultimately show ?thesis using assms(2) exclusive_disk_step by blast
next
  case (Resume i p r0)
  show ?thesis
  proof (cases "w' = w")
    case False
    have wf: "dict_wf (resume_changes p r0)" using assms(1) Resume by (simp add: resume_changes_def)
    from assms(3) [unfolded Resume run_call.simps] False
    have "update_action i (resume_changes p r0) (l, w) = (r, (l', w'))"
      by (rule resume_action_wrote)
    with wf assms(2) show ?thesis by (rule update_action_disk_step)
  qed simp
next
  case (FindAll k)
  from assms(3) [unfolded FindAll run_call.simps]
  have "\<exists>r'. find_all_by_idempotency_key k (l, w) = (r', (l', w'))" by (rule m_bind_ret_state)
  then obtain r' where "find_all_by_idempotency_key k (l, w) = (r', (l', w'))" ..
  from exclusive_disk_step [OF query_body_ok assms(2) this [unfolded find_all_by_idempotency_key_def]]
  show ?thesis .
next
  case (Update i ch)
  with assms show ?thesis using update_action_disk_step by fastforce
next
  case (Waiting i e)
  with assms show ?thesis
    by (auto simp: mark_waiting_def elim!: update_action_disk_step [rotated 2])
next
  case (Interrupted i er c t r)
  with assms show ?thesis
    by (auto simp: mark_interrupted_def elim!: update_action_disk_step [rotated 2])
next
  case (Complete i e)
  with assms show ?thesis
    by (auto simp: complete_action_def elim!: update_action_disk_step [rotated 2])
next
  case (Fail i er t)
  with assms show ?thesis
    by (auto simp: fail_action_def elim!: update_action_disk_step [rotated 2])
qed

end
