(* ===== verification/ActionProps.thy ===== *)
theory ActionProps
  imports ActionInvariant
begin

text \<open>
  What the action ledger promises: an effect is claimed at most once per idempotency key
  whatever the interleaving of processes, history is never rewritten, the outcome of
  \<open>begin_action\<close> on every branch, lookups that never hide a completed effect, recovery
  advice that never says to run again, and a balanced lock.
\<close>

section \<open>Interleavings\<close>

text \<open>
  The states reachable from a missing ledger file: any process (any ledger object on the
  path, whatever stale data it holds) makes any call, and anything else may happen in
  between that does not touch the ledger's file.
\<close>

inductive al_reachable :: "string \<Rightarrow> world \<Rightarrow> bool" where
  start: "files w p = None \<Longrightarrow> al_reachable p w"
| call: "al_reachable p w \<Longrightarrow> al_path l = p \<Longrightarrow> well_formed_call c \<Longrightarrow>
     run_call c (l, w) = (r, (l', w')) \<Longrightarrow> al_reachable p w'"
| other: "al_reachable p w \<Longrightarrow> files w' p = files w p \<Longrightarrow> al_reachable p w'"

lemma al_reachable_disk_ok: "al_reachable p w \<Longrightarrow> disk_ok p w"
proof (induction rule: al_reachable.induct)
  case (start w p)
  then show ?case by (simp add: disk_ok_def)
next
  case (call p w l c r l' w')
  with run_call_disk_step [of c l w r l' w'] disk_step_ok [of p w w'] show ?case by simp
next
  case (other p w w')
  then show ?case by (simp add: disk_ok_def)
qed

lemma once_onlyD:
  assumes "once_only as" and "i < length as" and "j < length as" and "i \<noteq> j"
    and "pyeq (fld (as ! i) ''IDEMPOTENCY_KEY'') (fld (as ! j) ''IDEMPOTENCY_KEY'')"
  shows "failed (as ! i) \<or> failed (as ! j)"
proof -
  have H: "failed (as ! a) \<or> failed (as ! b)"
    if "a < b" "b < length as" "pyeq (fld (as ! a) ''IDEMPOTENCY_KEY'') (fld (as ! b) ''IDEMPOTENCY_KEY'')"
    for a b
    using assms(1) that by (simp add: once_only_def sorted_wrt_iff_nth_less)
  show ?thesis
  proof (cases "i < j")
    case True
    with H [of i j] assms show ?thesis by simp
  next
    case False
    with assms(4) have "j < i" by simp
    with H [of j i] assms pyeq_sym [OF assms(5)] show ?thesis by blast
  qed
qed

text \<open>
  C1: In every state reachable by any interleaving of processes, the ledger file
  loads, and two different actions in it share an idempotency key only if at least one
  of them has FAILED: an effect is never claimed twice.
\<close>

theorem effect_claimed_at_most_once:
  assumes "al_reachable p w" and "files w p = Some t"
  shows "\<exists>d. parse_action_file t = Inr d \<and>
    (\<forall>i j. i < length (actions d) \<and> j < length (actions d) \<and> i \<noteq> j \<and>
       pyeq (fld (actions d ! i) ''IDEMPOTENCY_KEY'') (fld (actions d ! j) ''IDEMPOTENCY_KEY'') \<longrightarrow>
       failed (actions d ! i) \<or> failed (actions d ! j))"
proof -
  from al_reachable_disk_ok [OF assms(1)] assms(2) obtain d where "al_ok d" "t = render d"
    by (auto simp: disk_ok_def)
  then have "parse_action_file t = Inr d" "once_only (actions d)"
    by (simp_all add: parse_render al_ok_def)
  with once_onlyD show ?thesis by blast
qed

definition demo_world :: world where
  "demo_world = \<lparr>files = Map.empty, clock = (\<lambda>_. ''t''), ticks = 0, sha256 = (\<lambda>s. s),
                 scope_depth = 0, lock_held = False\<rparr>"

definition demo_ledger :: action_ledger where
  "demo_ledger = \<lparr>al_path = ''L'', al_data = []\<rparr>"

definition demo_begin :: action_call where
  "demo_begin = Begin (JStr ''a1'') (JStr ''T'') (JStr ''u'') JNull (JStr ''x'') (JStr ''y'') (JStr ''k'')"

definition demo_data :: "json dict" where
  "demo_data =
     [(''LEDGER_VERSION'', JStr ''1.0''), (''UPDATED_AT'', JStr ''t''),
      (''ACTIONS'', JArr [JObj (new_action (JStr ''a1'') (JStr ''T'') (JStr ''u'') JNull
                                   (JStr ''x'') (JStr ''y'') (JStr ''k'') ''t'')])]"

lemma demo_validate:
  "validate_action (JObj (new_action (JStr ''a1'') (JStr ''T'') (JStr ''u'') JNull
     (JStr ''x'') (JStr ''y'') (JStr ''k'') ''t'')) = Inr ()"
  by (simp add: validate_action_JObj new_action_def REQUIRED_ACTION_FIELDS_def in_state_def
      ACTION_STATES_def TERMINAL_ACTION_STATES_def dhas_def)

lemma demo_begin_run:
  "\<exists>r l' w'. run_call demo_begin (demo_ledger, demo_world) = (r, (l', w')) \<and>
     files w' ''L'' = Some (render demo_data)"
  by (simp add: demo_begin_def begin_action_def exclusive_mutation_def continuity_effect_scope_def
      demo_ledger_def demo_world_def load_or_init_def begin_body_def actions_def newest_first_def
      Let_def demo_validate al_save_run set_actions_def demo_data_def)

lemma demo_reachable: "\<exists>w. al_reachable ''L'' w \<and> files w ''L'' = Some (render demo_data)"
proof -
  obtain r l' w' where run: "run_call demo_begin (demo_ledger, demo_world) = (r, (l', w'))"
    and f: "files w' ''L'' = Some (render demo_data)" using demo_begin_run by blast
  have "al_reachable ''L'' demo_world" by (rule start) (simp add: demo_world_def)
  then have "al_reachable ''L'' w'"
    by (rule call [OF _ _ _ run]) (simp_all add: demo_ledger_def demo_begin_def hashable_def)
  with f show ?thesis by blast
qed

theorem effect_claimed_at_most_once_witness:
  "\<exists>(w :: world) t. files w ''L'' = Some t \<and> (\<exists>d. parse_action_file t = Inr d)"
proof -
  obtain w where w: "al_reachable ''L'' w" "files w ''L'' = Some (render demo_data)"
    using demo_reachable by blast
  from effect_claimed_at_most_once [OF w] obtain d where
    "parse_action_file (render demo_data) = Inr d" by auto
  with w(2) show ?thesis by blast
qed

section \<open>History\<close>

text \<open>The calls that ask for \<open>RESUMED\<close>, and the action they name.\<close>

fun asks_resume :: "action_call \<Rightarrow> bool" where
  "asks_resume (Resume i p r) = True"
| "asks_resume (Update i ch) = (fld ch ''STATE'' = JStr ''RESUMED'')"
| "asks_resume _ = False"

fun call_target :: "action_call \<Rightarrow> json" where
  "call_target (Resume i p r) = i"
| "call_target (Update i ch) = i"
| "call_target _ = JNull"

definition resumable_in :: "json dict \<Rightarrow> json \<Rightarrow> bool" where
  "resumable_in d i \<longleftrightarrow>
     (\<exists>k < length (actions d). pyeq (fld (actions d ! k) ''ACTION_ID'') i \<and>
        in_state RESUMABLE_ACTION_STATES (actions d ! k))"

lemma exclusive_run:
  assumes "loaded (al_path l) w d" and "files w (al_path l) \<noteq> None"
  shows "exclusive_mutation m (l, w) =
    continuity_effect_scope (\<lambda>s. m (l\<lparr>al_data := d\<rparr>, snd s)) (l, w)"
proof -
  have ld: "load_or_init (al_path l) (l, w1) = (Inr d, (l, w1))" if "files w1 = files w" for w1
    using assms that by (auto simp: load_or_init_def loaded_def parse_render)
  show ?thesis
    by (simp add: exclusive_mutation_def continuity_effect_scope_def ld)
qed

lemma update_body_resumes:
  assumes "fld ch ''STATE'' = JStr ''RESUMED''" and "update_body i ch (l, w) = (r, (l', w'))"
  shows "isl r \<and> files w' = files w \<or> resumable_in (al_data l) i"
proof (cases "action_pos i (al_data l)")
  case None
  with assms(2) show ?thesis by (auto simp: update_body_def)
next
  case (Some k)
  let ?a = "actions (al_data l) ! k"
  from assms(1) have ch: "(''STATE'', JStr ''RESUMED'') \<in> set ch"
    by (auto simp: get_or_none_def split: option.splits dest: dget_Some_set)
  show ?thesis
  proof (cases "in_state RESUMABLE_ACTION_STATES ?a")
    case True
    with action_pos_Some [OF Some] show ?thesis by (auto simp: resumable_in_def)
  next
    case False
    have "effective ch ?a \<noteq> []" if "in_state TERMINAL_ACTION_STATES ?a"
      using that ch by (auto simp: effective_def filter_empty_conv in_state_def TERMINAL_ACTION_STATES_def intro!: bexI [OF _ ch])
    with False assms Some show ?thesis
      by (auto simp: update_body_def guard_bind_cases Let_def split: if_splits)
  qed
qed

lemma update_action_resumes:
  assumes "fld ch ''STATE'' = JStr ''RESUMED''" and "loaded (al_path l) w d" and "files w (al_path l) \<noteq> None"
    and "update_action i ch (l, w) = (r, (l', w'))"
  shows "isl r \<and> files w' = files w \<or> resumable_in d i"
proof (cases "isl r \<and> w' = w")
  case False
  with assms(4) have "exclusive_mutation (update_body i ch) (l, w) = (r, (l', w'))"
    by (auto simp: update_action_def guard_bind_cases split: if_splits sum.splits)
  then have "continuity_effect_scope (\<lambda>s. update_body i ch (l\<lparr>al_data := d\<rparr>, snd s)) (l, w) = (r, (l', w'))"
    by (simp only: exclusive_run [OF assms(2,3)])
  from scope_files [OF this] obtain w1 w2 where
    "update_body i ch (l\<lparr>al_data := d\<rparr>, w1) = (r, (l', w2))" "files w1 = files w" "files w2 = files w'"
    by auto
  with update_body_resumes [OF assms(1), of i "l\<lparr>al_data := d\<rparr>" w1 r l' w2] show ?thesis by simp
qed simp

lemma call_resumes:
  assumes "asks_resume c" and "loaded (al_path l) w d" and "files w (al_path l) \<noteq> None"
    and "run_call c (l, w) = (r, (l', w'))"
  shows "isl r \<and> files w' = files w \<or> resumable_in d (call_target c)"
proof (cases "isl r \<and> files w' = files w")
  case False
  have "\<exists>ch. fld ch ''STATE'' = JStr ''RESUMED'' \<and> update_action (call_target c) ch (l, w) = (r, (l', w'))"
  proof (cases c)
    case (Resume i p f)
    with assms(4) False show ?thesis
      by (intro exI [of _ "resume_changes p f"])
        (auto simp: resume_changes_def [of p f] resume_action_eq split: option.splits if_splits)
  next
    case (Update i ch)
    with assms(1,4) show ?thesis by auto
  qed (use assms(1) in simp_all)
  with update_action_resumes [OF _ assms(2,3)] False show ?thesis by blast
qed simp

text \<open>
  C2: Every call, by any process on a well-formed ledger file, leaves a file that loads;
  no recorded action disappears, a DONE or FAILED action is unchanged in every field,
  identity fields keep their values, and no call turns an action into RESUMED unless it was
  INTERRUPTED or HOLD.  A call that asks for RESUMED raises and leaves the file as it is when
  the action it names is not INTERRUPTED or HOLD in the file, an action that is RESUMED already
  included; other updates of a RESUMED action leave it RESUMED.
\<close>

theorem action_history_kept:
  assumes "al_ok d" and "files w (al_path l) = Some (render d)"
    and "well_formed_call c" and "run_call c (l, w) = (r, (l', w'))"
  shows "\<exists>d'. files w' (al_path l) = Some (render d') \<and> parse_action_file (render d') = Inr d' \<and>
    length (actions d) \<le> length (actions d') \<and>
    (\<forall>i < length (actions d).
       (in_state TERMINAL_ACTION_STATES (actions d ! i) \<longrightarrow> actions d' ! i = actions d ! i) \<and>
       (\<forall>k \<in> set IMMUTABLE_ACTION_FIELDS. pyeq (fld (actions d' ! i) k) (fld (actions d ! i) k)) \<and>
       (in_state [''RESUMED''] (actions d' ! i) \<longrightarrow>
          in_state (''RESUMED'' # RESUMABLE_ACTION_STATES) (actions d ! i))) \<and>
    (asks_resume c \<longrightarrow> \<not> resumable_in d (call_target c) \<longrightarrow> isl r \<and> d' = d)"
proof -
  have "disk_ok (al_path l) w" using assms(1,2) by (auto simp: disk_ok_def)
  with assms(3,4) have "disk_step (al_path l) w w'" by (intro run_call_disk_step)
  moreover have "loaded (al_path l) w d" using assms(1,2) by (simp add: loaded_def)
  note resume = call_resumes [OF _ this _ assms(4)]
  ultimately consider (same) "files w' = files w"
    | (new) e d' where "loaded (al_path l) w e" "al_ok d'" "al_extends e d'"
        "files w' = (files w)(al_path l \<mapsto> render d')"
    by (auto simp: disk_step_def)
  then show ?thesis
  proof cases
    case same
    with assms(1,2) resume show ?thesis
      by (intro exI [of _ d]) (auto simp: parse_render in_state_def)
  next
    case new
    from new(1) assms(1,2) have "render e = render d" by (simp add: loaded_def)
    then have e: "e = d" using new(1) assms(1) by (metis loaded_def old.sum.inject(2) parse_render)
    have "d' = d" if "files w' = files w"
      using that new(4) assms(1,2) new(2) by (metis fun_upd_same old.sum.inject(2) option.inject parse_render)
    with new e resume assms(2) show ?thesis
      by (intro exI [of _ d']) (auto simp: parse_render al_extends_def)
  qed
qed

lemma demo_data_ok: "al_ok demo_data"
proof -
  have "actions demo_data = [new_action (JStr ''a1'') (JStr ''T'') (JStr ''u'') JNull
          (JStr ''x'') (JStr ''y'') (JStr ''k'') ''t'']"
    by (simp add: actions_def demo_data_def)
  then show ?thesis
    by (simp add: al_ok_def action_ok_def demo_validate distinct_by_def once_only_def
        demo_data_def) (simp add: new_action_def hashable_def)
qed

theorem action_history_kept_witness:
  "\<exists>r l' (w' :: world). run_call (Resume (JStr ''a1'') (JStr ''p2'') JNull)
       (demo_ledger, demo_world\<lparr>files := [''L'' \<mapsto> render demo_data]\<rparr>) = (r, (l', w')) \<and>
     isl r \<and> files w' ''L'' = Some (render demo_data)"
proof -
  let ?w = "demo_world\<lparr>files := [''L'' \<mapsto> render demo_data]\<rparr>"
  let ?c = "Resume (JStr ''a1'') (JStr ''p2'') JNull"
  obtain r l' w' where run: "run_call ?c (demo_ledger, ?w) = (r, (l', w'))"
    by (metis prod_cases3)
  have p: "al_path demo_ledger = ''L''" by (simp add: demo_ledger_def)
  have acts: "actions demo_data = [new_action (JStr ''a1'') (JStr ''T'') (JStr ''u'') JNull
          (JStr ''x'') (JStr ''y'') (JStr ''k'') ''t'']"
    by (simp add: actions_def demo_data_def)
  have "\<not> resumable_in demo_data (call_target ?c)"
    by (simp add: resumable_in_def acts) (simp add: new_action_def in_state_def RESUMABLE_ACTION_STATES_def)
  with action_history_kept [OF demo_data_ok _ _ run] p
  have "isl r \<and> files w' ''L'' = Some (render demo_data)" by auto
  with run show ?thesis by blast
qed

section \<open>The outcome of \<open>begin_action\<close>\<close>

lemma filter_key_empty:
  "(filter (in_state [''DONE'']) (filter (same_key k) as) = [] \<and>
    filter (\<lambda>a. \<not> in_state TERMINAL_ACTION_STATES a) (filter (same_key k) as) = []) \<longleftrightarrow>
   (\<forall>a \<in> set as. same_key k a \<longrightarrow> failed a)"
  by (auto simp: filter_empty_conv in_state_def TERMINAL_ACTION_STATES_def failed_def)

definition begin_blocked :: "json \<Rightarrow> json \<Rightarrow> json dict list \<Rightarrow> bool" where
  "begin_blocked i k as \<longleftrightarrow>
     (\<exists>a \<in> set as. pyeq (fld a ''ACTION_ID'') i) \<or>
     (\<exists>a \<in> set as. same_key k a \<and> \<not> failed a) \<or> \<not> truthy k"

lemma validate_new_action:
  "validate_action (JObj (new_action i t u p c x k now)) =
     (if truthy k then Inr () else Inl (ValueError ''IDEMPOTENCY_KEY required''))"
  by (simp add: validate_action_def required_fields_def new_action_def REQUIRED_ACTION_FIELDS_def
      dhas_def ACTION_STATES_def in_state_def TERMINAL_ACTION_STATES_def check_def)

lemma begin_body_blocked:
  assumes "begin_blocked i k (actions (al_data l))"
  shows "\<exists>e l' w'. begin_body i t u p c x k (l, w) = (Inl e, (l', w')) \<and> files w' = files w"
proof (cases "(\<exists>a \<in> set (actions (al_data l)). pyeq (fld a ''ACTION_ID'') i) \<or>
    filter (in_state [''DONE'']) (filter (same_key k) (actions (al_data l))) \<noteq> [] \<or>
    filter (\<lambda>a. \<not> in_state TERMINAL_ACTION_STATES a) (filter (same_key k) (actions (al_data l))) \<noteq> []")
  case True
  then show ?thesis by (auto simp: begin_body_def Let_def simp del: filter_filter)
next
  case False
  with assms filter_key_empty [of k "actions (al_data l)"] have "\<not> truthy k"
    by (auto simp: begin_blocked_def simp del: filter_filter)
  with False show ?thesis
    by (simp add: begin_body_def Let_def validate_new_action del: filter_filter)
qed

lemma begin_body_runs:
  assumes "\<not> begin_blocked i k (actions (al_data l))"
    and a_def: "a = new_action i t u p c x k (clock w (ticks w))"
    and d_def: "d = dset ''UPDATED_AT'' (JStr (clock w (Suc (ticks w))))
                 (set_actions (actions (al_data l) @ [a]) (al_data l))"
  shows "begin_body i t u p c x k (l, w) =
    (Inr (JObj a), (l\<lparr>al_data := d\<rparr>,
       w\<lparr>ticks := Suc (Suc (ticks w)), files := (files w)(al_path l \<mapsto> render d)\<rparr>))"
proof -
  from assms(1) filter_key_empty [of k "actions (al_data l)"]
  have "\<not> (\<exists>a \<in> set (actions (al_data l)). pyeq (fld a ''ACTION_ID'') i)" "truthy k"
    "filter (in_state [''DONE'']) (filter (same_key k) (actions (al_data l))) = []"
    "filter (\<lambda>a. \<not> in_state TERMINAL_ACTION_STATES a) (filter (same_key k) (actions (al_data l))) = []"
    by (auto simp: begin_blocked_def simp del: filter_filter)
  then show ?thesis
    by (simp add: begin_body_def Let_def validate_new_action al_save_run a_def d_def del: filter_filter)
qed

text \<open>
  C18: On a well-formed ledger file, \<open>begin_action\<close> fails and leaves the files alone when
  the identifier is taken, when an action with the same key has not failed (it is running,
  waiting, held or done), or when the key is empty; otherwise it returns a RUNNING action and the file holds
  exactly one more action, at the end.
\<close>

theorem begin_action_outcome:
  assumes "al_ok d" and "files w (al_path l) = Some (render d)"
    and "begin_action i t u p c x k (l, w) = (r, (l', w'))"
  shows "if begin_blocked i k (actions d) then (\<exists>e. r = Inl e) \<and> files w' = files w
    else r = Inr (JObj (new_action i t u p c x k (clock w (ticks w)))) \<and>
      actions (al_data l') = actions d @ [new_action i t u p c x k (clock w (ticks w))] \<and>
      files w' = (files w)(al_path l \<mapsto> render (al_data l'))"
proof -
  have "loaded (al_path l) w d" using assms(1,2) by (simp add: loaded_def)
  then have run: "continuity_effect_scope
      (\<lambda>s. begin_body i t u p c x k (l\<lparr>al_data := d\<rparr>, snd s)) (l, w) = (r, (l', w'))"
    using assms(2,3) exclusive_run [of l w d "begin_body i t u p c x k"] by (simp add: begin_action_def)
  obtain w1 w2 where b: "begin_body i t u p c x k (l\<lparr>al_data := d\<rparr>, w1) = (r, (l', w2))"
    and f: "files w1 = files w" "clock w1 = clock w" "ticks w1 = ticks w" "files w2 = files w'"
    using scope_files [OF run] by auto
  show ?thesis
  proof (cases "begin_blocked i k (actions d)")
    case True
    then have "begin_blocked i k (actions (al_data (l\<lparr>al_data := d\<rparr>)))" by simp
    from begin_body_blocked [OF this, of t u p c x w1] b f True show ?thesis by auto
  next
    case False
    then have "\<not> begin_blocked i k (actions (al_data (l\<lparr>al_data := d\<rparr>)))" by simp
    from begin_body_runs [OF this refl refl, of t u p c x w1] b f False show ?thesis by auto
  qed
qed

theorem begin_action_outcome_witness:
  "\<exists>e. fst (begin_action (JStr ''a2'') JNull JNull JNull JNull JNull (JStr ''k'')
      (demo_ledger, demo_world\<lparr>files := [''L'' \<mapsto> render demo_data]\<rparr>)) = Inl e"
proof -
  let ?w = "demo_world\<lparr>files := [''L'' \<mapsto> render demo_data]\<rparr>"
  obtain r l' w' where run: "begin_action (JStr ''a2'') JNull JNull JNull JNull JNull (JStr ''k'')
      (demo_ledger, ?w) = (r, (l', w'))"
    by (metis prod_cases3)
  have "files ?w (al_path demo_ledger) = Some (render demo_data)" by (simp add: demo_ledger_def)
  from begin_action_outcome [OF demo_data_ok this run]
  have "\<exists>e. r = Inl e"
    by (simp add: begin_blocked_def demo_data_def actions_def new_action_def same_key_def failed_def)
  with run show ?thesis by simp
qed

section \<open>Lookup and recovery\<close>

lemma set_newest_first [simp]: "set (newest_first as) = set as"
  by (simp add: newest_first_def)

lemma newest_first_hd: "b \<in> set as \<Longrightarrow> recency b \<le> recency (hd (newest_first as))"
proof -
  assume b: "b \<in> set as"
  let ?xs = "sort_key recency (rev as)"
  have "?xs \<noteq> []" using b by (metis empty_iff list.set(1) set_rev set_sort)
  then obtain ys y where ys: "?xs = ys @ [y]" by (metis rev_exhaust)
  have "sorted (map recency ?xs)" by (rule sorted_sort_key)
  then have "\<forall>z \<in> set ys. recency z \<le> recency y" by (simp add: ys sorted_append)
  moreover have "b \<in> set ?xs" using b by simp
  ultimately show ?thesis by (auto simp: newest_first_def ys)
qed

text \<open>
  Looking a key up on a well-formed ledger file finds an action exactly when one
  has the key, finds a DONE action whenever one has the key, and otherwise the most
  recently updated one.
\<close>

theorem find_by_key_never_hides_done:
  assumes "al_ok d" and "files w (al_path l) = Some (render d)"
  shows "\<exists>res. fst (find_by_idempotency_key k (l, w)) = Inr res \<and>
    (res = None \<longleftrightarrow> (\<forall>a \<in> set (actions d). \<not> same_key k a)) \<and>
    (\<forall>a. res = Some a \<longrightarrow> a \<in> set (actions d) \<and> same_key k a \<and>
       (in_state [''DONE''] a \<or>
        (\<forall>b \<in> set (actions d). same_key k b \<longrightarrow>
           \<not> in_state [''DONE''] b \<and> recency b \<le> recency a)))"
proof -
  let ?ms = "newest_first (filter (same_key k) (actions d))"
  let ?done = "filter (in_state [''DONE'']) ?ms"
  have "loaded (al_path l) w d" using assms by (simp add: loaded_def)
  with assms(2) have "\<exists>t. find_all_by_idempotency_key k (l, w) = (Inr ?ms, t)"
    by (simp add: find_all_by_idempotency_key_def exclusive_run continuity_effect_scope_def)
  then have run: "fst (find_by_idempotency_key k (l, w)) =
      Inr (if ?done \<noteq> [] then Some (hd ?done) else if ?ms \<noteq> [] then Some (hd ?ms) else None)"
    by (auto simp: find_by_idempotency_key_def Let_def)
  have in_done: "hd ?done \<in> set ?done" if "?done \<noteq> []" using that by (rule list.set_sel(1))
  have in_ms: "hd ?ms \<in> set ?ms" if "?ms \<noteq> []" using that by (rule list.set_sel(1))
  have top: "recency b \<le> recency (hd ?ms)" if "b \<in> set (actions d)" "same_key k b" for b
    using that by (intro newest_first_hd) simp
  show ?thesis
  proof (rule exI, rule conjI [OF run], intro conjI)
    show "(if ?done \<noteq> [] then Some (hd ?done) else if ?ms \<noteq> [] then Some (hd ?ms) else None) = None
        \<longleftrightarrow> (\<forall>a \<in> set (actions d). \<not> same_key k a)"
      by (auto simp: filter_empty_conv)
    show "\<forall>a. (if ?done \<noteq> [] then Some (hd ?done) else if ?ms \<noteq> [] then Some (hd ?ms) else None)
        = Some a \<longrightarrow> a \<in> set (actions d) \<and> same_key k a \<and> (in_state [''DONE''] a \<or>
        (\<forall>b \<in> set (actions d). same_key k b \<longrightarrow> \<not> in_state [''DONE''] b \<and> recency b \<le> recency a))"
    proof (cases "?done = []")
      case True
      with in_ms top show ?thesis by (auto simp: filter_empty_conv)
    next
      case False
      with in_done show ?thesis by auto
    qed
  qed
qed

theorem find_by_key_never_hides_done_witness:
  "\<exists>res. fst (find_by_idempotency_key (JStr ''k'')
      (demo_ledger, demo_world\<lparr>files := [''L'' \<mapsto> render demo_data]\<rparr>)) = Inr res \<and> res \<noteq> None"
proof -
  let ?w = "demo_world\<lparr>files := [''L'' \<mapsto> render demo_data]\<rparr>"
  have f: "files ?w (al_path demo_ledger) = Some (render demo_data)" by (simp add: demo_ledger_def)
  have "\<exists>a \<in> set (actions demo_data). same_key (JStr ''k'') a"
    by (simp add: actions_def demo_data_def new_action_def same_key_def)
  with find_by_key_never_hides_done [OF demo_data_ok f, of "JStr ''k''"] show ?thesis by blast
qed

section \<open>The lock\<close>

text \<open>
  A continuity scope, nested or outermost and whether its body returns or raises,
  runs its body with the lock held and leaves the nesting depth and the lock as it found
  them.
\<close>

theorem scope_locked_and_balanced:
  assumes "lock_ok w" and "keeps lock_same body"
    and "continuity_effect_scope body (ob, w) = (r, (ob', w'))"
  shows "scope_depth w' = scope_depth w \<and> lock_held w' = lock_held w \<and>
    (\<exists>w1 w2. body (ob, w1) = (r, (ob', w2)) \<and> lock_held w1 \<and> scope_depth w1 = Suc (scope_depth w) \<and>
       files w1 = files w \<and> files w' = files w2)"
proof (cases "scope_depth w = 0")
  case True
  let ?w1 = "w\<lparr>lock_held := True, scope_depth := 1\<rparr>"
  obtain w2 where b: "body (ob, ?w1) = (r, (ob', w2))" "w' = w2\<lparr>scope_depth := 0, lock_held := False\<rparr>"
    using assms(3) True by (auto simp: continuity_effect_scope_def split: prod.splits)
  with True assms(1) show ?thesis
    by (intro conjI exI [of _ ?w1] exI [of _ w2]) (simp_all add: lock_ok_def)
next
  case False
  let ?w1 = "w\<lparr>scope_depth := scope_depth w + 1\<rparr>"
  obtain w2 where b: "body (ob, ?w1) = (r, (ob', w2))" "w' = w2\<lparr>scope_depth := scope_depth w\<rparr>"
    using assms(3) False by (auto simp: continuity_effect_scope_def split: prod.splits)
  from assms(2) have "lock_same (ob, ?w1) (snd (body (ob, ?w1)))" unfolding keeps_def by blast
  with b(1) False assms(1) have "lock_held w2 = lock_held w"
    by (simp add: lock_same_def lock_ok_def)
  with b False assms(1) show ?thesis
    by (intro conjI exI [of _ ?w1] exI [of _ w2]) (simp_all add: lock_ok_def)
qed

theorem scope_locked_and_balanced_witness:
  "\<exists>w'. snd (continuity_effect_scope (continuity_effect_scope al_save) (demo_ledger, demo_world))
           = (demo_ledger\<lparr>al_data := [(''UPDATED_AT'', JStr ''t'')]\<rparr>, w') \<and>
      scope_depth w' = 0 \<and> \<not> lock_held w'"
proof -
  have k: "keeps lock_same (continuity_effect_scope al_save)"
    by (auto simp: keeps_def lock_same_def lock_ok_def continuity_effect_scope_def al_save_run)
  obtain r w' where run: "continuity_effect_scope (continuity_effect_scope al_save)
      (demo_ledger, demo_world) = (r, (demo_ledger\<lparr>al_data := [(''UPDATED_AT'', JStr ''t'')]\<rparr>, w'))"
    by (simp add: continuity_effect_scope_def al_save_run demo_ledger_def demo_world_def)
  have "lock_ok demo_world" by (simp add: lock_ok_def demo_world_def)
  from scope_locked_and_balanced [OF this k run] run show ?thesis by (simp add: demo_world_def)
qed

end
