(* ===== verification/PyStr.thy ===== *)
theory PyStr
  imports PyWorld
begin

text \<open>
  The string methods of Python that the components use, on UTF-8 byte lists: splitting
  into code points, \<open>strip\<close>, \<open>splitlines\<close>, \<open>lower\<close> on ASCII letters, prefixes and
  substrings.
\<close>

section \<open>Code points\<close>

definition is_cont :: "char \<Rightarrow> bool" where
  "is_cont c \<longleftrightarrow> 128 \<le> (of_char c :: nat) \<and> (of_char c :: nat) < 192"

text \<open>The byte groups of the code points: a leading byte and its continuation bytes.\<close>

function py_chars :: "string \<Rightarrow> string list" where
  "py_chars [] = []"
| "py_chars (c # s) = (c # takeWhile is_cont s) # py_chars (dropWhile is_cont s)"
  by pat_completeness auto
termination
  by (relation "measure length") (auto simp: le_imp_less_Suc length_dropWhile_le)

lemma concat_py_chars [simp]: "concat (py_chars s) = s"
  by (induction s rule: py_chars.induct) simp_all

text \<open>Code points with \<open>str.isspace\<close>: the ASCII blanks and separators, NEL, the
  no-break space, and the Unicode spaces.\<close>

definition bytes :: "nat list \<Rightarrow> string" where
  "bytes ns = map char_of ns"

definition space_codes :: "nat list list" where
  "space_codes =
     ([[9], [10], [11], [12], [13], [28], [29], [30], [31], [32], [194, 133], [194, 160],
       [225, 154, 128]] @ map (\<lambda>n. [226, 128, n]) [128..<139] @
      [[226, 128, 168], [226, 128, 169], [226, 128, 175], [226, 129, 159], [227, 128, 128]])"

definition is_space :: "string \<Rightarrow> bool" where
  "is_space g \<longleftrightarrow> g \<in> set (map bytes space_codes)"

definition strip :: "string \<Rightarrow> string" where
  "strip s = concat (rev (dropWhile is_space (rev (dropWhile is_space (py_chars s)))))"

text \<open>\<open>not s.strip()\<close>.\<close>

definition blank :: "string \<Rightarrow> bool" where
  "blank s \<longleftrightarrow> strip s = []"

lemma blank_Nil [simp]: "blank []"
  by (simp add: blank_def strip_def)

lemma py_chars_nonempty: "g \<in> set (py_chars s) \<Longrightarrow> g \<noteq> []"
  by (induction s rule: py_chars.induct) auto

lemma concat_eq_Nil_nonempty: "\<forall>g \<in> set gs. g \<noteq> [] \<Longrightarrow> concat gs = [] \<longleftrightarrow> gs = []"
  by (cases gs) auto

lemma not_blank: "g \<in> set (py_chars s) \<Longrightarrow> \<not> is_space g \<Longrightarrow> \<not> blank s"
proof -
  assume g: "g \<in> set (py_chars s)" "\<not> is_space g"
  let ?a = "dropWhile is_space (py_chars s)"
  let ?b = "dropWhile is_space (rev ?a)"
  have "g \<in> set ?a" using g by (metis UnE set_append set_takeWhileD takeWhile_dropWhile_id)
  then have "g \<in> set (rev ?a)" by simp
  then have "g \<in> set ?b" using g(2) by (metis UnE set_append set_takeWhileD takeWhile_dropWhile_id)
  moreover have "\<forall>h \<in> set (rev ?b). h \<noteq> []"
    using py_chars_nonempty by (metis set_dropWhileD set_rev)
  ultimately show ?thesis
    unfolding blank_def strip_def using concat_eq_Nil_nonempty [of "rev ?b"] by fastforce
qed

text \<open>A string that starts with a printable ASCII character is not blank.\<close>

lemma is_space_Cons_small:
  assumes "is_space (c # s)"
  shows "(of_char c :: nat) \<le> 32 \<or> 194 \<le> (of_char c :: nat)"
proof -
  have "\<forall>ns \<in> set space_codes. ns \<noteq> [] \<and> (hd ns \<le> 32 \<or> hd ns \<in> {194, 225, 226, 227})"
    by code_simp
  moreover from assms obtain ns where "c # s = bytes ns" "ns \<in> set space_codes"
    by (auto simp: is_space_def)
  ultimately have ns: "c # s = bytes ns" "ns \<noteq> []" "hd ns \<le> 32 \<or> hd ns \<in> {194, 225, 226, 227}"
    by blast+
  then have "c = char_of (hd ns)" by (cases ns) (simp_all add: bytes_def)
  then have "(of_char c :: nat) = hd ns mod 256" by (simp add: of_char_of)
  with ns(3) show ?thesis by auto
qed

lemma not_blank_ascii [simp]:
  "33 \<le> (of_char c :: nat) \<Longrightarrow> (of_char c :: nat) < 127 \<Longrightarrow> \<not> blank (c # s)"
  using is_space_Cons_small [of c "takeWhile is_cont s"]
  by (intro not_blank [of "c # takeWhile is_cont s"]) auto

section \<open>Lines\<close>

definition break_groups :: "string list" where
  "break_groups = map bytes
     [[10], [11], [12], [13], [28], [29], [30], [194, 133], [226, 128, 168], [226, 128, 169]]"

definition is_break :: "string \<Rightarrow> bool" where
  "is_break g \<longleftrightarrow> g \<in> set break_groups"

function split_groups :: "string list \<Rightarrow> string \<Rightarrow> string list" where
  "split_groups [] acc = (if acc = [] then [] else [acc])"
| "split_groups (g # gs) acc =
     (if g = [CHR 13] \<and> gs \<noteq> [] \<and> hd gs = [CHR 10] then acc # split_groups (tl gs) []
      else if is_break g then acc # split_groups gs []
      else split_groups gs (acc @ g))"
  by pat_completeness auto
termination
  by (relation "measure (\<lambda>(gs, _). length gs)") auto

definition splitlines :: "string \<Rightarrow> string list" where
  "splitlines s = split_groups (py_chars s) []"

section \<open>Letters, prefixes, substrings\<close>

text \<open>\<open>lower\<close> of ASCII letters; other letters are left as they are.\<close>

definition lower_char :: "char \<Rightarrow> char" where
  "lower_char c = (if 65 \<le> (of_char c :: nat) \<and> (of_char c :: nat) \<le> 90
                   then char_of (of_char c + 32 :: nat) else c)"

definition lower :: "string \<Rightarrow> string" where
  "lower = map lower_char"

fun starts_with :: "string \<Rightarrow> string \<Rightarrow> bool" where
  "starts_with s [] = True"
| "starts_with [] (p # ps) = False"
| "starts_with (c # s) (p # ps) = (c = p \<and> starts_with s ps)"

fun contains :: "string \<Rightarrow> string \<Rightarrow> bool" where
  "contains [] p = (p = [])"
| "contains (c # s) p = (starts_with (c # s) p \<or> contains s p)"

lemma starts_with_iff: "starts_with s p \<longleftrightarrow> (\<exists>r. s = p @ r)"
  by (induction s p rule: starts_with.induct) auto

lemma contains_iff: "contains s p \<longleftrightarrow> (\<exists>a r. s = a @ p @ r)"
proof (induction s)
  case Nil
  show ?case by simp
next
  case (Cons c s)
  have "(\<exists>a r. c # s = a @ p @ r) \<longleftrightarrow> (\<exists>r. c # s = p @ r) \<or> (\<exists>a r. s = a @ p @ r)"
  proof
    assume "\<exists>a r. c # s = a @ p @ r"
    then obtain a r where e: "c # s = a @ p @ r" by blast
    show "(\<exists>r. c # s = p @ r) \<or> (\<exists>a r. s = a @ p @ r)"
      by (rule list.exhaust [of a]) (use e in \<open>simp_all, blast+\<close>)
  next
    assume "(\<exists>r. c # s = p @ r) \<or> (\<exists>a r. s = a @ p @ r)"
    then show "\<exists>a r. c # s = a @ p @ r"
      by (metis append_Cons append_Nil)
  qed
  then show ?case by (simp add: Cons.IH starts_with_iff)
qed

text \<open>\<open>s.replace(old, new)\<close> for a nonempty \<open>old\<close>.\<close>

lemma starts_with_length: "starts_with s p \<Longrightarrow> length p \<le> length s"
  by (auto simp: starts_with_iff)

function replace_all :: "string \<Rightarrow> string \<Rightarrow> string \<Rightarrow> string" where
  "replace_all old new [] = []"
| "replace_all old new (c # s) =
     (if old \<noteq> [] \<and> starts_with (c # s) old then new @ replace_all old new (drop (length old) (c # s))
      else c # replace_all old new s)"
  by pat_completeness auto
termination
  by (relation "measure (\<lambda>(_, _, s). length s)") (auto dest: starts_with_length)

section \<open>Iteration\<close>

text \<open>\<open>list(v)\<close>: the elements of a list, the keys of a dict, the characters of a string.\<close>

definition py_list :: "json \<Rightarrow> py_error + json list" where
  "py_list v = (case v of
      JArr xs \<Rightarrow> Inr xs
    | JObj d \<Rightarrow> Inr (map JStr (dkeys d))
    | JStr s \<Rightarrow> Inr (map JStr (py_chars s))
    | _ \<Rightarrow> Inl (TypeError ''object is not iterable''))"

end
