(* ===== verification/WorkLedger.thy ===== *)
theory WorkLedger
  imports ActionLedger PyStr
begin

text \<open>
  \<open>core/work_ledger.py\<close>: the ledger of tasks.  Unlike the action ledger it is read once,
  when the object is made; a save compares the digest of the file with the one seen at
  that time and refuses to overwrite a file that changed meanwhile.

  Task identifiers are compared as strings when tasks are sorted.
\<close>

section \<open>Constants and the ledger object\<close>

definition ALLOWED_STATES :: "string list" where
  "ALLOWED_STATES = [''TODO'', ''DOING'', ''BLOCKED'', ''HOLD'', ''DONE'', ''CANCELLED'']"

definition OPEN_STATES :: "string list" where
  "OPEN_STATES = [''TODO'', ''DOING'', ''BLOCKED'', ''HOLD'']"

definition REQUIRED_TASK_FIELDS :: "string list" where
  "REQUIRED_TASK_FIELDS =
     [''TASK_ID'', ''PARENT_INTENT'', ''TITLE'', ''DESCRIPTION'', ''STATE'', ''PRIORITY'',
      ''D3_COORDINATE'', ''DEPENDENCIES'', ''BLOCKERS'', ''COMPLETION_CRITERIA'',
      ''D4_EVIDENCE'', ''LAST_UPDATE'', ''NEXT_ACTION'']"

definition LIST_FIELDS :: "string list" where
  "LIST_FIELDS = [''DEPENDENCIES'', ''BLOCKERS'', ''D4_EVIDENCE'']"

definition PRIORITY_RANK :: "(string \<times> nat) list" where
  "PRIORITY_RANK = [(''P0'', 0), (''P1'', 1), (''P2'', 2), (''P3'', 3)]"

definition canonical_sha256 :: "(string \<Rightarrow> string) \<Rightarrow> json \<Rightarrow> string" where
  "canonical_sha256 sha v = sha (dumps_canonical v)"

record work_ledger =
  wl_path :: string
  wl_data :: "json dict"
  wl_sha :: string

definition tasks :: "json dict \<Rightarrow> json dict list" where
  "tasks d = map dict_of (arr_of (fld d ''TASKS''))"

definition set_tasks :: "json dict list \<Rightarrow> json dict \<Rightarrow> json dict" where
  "set_tasks ts d = dset ''TASKS'' (JArr (map JObj ts)) d"

section \<open>Reading and writing the file\<close>

definition validate_task :: "json \<Rightarrow> py_error + unit" where
  "validate_task v =
     e_bind (required_fields ''task missing fields'' REQUIRED_TASK_FIELDS v) (\<lambda>t.
     e_bind (in_strings (fld t ''STATE'') ALLOWED_STATES) (\<lambda>ok.
     e_bind (check ok (ValueErrorOn ''invalid STATE'' (fld t ''STATE''))) (\<lambda>_.
     first_error (\<lambda>f. check (is_arr (fld t f)) (ValueErrorOn ''must be a list'' (JStr f))) LIST_FIELDS)))"

fun check_tasks :: "json list \<Rightarrow> json list \<Rightarrow> py_error + unit" where
  "check_tasks seen [] = Inr ()"
| "check_tasks seen (t # ts) =
     e_bind (validate_task t) (\<lambda>_.
       let i = fld (dict_of t) ''TASK_ID'' in
       if \<not> hashable i then Inl (TypeError ''unhashable type'')
       else if \<exists>j \<in> set seen. pyeq j i then Inl (ValueErrorOn ''duplicate TASK_ID'' i)
       else check_tasks (i # seen) ts)"

definition parse_work_file :: "string \<Rightarrow> py_error + json dict" where
  "parse_work_file t =
     (case loads t of
        None \<Rightarrow> Inl JSONDecodeError
      | Some (JObj d) \<Rightarrow>
          (case dget d ''TASKS'' of
             Some (JArr ts) \<Rightarrow> e_bind (check_tasks [] ts) (\<lambda>_. Inr d)
           | _ \<Rightarrow> Inl (ValueError ''WORK_LEDGER TASKS must be a list''))
      | Some _ \<Rightarrow> Inl (AttributeError ''get''))"

definition open_work_ledger :: "string \<Rightarrow> world \<Rightarrow> py_error + work_ledger" where
  "open_work_ledger path w =
     (case files w path of
        None \<Rightarrow> Inl (FileNotFoundError path)
      | Some t \<Rightarrow> e_bind (parse_work_file t)
          (\<lambda>d. Inr \<lparr>wl_path = path, wl_data = d, wl_sha = sha256 w t\<rparr>))"

definition digest :: "string \<Rightarrow> ('o, string) obj_op" where
  "digest t = gets (\<lambda>(_, w). sha256 w t)"

definition wl_save :: "(work_ledger, unit) obj_op" where
  "wl_save = continuity_effect_scope
     (m_bind obj (\<lambda>l.
      m_bind (read_file (wl_path l)) (\<lambda>cur.
      m_bind (digest cur) (\<lambda>current_sha.
      m_then (guard (current_sha = wl_sha l) (RuntimeError ''WORK_LEDGER_PREIMAGE_DRIFT''))
     (m_bind now_op (\<lambda>now.
      let d = dset ''UPDATED_AT'' (JStr now) (wl_data l) in
      m_then (set_obj (l\<lparr>wl_data := d\<rparr>))
     (m_then (replace_file (wl_path l) (dumps_indent2 (JObj d) @ [CHR 10]))
     (m_bind (read_file (wl_path l)) (\<lambda>stored.
      m_bind (digest stored) (\<lambda>new_sha.
      set_obj (l\<lparr>wl_data := d, wl_sha := new_sha\<rparr>)))))))))))"

section \<open>Operations on one task\<close>

definition task_pos :: "json \<Rightarrow> json dict \<Rightarrow> nat option" where
  "task_pos task_id d = find_pos (\<lambda>t. pyeq (fld t ''TASK_ID'') task_id) (tasks d)"

text \<open>\<open>self._task(task_id)\<close>: the position and the task, or \<open>KeyError\<close>.\<close>

definition find_task :: "json \<Rightarrow> (work_ledger, nat \<times> json dict) obj_op" where
  "find_task task_id =
     m_bind obj (\<lambda>l. case task_pos task_id (wl_data l) of
       None \<Rightarrow> raise (KeyError ''task_id'')
     | Some i \<Rightarrow> ret (i, tasks (wl_data l) ! i))"

definition put_task :: "nat \<Rightarrow> json dict \<Rightarrow> (work_ledger, unit) obj_op" where
  "put_task i t =
     m_bind obj (\<lambda>l. set_obj (l\<lparr>wl_data := set_tasks ((tasks (wl_data l))[i := t]) (wl_data l)\<rparr>))"

definition append_task :: "json dict \<Rightarrow> (work_ledger, unit) obj_op" where
  "append_task t =
     m_bind obj (\<lambda>l. set_obj (l\<lparr>wl_data := set_tasks (tasks (wl_data l) @ [t]) (wl_data l)\<rparr>))"

definition closed :: "json dict \<Rightarrow> bool" where
  "closed t \<longleftrightarrow> fld t ''STATE'' = JStr ''DONE'' \<or> truthy (fld t ''COMPLETION_SEAL'')"

definition create_task :: "json dict \<Rightarrow> (work_ledger, json) obj_op" where
  "create_task task =
     m_bind now_op (\<lambda>now.
     let t = (if dhas task ''LAST_UPDATE'' then task else dset ''LAST_UPDATE'' (JStr now) task) in
     m_then (lift (validate_task (JObj t)))
    (m_bind obj (\<lambda>l.
     m_then (guard (\<not> (\<exists>u \<in> set (tasks (wl_data l)). pyeq (fld u ''TASK_ID'') (fld t ''TASK_ID'')))
               (ValueErrorOn ''TASK_ID already exists'' (fld t ''TASK_ID'')))
    (m_then (append_task t)
    (m_then wl_save (ret (JObj t)))))))"

text \<open>The last steps of \<open>update_task\<close>: the stored task changes before it is checked.\<close>

definition store_update :: "nat \<Rightarrow> json dict \<Rightarrow> json dict \<Rightarrow> (work_ledger, json) obj_op" where
  "store_update i t changes =
     m_then (put_task i (dmerge t changes))
    (m_bind now_op (\<lambda>now.
     let t' = dset ''LAST_UPDATE'' (JStr now) (dmerge t changes) in
     m_then (put_task i t')
    (m_then (lift (validate_task (JObj t')))
    (m_then wl_save (ret (JObj t'))))))"

definition update_task :: "json \<Rightarrow> json dict \<Rightarrow> (work_ledger, json) obj_op" where
  "update_task task_id changes =
     m_then (guard (\<not> (dhas changes ''TASK_ID'' \<and> \<not> pyeq (fld changes ''TASK_ID'') task_id))
               (ValueError ''TASK_ID is immutable''))
    (m_bind (if dhas changes ''STATE''
             then lift (in_strings (fld changes ''STATE'') ALLOWED_STATES) else ret True) (\<lambda>ok.
     m_then (guard ok (ValueErrorOn ''invalid STATE'' (fld changes ''STATE'')))
    (m_bind (find_task task_id) (\<lambda>(i, t).
     if closed t then
       m_then (guard (effective changes t = []) (ValueError ''closed task requires explicit reopen_task''))
              (ret (JObj t))
     else store_update i t changes))))"

definition scope_payload :: "json dict \<Rightarrow> json" where
  "scope_payload t = JObj
     [(''TASK_ID'', fld t ''TASK_ID''), (''PARENT_INTENT'', fld t ''PARENT_INTENT''),
      (''TITLE'', fld t ''TITLE''), (''DESCRIPTION'', fld t ''DESCRIPTION''),
      (''PRIORITY'', fld t ''PRIORITY''), (''D3_COORDINATE'', fld t ''D3_COORDINATE''),
      (''DEPENDENCIES'', fld t ''DEPENDENCIES''),
      (''COMPLETION_CRITERIA'', fld t ''COMPLETION_CRITERIA'')]"

text \<open>\<open>v.append(x)\<close> for a list; any other JSON value has no \<open>append\<close>.\<close>

definition py_append :: "json \<Rightarrow> json \<Rightarrow> py_error + json" where
  "py_append v x = (case v of JArr xs \<Rightarrow> Inr (JArr (xs @ [x])) | _ \<Rightarrow> Inl (AttributeError ''append''))"

definition completion_seal :: "(string \<Rightarrow> string) \<Rightarrow> json dict \<Rightarrow> json \<Rightarrow> string \<Rightarrow> json \<Rightarrow> json" where
  "completion_seal sha t evidence_items closed_at closed_head = JObj
     [(''CLOSED_AT'', JStr closed_at), (''CLOSED_HEAD'', closed_head),
      (''SCOPE_SHA256'', JStr (canonical_sha256 sha (scope_payload t))),
      (''EVIDENCE_SHA256'', JStr (canonical_sha256 sha evidence_items))]"

definition completion_changes :: "json \<Rightarrow> string \<Rightarrow> json \<Rightarrow> json \<Rightarrow> json dict" where
  "completion_changes evidence_items closed_at closed_head seal =
     [(''STATE'', JStr ''DONE''), (''D4_EVIDENCE'', evidence_items), (''BLOCKERS'', JArr []),
      (''NEXT_ACTION'', JStr ''NONE''), (''CLOSED_AT'', JStr closed_at),
      (''CLOSED_HEAD'', closed_head), (''COMPLETION_SEAL'', seal)]"

text \<open>\<open>closed_head or "UNSPECIFIED"\<close>, for an optional string.\<close>

definition head_or_unspecified :: "string option \<Rightarrow> json" where
  "head_or_unspecified h =
     (case h of Some s \<Rightarrow> (if s \<noteq> [] then JStr s else JStr ''UNSPECIFIED'') | None \<Rightarrow> JStr ''UNSPECIFIED'')"

definition complete_task :: "json \<Rightarrow> json option \<Rightarrow> string option \<Rightarrow> (work_ledger, json) obj_op" where
  "complete_task task_id evidence closed_head =
     m_bind (find_task task_id) (\<lambda>(i, t).
     m_then (guard (\<not> closed t) (ValueError ''task already closed''))
    (m_bind (lift (case evidence of None \<Rightarrow> Inr (fld t ''D4_EVIDENCE'')
                                  | Some e \<Rightarrow> py_append (fld t ''D4_EVIDENCE'') e)) (\<lambda>evidence_items.
     m_bind now_op (\<lambda>closed_at.
     m_bind (gets (\<lambda>(_, w). sha256 w)) (\<lambda>sha.
     let head = head_or_unspecified closed_head in
     update_task task_id
       (completion_changes evidence_items closed_at head
          (completion_seal sha t evidence_items closed_at head)))))))"

definition previous_seal :: "(string \<Rightarrow> string) \<Rightarrow> json dict \<Rightarrow> json" where
  "previous_seal sha t =
     (if fld t ''COMPLETION_SEAL'' = JNull
      then JObj [(''LEGACY_UNSEALED'', JBool True),
                 (''TASK_STATE_SHA256'', JStr (canonical_sha256 sha (JObj t)))]
      else fld t ''COMPLETION_SEAL'')"

definition reopen_record :: "string \<Rightarrow> string \<Rightarrow> string \<Rightarrow> json \<Rightarrow> json" where
  "reopen_record now reason authority_ref seal = JObj
     [(''REOPENED_AT'', JStr now), (''REASON'', JStr reason),
      (''AUTHORITY_REF'', JStr authority_ref), (''PREVIOUS_COMPLETION_SEAL'', seal)]"

definition reopened :: "json dict \<Rightarrow> string \<Rightarrow> json \<Rightarrow> json dict" where
  "reopened t next_action history =
     dpop ''CLOSED_HEAD'' (dpop ''CLOSED_AT'' (dpop ''COMPLETION_SEAL''
       (dset ''REOPEN_HISTORY'' history (dset ''BLOCKERS'' (JArr [])
         (dset ''NEXT_ACTION'' (JStr next_action) (dset ''STATE'' (JStr ''TODO'') t))))))"

definition reopen_task :: "json \<Rightarrow> string \<Rightarrow> string \<Rightarrow> string \<Rightarrow> (work_ledger, json) obj_op" where
  "reopen_task task_id reason authority_ref next_action =
     m_then (guard (\<not> blank reason) (ValueError ''reopen reason required''))
    (m_then (guard (\<not> blank authority_ref) (ValueError ''reopen authority_ref required''))
    (m_then (guard (\<not> (blank next_action \<or> next_action = ''NONE''))
               (ValueError ''explicit reopen next_action required''))
    (m_bind (find_task task_id) (\<lambda>(i, t).
     m_then (guard (fld t ''STATE'' = JStr ''DONE'') (ValueError ''only DONE task can be reopened''))
    (m_bind (gets (\<lambda>(_, w). previous_seal (sha256 w) t)) (\<lambda>seal.
     m_bind now_op (\<lambda>now.
     m_bind (lift (py_append (if dhas t ''REOPEN_HISTORY'' then fld t ''REOPEN_HISTORY'' else JArr [])
                     (reopen_record now reason authority_ref seal))) (\<lambda>history.
     m_bind now_op (\<lambda>now2.
     let t' = dset ''LAST_UPDATE'' (JStr now2) (reopened t next_action history) in
     m_then (put_task i t')
    (m_then (lift (validate_task (JObj t')))
    (m_then wl_save (ret (JObj t')))))))))))))"

definition block_task :: "json \<Rightarrow> json \<Rightarrow> (work_ledger, json) obj_op" where
  "block_task task_id blocker =
     m_bind (find_task task_id) (\<lambda>(i, t).
     m_bind (lift (py_list (fld t ''BLOCKERS''))) (\<lambda>bs.
     let blockers = (if \<exists>b \<in> set bs. pyeq b blocker then bs else bs @ [blocker]) in
     update_task task_id [(''STATE'', JStr ''BLOCKED''), (''BLOCKERS'', JArr blockers)]))"

section \<open>Queries\<close>

definition priority_rank :: "json \<Rightarrow> py_error + nat" where
  "priority_rank p =
     (if hashable p
      then Inr (case p of JStr s \<Rightarrow> (case map_of PRIORITY_RANK s of Some n \<Rightarrow> n | None \<Rightarrow> 99) | _ \<Rightarrow> 99)
      else Inl (TypeError ''unhashable type''))"

definition rank_of :: "json dict \<Rightarrow> nat" where
  "rank_of t = (case priority_rank (fld t ''PRIORITY'') of Inr n \<Rightarrow> n | Inl _ \<Rightarrow> 0)"

definition doing_rank :: "json dict \<Rightarrow> nat" where
  "doing_rank t = (if fld t ''STATE'' = JStr ''DOING'' then 0 else 1)"

definition open_key :: "json dict \<Rightarrow> nat \<times> nat \<times> string" where
  "open_key t = (rank_of t, doing_rank t, str_of (fld t ''TASK_ID''))"

definition list_open_tasks :: "work_ledger \<Rightarrow> py_error + json dict list" where
  "list_open_tasks l =
     e_bind (filter_err (\<lambda>t. in_strings (fld t ''STATE'') OPEN_STATES) (tasks (wl_data l))) (\<lambda>ts.
     e_bind (map_err (\<lambda>t. priority_rank (fld t ''PRIORITY'')) ts) (\<lambda>_.
     Inr (sort_key open_key ts)))"

text \<open>The dict \<open>{TASK_ID: STATE}\<close>; of equal identifiers the last one counts.\<close>

definition known_state :: "json dict list \<Rightarrow> json \<Rightarrow> json option" where
  "known_state ts i = map_option (\<lambda>t. fld t ''STATE'') (List.find (\<lambda>t. pyeq (fld t ''TASK_ID'') i) (rev ts))"

fun deps_done :: "json dict list \<Rightarrow> json list \<Rightarrow> py_error + bool" where
  "deps_done ts [] = Inr True"
| "deps_done ts (dep # deps) =
     (if \<not> hashable dep then Inl (TypeError ''unhashable type'')
      else case known_state ts dep of
        Some s \<Rightarrow> if s \<noteq> JStr ''DONE'' then Inr False else deps_done ts deps
      | None \<Rightarrow> deps_done ts deps)"

definition dependencies_done :: "json dict list \<Rightarrow> json dict \<Rightarrow> py_error + bool" where
  "dependencies_done ts t =
     (if \<exists>u \<in> set ts. \<not> hashable (fld u ''TASK_ID'') then Inl (TypeError ''unhashable type'')
      else e_bind (py_list (fld t ''DEPENDENCIES'')) (deps_done ts))"

definition actionable :: "json dict list \<Rightarrow> json dict \<Rightarrow> py_error + bool" where
  "actionable ts t =
     (if fld t ''STATE'' \<noteq> JStr ''DOING'' \<and> fld t ''STATE'' \<noteq> JStr ''TODO'' then Inr False
      else if truthy (fld t ''BLOCKERS'') then Inr False
      else e_bind (dependencies_done ts t) (\<lambda>ok.
        if \<not> ok then Inr False
        else if \<not> hashable (fld t ''NEXT_ACTION'') then Inl (TypeError ''unhashable type'')
        else Inr (fld t ''NEXT_ACTION'' \<notin> {JStr [], JStr ''NONE'', JNull})))"

definition next_key :: "string list \<Rightarrow> json dict \<Rightarrow> nat \<times> nat \<times> nat \<times> string" where
  "next_key active t =
     (if \<exists>s \<in> set active. fld t ''TASK_ID'' = JStr s then 0 else 1, open_key t)"

definition get_next_action :: "work_ledger \<Rightarrow> string list \<Rightarrow> py_error + json dict option" where
  "get_next_action l verified_active =
     e_bind (list_open_tasks l) (\<lambda>ts.
     e_bind (filter_err (actionable (tasks (wl_data l))) ts) (\<lambda>candidates.
     Inr (if candidates = [] then None
          else let t = hd (sort_key (next_key verified_active) candidates)
               in Some [(''TASK_ID'', fld t ''TASK_ID''), (''NEXT_ACTION'', fld t ''NEXT_ACTION'')])))"

section \<open>The module's functions\<close>

text \<open>Each opens the ledger anew and performs one operation.\<close>

definition with_ledger :: "string \<Rightarrow> (work_ledger, 'a) obj_op \<Rightarrow> world \<Rightarrow> (py_error + 'a) \<times> world" where
  "with_ledger path m w =
     (case open_work_ledger path w of
        Inl e \<Rightarrow> (Inl e, w)
      | Inr l \<Rightarrow> (case m (l, w) of (r, (_, w')) \<Rightarrow> (r, w')))"

definition create_task_at :: "json dict \<Rightarrow> string \<Rightarrow> world \<Rightarrow> (py_error + json) \<times> world" where
  "create_task_at task path = with_ledger path (create_task task)"

definition update_task_at :: "json \<Rightarrow> string \<Rightarrow> json dict \<Rightarrow> world \<Rightarrow> (py_error + json) \<times> world" where
  "update_task_at task_id path changes = with_ledger path (update_task task_id changes)"

definition complete_task_at ::
  "json \<Rightarrow> json option \<Rightarrow> string \<Rightarrow> string option \<Rightarrow> world \<Rightarrow> (py_error + json) \<times> world" where
  "complete_task_at task_id evidence path closed_head =
     with_ledger path (complete_task task_id evidence closed_head)"

definition reopen_task_at ::
  "json \<Rightarrow> string \<Rightarrow> string \<Rightarrow> string \<Rightarrow> string \<Rightarrow> world \<Rightarrow> (py_error + json) \<times> world" where
  "reopen_task_at task_id reason authority_ref next_action path =
     with_ledger path (reopen_task task_id reason authority_ref next_action)"

definition block_task_at :: "json \<Rightarrow> json \<Rightarrow> string \<Rightarrow> world \<Rightarrow> (py_error + json) \<times> world" where
  "block_task_at task_id blocker path = with_ledger path (block_task task_id blocker)"

definition list_open_tasks_at :: "string \<Rightarrow> world \<Rightarrow> py_error + json dict list" where
  "list_open_tasks_at path w = e_bind (open_work_ledger path w) list_open_tasks"

definition get_next_action_at :: "string \<Rightarrow> string list \<Rightarrow> world \<Rightarrow> py_error + json dict option" where
  "get_next_action_at path verified_active w =
     e_bind (open_work_ledger path w) (\<lambda>l. get_next_action l verified_active)"

end
