(* ===== verification/WorkInvariant.thy ===== *)
theory WorkInvariant
  imports WorkLedger ActionInvariant
begin

text \<open>
  The work ledger's write discipline and its data invariant.  Every operation is a
  sequence of small steps on the object and at most one save, and a save happens only
  when the file is still the one the object has seen.  An operation on an object whose
  data is well formed stores well-formed data, and what it stores extends the history of
  the tasks.
\<close>

section \<open>One save\<close>

lemma set_tasks_entries: "tasks d = entries ''TASKS'' d" "set_tasks ts d = set_entries ''TASKS'' ts d"
  by (simp_all add: tasks_def entries_def set_tasks_def set_entries_def)

lemma tasks_set_tasks [simp]: "tasks (set_tasks ts d) = ts"
  by (simp add: set_tasks_entries)

lemma tasks_dset_other [simp]: "k \<noteq> ''TASKS'' \<Longrightarrow> tasks (dset k v d) = tasks d"
  by (simp add: set_tasks_entries)

definition released :: "world \<Rightarrow> world" where
  "released w = (if scope_depth w = 0 then w\<lparr>lock_held := False\<rparr> else w)"

lemma released_simps [simp]:
  "files (released w) = files w" "clock (released w) = clock w" "ticks (released w) = ticks w"
  "sha256 (released w) = sha256 w" "scope_depth (released w) = scope_depth w"
  by (simp_all add: released_def)

text \<open>The file is the one the object loaded or last saved, as far as the digest tells.\<close>

definition fresh :: "work_ledger \<Rightarrow> world \<Rightarrow> bool" where
  "fresh l w \<longleftrightarrow> (\<exists>t. files w (wl_path l) = Some t \<and> sha256 w t = wl_sha l)"

definition stamp :: "world \<Rightarrow> json dict \<Rightarrow> json dict" where
  "stamp w d = dset ''UPDATED_AT'' (JStr (clock w (ticks w))) d"

lemma tasks_stamp [simp]: "tasks (stamp w d) = tasks d"
  by (simp add: stamp_def)

lemma wl_save_fresh:
  assumes "fresh l w"
  shows "wl_save (l, w) =
    (Inr (), (l\<lparr>wl_data := stamp w (wl_data l), wl_sha := sha256 w (render (stamp w (wl_data l)))\<rparr>,
      (released w)\<lparr>ticks := Suc (ticks w),
         files := (files w)(wl_path l \<mapsto> render (stamp w (wl_data l)))\<rparr>))"
  using assms
  by (cases w) (auto simp: wl_save_def continuity_effect_scope_def fresh_def digest_def released_def
      stamp_def render_def Let_def)

lemma wl_save_stale:
  assumes "\<not> fresh l w"
  shows "\<exists>e. wl_save (l, w) = (Inl e, (l, released w))"
  using assms
  by (cases w; cases "files w (wl_path l)")
    (auto simp: wl_save_def continuity_effect_scope_def fresh_def digest_def released_def)

section \<open>The write discipline\<close>

text \<open>
  What one operation may do to the object and the files: nothing to the file, or, if the
  object was fresh, replace its file, after which it is fresh again.
\<close>

definition disciplined :: "work_ledger \<times> world \<Rightarrow> work_ledger \<times> world \<Rightarrow> bool" where
  "disciplined s t \<longleftrightarrow>
     wl_path (fst t) = wl_path (fst s) \<and> sha256 (snd t) = sha256 (snd s) \<and>
     (files (snd t) = files (snd s) \<and> wl_sha (fst t) = wl_sha (fst s) \<or>
      fresh (fst s) (snd s) \<and> fresh (fst t) (snd t) \<and>
      (\<exists>d. files (snd t) = (files (snd s))(wl_path (fst s) \<mapsto> render d)))"

lemma disciplined_refl [simp]: "disciplined s s"
  by (simp add: disciplined_def)

lemma disciplined_trans: "disciplined s t \<Longrightarrow> disciplined t u \<Longrightarrow> disciplined s u"
  by (auto simp: disciplined_def fresh_def)

abbreviation keeps_discipline :: "(work_ledger, 'a) obj_op \<Rightarrow> bool" where
  "keeps_discipline m \<equiv> keeps disciplined m"

lemma discipline_bind:
  "keeps_discipline m \<Longrightarrow> (\<And>a. keeps_discipline (f a)) \<Longrightarrow> keeps_discipline (m_bind m f)"
  by (rule keeps_bind) (auto intro: disciplined_trans)

lemma discipline_then:
  "keeps_discipline m \<Longrightarrow> keeps_discipline n \<Longrightarrow> keeps_discipline (m_then m n)"
  unfolding m_then_def by (rule discipline_bind)

lemma discipline_basic:
  "keeps_discipline (ret a)" "keeps_discipline (raise e)" "keeps_discipline (lift r)"
  "keeps_discipline (guard b e)" "keeps_discipline (gets f)" "keeps_discipline obj"
  by (auto simp: keeps_def)

lemma discipline_now: "keeps_discipline now_op"
  by (auto simp: keeps_def disciplined_def)

lemma discipline_objects:
  "keeps_discipline (put_task i t)" "keeps_discipline (append_task t)"
  by (auto simp: keeps_def disciplined_def put_task_def append_task_def)

lemma discipline_find: "keeps_discipline (find_task i)"
  unfolding find_task_def by (intro discipline_bind) (auto simp: keeps_def split: option.split)

lemma discipline_save: "keeps_discipline wl_save"
  unfolding keeps_def
proof (clarify)
  fix l :: work_ledger and w :: world
  show "disciplined (l, w) (snd (wl_save (l, w)))"
  proof (cases "fresh l w")
    case True
    then show ?thesis by (auto simp: wl_save_fresh disciplined_def fresh_def)
  next
    case False
    then obtain e where "wl_save (l, w) = (Inl e, (l, released w))" using wl_save_stale by blast
    then show ?thesis by (simp add: disciplined_def)
  qed
qed

lemmas discipline_intros = discipline_then discipline_bind discipline_basic discipline_now
  discipline_objects discipline_find discipline_save

lemma discipline_if: "keeps_discipline m \<Longrightarrow> keeps_discipline n \<Longrightarrow> keeps_discipline (if b then m else n)"
  by simp

section \<open>Calls\<close>

datatype work_call =
    Create "json dict"
  | UpdateTask json "json dict"
  | CompleteTask json "json option" "string option"
  | ReopenTask json string string string
  | BlockTask json json

fun run_work :: "work_call \<Rightarrow> (work_ledger, json) obj_op" where
  "run_work (Create t) = create_task t"
| "run_work (UpdateTask i ch) = update_task i ch"
| "run_work (CompleteTask i e h) = complete_task i e h"
| "run_work (ReopenTask i r a n) = reopen_task i r a n"
| "run_work (BlockTask i b) = block_task i b"

lemma discipline_update: "keeps_discipline (update_task i ch)"
  unfolding update_task_def store_update_def Let_def
  by (intro discipline_intros discipline_if) (auto simp: split_beta intro!: discipline_intros discipline_if)

lemma discipline_call: "keeps_discipline (run_work c)"
proof (cases c)
  case (Create t)
  show ?thesis unfolding Create run_work.simps create_task_def Let_def
    by (intro discipline_intros)
next
  case (UpdateTask i ch)
  then show ?thesis by (simp add: discipline_update)
next
  case (CompleteTask i e h)
  show ?thesis unfolding CompleteTask run_work.simps complete_task_def Let_def split_beta
    by (intro discipline_intros discipline_update)
next
  case (ReopenTask i r a n)
  show ?thesis unfolding ReopenTask run_work.simps reopen_task_def Let_def split_beta
    by (intro discipline_intros)
next
  case (BlockTask i b)
  show ?thesis unfolding BlockTask run_work.simps block_task_def Let_def split_beta
    by (intro discipline_intros discipline_update)
qed

lemma run_work_disciplined:
  "run_work c (l, w) = (r, (l', w')) \<Longrightarrow> disciplined (l, w) (l', w')"
  using discipline_call [of c] by (metis keeps_def snd_conv)

section \<open>Well-formed data\<close>

definition task_ok :: "json dict \<Rightarrow> bool" where
  "task_ok t \<longleftrightarrow> dict_wf t \<and> validate_task (JObj t) = Inr () \<and> hashable (fld t ''TASK_ID'')"

definition wl_ok :: "json dict \<Rightarrow> bool" where
  "wl_ok d \<longleftrightarrow>
     dict_wf d \<and> dget d ''TASKS'' = Some (JArr (map JObj (tasks d))) \<and>
     (\<forall>t \<in> set (tasks d). task_ok t) \<and> distinct_by ''TASK_ID'' (tasks d)"

lemma wl_ok_task: "wl_ok d \<Longrightarrow> k < length (tasks d) \<Longrightarrow> dict_wf (tasks d ! k)"
  using nth_mem unfolding wl_ok_def task_ok_def by blast

interpretation work_file: entry_file "''TASK_ID''" validate_task check_tasks "''TASKS''"
    parse_work_file
  by unfold_locales (auto simp: parse_work_file_def e_bind_InrD Let_def)

lemma parse_work: "wl_ok d \<Longrightarrow> parse_work_file (render d) = Inr d"
  by (rule work_file.parse_rendered [of d "tasks d"]) (simp_all add: wl_ok_def task_ok_def)

lemma wl_okI:
  assumes "dict_wf d" and "\<forall>t \<in> set ts. task_ok t" and "distinct_by ''TASK_ID'' ts"
  shows "wl_ok (stamp w (set_tasks ts d))"
proof -
  have "dict_wf (set_tasks ts d)"
    unfolding set_tasks_def using assms(1,2) by (intro dict_wf_dset) (auto simp: task_ok_def)
  then have "dict_wf (stamp w (set_tasks ts d))"
    unfolding stamp_def by (rule dict_wf_dset) simp
  moreover have "dget (stamp w (set_tasks ts d)) ''TASKS'' = Some (JArr (map JObj ts))"
    by (simp add: stamp_def set_tasks_def)
  ultimately show ?thesis
    using assms(2,3) by (simp add: wl_ok_def)
qed

lemma validate_task_JObj:
  "validate_task (JObj t) = Inr () \<longleftrightarrow>
     (\<forall>k \<in> set REQUIRED_TASK_FIELDS. dhas t k) \<and> (\<exists>s \<in> set ALLOWED_STATES. fld t ''STATE'' = JStr s) \<and>
     (\<forall>k \<in> set LIST_FIELDS. is_arr (fld t k))"
  by (auto simp: validate_task_def e_bind_InrD required_fields_Inr in_strings_True first_error_Inr)

text \<open>The end of every operation: check the task that was put into memory, then save.\<close>

lemma check_and_save:
  assumes "m_then (lift (validate_task (JObj t))) (m_then wl_save (ret v)) (l, w) = (r, (l', w'))"
  shows "files w' = files w \<or>
    validate_task (JObj t) = Inr () \<and> files w' = (files w)(wl_path l \<mapsto> render (stamp w (wl_data l)))"
proof (cases "validate_task (JObj t) = Inr () \<and> fresh l w")
  case True
  with assms show ?thesis by (auto simp: wl_save_fresh)
next
  case False
  then show ?thesis
  proof (cases "validate_task (JObj t)")
    case (Inr u)
    with False obtain e where "wl_save (l, w) = (Inl e, (l, released w))" using wl_save_stale by auto
    with Inr assms show ?thesis by auto
  qed (use assms in auto)
qed

lemma find_task_apply:
  "find_task i (l, w) = (case task_pos i (wl_data l) of
     None \<Rightarrow> (Inl (KeyError ''task_id''), (l, w)) | Some k \<Rightarrow> (Inr (k, tasks (wl_data l) ! k), (l, w)))"
  by (simp add: find_task_def split: option.split)

lemma put_task_apply [simp]:
  "put_task i t (l, w) = (Inr (), (l\<lparr>wl_data := set_tasks ((tasks (wl_data l))[i := t]) (wl_data l)\<rparr>, w))"
  by (simp add: put_task_def)

lemma set_tasks_twice [simp]: "set_tasks ts (set_tasks us d) = set_tasks ts d"
  by (simp add: set_tasks_def update_last)

lemma task_pos_Some:
  "task_pos i d = Some k \<Longrightarrow> k < length (tasks d) \<and> pyeq (fld (tasks d ! k) ''TASK_ID'') i"
  unfolding task_pos_def by (drule find_pos_SomeD) simp

section \<open>History\<close>

text \<open>The only way a closed task changes: a reopening with a reason and an authority, that
  records the seal it removes.\<close>

definition reopen_of :: "work_call \<Rightarrow> json dict \<Rightarrow> json dict \<Rightarrow> bool" where
  "reopen_of c t t' \<longleftrightarrow>
     (\<exists>i reason authority action now seal.
        c = ReopenTask i reason authority action \<and> pyeq (fld t ''TASK_ID'') i \<and>
        \<not> blank reason \<and> \<not> blank authority \<and> fld t ''STATE'' = JStr ''DONE'' \<and>
        fld t' ''STATE'' = JStr ''TODO'' \<and>
        (fld t ''COMPLETION_SEAL'' \<noteq> JNull \<longrightarrow> seal = fld t ''COMPLETION_SEAL'') \<and>
        fld t' ''REOPEN_HISTORY'' =
          JArr (arr_of (fld t ''REOPEN_HISTORY'') @ [reopen_record now reason authority seal]))"

definition wl_extends :: "work_call \<Rightarrow> json dict \<Rightarrow> json dict \<Rightarrow> bool" where
  "wl_extends c d d' \<longleftrightarrow>
     length (tasks d) \<le> length (tasks d') \<and>
     (\<forall>i < length (tasks d).
        pyeq (fld (tasks d' ! i) ''TASK_ID'') (fld (tasks d ! i) ''TASK_ID'') \<and>
        (closed (tasks d ! i) \<longrightarrow>
           tasks d' ! i = tasks d ! i \<or> reopen_of c (tasks d ! i) (tasks d' ! i)))"

definition wl_step :: "work_call \<Rightarrow> work_ledger \<Rightarrow> world \<Rightarrow> world \<Rightarrow> bool" where
  "wl_step c l w w' \<longleftrightarrow>
     files w' = files w \<or>
     (\<exists>d. wl_ok d \<and> wl_extends c (wl_data l) d \<and> files w' = (files w)(wl_path l \<mapsto> render d))"

lemma wl_step_refl [simp]: "files w' = files w \<Longrightarrow> wl_step c l w w'"
  by (simp add: wl_step_def)

text \<open>Replacing one task by a checked successor.\<close>

lemma replace_step:
  assumes ok: "wl_ok (wl_data l)" and i: "i < length (tasks (wl_data l))"
    and run: "m_then (lift (validate_task (JObj t'))) (m_then wl_save (ret v))
       (l\<lparr>wl_data := set_tasks ((tasks (wl_data l))[i := t']) (wl_data l)\<rparr>, w1) = (r, (l', w'))"
    and fw: "files w1 = files w"
    and same: "pyeq (fld t' ''TASK_ID'') (fld (tasks (wl_data l) ! i) ''TASK_ID'')"
    and wf: "dict_wf t'"
    and cl: "closed (tasks (wl_data l) ! i) \<Longrightarrow> reopen_of c (tasks (wl_data l) ! i) t'"
  shows "wl_step c l w w'"
proof -
  let ?ts = "(tasks (wl_data l))[i := t']"
  from check_and_save [OF run] show ?thesis
  proof
    assume "files w' = files w1"
    with fw show ?thesis by simp
  next
    assume "validate_task (JObj t') = Inr () \<and>
      files w' = (files w1)(wl_path (l\<lparr>wl_data := set_tasks ?ts (wl_data l)\<rparr>) \<mapsto>
        render (stamp w1 (wl_data (l\<lparr>wl_data := set_tasks ?ts (wl_data l)\<rparr>))))"
    then have v: "validate_task (JObj t') = Inr ()"
      and f: "files w' = (files w)(wl_path l \<mapsto> render (stamp w1 (set_tasks ?ts (wl_data l))))"
      using fw by simp_all
    from ok i have "task_ok (tasks (wl_data l) ! i)" by (simp add: wl_ok_def)
    with v wf same have "task_ok t'" using pyeq_hashable by (auto simp: task_ok_def)
    with ok have "\<forall>t \<in> set ?ts. task_ok t" unfolding wl_ok_def by (intro set_update_all) auto
    moreover have "distinct_by ''TASK_ID'' ?ts"
      using ok i same by (intro distinct_by_replace) (simp_all add: wl_ok_def)
    ultimately have "wl_ok (stamp w1 (set_tasks ?ts (wl_data l)))"
      using ok by (intro wl_okI) (simp_all add: wl_ok_def)
    moreover have "wl_extends c (wl_data l) (stamp w1 (set_tasks ?ts (wl_data l)))"
      using i same cl by (auto simp: wl_extends_def stamp_def nth_list_update)
    ultimately show ?thesis using f by (auto simp: wl_step_def)
  qed
qed

lemma create_step:
  assumes ok: "wl_ok (wl_data l)" and wf: "dict_wf task" and h: "hashable (fld task ''TASK_ID'')"
    and run: "create_task task (l, w) = (r, (l', w'))"
  shows "wl_step (Create task) l w w'"
proof -
  define t where "t = (if dhas task ''LAST_UPDATE'' then task
    else dset ''LAST_UPDATE'' (JStr (clock w (ticks w))) task)"
  let ?w = "w\<lparr>ticks := Suc (ticks w)\<rparr>"
  let ?ts = "tasks (wl_data l) @ [t]"
  let ?l = "l\<lparr>wl_data := set_tasks ?ts (wl_data l)\<rparr>"
  have t: "dict_wf t" "hashable (fld t ''TASK_ID'')"
    using wf h dict_wf_dset [OF wf, of "JStr (clock w (ticks w))"] by (auto simp: t_def)
  show ?thesis
  proof (cases "validate_task (JObj t) = Inr () \<and>
      (\<forall>u \<in> set (tasks (wl_data l)). \<not> pyeq (fld u ''TASK_ID'') (fld t ''TASK_ID''))")
    case True
    with run have "m_then (lift (validate_task (JObj t))) (m_then wl_save (ret (JObj t))) (?l, ?w)
        = (r, (l', w'))"
      by (simp add: create_task_def append_task_def t_def [symmetric])
    from check_and_save [OF this] show ?thesis
    proof
      assume "validate_task (JObj t) = Inr () \<and> files w' = (files ?w)(wl_path ?l \<mapsto> render (stamp ?w (wl_data ?l)))"
      then have f: "files w' = (files w)(wl_path l \<mapsto> render (stamp ?w (set_tasks ?ts (wl_data l))))"
        by simp
      have "wl_ok (stamp ?w (set_tasks ?ts (wl_data l)))"
        using ok t True
        by (intro wl_okI distinct_by_snoc) (auto simp: wl_ok_def task_ok_def)
      moreover have "wl_extends (Create task) (wl_data l) (stamp ?w (set_tasks ?ts (wl_data l)))"
        by (simp add: wl_extends_def stamp_def nth_append)
      ultimately show ?thesis using f by (auto simp: wl_step_def)
    qed simp
  next
    case False
    with run have "files w' = files w"
      by (cases "validate_task (JObj t)")
        (auto simp: create_task_def Let_def t_def [symmetric] split: if_splits)
    then show ?thesis by simp
  qed
qed

text \<open>What an update that touches the file has gone through.\<close>

lemma update_task_cases:
  assumes "update_task i ch (l, w) = (r, (l', w'))"
  obtains (no_write) "files w' = files w"
  | (stored) k t where "task_pos i (wl_data l) = Some k" "t = tasks (wl_data l) ! k" "\<not> closed t"
      "dhas ch ''TASK_ID'' \<longrightarrow> pyeq (fld ch ''TASK_ID'') i"
      "store_update k t ch (l, w) = (r, (l', w'))"
proof (cases "files w' = files w")
  case False
  from False assms obtain k where k: "task_pos i (wl_data l) = Some k"
    by (cases "task_pos i (wl_data l)")
      (auto simp: update_task_def find_task_apply guard_bind_cases m_bind_def [of "find_task i"]
        split: if_splits sum.splits)
  show ?thesis
    by (rule stored [OF k refl])
      (use False assms k in \<open>auto simp: update_task_def find_task_apply guard_bind_cases
         m_bind_def [of "find_task i"] split: if_splits sum.splits\<close>)
qed (rule no_write)

lemma update_step:
  assumes ok: "wl_ok (wl_data l)" and wf: "dict_wf ch"
    and run: "update_task i ch (l, w) = (r, (l', w'))"
  shows "wl_step c l w w'"
  using run
proof (cases rule: update_task_cases)
  case (stored k t)
  let ?t = "dset ''LAST_UPDATE'' (JStr (clock w (ticks w))) (dmerge t ch)"
  from task_pos_Some [OF stored(1)] have k: "k < length (tasks (wl_data l))"
    and id: "pyeq (fld t ''TASK_ID'') i" by (simp_all add: stored(2))
  with ok have "dict_wf t" unfolding stored(2) by (intro wl_ok_task)
  then have wft: "dict_wf ?t" using wf by (intro dict_wf_dset dict_wf_dmerge) auto
  from wf have "distinct (dkeys ch)" by simp
  then have same: "pyeq (fld ?t ''TASK_ID'') (fld t ''TASK_ID'')"
    using stored(4) id by (auto simp: fld_dmerge pyeq_def)
  show ?thesis
  proof (rule replace_step [OF ok k _ _ _ wft])
    show "m_then (lift (validate_task (JObj ?t))) (m_then wl_save (ret (JObj ?t)))
        (l\<lparr>wl_data := set_tasks ((tasks (wl_data l))[k := ?t]) (wl_data l)\<rparr>,
         w\<lparr>ticks := Suc (ticks w)\<rparr>) = (r, (l', w'))"
      using stored(5) by (simp add: store_update_def Let_def)
  qed (use stored same in auto)
qed simp

lemma complete_step:
  assumes ok: "wl_ok (wl_data l)" and wf: "\<forall>e. evidence = Some e \<longrightarrow> jwf e"
    and run: "complete_task i evidence h (l, w) = (r, (l', w'))"
  shows "wl_step c l w w'"
proof (cases "files w' = files w")
  case False
  from False run obtain k items where k: "task_pos i (wl_data l) = Some k"
    and items: "(case evidence of None \<Rightarrow> Inr (fld (tasks (wl_data l) ! k) ''D4_EVIDENCE'')
        | Some e \<Rightarrow> py_append (fld (tasks (wl_data l) ! k) ''D4_EVIDENCE'') e) = Inr items"
    by (cases "task_pos i (wl_data l)")
      (auto simp: complete_task_def find_task_apply guard_bind_cases m_bind_def [of "find_task i"]
        split: if_splits sum.splits)
  let ?t = "tasks (wl_data l) ! k" and ?w = "w\<lparr>ticks := Suc (ticks w)\<rparr>"
  let ?now = "clock w (ticks w)" and ?h = "head_or_unspecified h"
  let ?ch = "completion_changes items ?now ?h (completion_seal (sha256 w) ?t items ?now ?h)"
  from False run k items have "update_task i ?ch (l, ?w) = (r, (l', w'))"
    by (auto simp: complete_task_def find_task_apply guard_bind_cases Let_def
        m_bind_def [of "find_task i"] split: if_splits)
  moreover have "dict_wf ?ch"
  proof -
    have "dict_wf ?t" using ok task_pos_Some [OF k] by (intro wl_ok_task) auto
    then have ev: "jwf (fld ?t ''D4_EVIDENCE'')" by simp
    have "jwf items"
    proof (cases evidence)
      case (Some e)
      with items obtain xs where "fld ?t ''D4_EVIDENCE'' = JArr xs" "items = JArr (xs @ [e])"
        by (auto simp: py_append_def split: json.splits)
      with ev wf Some show ?thesis by auto
    qed (use items ev in simp)
    then show ?thesis
      by (simp add: completion_changes_def completion_seal_def head_or_unspecified_def
          split: option.split)
  qed
  ultimately have "wl_step c l ?w w'" using update_step [OF ok] by blast
  then show ?thesis by (simp add: wl_step_def)
qed simp

lemma block_step:
  assumes ok: "wl_ok (wl_data l)" and wf: "jwf b"
    and run: "block_task i b (l, w) = (r, (l', w'))"
  shows "wl_step c l w w'"
proof (cases "files w' = files w")
  case False
  from False run obtain k bs where k: "task_pos i (wl_data l) = Some k"
    and bs: "py_list (fld (tasks (wl_data l) ! k) ''BLOCKERS'') = Inr bs"
    by (cases "task_pos i (wl_data l)")
      (auto simp: block_task_def find_task_apply m_bind_def [of "find_task i"] split: sum.splits)
  let ?bs = "if \<exists>x \<in> set bs. pyeq x b then bs else bs @ [b]"
  let ?ch = "[(''STATE'', JStr ''BLOCKED''), (''BLOCKERS'', JArr ?bs)]"
  from run k bs have "update_task i ?ch (l, w) = (r, (l', w'))"
    by (simp add: block_task_def find_task_apply m_bind_def [of "find_task i"] Let_def)
  moreover have "jwf (JArr ?bs)"
  proof -
    have "dict_wf (tasks (wl_data l) ! k)"
      using ok task_pos_Some [OF k] by (intro wl_ok_task) auto
    then have "jwf (fld (tasks (wl_data l) ! k) ''BLOCKERS'')" by simp
    with bs have "\<forall>x \<in> set bs. jwf x" by (auto simp: py_list_def split: json.splits)
    with wf show ?thesis by simp
  qed
  then have "dict_wf ?ch" by simp
  ultimately show ?thesis using update_step [OF ok] by blast
qed simp

lemma fld_reopened:
  "fld (reopened t a h) k =
     (if k \<in> {''CLOSED_HEAD'', ''CLOSED_AT'', ''COMPLETION_SEAL''} then JNull
      else if k = ''REOPEN_HISTORY'' then h else if k = ''BLOCKERS'' then JArr []
      else if k = ''NEXT_ACTION'' then JStr a else if k = ''STATE'' then JStr ''TODO'' else fld t k)"
  by (simp add: reopened_def)

lemma dict_wf_reopened: "dict_wf t \<Longrightarrow> jwf h \<Longrightarrow> dict_wf (reopened t a h)"
  unfolding reopened_def by (intro dict_wf_dpop dict_wf_dset) auto

lemma reopen_step:
  assumes ok: "wl_ok (wl_data l)" and run: "reopen_task i reason au a (l, w) = (r, (l', w'))"
  shows "wl_step (ReopenTask i reason au a) l w w'"
proof (cases "files w' = files w")
  case False
  let ?old = "\<lambda>t. if dhas t ''REOPEN_HISTORY'' then fld t ''REOPEN_HISTORY'' else JArr []"
  let ?rec = "\<lambda>t. reopen_record (clock w (ticks w)) reason au (previous_seal (sha256 w) t)"
  from False run obtain k h where k: "task_pos i (wl_data l) = Some k"
    and h: "py_append (?old (tasks (wl_data l) ! k)) (?rec (tasks (wl_data l) ! k)) = Inr h"
    and gu: "\<not> blank reason" "\<not> blank au" "fld (tasks (wl_data l) ! k) ''STATE'' = JStr ''DONE''"
    by (cases "task_pos i (wl_data l)")
      (auto simp: reopen_task_def find_task_apply guard_bind_cases m_bind_def [of "find_task i"]
        split: if_splits sum.splits)
  let ?t = "tasks (wl_data l) ! k" and ?w = "w\<lparr>ticks := Suc (Suc (ticks w))\<rparr>"
  let ?t' = "dset ''LAST_UPDATE'' (JStr (clock w (Suc (ticks w)))) (reopened ?t a h)"
  from task_pos_Some [OF k] have kl: "k < length (tasks (wl_data l))"
    and id: "pyeq (fld ?t ''TASK_ID'') i" by simp_all
  with ok have wf: "dict_wf ?t" by (intro wl_ok_task)
  from h have hist: "h = JArr (arr_of (fld ?t ''REOPEN_HISTORY'') @ [?rec ?t])"
    by (auto simp: py_append_def get_or_none_def dhas_def split: json.splits if_splits)
  have "jwf (fld ?t k')" for k' using wf by simp
  then have "jwf (?rec ?t)" by (simp add: reopen_record_def previous_seal_def)
  with wf have "jwf h"
    using jwf_fld [OF wf, of "''REOPEN_HISTORY''"]
    by (cases "fld ?t ''REOPEN_HISTORY''") (auto simp: hist)
  show ?thesis
  proof (rule replace_step [OF ok kl])
    show "m_then (lift (validate_task (JObj ?t'))) (m_then wl_save (ret (JObj ?t')))
        (l\<lparr>wl_data := set_tasks ((tasks (wl_data l))[k := ?t']) (wl_data l)\<rparr>, ?w) = (r, (l', w'))"
      using run False k h gu
      by (auto simp: reopen_task_def find_task_apply guard_bind_cases m_bind_def [of "find_task i"]
          Let_def split: if_splits)
    show "dict_wf ?t'"
      using dict_wf_reopened [OF wf \<open>jwf h\<close>] by (rule dict_wf_dset) simp
    show "reopen_of (ReopenTask i reason au a) ?t ?t'"
      unfolding reopen_of_def using gu id hist
      by (intro exI [of _ i] exI [of _ reason] exI [of _ au] exI [of _ a]
          exI [of _ "clock w (ticks w)"] exI [of _ "previous_seal (sha256 w) ?t"])
        (simp add: fld_reopened previous_seal_def)
  qed (simp_all add: fld_reopened)
qed simp

text \<open>Arguments that are Python values; a new task's identifier is hashable.\<close>

fun well_formed_work :: "work_call \<Rightarrow> bool" where
  "well_formed_work (Create t) \<longleftrightarrow> dict_wf t \<and> hashable (fld t ''TASK_ID'')"
| "well_formed_work (UpdateTask i ch) \<longleftrightarrow> dict_wf ch"
| "well_formed_work (CompleteTask i e h) \<longleftrightarrow> (case e of None \<Rightarrow> True | Some v \<Rightarrow> jwf v)"
| "well_formed_work (ReopenTask i r a n) \<longleftrightarrow> True"
| "well_formed_work (BlockTask i b) \<longleftrightarrow> jwf b"

lemma run_work_step:
  assumes "wl_ok (wl_data l)" and "well_formed_work c" and "run_work c (l, w) = (r, (l', w'))"
  shows "wl_step c l w w'"
  using assms
  by (cases c) (auto split: option.splits
      intro: create_step update_step complete_step reopen_step block_step)

end
