(* ===== verification/WorkMemory.thy ===== *)
theory WorkMemory
  imports WorkInvariant
begin

text \<open>
  Every operation of the work ledger leaves the object's data a Python value (all
  dictionaries have distinct keys), also when it raises half way: a small calculus of
  partial correctness triples for operations on the object.
\<close>

text \<open>
  Operations that keep the object's data a Python value, with what their result then
  satisfies.
\<close>

definition wf_memory :: "(work_ledger, 'a) obj_op \<Rightarrow> ('a \<Rightarrow> bool) \<Rightarrow> bool" where
  "wf_memory m Q \<longleftrightarrow>
     (\<forall>l w r l' w'. dict_wf (wl_data l) \<longrightarrow> m (l, w) = (r, (l', w')) \<longrightarrow>
        dict_wf (wl_data l') \<and> (\<forall>v. r = Inr v \<longrightarrow> Q v))"

lemma wf_memory_bind:
  assumes "wf_memory m Q" and "\<And>a. Q a \<Longrightarrow> wf_memory (f a) R"
  shows "wf_memory (m_bind m f) R"
  unfolding wf_memory_def
proof (intro allI impI)
  fix l w r l' w'
  assume l: "dict_wf (wl_data l)" and run: "m_bind m f (l, w) = (r, (l', w'))"
  obtain q l1 w1 where m: "m (l, w) = (q, (l1, w1))" by (metis prod_cases3)
  with assms(1) l have q: "dict_wf (wl_data l1)" "\<forall>v. q = Inr v \<longrightarrow> Q v"
    unfolding wf_memory_def by blast+
  show "dict_wf (wl_data l') \<and> (\<forall>v. r = Inr v \<longrightarrow> R v)"
  proof (cases q)
    case (Inl e)
    with m run q(1) show ?thesis by auto
  next
    case (Inr a)
    with m run have "f a (l1, w1) = (r, (l', w'))" by simp
    with assms(2) [of a] q Inr show ?thesis unfolding wf_memory_def by blast
  qed
qed

text \<open>The rules for a result about which nothing needs to be known.\<close>

abbreviation keeps_wf :: "(work_ledger, 'a) obj_op \<Rightarrow> bool" where
  "keeps_wf m \<equiv> wf_memory m (\<lambda>_. True)"

lemma keeps_wf_bind: "keeps_wf m \<Longrightarrow> (\<And>a. keeps_wf (f a)) \<Longrightarrow> keeps_wf (m_bind m f)"
  by (rule wf_memory_bind) auto

lemma keeps_wf_then: "keeps_wf m \<Longrightarrow> keeps_wf n \<Longrightarrow> keeps_wf (m_then m n)"
  unfolding m_then_def by (rule keeps_wf_bind)

lemma wf_memory_basic:
  "keeps_wf (ret a)" "keeps_wf (lift r)" "keeps_wf (guard b e)" "keeps_wf (gets f)"
  "keeps_wf now_op" "keeps_wf obj"
  by (auto simp: wf_memory_def)

lemma wf_memory_lift: "wf_memory (lift r) (\<lambda>v. r = Inr v)"
  by (auto simp: wf_memory_def)

lemma wf_memory_weaken: "wf_memory m Q \<Longrightarrow> wf_memory m (\<lambda>_. True)"
  unfolding wf_memory_def by blast

lemma dict_wf_tasks: "dict_wf d \<Longrightarrow> t \<in> set (tasks d) \<Longrightarrow> dict_wf t"
proof -
  assume "dict_wf d" and t: "t \<in> set (tasks d)"
  then have "jwf (fld d ''TASKS'')" by simp
  then have "\<forall>v \<in> set (arr_of (fld d ''TASKS'')). jwf v" by (cases "fld d ''TASKS''") simp_all
  moreover from t obtain v where "v \<in> set (arr_of (fld d ''TASKS''))" "t = dict_of v"
    by (auto simp: tasks_def)
  ultimately have "jwf v" "t = dict_of v" by simp_all
  then show "dict_wf t" by (cases v) simp_all
qed

lemma dict_wf_set_tasks: "dict_wf d \<Longrightarrow> \<forall>t \<in> set ts. dict_wf t \<Longrightarrow> dict_wf (set_tasks ts d)"
  unfolding set_tasks_def by (rule dict_wf_dset) auto

lemma wf_memory_find: "wf_memory (find_task i) (\<lambda>(k, t). dict_wf t)"
  unfolding wf_memory_def find_task_apply
proof (intro allI impI)
  fix l :: work_ledger and w r l' w'
  assume wf: "dict_wf (wl_data l)"
    and run: "(case task_pos i (wl_data l) of None \<Rightarrow> (Inl (KeyError ''task_id''), l, w)
      | Some k \<Rightarrow> (Inr (k, tasks (wl_data l) ! k), l, w)) = (r, l', w')"
  show "dict_wf (wl_data l') \<and> (\<forall>v. r = Inr v \<longrightarrow> (case v of (k, t) \<Rightarrow> dict_wf t))"
  proof (cases "task_pos i (wl_data l)")
    case (Some k)
    with task_pos_Some have "tasks (wl_data l) ! k \<in> set (tasks (wl_data l))" by simp
    from dict_wf_tasks [OF wf this] Some run wf show ?thesis by auto
  qed (use run wf in auto)
qed

lemma wf_memory_put: "dict_wf t \<Longrightarrow> wf_memory (put_task i t) (\<lambda>_. True)"
  unfolding wf_memory_def
proof (intro allI impI)
  fix l w r l' w'
  assume t: "dict_wf t" and wf: "dict_wf (wl_data l)" and run: "put_task i t (l, w) = (r, (l', w'))"
  from wf have "\<forall>u \<in> set (tasks (wl_data l)). dict_wf u" using dict_wf_tasks by blast
  with t have "\<forall>u \<in> set ((tasks (wl_data l))[i := t]). dict_wf u" by (intro set_update_all)
  from dict_wf_set_tasks [OF wf this] run show "dict_wf (wl_data l') \<and> (\<forall>v. r = Inr v \<longrightarrow> True)"
    by (auto simp del: jwf.simps)
qed

lemma wf_memory_append: "dict_wf t \<Longrightarrow> wf_memory (append_task t) (\<lambda>_. True)"
  unfolding wf_memory_def
proof (intro allI impI)
  fix l w r l' w'
  assume t: "dict_wf t" and wf: "dict_wf (wl_data l)" and run: "append_task t (l, w) = (r, (l', w'))"
  from wf have "\<forall>u \<in> set (tasks (wl_data l)). dict_wf u" using dict_wf_tasks by blast
  with t have "\<forall>u \<in> set (tasks (wl_data l) @ [t]). dict_wf u" by auto
  from dict_wf_set_tasks [OF wf this] run show "dict_wf (wl_data l') \<and> (\<forall>v. r = Inr v \<longrightarrow> True)"
    by (auto simp: append_task_def simp del: jwf.simps)
qed

lemma wf_memory_save: "wf_memory wl_save (\<lambda>_. True)"
  unfolding wf_memory_def
proof (intro allI impI)
  fix l w r l' w'
  assume wf: "dict_wf (wl_data l)" and run: "wl_save (l, w) = (r, (l', w'))"
  have "dict_wf (stamp w (wl_data l))" unfolding stamp_def by (rule dict_wf_dset [OF wf]) simp
  then show "dict_wf (wl_data l') \<and> (\<forall>v. r = Inr v \<longrightarrow> True)"
    using run wf wl_save_stale [of l w]
    by (cases "fresh l w") (auto simp: wl_save_fresh simp del: jwf.simps)
qed

lemmas keeps_wf_intros = keeps_wf_then keeps_wf_bind wf_memory_put wf_memory_append
  wf_memory_save wf_memory_basic

lemma keeps_wf_if: "(b \<Longrightarrow> keeps_wf m) \<Longrightarrow> (\<not> b \<Longrightarrow> keeps_wf n) \<Longrightarrow> keeps_wf (if b then m else n)"
  by simp

lemma keeps_wf_found:
  "(\<And>k t. dict_wf t \<Longrightarrow> keeps_wf (f (k, t))) \<Longrightarrow> keeps_wf (m_bind (find_task i) f)"
  by (rule wf_memory_bind [OF wf_memory_find]) auto

lemma keeps_wf_checked:
  "(\<And>v. r = Inr v \<Longrightarrow> keeps_wf (f v)) \<Longrightarrow> keeps_wf (m_bind (lift r) f)"
  by (rule wf_memory_bind [OF wf_memory_lift])

lemma keeps_wf_update: "dict_wf ch \<Longrightarrow> keeps_wf (update_task i ch)"
proof -
  assume ch: "dict_wf ch"
  have store: "keeps_wf (store_update k t ch)" if "dict_wf t" for k t
  proof -
    have t: "dict_wf (dmerge t ch)" using that ch by (rule dict_wf_dmerge)
    then have "dict_wf (dset ''LAST_UPDATE'' (JStr now) (dmerge t ch))" for now
      by (rule dict_wf_dset) simp
    then show ?thesis unfolding store_update_def Let_def
      by (intro keeps_wf_intros t)
  qed
  show ?thesis unfolding update_task_def
    by (intro keeps_wf_found keeps_wf_intros keeps_wf_if) (auto intro: keeps_wf_intros keeps_wf_if store)
qed

lemma jwf_py_append: "jwf v \<Longrightarrow> jwf x \<Longrightarrow> py_append v x = Inr y \<Longrightarrow> jwf y"
  by (auto simp: py_append_def split: json.splits)

lemma jwf_py_list: "jwf v \<Longrightarrow> py_list v = Inr xs \<Longrightarrow> \<forall>x \<in> set xs. jwf x"
  by (auto simp: py_list_def split: json.splits)

lemma keeps_wf_create: "dict_wf t \<Longrightarrow> keeps_wf (create_task t)"
proof -
  assume t: "dict_wf t"
  have t': "dict_wf (if dhas t ''LAST_UPDATE'' then t else dset ''LAST_UPDATE'' (JStr now) t)" for now
    by (cases "dhas t ''LAST_UPDATE''") (simp_all only: if_True if_False t,
        rule dict_wf_dset [OF t], simp)
  show ?thesis unfolding create_task_def Let_def by (intro keeps_wf_intros t')
qed

lemma dict_wf_completion:
  "jwf items \<Longrightarrow> dict_wf (completion_changes items now (head_or_unspecified h)
     (completion_seal sha t items now (head_or_unspecified h)))"
  by (simp add: completion_changes_def completion_seal_def head_or_unspecified_def split: option.split)

lemma keeps_wf_complete: "(case e of None \<Rightarrow> True | Some v \<Rightarrow> jwf v) \<Longrightarrow> keeps_wf (complete_task i e h)"
proof -
  assume e: "case e of None \<Rightarrow> True | Some v \<Rightarrow> jwf v"
  have items: "jwf items" if "dict_wf t"
    "(case e of None \<Rightarrow> Inr (fld t ''D4_EVIDENCE'') | Some v \<Rightarrow> py_append (fld t ''D4_EVIDENCE'') v) = Inr items"
    for t items
  proof (cases e)
    case (Some v)
    from that(1) have "jwf (fld t ''D4_EVIDENCE'')" by simp
    from jwf_py_append [OF this] that(2) e Some show ?thesis by simp
  qed (use that in auto)
  show ?thesis unfolding complete_task_def Let_def
    by (rule keeps_wf_found, unfold split_conv, rule keeps_wf_then, rule wf_memory_basic,
        rule keeps_wf_checked, rule keeps_wf_bind, rule wf_memory_basic, rule keeps_wf_bind,
        rule wf_memory_basic, rule keeps_wf_update, rule dict_wf_completion, rule items)
qed

lemma keeps_wf_block: "jwf b \<Longrightarrow> keeps_wf (block_task i b)"
proof -
  assume b: "jwf b"
  have bs: "dict_wf [(''STATE'', JStr ''BLOCKED''),
      (''BLOCKERS'', JArr (if \<exists>x \<in> set bs. pyeq x b then bs else bs @ [b]))]"
    if "dict_wf t" "py_list (fld t ''BLOCKERS'') = Inr bs" for t bs
  proof -
    from that(1) have "jwf (fld t ''BLOCKERS'')" by simp
    from jwf_py_list [OF this that(2)] b show ?thesis by simp
  qed
  show ?thesis unfolding block_task_def Let_def
    by (rule keeps_wf_found, unfold split_conv, rule keeps_wf_checked, rule keeps_wf_update, rule bs)
qed

lemma keeps_wf_reopen: "keeps_wf (reopen_task i reason au a)"
proof -
  have seal: "jwf (previous_seal sha t)" if "dict_wf t" for sha t
  proof -
    from that have "jwf (fld t ''COMPLETION_SEAL'')" by simp
    then show ?thesis by (simp add: previous_seal_def)
  qed
  have t': "dict_wf (dset ''LAST_UPDATE'' (JStr now2) (reopened t a h))"
    if "dict_wf t" "py_append (if dhas t ''REOPEN_HISTORY'' then fld t ''REOPEN_HISTORY'' else JArr [])
        (reopen_record now reason au seal) = Inr h" "jwf seal" for t h now now2 seal
  proof -
    from that(1) have "jwf (if dhas t ''REOPEN_HISTORY'' then fld t ''REOPEN_HISTORY'' else JArr [])" by simp
    from jwf_py_append [OF this _ that(2)] that(3) have "jwf h" by (simp add: reopen_record_def)
    with that(1) have "dict_wf (reopened t a h)" by (rule dict_wf_reopened)
    then show ?thesis by (rule dict_wf_dset) simp
  qed
  have seal_op: "wf_memory (gets (\<lambda>(_, w). previous_seal (sha256 w) t)) jwf" if "dict_wf t" for t
    using seal [OF that] by (auto simp: wf_memory_def)
  show ?thesis unfolding reopen_task_def Let_def
    by (rule keeps_wf_then, rule wf_memory_basic, rule keeps_wf_then, rule wf_memory_basic,
        rule keeps_wf_then, rule wf_memory_basic, rule keeps_wf_found, unfold split_conv,
        rule keeps_wf_then, rule wf_memory_basic, rule wf_memory_bind [OF seal_op], assumption,
        rule keeps_wf_bind, rule wf_memory_basic, rule keeps_wf_checked, rule keeps_wf_bind,
        rule wf_memory_basic, rule keeps_wf_then, rule wf_memory_put, rule t', assumption+,
        intro keeps_wf_then wf_memory_save wf_memory_basic)
qed

lemma call_wf_memory: "well_formed_work c \<Longrightarrow> keeps_wf (run_work c)"
  by (cases c) (simp_all only: run_work.simps well_formed_work.simps keeps_wf_create keeps_wf_update
      keeps_wf_complete keeps_wf_reopen keeps_wf_block)

end
