(* ===== verification/WorkProps.thy ===== *)
theory WorkProps
  imports WorkMemory
begin

text \<open>
  What the work ledger promises: no update is lost, the module's functions keep the file
  readable and reopen a closed task only with a recorded reason, memory and file
  still agree after a successful call, the outcome of completing a task, and the order in which
  tasks are offered.  The last section shows that a failed update leaves an object
  whose next \<open>create_task\<close> makes the file unreadable.
\<close>

definition demo_task :: "string \<Rightarrow> string \<Rightarrow> string \<Rightarrow> json dict" where
  "demo_task i st p =
     [(''TASK_ID'', JStr i), (''PARENT_INTENT'', JStr ''''), (''TITLE'', JStr ''''),
      (''DESCRIPTION'', JStr ''''), (''STATE'', JStr st), (''PRIORITY'', JStr p),
      (''D3_COORDINATE'', JStr ''''), (''DEPENDENCIES'', JArr []), (''BLOCKERS'', JArr []),
      (''COMPLETION_CRITERIA'', JArr []), (''D4_EVIDENCE'', JArr []), (''LAST_UPDATE'', JStr ''t''),
      (''NEXT_ACTION'', JStr ''go'')]"

definition demo_tasks :: "json dict list \<Rightarrow> json dict" where
  "demo_tasks ts = [(''TASKS'', JArr (map JObj ts))]"

definition demo_disk :: "json dict list \<Rightarrow> world" where
  "demo_disk ts = \<lparr>files = [''W'' \<mapsto> render (demo_tasks ts)], clock = (\<lambda>_. ''t''), ticks = 0,
     sha256 = (\<lambda>s. s), scope_depth = 0, lock_held = False\<rparr>"

definition demo_open :: "json dict list \<Rightarrow> work_ledger" where
  "demo_open ts = \<lparr>wl_path = ''W'', wl_data = demo_tasks ts, wl_sha = render (demo_tasks ts)\<rparr>"

lemma tasks_demo [simp]: "tasks (demo_tasks ts) = ts"
  by (simp add: tasks_def demo_tasks_def o_def)

lemma task_ok_demo: "st \<in> set ALLOWED_STATES \<Longrightarrow> task_ok (demo_task i st p)"
  by (simp add: task_ok_def validate_task_JObj demo_task_def REQUIRED_TASK_FIELDS_def LIST_FIELDS_def
      is_arr_def dhas_def hashable_def)

lemma wl_ok_demo:
  "\<forall>t \<in> set ts. task_ok t \<Longrightarrow> distinct_by ''TASK_ID'' ts \<Longrightarrow> wl_ok (demo_tasks ts)"
  by (simp add: wl_ok_def task_ok_def) (simp add: demo_tasks_def)

lemma open_demo: "wl_ok (demo_tasks ts) \<Longrightarrow> open_work_ledger ''W'' (demo_disk ts) = Inr (demo_open ts)"
  by (simp add: open_work_ledger_def demo_disk_def parse_work demo_open_def)

lemma fresh_demo: "fresh (demo_open ts) (demo_disk ts)"
  by (simp add: fresh_def demo_open_def demo_disk_def)

section \<open>No lost update\<close>

text \<open>
  C3: Two objects open the same ledger file.  Once a call on the first has changed the
  file to a text with another digest, no call on the second touches it: the first
  update survives.
\<close>

theorem no_lost_update:
  assumes "open_work_ledger p w = Inr l1" and "open_work_ledger p w = Inr l2"
    and "files w p = Some t" and "run_work c1 (l1, w) = (r1, (l1', w1))"
    and "files w1 p = Some t1" and "sha256 w t1 \<noteq> sha256 w t"
    and "run_work c2 (l2, w1) = (r2, (l2', w2))"
  shows "files w2 = files w1"
proof -
  from assms(2,3) have l2: "wl_path l2 = p" "wl_sha l2 = sha256 w t"
    by (auto simp: open_work_ledger_def e_bind_InrD)
  from run_work_disciplined [OF assms(4)] have "sha256 w1 = sha256 w" by (simp add: disciplined_def)
  with l2 assms(5,6) have "\<not> fresh l2 w1" by (simp add: fresh_def)
  with run_work_disciplined [OF assms(7)] show ?thesis by (simp add: disciplined_def)
qed

lemma create_b:
  assumes "wl_path l = ''W''" and "wl_data l = demo_tasks ts" and "fresh l w"
    and "\<forall>t \<in> set ts. fld t ''TASK_ID'' \<noteq> JStr ''b''"
  shows "\<exists>l' w'. create_task (demo_task ''b'' ''TODO'' ''P0'') (l, w) =
       (Inr (JObj (demo_task ''b'' ''TODO'' ''P0'')), (l', w')) \<and>
     files w' ''W'' = Some (render (dset ''UPDATED_AT'' (JStr (clock w (Suc (ticks w))))
       (demo_tasks (ts @ [demo_task ''b'' ''TODO'' ''P0'']))))"
proof -
  let ?b = "demo_task ''b'' ''TODO'' ''P0''"
  let ?l = "l\<lparr>wl_data := demo_tasks (ts @ [?b])\<rparr>" and ?w = "w\<lparr>ticks := Suc (ticks w)\<rparr>"
  have "validate_task (JObj ?b) = Inr ()"
    using task_ok_demo [of "''TODO''" "''b''" "''P0''"] by (simp add: task_ok_def ALLOWED_STATES_def)
  moreover have "dhas ?b ''LAST_UPDATE''" "fld ?b ''TASK_ID'' = JStr ''b''"
    by (simp_all add: demo_task_def dhas_def)
  moreover have "set_tasks (ts @ [?b]) (demo_tasks ts) = demo_tasks (ts @ [?b])"
    by (simp add: set_tasks_def demo_tasks_def)
  ultimately have run: "create_task ?b (l, w) = m_then wl_save (ret (JObj ?b)) (?l, ?w)"
    using assms(2,4) by (simp add: create_task_def append_task_def Let_def)
  have "fresh ?l ?w" using assms(3) by (simp add: fresh_def)
  from wl_save_fresh [OF this]
  show ?thesis unfolding run by (simp add: stamp_def assms(1))
qed

lemma create_demo:
  "\<forall>t \<in> set ts. fld t ''TASK_ID'' \<noteq> JStr ''b'' \<Longrightarrow>
   \<exists>l' w'. run_work (Create (demo_task ''b'' ''TODO'' ''P0'')) (demo_open ts, demo_disk ts) =
       (Inr (JObj (demo_task ''b'' ''TODO'' ''P0'')), (l', w')) \<and>
     files w' ''W'' = Some (render (dset ''UPDATED_AT'' (JStr ''t'')
       (demo_tasks (ts @ [demo_task ''b'' ''TODO'' ''P0'']))))"
  using create_b [OF _ _ fresh_demo] by (simp add: demo_open_def) (simp add: demo_disk_def)

theorem no_lost_update_witness:
  "\<exists>r2 l2' (w1 :: world) w2.
     run_work (BlockTask (JStr ''a'') (JStr ''x'')) (demo_open [demo_task ''a'' ''TODO'' ''P1''], w1)
       = (r2, (l2', w2)) \<and> files w2 = files w1 \<and>
     files w1 \<noteq> files (demo_disk [demo_task ''a'' ''TODO'' ''P1''])"
proof -
  let ?a = "demo_task ''a'' ''TODO'' ''P1''" and ?b = "demo_task ''b'' ''TODO'' ''P0''"
  let ?d1 = "dset ''UPDATED_AT'' (JStr ''t'') (demo_tasks [?a, ?b])"
  have ne: "\<not> pyeq (fld ?a ''TASK_ID'') (fld ?b ''TASK_ID'')" by (simp add: demo_task_def)
  have a: "wl_ok (demo_tasks [?a])" and b: "wl_ok (demo_tasks [?a, ?b])"
    using ne by (auto intro!: wl_ok_demo task_ok_demo simp: ALLOWED_STATES_def distinct_by_def)
  have ob: "open_work_ledger ''W'' (demo_disk [?a]) = Inr (demo_open [?a])" by (rule open_demo [OF a])
  have f: "files (demo_disk [?a]) ''W'' = Some (render (demo_tasks [?a]))" by (simp add: demo_disk_def)
  have "\<forall>t \<in> set [?a]. fld t ''TASK_ID'' \<noteq> JStr ''b''" by (simp add: demo_task_def)
  from create_demo [OF this] obtain l' w1 where run: "run_work (Create ?b) (demo_open [?a], demo_disk [?a])
      = (Inr (JObj ?b), (l', w1))" and f1: "files w1 ''W'' = Some (render ?d1)"
    by auto
  have wf: "dict_wf ?d1" "dict_wf (demo_tasks [?a])"
    using a b dict_wf_dset [of "demo_tasks [?a, ?b]" "JStr ''t''" "''UPDATED_AT''"]
    unfolding wl_ok_def by simp_all
  have "?d1 \<noteq> demo_tasks [?a]" by (simp add: demo_tasks_def)
  with wf have ne: "render ?d1 \<noteq> render (demo_tasks [?a])" using render_inject by blast
  then have sha: "sha256 (demo_disk [?a]) (render ?d1) \<noteq> sha256 (demo_disk [?a]) (render (demo_tasks [?a]))"
    by (simp add: demo_disk_def)
  obtain r2 l2' w2 where run2: "run_work (BlockTask (JStr ''a'') (JStr ''x'')) (demo_open [?a], w1) = (r2, (l2', w2))"
    by (metis prod_cases3)
  from no_lost_update [OF ob ob f run f1 sha run2] have "files w2 = files w1" .
  moreover from ne f f1 have "files w1 \<noteq> files (demo_disk [?a])" by (metis option.inject)
  ultimately show ?thesis using run2 by blast
qed

section \<open>The module's functions\<close>

text \<open>
  The states reachable from a well-formed file by any sequence of module calls, each on
  a newly opened ledger, with anything in between that leaves the file alone.
\<close>

inductive work_reachable :: "string \<Rightarrow> world \<Rightarrow> bool" where
  start: "wl_ok d \<Longrightarrow> files w p = Some (render d) \<Longrightarrow> work_reachable p w"
| call: "work_reachable p w \<Longrightarrow> well_formed_work c \<Longrightarrow>
     with_ledger p (run_work c) w = (r, w') \<Longrightarrow> work_reachable p w'"
| other: "work_reachable p w \<Longrightarrow> files w' p = files w p \<Longrightarrow> work_reachable p w'"

definition work_disk :: "string \<Rightarrow> world \<Rightarrow> json dict \<Rightarrow> bool" where
  "work_disk p w d \<longleftrightarrow> wl_ok d \<and> files w p = Some (render d)"

lemma open_work_disk:
  "work_disk p w d \<Longrightarrow>
   open_work_ledger p w = Inr \<lparr>wl_path = p, wl_data = d, wl_sha = sha256 w (render d)\<rparr>"
  by (simp add: work_disk_def open_work_ledger_def parse_work)

lemma module_call_step:
  assumes d: "work_disk p w d" and c: "well_formed_work c"
    and run: "with_ledger p (run_work c) w = (r, w')"
  shows "work_disk p w' d \<or> (\<exists>d'. work_disk p w' d' \<and> wl_extends c d d')"
proof -
  let ?l = "\<lparr>wl_path = p, wl_data = d, wl_sha = sha256 w (render d)\<rparr>"
  obtain l' where "run_work c (?l, w) = (r, (l', w'))"
    using run by (auto simp: with_ledger_def open_work_disk [OF d] split: prod.splits)
  moreover have "wl_ok (wl_data ?l)" using d by (simp add: work_disk_def)
  ultimately have "wl_step c ?l w w'" using c by (intro run_work_step)
  with d show ?thesis by (auto simp: wl_step_def work_disk_def)
qed

lemma work_reachable_disk: "work_reachable p w \<Longrightarrow> \<exists>d. work_disk p w d"
proof (induction rule: work_reachable.induct)
  case (call p w c r w')
  then show ?case using module_call_step by blast
qed (auto simp: work_disk_def)

text \<open>
  C16: After any sequence of module calls with well-formed arguments, whether they
  succeed or raise, the ledger file can be opened, every task in it passes validation
  and no two tasks have the same identifier.
\<close>

theorem module_calls_keep_ledger_readable:
  assumes "work_reachable p w"
  shows "\<exists>l. open_work_ledger p w = Inr l \<and>
    (\<forall>t \<in> set (tasks (wl_data l)). validate_task (JObj t) = Inr ()) \<and>
    (\<forall>i j. i < length (tasks (wl_data l)) \<and> j < length (tasks (wl_data l)) \<and>
       pyeq (fld (tasks (wl_data l) ! i) ''TASK_ID'') (fld (tasks (wl_data l) ! j) ''TASK_ID'') \<longrightarrow> i = j)"
proof -
  obtain d where d: "work_disk p w d" using work_reachable_disk [OF assms] by blast
  then have "wl_ok d" by (simp add: work_disk_def)
  then show ?thesis
    using open_work_disk [OF d] distinct_byD [of "''TASK_ID''" "tasks d"]
    by (auto simp: wl_ok_def task_ok_def)
qed

theorem module_calls_keep_ledger_readable_witness:
  "\<exists>l. open_work_ledger ''W'' (demo_disk [demo_task ''a'' ''TODO'' ''P1'']) = Inr l"
proof -
  have "wl_ok (demo_tasks [demo_task ''a'' ''TODO'' ''P1''])"
    by (intro wl_ok_demo) (auto intro: task_ok_demo simp: ALLOWED_STATES_def distinct_by_def)
  then have "work_reachable ''W'' (demo_disk [demo_task ''a'' ''TODO'' ''P1''])"
    by (rule start) (simp add: demo_disk_def)
  from module_calls_keep_ledger_readable [OF this] show ?thesis by blast
qed

text \<open>
  C17: A module call never removes a task or changes its identifier, and a closed task
  (state DONE, or sealed) comes out unchanged unless the call is a reopening of that task
  with a non-blank reason and authority; then the task was DONE and its history grows by a
  record that holds the seal taken off it.
\<close>

theorem closed_task_only_reopened:
  assumes "wl_ok d" and "files w p = Some (render d)" and "well_formed_work c"
    and "with_ledger p (run_work c) w = (r, w')"
  shows "\<exists>d'. open_work_ledger p w' = Inr \<lparr>wl_path = p, wl_data = d', wl_sha = sha256 w' (render d')\<rparr> \<and>
    (\<forall>i < length (tasks d). i < length (tasks d') \<and>
       pyeq (fld (tasks d' ! i) ''TASK_ID'') (fld (tasks d ! i) ''TASK_ID'') \<and>
       (closed (tasks d ! i) \<longrightarrow>
          tasks d' ! i = tasks d ! i \<or> reopen_of c (tasks d ! i) (tasks d' ! i)))"
proof -
  have "work_disk p w d" using assms(1,2) by (simp add: work_disk_def)
  from module_call_step [OF this assms(3,4)] show ?thesis
  proof
    assume "work_disk p w' d"
    from open_work_disk [OF this] show ?thesis by (intro exI [of _ d]) simp
  next
    assume "\<exists>d'. work_disk p w' d' \<and> wl_extends c d d'"
    then obtain d' where "work_disk p w' d'" "wl_extends c d d'" by blast
    with open_work_disk show ?thesis by (intro exI [of _ d']) (auto simp: wl_extends_def)
  qed
qed

theorem closed_task_only_reopened_witness:
  "\<exists>r (w' :: world) d'. with_ledger ''W'' (run_work (UpdateTask (JStr ''a'') [(''TITLE'', JStr ''x'')]))
       (demo_disk [demo_task ''a'' ''DONE'' ''P1'']) = (r, w') \<and>
     open_work_ledger ''W'' w' = Inr \<lparr>wl_path = ''W'', wl_data = d', wl_sha = sha256 w' (render d')\<rparr> \<and>
     tasks d' ! 0 = demo_task ''a'' ''DONE'' ''P1''"
proof -
  let ?ts = "[demo_task ''a'' ''DONE'' ''P1'']"
  let ?c = "UpdateTask (JStr ''a'') [(''TITLE'', JStr ''x'')]"
  have ok: "wl_ok (demo_tasks ?ts)"
    by (intro wl_ok_demo) (auto intro: task_ok_demo simp: ALLOWED_STATES_def distinct_by_def)
  obtain r w' where run: "with_ledger ''W'' (run_work ?c) (demo_disk ?ts) = (r, w')"
    by (cases "with_ledger ''W'' (run_work ?c) (demo_disk ?ts)")
  have "files (demo_disk ?ts) ''W'' = Some (render (demo_tasks ?ts))" by (simp add: demo_disk_def)
  from closed_task_only_reopened [OF ok this _ run]
  obtain d' where "open_work_ledger ''W'' w' = Inr \<lparr>wl_path = ''W'', wl_data = d', wl_sha = sha256 w' (render d')\<rparr>"
    "tasks d' ! 0 = demo_task ''a'' ''DONE'' ''P1''"
    by (auto simp: closed_def demo_task_def reopen_of_def)
  with run show ?thesis by blast
qed


section \<open>Memory and file agree\<close>

text \<open>
  An operation that has not changed the object or the files, and one after which the file
  holds the object's data and the object its digest.
\<close>

definition untouched :: "work_ledger \<times> world \<Rightarrow> work_ledger \<times> world \<Rightarrow> bool" where
  "untouched s t \<longleftrightarrow> fst t = fst s \<and> files (snd t) = files (snd s) \<and> sha256 (snd t) = sha256 (snd s)"

definition synced :: "work_ledger \<times> world \<Rightarrow> bool" where
  "synced s \<longleftrightarrow> files (snd s) (wl_path (fst s)) = Some (render (wl_data (fst s))) \<and>
     wl_sha (fst s) = sha256 (snd s) (render (wl_data (fst s)))"

definition syncs :: "(work_ledger, 'a) obj_op \<Rightarrow> bool" where
  "syncs m \<longleftrightarrow> (\<forall>s v t. m s = (Inr v, t) \<longrightarrow> synced t \<or> untouched s t)"

definition syncs_last :: "(work_ledger, 'a) obj_op \<Rightarrow> bool" where
  "syncs_last m \<longleftrightarrow> (\<forall>s v t. m s = (Inr v, t) \<longrightarrow> synced t)"

lemma syncs_last_then: "syncs_last n \<Longrightarrow> syncs_last (m_then m n)"
  unfolding syncs_last_def by (auto simp: m_then_InrD)

lemma syncs_last_bind: "(\<And>a. syncs_last (f a)) \<Longrightarrow> syncs_last (m_bind m f)"
  unfolding syncs_last_def by (auto simp: m_bind_InrD)

lemma syncs_of_last: "syncs_last m \<Longrightarrow> syncs m"
  by (auto simp: syncs_def syncs_last_def)

lemma syncs_bind: "keeps untouched m \<Longrightarrow> (\<And>a. syncs (f a)) \<Longrightarrow> syncs (m_bind m f)"
  unfolding syncs_def keeps_def m_bind_InrD
proof (intro allI impI)
  fix s v t
  assume m: "\<forall>s. untouched s (snd (m s))"
    and f: "\<And>a. \<forall>s v t. f a s = (Inr v, t) \<longrightarrow> synced t \<or> untouched s t"
    and "\<exists>a s'. m s = (Inr a, s') \<and> f a s' = (Inr v, t)"
  then obtain a s' where run: "m s = (Inr a, s')" "f a s' = (Inr v, t)" by blast
  from m run(1) have "untouched s s'" by (metis snd_conv)
  with f run(2) show "synced t \<or> untouched s t" unfolding untouched_def by metis
qed

lemma syncs_then: "keeps untouched m \<Longrightarrow> syncs n \<Longrightarrow> syncs (m_then m n)"
  unfolding m_then_def by (rule syncs_bind)

lemma save_syncs: "syncs_last (m_then wl_save (ret v))"
  unfolding syncs_last_def
proof (intro allI impI)
  fix s :: "work_ledger \<times> world" and u t
  assume run: "m_then wl_save (ret v) s = (Inr u, t)"
  obtain l w where s: "s = (l, w)" by (cases s)
  show "synced t"
  proof (cases "fresh l w")
    case True
    with run s show ?thesis by (auto simp: wl_save_fresh synced_def)
  next
    case False
    then obtain e where "wl_save (l, w) = (Inl e, (l, released w))" using wl_save_stale by blast
    with run s show ?thesis by simp
  qed
qed

lemma untouched_basic:
  "keeps untouched (lift r)" "keeps untouched (guard b e)" "keeps untouched (gets f)"
  "keeps untouched (ret a)" "keeps untouched now_op" "keeps untouched (find_task i)"
  by (auto simp: keeps_def untouched_def find_task_apply split: option.split)

lemma syncs_ret: "syncs (ret a)"
  by (simp add: syncs_def untouched_def)

lemma untouched_if: "keeps untouched m \<Longrightarrow> keeps untouched n \<Longrightarrow> keeps untouched (if b then m else n)"
  by simp

lemma syncs_if: "syncs m \<Longrightarrow> syncs n \<Longrightarrow> syncs (if b then m else n)"
  by simp

lemmas syncs_intros = syncs_bind syncs_then syncs_ret syncs_if untouched_basic untouched_if

lemma store_syncs: "syncs (store_update i t ch)"
  unfolding store_update_def Let_def
  by (intro syncs_of_last syncs_last_then syncs_last_bind save_syncs)

lemma update_syncs: "syncs (update_task i ch)"
  unfolding update_task_def split_beta by (intro syncs_intros store_syncs)

lemma call_syncs: "syncs (run_work c)"
proof (cases c)
  case (Create t)
  show ?thesis unfolding Create run_work.simps create_task_def Let_def
    by (intro syncs_of_last syncs_last_then syncs_last_bind save_syncs)
next
  case (UpdateTask i ch)
  then show ?thesis by (simp add: update_syncs)
next
  case (CompleteTask i e h)
  show ?thesis unfolding CompleteTask run_work.simps complete_task_def Let_def split_beta
    by (intro syncs_intros update_syncs)
next
  case (ReopenTask i r a n)
  show ?thesis unfolding ReopenTask run_work.simps reopen_task_def Let_def split_beta
    by (intro syncs_of_last syncs_last_then syncs_last_bind save_syncs)
next
  case (BlockTask i b)
  show ?thesis unfolding BlockTask run_work.simps block_task_def Let_def split_beta
    by (intro syncs_intros update_syncs)
qed

text \<open>A ledger that opens has checked tasks.\<close>

lemma checked_objects:
  "check_tasks seen ts = Inr () \<Longrightarrow> \<exists>ds. ts = map JObj ds"
proof (induction ts arbitrary: seen)
  case (Cons t ts)
  then obtain d s' where d: "t = JObj d" and "check_tasks s' ts = Inr ()"
    by (auto simp: validate_task_def e_bind_InrD required_fields_Inr Let_def split: if_splits)
  with Cons.IH obtain ds where "ts = map JObj ds" by blast
  with d have "t # ts = map JObj (d # ds)" by simp
  then show ?case by (rule exI)
qed simp

lemma open_ok:
  assumes "open_work_ledger p w = Inr l"
  shows "wl_ok (wl_data l)" and "wl_path l = p"
    and "\<exists>t. files w p = Some t \<and> parse_work_file t = Inr (wl_data l) \<and> wl_sha l = sha256 w t"
proof -
  from assms obtain t d where t: "files w p = Some t" "parse_work_file t = Inr d"
    and l: "l = \<lparr>wl_path = p, wl_data = d, wl_sha = sha256 w t\<rparr>"
    by (auto simp: open_work_ledger_def e_bind_InrD split: option.splits)
  then obtain ts where ld: "loads t = Some (JObj d)" and ts: "dget d ''TASKS'' = Some (JArr ts)"
    and ck: "check_tasks [] ts = Inr ()"
    by (auto simp: parse_work_file_def e_bind_InrD split: option.splits json.splits)
  from checked_objects [OF ck] obtain ds where ds: "ts = map JObj ds" by blast
  then have e: "tasks d = ds" using ts by (simp add: tasks_def get_or_none_def o_def)
  have wf: "dict_wf d" using loads_jwf [OF ld] .
  then have "\<forall>u \<in> set ds. dict_wf u" using dict_wf_tasks e by blast
  with ck have "(\<forall>u \<in> set ds. task_ok u) \<and> distinct_by ''TASK_ID'' ds"
    unfolding ds work_file.check_iff by (auto simp: task_ok_def)
  with wf ts ds e have "wl_ok d" by (simp add: wl_ok_def)
  with t l show "wl_ok (wl_data l)" "wl_path l = p"
    "\<exists>t. files w p = Some t \<and> parse_work_file t = Inr (wl_data l) \<and> wl_sha l = sha256 w t" by simp_all
qed

lemma call_keeps_ok:
  assumes "open_work_ledger (wl_path l) w = Inr l" and "well_formed_work c"
    and "run_work c (l, w) = (r, (l', w'))" and sy: "synced (l', w')" and path: "wl_path l' = wl_path l"
  shows "wl_ok (wl_data l')"
proof -
  have ok: "wl_ok (wl_data l)" by (rule open_ok(1) [OF assms(1)])
  have wf: "dict_wf (wl_data l')"
    using call_wf_memory [OF assms(2)] assms(3) ok unfolding wf_memory_def wl_ok_def by blast
  have f: "files w' (wl_path l) = Some (render (wl_data l'))" using sy path by (simp add: synced_def)
  from run_work_step [OF ok assms(2,3)] show ?thesis unfolding wl_step_def
  proof (elim disjE exE conjE)
    assume "files w' = files w"
    with f open_ok(3) [OF assms(1)] have "parse_work_file (render (wl_data l')) = Inr (wl_data l)" by simp
    moreover have "loads (render (wl_data l')) = Some (JObj (wl_data l'))" by (rule loads_render [OF wf])
    ultimately have "wl_data l' = wl_data l"
      by (auto simp: parse_work_file_def e_bind_InrD split: option.splits json.splits)
    with ok show ?thesis by simp
  next
    fix d assume d: "wl_ok d" "files w' = (files w)(wl_path l \<mapsto> render d)"
    with f have "render d = render (wl_data l')" by simp
    with d(1) wf render_inject show ?thesis unfolding wl_ok_def by metis
  qed
qed

text \<open>
  C19: Take an object that agrees with its file: opening the file now would give this object.  That
  holds of every newly opened object and, by this theorem, after each call that returned; it fails
  for an object whose last call raised after changing the data (C35).  After a call on it that
  returns, opening the file gives exactly the object that made the call: its path, its data and its
  digest.  The call's arguments are Python values, and a created task has a hashable identifier.
\<close>

theorem successful_call_is_durable:
  assumes "open_work_ledger (wl_path l) w = Inr l" and "well_formed_work c"
    and "run_work c (l, w) = (Inr v, (l', w'))"
  shows "open_work_ledger (wl_path l) w' = Inr l'"
proof -
  have disc: "disciplined (l, w) (l', w')" by (rule run_work_disciplined [OF assms(3)])
  from call_syncs [of c] assms(3) consider "synced (l', w')" | "untouched (l, w) (l', w')"
    unfolding syncs_def by blast
  then show ?thesis
  proof cases
    case 1
    with disc call_keeps_ok [OF assms(1-3)] show ?thesis
      by (simp add: open_work_ledger_def synced_def disciplined_def parse_work)
  next
    case 2
    then have "l' = l" "files w' = files w" "sha256 w' = sha256 w" by (simp_all add: untouched_def)
    with assms(1) show ?thesis by (simp add: open_work_ledger_def split: option.splits)
  qed
qed

theorem successful_call_is_durable_witness:
  "\<exists>v l' w'. run_work (Create (demo_task ''b'' ''TODO'' ''P0''))
       (demo_open [demo_task ''a'' ''DONE'' ''P1''], demo_disk [demo_task ''a'' ''DONE'' ''P1'']) = (Inr v, (l', w')) \<and>
     files w' ''W'' \<noteq> files (demo_disk [demo_task ''a'' ''DONE'' ''P1'']) ''W'' \<and>
     open_work_ledger ''W'' w' = Inr l'"
proof -
  let ?a = "demo_task ''a'' ''DONE'' ''P1''" and ?b = "demo_task ''b'' ''TODO'' ''P0''"
  let ?d = "dset ''UPDATED_AT'' (JStr ''t'') (demo_tasks [?a, ?b])"
  have a: "wl_ok (demo_tasks [?a])"
    by (intro wl_ok_demo) (auto intro: task_ok_demo simp: ALLOWED_STATES_def distinct_by_def)
  have op: "open_work_ledger (wl_path (demo_open [?a])) (demo_disk [?a]) = Inr (demo_open [?a])"
    using open_demo [OF a] by (simp add: demo_open_def)
  have c: "well_formed_work (Create ?b)" by (simp add: demo_task_def hashable_def)
  have "\<forall>t \<in> set [?a]. fld t ''TASK_ID'' \<noteq> JStr ''b''" by (simp add: demo_task_def)
  from create_demo [OF this] obtain l' w' where
    run: "run_work (Create ?b) (demo_open [?a], demo_disk [?a]) = (Inr (JObj ?b), (l', w'))"
    and f: "files w' ''W'' = Some (render ?d)" by auto
  have "dict_wf (demo_tasks [?a, ?b])" by (simp add: demo_tasks_def demo_task_def)
  then have wf: "dict_wf ?d" by (rule dict_wf_dset) simp
  have "?d \<noteq> demo_tasks [?a]" by (simp add: demo_tasks_def)
  with wf a have "render ?d \<noteq> render (demo_tasks [?a])" using render_inject unfolding wl_ok_def by blast
  with f have "files w' ''W'' \<noteq> files (demo_disk [?a]) ''W''" by (simp add: demo_disk_def)
  moreover from successful_call_is_durable [OF op c run] have "open_work_ledger ''W'' w' = Inr l'"
    by (simp add: demo_open_def)
  ultimately show ?thesis using run by blast
qed

section \<open>Completing a task\<close>

lemma dget_completion:
  "distinct (dkeys (completion_changes items now h seal))"
  "fld (dmerge t (completion_changes items now h seal)) k =
     (if k = ''STATE'' then JStr ''DONE'' else if k = ''D4_EVIDENCE'' then items
      else if k = ''BLOCKERS'' then JArr [] else if k = ''NEXT_ACTION'' then JStr ''NONE''
      else if k = ''CLOSED_AT'' then JStr now else if k = ''CLOSED_HEAD'' then h
      else if k = ''COMPLETION_SEAL'' then seal else fld t k)"
proof -
  show d: "distinct (dkeys (completion_changes items now h seal))" by (simp add: completion_changes_def)
  show "fld (dmerge t (completion_changes items now h seal)) k =
     (if k = ''STATE'' then JStr ''DONE'' else if k = ''D4_EVIDENCE'' then items
      else if k = ''BLOCKERS'' then JArr [] else if k = ''NEXT_ACTION'' then JStr ''NONE''
      else if k = ''CLOSED_AT'' then JStr now else if k = ''CLOSED_HEAD'' then h
      else if k = ''COMPLETION_SEAL'' then seal else fld t k)"
    unfolding completion_changes_def dmerge.simps fld_dset by auto
qed

definition completed ::
  "(string \<Rightarrow> string) \<Rightarrow> json dict \<Rightarrow> json option \<Rightarrow> string option \<Rightarrow> string \<Rightarrow> json dict" where
  "completed sha t evidence head now =
     (let items = JArr (arr_of (fld t ''D4_EVIDENCE'') @ (case evidence of None \<Rightarrow> [] | Some e \<Rightarrow> [e]));
          h = head_or_unspecified head
      in dmerge t (completion_changes items now h (completion_seal sha t items now h)))"

lemma validate_completed:
  "task_ok t \<Longrightarrow> validate_task (JObj (dset ''LAST_UPDATE'' (JStr v) (completed sha t e h now))) = Inr ()"
  unfolding completed_def Let_def task_ok_def validate_task_JObj
  by (auto simp: dget_completion dhas_dmerge_mono ALLOWED_STATES_def LIST_FIELDS_def is_arr_def)

lemma completed_no_id: "\<not> dhas (completion_changes items now h seal) ''TASK_ID''"
  "dhas (completion_changes items now h seal) ''STATE''"
  "fld (completion_changes items now h seal) ''STATE'' = JStr ''DONE''"
  by (simp_all add: completion_changes_def dhas_def)

lemma complete_task_runs:
  assumes "wl_ok (wl_data l)" and "fresh l w" and "task_pos i (wl_data l) = Some k"
    and "\<not> closed (tasks (wl_data l) ! k)"
  shows "\<exists>l' w' t'. complete_task i evidence head (l, w) = (Inr (JObj t'), (l', w')) \<and>
    tasks (wl_data l') = (tasks (wl_data l))[k := t'] \<and>
    files w' = (files w)(wl_path l \<mapsto> render (wl_data l')) \<and>
    fld t' ''STATE'' = JStr ''DONE'' \<and>
    fld t' ''D4_EVIDENCE'' = JArr (arr_of (fld (tasks (wl_data l) ! k) ''D4_EVIDENCE'') @
       (case evidence of None \<Rightarrow> [] | Some e \<Rightarrow> [e])) \<and>
    fld t' ''COMPLETION_SEAL'' = completion_seal (sha256 w) (tasks (wl_data l) ! k)
       (fld t' ''D4_EVIDENCE'') (clock w (ticks w)) (fld t' ''CLOSED_HEAD'')"
proof -
  let ?t = "tasks (wl_data l) ! k" and ?now = "clock w (ticks w)"
  let ?c = "completed (sha256 w) ?t evidence head ?now"
  let ?t' = "dset ''LAST_UPDATE'' (JStr (clock w (Suc (ticks w)))) ?c"
  let ?items = "JArr (arr_of (fld ?t ''D4_EVIDENCE'') @ (case evidence of None \<Rightarrow> [] | Some e \<Rightarrow> [e]))"
  let ?h = "head_or_unspecified head"
  let ?ch = "completion_changes ?items ?now ?h (completion_seal (sha256 w) ?t ?items ?now ?h)"
  let ?l = "l\<lparr>wl_data := set_tasks ((tasks (wl_data l))[k := ?t']) (wl_data l)\<rparr>"
  let ?w = "w\<lparr>ticks := Suc (Suc (ticks w))\<rparr>"
  have k: "k < length (tasks (wl_data l))" using task_pos_Some [OF assms(3)] by simp
  with assms(1) have ok: "task_ok ?t" by (simp add: wl_ok_def)
  then have "is_arr (fld ?t ''D4_EVIDENCE'')"
    by (simp add: task_ok_def validate_task_JObj LIST_FIELDS_def)
  then have ev: "(case evidence of None \<Rightarrow> Inr (fld ?t ''D4_EVIDENCE'')
      | Some e \<Rightarrow> py_append (fld ?t ''D4_EVIDENCE'') e) = Inr ?items"
    by (auto simp: py_append_def is_arr_def split: json.splits option.splits)
  have v: "validate_task (JObj ?t') = Inr ()" using ok by (rule validate_completed)
  have up: "complete_task i evidence head (l, w) = update_task i ?ch (l, w\<lparr>ticks := Suc (ticks w)\<rparr>)"
    using assms(3,4) ev
    by (simp add: complete_task_def m_bind_def [of "find_task i"] find_task_apply Let_def)
  also have "\<dots> = store_update k ?t ?ch (l, w\<lparr>ticks := Suc (ticks w)\<rparr>)"
    using assms(3,4)
    by (simp add: update_task_def m_bind_def [of "find_task i"] find_task_apply completed_no_id
        ALLOWED_STATES_def)
  also have "\<dots> = m_then wl_save (ret (JObj ?t')) (?l, ?w)"
    using v by (simp add: store_update_def completed_def Let_def)
  also have "\<dots> = (Inr (JObj ?t'), (?l\<lparr>wl_data := stamp ?w (wl_data ?l),
       wl_sha := sha256 ?w (render (stamp ?w (wl_data ?l)))\<rparr>,
      (released ?w)\<lparr>ticks := Suc (ticks ?w),
         files := (files ?w)(wl_path ?l \<mapsto> render (stamp ?w (wl_data ?l)))\<rparr>))"
  proof -
    have "fresh ?l ?w" using assms(2) by (simp add: fresh_def)
    from wl_save_fresh [OF this] show ?thesis by simp
  qed
  finally have run: "complete_task i evidence head (l, w) = \<dots>" .
  show ?thesis
    unfolding run by (intro exI conjI, rule refl)
      (simp_all add: completed_def Let_def dget_completion)
qed

text \<open>
  C20: On a well-formed, fresh ledger, completing an open task succeeds: the stored
  task is DONE, carries the old evidence followed by the new piece, and a seal whose digests are
  those of the task's scope before completion and of the stored evidence; no other task
  changes and the file holds the new data.
\<close>

theorem complete_task_outcome:
  assumes "wl_ok (wl_data l)" and "fresh l w" and "task_pos i (wl_data l) = Some k"
    and "\<not> closed (tasks (wl_data l) ! k)"
  shows "\<exists>l' w' t'. complete_task i evidence head (l, w) = (Inr (JObj t'), (l', w')) \<and>
    tasks (wl_data l') = (tasks (wl_data l))[k := t'] \<and>
    files w' = (files w)(wl_path l \<mapsto> render (wl_data l')) \<and>
    fld t' ''STATE'' = JStr ''DONE'' \<and>
    fld t' ''D4_EVIDENCE'' = JArr (arr_of (fld (tasks (wl_data l) ! k) ''D4_EVIDENCE'') @
       (case evidence of None \<Rightarrow> [] | Some e \<Rightarrow> [e])) \<and>
    fld t' ''COMPLETION_SEAL'' = completion_seal (sha256 w) (tasks (wl_data l) ! k)
       (fld t' ''D4_EVIDENCE'') (clock w (ticks w)) (fld t' ''CLOSED_HEAD'')"
  using assms by (rule complete_task_runs)

theorem complete_task_outcome_witness:
  "\<exists>l' w' t'. complete_task (JStr ''a'') (Some (JStr ''e'')) None
       (demo_open [demo_task ''a'' ''DOING'' ''P1''], demo_disk [demo_task ''a'' ''DOING'' ''P1''])
     = (Inr (JObj t'), (l', w')) \<and> fld t' ''D4_EVIDENCE'' = JArr [JStr ''e'']"
proof -
  let ?ts = "[demo_task ''a'' ''DOING'' ''P1'']"
  have "wl_ok (demo_tasks ?ts)"
    by (intro wl_ok_demo) (auto intro: task_ok_demo simp: ALLOWED_STATES_def distinct_by_def)
  then have ok: "wl_ok (wl_data (demo_open ?ts))" by (simp add: demo_open_def)
  have pos: "task_pos (JStr ''a'') (wl_data (demo_open ?ts)) = Some 0"
    by (simp add: task_pos_def demo_open_def) (simp add: demo_task_def)
  have "\<not> closed (tasks (wl_data (demo_open ?ts)) ! 0)"
    by (simp add: demo_open_def) (simp add: closed_def demo_task_def)
  from complete_task_outcome [OF ok fresh_demo pos this, of "Some (JStr ''e'')" None]
  show ?thesis by (auto simp: demo_open_def demo_task_def)
qed

section \<open>The order in which tasks are offered\<close>

definition open_task :: "json dict \<Rightarrow> bool" where
  "open_task t \<longleftrightarrow> (\<exists>s \<in> set OPEN_STATES. fld t ''STATE'' = JStr s)"

lemma list_open_tasks_Inr:
  "list_open_tasks l = Inr ts \<Longrightarrow>
   ts = sort_key open_key (filter open_task (tasks (wl_data l)))"
  by (auto simp: list_open_tasks_def e_bind_InrD filter_err_Inr in_strings_True open_task_def
      cong: filter_cong)

lemma priority_rank_Inr: "hashable p \<Longrightarrow> \<exists>n. priority_rank p = Inr n"
  by (simp add: priority_rank_def)

lemma list_open_tasks_ok:
  assumes "\<forall>t \<in> set (tasks (wl_data l)). hashable (fld t ''STATE'') \<and> hashable (fld t ''PRIORITY'')"
  shows "list_open_tasks l = Inr (sort_key open_key (filter open_task (tasks (wl_data l))))"
proof -
  have st: "in_strings (fld t ''STATE'') OPEN_STATES = Inr (open_task t)"
    if "t \<in> set (tasks (wl_data l))" for t
    using assms that by (auto simp: in_strings_def open_task_def)
  then have fe: "filter_err (\<lambda>t. in_strings (fld t ''STATE'') OPEN_STATES) (tasks (wl_data l))
      = Inr (filter open_task (tasks (wl_data l)))"
    by (simp add: filter_err_Inr cong: filter_cong)
  have "map_err (\<lambda>t. priority_rank (fld t ''PRIORITY'')) (filter open_task (tasks (wl_data l)))
      = Inr (map rank_of (filter open_task (tasks (wl_data l))))"
    using assms by (intro map_err_all_Inr) (auto simp: rank_of_def priority_rank_def)
  with fe show ?thesis by (simp add: list_open_tasks_def)
qed

text \<open>
  When states and priorities are hashable the open tasks are listed without error:
  the list is a rearrangement of the tasks whose state is open, ordered by priority, then DOING
  before the others, then by identifier, and tasks that agree on these keep their order.
\<close>

theorem open_tasks_sorted:
  assumes "\<forall>t \<in> set (tasks (wl_data l)). hashable (fld t ''STATE'') \<and> hashable (fld t ''PRIORITY'')"
  shows "\<exists>ts. list_open_tasks l = Inr ts \<and> mset ts = mset (filter open_task (tasks (wl_data l))) \<and>
    sorted (map open_key ts) \<and>
    (\<forall>k. filter (\<lambda>t. open_key t = k) ts =
         filter (\<lambda>t. open_key t = k) (filter open_task (tasks (wl_data l))))"
proof -
  let ?f = "filter open_task (tasks (wl_data l))"
  have st: "filter (\<lambda>t. open_key t = k) (sort_key open_key ?f) = filter (\<lambda>t. open_key t = k) ?f" for k
    using sort_key_stable [of open_key k ?f] by (simp add: eq_commute)
  show ?thesis
    by (intro exI conjI allI, rule list_open_tasks_ok [OF assms]) (simp_all add: st del: filter_filter)
qed

theorem open_tasks_sorted_witness:
  "\<exists>ts. list_open_tasks (demo_open [demo_task ''a'' ''TODO'' ''P1'', demo_task ''b'' ''DONE'' ''P0'']) = Inr ts \<and>
     mset ts = {#demo_task ''a'' ''TODO'' ''P1''#}"
proof -
  let ?l = "demo_open [demo_task ''a'' ''TODO'' ''P1'', demo_task ''b'' ''DONE'' ''P0'']"
  have t: "tasks (wl_data ?l) = [demo_task ''a'' ''TODO'' ''P1'', demo_task ''b'' ''DONE'' ''P0'']"
    by (simp add: demo_open_def)
  have h: "\<forall>t \<in> set (tasks (wl_data ?l)). hashable (fld t ''STATE'') \<and> hashable (fld t ''PRIORITY'')"
    unfolding t by (simp add: demo_task_def hashable_def)
  have "filter open_task (tasks (wl_data ?l)) = [demo_task ''a'' ''TODO'' ''P1'']"
    unfolding t by (simp add: open_task_def OPEN_STATES_def) (simp add: demo_task_def)
  with open_tasks_sorted [OF h] show ?thesis by (metis mset_single_iff_right mset.simps(1,2))
qed

lemma deps_done_Inr:
  "deps_done ts deps = Inr c \<Longrightarrow>
   c \<longleftrightarrow> (\<forall>d \<in> set deps. \<forall>s. known_state ts d = Some s \<longrightarrow> s = JStr ''DONE'')"
proof (induction deps)
  case (Cons d deps)
  then show ?case
    by (cases "known_state ts d") (simp_all split: if_splits)
qed simp

lemma distinct_by_find_rev:
  assumes "distinct_by key ts" and "u \<in> set ts" and "pyeq (fld u key) i"
  shows "List.find (\<lambda>t. pyeq (fld t key) i) (rev ts) = Some u"
proof (cases "List.find (\<lambda>t. pyeq (fld t key) i) (rev ts)")
  case None
  with assms(2,3) show ?thesis by (auto simp: find_None_iff)
next
  case (Some v)
  then obtain n where "n < length (rev ts)" "pyeq (fld v key) i" "v = rev ts ! n"
    by (auto simp: find_Some_iff)
  then have v: "v \<in> set ts" "pyeq (fld v key) i" using nth_mem [of n "rev ts"] by simp_all
  from v(1) assms(2) obtain a b where ab: "a < length ts" "ts ! a = v" "b < length ts" "ts ! b = u"
    by (metis in_set_conv_nth)
  have "pyeq (fld v key) (fld u key)" using v(2) assms(3) pyeq_sym pyeq_trans by blast
  with distinct_byD [OF assms(1), of a b] ab have "v = u" by auto
  with Some show ?thesis by simp
qed

text \<open>A task the program may work on now.\<close>

definition ready :: "json dict list \<Rightarrow> json dict \<Rightarrow> bool" where
  "ready ts t \<longleftrightarrow>
     (fld t ''STATE'' = JStr ''TODO'' \<or> fld t ''STATE'' = JStr ''DOING'') \<and>
     \<not> truthy (fld t ''BLOCKERS'') \<and> fld t ''NEXT_ACTION'' \<notin> {JStr [], JStr ''NONE'', JNull} \<and>
     (\<forall>dep \<in> set (arr_of (fld t ''DEPENDENCIES'')). \<forall>u \<in> set ts.
        pyeq (fld u ''TASK_ID'') dep \<longrightarrow> fld u ''STATE'' = JStr ''DONE'')"

lemma known_state_iff:
  assumes "distinct_by ''TASK_ID'' ts"
  shows "(\<forall>s. known_state ts i = Some s \<longrightarrow> s = JStr ''DONE'') \<longleftrightarrow>
    (\<forall>u \<in> set ts. pyeq (fld u ''TASK_ID'') i \<longrightarrow> fld u ''STATE'' = JStr ''DONE'')"
proof (cases "\<exists>u \<in> set ts. pyeq (fld u ''TASK_ID'') i")
  case True
  then obtain u where u: "u \<in> set ts" "pyeq (fld u ''TASK_ID'') i" by blast
  have uniq: "v = u" if "v \<in> set ts" "pyeq (fld v ''TASK_ID'') i" for v
    using distinct_by_find_rev [OF assms u] distinct_by_find_rev [OF assms that] by simp
  have "known_state ts i = Some (fld u ''STATE'')"
    by (simp add: known_state_def distinct_by_find_rev [OF assms u])
  moreover have "(\<forall>v \<in> set ts. pyeq (fld v ''TASK_ID'') i \<longrightarrow> fld v ''STATE'' = JStr ''DONE'') \<longleftrightarrow>
      fld u ''STATE'' = JStr ''DONE''"
    using u uniq by blast
  ultimately show ?thesis by simp
next
  case False
  then have "List.find (\<lambda>t. pyeq (fld t ''TASK_ID'') i) (rev ts) = None" by (simp add: find_None_iff)
  with False show ?thesis by (auto simp: known_state_def)
qed

lemma actionable_True:
  assumes "distinct_by ''TASK_ID'' ts" and "is_arr (fld t ''DEPENDENCIES'')"
    and "actionable ts t = Inr b"
  shows "b \<longleftrightarrow> ready ts t"
proof -
  obtain ds where ds: "fld t ''DEPENDENCIES'' = JArr ds"
    using assms(2) by (auto simp: is_arr_def split: json.splits)
  have deps: "c \<longleftrightarrow> (\<forall>d \<in> set ds. \<forall>u \<in> set ts. pyeq (fld u ''TASK_ID'') d \<longrightarrow> fld u ''STATE'' = JStr ''DONE'')"
    if "dependencies_done ts t = Inr c" for c
    using that deps_done_Inr [of ts ds c] known_state_iff [OF assms(1)]
    by (simp add: dependencies_done_def ds py_list_def split: if_splits)
  show ?thesis
  proof (cases "dependencies_done ts t")
    case (Inl e)
    with assms(3) show ?thesis by (auto simp: actionable_def ready_def split: if_splits)
  next
    case (Inr c)
    with assms(3) deps [OF Inr] show ?thesis
      by (auto simp: actionable_def ready_def ds split: if_splits)
  qed
qed

text \<open>
  C21: On a well-formed ledger, when \<open>get_next_action\<close> returns nothing no task is ready;
  otherwise it names a ready task (TODO or DOING, nothing blocking it, a next action,
  every known dependency DONE), and no other ready task comes before it: first the tasks the caller
  says are active, then by priority, DOING, and identifier.
\<close>

theorem next_action_is_best_ready:
  assumes "wl_ok (wl_data l)" and "get_next_action l active = Inr res"
  shows "case res of
      None \<Rightarrow> \<forall>t \<in> set (tasks (wl_data l)). \<not> ready (tasks (wl_data l)) t
    | Some a \<Rightarrow> \<exists>t \<in> set (tasks (wl_data l)). ready (tasks (wl_data l)) t \<and>
        a = [(''TASK_ID'', fld t ''TASK_ID''), (''NEXT_ACTION'', fld t ''NEXT_ACTION'')] \<and>
        (\<forall>u \<in> set (tasks (wl_data l)). ready (tasks (wl_data l)) u \<longrightarrow>
           next_key active t \<le> next_key active u)"
proof -
  let ?ts = "tasks (wl_data l)"
  from assms(2) obtain os cs where os: "list_open_tasks l = Inr os"
    and cs: "filter_err (actionable ?ts) os = Inr cs"
    and res: "res = (if cs = [] then None
          else let t = hd (sort_key (next_key active) cs)
               in Some [(''TASK_ID'', fld t ''TASK_ID''), (''NEXT_ACTION'', fld t ''NEXT_ACTION'')])"
    by (auto simp: get_next_action_def e_bind_InrD)
  have os_set: "set os = {t \<in> set ?ts. open_task t}"
    using list_open_tasks_Inr [OF os] by simp
  have rd: "b \<longleftrightarrow> ready ?ts t" if "t \<in> set ?ts" "actionable ?ts t = Inr b" for t b
    using assms(1) that
    by (intro actionable_True) (auto simp: wl_ok_def task_ok_def validate_task_JObj LIST_FIELDS_def)
  from cs have "\<forall>t \<in> set os. \<exists>b. actionable ?ts t = Inr b" "cs = filter (\<lambda>t. actionable ?ts t = Inr True) os"
    by (simp_all add: filter_err_Inr)
  then have "set cs = {t \<in> set os. ready ?ts t}" using rd os_set by auto
  then have cs_set: "set cs = {t \<in> set ?ts. ready ?ts t}"
    using os_set by (auto simp: ready_def open_task_def OPEN_STATES_def)
  show ?thesis
  proof (cases "cs = []")
    case True
    with cs_set res show ?thesis by auto
  next
    case False
    let ?t = "hd (sort_key (next_key active) cs)"
    have "?t \<in> set cs" using False by (rule hd_sort_key_in)
    then have t: "?t \<in> set ?ts" "ready ?ts ?t" by (simp_all add: cs_set)
    have least: "\<forall>u \<in> set ?ts. ready ?ts u \<longrightarrow> next_key active ?t \<le> next_key active u"
    proof (intro ballI impI)
      fix u
      assume "u \<in> set ?ts" "ready ?ts u"
      then have "u \<in> set cs" by (simp add: cs_set)
      then show "next_key active ?t \<le> next_key active u" by (rule sort_key_hd_least)
    qed
    have "res = Some [(''TASK_ID'', fld ?t ''TASK_ID''), (''NEXT_ACTION'', fld ?t ''NEXT_ACTION'')]"
      using res False by (simp only: if_False Let_def)
    then show ?thesis
      by (simp only: option.case, intro bexI conjI)
        (rule t(2), rule refl, rule least, rule t(1))
  qed
qed

theorem next_action_is_best_ready_witness:
  "\<exists>res. get_next_action (demo_open [demo_task ''a'' ''TODO'' ''P1'']) [] = Inr res \<and>
     ready [demo_task ''a'' ''TODO'' ''P1''] (demo_task ''a'' ''TODO'' ''P1'') \<and> res \<noteq> None"
proof -
  let ?a = "demo_task ''a'' ''TODO'' ''P1''"
  let ?l = "demo_open [?a]"
  have t: "tasks (wl_data ?l) = [?a]" by (simp add: demo_open_def)
  have ok: "wl_ok (wl_data ?l)"
    unfolding demo_open_def by simp (intro wl_ok_demo, auto intro: task_ok_demo simp: ALLOWED_STATES_def distinct_by_def)
  have h: "\<forall>t \<in> set (tasks (wl_data ?l)). hashable (fld t ''STATE'') \<and> hashable (fld t ''PRIORITY'')"
    unfolding t by (simp add: demo_task_def hashable_def)
  have "filter open_task [?a] = [?a]"
    by (simp add: open_task_def OPEN_STATES_def) (simp add: demo_task_def)
  with list_open_tasks_ok [OF h] have os: "list_open_tasks ?l = Inr [?a]" by (simp add: t)
  have "actionable [?a] ?a = Inr True"
    by (simp add: actionable_def dependencies_done_def) (simp add: demo_task_def py_list_def hashable_def)
  then have "\<exists>res. get_next_action ?l [] = Inr res \<and> res \<noteq> None"
    by (simp add: get_next_action_def os t Let_def)
  then obtain res where res: "get_next_action ?l [] = Inr res" "res \<noteq> None" by blast
  from next_action_is_best_ready [OF ok res(1)] res(2) have "ready [?a] ?a" by (auto simp: t)
  with res show ?thesis by blast
qed

section \<open>A failed update poisons the object\<close>

lemma check_bad_task:
  assumes "validate_task (JObj t) = Inl e"
  shows "\<forall>u \<in> set us. task_ok u \<and> (\<forall>j \<in> set seen. \<not> pyeq j (fld u ''TASK_ID'')) \<Longrightarrow>
    distinct_by ''TASK_ID'' us \<Longrightarrow> check_tasks seen (map JObj (us @ t # vs)) = Inl e"
proof (induction us arbitrary: seen)
  case Nil
  with assms show ?case by simp
next
  case (Cons u us)
  then have "check_tasks (fld u ''TASK_ID'' # seen) (map JObj (us @ t # vs)) = Inl e"
    by (intro Cons.IH) (auto simp: distinct_by_def)
  with Cons.prems show ?case by (auto simp: task_ok_def Let_def)
qed

text \<open>What a failed update of a fresh object has left in it: the task it put is refused.\<close>

lemma failed_update_left:
  assumes ok: "wl_ok (wl_data l)" and fr: "fresh l w" and ch: "dict_wf changes"
    and run: "update_task i changes (l, w) = (Inl e, (l1, w1))" and new: "wl_data l1 \<noteq> wl_data l"
  shows "files w1 = files w \<and> sha256 w1 = sha256 w \<and> fresh l1 w1 \<and> wl_path l1 = wl_path l \<and> dict_wf (wl_data l1) \<and>
    (\<exists>k t. k < length (tasks (wl_data l)) \<and> tasks (wl_data l1) = (tasks (wl_data l))[k := t] \<and>
       validate_task (JObj t) = Inl e)"
proof -
  from new run obtain k where k: "task_pos i (wl_data l) = Some k"
    and st: "store_update k (tasks (wl_data l) ! k) changes (l, w) = (Inl e, (l1, w1))"
    by (cases "task_pos i (wl_data l)")
      (auto simp: update_task_def find_task_apply guard_bind_cases m_bind_def [of "find_task i"]
        split: if_splits sum.splits)
  let ?t = "dset ''LAST_UPDATE'' (JStr (clock w (ticks w))) (dmerge (tasks (wl_data l) ! k) changes)"
  let ?l = "l\<lparr>wl_data := set_tasks ((tasks (wl_data l))[k := ?t]) (wl_data l)\<rparr>"
  let ?w = "w\<lparr>ticks := Suc (ticks w)\<rparr>"
  have step: "m_then (lift (validate_task (JObj ?t))) (m_then wl_save (ret (JObj ?t))) (?l, ?w) = (Inl e, (l1, w1))"
    using st by (simp add: store_update_def Let_def)
  have fr1: "fresh ?l ?w" using fr by (simp add: fresh_def)
  have "validate_task (JObj ?t) = Inl e \<and> l1 = ?l \<and> w1 = ?w"
  proof (cases "validate_task (JObj ?t)")
    case (Inr u)
    with step wl_save_fresh [OF fr1] show ?thesis by simp
  qed (use step in auto)
  moreover have "dict_wf (wl_data l1)"
    using keeps_wf_update [OF ch, of i] ok run unfolding wf_memory_def wl_ok_def by blast
  ultimately show ?thesis using fr1 task_pos_Some [OF k] by auto
qed

text \<open>
  C35: \<open>update_task\<close> changes the stored task before it is validated.  Take any object that agrees
  with its file, and any update on it that raises after it has changed the object's data.  The file
  is untouched, but the object keeps the refused task: when a later \<open>create_task\<close> on it returns,
  whatever the new task is, it has saved the refused one too, and from then on opening the file
  raises the error of the failed update.
\<close>

theorem failed_update_poisons_ledger:
  assumes "open_work_ledger (wl_path l) w = Inr l" and "dict_wf changes" and "dict_wf task"
    and "update_task i changes (l, w) = (Inl e, (l1, w1))" and "wl_data l1 \<noteq> wl_data l"
    and "create_task task (l1, w1) = (Inr v, (l2, w2))"
  shows "files w1 = files w \<and> open_work_ledger (wl_path l) w2 = Inl e"
proof -
  have ok: "wl_ok (wl_data l)" by (rule open_ok(1) [OF assms(1)])
  have fr: "fresh l w" using open_ok(3) [OF assms(1)] by (auto simp: fresh_def)
  let ?ts = "tasks (wl_data l)"
  from failed_update_left [OF ok fr assms(2,4,5)] obtain k t where
    left: "files w1 = files w" "fresh l1 w1" "wl_path l1 = wl_path l" "dict_wf (wl_data l1)"
    and k: "k < length ?ts" "tasks (wl_data l1) = ?ts[k := t]" and bad: "validate_task (JObj t) = Inl e" by blast
  define new where "new = (if dhas task ''LAST_UPDATE'' then task
    else dset ''LAST_UPDATE'' (JStr (clock w1 (ticks w1))) task)"
  let ?us = "?ts[k := t] @ [new]"
  let ?l = "l1\<lparr>wl_data := set_tasks ?us (wl_data l1)\<rparr>" and ?w = "w1\<lparr>ticks := Suc (ticks w1)\<rparr>"
  let ?d = "stamp ?w (set_tasks ?us (wl_data l1))"
  have fr1: "fresh ?l ?w" using left(2) by (simp add: fresh_def)
  from assms(6) have "m_then wl_save (ret (JObj new)) (?l, ?w) = (Inr v, (l2, w2))"
    using k(2) by (cases "validate_task (JObj new)")
      (auto simp: create_task_def append_task_def Let_def new_def [symmetric] split: if_splits)
  then have f: "files w2 (wl_path l) = Some (render ?d)"
    using wl_save_fresh [OF fr1] left(3) by auto
  have "dict_wf new" unfolding new_def using assms(3) by (auto intro: dict_wf_dset simp del: jwf.simps(2))
  moreover have "\<forall>u \<in> set (tasks (wl_data l1)). dict_wf u" using dict_wf_tasks [OF left(4)] by blast
  ultimately have "dict_wf (set_tasks ?us (wl_data l1))"
    using left(4) k(2) by (intro dict_wf_set_tasks) (auto simp del: jwf.simps)
  then have wf: "dict_wf ?d" unfolding stamp_def by (rule dict_wf_dset) simp
  have split: "?us = take k ?ts @ t # (drop (Suc k) ?ts @ [new])" using k(1) by (simp add: upd_conv_take_nth_drop)
  have "distinct_by ''TASK_ID'' (take k ?ts)" using ok by (simp add: wl_ok_def distinct_by_def sorted_wrt_take)
  moreover have "\<forall>u \<in> set (take k ?ts). task_ok u" using ok by (auto simp: wl_ok_def dest: in_set_takeD)
  ultimately have "check_tasks [] (map JObj ?us) = Inl e"
    unfolding split by (intro check_bad_task [OF bad]) simp_all
  moreover have "dget ?d ''TASKS'' = Some (JArr (map JObj ?us))" by (simp add: stamp_def set_tasks_def)
  ultimately have "parse_work_file (render ?d) = Inl e"
    using loads_render [OF wf] by (simp add: parse_work_file_def)
  with f left(1) show ?thesis by (simp add: open_work_ledger_def)
qed

theorem failed_update_poisons_ledger_witness:
  "\<exists>e l1 w1 v l2 w2.
     update_task (JStr ''a'') [(''BLOCKERS'', JStr ''x'')]
       (demo_open [demo_task ''a'' ''TODO'' ''P1''], demo_disk [demo_task ''a'' ''TODO'' ''P1'']) = (Inl e, (l1, w1)) \<and>
     create_task (demo_task ''b'' ''TODO'' ''P0'') (l1, w1) = (Inr v, (l2, w2)) \<and>
     files w1 = files (demo_disk [demo_task ''a'' ''TODO'' ''P1'']) \<and> open_work_ledger ''W'' w2 = Inl e"
proof -
  let ?a = "demo_task ''a'' ''TODO'' ''P1''" and ?b = "demo_task ''b'' ''TODO'' ''P0''"
  let ?ch = "[(''BLOCKERS'', JStr ''x'')]"
  let ?p = "dset ''LAST_UPDATE'' (JStr ''t'') (dset ''BLOCKERS'' (JStr ''x'') ?a)"
  let ?e = "ValueErrorOn ''must be a list'' (JStr ''BLOCKERS'')"
  let ?l1 = "(demo_open [?a])\<lparr>wl_data := demo_tasks [?p]\<rparr>"
  let ?w1 = "(demo_disk [?a])\<lparr>ticks := 1\<rparr>"
  have bad: "validate_task (JObj ?p) = Inl ?e"
    by (simp add: validate_task_def required_fields_def REQUIRED_TASK_FIELDS_def LIST_FIELDS_def
        ALLOWED_STATES_def demo_task_def dhas_def check_def is_arr_def)
  have pos: "task_pos (JStr ''a'') (demo_tasks [?a]) = Some 0"
    by (simp add: task_pos_def) (simp add: demo_task_def)
  have "\<not> closed ?a" by (simp add: closed_def demo_task_def)
  moreover have "set_tasks [t] (demo_tasks [u]) = demo_tasks [t]" for t u
    by (simp add: set_tasks_def demo_tasks_def)
  moreover have "wl_data (demo_open [?a]) = demo_tasks [?a]" "clock (demo_disk [?a]) = (\<lambda>_. ''t'')"
    "ticks (demo_disk [?a]) = 0" by (simp_all add: demo_open_def demo_disk_def)
  ultimately have run: "update_task (JStr ''a'') ?ch (demo_open [?a], demo_disk [?a]) = (Inl ?e, (?l1, ?w1))"
    using pos bad
    by (simp add: update_task_def dhas_def m_bind_def [of "find_task (JStr ''a'')"] find_task_apply
        store_update_def Let_def)
  have fr: "fresh ?l1 ?w1" by (simp add: fresh_def demo_open_def demo_disk_def)
  have l1: "wl_path ?l1 = ''W''" "wl_data ?l1 = demo_tasks [?p]" by (simp_all add: demo_open_def)
  have "\<forall>t \<in> set [?p]. fld t ''TASK_ID'' \<noteq> JStr ''b''" by (simp add: demo_task_def)
  from create_b [OF l1 fr this]
  obtain l2 w2 where cr: "create_task ?b (?l1, ?w1) = (Inr (JObj ?b), (l2, w2))" by blast
  have "wl_ok (demo_tasks [?a])"
    by (intro wl_ok_demo) (auto intro: task_ok_demo simp: ALLOWED_STATES_def distinct_by_def)
  from open_demo [OF this] have op: "open_work_ledger (wl_path (demo_open [?a])) (demo_disk [?a]) = Inr (demo_open [?a])"
    by (simp add: demo_open_def)
  have wf: "dict_wf ?ch" "dict_wf ?b" by (simp_all add: demo_task_def)
  have "wl_data ?l1 \<noteq> wl_data (demo_open [?a])"
    by (simp add: demo_open_def demo_tasks_def) (simp add: demo_task_def)
  from failed_update_poisons_ledger [OF op wf run this cr]
  have "files ?w1 = files (demo_disk [?a])" "open_work_ledger ''W'' w2 = Inl ?e"
    by (simp_all add: demo_open_def)
  with run cr show ?thesis by blast
qed

end
