(* ===== verification/PyRepr.thy ===== *)
theory PyRepr
  imports PyStr
begin

text \<open>
  \<open>str()\<close> and \<open>repr()\<close> of JSON values, used where the code stores a value as text, and the
  accesses and letter operations that the resource and capability modules share.
\<close>

section \<open>\<open>str(value)\<close>\<close>

text \<open>
  \<open>repr\<close> of a string: single quotes unless only those occur inside, escapes for the
  quote, the backslash and the control characters; other code points are taken to be printable.
\<close>

definition hex_escape :: "nat \<Rightarrow> string" where
  "hex_escape n = [CHR 92, CHR ''x'', hex_digit (n div 16), hex_digit (n mod 16)]"

definition repr_group :: "char \<Rightarrow> string \<Rightarrow> string" where
  "repr_group q g =
     (case g of
        [c] \<Rightarrow>
          (if c = q \<or> c = CHR 92 then [CHR 92, c]
           else if c = CHR 10 then [CHR 92, CHR ''n'']
           else if c = CHR 13 then [CHR 92, CHR ''r'']
           else if c = CHR 9 then [CHR 92, CHR ''t'']
           else if (of_char c :: nat) < 32 \<or> c = CHR 127 then hex_escape (of_char c)
           else g)
      | [c, d] \<Rightarrow>
          (if c = CHR 194 \<and> ((of_char d :: nat) \<le> 160 \<or> d = CHR 173) then hex_escape (of_char d)
           else g)
      | _ \<Rightarrow> g)"

definition repr_str :: "string \<Rightarrow> string" where
  "repr_str s =
     (let q = (if CHR 39 \<in> set s \<and> CHR 34 \<notin> set s then CHR 34 else CHR 39)
      in [q] @ concat (map (repr_group q) (py_chars s)) @ [q])"

fun repr_json :: "json \<Rightarrow> string" where
  "repr_json JNull = ''None''"
| "repr_json (JBool b) = (if b then ''True'' else ''False'')"
| "repr_json (JInt n) = show_int n"
| "repr_json (JStr s) = repr_str s"
| "repr_json (JArr xs) = ''['' @ join '', '' (map repr_json xs) @ '']''"
| "repr_json (JObj d) = ''{'' @ join '', '' (map (\<lambda>(k, v). repr_str k @ '': '' @ repr_json v) d) @ ''}''"

definition py_str :: "json \<Rightarrow> string" where
  "py_str v = (case v of JStr s \<Rightarrow> s | _ \<Rightarrow> repr_json v)"

lemma py_str_JStr [simp]: "py_str (JStr s) = s"
  by (simp add: py_str_def)

section \<open>Attributes, alternatives, letters\<close>

text \<open>\<open>v.get(k)\<close> of any value, \<open>d.get(k, other)\<close>, \<open>a or b\<close>, \<open>s.rstrip("/")\<close>, and \<open>upper\<close> of ASCII letters.\<close>

definition get_attr :: "json \<Rightarrow> string \<Rightarrow> json \<Rightarrow> py_error + json" where
  "get_attr v k other =
     (case v of JObj d \<Rightarrow> Inr (case dget d k of Some x \<Rightarrow> x | None \<Rightarrow> other)
      | _ \<Rightarrow> Inl (AttributeError ''get''))"

definition get_default :: "json dict \<Rightarrow> string \<Rightarrow> json \<Rightarrow> json" where
  "get_default d k other = (case dget d k of Some v \<Rightarrow> v | None \<Rightarrow> other)"

definition or_else :: "json \<Rightarrow> json \<Rightarrow> json" where
  "or_else a b = (if truthy a then a else b)"

definition items_of :: "json \<Rightarrow> py_error + json dict" where
  "items_of v = (case v of JObj d \<Rightarrow> Inr d | _ \<Rightarrow> Inl (AttributeError ''items''))"

definition rstrip_slash :: "string \<Rightarrow> string" where
  "rstrip_slash s = rev (dropWhile (\<lambda>c. c = CHR ''/'') (rev s))"

definition upper :: "string \<Rightarrow> string" where
  "upper s = map (\<lambda>c. if 97 \<le> (of_char c :: nat) \<and> (of_char c :: nat) \<le> 122
                      then char_of (of_char c - 32 :: nat) else c) s"

text \<open>
  \<open>casefold\<close>: ASCII letters, and the nineteen other code points whose case folding contains an
  ASCII letter.  The folding of the remaining letters neither makes nor breaks an occurrence of
  the words the code looks for, which are ASCII or Chinese, and is left out.
\<close>

definition fold_table :: "(nat list \<times> string) list" where
  "fold_table =
     [([195, 159], ''ss''), ([196, 176], ''i'' @ bytes [204, 135]), ([197, 137], bytes [202, 188] @ ''n''),
      ([197, 191], ''s''), ([199, 176], ''j'' @ bytes [204, 140]), ([225, 186, 150], ''h'' @ bytes [204, 177]),
      ([225, 186, 151], ''t'' @ bytes [204, 136]), ([225, 186, 152], ''w'' @ bytes [204, 138]),
      ([225, 186, 153], ''y'' @ bytes [204, 138]), ([225, 186, 154], ''a'' @ bytes [202, 190]),
      ([225, 186, 158], ''ss''), ([226, 132, 170], ''k''), ([239, 172, 128], ''ff''),
      ([239, 172, 129], ''fi''), ([239, 172, 130], ''fl''), ([239, 172, 131], ''ffi''),
      ([239, 172, 132], ''ffl''), ([239, 172, 133], ''st''), ([239, 172, 134], ''st'')]"

definition fold_group :: "string \<Rightarrow> string" where
  "fold_group g = (case map_of fold_table (map of_char g) of Some s \<Rightarrow> s | None \<Rightarrow> lower g)"

definition casefold :: "string \<Rightarrow> string" where
  "casefold s = concat (map fold_group (py_chars s))"

end
