(* ===== verification/EvidenceLedger.thy ===== *)
theory EvidenceLedger
  imports PyRepr
begin

text \<open>
  \<open>core/adi_native/evidence_ledger.py\<close>: the legacy chain (a JSON array, hashed over the
  concatenation of five fields) and the V2 ledger (one JSON object a line, hashed over
  its canonical form, anchored in the legacy file), with the operation that appends an
  event.  The operating system's file lock makes an append one step of the model.
\<close>

section \<open>Constants and hashes\<close>

definition LEGACY_HASH_V1 :: string where "LEGACY_HASH_V1 = ''LEGACY_HASH_V1''"

definition W7TP_EVIDENCE_HASH_V2 :: string where "W7TP_EVIDENCE_HASH_V2 = ''W7TP_EVIDENCE_HASH_V2''"

definition GENESIS_HASH :: string where "GENESIS_HASH = replicate 64 (CHR ''0'')"

definition V1_FIELDS :: "string list" where
  "V1_FIELDS = [''timestamp'', ''event_type'', ''content'', ''actor'', ''previous_hash'']"

definition legacy_payload :: "json dict \<Rightarrow> py_error + string" where
  "legacy_payload r =
     e_bind (map_err (\<lambda>f. e_bind (item r f) (\<lambda>v. Inr (py_str v))) V1_FIELDS) (\<lambda>ss. Inr (concat ss))"

definition calculate_legacy_hash_v1 :: "(string \<Rightarrow> string) \<Rightarrow> json dict \<Rightarrow> py_error + string" where
  "calculate_legacy_hash_v1 sha r = e_bind (legacy_payload r) (\<lambda>p. Inr (sha p))"

definition bounded :: "json dict \<Rightarrow> json dict" where
  "bounded r = filter (\<lambda>(k, _). k \<noteq> ''hash'') r"

definition calculate_evidence_hash_v2 :: "(string \<Rightarrow> string) \<Rightarrow> json dict \<Rightarrow> string" where
  "calculate_evidence_hash_v2 sha r = sha (dumps_canonical (JObj (bounded r)))"

section \<open>The legacy chain\<close>

definition load_legacy_records :: "string \<Rightarrow> world \<Rightarrow> py_error + json dict list" where
  "load_legacy_records path w =
     (case files w path of
        None \<Rightarrow> Inl (LedgerParseFailure path ''FileNotFoundError'')
      | Some t \<Rightarrow>
         (case loads t of
            None \<Rightarrow> Inl (LedgerParseFailure path ''JSONDecodeError'')
          | Some (JArr xs) \<Rightarrow>
              if \<forall>x \<in> set xs. is_obj x then Inr (map dict_of xs)
              else Inl (LedgerParseFailure path ''EXPECTED_JSON_ARRAY'')
          | Some _ \<Rightarrow> Inl (LedgerParseFailure path ''EXPECTED_JSON_ARRAY'')))"

text \<open>The first check a record fails, and the loop over the records.\<close>

definition legacy_fault ::
  "(string \<Rightarrow> string) \<Rightarrow> nat \<Rightarrow> json \<Rightarrow> json dict \<Rightarrow> py_error + string option" where
  "legacy_fault sha i previous r =
     (if \<not> pyeq (fld r ''index'') (JInt (int i)) then Inr (Some ''LEGACY_INDEX_DIVERGENCE'')
      else if \<not> pyeq (fld r ''previous_hash'') previous then Inr (Some ''LEGACY_PREVIOUS_HASH_DIVERGENCE'')
      else if dhas r ''hash_profile'' \<and> fld r ''hash_profile'' \<noteq> JStr LEGACY_HASH_V1
      then Inr (Some ''LEGACY_HASH_PROFILE_UNSUPPORTED'')
      else e_bind (calculate_legacy_hash_v1 sha r) (\<lambda>h.
        if fld r ''hash'' \<noteq> JStr h then Inr (Some ''LEGACY_HASH_DIVERGENCE'') else Inr None))"

fun legacy_scan ::
  "(string \<Rightarrow> string) \<Rightarrow> nat \<Rightarrow> json \<Rightarrow> json dict list \<Rightarrow> py_error + (bool \<times> string)" where
  "legacy_scan sha i previous [] = Inr (True, ''CHAIN_VALID'')"
| "legacy_scan sha i previous (r # rs) =
     e_bind (legacy_fault sha i previous r) (\<lambda>fault.
       case fault of Some reason \<Rightarrow> Inr (False, reason)
       | None \<Rightarrow> legacy_scan sha (Suc i) (fld r ''hash'') rs)"

definition verify_legacy_chain :: "string \<Rightarrow> world \<Rightarrow> py_error + (bool \<times> string)" where
  "verify_legacy_chain path w =
     e_bind (load_legacy_records path w) (legacy_scan (sha256 w) 1 (JStr GENESIS_HASH))"

section \<open>The V2 ledger\<close>

record evidence_system =
  ledger_path :: string
  legacy_file_sha256 :: string
  legacy_chain_head :: string

definition load_v2_text :: "string \<Rightarrow> string \<Rightarrow> py_error + json dict list" where
  "load_v2_text path t =
     e_bind (map_err (\<lambda>line. case loads line of None \<Rightarrow> Inl (LedgerParseFailure path ''JSONDecodeError'')
                                              | Some v \<Rightarrow> Inr v)
               (filter (\<lambda>line. \<not> blank line) (splitlines t))) (\<lambda>vs.
     if \<forall>v \<in> set vs. is_obj v then Inr (map dict_of vs)
     else Inl (LedgerParseFailure path ''EXPECTED_JSONL_OBJECTS''))"

definition load_v2_records :: "evidence_system \<Rightarrow> world \<Rightarrow> py_error + json dict list" where
  "load_v2_records s w =
     (case files w (ledger_path s) of
        None \<Rightarrow> Inl (LedgerParseFailure (ledger_path s) ''FileNotFoundError'')
      | Some t \<Rightarrow> load_v2_text (ledger_path s) t)"

definition v2_fault ::
  "evidence_system \<Rightarrow> (string \<Rightarrow> string) \<Rightarrow> nat \<Rightarrow> json \<Rightarrow> int \<Rightarrow> json dict \<Rightarrow> string option" where
  "v2_fault s sha i previous logical_time r =
     (if \<not> pyeq (fld r ''index'') (JInt (int i)) then Some ''V2_INDEX_DIVERGENCE''
      else if fld r ''hash_profile'' \<noteq> JStr W7TP_EVIDENCE_HASH_V2 then Some ''V2_HASH_PROFILE_DIVERGENCE''
      else if \<not> pyeq (fld r ''previous_hash'') previous then Some ''V2_PREVIOUS_HASH_DIVERGENCE''
      else if \<not> is_int (fld r ''logical_time'') \<or> int_of (fld r ''logical_time'') \<le> logical_time
      then Some ''V2_LOGICAL_TIME_DIVERGENCE''
      else if \<not> truthy (fld r ''actor_ref'') \<or> \<not> truthy (fld r ''accountable_person_ref'')
      then Some ''V2_ACCOUNTABILITY_FIELDS_MISSING''
      else if i = 1 \<and> (fld r ''legacy_file_sha256'' \<noteq> JStr (legacy_file_sha256 s) \<or>
                       fld r ''legacy_chain_head'' \<noteq> JStr (legacy_chain_head s))
      then Some ''V2_LEGACY_ANCHOR_DIVERGENCE''
      else if fld r ''hash'' \<noteq> JStr (calculate_evidence_hash_v2 sha r) then Some ''V2_HASH_DIVERGENCE''
      else None)"

fun v2_scan ::
  "evidence_system \<Rightarrow> (string \<Rightarrow> string) \<Rightarrow> nat \<Rightarrow> json \<Rightarrow> int \<Rightarrow> json dict list \<Rightarrow> bool \<times> string" where
  "v2_scan s sha i previous logical_time [] = (True, ''CHAIN_VALID'')"
| "v2_scan s sha i previous logical_time (r # rs) =
     (case v2_fault s sha i previous logical_time r of
        Some reason \<Rightarrow> (False, reason)
      | None \<Rightarrow> v2_scan s sha (Suc i) (fld r ''hash'') (int_of (fld r ''logical_time'')) rs)"

definition verify_records :: "evidence_system \<Rightarrow> (string \<Rightarrow> string) \<Rightarrow> json dict list \<Rightarrow> bool \<times> string" where
  "verify_records s sha rs = v2_scan s sha 1 (JStr (legacy_chain_head s)) 0 rs"

definition verify_chain :: "evidence_system \<Rightarrow> world \<Rightarrow> py_error + (bool \<times> string)" where
  "verify_chain s w =
     e_bind (if files w (ledger_path s) = None then Inr [] else load_v2_records s w)
       (\<lambda>rs. Inr (verify_records s (sha256 w) rs))"

definition open_evidence_system ::
  "string \<Rightarrow> string option \<Rightarrow> string option \<Rightarrow> string option \<Rightarrow> world \<Rightarrow> py_error + evidence_system" where
  "open_evidence_system path legacy_path given_sha given_head w =
     e_bind (case legacy_path of
         Some legacy \<Rightarrow>
           e_bind (verify_legacy_chain legacy w) (\<lambda>(valid, reason).
           e_bind (check valid (LedgerParseFailure legacy reason)) (\<lambda>_.
           e_bind (load_legacy_records legacy w) (\<lambda>rs.
           Inr (map_option (sha256 w) (files w legacy),
                Some (if rs = [] then GENESIS_HASH else str_of (fld (last rs) ''hash''))))))
       | None \<Rightarrow> Inr (given_sha, given_head)) (\<lambda>(fsha, head).
     case (fsha, head) of
       (Some f, Some h) \<Rightarrow>
         e_bind (check (f \<noteq> [] \<and> h \<noteq> [])
           (ValueError ''legacy_file_sha256 and legacy_chain_head are required'')) (\<lambda>_.
         let s = \<lparr>ledger_path = path, legacy_file_sha256 = f, legacy_chain_head = h\<rparr> in
         if files w path = None then Inr s else e_bind (load_v2_records s w) (\<lambda>_. Inr s))
     | _ \<Rightarrow> Inl (ValueError ''legacy_file_sha256 and legacy_chain_head are required''))"

text \<open>The event before it is hashed, and the hashed event.\<close>

definition event_body ::
  "evidence_system \<Rightarrow> json dict list \<Rightarrow> string \<Rightarrow> int \<Rightarrow> string \<Rightarrow> json dict \<Rightarrow> string \<Rightarrow> string \<Rightarrow> json dict" where
  "event_body s rs timestamp logical event_type content actor_ref accountable =
     [(''index'', JInt (int (length rs + 1))), (''timestamp_utc'', JStr timestamp),
      (''logical_time'', JInt logical), (''event_type'', JStr event_type), (''content'', JObj content),
      (''actor_ref'', JStr actor_ref), (''accountable_person_ref'', JStr accountable),
      (''previous_hash'', if rs = [] then JStr (legacy_chain_head s) else fld (last rs) ''hash''),
      (''hash_profile'', JStr W7TP_EVIDENCE_HASH_V2)]
     @ (if rs = [] then [(''legacy_file_sha256'', JStr (legacy_file_sha256 s)),
                         (''legacy_chain_head'', JStr (legacy_chain_head s))] else [])"

definition sealed :: "(string \<Rightarrow> string) \<Rightarrow> json dict \<Rightarrow> json dict" where
  "sealed sha e = dset ''hash'' (JStr (calculate_evidence_hash_v2 sha e)) e"

definition next_logical_time :: "json dict list \<Rightarrow> int" where
  "next_logical_time rs = (if rs = [] then 1 else int_of (fld (last rs) ''logical_time'') + 1)"

text \<open>\<open>open("a+")\<close> makes an empty file when there is none; the text is what it holds.\<close>

definition open_append :: "string \<Rightarrow> ('o, string) obj_op" where
  "open_append p = (\<lambda>(ob, w). case files w p of
     None \<Rightarrow> (Inr [], (ob, w\<lparr>files := (files w)(p \<mapsto> [])\<rparr>)) | Some t \<Rightarrow> (Inr t, (ob, w)))"

text \<open>\<open>datetime.now(utc).isoformat().replace("+00:00", "Z")\<close>.\<close>

definition zulu :: "string \<Rightarrow> string" where
  "zulu t = replace_all ''+00:00'' ''Z'' t"

definition append_event ::
  "string \<Rightarrow> json dict \<Rightarrow> string \<Rightarrow> string \<Rightarrow> int option \<Rightarrow> string option \<Rightarrow>
     (evidence_system, json dict) obj_op" where
  "append_event event_type content actor_ref accountable logical_time timestamp_utc =
     m_bind obj (\<lambda>s.
     m_bind (open_append (ledger_path s)) (\<lambda>t.
     m_bind (lift (load_v2_text (ledger_path s) t)) (\<lambda>rs.
     m_bind (gets (\<lambda>(_, w). sha256 w)) (\<lambda>sha.
     let (valid, reason) = verify_records s sha rs in
     m_then (guard valid (LedgerParseFailure (ledger_path s) reason))
    (m_then (guard (case logical_time of None \<Rightarrow> True | Some n \<Rightarrow> next_logical_time rs \<le> n)
               (ValueError ''logical_time must be monotonic''))
    (m_bind (case timestamp_utc of
               Some ts \<Rightarrow> if ts \<noteq> [] then ret ts else m_bind now_op (\<lambda>now. ret (zulu now))
             | None \<Rightarrow> m_bind now_op (\<lambda>now. ret (zulu now))) (\<lambda>ts.
     let logical = (case logical_time of None \<Rightarrow> next_logical_time rs | Some n \<Rightarrow> n);
         event = sealed sha (event_body s rs ts logical event_type content actor_ref accountable)
     in m_then (replace_file (ledger_path s) (t @ dumps_sorted (JObj event) @ [CHR 10]))
               (ret event))))))))"

end
