(* ===== verification/SortedKeys.thy ===== *)
theory SortedKeys
  imports PyWorld
begin

text \<open>
  \<open>sort_keys=True\<close>: the value that a text in sorted layout stands for, its fields, and
  what two values with the same canonical text have in common.
\<close>

lemma dget_sort_key: "distinct (dkeys d) \<Longrightarrow> dget (sort_key fst d) k = dget d k"
proof -
  assume d: "distinct (dkeys d)"
  have "map_of (sort_key fst d) = map_of d"
  proof (rule map_of_eqI)
    show "set (map fst (sort_key fst d)) = set (dkeys d)" by simp
    show "\<forall>k \<in> set (map fst (sort_key fst d)). map_of (sort_key fst d) k = map_of d k"
    proof
      fix k
      have ds: "distinct (map fst (sort_key fst d))"
        using d by (metis mset_eq_imp_distinct_iff mset_map mset_sort)
      assume "k \<in> set (map fst (sort_key fst d))"
      then obtain v where v: "(k, v) \<in> set d" by auto
      then have "map_of d k = Some v" using d by simp
      moreover have "map_of (sort_key fst d) k = Some v" using ds v by simp
      ultimately show "map_of (sort_key fst d) k = map_of d k" by simp
    qed
  qed
  then show ?thesis by simp
qed

lemma dget_map_snd: "dget (map (\<lambda>(k, v). (k, f v)) d) k = map_option f (dget d k)"
  by (induction d) auto

lemma fld_sort_keys:
  assumes "dict_wf d"
  shows "fld (dict_of (sort_keys (JObj d))) k = sort_keys (fld d k)"
proof -
  have "distinct (dkeys (map (\<lambda>(k, v). (k, sort_keys v)) d))"
    using assms by (simp add: case_prod_beta o_def)
  then show ?thesis
    by (simp add: get_or_none_def dget_sort_key dget_map_snd split: option.split)
qed

definition map_vals :: "('v \<Rightarrow> 'w) \<Rightarrow> 'v dict \<Rightarrow> 'w dict" where
  "map_vals f d = map (\<lambda>(k, v). (k, f v)) d"

lemma map_vals_simps [simp]:
  "map_vals f [] = []" "map_vals f ((k, v) # d) = (k, f v) # map_vals f d"
  "map_vals f (map_vals g d) = map_vals (\<lambda>v. f (g v)) d"
  by (simp_all add: map_vals_def o_def case_prod_beta)

lemma sort_map_vals [simp]: "sort_key fst (map_vals f d) = map_vals f (sort_key fst d)"
proof (induction d)
  case (Cons p d)
  have ins: "insort_key fst (k, f v) (map_vals f e) = map_vals f (insort_key fst (k, v) e)" for k v e
    by (induction e) auto
  obtain k v where "p = (k, v)" by (cases p)
  with Cons ins show ?case by simp
qed simp

lemma sort_key_twice [simp]: "sort_key f (sort_key f xs) = sort_key f xs"
  by (rule properties_for_sort_key) simp_all

lemma sort_keys_JObj: "sort_keys (JObj d) = JObj (map_vals sort_keys (sort_key fst d))"
  by (simp flip: map_vals_def)

lemma sort_keys_idem [simp]: "sort_keys (sort_keys j) = sort_keys j"
proof (induction j)
  case (JObj d)
  then have "map_vals (\<lambda>v. sort_keys (sort_keys v)) (sort_key fst d) = map_vals sort_keys (sort_key fst d)"
    unfolding map_vals_def by fastforce
  then show ?case by (simp add: sort_keys_JObj del: sort_keys.simps)
qed simp_all

lemma canonical_fields:
  assumes "dict_wf d" and "dict_wf e" and "dumps_canonical (JObj d) = dumps_canonical (JObj e)"
  shows "sort_keys (fld d k) = sort_keys (fld e k)"
proof -
  have "sort_keys (JObj d) = sort_keys (JObj e)"
    using assms by (rule canonical.emit_inj)
  then have "fld (dict_of (sort_keys (JObj d))) k = fld (dict_of (sort_keys (JObj e))) k"
    by (simp only:)
  with assms(1,2) show ?thesis by (simp only: fld_sort_keys)
qed

end
