(* ===== verification/PyLines.thy ===== *)
theory PyLines
  imports PyStr
begin

text \<open>
  Byte groups and lines: the groups of a part of a text, and what appending a line to a text, or
  a line separator inside a line, does to \<open>splitlines\<close>.
\<close>

section \<open>Groups of bytes\<close>

definition grouped :: "string list \<Rightarrow> bool" where
  "grouped gs \<longleftrightarrow> py_chars (concat gs) = gs"

lemma grouped_py_chars [simp]: "grouped (py_chars s)"
  by (simp add: grouped_def)

lemma grouped_ConsD:
  assumes "grouped (g # gs)"
  obtains c t where "g = c # t" "takeWhile is_cont (t @ concat gs) = t" "grouped gs"
proof -
  obtain c t where g: "g = c # t"
    using assms py_chars_nonempty [of g "concat (g # gs)"] by (cases g) (simp_all add: grouped_def)
  with assms have t: "takeWhile is_cont (t @ concat gs) = t"
    and d: "py_chars (dropWhile is_cont (t @ concat gs)) = gs"
    by (simp_all add: grouped_def)
  from t have "dropWhile is_cont (t @ concat gs) = concat gs"
    by (metis append_eq_conv_conj dropWhile_eq_drop)
  with d have "grouped gs" by (simp add: grouped_def)
  with g t show thesis by (rule that)
qed

lemma grouped_take: "grouped gs \<Longrightarrow> grouped (take n gs)"
proof (induction gs arbitrary: n)
  case (Cons g gs)
  from Cons.prems obtain c t where g: "g = c # t"
    and t: "takeWhile is_cont (t @ concat gs) = t" and gs: "grouped gs" by (rule grouped_ConsD)
  show ?case
  proof (cases n)
    case (Suc m)
    have gm: "grouped (take m gs)" using Cons.IH gs by blast
    have cont: "\<forall>x \<in> set t. is_cont x" using t by (metis set_takeWhileD)
    have "takeWhile is_cont (concat (take m gs)) = []"
    proof (cases "take m gs")
      case (Cons h hs)
      then obtain r where gsr: "gs = h # r" by (cases gs; cases m) auto
      with gs obtain d u where "h = d # u" by (metis grouped_ConsD)
      with t cont gsr Cons show ?thesis by (auto simp: takeWhile_append split: if_splits)
    qed auto
    then have "takeWhile is_cont (t @ concat (take m gs)) = t"
      "dropWhile is_cont (t @ concat (take m gs)) = concat (take m gs)"
      using cont by (auto simp: takeWhile_append dropWhile_append dropWhile_eq_self_iff takeWhile_eq_Nil_iff)
    with gm g Suc show ?thesis by (simp add: grouped_def)
  qed (simp add: grouped_def)
qed simp

lemma grouped_tl: "grouped (g # gs) \<Longrightarrow> grouped gs"
  by (metis grouped_ConsD)

section \<open>Lines\<close>

text \<open>A text whose last line is complete.\<close>

definition complete_lines :: "string \<Rightarrow> bool" where
  "complete_lines t \<longleftrightarrow> t = [] \<or> last t = CHR 10"

lemma py_chars_append:
  "\<not> is_cont c \<Longrightarrow> py_chars (s @ c # r) = py_chars s @ py_chars (c # r)"
proof (induction s rule: py_chars.induct)
  case (2 a s)
  have "takeWhile is_cont (s @ c # r) = takeWhile is_cont s"
    "dropWhile is_cont (s @ c # r) = dropWhile is_cont s @ c # r"
    using 2(2) by (induction s) auto
  then show ?case using 2 by simp
qed simp

lemma is_break_simps [simp]: "is_break [CHR 10]" "is_break [CHR 13]"
  by code_simp+

lemma split_groups_append:
  "gs = [] \<and> acc = [] \<or> gs \<noteq> [] \<and> last gs = [CHR 10] \<Longrightarrow>
   split_groups (gs @ hs) acc = split_groups gs acc @ split_groups hs []"
proof (induction gs acc rule: split_groups.induct)
  case (2 g gs acc)
  show ?case
  proof (cases "gs = []")
    case True
    with 2(4) have "g = [CHR 10]" by simp
    with True show ?thesis by simp
  next
    case False
    with 2(4) have l: "last gs = [CHR 10]" by simp
    show ?thesis
    proof (cases "g = [CHR 13] \<and> hd gs = [CHR 10]")
      case True
      have "tl gs = [] \<or> tl gs \<noteq> [] \<and> last (tl gs) = [CHR 10]" using l False by (cases gs) auto
      with 2(1) True False show ?thesis by simp
    qed (use 2 False l in \<open>auto\<close>)
  qed
qed simp

lemma split_groups_line:
  "\<forall>g \<in> set ls. \<not> is_break g \<Longrightarrow> split_groups (ls @ [[CHR 10]]) acc = [acc @ concat ls]"
proof (induction ls arbitrary: acc)
  case Nil
  then show ?case by simp
next
  case (Cons g ls)
  from Cons show ?case by auto
qed

lemma is_cont_simps [simp]: "\<not> is_cont (CHR 10)" "\<not> is_cont (CHR ''{'')" "\<not> is_cont (CHR 34)"
  by (simp_all add: is_cont_def)

lemma last_py_chars:
  "t \<noteq> [] \<Longrightarrow> last t = CHR 10 \<Longrightarrow> py_chars t \<noteq> [] \<and> last (py_chars t) = [CHR 10]"
  using py_chars_append [of "CHR 10" "butlast t" "[]"] by (metis append_butlast_last_id append_is_Nil_conv
      dropWhile.simps(1) is_cont_simps(1) last_snoc not_Cons_self2 py_chars.simps takeWhile.simps(1))

lemma splitlines_append:
  assumes "complete_lines t" and "l = c # cs" and "\<not> is_cont c" and "\<forall>g \<in> set (py_chars l). \<not> is_break g"
  shows "splitlines (t @ l @ [CHR 10]) = splitlines t @ [l]"
proof -
  have "py_chars (t @ l @ [CHR 10]) = py_chars t @ py_chars l @ [[CHR 10]]"
    using py_chars_append [of c t "cs @ [CHR 10]"] py_chars_append [of "CHR 10" l "[]"] assms(2,3) by simp
  moreover have "py_chars t = [] \<or> py_chars t \<noteq> [] \<and> last (py_chars t) = [CHR 10]"
    using assms(1) last_py_chars [of t] by (cases "t = []") (simp_all add: complete_lines_def)
  ultimately show ?thesis
    using split_groups_append [of "py_chars t" "[]" "py_chars l @ [[CHR 10]]"]
      split_groups_line [OF assms(4), of "[]"]
    by (simp add: splitlines_def)
qed

lemma split_groups_break:
  "\<forall>g \<in> set ls. \<not> is_break g \<Longrightarrow> is_break b \<Longrightarrow> b \<noteq> [CHR 13] \<Longrightarrow>
   split_groups (ls @ b # gs) acc = (acc @ concat ls) # split_groups gs []"
proof (induction ls arbitrary: acc)
  case (Cons g ls)
  have "is_break [CHR 13]" by simp
  with Cons show ?case by auto
qed simp

lemma map_err_append:
  "map_err f (xs @ ys) = (case map_err f xs of Inl e \<Rightarrow> Inl e
     | Inr as \<Rightarrow> (case map_err f ys of Inl e \<Rightarrow> Inl e | Inr bs \<Rightarrow> Inr (as @ bs)))"
  by (induction xs) (auto split: sum.splits)

end
