(* ===== verification/EvidenceProps.thy ===== *)
theory EvidenceProps
  imports EvidenceLedger SortedKeys PyLines
begin

text \<open>
  Tamper evidence of the two hash chains, from one locale; what an append leaves in the
  file; and a line separator that makes an appended event unreadable.
\<close>

section \<open>Hash chains\<close>

text \<open>
  What both chains promise of a record list that passes their check: each record names
  the hash before it and carries the digest of its image, and the image determines the
  named hash.
\<close>

definition hash_of :: "json dict \<Rightarrow> string" where
  "hash_of r = str_of (fld r ''hash'')"

locale hash_chain =
  fixes valid :: "'c \<Rightarrow> (string \<Rightarrow> string) \<Rightarrow> json dict list \<Rightarrow> bool"
    and genesis :: "'c \<Rightarrow> string"
    and image :: "json dict \<Rightarrow> string"
  assumes valid_init: "valid c sha (rs @ [r]) \<Longrightarrow> valid c sha rs"
    and valid_link: "valid c sha (rs @ [r]) \<Longrightarrow>
        fld r ''previous_hash'' = JStr (if rs = [] then genesis c else hash_of (last rs)) \<and>
        fld r ''hash'' = JStr (sha (image r))"
    and image_binds: "dict_wf r \<Longrightarrow> dict_wf r' \<Longrightarrow> image r = image r' \<Longrightarrow>
        fld r ''previous_hash'' = JStr p \<Longrightarrow> fld r' ''previous_hash'' = JStr p' \<Longrightarrow>
        length p = length p' \<Longrightarrow> p = p'"
begin

lemma last_hash: "valid c sha rs \<Longrightarrow> rs \<noteq> [] \<Longrightarrow> fld (last rs) ''hash'' = JStr (sha (image (last rs)))"
  using valid_link [of c sha "butlast rs" "last rs"] by simp

lemma hash_of_last: "valid c sha rs \<Longrightarrow> rs \<noteq> [] \<Longrightarrow> hash_of (last rs) = sha (image (last rs))"
  using last_hash [of c sha rs] by (simp add: hash_of_def)

lemma tamper_evident:
  assumes "\<forall>x y. length (sha x) = length (sha y)"
  shows "valid c sha rs \<Longrightarrow> valid c sha rs' \<Longrightarrow> length rs = length rs' \<Longrightarrow>
    (rs \<noteq> [] \<longrightarrow> hash_of (last rs) = hash_of (last rs')) \<Longrightarrow>
    \<forall>r \<in> set rs \<union> set rs'. dict_wf r \<Longrightarrow>
    map image rs = map image rs' \<or>
    (\<exists>i < length rs. image (rs ! i) \<noteq> image (rs' ! i) \<and> sha (image (rs ! i)) = sha (image (rs' ! i)))"
proof (induction rs arbitrary: rs' rule: rev_induct)
  case (snoc r rs)
  then obtain r' qs where rs': "rs' = qs @ [r']" and len: "length rs = length qs"
    by (cases rs' rule: rev_exhaust) auto
  note l = valid_link [OF snoc.prems(1)] valid_link [OF snoc.prems(2) [unfolded rs']]
  show ?case
  proof (cases "image r = image r'")
    case False
    from snoc.prems(4) l have "sha (image r) = sha (image r')" by (simp add: rs' hash_of_def)
    with False len show ?thesis by (intro disjI2 exI [of _ "length rs"]) (simp add: rs' nth_append)
  next
    case True
    have v: "valid c sha rs" "valid c sha qs"
      using snoc.prems(1,2) valid_init by (auto simp: rs')
    let ?p = "if rs = [] then genesis c else hash_of (last rs)"
    let ?q = "if qs = [] then genesis c else hash_of (last qs)"
    have "length ?p = length ?q"
      using len assms v hash_of_last [of c sha rs] hash_of_last [of c sha qs] by auto
    moreover have "dict_wf r" "dict_wf r'" using snoc.prems(5) by (auto simp: rs')
    ultimately have "?p = ?q" using image_binds True l by blast
    then have "rs \<noteq> [] \<longrightarrow> hash_of (last rs) = hash_of (last qs)" using len by auto
    moreover have "\<forall>r \<in> set rs \<union> set qs. dict_wf r" using snoc.prems(5) by (auto simp: rs')
    ultimately have "map image rs = map image qs \<or>
        (\<exists>i < length rs. image (rs ! i) \<noteq> image (qs ! i) \<and> sha (image (rs ! i)) = sha (image (qs ! i)))"
      by (intro snoc.IH [OF v len])
    then show ?thesis
    proof
      assume "\<exists>i < length rs. image (rs ! i) \<noteq> image (qs ! i) \<and> sha (image (rs ! i)) = sha (image (qs ! i))"
      then obtain i where "i < length rs" "image (rs ! i) \<noteq> image (qs ! i)"
        "sha (image (rs ! i)) = sha (image (qs ! i))" by blast
      with len show ?thesis by (intro disjI2 exI [of _ i]) (simp add: rs' nth_append)
    qed (use True in \<open>simp add: rs'\<close>)
  qed
qed simp

end

subsection \<open>The V2 chain\<close>

definition v2_valid :: "evidence_system \<Rightarrow> (string \<Rightarrow> string) \<Rightarrow> json dict list \<Rightarrow> bool" where
  "v2_valid s sha rs \<longleftrightarrow> fst (verify_records s sha rs)"

text \<open>The scan over a list with one more record.\<close>

definition v2_next :: "evidence_system \<Rightarrow> json dict list \<Rightarrow> json \<times> int" where
  "v2_next s rs =
     (if rs = [] then (JStr (legacy_chain_head s), 0)
      else (fld (last rs) ''hash'', int_of (fld (last rs) ''logical_time'')))"

lemma v2_scan_snoc:
  "v2_scan s sha i p lt (rs @ [r]) =
     (if fst (v2_scan s sha i p lt rs)
      then (let (p', lt') = (if rs = [] then (p, lt)
                             else (fld (last rs) ''hash'', int_of (fld (last rs) ''logical_time'')))
            in case v2_fault s sha (i + length rs) p' lt' r of
                 Some reason \<Rightarrow> (False, reason) | None \<Rightarrow> (True, ''CHAIN_VALID''))
      else v2_scan s sha i p lt rs)"
proof (induction rs arbitrary: i p lt)
  case Nil
  show ?case by (simp split: option.split)
next
  case (Cons a rs)
  show ?case
  proof (cases "v2_fault s sha i p lt a")
    case None
    with Cons.IH [of "Suc i" "fld a ''hash''" "int_of (fld a ''logical_time'')"] show ?thesis
      by (cases "rs = []") (simp_all add: Let_def)
  qed simp
qed

lemma verify_records_snoc:
  "verify_records s sha (rs @ [r]) =
     (if v2_valid s sha rs
      then (case v2_fault s sha (Suc (length rs)) (fst (v2_next s rs)) (snd (v2_next s rs)) r of
              Some reason \<Rightarrow> (False, reason) | None \<Rightarrow> (True, ''CHAIN_VALID''))
      else verify_records s sha rs)"
  by (simp add: verify_records_def v2_valid_def v2_scan_snoc v2_next_def Let_def)

lemma v2_fault_None:
  "v2_fault s sha i p lt r = None \<Longrightarrow>
     pyeq (fld r ''previous_hash'') p \<and> fld r ''hash'' = JStr (calculate_evidence_hash_v2 sha r) \<and>
     pyeq (fld r ''index'') (JInt (int i)) \<and> lt < int_of (fld r ''logical_time'') \<and>
     truthy (fld r ''actor_ref'') \<and> truthy (fld r ''accountable_person_ref'')"
  by (auto simp: v2_fault_def split: if_splits)

lemma v2_valid_snoc:
  "v2_valid s sha (rs @ [r]) \<longleftrightarrow> v2_valid s sha rs \<and>
     v2_fault s sha (Suc (length rs)) (fst (v2_next s rs)) (snd (v2_next s rs)) r = None"
  by (simp add: v2_valid_def verify_records_snoc split: option.split)

lemma v2_valid_last_hash:
  "v2_valid s sha rs \<Longrightarrow> rs \<noteq> [] \<Longrightarrow>
   fld (last rs) ''hash'' = JStr (calculate_evidence_hash_v2 sha (last rs))"
  using v2_valid_snoc [of s sha "butlast rs" "last rs"] v2_fault_None by fastforce

definition v2_image :: "json dict \<Rightarrow> string" where
  "v2_image r = dumps_canonical (JObj (bounded r))"

lemma dict_wf_bounded: "dict_wf r \<Longrightarrow> dict_wf (bounded r)"
  by (auto simp: bounded_def distinct_map inj_on_def)

lemma fld_bounded: "k \<noteq> ''hash'' \<Longrightarrow> fld (bounded r) k = fld r k"
proof -
  assume k: "k \<noteq> ''hash''"
  have "dget (bounded r) k = dget r k" unfolding bounded_def using k by (induction r) auto
  then show ?thesis by (simp add: get_or_none_def)
qed

lemma v2_image_same:
  assumes "dict_wf r" and "dict_wf r'" and "v2_image r = v2_image r'"
  shows "sort_keys (JObj (bounded r)) = sort_keys (JObj (bounded r'))"
  using canonical.emit_inj [OF dict_wf_bounded [OF assms(1)] dict_wf_bounded [OF assms(2)]] assms(3)
  by (simp add: v2_image_def)

interpretation v2: hash_chain v2_valid legacy_chain_head v2_image
proof
  fix s sha rs r
  assume v: "v2_valid s sha (rs @ [r])"
  then show init: "v2_valid s sha rs" by (simp add: v2_valid_snoc)
  from v have n: "v2_fault s sha (Suc (length rs)) (fst (v2_next s rs)) (snd (v2_next s rs)) r = None"
    by (simp add: v2_valid_snoc)
  have "fst (v2_next s rs) = JStr (if rs = [] then legacy_chain_head s else hash_of (last rs))"
    using v2_valid_last_hash [OF init] by (auto simp: v2_next_def hash_of_def)
  with v2_fault_None [OF n]
  show "fld r ''previous_hash'' = JStr (if rs = [] then legacy_chain_head s else hash_of (last rs)) \<and>
      fld r ''hash'' = JStr (sha (v2_image r))"
    by (simp add: calculate_evidence_hash_v2_def v2_image_def)
next
  fix r r' p p'
  assume wf: "dict_wf r" "dict_wf r'" and im: "v2_image r = v2_image r'"
    and p: "fld r ''previous_hash'' = JStr p" "fld r' ''previous_hash'' = JStr p'"
  have "fld (dict_of (sort_keys (JObj (bounded r)))) ''previous_hash'' =
      fld (dict_of (sort_keys (JObj (bounded r')))) ''previous_hash''"
    using v2_image_same [OF wf im] by (simp only:)
  then show "p = p'"
    using p by (simp only: fld_sort_keys [OF dict_wf_bounded [OF wf(1)]]
        fld_sort_keys [OF dict_wf_bounded [OF wf(2)]]) (simp add: fld_bounded)
qed

lemma bounded_image_fields:
  assumes "dict_wf r" and "dict_wf r'" and "v2_image r = v2_image r'" and "k \<noteq> ''hash''"
  shows "sort_keys (fld r k) = sort_keys (fld r' k)"
proof -
  have "fld (dict_of (sort_keys (JObj (bounded r)))) k = fld (dict_of (sort_keys (JObj (bounded r')))) k"
    using v2_image_same [OF assms(1-3)] by (simp only:)
  then show ?thesis
    by (simp only: fld_sort_keys [OF dict_wf_bounded [OF assms(1)]]
        fld_sort_keys [OF dict_wf_bounded [OF assms(2)]]) (simp add: fld_bounded assms(4))
qed

text \<open>
  C23: Two V2 ledgers of the same length that both pass the check and end in the same
  hash agree in every field of every record (up to the order of keys), or else two of
  the hashed texts, at the same position, are different and have the same digest: a
  changed ledger with the same last hash exhibits a collision of the digest.
\<close>

theorem v2_chain_tamper_evident:
  assumes "v2_valid s sha rs" and "v2_valid s sha rs'" and "length rs = length rs'"
    and "rs \<noteq> [] \<longrightarrow> hash_of (last rs) = hash_of (last rs')"
    and "\<forall>r \<in> set rs \<union> set rs'. dict_wf r" and "\<forall>x y. length (sha x) = length (sha y)"
  shows "(\<forall>i < length rs. \<forall>k. sort_keys (fld (rs ! i) k) = sort_keys (fld (rs' ! i) k)) \<or>
    (\<exists>i < length rs. v2_image (rs ! i) \<noteq> v2_image (rs' ! i) \<and>
       sha (v2_image (rs ! i)) = sha (v2_image (rs' ! i)))"
proof (cases "\<exists>i < length rs. v2_image (rs ! i) \<noteq> v2_image (rs' ! i) \<and>
       sha (v2_image (rs ! i)) = sha (v2_image (rs' ! i))")
  case False
  with v2.tamper_evident [OF assms(6,1-5)] have im: "map v2_image rs = map v2_image rs'" by blast
  have "sort_keys (fld (rs ! i) k) = sort_keys (fld (rs' ! i) k)" if i: "i < length rs" for i k
  proof -
    have wf: "dict_wf (rs ! i)" "dict_wf (rs' ! i)" using assms(3,5) i by (metis UnI1 UnI2 nth_mem)+
    have eq: "v2_image (rs ! i) = v2_image (rs' ! i)" using im i assms(3) by (metis nth_map)
    show ?thesis
    proof (cases "k = ''hash''")
      case False
      with bounded_image_fields [OF wf eq] show ?thesis by blast
    next
      case True
      have h: "fld (rs ! i) ''hash'' = JStr (sha (v2_image (rs ! i)))"
        if v: "v2_valid s sha rs" and i: "i < length rs" for rs
      proof -
        have t: "rs = take i rs @ rs ! i # drop (Suc i) rs" using i by (rule id_take_nth_drop)
        have "v2_valid s sha (take (Suc i) rs)"
          using v
        proof (induction "length rs - Suc i" arbitrary: i)
          case (Suc m)
          then have "v2_valid s sha (take (Suc (Suc i)) rs)" by simp
          then have "v2_valid s sha (take (Suc i) rs @ [rs ! Suc i])"
            using Suc.hyps(2) by (simp add: take_Suc_conv_app_nth)
          then show ?case using v2_valid_snoc by blast
        qed simp
        then have "v2_valid s sha (take i rs @ [rs ! i])" using i by (simp add: take_Suc_conv_app_nth)
        from v2.valid_link [OF this] show ?thesis by simp
      qed
      from h [OF assms(1) i] h [OF assms(2)] i assms(3) eq True show ?thesis by simp
    qed
  qed
  then show ?thesis by blast
qed simp

section \<open>What an append leaves in the file\<close>

lemma dumps_sorted_head: "d \<noteq> [] \<Longrightarrow> \<exists>cs. dumps_sorted (JObj d) = CHR ''{'' # CHR 34 # cs"
proof -
  assume "d \<noteq> []"
  then have "sort_key fst (map (\<lambda>(k, v). (k, sort_keys v)) d) \<noteq> []"
    by (metis length_0_conv length_map length_sort)
  then obtain k v e where e: "sort_key fst (map (\<lambda>(k, v). (k, sort_keys v)) d) = (k, v) # e"
    by (metis list.exhaust surj_pair)
  show ?thesis
    by (cases e) (simp_all add: dumps_sorted_def e fmt_default_def newline_indent_def quote_def)
qed

lemma line_not_blank: "d \<noteq> [] \<Longrightarrow> \<not> blank (dumps_sorted (JObj d))"
proof -
  assume "d \<noteq> []"
  then obtain cs where "dumps_sorted (JObj d) = CHR ''{'' # CHR 34 # cs" using dumps_sorted_head by blast
  then show ?thesis by (simp add: not_blank_ascii)
qed

lemma load_v2_append:
  assumes "complete_lines t" and "load_v2_text p t = Inr rs" and "dict_wf e" and "e \<noteq> []"
    and "\<forall>g \<in> set (py_chars (dumps_sorted (JObj e))). \<not> is_break g"
  shows "load_v2_text p (t @ dumps_sorted (JObj e) @ [CHR 10]) = Inr (rs @ [dict_of (sort_keys (JObj e))])"
proof -
  obtain cs where l: "dumps_sorted (JObj e) = CHR ''{'' # CHR 34 # cs" using dumps_sorted_head assms(4) by blast
  have sp: "splitlines (t @ dumps_sorted (JObj e) @ [CHR 10]) = splitlines t @ [dumps_sorted (JObj e)]"
    by (rule splitlines_append [OF assms(1) l is_cont_simps(2) assms(5)])
  have "loads (dumps_sorted (JObj e)) = Some (sort_keys (JObj e))"
    using assms(3) by (rule json_line.receive_emit)
  moreover obtain vs where vs: "map_err (\<lambda>line. case loads line of
        None \<Rightarrow> Inl (LedgerParseFailure p ''JSONDecodeError'') | Some v \<Rightarrow> Inr v)
      (filter (\<lambda>line. \<not> blank line) (splitlines t)) = Inr vs"
    "\<forall>v \<in> set vs. is_obj v" "rs = map dict_of vs"
    using assms(2) by (auto simp: load_v2_text_def e_bind_InrD split: if_splits)
  ultimately show ?thesis
    using line_not_blank [OF assms(4)]
    by (simp add: load_v2_text_def sp map_err_append) (simp add: is_obj_def)
qed

lemma bounded_sealed: "bounded (sealed sha e) = bounded e"
proof -
  have "bounded (dset ''hash'' v e) = bounded e" for v
    unfolding bounded_def by (induction e) auto
  then show ?thesis by (simp add: sealed_def)
qed

lemma bounded_map_vals: "bounded (map_vals f e) = map_vals f (bounded e)"
  by (induction e) (auto simp: bounded_def)

lemma bounded_sort: "bounded (sort_key fst e) = sort_key fst (bounded e)"
  by (simp add: bounded_def filter_sort)

lemma bounded_sort_keys:
  "sort_keys (JObj (bounded (dict_of (sort_keys (JObj d))))) = sort_keys (JObj (bounded d))"
  by (simp add: sort_keys_JObj bounded_map_vals bounded_sort del: sort_keys.simps)

lemma hash_v2_sort_keys:
  "calculate_evidence_hash_v2 sha (dict_of (sort_keys (JObj d))) = calculate_evidence_hash_v2 sha d"
  using bounded_sort_keys [of d]
  by (simp only: calculate_evidence_hash_v2_def dumps_canonical_def)

section \<open>The outcome of an append\<close>

lemma fld_sealed: "k \<noteq> ''hash'' \<Longrightarrow> fld (sealed sha e) k = fld e k"
  by (simp add: sealed_def)

lemma fld_sealed_hash: "fld (sealed sha e) ''hash'' = JStr (calculate_evidence_hash_v2 sha e)"
  by (simp add: sealed_def)

lemma hash_sealed: "calculate_evidence_hash_v2 sha (sealed sha e) = calculate_evidence_hash_v2 sha e"
  by (simp add: calculate_evidence_hash_v2_def bounded_sealed)

lemma event_body_fields:
  "fld (event_body s rs ts n et c a b) ''index'' = JInt (int (length rs + 1))"
  "fld (event_body s rs ts n et c a b) ''hash_profile'' = JStr W7TP_EVIDENCE_HASH_V2"
  "fld (event_body s rs ts n et c a b) ''logical_time'' = JInt n"
  "fld (event_body s rs ts n et c a b) ''actor_ref'' = JStr a"
  "fld (event_body s rs ts n et c a b) ''accountable_person_ref'' = JStr b"
  "fld (event_body s rs ts n et c a b) ''previous_hash'' =
     (if rs = [] then JStr (legacy_chain_head s) else fld (last rs) ''hash'')"
  "rs = [] \<Longrightarrow> fld (event_body s rs ts n et c a b) ''legacy_file_sha256'' = JStr (legacy_file_sha256 s)"
  "rs = [] \<Longrightarrow> fld (event_body s rs ts n et c a b) ''legacy_chain_head'' = JStr (legacy_chain_head s)"
  by (simp_all add: event_body_def)

lemma dict_wf_event:
  assumes "dict_wf c" and "rs \<noteq> [] \<Longrightarrow> jwf (fld (last rs) ''hash'')"
  shows "dict_wf (sealed sha (event_body s rs ts n et c a b))"
proof -
  have "dict_wf (event_body s rs ts n et c a b)"
    using assms by (cases "rs = []") (simp_all add: event_body_def)
  then show ?thesis unfolding sealed_def by (rule dict_wf_dset) simp
qed

lemma v2_next_logical: "snd (v2_next s rs) + 1 = next_logical_time rs"
  by (simp add: v2_next_def next_logical_time_def)

lemma event_fault:
  assumes "v2_valid s sha rs" and "dict_wf c" and "next_logical_time rs \<le> n"
    and e: "e = dict_of (sort_keys (JObj (sealed sha (event_body s rs ts n et c a b))))"
  shows "v2_fault s sha (Suc (length rs)) (fst (v2_next s rs)) (snd (v2_next s rs)) e =
    (if a = [] \<or> b = [] then Some ''V2_ACCOUNTABILITY_FIELDS_MISSING'' else None)"
proof -
  let ?e = "sealed sha (event_body s rs ts n et c a b)"
  have h: "rs \<noteq> [] \<longrightarrow> (\<exists>h. fld (last rs) ''hash'' = JStr h)"
    using v2_valid_last_hash [OF assms(1)] by blast
  then have "jwf (fld (last rs) ''hash'')" if "rs \<noteq> []" using that by auto
  then have wf: "dict_wf ?e"
    by (rule dict_wf_event [OF assms(2)])
  have f: "fld e k = sort_keys (fld ?e k)" for k unfolding e by (rule fld_sort_keys [OF wf])
  have hash: "calculate_evidence_hash_v2 sha e =
      calculate_evidence_hash_v2 sha (event_body s rs ts n et c a b)"
    unfolding e by (simp only: hash_v2_sort_keys hash_sealed)
  have prev: "fst (v2_next s rs) = fld (event_body s rs ts n et c a b) ''previous_hash''"
    by (simp add: v2_next_def event_body_fields)
  have strp: "\<exists>p. fld (event_body s rs ts n et c a b) ''previous_hash'' = JStr p"
    using h by (simp add: event_body_fields)
  then have sp: "sort_keys (fld (event_body s rs ts n et c a b) ''previous_hash'') =
      fld (event_body s rs ts n et c a b) ''previous_hash''" by auto
  have lt: "snd (v2_next s rs) < n" using assms(3) v2_next_logical [of s rs] by simp
  show ?thesis
    unfolding v2_fault_def f hash prev
    using lt sp by (cases "rs = []") (simp_all add: fld_sealed fld_sealed_hash event_body_fields is_int_def)
qed


definition demo_system :: evidence_system where
  "demo_system = \<lparr>ledger_path = ''E'', legacy_file_sha256 = ''f'', legacy_chain_head = ''g''\<rparr>"

definition demo_evidence_world :: "string \<Rightarrow> world" where
  "demo_evidence_world t = \<lparr>files = [''E'' \<mapsto> t], clock = (\<lambda>_. ''t''), ticks = 0,
     sha256 = (\<lambda>_. ''h''), scope_depth = 0, lock_held = False\<rparr>"

lemma demo_line_no_break:
  "\<forall>g \<in> set (py_chars (dumps_sorted (JObj (sealed (\<lambda>_. ''h'')
     (event_body demo_system [] ''t'' 1 ''e'' [] ''a'' ''b''))))). \<not> is_break g"
  by code_simp


lemma demo_record_valid:
  "v2_valid demo_system (\<lambda>_. ''h'') [dict_of (sort_keys (JObj (sealed (\<lambda>_. ''h'')
     (event_body demo_system [] ''t'' 1 ''e'' [] ''a'' ''b''))))]"
proof -
  have v: "v2_valid demo_system (\<lambda>_. ''h'') []" by (simp add: v2_valid_def verify_records_def)
  from event_fault [OF v _ _ refl, of "[]" 1 "''t''" "''e''" "''a''" "''b''"] v
  show ?thesis using v2_valid_snoc [of demo_system "\<lambda>_. ''h''" "[]"] by (simp add: next_logical_time_def)
qed

theorem v2_chain_tamper_evident_witness:
  "\<exists>r :: json dict. v2_valid demo_system (\<lambda>_. ''h'') [r] \<and>
     (\<forall>k. sort_keys (fld r k) = sort_keys (fld r k))"
proof -
  let ?r = "dict_of (sort_keys (JObj (sealed (\<lambda>_. ''h'')
     (event_body demo_system [] ''t'' 1 ''e'' [] ''a'' ''b''))))"
  have "dict_wf (sealed (\<lambda>_. ''h'') (event_body demo_system [] ''t'' 1 ''e'' [] ''a'' ''b''))"
    by (rule dict_wf_event) simp_all
  then have "jwf (sort_keys (JObj (sealed (\<lambda>_. ''h'') (event_body demo_system [] ''t'' 1 ''e'' [] ''a'' ''b''))))"
    by (rule jwf_sort_keys)
  then have "dict_wf ?r" by (simp add: sort_keys_JObj del: sort_keys.simps)
  then have "\<forall>r \<in> set [?r] \<union> set [?r]. dict_wf r" by simp
  from v2_chain_tamper_evident [OF demo_record_valid demo_record_valid refl _ this]
  show ?thesis using demo_record_valid by auto
qed

text \<open>The line of an event with that separator in its content, up to the separator.\<close>

definition broken_event :: "json dict" where
  "broken_event = sealed (\<lambda>_. ''h'') (event_body demo_system [] ''t'' 1 ''e''
     [(''k'', JStr (bytes [226, 128, 168]))] ''a'' ''b'')"

definition broken_prefix :: string where
  "broken_prefix = CHR ''{'' # quote ''accountable_person_ref'' @ '': '' @ quote ''b'' @ '', '' @
     quote ''actor_ref'' @ '': '' @ quote ''a'' @ '', '' @ quote ''content'' @ '': {'' @
     quote ''k'' @ '': '' @ [CHR 34]"

lemma broken_line:
  "take 72 (dumps_sorted (JObj broken_event)) = broken_prefix @ bytes [226, 128, 168] @ [CHR 34]"
  by code_simp

lemma broken_prefix_no_break: "\<forall>g \<in> set (py_chars broken_prefix). \<not> is_break g"
  by code_simp

lemma loads_broken_prefix: "loads broken_prefix = None"
proof -
  have q: "tokenise [CHR 34] = None" by (simp add: tokenise.simps lex_str.simps is_ws_def punct_def)
  have sp: "tokenise (CHR 32 # s) = tokenise s" for s by (simp add: tokenise.simps is_ws_def)
  have "tokenise broken_prefix = None"
    by (simp add: broken_prefix_def lex_quote sp q del: tokenise.simps)
  then show ?thesis by (simp add: loads_def)
qed

text \<open>
  An event whose content holds the line separator U+2028 is appended without error
  (the writer leaves it as it is), and from then on the ledger cannot be read, because the
  reader splits the text at that separator.
\<close>

theorem line_separator_breaks_ledger:
  "\<exists>e w'. append_event ''e'' [(''k'', JStr (bytes [226, 128, 168]))] ''a'' ''b'' (Some 1) (Some ''t'')
       (demo_system, demo_evidence_world []) = (Inr e, (demo_system, w')) \<and>
     verify_chain demo_system w' = Inl (LedgerParseFailure ''E'' ''JSONDecodeError'')"
proof -
  let ?c = "[(''k'', JStr (bytes [226, 128, 168]))]"
  let ?t = "dumps_sorted (JObj broken_event) @ [CHR 10]"
  have ld: "load_v2_text ''E'' [] = Inr []" by (simp add: load_v2_text_def splitlines_def)
  have p: "ledger_path demo_system = ''E''" by (simp add: demo_system_def)
  have f: "files (demo_evidence_world []) = [''E'' \<mapsto> []]" "sha256 (demo_evidence_world []) = (\<lambda>_. ''h'')"
    by (simp_all add: demo_evidence_world_def)
  have run: "append_event ''e'' ?c ''a'' ''b'' (Some 1) (Some ''t'') (demo_system, demo_evidence_world []) =
      (Inr broken_event, (demo_system, (demo_evidence_world [])\<lparr>files := [''E'' \<mapsto> ?t]\<rparr>))"
    by (simp add: append_event_def open_append_def p f ld verify_records_def next_logical_time_def
        Let_def broken_event_def)
  define r where "r = drop 72 (dumps_sorted (JObj broken_event))"
  have t: "?t = broken_prefix @ char_of (226::nat) # [char_of (128::nat), char_of (168::nat)] @ CHR 34 # r @ [CHR 10]"
    using broken_line append_take_drop_id [of 72 "dumps_sorted (JObj broken_event)"]
    by (simp add: r_def bytes_def)
  have c: "\<not> is_cont (char_of (226::nat))" "is_cont (char_of (128::nat))" "is_cont (char_of (168::nat))"
    by (simp_all add: is_cont_def)
  have "py_chars ?t = py_chars broken_prefix @ bytes [226, 128, 168] # py_chars (CHR 34 # r @ [CHR 10])"
    unfolding t py_chars_append [OF c(1)] by (simp add: c bytes_def)
  moreover have "is_break (bytes [226, 128, 168])" by (simp add: is_break_def break_groups_def)
  moreover have "bytes [226, 128, 168] \<noteq> [CHR 13]" by (simp add: bytes_def)
  ultimately have sp: "splitlines ?t = broken_prefix # split_groups (py_chars (CHR 34 # r @ [CHR 10])) []"
    using split_groups_break [OF broken_prefix_no_break] by (simp add: splitlines_def)
  have "\<not> blank broken_prefix"
    by (simp add: broken_prefix_def not_blank_ascii)
  then have "load_v2_text ''E'' ?t = Inl (LedgerParseFailure ''E'' ''JSONDecodeError'')"
    by (simp add: load_v2_text_def sp loads_broken_prefix)
  then have "verify_chain demo_system ((demo_evidence_world [])\<lparr>files := [''E'' \<mapsto> ?t]\<rparr>) =
      Inl (LedgerParseFailure ''E'' ''JSONDecodeError'')"
    by (simp add: verify_chain_def load_v2_records_def p)
  with run show ?thesis by blast
qed

section \<open>The legacy chain\<close>

definition legacy_valid :: "unit \<Rightarrow> (string \<Rightarrow> string) \<Rightarrow> json dict list \<Rightarrow> bool" where
  "legacy_valid c sha rs \<longleftrightarrow> legacy_scan sha 1 (JStr GENESIS_HASH) rs = Inr (True, ''CHAIN_VALID'')"

definition legacy_image :: "json dict \<Rightarrow> string" where
  "legacy_image r = concat (map (\<lambda>f. py_str (fld r f)) V1_FIELDS)"

lemma legacy_payload_image: "legacy_payload r = Inr p \<Longrightarrow> p = legacy_image r"
  by (auto simp: legacy_payload_def legacy_image_def V1_FIELDS_def e_bind_InrD get_or_none_item
      split: sum.splits)

lemma legacy_fault_None:
  "legacy_fault sha i p r = Inr None \<Longrightarrow>
     pyeq (fld r ''previous_hash'') p \<and> fld r ''hash'' = JStr (sha (legacy_image r))"
  by (auto simp: legacy_fault_def calculate_legacy_hash_v1_def e_bind_InrD
      dest: legacy_payload_image split: if_splits)

lemma legacy_scan_snoc:
  "legacy_scan sha i p (rs @ [r]) = Inr (True, m) \<longleftrightarrow>
     legacy_scan sha i p rs = Inr (True, ''CHAIN_VALID'') \<and> m = ''CHAIN_VALID'' \<and>
     legacy_fault sha (i + length rs) (if rs = [] then p else fld (last rs) ''hash'') r = Inr None"
proof (induction rs arbitrary: i p)
  case Nil
  show ?case by (auto simp: e_bind_InrD split: option.splits)
next
  case (Cons a rs)
  show ?case
    using Cons.IH [of "Suc i" "fld a ''hash''"]
    by (cases "rs = []") (auto simp: e_bind_InrD split: option.splits)
qed

lemma legacy_valid_hash:
  "legacy_valid c sha rs \<Longrightarrow> rs \<noteq> [] \<Longrightarrow> fld (last rs) ''hash'' = JStr (sha (legacy_image (last rs)))"
  using legacy_scan_snoc [of sha 1 "JStr GENESIS_HASH" "butlast rs" "last rs"] legacy_fault_None
  by (fastforce simp: legacy_valid_def)

interpretation legacy: hash_chain legacy_valid "\<lambda>_. GENESIS_HASH" legacy_image
proof
  fix c :: unit and sha rs r
  assume v: "legacy_valid c sha (rs @ [r])"
  then show init: "legacy_valid c sha rs" by (simp add: legacy_valid_def legacy_scan_snoc)
  from v have "legacy_fault sha (Suc (length rs)) (if rs = [] then JStr GENESIS_HASH
      else fld (last rs) ''hash'') r = Inr None"
    by (simp add: legacy_valid_def legacy_scan_snoc)
  from legacy_fault_None [OF this] legacy_valid_hash [OF init]
  show "fld r ''previous_hash'' = JStr (if rs = [] then GENESIS_HASH else hash_of (last rs)) \<and>
      fld r ''hash'' = JStr (sha (legacy_image r))"
    by (auto simp: hash_of_def)
next
  fix r r' p p'
  assume im: "legacy_image r = legacy_image r'" and len: "length p = length p'"
    and p: "fld r ''previous_hash'' = JStr p" "fld r' ''previous_hash'' = JStr p'"
  have "\<exists>x. legacy_image r = x @ p" "\<exists>x. legacy_image r' = x @ p'"
    using p by (simp_all add: legacy_image_def V1_FIELDS_def py_str_def)
  with im len show "p = p'" by (metis append_eq_append_conv)
qed

definition legacy_record :: "(string \<Rightarrow> string) \<Rightarrow> string \<Rightarrow> string \<Rightarrow> json dict" where
  "legacy_record sha t e =
     [(''index'', JInt 1), (''timestamp'', JStr t), (''event_type'', JStr e), (''content'', JStr ''c''),
      (''actor'', JStr ''a''), (''previous_hash'', JStr GENESIS_HASH),
      (''hash'', JStr (sha (t @ e @ ''c'' @ ''a'' @ GENESIS_HASH)))]"

text \<open>
  The legacy hash runs the fields together without a separator: moving the end of the
  timestamp into the event type gives another record that passes the check with the same
  hash, whatever the digest function.
\<close>

theorem legacy_hash_shifts_fields:
  "legacy_scan sha 1 (JStr GENESIS_HASH) [legacy_record sha (t @ u) e] = Inr (True, ''CHAIN_VALID'') \<and>
   legacy_scan sha 1 (JStr GENESIS_HASH) [legacy_record sha t (u @ e)] = Inr (True, ''CHAIN_VALID'') \<and>
   fld (legacy_record sha (t @ u) e) ''hash'' = fld (legacy_record sha t (u @ e)) ''hash''"
proof -
  have ok: "legacy_fault sha 1 (JStr GENESIS_HASH) (legacy_record sha t e) = Inr None" for t e
    by (simp add: legacy_fault_def calculate_legacy_hash_v1_def legacy_payload_def V1_FIELDS_def
        item_def legacy_record_def py_str_def dhas_def)
  have "fld (legacy_record sha (t @ u) e) ''hash'' = fld (legacy_record sha t (u @ e)) ''hash''"
    by (simp add: legacy_record_def)
  then show ?thesis by (simp only: legacy_scan.simps ok e_bind_simps option.case simp_thms)
qed

end
