(* ===== verification/AdiModels.thy ===== *)
theory AdiModels
  imports PyStr
begin

text \<open>
  \<open>core/adi_native/models.py\<close>, \<open>errors.py\<close> and the exceptions of \<open>distance.py\<close>: the
  packets, rules and results of the native index.  Fields whose type the code checks at
  run time (dimensions, event time, slot numbers, polarity, step cost) hold JSON values,
  so that the checks are part of the model; the other fields have their declared types.
  Frozen sets are lists and mappings are dictionaries.
\<close>

record boundary_facts =
  intent_satisfied :: bool
  evidence_valid :: bool
  life_safe :: bool
  other_rights_safe :: bool
  intent_violated :: bool
  causal_order_violated :: bool
  life_harm :: bool
  other_rights_harm :: bool
  hard_risk :: bool

record metric_signature =
  ms_logical_time :: int
  ms_topology_coordinate_ref :: string
  ms_previous_state_root :: string
  ms_evidence_root :: string
  ms_event_hash_ref :: string
  ms_canonical_version :: string
  ms_rule_version :: string

definition metric_as_tuple :: "metric_signature \<Rightarrow> json list" where
  "metric_as_tuple m =
     [JInt (ms_logical_time m), JStr (ms_topology_coordinate_ref m), JStr (ms_previous_state_root m),
      JStr (ms_evidence_root m), JStr (ms_event_hash_ref m), JStr (ms_canonical_version m),
      JStr (ms_rule_version m)]"

record state_packet =
  dimensions :: "json list"
  event_time :: json
  namespace :: string
  state_profile :: string
  native_state_ref :: string
  state_root :: string
  parent_state_root :: string
  evidence_root :: string
  snapshot_id :: string
  canonical_version :: string
  rule_version :: string
  logical_time :: int
  topology_coordinate_ref :: string
  event_hash_ref :: string
  boundary_facts_of :: "boundary_facts list"
  evidence_digests :: "string dict"
  expected_evidence_digests :: "string dict"
  satisfied_preconditions :: "string list"
  previous_logical_time :: "int option"
  claimed_metric_signature :: "json list option"
  breakpoint_segment_ref :: "string option"

type_synonym slot_key = "string \<times> string \<times> int \<times> string \<times> string \<times> string"

record slot_config =
  t_min :: json
  t_max :: json
  slot_count :: json
  slot_lookup :: "(slot_key \<times> json) list"

record state_cross_section =
  absolute_time_slot :: int
  direct_slot :: int
  state_8d :: "int list"
  boundary_state :: "int list"
  metric_signature_of :: metric_signature

record transition_rule =
  transition_rule_id :: string
  from_state_code :: string
  to_state_code :: string
  preconditions :: "string list"
  required_evidence_refs :: "string list"
  polarity :: json
  direction_code :: string
  step_cost_uint :: json
  tr_rule_version :: string
  breakpoint_policy_ref :: "string option"

text \<open>\<open>isinstance(v, int) and not isinstance(v, bool)\<close>.\<close>

definition is_plain_int :: "json \<Rightarrow> bool" where
  "is_plain_int v = (case v of JInt _ \<Rightarrow> True | _ \<Rightarrow> False)"

text \<open>\<open>NativeTransitionRule(...)\<close>: the checks of \<open>__post_init__\<close>.\<close>

definition make_transition_rule :: "transition_rule \<Rightarrow> py_error + transition_rule" where
  "make_transition_rule r =
     e_bind (check (is_int (step_cost_uint r) \<and> 0 < int_of (step_cost_uint r))
       (ValueError ''step_cost_uint must be a positive integer'')) (\<lambda>_.
     e_bind (check (\<exists>v \<in> {-1, 0, 1}. pyeq (polarity r) (JInt v))
       (ValueError ''polarity must be -1, 0, or 1'')) (\<lambda>_. Inr r))"

record reachability_verdict =
  verdict :: string
  origin_segment_ref :: "string option"
  candidate_segment_ref :: "string option"
  rv_breakpoint_policy_ref :: "string option"
  reason_code :: string

type_synonym canonical_path = "transition_rule list"

definition transition_rule_ids :: "canonical_path \<Rightarrow> string list" where
  "transition_rule_ids p = map transition_rule_id p"

definition direction_codes :: "canonical_path \<Rightarrow> string list" where
  "direction_codes p = map direction_code p"

definition total_cost :: "canonical_path \<Rightarrow> int" where
  "total_cost p = sum_list (map (\<lambda>r. int_of (step_cost_uint r)) p)"

record native_index =
  ordered_fields :: "(string \<times> json) list"
  native_adi_ref :: string
  ni_direct_slot :: int
  absolute_distance :: int
  direction_path_of :: "string list"
  ni_status :: string
  ni_profile :: string

record spiral_shell =
  radius :: int
  candidates :: "state_packet list"
  shell_status :: string

definition candidate_state_roots :: "spiral_shell \<Rightarrow> string list" where
  "candidate_state_roots s = map state_root (candidates s)"

record lookup_receipt =
  lr_state :: string
  lr_shell :: "int option"
  candidate_state_root :: "string option"
  total_field_state_root :: string
  lr_evidence :: "json dict"

text \<open>
  \<open>TransitionRuleHold\<close> and its subclass \<open>BreakpointReachabilityDenied\<close>; every other
  exception is a \<open>py_error\<close>.
\<close>

datatype adi_error =
    TransitionRuleHold string
  | BreakpointReachabilityDenied string
  | PyError py_error

fun hold_code :: "adi_error \<Rightarrow> string" where
  "hold_code (TransitionRuleHold c) = c"
| "hold_code (BreakpointReachabilityDenied c) = c"
| "hold_code (PyError _) = []"

definition a_bind :: "adi_error + 'a \<Rightarrow> ('a \<Rightarrow> adi_error + 'b) \<Rightarrow> adi_error + 'b" where
  "a_bind r f = (case r of Inl e \<Rightarrow> Inl e | Inr a \<Rightarrow> f a)"

definition py :: "py_error + 'a \<Rightarrow> adi_error + 'a" where
  "py r = (case r of Inl e \<Rightarrow> Inl (PyError e) | Inr a \<Rightarrow> Inr a)"

lemma a_bind_simps [simp]: "a_bind (Inl e) f = Inl e" "a_bind (Inr a) f = f a"
  by (simp_all add: a_bind_def)

lemma a_bind_Inr: "a_bind r f = Inr b \<longleftrightarrow> (\<exists>a. r = Inr a \<and> f a = Inr b)"
  by (cases r) auto

lemma py_simps [simp]: "py (Inl e) = Inl (PyError e)" "py (Inr a) = Inr a"
  by (simp_all add: py_def)

lemma py_Inr: "py r = Inr a \<longleftrightarrow> r = Inr a"
  by (cases r) auto

end
