(* ===== verification/AdiPath.thy ===== *)
theory AdiPath
  imports AdiModels
begin

text \<open>
  \<open>core/adi_native/distance.py\<close>: breakpoint checks and the resolver of the only simple
  causal path between two states, a depth-first walk that stops once it has seen two
  paths.  The model of the walk recurses on the number of rules that may still be
  added, which the code bounds by \<open>len(path) >= len(nodes)\<close>.
\<close>

section \<open>Breakpoints\<close>

definition ALLOW_REACHABLE :: string where "ALLOW_REACHABLE = ''ALLOW_REACHABLE''"

definition DENY_BREAKPOINT_CROSSED :: string where
  "DENY_BREAKPOINT_CROSSED = ''DENY_BREAKPOINT_CROSSED''"

definition HOLD_BREAKPOINT_EVIDENCE_INCOMPLETE :: string where
  "HOLD_BREAKPOINT_EVIDENCE_INCOMPLETE = ''HOLD_BREAKPOINT_EVIDENCE_INCOMPLETE''"

definition breakpoint_ref_is_present :: "string option \<Rightarrow> bool" where
  "breakpoint_ref_is_present v = (case v of None \<Rightarrow> False | Some s \<Rightarrow> \<not> blank s)"

definition evaluate_breakpoint_reachability ::
  "state_packet \<Rightarrow> state_packet \<Rightarrow> transition_rule \<Rightarrow> reachability_verdict" where
  "evaluate_breakpoint_reachability origin candidate r =
     (let o_ref = breakpoint_segment_ref origin;
          c_ref = breakpoint_segment_ref candidate;
          p_ref = breakpoint_policy_ref r;
          result = (\<lambda>v. \<lparr>verdict = v, origin_segment_ref = o_ref, candidate_segment_ref = c_ref,
                         rv_breakpoint_policy_ref = p_ref, reason_code = v\<rparr>)
      in if \<not> breakpoint_ref_is_present o_ref then result HOLD_BREAKPOINT_EVIDENCE_INCOMPLETE
         else if \<not> breakpoint_ref_is_present c_ref then result HOLD_BREAKPOINT_EVIDENCE_INCOMPLETE
         else if \<not> breakpoint_ref_is_present p_ref then result HOLD_BREAKPOINT_EVIDENCE_INCOMPLETE
         else if o_ref \<noteq> c_ref then result DENY_BREAKPOINT_CROSSED
         else result ALLOW_REACHABLE)"

fun enforce_breakpoint_reachability ::
  "state_packet \<Rightarrow> state_packet \<Rightarrow> canonical_path \<Rightarrow> adi_error + unit" where
  "enforce_breakpoint_reachability origin candidate [] = Inr ()"
| "enforce_breakpoint_reachability origin candidate (r # rs) =
     (let v = evaluate_breakpoint_reachability origin candidate r
      in if verdict v = DENY_BREAKPOINT_CROSSED then Inl (BreakpointReachabilityDenied (reason_code v))
         else if verdict v \<noteq> ALLOW_REACHABLE then Inl (TransitionRuleHold (reason_code v))
         else enforce_breakpoint_reachability origin candidate rs)"

section \<open>The reachable graph\<close>

definition rule_is_valid :: "transition_rule \<Rightarrow> string \<Rightarrow> string list \<Rightarrow> string list \<Rightarrow> bool" where
  "rule_is_valid r version preconds evidence \<longleftrightarrow>
     pyeq (polarity r) (JInt 1) \<and> is_plain_int (step_cost_uint r) \<and> 0 < int_of (step_cost_uint r) \<and>
     tr_rule_version r = version \<and> set (preconditions r) \<subseteq> set preconds \<and>
     set (required_evidence_refs r) \<subseteq> set evidence"

definition admitted :: "state_packet \<Rightarrow> state_packet \<Rightarrow> transition_rule list \<Rightarrow> transition_rule list" where
  "admitted left right rules =
     filter (\<lambda>r. rule_is_valid r (rule_version right)
               (satisfied_preconditions left @ satisfied_preconditions right)
               (dkeys (evidence_digests left) @ dkeys (evidence_digests right))) rules"

definition outgoing :: "transition_rule list \<Rightarrow> string \<Rightarrow> transition_rule list" where
  "outgoing rules s = sort_key transition_rule_id (filter (\<lambda>r. from_state_code r = s) rules)"

definition node_count :: "state_packet \<Rightarrow> state_packet \<Rightarrow> transition_rule list \<Rightarrow> nat" where
  "node_count left right rules =
     length (remdups (native_state_ref left # native_state_ref right
       # map from_state_code rules @ map to_state_code rules))"

section \<open>The walk\<close>

primrec walk ::
  "nat \<Rightarrow> transition_rule list \<Rightarrow> string \<Rightarrow> string \<Rightarrow> string list \<Rightarrow> canonical_path
     \<Rightarrow> canonical_path list \<Rightarrow> canonical_path list" where
  "walk 0 rules target s visited path paths =
     (if length paths > 1 then paths else if s = target then paths @ [path] else paths)"
| "walk (Suc k) rules target s visited path paths =
     (if length paths > 1 then paths
      else if s = target then paths @ [path]
      else foldl (\<lambda>acc r. if to_state_code r \<in> set visited then acc
                          else walk k rules target (to_state_code r) (to_state_code r # visited)
                                 (path @ [r]) acc)
             paths (outgoing rules s))"

definition resolve_canonical_path ::
  "state_packet \<Rightarrow> state_packet \<Rightarrow> transition_rule list \<Rightarrow> adi_error + canonical_path" where
  "resolve_canonical_path left right transition_rules =
     (if native_state_ref left = native_state_ref right then
        (if \<not> breakpoint_ref_is_present (breakpoint_segment_ref left)
         then Inl (TransitionRuleHold HOLD_BREAKPOINT_EVIDENCE_INCOMPLETE)
         else if \<not> breakpoint_ref_is_present (breakpoint_segment_ref right)
         then Inl (TransitionRuleHold HOLD_BREAKPOINT_EVIDENCE_INCOMPLETE)
         else if breakpoint_segment_ref left \<noteq> breakpoint_segment_ref right
         then Inl (BreakpointReachabilityDenied DENY_BREAKPOINT_CROSSED)
         else Inr [])
      else if rule_version left \<noteq> rule_version right
      then Inl (TransitionRuleHold ''HOLD_TRANSITION_RULE_MISSING'')
      else
        let rules = admitted left right transition_rules;
            paths = walk (node_count left right rules) rules (native_state_ref right)
                      (native_state_ref left) [native_state_ref left] [] []
        in if paths = [] then Inl (TransitionRuleHold ''HOLD_TRANSITION_RULE_MISSING'')
           else if length paths \<noteq> 1 then Inl (TransitionRuleHold ''HOLD_CANONICAL_PATH_DIVERGENCE'')
           else a_bind (enforce_breakpoint_reachability left right (hd paths)) (\<lambda>_. Inr (hd paths)))"

definition delta_f :: "state_packet \<Rightarrow> state_packet \<Rightarrow> transition_rule list \<Rightarrow> adi_error + int" where
  "delta_f left right rules = a_bind (resolve_canonical_path left right rules) (\<lambda>p. Inr (total_cost p))"

section \<open>The walk lists the simple paths\<close>

text \<open>All simple paths in the order of the walk, without the early stop.\<close>

primrec all_paths ::
  "nat \<Rightarrow> transition_rule list \<Rightarrow> string \<Rightarrow> string \<Rightarrow> string list \<Rightarrow> canonical_path list" where
  "all_paths 0 rules target s visited = (if s = target then [[]] else [])"
| "all_paths (Suc k) rules target s visited =
     (if s = target then [[]]
      else concat (map (\<lambda>r. if to_state_code r \<in> set visited then []
                            else map ((#) r) (all_paths k rules target (to_state_code r)
                                                (to_state_code r # visited)))
                    (outgoing rules s)))"

lemma take_take_append: "take n (take n xs @ ys) = take n (xs @ ys)"
  by (simp add: take_append min_def)

lemma walk_all_paths:
  "length paths \<le> 2 \<Longrightarrow>
   walk k rules target s visited path paths =
     take 2 (paths @ map ((@) path) (all_paths k rules target s visited))"
proof (induction k arbitrary: s visited path paths)
  case 0
  then show ?case by (cases "length paths = 2") auto
next
  case (Suc k)
  let ?ps = "\<lambda>r. if to_state_code r \<in> set visited then []
      else map ((#) r) (all_paths k rules target (to_state_code r) (to_state_code r # visited))"
  let ?f = "\<lambda>acc r. if to_state_code r \<in> set visited then acc
      else walk k rules target (to_state_code r) (to_state_code r # visited) (path @ [r]) acc"
  have step: "?f acc r = take 2 (acc @ map ((@) path) (?ps r))" if "length acc \<le> 2" for acc r
  proof -
    have "(@) (path @ [r]) = (\<lambda>x. path @ r # x)" by (simp add: fun_eq_iff)
    then show ?thesis using that Suc.IH [OF that] by (simp add: o_def)
  qed
  have fold: "foldl ?f acc rs = take 2 (acc @ map ((@) path) (concat (map ?ps rs)))"
    if "length acc \<le> 2" for acc rs
    using that
  proof (induction rs arbitrary: acc)
    case (Cons r rs)
    have "length (?f acc r) \<le> 2" by (simp add: step [OF Cons.prems])
    then have "foldl ?f acc (r # rs) = take 2 (?f acc r @ map ((@) path) (concat (map ?ps rs)))"
      using Cons.IH by simp
    then show ?case unfolding step [OF Cons.prems] take_take_append by simp
  qed simp
  show ?case
  proof (cases "length paths > 1")
    case True
    with Suc.prems have "length paths = 2" by simp
    then show ?thesis by simp
  next
    case False
    then show ?thesis using fold [OF Suc.prems] by simp
  qed
qed

text \<open>A causal path: consecutive admitted rules from one state to another that visit no state twice.\<close>

fun chain :: "string \<Rightarrow> canonical_path \<Rightarrow> string \<Rightarrow> bool" where
  "chain s [] t \<longleftrightarrow> s = t"
| "chain s (r # rs) t \<longleftrightarrow> from_state_code r = s \<and> chain (to_state_code r) rs t"

definition causal_path :: "transition_rule list \<Rightarrow> string \<Rightarrow> string \<Rightarrow> canonical_path \<Rightarrow> bool" where
  "causal_path rules s t q \<longleftrightarrow>
     set q \<subseteq> set rules \<and> chain s q t \<and> distinct (s # map to_state_code q)"

lemma chain_end: "chain s q t \<Longrightarrow> q \<noteq> [] \<Longrightarrow> t \<in> to_state_code ` set q"
  by (induction q arbitrary: s) (auto, metis chain.simps(1))

lemma set_outgoing [simp]: "set (outgoing rules s) = {r \<in> set rules. from_state_code r = s}"
  by (simp add: outgoing_def)

lemma all_paths_iff:
  "s \<in> set visited \<Longrightarrow>
   q \<in> set (all_paths k rules t s visited) \<longleftrightarrow>
     set q \<subseteq> set rules \<and> chain s q t \<and> distinct (map to_state_code q) \<and>
     to_state_code ` set q \<inter> set visited = {} \<and> length q \<le> k"
proof (induction k arbitrary: s visited q)
  case 0
  then show ?case by auto
next
  case (Suc k)
  show ?case
  proof (cases "s = t")
    case True
    then show ?thesis using Suc.prems chain_end [of s q t] by auto
  next
    case False
    show ?thesis
    proof (cases q)
      case Nil
      with False show ?thesis by (auto split: if_splits)
    next
      case (Cons r p)
      have "q \<in> set (all_paths (Suc k) rules t s visited) \<longleftrightarrow>
          r \<in> set rules \<and> from_state_code r = s \<and> to_state_code r \<notin> set visited \<and>
          p \<in> set (all_paths k rules t (to_state_code r) (to_state_code r # visited))"
        using False Cons by (auto split: if_splits)
      also have "(p \<in> set (all_paths k rules t (to_state_code r) (to_state_code r # visited))) \<longleftrightarrow>
          set p \<subseteq> set rules \<and> chain (to_state_code r) p t \<and> distinct (map to_state_code p) \<and>
          to_state_code ` set p \<inter> set (to_state_code r # visited) = {} \<and> length p \<le> k"
        by (rule Suc.IH) simp
      finally show ?thesis using Cons by auto
    qed
  qed
qed

lemma distinct_all_paths: "distinct rules \<Longrightarrow> distinct (all_paths k rules t s visited)"
proof (induction k arbitrary: s visited)
  case (Suc k)
  define ps where "ps = (\<lambda>r. if to_state_code r \<in> set visited then []
      else map ((#) r) (all_paths k rules t (to_state_code r) (to_state_code r # visited)))"
  have heads: "p \<in> set (ps r) \<Longrightarrow> p \<noteq> [] \<and> hd p = r" for p r by (auto simp: ps_def split: if_splits)
  have "distinct rs \<Longrightarrow> distinct (concat (map ps rs))" for rs
  proof (induction rs)
    case (Cons r rs)
    have "distinct (ps r)" using Suc.IH [OF Suc.prems] by (simp add: ps_def distinct_map)
    moreover have "set (ps r) \<inter> (\<Union>x \<in> set rs. set (ps x)) = {}"
    proof (rule equals0I)
      fix q
      assume "q \<in> set (ps r) \<inter> (\<Union>x \<in> set rs. set (ps x))"
      then obtain x where x: "q \<in> set (ps r)" "x \<in> set rs" "q \<in> set (ps x)" by blast
      then have "x = r" using heads [OF x(1)] heads [OF x(3)] by simp
      with x(2) Cons.prems show False by simp
    qed
    ultimately show ?case using Cons by simp
  qed simp
  moreover have "distinct (outgoing rules s)" using Suc.prems by (simp add: outgoing_def)
  ultimately show ?case by (simp add: ps_def)
qed simp

lemma causal_path_length:
  assumes "causal_path (admitted l r rules) (native_state_ref l) t q"
  shows "length q \<le> node_count l r (admitted l r rules)"
proof -
  let ?ns = "native_state_ref l # native_state_ref r # map from_state_code (admitted l r rules)
      @ map to_state_code (admitted l r rules)"
  have "set (native_state_ref l # map to_state_code q) \<subseteq> set ?ns"
    using assms by (auto simp: causal_path_def)
  then have "card (set (native_state_ref l # map to_state_code q)) \<le> card (set ?ns)"
    by (intro card_mono) simp_all
  moreover have "card (set (native_state_ref l # map to_state_code q)) = Suc (length q)"
    using assms by (metis causal_path_def distinct_card length_Cons length_map)
  ultimately show ?thesis unfolding node_count_def length_remdups_card_conv by linarith
qed

definition found_paths :: "state_packet \<Rightarrow> state_packet \<Rightarrow> transition_rule list \<Rightarrow> canonical_path list" where
  "found_paths l r rules =
     walk (node_count l r (admitted l r rules)) (admitted l r rules) (native_state_ref r)
       (native_state_ref l) [native_state_ref l] [] []"

lemma found_paths_spec:
  obtains ps where "found_paths l r rules = take 2 ps" "distinct rules \<Longrightarrow> distinct ps"
    "\<And>q. q \<in> set ps \<longleftrightarrow> causal_path (admitted l r rules) (native_state_ref l) (native_state_ref r) q"
proof
  let ?ps = "all_paths (node_count l r (admitted l r rules)) (admitted l r rules) (native_state_ref r)
       (native_state_ref l) [native_state_ref l]"
  show "found_paths l r rules = take 2 ?ps" 
    by (simp add: found_paths_def walk_all_paths map_idI)
  show "distinct rules \<Longrightarrow> distinct ?ps" by (intro distinct_all_paths) (simp add: admitted_def)
  show "q \<in> set ?ps \<longleftrightarrow> causal_path (admitted l r rules) (native_state_ref l) (native_state_ref r) q" for q
    using causal_path_length [of l r rules "native_state_ref r" q]
    by (auto simp: all_paths_iff causal_path_def)
qed

lemma take2_single:
  "distinct ps \<Longrightarrow> length (take 2 ps) = 1 \<longleftrightarrow> (\<exists>!q. q \<in> set ps)"
  by (cases ps; cases "tl ps") auto

lemma take2_many: "distinct ps \<Longrightarrow> length (take 2 ps) > 1 \<longleftrightarrow> (\<exists>p \<in> set ps. \<exists>q \<in> set ps. p \<noteq> q)"
  by (cases ps; cases "tl ps") auto

text \<open>
  C4: Between two different states of one rule version, over rules listed once each, the
  resolver reports a missing rule exactly when no causal path exists, divergence exactly
  when two different ones exist, and otherwise the only causal path, provided every rule on it
  passes the breakpoint check.
\<close>

theorem resolver_finds_the_only_path:
  assumes "native_state_ref l \<noteq> native_state_ref r" and "rule_version l = rule_version r"
    and "distinct rules"
  defines "causal \<equiv> causal_path (admitted l r rules) (native_state_ref l) (native_state_ref r)"
  shows "case resolve_canonical_path l r rules of
      Inr p \<Rightarrow> (\<forall>q. causal q \<longleftrightarrow> q = p) \<and> enforce_breakpoint_reachability l r p = Inr ()
    | Inl e \<Rightarrow>
        (e = TransitionRuleHold ''HOLD_TRANSITION_RULE_MISSING'' \<and> (\<forall>q. \<not> causal q)) \<or>
        (e = TransitionRuleHold ''HOLD_CANONICAL_PATH_DIVERGENCE'' \<and> (\<exists>p q. p \<noteq> q \<and> causal p \<and> causal q)) \<or>
        (\<exists>p. (\<forall>q. causal q \<longleftrightarrow> q = p) \<and> enforce_breakpoint_reachability l r p = Inl e)"
proof -
  obtain ps where ps: "found_paths l r rules = take 2 ps" "distinct ps"
    "\<And>q. q \<in> set ps \<longleftrightarrow> causal q"
    using found_paths_spec [of l r rules] assms(3) unfolding causal_def by metis
  have res: "resolve_canonical_path l r rules =
      (if take 2 ps = [] then Inl (TransitionRuleHold ''HOLD_TRANSITION_RULE_MISSING'')
       else if length (take 2 ps) \<noteq> 1 then Inl (TransitionRuleHold ''HOLD_CANONICAL_PATH_DIVERGENCE'')
       else a_bind (enforce_breakpoint_reachability l r (hd (take 2 ps))) (\<lambda>_. Inr (hd (take 2 ps))))"
    using assms(1,2) ps(1) by (simp add: resolve_canonical_path_def found_paths_def Let_def)
  consider "ps = []" | q where "ps = [q]" | p q rest where "ps = p # q # rest"
    by (metis neq_Nil_conv)
  then show ?thesis
  proof cases
    case 1
    with res ps(3) show ?thesis by auto
  next
    case 2
    then have only: "causal p \<longleftrightarrow> p = q" for p using ps(3) [of p] by auto
    show ?thesis
      using only by (cases "enforce_breakpoint_reachability l r q") (auto simp: res 2)
  next
    case 3
    then have "p \<noteq> q" "causal p" "causal q" using ps(2,3) by auto
    then show ?thesis by (auto simp: res 3)
  qed
qed

definition demo_facts :: boundary_facts where
  "demo_facts = \<lparr>intent_satisfied = True, evidence_valid = True, life_safe = True,
     other_rights_safe = True, intent_violated = False, causal_order_violated = False,
     life_harm = False, other_rights_harm = False, hard_risk = False\<rparr>"

definition demo_packet :: "string \<Rightarrow> string \<Rightarrow> state_packet" where
  "demo_packet code root =
     \<lparr>dimensions = replicate 8 (JInt 1), event_time = JInt 5, namespace = ''n'', state_profile = ''p'',
      native_state_ref = code, state_root = root, parent_state_root = ''pr'', evidence_root = ''er'',
      snapshot_id = ''s'', canonical_version = ''c'', rule_version = ''v'', logical_time = 1,
      topology_coordinate_ref = ''t'', event_hash_ref = ''h'',
      boundary_facts_of = replicate 8 demo_facts, evidence_digests = [], expected_evidence_digests = [],
      satisfied_preconditions = [], previous_logical_time = None, claimed_metric_signature = None,
      breakpoint_segment_ref = Some ''seg''\<rparr>"

definition demo_rule :: "string \<Rightarrow> string \<Rightarrow> string \<Rightarrow> transition_rule" where
  "demo_rule i a b =
     \<lparr>transition_rule_id = i, from_state_code = a, to_state_code = b, preconditions = [],
      required_evidence_refs = [], polarity = JInt 1, direction_code = ''d'', step_cost_uint = JInt 2,
      tr_rule_version = ''v'', breakpoint_policy_ref = Some ''bp''\<rparr>"

definition demo_rules :: "transition_rule list" where
  "demo_rules = [demo_rule ''r1'' ''A'' ''B'', demo_rule ''r2'' ''B'' ''C'', demo_rule ''r3'' ''B'' ''A'']"

lemma demo_outgoing:
  "outgoing demo_rules ''A'' = [demo_rule ''r1'' ''A'' ''B'']"
  "outgoing demo_rules ''B'' = [demo_rule ''r2'' ''B'' ''C'', demo_rule ''r3'' ''B'' ''A'']"
  by (simp_all add: outgoing_def demo_rules_def demo_rule_def less_eq_list_code)

lemma demo_present: "\<not> blank ''seg''" "\<not> blank ''bp''"
  by simp_all

lemma demo_admitted: "admitted (demo_packet ''A'' u) (demo_packet ''C'' v) demo_rules = demo_rules"
  by (simp add: admitted_def rule_is_valid_def demo_rules_def demo_rule_def demo_packet_def is_plain_int_def
      pyeq_def)

lemma demo_resolve:
  "resolve_canonical_path (demo_packet ''A'' u) (demo_packet ''C'' v) demo_rules =
     Inr [demo_rule ''r1'' ''A'' ''B'', demo_rule ''r2'' ''B'' ''C'']"
proof -
  have n: "native_state_ref (demo_packet a b) = a" "rule_version (demo_packet a b) = ''v''"
    "breakpoint_segment_ref (demo_packet a b) = Some ''seg''" for a b
    by (simp_all add: demo_packet_def)
  have f: "to_state_code (demo_rule i a b) = b" "breakpoint_policy_ref (demo_rule i a b) = Some ''bp''" for i a b
    by (simp_all add: demo_rule_def)
  have c: "node_count (demo_packet ''A'' u) (demo_packet ''C'' v) demo_rules = Suc (Suc (Suc 0))"
    by (simp add: node_count_def n) (simp add: demo_rules_def demo_rule_def)
  show ?thesis
    by (simp add: resolve_canonical_path_def demo_admitted c n demo_outgoing f Let_def
        evaluate_breakpoint_reachability_def breakpoint_ref_is_present_def demo_present
        ALLOW_REACHABLE_def DENY_BREAKPOINT_CROSSED_def)
qed

theorem resolver_finds_the_only_path_witness:
  "\<exists>p. \<forall>q. causal_path (admitted (demo_packet ''A'' ''00'') (demo_packet ''C'' ''01'') demo_rules) ''A'' ''C'' q
      \<longleftrightarrow> q = p"
proof -
  let ?l = "demo_packet ''A'' ''00''" and ?r = "demo_packet ''C'' ''01''"
  have ne: "native_state_ref ?l \<noteq> native_state_ref ?r" and v: "rule_version ?l = rule_version ?r"
    by (simp_all add: demo_packet_def)
  have d: "distinct demo_rules" by (simp add: demo_rules_def demo_rule_def)
  have n: "native_state_ref ?l = ''A''" "native_state_ref ?r = ''C''" by (simp_all add: demo_packet_def)
  from resolver_finds_the_only_path [OF ne v d] show ?thesis unfolding demo_resolve n by auto
qed

section \<open>A resolved path stays in one segment\<close>

lemma enforce_ok:
  "enforce_breakpoint_reachability l r p = Inr () \<Longrightarrow> q \<in> set p \<Longrightarrow>
     breakpoint_ref_is_present (breakpoint_segment_ref l) \<and>
     breakpoint_segment_ref r = breakpoint_segment_ref l \<and>
     breakpoint_ref_is_present (breakpoint_policy_ref q)"
proof (induction p)
  case (Cons a p)
  have "verdict (evaluate_breakpoint_reachability l r a) = ALLOW_REACHABLE"
    using Cons.prems(1) by (simp add: Let_def split: if_splits)
  then have "breakpoint_ref_is_present (breakpoint_segment_ref l) \<and>
     breakpoint_segment_ref r = breakpoint_segment_ref l \<and>
     breakpoint_ref_is_present (breakpoint_policy_ref a)"
    by (auto simp: evaluate_breakpoint_reachability_def Let_def ALLOW_REACHABLE_def
        DENY_BREAKPOINT_CROSSED_def HOLD_BREAKPOINT_EVIDENCE_INCOMPLETE_def split: if_splits)
  with Cons show ?case by (auto simp: Let_def split: if_splits)
qed simp

lemma resolve_Inr_cases:
  assumes "resolve_canonical_path l r rules = Inr p"
  obtains (here) "native_state_ref l = native_state_ref r" "p = []"
      "breakpoint_ref_is_present (breakpoint_segment_ref l)"
      "breakpoint_segment_ref l = breakpoint_segment_ref r"
  | (away) "native_state_ref l \<noteq> native_state_ref r" "rule_version l = rule_version r" "p \<noteq> []"
      "causal_path (admitted l r rules) (native_state_ref l) (native_state_ref r) p"
      "enforce_breakpoint_reachability l r p = Inr ()"
proof (cases "native_state_ref l = native_state_ref r")
  case True
  with assms show ?thesis by (intro here) (auto simp: resolve_canonical_path_def split: if_splits)
next
  case False
  obtain ps where ps: "found_paths l r rules = take 2 ps"
    "\<And>q. q \<in> set ps \<longleftrightarrow> causal_path (admitted l r rules) (native_state_ref l) (native_state_ref r) q"
    using found_paths_spec by metis
  from assms False have v: "rule_version l = rule_version r"
    and len: "length (found_paths l r rules) = 1" and p: "p = hd (found_paths l r rules)"
    and e: "enforce_breakpoint_reachability l r p = Inr ()"
    by (auto simp: resolve_canonical_path_def Let_def a_bind_Inr simp flip: found_paths_def split: if_splits)
  from len p have "p \<in> set (take 2 ps)" unfolding ps(1) by (metis hd_in_set length_0_conv one_neq_zero)
  then have c: "causal_path (admitted l r rules) (native_state_ref l) (native_state_ref r) p"
    using ps(2) in_set_takeD by metis
  with False have "p \<noteq> []" by (auto simp: causal_path_def)
  with away False v c e show ?thesis by blast
qed

text \<open>
  A resolved path never crosses a breakpoint and uses only admitted rules: both states are
  in the same, named segment, every rule on the path is one of the given rules with a named
  breakpoint policy, positive polarity, the target's rule version, and preconditions and
  evidence that one of the two states provides, and its cost is at least the number of steps.
\<close>

theorem resolved_path_is_admissible:
  assumes "resolve_canonical_path l r rules = Inr p"
  shows "breakpoint_ref_is_present (breakpoint_segment_ref l) \<and>
    breakpoint_segment_ref r = breakpoint_segment_ref l \<and> int (length p) \<le> total_cost p \<and>
    (\<forall>q \<in> set p. q \<in> set rules \<and> breakpoint_ref_is_present (breakpoint_policy_ref q) \<and>
       pyeq (polarity q) (JInt 1) \<and> tr_rule_version q = rule_version r \<and>
       set (preconditions q) \<subseteq> set (satisfied_preconditions l) \<union> set (satisfied_preconditions r) \<and>
       set (required_evidence_refs q) \<subseteq> set (dkeys (evidence_digests l)) \<union> set (dkeys (evidence_digests r)))"
  using assms
proof (cases rule: resolve_Inr_cases)
  case here
  then show ?thesis by (simp add: total_cost_def)
next
  case away
  then have sub: "\<forall>q \<in> set p. q \<in> set (admitted l r rules)" by (auto simp: causal_path_def)
  then have "\<forall>q \<in> set p. 1 \<le> int_of (step_cost_uint q)"
    by (auto simp: admitted_def rule_is_valid_def)
  then have "int (length p) \<le> total_cost p"
    unfolding total_cost_def by (induction p) auto
  moreover have "p \<noteq> [] \<Longrightarrow> \<exists>q. q \<in> set p" by (cases p) auto
  ultimately show ?thesis
    using away(3) enforce_ok [OF away(5)] sub
    by (auto simp: admitted_def rule_is_valid_def)
qed

theorem resolved_path_is_admissible_witness:
  "breakpoint_segment_ref (demo_packet ''C'' ''01'') = breakpoint_segment_ref (demo_packet ''A'' ''00'') \<and>
   2 \<le> total_cost [demo_rule ''r1'' ''A'' ''B'', demo_rule ''r2'' ''B'' ''C'']"
  using resolved_path_is_admissible [OF demo_resolve, of "''00''" "''01''"] by simp

end
