(* ===== verification/AdiIndex.thy ===== *)
theory AdiIndex
  imports AdiPath
begin

text \<open>
  \<open>core/adi_native/projection.py\<close> and \<open>index.py\<close>: the integer projections of a packet,
  the time slot, and the complete native index with the digest over its ordered fields.
\<close>

section \<open>Projections\<close>

definition project_8d_state :: "state_packet \<Rightarrow> py_error + int list" where
  "project_8d_state p =
     e_bind (check (length (dimensions p) = 8) (ValueError ''BLOCK_INVALID_8D_DIMENSION_COUNT'')) (\<lambda>_.
     e_bind (check (\<forall>v \<in> set (dimensions p). is_plain_int v) (ValueError ''BLOCK_NON_INTEGER_8D_STATE'')) (\<lambda>_.
     Inr (map int_of (dimensions p))))"

definition boundary_value :: "boundary_facts \<Rightarrow> int" where
  "boundary_value f =
     (if intent_violated f \<or> causal_order_violated f \<or> life_harm f \<or> other_rights_harm f \<or> hard_risk f
      then -1
      else if intent_satisfied f \<and> evidence_valid f \<and> life_safe f \<and> other_rights_safe f then 1
      else 0)"

definition positive_negative_boundaries :: "state_packet \<Rightarrow> py_error + int list" where
  "positive_negative_boundaries p =
     e_bind (check (length (boundary_facts_of p) = 8)
       (ValueError ''BLOCK_INVALID_BOUNDARY_DIMENSION_COUNT'')) (\<lambda>_.
     Inr (map boundary_value (boundary_facts_of p)))"

definition absolute_temporal_variation :: "state_packet \<Rightarrow> state_packet \<Rightarrow> py_error + int" where
  "absolute_temporal_variation current previous =
     (if is_int (event_time current) \<and> is_int (event_time previous)
      then Inr \<bar>int_of (event_time current) - int_of (event_time previous)\<bar>
      else Inl (TypeError ''unsupported operand''))"

definition metric_signature_f :: "state_packet \<Rightarrow> metric_signature" where
  "metric_signature_f p =
     \<lparr>ms_logical_time = logical_time p, ms_topology_coordinate_ref = topology_coordinate_ref p,
      ms_previous_state_root = parent_state_root p, ms_evidence_root = evidence_root p,
      ms_event_hash_ref = event_hash_ref p, ms_canonical_version = canonical_version p,
      ms_rule_version = rule_version p\<rparr>"

definition direction_path :: "transition_rule list \<Rightarrow> string list" where
  "direction_path rules = map direction_code rules"

section \<open>Slots\<close>

definition tau_f :: "json \<Rightarrow> slot_config \<Rightarrow> py_error + int" where
  "tau_f time c =
     e_bind (check (\<forall>v \<in> set [time, t_min c, t_max c, slot_count c]. is_plain_int v)
       (ValueError ''DIRECT_SLOT_INPUTS_MUST_BE_INTEGERS'')) (\<lambda>_.
     e_bind (check (\<not> (int_of (t_max c) \<le> int_of (t_min c) \<or> int_of (slot_count c) \<le> 0))
       (ValueError ''INVALID_DIRECT_SLOT_RANGE'')) (\<lambda>_.
     let numerator = (int_of time - int_of (t_min c)) * int_of (slot_count c);
         denominator = int_of (t_max c) - int_of (t_min c);
         result = numerator div denominator
     in e_bind (check (\<not> result < 0) (ValueError ''DIRECT_SLOT_UINT_UNDERFLOW'')) (\<lambda>_. Inr result)))"

definition time_axis_absolute_distance :: "json \<Rightarrow> json \<Rightarrow> py_error + int" where
  "time_axis_absolute_distance state_slot current_slot =
     e_bind (check (is_plain_int state_slot \<and> 0 \<le> int_of state_slot)
       (ValueError ''STATE_SLOT_MUST_BE_NON_NEGATIVE_INTEGER'')) (\<lambda>_.
     e_bind (check (is_plain_int current_slot \<and> 0 \<le> int_of current_slot)
       (ValueError ''CURRENT_SLOT_MUST_BE_NON_NEGATIVE_INTEGER'')) (\<lambda>_.
     Inr \<bar>int_of state_slot - int_of current_slot\<bar>))"

definition direct_slot_f :: "state_packet \<Rightarrow> slot_config \<Rightarrow> py_error + int" where
  "direct_slot_f p c =
     e_bind (tau_f (event_time p) c) (\<lambda>absolute_slot.
     case map_of (slot_lookup c) (namespace p, state_profile p, absolute_slot, native_state_ref p,
                                  canonical_version p, rule_version p) of
       None \<Rightarrow> Inl (KeyError ''HOLD_DIRECT_SLOT_RULE_MISSING'')
     | Some v \<Rightarrow> e_bind (check (is_plain_int v \<and> 0 \<le> int_of v)
                   (ValueError ''DIRECT_SLOT_F_MUST_RETURN_UINT'')) (\<lambda>_. Inr (int_of v)))"

definition state_cross_section_f :: "state_packet \<Rightarrow> slot_config \<Rightarrow> py_error + state_cross_section" where
  "state_cross_section_f p c =
     e_bind (tau_f (event_time p) c) (\<lambda>slot.
     e_bind (direct_slot_f p c) (\<lambda>ds.
     e_bind (project_8d_state p) (\<lambda>dims.
     e_bind (positive_negative_boundaries p) (\<lambda>bs.
     Inr \<lparr>absolute_time_slot = slot, direct_slot = ds, state_8d = dims, boundary_state = bs,
          metric_signature_of = metric_signature_f p\<rparr>))))"

section \<open>The native index\<close>

definition canonical_json :: "json \<Rightarrow> string" where
  "canonical_json v = enc fmt_compact 0 v"

interpretation in_order: codec canonical_json loads "\<lambda>j. j"
  using loads_enc [of fmt_compact _ "[]" 0]
  by unfold_locales (simp add: canonical_json_def blanks_def)

definition int_list :: "int list \<Rightarrow> json" where
  "int_list xs = JArr (map JInt xs)"

text \<open>The tuple of (name, value) pairs as JSON arrays.\<close>

definition fields_json :: "(string \<times> json) list \<Rightarrow> json" where
  "fields_json fs = JArr (map (\<lambda>(k, v). JArr [JStr k, v]) fs)"

definition index_fields ::
  "state_packet \<Rightarrow> state_packet \<Rightarrow> canonical_path \<Rightarrow> int \<Rightarrow> int \<Rightarrow> int list \<Rightarrow> int list \<Rightarrow> (string \<times> json) list" where
  "index_fields origin target path slot absolute_slot dims bs =
     [(''namespace'', JStr (namespace target)), (''origin_state_root'', JStr (state_root origin)),
      (''direct_slot'', JInt slot), (''absolute_time_slot'', JInt absolute_slot),
      (''state_8d'', int_list dims), (''boundary_state'', int_list bs),
      (''metric_signature'', JArr (metric_as_tuple (metric_signature_f target))),
      (''absolute_distance'', JInt (total_cost path)),
      (''direction_path'', str_list (direction_codes path)),
      (''parent_state_root'', JStr (parent_state_root target)),
      (''evidence_root'', JStr (evidence_root target)),
      (''canonical_version'', JStr (canonical_version target)),
      (''rule_version'', JStr (rule_version target)), (''logical_time'', JInt (logical_time target))]"

definition phi_f ::
  "(string \<Rightarrow> string) \<Rightarrow> state_packet \<Rightarrow> state_packet \<Rightarrow> transition_rule list \<Rightarrow> slot_config
     \<Rightarrow> adi_error + native_index" where
  "phi_f sha origin target rules c =
     a_bind (resolve_canonical_path origin target rules) (\<lambda>path.
     a_bind (py (direct_slot_f target c)) (\<lambda>slot.
     a_bind (py (tau_f (event_time target) c)) (\<lambda>absolute_slot.
     a_bind (py (project_8d_state target)) (\<lambda>dims.
     a_bind (py (positive_negative_boundaries target)) (\<lambda>bs.
     let fields = index_fields origin target path slot absolute_slot dims bs
     in Inr \<lparr>ordered_fields = fields, native_adi_ref = sha (canonical_json (fields_json fields)),
             ni_direct_slot = slot, absolute_distance = total_cost path,
             direction_path_of = direction_codes path, ni_status = ''NATIVE_ADI_CANDIDATE'',
             ni_profile = ''CURRENT_FOUNDER_CANONICAL_V1''\<rparr>)))))"

section \<open>Properties\<close>

lemma tau_f_Inr:
  "tau_f e c = Inr k \<longleftrightarrow>
     (\<forall>v \<in> set [e, t_min c, t_max c, slot_count c]. is_plain_int v) \<and>
     int_of (t_min c) < int_of (t_max c) \<and> 0 < int_of (slot_count c) \<and>
     k = (int_of e - int_of (t_min c)) * int_of (slot_count c) div (int_of (t_max c) - int_of (t_min c)) \<and>
     0 \<le> k"
  by (auto simp: tau_f_def e_bind_InrD Let_def)

text \<open>
  When the slot of a time is defined it is the number of whole slots since the start:
  it is not negative, the time lies in the slot's bounds, a time before the end of the range has a
  slot below the slot count, and a later time never has an earlier slot.
\<close>

theorem time_slot_bounds:
  assumes "tau_f e c = Inr k"
  defines "w \<equiv> int_of (t_max c) - int_of (t_min c)" and "n \<equiv> int_of (slot_count c)"
    and "d \<equiv> int_of e - int_of (t_min c)"
  shows "0 \<le> k \<and> k * w \<le> d * n \<and> d * n < (k + 1) * w \<and>
    (int_of e < int_of (t_max c) \<longrightarrow> k < n) \<and>
    (\<forall>e' k'. tau_f e' c = Inr k' \<and> int_of e \<le> int_of e' \<longrightarrow> k \<le> k')"
proof -
  have w: "0 < w" and n: "0 < n" and k: "k = d * n div w" "0 \<le> k"
    using assms(1) by (auto simp: tau_f_Inr w_def n_def d_def)
  have low: "k * w \<le> d * n"
    unfolding k(1) using div_mult_mod_eq [of "d * n" w] pos_mod_sign [OF w, of "d * n"] by linarith
  have high: "d * n < (k + 1) * w"
    unfolding k(1) distrib_right
    using div_mult_mod_eq [of "d * n" w] pos_mod_bound [OF w, of "d * n"] by linarith
  have "k < n" if "int_of e < int_of (t_max c)"
  proof -
    have "d < w" using that by (simp add: d_def w_def)
    with n have "d * n < w * n" by simp
    with low have "k * w < n * w" by (simp add: mult.commute)
    with w show ?thesis by (simp add: mult_less_cancel_right)
  qed
  moreover have "k \<le> k'" if "tau_f e' c = Inr k'" "int_of e \<le> int_of e'" for e' k'
  proof -
    have "d * n \<le> (int_of e' - int_of (t_min c)) * n"
      using that(2) n by (intro mult_right_mono) (simp_all add: d_def)
    then have "d * n div w \<le> (int_of e' - int_of (t_min c)) * n div w" using w by (rule zdiv_mono1)
    with that(1) show ?thesis by (auto simp: tau_f_Inr k(1) w_def n_def)
  qed
  ultimately show ?thesis using k(2) low high by blast
qed

theorem time_slot_bounds_witness:
  "tau_f (JInt 7) \<lparr>t_min = JInt 0, t_max = JInt 10, slot_count = JInt 5, slot_lookup = []\<rparr> = Inr 3 \<and>
   (3 :: int) < 5"
proof -
  let ?c = "\<lparr>t_min = JInt 0, t_max = JInt 10, slot_count = JInt 5, slot_lookup = []\<rparr>"
  have t: "tau_f (JInt 7) ?c = Inr 3" by (simp add: tau_f_Inr is_plain_int_def)
  from time_slot_bounds [OF t] t show ?thesis by simp
qed

lemma phi_f_Inr:
  assumes "phi_f sha origin target rules c = Inr i"
  obtains path slot absolute_slot dims bs where
    "resolve_canonical_path origin target rules = Inr path"
    "direct_slot_f target c = Inr slot" "tau_f (event_time target) c = Inr absolute_slot"
    "project_8d_state target = Inr dims" "positive_negative_boundaries target = Inr bs"
    "ordered_fields i = index_fields origin target path slot absolute_slot dims bs"
    "native_adi_ref i = sha (canonical_json (fields_json (ordered_fields i)))"
    "absolute_distance i = total_cost path"
  using assms by (auto simp: phi_f_def a_bind_Inr py_Inr Let_def)

lemma jwf_index_fields: "jwf (fields_json (index_fields origin target path slot a dims bs))"
  by (auto simp: fields_json_def index_fields_def int_list_def metric_as_tuple_def)

lemma fields_json_inject: "fields_json fs = fields_json gs \<Longrightarrow> fs = gs"
proof (induction fs arbitrary: gs)
  case (Cons f fs)
  then show ?case by (cases gs; cases f) (auto simp: fields_json_def)
qed (auto simp: fields_json_def)

text \<open>
  Two complete indices with the same reference agree in all their ordered fields (the
  origin's root, the slots, the 8D state, the boundaries, the path's distance and directions, roots
  and versions), or the two texts that were hashed are different and collide.
\<close>

theorem native_reference_binds_fields:
  assumes "phi_f sha o1 t1 r1 c1 = Inr i" and "phi_f sha o2 t2 r2 c2 = Inr j"
    and "native_adi_ref i = native_adi_ref j"
  shows "(ordered_fields i = ordered_fields j \<and> state_root o1 = state_root o2 \<and>
      absolute_distance i = absolute_distance j \<and> metric_signature_f t1 = metric_signature_f t2) \<or>
    (let x = canonical_json (fields_json (ordered_fields i)); y = canonical_json (fields_json (ordered_fields j))
     in x \<noteq> y \<and> sha x = sha y)"
proof (cases "canonical_json (fields_json (ordered_fields i)) = canonical_json (fields_json (ordered_fields j))")
  case True
  from phi_f_Inr [OF assms(1)] obtain p1 s1 a1 d1 b1 where 1:
    "ordered_fields i = index_fields o1 t1 p1 s1 a1 d1 b1" "absolute_distance i = total_cost p1" by metis
  from phi_f_Inr [OF assms(2)] obtain p2 s2 a2 d2 b2 where 2:
    "ordered_fields j = index_fields o2 t2 p2 s2 a2 d2 b2" "absolute_distance j = total_cost p2" by metis
  have eq: "ordered_fields i = ordered_fields j"
    using in_order.emit_inj [OF _ _ True] jwf_index_fields fields_json_inject 1(1) 2(1) by metis
  then have "index_fields o1 t1 p1 s1 a1 d1 b1 = index_fields o2 t2 p2 s2 a2 d2 b2"
    using 1(1) 2(1) by simp
  then have "state_root o1 = state_root o2 \<and> total_cost p1 = total_cost p2 \<and>
      metric_as_tuple (metric_signature_f t1) = metric_as_tuple (metric_signature_f t2)"
    unfolding index_fields_def by simp
  then show ?thesis
    using eq 1(2) 2(2) by (auto simp: metric_as_tuple_def)
next
  case False
  from assms phi_f_Inr [OF assms(1)] phi_f_Inr [OF assms(2)]
  have "sha (canonical_json (fields_json (ordered_fields i))) = sha (canonical_json (fields_json (ordered_fields j)))"
    by metis
  with False show ?thesis by (simp add: Let_def)
qed

definition demo_slots :: slot_config where
  "demo_slots = \<lparr>t_min = JInt 0, t_max = JInt 10, slot_count = JInt 5,
     slot_lookup = [((''n'', ''p'', 2, ''C'', ''c'', ''v''), JInt 7)]\<rparr>"

lemma demo_phi: "\<exists>i. phi_f sha (demo_packet ''A'' ''00'') (demo_packet ''C'' ''01'') demo_rules demo_slots = Inr i \<and>
    absolute_distance i = 4"
proof -
  have t: "tau_f (event_time (demo_packet ''C'' ''01'')) demo_slots = Inr 2"
    by (simp add: tau_f_Inr demo_slots_def demo_packet_def is_plain_int_def)
  have s: "direct_slot_f (demo_packet ''C'' ''01'') demo_slots = Inr 7"
    by (simp add: direct_slot_f_def t) (simp add: demo_slots_def demo_packet_def is_plain_int_def check_def)
  have d: "\<exists>ds. project_8d_state (demo_packet ''C'' ''01'') = Inr ds"
    by (simp add: project_8d_state_def demo_packet_def is_plain_int_def check_def)
  have b: "\<exists>bs. positive_negative_boundaries (demo_packet ''C'' ''01'') = Inr bs"
    by (simp add: positive_negative_boundaries_def demo_packet_def check_def)
  from d b show ?thesis
    by (auto simp: phi_f_def demo_resolve t s Let_def total_cost_def demo_rule_def)
qed

theorem native_reference_binds_fields_witness:
  "\<exists>i. phi_f (\<lambda>t. t) (demo_packet ''A'' ''00'') (demo_packet ''C'' ''01'') demo_rules demo_slots = Inr i \<and>
     ordered_fields i = ordered_fields i \<and> absolute_distance i = 4"
proof -
  obtain i where i: "phi_f (\<lambda>t. t) (demo_packet ''A'' ''00'') (demo_packet ''C'' ''01'') demo_rules demo_slots = Inr i"
    "absolute_distance i = 4" using demo_phi by blast
  from native_reference_binds_fields [OF i(1) i(1) refl] i show ?thesis by blast
qed

end
