(* ===== verification/AdiSpiral.thy ===== *)
theory AdiSpiral
  imports AdiIndex
begin

text \<open>
  \<open>core/adi_native/verifier.py\<close> and \<open>spiral.py\<close>: the structural and evidence checks of a
  candidate packet, the shells of candidates by path distance, and the search that stops at the
  first shell with exactly one evidence-closed fixed point.  The validation by the total field is a
  function the caller passes, so it is an argument.
\<close>

section \<open>Checks\<close>

text \<open>Case folding is modelled on ASCII letters.\<close>

definition FORBIDDEN_NATIVE_PROXIES :: "string list" where
  "FORBIDDEN_NATIVE_PROXIES =
     [''morton'', ''z-order'', ''z order'', ''bit interleaving'', ''manhattan'', ''chebyshev'', 
      ''euclidean'', ''cosine similarity'', ''gray code'', ''gray-code'', ''hilbert'', 
      ''vector similarity'', ''generic nearest-neighbor'', ''generic nearest neighbor'', 
      ''speculative decoding'', ''kv cache'', ''pagedattention'', 
      ''token-level constrained decoding'', ''tree index'', ''tree-index'', 
      ''geometric helix'', ''fixed phase'', 
      bytes [230, 168, 161, 229, 158, 139, 230, 138, 149, 231, 165, 168],
      bytes [230, 168, 161, 229, 158, 139, 229, 185, 179, 229, 157, 135]]"

record decision =
  d_state :: string
  d_reason :: string

abbreviation decide :: "string \<Rightarrow> string \<Rightarrow> decision" where
  "decide s r \<equiv> \<lparr>d_state = s, d_reason = r\<rparr>"

definition root_material :: "state_packet \<Rightarrow> json dict" where
  "root_material p =
     [(''dimensions'', JArr (dimensions p)), (''event_time'', event_time p),
      (''namespace'', JStr (namespace p)), (''state_profile'', JStr (state_profile p)),
      (''native_state_ref'', JStr (native_state_ref p)), (''parent_state_root'', JStr (parent_state_root p)),
      (''evidence_root'', JStr (evidence_root p)), (''snapshot_id'', JStr (snapshot_id p)),
      (''canonical_version'', JStr (canonical_version p)), (''rule_version'', JStr (rule_version p)),
      (''logical_time'', JInt (logical_time p)),
      (''topology_coordinate_ref'', JStr (topology_coordinate_ref p)),
      (''event_hash_ref'', JStr (event_hash_ref p))]
     @ (case breakpoint_segment_ref p of None \<Rightarrow> [] | Some s \<Rightarrow> [(''breakpoint_segment_ref'', JStr s)])"

definition candidate_state_root_f :: "(string \<Rightarrow> string) \<Rightarrow> state_packet \<Rightarrow> string" where
  "candidate_state_root_f sha p = sha (dumps_canonical (JObj (root_material p)))"

definition validate_8d :: "state_packet \<Rightarrow> decision" where
  "validate_8d p =
     (case project_8d_state p of
        Inl (ValueError m) \<Rightarrow> decide ''BLOCK'' m
      | _ \<Rightarrow>
        if logical_time p < 0 then decide ''BLOCK'' ''BLOCK_INVALID_LOGICAL_TIME''
        else if [] \<in> set [namespace p, state_profile p, native_state_ref p, parent_state_root p,
             evidence_root p, snapshot_id p, canonical_version p, rule_version p,
             topology_coordinate_ref p, event_hash_ref p]
        then decide ''BLOCK'' ''BLOCK_INVALID_8D_BINDING''
        else if \<exists>f \<in> set (boundary_facts_of p). life_harm f \<or> other_rights_harm f
        then decide ''BLOCK'' ''BLOCK_ABSOLUTE_REDLINE''
        else decide ''PASS'' ''VALID_8D_CANDIDATE_STRUCTURE'')"

definition validate_native_adi :: "string \<Rightarrow> string dict \<Rightarrow> decision" where
  "validate_native_adi profile_definition evidence_status =
     (let lowered = lower profile_definition;
          unresolved = sort (map fst (filter (\<lambda>(_, status).
            status \<notin> {''CONFIRMED'', ''CURRENT_FOUNDER_CANONICAL'', ''DERIVED_DETERMINISTICALLY''})
            evidence_status))
      in if \<exists>token \<in> set FORBIDDEN_NATIVE_PROXIES. contains lowered token
         then decide ''BLOCK'' ''BLOCK_NATIVE_ADI_DEFINITION_DRIFT''
         else if unresolved \<noteq> []
         then decide ''HOLD'' (''HOLD_NATIVE_RULE_EVIDENCE_MISSING:'' @ join '','' unresolved)
         else decide ''PASS'' ''NATIVE_RULE_EVIDENCE_CONFIRMED'')"

definition validate_ethics :: "int list \<Rightarrow> bool \<Rightarrow> bool \<Rightarrow> decision" where
  "validate_ethics ethics_vector harms_life harms_others_rights =
     (if harms_life \<or> harms_others_rights then decide ''BLOCK'' ''BLOCK_ABSOLUTE_REDLINE''
      else if ethics_vector = [] \<or> (\<exists>v \<in> set ethics_vector. v < 2)
      then decide ''BLOCK'' ''BLOCK_ETHICS_VECTOR_BELOW_2''
      else decide ''PASS'' ''ETHICS_GATE_PASS'')"

definition evidence_closed_f ::
  "(string \<Rightarrow> string) \<Rightarrow> state_packet \<Rightarrow> state_packet \<Rightarrow> transition_rule list \<Rightarrow> string \<Rightarrow> py_error + decision" where
  "evidence_closed_f sha origin p rules authoritative_parent =
     (let structural = validate_8d p in
      if d_state structural \<noteq> ''PASS'' then Inr structural
      else e_bind (positive_negative_boundaries p) (\<lambda>boundaries.
        if \<exists>v \<in> set boundaries. v < 0 then Inr (decide ''HOLD'' ''HOLD_NEGATIVE_BOUNDARY'')
        else if \<exists>v \<in> set boundaries. v \<noteq> 1 then Inr (decide ''HOLD'' ''HOLD_POSITIVE_BOUNDARY_UNRESOLVED'')
        else if parent_state_root p \<noteq> authoritative_parent
        then Inr (decide ''HOLD'' ''HOLD_PARENT_STATE_ROOT_MISMATCH'')
        else if state_root p \<noteq> candidate_state_root_f sha p
        then Inr (decide ''HOLD'' ''HOLD_CANDIDATE_STATE_ROOT_NOT_REPRODUCIBLE'')
        else if case previous_logical_time p of None \<Rightarrow> False | Some t \<Rightarrow> logical_time p \<le> t
        then Inr (decide ''HOLD'' ''HOLD_CAUSAL_TIME_TOPOLOGY_DIVERGENCE'')
        else if case claimed_metric_signature p of None \<Rightarrow> False
             | Some m \<Rightarrow> \<not> pyeq (JArr m) (JArr (metric_as_tuple (metric_signature_f p)))
        then Inr (decide ''HOLD'' ''HOLD_METRIC_SIGNATURE_DIVERGENCE'')
        else if \<not> set (dkeys (expected_evidence_digests p)) \<subseteq> set (dkeys (evidence_digests p))
        then Inr (decide ''HOLD'' ''HOLD_REQUIRED_EVIDENCE_MISSING'')
        else if \<exists>(ref, dig) \<in> set (expected_evidence_digests p). dget (evidence_digests p) ref \<noteq> Some dig
        then Inr (decide ''HOLD'' ''HOLD_EVIDENCE_DIGEST_MISMATCH'')
        else case resolve_canonical_path origin p rules of
            Inl (BreakpointReachabilityDenied c) \<Rightarrow> Inr (decide ''DENY'' c)
          | Inl (TransitionRuleHold c) \<Rightarrow> Inr (decide ''HOLD'' c)
          | Inl (PyError e) \<Rightarrow> Inl e
          | Inr path \<Rightarrow>
              if \<not> (\<forall>r \<in> set path. set (required_evidence_refs r) \<subseteq> set (dkeys (evidence_digests p)))
              then Inr (decide ''HOLD'' ''HOLD_REQUIRED_EVIDENCE_MISSING'')
              else Inr (decide ''PASS'' ''EVIDENCE_CLOSED'')))"

text \<open>The part of \<open>total_field_candidate_decision\<close> after the budget check.\<close>

definition decision_within :: "int \<Rightarrow> string \<Rightarrow> string \<Rightarrow> lookup_receipt" where
  "decision_within shell candidate_root total_root =
     (let receipt = (\<lambda>state sh ev. \<lparr>lr_state = state, lr_shell = Some sh,
            candidate_state_root = Some candidate_root, total_field_state_root = total_root, lr_evidence = ev\<rparr>)
      in if candidate_root \<noteq> total_root then receipt ''HOLD_LOCAL_CANDIDATE_ROOT_MISMATCH'' shell []
         else if shell \<noteq> 0
         then receipt ''RECONSTRUCTION_CANDIDATE_ONLY'' shell [(''authoritative'', JBool False)]
         else receipt ''AUTHORITATIVE_EXACT_STATE'' 0 [(''authoritative'', JBool True)])"

definition total_field_candidate_decision ::
  "int \<Rightarrow> string \<Rightarrow> string \<Rightarrow> int \<Rightarrow> int option \<Rightarrow> lookup_receipt" where
  "total_field_candidate_decision shell candidate_root total_root examined query_budget =
     (case query_budget of
        Some budget \<Rightarrow>
          if examined > budget then
            \<lparr>lr_state = ''HOLD_QUERY_BUDGET_EXCEEDED'', lr_shell = None, candidate_state_root = None,
             total_field_state_root = total_root,
             lr_evidence = [(''partial_pass'', JBool False), (''examined'', JInt examined), (''budget'', JInt budget)]\<rparr>
          else decision_within shell candidate_root total_root
      | None \<Rightarrow> decision_within shell candidate_root total_root)"

section \<open>Shells\<close>

text \<open>\<open>bytes.fromhex\<close>: pairs of hexadecimal digits, ASCII blanks allowed between them.\<close>

definition hex_blank :: "char \<Rightarrow> bool" where
  "hex_blank c \<longleftrightarrow> c \<in> {CHR 9, CHR 10, CHR 11, CHR 12, CHR 13, CHR 32}"

fun from_hex :: "string \<Rightarrow> string option" where
  "from_hex [] = Some []"
| "from_hex [c] = (if hex_blank c then Some [] else None)"
| "from_hex (c # d # s) =
     (if hex_blank c then from_hex (d # s)
      else case (hex_val c, hex_val d) of
        (Some a, Some b) \<Rightarrow> map_option ((#) (char_of (16 * a + b))) (from_hex s)
      | _ \<Rightarrow> None)"

definition hex_bytes :: "string \<Rightarrow> py_error + string" where
  "hex_bytes v =
     (if lower v \<noteq> v \<or> length (py_chars v) mod 2 \<noteq> 0
      then Inl (ValueError ''STATE_ROOT_MUST_BE_LOWERCASE_EVEN_HEX'')
      else case from_hex v of None \<Rightarrow> Inl (ValueError ''STATE_ROOT_MUST_BE_LOWERCASE_HEX'')
           | Some bs \<Rightarrow> Inr bs)"

type_synonym order_key = "string list \<times> string list \<times> int \<times> string"

definition order_key_f ::
  "state_packet \<Rightarrow> transition_rule list \<Rightarrow> state_packet \<Rightarrow> adi_error + order_key" where
  "order_key_f origin rules candidate =
     a_bind (resolve_canonical_path origin candidate rules) (\<lambda>path.
     a_bind (py (hex_bytes (state_root candidate))) (\<lambda>root.
     Inr (transition_rule_ids path, direction_codes path, logical_time candidate, root)))"

definition key_of :: "state_packet \<Rightarrow> transition_rule list \<Rightarrow> state_packet \<Rightarrow> order_key" where
  "key_of origin rules candidate =
     (case order_key_f origin rules candidate of Inr k \<Rightarrow> k | Inl _ \<Rightarrow> ([], [], 0, []))"

definition omega_f ::
  "state_packet \<Rightarrow> transition_rule list \<Rightarrow> state_packet list \<Rightarrow> adi_error + state_packet list" where
  "omega_f origin rules shell =
     a_bind (map_err (order_key_f origin rules) shell) (\<lambda>_. Inr (sort_key (key_of origin rules) shell))"

text \<open>The reachable candidates with their distances, and how many were denied.\<close>

fun reachable_candidates ::
  "state_packet \<Rightarrow> transition_rule list \<Rightarrow> state_packet list \<Rightarrow> adi_error + ((int \<times> state_packet) list \<times> nat)" where
  "reachable_candidates origin rules [] = Inr ([], 0)"
| "reachable_candidates origin rules (c # cs) =
     (case delta_f origin c rules of
        Inl (BreakpointReachabilityDenied _) \<Rightarrow>
          a_bind (reachable_candidates origin rules cs) (\<lambda>(ps, denied). Inr (ps, Suc denied))
      | Inl e \<Rightarrow> Inl e
      | Inr distance \<Rightarrow>
          a_bind (reachable_candidates origin rules cs) (\<lambda>(ps, denied). Inr ((distance, c) # ps, denied)))"

definition shell_at ::
  "state_packet \<Rightarrow> transition_rule list \<Rightarrow> (int \<times> state_packet) list \<Rightarrow> int \<Rightarrow> adi_error + spiral_shell" where
  "shell_at origin rules ps r =
     a_bind (omega_f origin rules (map snd (filter (\<lambda>(d, _). d = r) ps))) (\<lambda>cs.
     Inr \<lparr>radius = r, candidates = cs,
          shell_status = (if r = 0 then ''AUTHORITATIVE_EXACT_SHELL'' else ''RECONSTRUCTION_CANDIDATE_ONLY'')\<rparr>)"

definition enumerate_shells ::
  "state_packet \<Rightarrow> state_packet list \<Rightarrow> transition_rule list \<Rightarrow> adi_error + spiral_shell list" where
  "enumerate_shells origin cs rules =
     a_bind (reachable_candidates origin rules cs) (\<lambda>(ps, denied).
     if ps = [] \<and> denied \<noteq> 0 then Inl (BreakpointReachabilityDenied DENY_BREAKPOINT_CROSSED)
     else map_err (shell_at origin rules ps) (sort (remdups (map fst ps))))"

section \<open>The search\<close>

definition plain_receipt :: "string \<Rightarrow> string \<Rightarrow> json dict \<Rightarrow> lookup_receipt" where
  "plain_receipt state root ev =
     \<lparr>lr_state = state, lr_shell = None, candidate_state_root = None, total_field_state_root = root,
      lr_evidence = ev\<rparr>"

text \<open>What \<open>total_field_validate\<close> returns: a packet, or a root.\<close>

definition validated_root :: "(state_packet \<Rightarrow> state_packet + string) \<Rightarrow> state_packet \<Rightarrow> string" where
  "validated_root validate c = (case validate c of Inl p \<Rightarrow> state_root p | Inr r \<Rightarrow> r)"

text \<open>
  One shell: the number examined so far and the fixed points found, or the receipt of an
  exceeded budget.
\<close>

fun scan_shell ::
  "(state_packet \<Rightarrow> py_error + decision) \<Rightarrow> (state_packet \<Rightarrow> state_packet + string) \<Rightarrow> string \<Rightarrow> int \<Rightarrow>
     int \<Rightarrow> state_packet list \<Rightarrow> state_packet list \<Rightarrow> py_error + (lookup_receipt + int \<times> state_packet list)" where
  "scan_shell closed_f validate root budget examined fixed [] = Inr (Inr (examined, fixed))"
| "scan_shell closed_f validate root budget examined fixed (c # cs) =
     (if examined + 1 > budget
      then Inr (Inl (plain_receipt ''HOLD_QUERY_BUDGET_EXCEEDED'' root
             [(''partial_pass'', JBool False), (''examined'', JInt (examined + 1)), (''budget'', JInt budget)]))
      else e_bind (closed_f c) (\<lambda>closure.
        if d_state closure = ''PASS'' \<and> validated_root validate c = state_root c
        then scan_shell closed_f validate root budget (examined + 1) (fixed @ [c]) cs
        else scan_shell closed_f validate root budget (examined + 1) fixed cs))"

fun scan_shells ::
  "(state_packet \<Rightarrow> py_error + decision) \<Rightarrow> (state_packet \<Rightarrow> state_packet + string) \<Rightarrow> string \<Rightarrow> int \<Rightarrow>
     int \<Rightarrow> spiral_shell list \<Rightarrow> py_error + lookup_receipt" where
  "scan_shells closed_f validate root budget examined [] =
     Inr (plain_receipt ''HOLD_TRANSITION_RULE_MISSING'' root
       [(''reason'', JStr ''NO_EVIDENCE_CLOSED_FIXED_POINT'')])"
| "scan_shells closed_f validate root budget examined (s # ss) =
     e_bind (scan_shell closed_f validate root budget examined [] (candidates s)) (\<lambda>res.
     case res of
       Inl receipt \<Rightarrow> Inr receipt
     | Inr (examined', fixed) \<Rightarrow>
         if length fixed > 1 then
           Inr \<lparr>lr_state = ''HOLD_CONSENSUS_DIVERGENCE'', lr_shell = Some (radius s),
                candidate_state_root = None, total_field_state_root = root,
                lr_evidence = [(''fixed_point_count'', JInt (int (length fixed)))]\<rparr>
         else if length fixed = 1 then
           Inr \<lparr>lr_state = ''UNIQUE_EVIDENCE_CLOSED_FIXED_POINT'', lr_shell = Some (radius s),
                candidate_state_root = Some (state_root (hd fixed)), total_field_state_root = root,
                lr_evidence = [(''examined'', JInt examined'), (''stop_immediately'', JBool True)]\<rparr>
         else scan_shells closed_f validate root budget examined' ss)"

definition evidence_closure_stop ::
  "(string \<Rightarrow> string) \<Rightarrow> state_packet \<Rightarrow> state_packet list \<Rightarrow> transition_rule list \<Rightarrow> string \<Rightarrow>
     (state_packet \<Rightarrow> state_packet + string) \<Rightarrow> int \<Rightarrow> py_error + lookup_receipt" where
  "evidence_closure_stop sha origin cs rules authoritative_parent validate query_budget =
     (case enumerate_shells origin cs rules of
        Inl (PyError e) \<Rightarrow> Inl e
      | Inl e \<Rightarrow> Inr (plain_receipt (hold_code e) (state_root origin) [])
      | Inr shells \<Rightarrow>
          scan_shells (\<lambda>c. evidence_closed_f sha origin c rules authoritative_parent) validate
            (state_root origin) query_budget 0 shells)"

end
