(* ===== verification/AdiClosure.thy ===== *)
theory AdiClosure
  imports AdiSpiral EvidenceProps
begin

text \<open>
  What the native search promises: the evidence check passes exactly on sound candidates, a
  candidate's root binds its fields, the shells partition the reachable candidates by distance,
  and a reported fixed point is the only one in the first shell that has any.
\<close>

section \<open>Evidence closure\<close>

definition all_positive :: "state_packet \<Rightarrow> bool" where
  "all_positive p \<longleftrightarrow> length (boundary_facts_of p) = 8 \<and>
     (\<forall>f \<in> set (boundary_facts_of p).
        intent_satisfied f \<and> evidence_valid f \<and> life_safe f \<and> other_rights_safe f \<and>
        \<not> intent_violated f \<and> \<not> causal_order_violated f \<and> \<not> life_harm f \<and>
        \<not> other_rights_harm f \<and> \<not> hard_risk f)"

definition well_bound :: "state_packet \<Rightarrow> bool" where
  "well_bound p \<longleftrightarrow> length (dimensions p) = 8 \<and> (\<forall>v \<in> set (dimensions p). is_plain_int v) \<and>
     0 \<le> logical_time p \<and>
     [] \<notin> set [namespace p, state_profile p, native_state_ref p, parent_state_root p,
             evidence_root p, snapshot_id p, canonical_version p, rule_version p,
             topology_coordinate_ref p, event_hash_ref p]"

lemma boundary_value_one:
  "boundary_value f = 1 \<longleftrightarrow>
     intent_satisfied f \<and> evidence_valid f \<and> life_safe f \<and> other_rights_safe f \<and>
     \<not> intent_violated f \<and> \<not> causal_order_violated f \<and> \<not> life_harm f \<and>
     \<not> other_rights_harm f \<and> \<not> hard_risk f"
  by (auto simp: boundary_value_def)

lemma validate_8d_pass:
  "d_state (validate_8d p) = ''PASS'' \<longleftrightarrow> well_bound p \<and>
     (\<forall>f \<in> set (boundary_facts_of p). \<not> life_harm f \<and> \<not> other_rights_harm f)"
  by (auto simp: validate_8d_def well_bound_def project_8d_state_def check_def not_less)

definition evidence_matches :: "state_packet \<Rightarrow> bool" where
  "evidence_matches p \<longleftrightarrow>
     (\<forall>(ref, dig) \<in> set (expected_evidence_digests p). dget (evidence_digests p) ref = Some dig)"

lemma boundaries_pass:
  "positive_negative_boundaries p = Inr bs \<Longrightarrow>
   (\<not> (\<exists>v \<in> set bs. v < 0) \<and> \<not> (\<exists>v \<in> set bs. v \<noteq> 1)) \<longleftrightarrow> all_positive p"
proof -
  assume bs: "positive_negative_boundaries p = Inr bs"
  have "(\<not> (\<exists>v \<in> set bs. v < 0) \<and> \<not> (\<exists>v \<in> set bs. v \<noteq> 1)) \<longleftrightarrow> (\<forall>v \<in> set bs. v = 1)" by auto
  then show ?thesis
    using bs by (auto simp: positive_negative_boundaries_def e_bind_InrD all_positive_def boundary_value_one)
qed

lemma evidence_matches_keys:
  "evidence_matches p \<Longrightarrow> set (dkeys (expected_evidence_digests p)) \<subseteq> set (dkeys (evidence_digests p))"
  by (force simp: evidence_matches_def dest: dget_Some_set)

definition causal_time_ok :: "state_packet \<Rightarrow> bool" where
  "causal_time_ok p \<longleftrightarrow> (case previous_logical_time p of None \<Rightarrow> True | Some t \<Rightarrow> t < logical_time p)"

definition metric_ok :: "state_packet \<Rightarrow> bool" where
  "metric_ok p \<longleftrightarrow> (case claimed_metric_signature p of None \<Rightarrow> True
     | Some m \<Rightarrow> pyeq (JArr m) (JArr (metric_as_tuple (metric_signature_f p))))"

lemma closed_iff:
  "(\<exists>d. evidence_closed_f sha origin p rules parent = Inr d \<and> d_state d = ''PASS'') \<longleftrightarrow>
     well_bound p \<and> all_positive p \<and> parent_state_root p = parent \<and>
     state_root p = candidate_state_root_f sha p \<and> causal_time_ok p \<and> metric_ok p \<and>
     evidence_matches p \<and>
     (\<exists>path. resolve_canonical_path origin p rules = Inr path \<and>
        (\<forall>r \<in> set path. set (required_evidence_refs r) \<subseteq> set (dkeys (evidence_digests p))))"
    (is "?closed \<longleftrightarrow> ?sound")
proof (cases "d_state (validate_8d p) = ''PASS'' \<and> length (boundary_facts_of p) = 8")
  case False
  then have "\<not> ?closed"
    by (cases "d_state (validate_8d p) = ''PASS''")
      (simp_all add: evidence_closed_f_def Let_def positive_negative_boundaries_def check_def)
  moreover have "\<not> (well_bound p \<and> all_positive p)"
    using False by (auto simp: validate_8d_pass all_positive_def)
  ultimately show ?thesis by blast
next
  case True
  then have s: "d_state (validate_8d p) = ''PASS''" and w: "well_bound p" by (auto simp: validate_8d_pass)
  obtain bs where bs: "positive_negative_boundaries p = Inr bs"
    using True by (simp add: positive_negative_boundaries_def check_def)
  have m: "(\<exists>(ref, dig) \<in> set (expected_evidence_digests p). dget (evidence_digests p) ref \<noteq> Some dig)
      \<longleftrightarrow> \<not> evidence_matches p"
    by (auto simp: evidence_matches_def)
  have t: "(case previous_logical_time p of None \<Rightarrow> False | Some t \<Rightarrow> logical_time p \<le> t) \<longleftrightarrow> \<not> causal_time_ok p"
    by (auto simp: causal_time_ok_def split: option.split)
  have q: "(case claimed_metric_signature p of None \<Rightarrow> False
             | Some m \<Rightarrow> \<not> pyeq (JArr m) (JArr (metric_as_tuple (metric_signature_f p)))) \<longleftrightarrow> \<not> metric_ok p"
    by (auto simp: metric_ok_def split: option.split)
  show ?thesis
  proof (cases "all_positive p \<and> parent_state_root p = parent \<and> state_root p = candidate_state_root_f sha p
      \<and> causal_time_ok p \<and> metric_ok p \<and> evidence_matches p")
    case False
    have "\<not> ?closed"
      unfolding evidence_closed_f_def Let_def s bs e_bind_simps m t q
      using False boundaries_pass [OF bs] by auto
    with False show ?thesis by blast
  next
    case ok: True
    from boundaries_pass [OF bs] ok have b: "\<not> (\<exists>v \<in> set bs. v < 0)" "\<not> (\<exists>v \<in> set bs. v \<noteq> 1)" by blast+
    have "evidence_closed_f sha origin p rules parent =
        (case resolve_canonical_path origin p rules of
            Inl (BreakpointReachabilityDenied c) \<Rightarrow> Inr (decide ''DENY'' c)
          | Inl (TransitionRuleHold c) \<Rightarrow> Inr (decide ''HOLD'' c)
          | Inl (PyError e) \<Rightarrow> Inl e
          | Inr path \<Rightarrow>
              if \<not> (\<forall>r \<in> set path. set (required_evidence_refs r) \<subseteq> set (dkeys (evidence_digests p)))
              then Inr (decide ''HOLD'' ''HOLD_REQUIRED_EVIDENCE_MISSING'')
              else Inr (decide ''PASS'' ''EVIDENCE_CLOSED''))"
      unfolding evidence_closed_f_def Let_def s bs e_bind_simps m t q
      using ok b evidence_matches_keys by simp
    with ok w show ?thesis
      by (auto split: sum.splits adi_error.splits if_splits)
  qed
qed

text \<open>
  C15: The evidence check passes a candidate exactly when it is structurally bound, every one of its
  eight boundaries is positive, its parent is the authoritative root, its root is the
  digest of its own fields, its time and metric agree with what it claims, every expected
  digest is present and equal, and the only causal path to it needs no evidence it lacks.
\<close>

theorem evidence_closed_iff:
  "(\<exists>d. evidence_closed_f sha origin p rules parent = Inr d \<and> d_state d = ''PASS'') \<longleftrightarrow>
     well_bound p \<and> all_positive p \<and> parent_state_root p = parent \<and>
     state_root p = candidate_state_root_f sha p \<and> causal_time_ok p \<and> metric_ok p \<and>
     evidence_matches p \<and>
     (\<exists>path. resolve_canonical_path origin p rules = Inr path \<and>
        (\<forall>r \<in> set path. set (required_evidence_refs r) \<subseteq> set (dkeys (evidence_digests p))))"
  by (rule closed_iff)

lemma demo_closed_facts:
  "well_bound (demo_packet ''C'' ''01'')" "all_positive (demo_packet ''C'' ''01'')"
  "causal_time_ok (demo_packet ''C'' ''01'')" "metric_ok (demo_packet ''C'' ''01'')"
  "evidence_matches (demo_packet ''C'' ''01'')" "parent_state_root (demo_packet ''C'' ''01'') = ''pr''"
  "state_root (demo_packet ''C'' ''01'') = candidate_state_root_f (\<lambda>_. ''01'') (demo_packet ''C'' ''01'')"
  by (simp_all add: well_bound_def all_positive_def causal_time_ok_def metric_ok_def
      evidence_matches_def candidate_state_root_f_def demo_packet_def demo_facts_def is_plain_int_def)

theorem evidence_closed_iff_witness:
  "\<exists>d. evidence_closed_f (\<lambda>_. ''01'') (demo_packet ''A'' ''00'') (demo_packet ''C'' ''01'') demo_rules ''pr'' = Inr d \<and>
     d_state d = ''PASS''"
  unfolding evidence_closed_iff demo_resolve by (simp add: demo_rule_def demo_closed_facts)

lemma demo_closed:
  "\<exists>d. evidence_closed_f (\<lambda>_. ''01'') (demo_packet ''A'' ''00'') (demo_packet ''C'' ''01'') demo_rules ''pr'' = Inr d \<and>
     d_state d = ''PASS''"
  unfolding closed_iff demo_resolve by (simp add: demo_rule_def demo_closed_facts)

section \<open>The root binds the candidate\<close>

lemma jwf_material: "\<forall>v \<in> set (dimensions p). jwf v \<Longrightarrow> jwf (event_time p) \<Longrightarrow> dict_wf (root_material p)"
  by (auto simp: root_material_def split: option.split)

text \<open>
  C25: Two candidates with the same computed root agree in every field that the root covers (up to
  the order of keys inside values), or their hashed texts are different and collide.
\<close>

theorem state_root_binds_candidate:
  assumes "candidate_state_root_f sha p = candidate_state_root_f sha q"
    and "\<forall>v \<in> set (dimensions p) \<union> set (dimensions q). is_plain_int v"
    and "is_plain_int (event_time p)" and "is_plain_int (event_time q)"
  shows "(let x = dumps_canonical (JObj (root_material p)); y = dumps_canonical (JObj (root_material q))
      in x \<noteq> y \<and> sha x = sha y) \<or>
    dimensions p = dimensions q \<and> event_time p = event_time q \<and> namespace p = namespace q \<and>
    state_profile p = state_profile q \<and> native_state_ref p = native_state_ref q \<and>
    parent_state_root p = parent_state_root q \<and> evidence_root p = evidence_root q \<and>
    snapshot_id p = snapshot_id q \<and> canonical_version p = canonical_version q \<and>
    rule_version p = rule_version q \<and> logical_time p = logical_time q \<and>
    topology_coordinate_ref p = topology_coordinate_ref q \<and> event_hash_ref p = event_hash_ref q \<and>
    breakpoint_segment_ref p = breakpoint_segment_ref q"
proof (cases "dumps_canonical (JObj (root_material p)) = dumps_canonical (JObj (root_material q))")
  case False
  with assms(1) show ?thesis by (simp add: candidate_state_root_f_def)
next
  case True
  have plain: "jwf v \<and> sort_keys v = v" if "is_plain_int v" for v
    using that by (cases v) (simp_all add: is_plain_int_def)
  have wf: "dict_wf (root_material p)" "dict_wf (root_material q)"
    using assms(2-4) plain by (auto intro!: jwf_material simp del: jwf.simps)
  have eq: "sort_keys (JObj (root_material p)) = sort_keys (JObj (root_material q))"
    using canonical.emit_inj [OF wf True] .
  then have f: "sort_keys (fld (root_material p) k) = sort_keys (fld (root_material q) k)" for k
    using fld_sort_keys [OF wf(1)] fld_sort_keys [OF wf(2)] by metis
  have dims: "sort_keys (JArr (dimensions r)) = JArr (dimensions r)"
    if "\<forall>v \<in> set (dimensions r). is_plain_int v" for r
    using that plain by (simp add: map_idI)
  have seg: "fld (root_material r) ''breakpoint_segment_ref'' =
      (case breakpoint_segment_ref r of None \<Rightarrow> JNull | Some s \<Rightarrow> JStr s)" for r
    by (simp add: root_material_def split: option.split)
  have "breakpoint_segment_ref p = breakpoint_segment_ref q"
    using f [of "''breakpoint_segment_ref''"] by (simp add: seg split: option.splits)
  moreover have "dimensions p = dimensions q"
    using f [of "''dimensions''"] dims [of p] dims [of q] assms(2)
    by (simp add: root_material_def del: sort_keys.simps)
  moreover have "event_time p = event_time q"
    using f [of "''event_time''"] assms(3,4) plain by (simp add: root_material_def)
  moreover have "namespace p = namespace q" "state_profile p = state_profile q"
    "native_state_ref p = native_state_ref q" "parent_state_root p = parent_state_root q"
    "evidence_root p = evidence_root q" "snapshot_id p = snapshot_id q"
    "canonical_version p = canonical_version q" "rule_version p = rule_version q"
    "logical_time p = logical_time q" "topology_coordinate_ref p = topology_coordinate_ref q"
    "event_hash_ref p = event_hash_ref q"
    using f [of "''namespace''"] f [of "''state_profile''"] f [of "''native_state_ref''"]
      f [of "''parent_state_root''"] f [of "''evidence_root''"] f [of "''snapshot_id''"]
      f [of "''canonical_version''"] f [of "''rule_version''"] f [of "''logical_time''"]
      f [of "''topology_coordinate_ref''"] f [of "''event_hash_ref''"]
    by (simp_all add: root_material_def)
  ultimately show ?thesis by blast
qed

theorem state_root_binds_candidate_witness:
  "candidate_state_root_f (\<lambda>t. t) (demo_packet ''A'' ''00'') = candidate_state_root_f (\<lambda>t. t) (demo_packet ''A'' ''01'') \<and>
   namespace (demo_packet ''A'' ''00'') = namespace (demo_packet ''A'' ''01'')"
proof -
  let ?p = "demo_packet ''A'' ''00''" and ?q = "demo_packet ''A'' ''01''"
  have e: "candidate_state_root_f (\<lambda>t. t) ?p = candidate_state_root_f (\<lambda>t. t) ?q"
    by (simp add: candidate_state_root_f_def root_material_def demo_packet_def)
  have d: "\<forall>v \<in> set (dimensions ?p) \<union> set (dimensions ?q). is_plain_int v"
    "is_plain_int (event_time ?p)" "is_plain_int (event_time ?q)"
    by (simp_all add: demo_packet_def is_plain_int_def)
  from state_root_binds_candidate [OF e d] e show ?thesis by auto
qed

section \<open>Shells\<close>

lemma reachable_candidates_Inr:
  "reachable_candidates origin rules cs = Inr (ps, n) \<Longrightarrow>
     (\<forall>(d, c) \<in> set ps. delta_f origin c rules = Inr d) \<and>
     map snd ps = filter (\<lambda>c. \<exists>d. delta_f origin c rules = Inr d) cs"
proof (induction cs arbitrary: ps n)
  case (Cons c cs)
  show ?case
  proof (cases "delta_f origin c rules")
    case (Inl e)
    with Cons show ?thesis by (cases e) (auto simp: a_bind_Inr)
  next
    case (Inr d)
    with Cons show ?thesis by (auto simp: a_bind_Inr)
  qed
qed auto

lemma map_err_list_all2: "map_err f xs = Inr ys \<Longrightarrow> length ys = length xs \<and> (\<forall>i < length xs. f (xs ! i) = Inr (ys ! i))"
  unfolding map_err_Inr by (simp add: list_all2_conv_all_nth)

lemma shell_at_Inr:
  "shell_at origin rules ps r = Inr s \<Longrightarrow>
     radius s = r \<and> candidates s = sort_key (key_of origin rules) (map snd (filter (\<lambda>(d, _). d = r) ps))"
  by (auto simp: shell_at_def omega_f_def a_bind_Inr)

lemma sum_count_partition:
  "set (map fst ps) \<subseteq> set rs \<Longrightarrow> distinct rs \<Longrightarrow>
   mset (concat (map (\<lambda>r. map snd (filter (\<lambda>(d, _). d = r) ps)) rs)) = mset (map snd ps)"
proof (induction ps)
  case (Cons p ps)
  obtain d c where p: "p = (d, c)" by (cases p)
  have one: "mset (concat (map (\<lambda>r. map snd (filter (\<lambda>(d', _). d' = r) (p # ps))) qs)) =
      mset (concat (map (\<lambda>r. map snd (filter (\<lambda>(d', _). d' = r) ps)) qs)) +
      (if d \<in> set qs then {#c#} else {#})" if "distinct qs" for qs
    using that by (induction qs) (auto simp: p)
  from Cons one [of rs] show ?case by (simp add: p)
qed (induction rs, auto)

text \<open>
  When the candidates can be arranged, the shells have strictly growing radii, each is
  nonempty and holds exactly reachable candidates at its distance in canonical order, and together
  they hold every reachable candidate as often as it was given, and nothing else.
\<close>

theorem shells_partition_candidates:
  assumes "enumerate_shells origin cs rules = Inr shells"
  shows "sorted_wrt (<) (map radius shells) \<and>
    (\<forall>s \<in> set shells. candidates s \<noteq> [] \<and> sorted (map (key_of origin rules) (candidates s)) \<and>
       (\<forall>c \<in> set (candidates s). delta_f origin c rules = Inr (radius s))) \<and>
    mset (concat (map candidates shells)) = mset (filter (\<lambda>c. \<exists>d. delta_f origin c rules = Inr d) cs)"
proof -
  obtain ps n where ps: "reachable_candidates origin rules cs = Inr (ps, n)"
    and sh: "map_err (shell_at origin rules ps) (sort (remdups (map fst ps))) = Inr shells"
    using assms by (auto simp: enumerate_shells_def a_bind_Inr split: if_splits)
  let ?rs = "sort (remdups (map fst ps))"
  have at: "length shells = length ?rs"
    "\<And>i. i < length ?rs \<Longrightarrow> radius (shells ! i) = ?rs ! i \<and> candidates (shells ! i) =
       sort_key (key_of origin rules) (map snd (filter (\<lambda>(d, _). d = ?rs ! i) ps))"
    using map_err_list_all2 [OF sh] shell_at_Inr by fastforce+
  have rad: "map radius shells = ?rs"
    using at by (intro nth_equalityI) simp_all
  have strict: "sorted_wrt (<) ?rs" by (simp add: strict_sorted_iff)
  have cand: "candidates s \<noteq> [] \<and> sorted (map (key_of origin rules) (candidates s)) \<and>
      (\<forall>c \<in> set (candidates s). delta_f origin c rules = Inr (radius s))" if "s \<in> set shells" for s
  proof -
    obtain i where i: "i < length shells" "s = shells ! i" using \<open>s \<in> set shells\<close> by (metis in_set_conv_nth)
    have c: "candidates s = sort_key (key_of origin rules) (map snd (filter (\<lambda>(d, _). d = radius s) ps))"
      using at i by simp
    have "radius s \<in> set ?rs" using rad \<open>s \<in> set shells\<close> by (metis image_eqI list.set_map)
    then obtain c0 where "(radius s, c0) \<in> set ps" by auto
    then have "filter (\<lambda>(d, _). d = radius s) ps \<noteq> []" by (auto simp: filter_empty_conv)
    then have "map snd (filter (\<lambda>(d, _). d = radius s) ps) \<noteq> []" by simp
    then have "candidates s \<noteq> []" unfolding c by (metis length_0_conv length_sort)
    moreover have "\<forall>c \<in> set (candidates s). delta_f origin c rules = Inr (radius s)"
      using reachable_candidates_Inr [OF ps] by (auto simp: c)
    ultimately show ?thesis by (simp add: c)
  qed
  have "map candidates shells =
      map (\<lambda>r. sort_key (key_of origin rules) (map snd (filter (\<lambda>(d, _). d = r) ps))) ?rs"
    using at by (intro nth_equalityI) simp_all
  then have "mset (concat (map candidates shells)) =
      mset (concat (map (\<lambda>r. map snd (filter (\<lambda>(d, _). d = r) ps)) ?rs))"
    by (simp add: mset_concat o_def)
  also have "\<dots> = mset (map snd ps)" by (rule sum_count_partition) auto
  finally show ?thesis
    using strict rad cand reachable_candidates_Inr [OF ps] by simp
qed

lemma demo_delta: "delta_f (demo_packet ''A'' u) (demo_packet ''C'' v) demo_rules = Inr 4"
  by (simp add: delta_f_def demo_resolve total_cost_def demo_rule_def)

lemma demo_shells:
  "enumerate_shells (demo_packet ''A'' u) [demo_packet ''C'' ''01''] demo_rules =
     Inr [\<lparr>radius = 4, candidates = [demo_packet ''C'' ''01''], shell_status = ''RECONSTRUCTION_CANDIDATE_ONLY''\<rparr>]"
proof -
  have r: "state_root (demo_packet ''C'' ''01'') = ''01''" by (simp add: demo_packet_def)
  have h: "\<exists>b. hex_bytes ''01'' = Inr b"
    by (simp add: hex_bytes_def lower_def lower_char_def hex_blank_def hex_val_def is_cont_def)
  have "\<exists>k. order_key_f (demo_packet ''A'' u) demo_rules (demo_packet ''C'' ''01'') = Inr k"
    using h by (auto simp: order_key_f_def demo_resolve r)
  then show ?thesis
    by (auto simp: enumerate_shells_def demo_delta shell_at_def omega_f_def)
qed

theorem shells_partition_candidates_witness:
  "\<exists>shells. enumerate_shells (demo_packet ''A'' ''00'') [demo_packet ''C'' ''01''] demo_rules = Inr shells \<and>
     sorted_wrt (<) (map radius shells)"
  using shells_partition_candidates [OF demo_shells] demo_shells by blast

section \<open>The search\<close>

definition fixed_point ::
  "(state_packet \<Rightarrow> py_error + decision) \<Rightarrow> (state_packet \<Rightarrow> state_packet + string) \<Rightarrow> state_packet \<Rightarrow> bool" where
  "fixed_point closed_f validate c \<longleftrightarrow>
     (\<exists>d. closed_f c = Inr d \<and> d_state d = ''PASS'') \<and> validated_root validate c = state_root c"

lemma scan_shell_done:
  "scan_shell closed_f validate root budget n fixed cs = Inr (Inr (n', fixed')) \<Longrightarrow>
     n' = n + int (length cs) \<and> fixed' = fixed @ filter (fixed_point closed_f validate) cs \<and>
     (cs \<noteq> [] \<longrightarrow> n' \<le> budget)"
proof (induction cs arbitrary: n fixed)
  case (Cons c cs)
  from Cons.prems obtain d where d: "closed_f c = Inr d" and b: "n + 1 \<le> budget"
    by (auto simp: e_bind_InrD split: if_splits)
  have fp: "fixed_point closed_f validate c \<longleftrightarrow> d_state d = ''PASS'' \<and> validated_root validate c = state_root c"
    by (simp add: fixed_point_def d)
  let ?fixed = "if fixed_point closed_f validate c then fixed @ [c] else fixed"
  have run: "scan_shell closed_f validate root budget (n + 1) ?fixed cs = Inr (Inr (n', fixed'))"
    using Cons.prems b
    by (cases "d_state d = ''PASS'' \<and> validated_root validate c = state_root c") (auto simp: d fp)
  have "cs = [] \<Longrightarrow> n' = n + 1" using run by simp
  with Cons.IH [OF run] b show ?case by auto
qed simp

lemma scan_shell_budget:
  "scan_shell closed_f validate root budget n fixed cs = Inr (Inl r) \<Longrightarrow>
     lr_state r = ''HOLD_QUERY_BUDGET_EXCEEDED''"
  by (induction cs arbitrary: n fixed)
    (auto simp: plain_receipt_def e_bind_InrD split: if_splits)

lemma scan_shells_unique:
  assumes "scan_shells closed_f validate root budget n shells = Inr r"
    and "lr_state r = ''UNIQUE_EVIDENCE_CLOSED_FIXED_POINT''"
  shows "\<exists>pre s post c. shells = pre @ s # post \<and>
    (\<forall>t \<in> set pre. \<forall>c \<in> set (candidates t). \<not> fixed_point closed_f validate c) \<and>
    filter (fixed_point closed_f validate) (candidates s) = [c] \<and>
    lr_shell r = Some (radius s) \<and> candidate_state_root r = Some (state_root c) \<and>
    n + int (length (concat (map candidates (pre @ [s])))) \<le> budget"
  using assms(1)
proof (induction shells arbitrary: n)
  case Nil
  with assms(2) show ?case by (auto simp: plain_receipt_def)
next
  case (Cons s ss)
  obtain res where res: "scan_shell closed_f validate root budget n [] (candidates s) = Inr res"
    using Cons.prems by (auto simp: e_bind_InrD)
  show ?case
  proof (cases res)
    case (Inl r')
    with res Cons.prems scan_shell_budget assms(2) show ?thesis by fastforce
  next
    case (Inr x)
    then obtain n' fixed where x: "res = Inr (n', fixed)" by (cases x) auto
    note scan_shell_done [OF res [unfolded x], simplified append_Nil]
    then
    have fin: "n' = n + int (length (candidates s))" "fixed = filter (fixed_point closed_f validate) (candidates s)"
      "candidates s \<noteq> [] \<longrightarrow> n' \<le> budget" by blast+
    consider "length fixed > 1" | c where "fixed = [c]" | "fixed = []"
      by (cases fixed; cases "tl fixed") auto
    then show ?thesis
    proof cases
      case 1
      with Cons.prems res x assms(2) show ?thesis by auto
    next
      case 2
      then have "candidates s \<noteq> []" using fin(2) by auto
      with 2 Cons.prems res x fin show ?thesis
        by (intro exI [of _ "[]"] exI [of _ s] exI [of _ ss] exI [of _ c]) auto
    next
      case 3
      with Cons.prems res x have "scan_shells closed_f validate root budget n' ss = Inr r" by simp
      from Cons.IH [OF this] obtain pre t post c where IH: "ss = pre @ t # post"
        "\<forall>t \<in> set pre. \<forall>c \<in> set (candidates t). \<not> fixed_point closed_f validate c"
        "filter (fixed_point closed_f validate) (candidates t) = [c]"
        "lr_shell r = Some (radius t)" "candidate_state_root r = Some (state_root c)"
        "n' + int (length (concat (map candidates (pre @ [t])))) \<le> budget" by blast
      have "\<forall>c \<in> set (candidates s). \<not> fixed_point closed_f validate c"
        using 3 fin(2) by (auto simp: filter_empty_conv)
      with IH fin(1) show ?thesis
        by (intro exI [of _ "s # pre"] exI [of _ t] exI [of _ post] exI [of _ c]) auto
    qed
  qed
qed

text \<open>The codes with which a search can be held are not the code of its success.\<close>

definition hold_codes :: "string set" where
  "hold_codes = {''HOLD_TRANSITION_RULE_MISSING'', ''HOLD_CANONICAL_PATH_DIVERGENCE'',
     DENY_BREAKPOINT_CROSSED, HOLD_BREAKPOINT_EVIDENCE_INCOMPLETE, []}"

lemma enforce_code: "enforce_breakpoint_reachability l r p = Inl e \<Longrightarrow> hold_code e \<in> hold_codes"
proof (induction p)
  case (Cons a p)
  have "reason_code (evaluate_breakpoint_reachability l r a) \<in> {HOLD_BREAKPOINT_EVIDENCE_INCOMPLETE,
      DENY_BREAKPOINT_CROSSED} \<or> verdict (evaluate_breakpoint_reachability l r a) = ALLOW_REACHABLE"
    by (auto simp: evaluate_breakpoint_reachability_def Let_def)
  with Cons show ?case
    by (auto simp: Let_def hold_codes_def ALLOW_REACHABLE_def DENY_BREAKPOINT_CROSSED_def split: if_splits)
qed simp

lemma resolve_code: "resolve_canonical_path l r rules = Inl e \<Longrightarrow> hold_code e \<in> hold_codes"
  using enforce_code
  by (auto simp: resolve_canonical_path_def Let_def a_bind_def hold_codes_def split: if_splits sum.splits)

lemma map_err_Inl: "map_err f xs = Inl e \<Longrightarrow> \<exists>x \<in> set xs. f x = Inl e"
  by (induction xs) (auto split: sum.splits)

lemma reachable_code: "reachable_candidates origin rules cs = Inl e \<Longrightarrow> hold_code e \<in> hold_codes"
proof (induction cs)
  case (Cons c cs)
  show ?case
  proof (cases "delta_f origin c rules")
    case (Inl e')
    then have "hold_code e' \<in> hold_codes" using resolve_code by (auto simp: delta_f_def a_bind_def split: sum.splits)
    with Inl Cons show ?thesis by (cases e') (auto simp: a_bind_def split: sum.splits)
  next
    case (Inr d)
    with Cons show ?thesis by (auto simp: a_bind_def split: sum.splits)
  qed
qed simp

lemma enumerate_shells_code: "enumerate_shells origin cs rules = Inl e \<Longrightarrow> hold_code e \<in> hold_codes"
proof -
  assume e: "enumerate_shells origin cs rules = Inl e"
  have ord: "order_key_f origin rules c = Inl x \<Longrightarrow> hold_code x \<in> hold_codes" for c x
    using resolve_code by (auto simp: order_key_f_def a_bind_def py_def hold_codes_def split: sum.splits)
  have sh: "shell_at origin rules ps r = Inl x \<Longrightarrow> hold_code x \<in> hold_codes" for ps r x
    using ord by (auto simp: shell_at_def omega_f_def a_bind_def split: sum.splits dest!: map_err_Inl)
  show ?thesis
    using e reachable_code sh
    by (auto simp: enumerate_shells_def a_bind_def split: sum.splits if_splits dest!: map_err_Inl)
      (simp add: hold_codes_def)
qed

text \<open>The shells before one of them hold the reachable candidates at smaller distances.\<close>

lemma shell_prefix:
  assumes sh: "enumerate_shells origin cs rules = Inr (pre @ s # post)"
  shows "mset (candidates s) = mset (filter (\<lambda>c. delta_f origin c rules = Inr (radius s)) cs)"
    and "mset (concat (map candidates pre)) = mset (filter (\<lambda>c. \<exists>j < radius s. delta_f origin c rules = Inr j) cs)"
proof -
  let ?d = "\<lambda>c. delta_f origin c rules"
  from shells_partition_candidates [OF sh]
  have order: "\<forall>t \<in> set pre. radius t < radius s" "\<forall>t \<in> set post. radius s < radius t"
    and at: "\<forall>t \<in> set (pre @ s # post). \<forall>c \<in> set (candidates t). ?d c = Inr (radius t)"
    and all: "mset (concat (map candidates (pre @ s # post))) = mset (filter (\<lambda>c. \<exists>d. ?d c = Inr d) cs)"
    by (auto simp: sorted_wrt_append)
  have split: "filter_mset P (mset (filter (\<lambda>c. \<exists>d. ?d c = Inr d) cs)) =
      filter_mset P (mset (concat (map candidates pre))) + filter_mset P (mset (candidates s)) +
      filter_mset P (mset (concat (map candidates post)))" for P
    unfolding all [symmetric] by simp
  have keep: "filter_mset P (mset xs) = mset xs" if "\<forall>c \<in> set xs. P c" for P and xs :: "state_packet list"
    using that by (simp add: filter_mset_eq_conv)
  have none: "filter_mset P (mset xs) = {#}" if "\<forall>c \<in> set xs. \<not> P c" for P and xs :: "state_packet list"
    using that by (simp add: filter_mset_eq_conv)
  have "filter_mset (\<lambda>c. ?d c = Inr (radius s)) (mset (filter (\<lambda>c. \<exists>d. ?d c = Inr d) cs)) = mset (candidates s)"
    unfolding split using order at by (subst none, fastforce, subst keep, fastforce, subst none, fastforce, simp)
  moreover have "filter (\<lambda>c. ?d c = Inr (radius s)) (filter (\<lambda>c. \<exists>d. ?d c = Inr d) cs) =
      filter (\<lambda>c. ?d c = Inr (radius s)) cs"
    by (simp add: filter_filter) (metis)
  ultimately show "mset (candidates s) = mset (filter (\<lambda>c. ?d c = Inr (radius s)) cs)"
    by (metis mset_filter)
  have "filter_mset (\<lambda>c. \<exists>j < radius s. ?d c = Inr j) (mset (filter (\<lambda>c. \<exists>d. ?d c = Inr d) cs)) =
      mset (concat (map candidates pre))"
    unfolding split using order at by (subst keep, fastforce, subst none, fastforce, subst none, fastforce, simp)
  moreover have "filter (\<lambda>c. \<exists>j < radius s. ?d c = Inr j) (filter (\<lambda>c. \<exists>d. ?d c = Inr d) cs) =
      filter (\<lambda>c. \<exists>j < radius s. ?d c = Inr j) cs"
    by (simp add: filter_filter) (metis)
  ultimately show "mset (concat (map candidates pre)) = mset (filter (\<lambda>c. \<exists>j < radius s. ?d c = Inr j) cs)"
    by (metis mset_filter)
qed

text \<open>
  C5: When the search reports a unique fixed point, its shell is the distance k of a candidate c
  whose root is reported; c is evidence closed and confirmed by the total field, it is the only
  such candidate at distance k, no candidate at a smaller distance is one, and the candidates at
  distances up to k, all of which were examined, are no more than the budget.  Distances are those
  of the only causal path, \<open>delta_f\<close>; candidates without such a path are not counted.
\<close>

theorem unique_fixed_point_is_nearest:
  assumes "evidence_closure_stop sha origin cs rules parent validate budget = Inr r"
    and "lr_state r = ''UNIQUE_EVIDENCE_CLOSED_FIXED_POINT''"
  defines "fp \<equiv> fixed_point (\<lambda>c. evidence_closed_f sha origin c rules parent) validate"
  shows "\<exists>c k. lr_shell r = Some k \<and> candidate_state_root r = Some (state_root c) \<and>
    filter fp (filter (\<lambda>d. delta_f origin d rules = Inr k) cs) = [c] \<and>
    (\<forall>d \<in> set cs. \<forall>j < k. delta_f origin d rules = Inr j \<longrightarrow> \<not> fp d) \<and>
    int (length (filter (\<lambda>d. \<exists>j \<le> k. delta_f origin d rules = Inr j) cs)) \<le> budget"
proof (cases "enumerate_shells origin cs rules")
  case (Inl e)
  from enumerate_shells_code [OF Inl] assms(1,2) Inl show ?thesis
    by (cases e) (auto simp: evidence_closure_stop_def plain_receipt_def hold_codes_def
        DENY_BREAKPOINT_CROSSED_def HOLD_BREAKPOINT_EVIDENCE_INCOMPLETE_def)
next
  case (Inr shells)
  let ?d = "\<lambda>c. delta_f origin c rules"
  from Inr assms(1) have "scan_shells (\<lambda>c. evidence_closed_f sha origin c rules parent) validate
      (state_root origin) budget 0 shells = Inr r"
    by (simp add: evidence_closure_stop_def)
  from scan_shells_unique [OF this assms(2), folded fp_def] obtain pre s post c where
    shells: "shells = pre @ s # post" and before: "\<forall>t \<in> set pre. \<forall>c \<in> set (candidates t). \<not> fp c"
    and only: "filter fp (candidates s) = [c]" and r: "lr_shell r = Some (radius s)"
      "candidate_state_root r = Some (state_root c)"
    and b: "int (length (concat (map candidates (pre @ [s])))) \<le> budget" by auto
  note parts = shell_prefix [OF Inr [unfolded shells]]
  have "mset (filter fp (filter (\<lambda>d. ?d d = Inr (radius s)) cs)) = mset (filter fp (candidates s))"
    using parts(1) by (simp only: mset_filter)
  then have "mset (filter fp (filter (\<lambda>d. ?d d = Inr (radius s)) cs)) = {#c#}"
    by (simp only: only mset.simps)
  then have single: "filter fp (filter (\<lambda>d. ?d d = Inr (radius s)) cs) = [c]"
    by (simp only: mset_single_iff)
  have "set (concat (map candidates pre)) = set (filter (\<lambda>c. \<exists>j < radius s. ?d c = Inr j) cs)"
    using parts(2) by (rule mset_eq_setD)
  moreover have "\<forall>d \<in> set (concat (map candidates pre)). \<not> fp d" using before by simp
  ultimately have "\<forall>d \<in> set (filter (\<lambda>c. \<exists>j < radius s. ?d c = Inr j) cs). \<not> fp d" by (simp only:)
  then have nearer: "\<forall>d \<in> set cs. \<forall>j < radius s. ?d d = Inr j \<longrightarrow> \<not> fp d" by auto
  have "mset (filter (\<lambda>d. \<exists>j \<le> radius s. ?d d = Inr j) cs) =
      mset (filter (\<lambda>c. \<exists>j < radius s. ?d c = Inr j) cs) + mset (filter (\<lambda>c. ?d c = Inr (radius s)) cs)"
    by (induction cs) (auto simp: order_le_less)
  also have "\<dots> = mset (concat (map candidates (pre @ [s])))" using parts by simp
  finally have "length (filter (\<lambda>d. \<exists>j \<le> radius s. ?d d = Inr j) cs) = length (concat (map candidates (pre @ [s])))"
    by (rule mset_eq_length)
  with r single nearer b show ?thesis by (intro exI [of _ c] exI [of _ "radius s"]) simp
qed

theorem unique_fixed_point_is_nearest_witness:
  "\<exists>r. evidence_closure_stop (\<lambda>_. ''01'') (demo_packet ''A'' ''00'') [demo_packet ''C'' ''01''] demo_rules ''pr''
       (\<lambda>p. Inl p) 3 = Inr r \<and> candidate_state_root r = Some ''01'' \<and> lr_shell r = Some 4"
proof -
  obtain d where d: "evidence_closed_f (\<lambda>_. ''01'') (demo_packet ''A'' ''00'') (demo_packet ''C'' ''01'') demo_rules ''pr'' = Inr d"
    "d_state d = ''PASS''" using demo_closed by blast
  have v: "validated_root (\<lambda>p. Inl p) c = state_root c" for c by (simp add: validated_root_def)
  obtain r where r: "evidence_closure_stop (\<lambda>_. ''01'') (demo_packet ''A'' ''00'') [demo_packet ''C'' ''01''] demo_rules ''pr''
       (\<lambda>p. Inl p) 3 = Inr r" and u: "lr_state r = ''UNIQUE_EVIDENCE_CLOSED_FIXED_POINT''"
    using d by (simp add: evidence_closure_stop_def demo_shells v)
  have near: "filter (\<lambda>d. delta_f (demo_packet ''A'' ''00'') d demo_rules = Inr k) [demo_packet ''C'' ''01''] =
      (if k = 4 then [demo_packet ''C'' ''01''] else [])" for k
    by (simp add: demo_delta)
  from unique_fixed_point_is_nearest [OF r u] obtain c k where
    f: "filter (fixed_point (\<lambda>c. evidence_closed_f (\<lambda>_. ''01'') (demo_packet ''A'' ''00'') c demo_rules ''pr'')
       (\<lambda>p. Inl p)) (if k = 4 then [demo_packet ''C'' ''01''] else []) = [c]"
    "lr_shell r = Some k" "candidate_state_root r = Some (state_root c)"
    unfolding near by blast
  then have "k = 4" "c = demo_packet ''C'' ''01''" by (auto split: if_splits)
  with f r show ?thesis by (simp add: demo_packet_def)
qed

end
