(* ===== verification/ConversationEvents.thy ===== *)
theory ConversationEvents
  imports PyRepr
begin

text \<open>
  \<open>core/intent_continuity.py\<close>, the part that reads conversation text: the three regular
  expressions, the classification of a line, and the loop that collects candidates.  The
  expressions are matched against a stripped line, as the code does; \<open>\d\<close> is any Unicode
  decimal digit and \<open>\s\<close> any character of \<open>str.isspace\<close>.
\<close>

section \<open>Characters of the regular expressions\<close>

text \<open>The first digit of every run of ten decimal digits (Unicode 14).\<close>

definition decimal_runs :: "nat list" where
  "decimal_runs =
     [48, 1632, 1776, 1984, 2406, 2534, 2662, 2790, 2918, 3046, 3174, 3302, 3430, 3558, 3664,
      3792, 3872, 4160, 4240, 6112, 6160, 6470, 6608, 6784, 6800, 6992, 7088, 7232, 7248, 42528,
      43216, 43264, 43472, 43504, 43600, 44016, 65296, 66720, 68912, 69734, 69872, 69942, 70096,
      70384, 70736, 70864, 71248, 71360, 71472, 71904, 72016, 72784, 73040, 73120, 92768, 92864,
      93008, 120782, 120792, 120802, 120812, 120822, 123200, 123632, 125264, 130032]"

definition code_point :: "string \<Rightarrow> nat" where
  "code_point g =
     (case map of_char g of
        [a] \<Rightarrow> a
      | [a, b] \<Rightarrow> (a - 192) * 64 + (b - 128)
      | [a, b, c] \<Rightarrow> ((a - 224) * 64 + (b - 128)) * 64 + (c - 128)
      | [a, b, c, d] \<Rightarrow> (((a - 240) * 64 + (b - 128)) * 64 + (c - 128)) * 64 + (d - 128)
      | _ \<Rightarrow> 0)"

definition is_decimal :: "string \<Rightarrow> bool" where
  "is_decimal g \<longleftrightarrow> (\<exists>n \<in> set decimal_runs. n \<le> code_point g \<and> code_point g < n + 10)"

definition is_upper :: "string \<Rightarrow> bool" where
  "is_upper g = (case g of [c] \<Rightarrow> 65 \<le> (of_char c :: nat) \<and> (of_char c :: nat) \<le> 90 | _ \<Rightarrow> False)"

definition is_ascii_lower :: "string \<Rightarrow> bool" where
  "is_ascii_lower g =
     (case g of [c] \<Rightarrow> 97 \<le> (of_char c :: nat) \<and> (of_char c :: nat) \<le> 122 | _ \<Rightarrow> False)"

definition is_ascii_digit :: "string \<Rightarrow> bool" where
  "is_ascii_digit g = (case g of [c] \<Rightarrow> is_digit c | _ \<Rightarrow> False)"

definition is_alnum :: "string \<Rightarrow> bool" where
  "is_alnum g \<longleftrightarrow> is_upper g \<or> is_ascii_lower g \<or> is_ascii_digit g"

definition is_key_char :: "string \<Rightarrow> bool" where
  "is_key_char g \<longleftrightarrow> is_upper g \<or> is_ascii_digit g \<or> g = ''_''"

section \<open>Task identifiers, headers, fields\<close>

text \<open>\<open>T-\d{3}\<close> or \<open>NLDEV-\d{3}\<close> at the front: the identifier and the rest.\<close>

definition prefix_id :: "string \<Rightarrow> string list \<Rightarrow> (string list \<times> string list) option" where
  "prefix_id prefix gs =
     (let n = length prefix; ds = take 3 (drop n gs)
      in if take n gs = map (\<lambda>c. [c]) prefix \<and> length ds = 3 \<and> list_all is_decimal ds
         then Some (take (n + 3) gs, drop (n + 3) gs) else None)"

definition id_at :: "string list \<Rightarrow> (string list \<times> string list) option" where
  "id_at gs = (case prefix_id ''T-'' gs of Some r \<Rightarrow> Some r | None \<Rightarrow> prefix_id ''NLDEV-'' gs)"

text \<open>\<open>_TASK_ID_RE.fullmatch\<close> and \<open>_TASK_ID_RE.search\<close>, with the two look-arounds.\<close>

definition is_task_id :: "string \<Rightarrow> bool" where
  "is_task_id s \<longleftrightarrow> (case id_at (py_chars s) of Some (i, rest) \<Rightarrow> rest = [] | None \<Rightarrow> False)"

fun search_id :: "bool \<Rightarrow> string list \<Rightarrow> string option" where
  "search_id after_alnum [] = None"
| "search_id after_alnum (g # gs) =
     (case (if after_alnum then None else id_at (g # gs)) of
        None \<Rightarrow> search_id (is_alnum g) gs
      | Some (i, rest) \<Rightarrow>
          if rest = [] \<or> \<not> is_alnum (hd rest) then Some (concat i) else search_id (is_alnum g) gs)"

text \<open>\<open>_TASK_HEADER_RE\<close>: an identifier, alone or followed by a blank and a title.\<close>

definition parse_header :: "string \<Rightarrow> (string \<times> string) option" where
  "parse_header line =
     (case id_at (py_chars line) of
        None \<Rightarrow> None
      | Some (i, rest) \<Rightarrow>
          if rest = [] then Some (concat i, [])
          else if is_space (hd rest) then Some (concat i, strip (concat rest))
          else None)"

text \<open>\<open>_FIELD_RE\<close>: a key in capitals, an equals sign, a value.\<close>

definition parse_field :: "string \<Rightarrow> (string \<times> string) option" where
  "parse_field line =
     (let gs = py_chars line;
          key = takeWhile is_key_char gs;
          rest = dropWhile is_space (dropWhile is_key_char gs)
      in if key \<noteq> [] \<and> is_upper (hd key) \<and> rest \<noteq> [] \<and> hd rest = ''=''
         then Some (concat key, strip (concat (tl rest))) else None)"

section \<open>The candidate a line yields\<close>

definition CONVERSATION_EVENT_KINDS :: "string list" where
  "CONVERSATION_EVENT_KINDS =
     [''INTENT'', ''TASK'', ''STATE_CHANGE'', ''BLOCKER'', ''HOLD'', ''REVOCATION'', ''CONFLICT'',
      ''EVIDENCE'', ''NEXT_ACTION'']"

definition EVIDENCE_FIELDS :: "string list" where
  "EVIDENCE_FIELDS =
     [''RESULT'', ''COMMIT'', ''SHA'', ''HEAD'', ''GIT_HEAD'', ''PR15_HEAD'', ''LOCAL_HEAD'',
      ''UPSTREAM_HEAD'', ''AHEAD_BEHIND'', ''WORKTREE'']"

text \<open>A kind, the task it is about, and the payload.\<close>

type_synonym line_event = "string \<times> string option \<times> json dict"

definition field_event :: "string option \<Rightarrow> string \<Rightarrow> string \<Rightarrow> line_event option" where
  "field_event current key val =
     (if key = ''STATE'' \<and> current \<noteq> None \<and>
         val \<in> set [''TODO'', ''DOING'', ''BLOCKED'', ''HOLD'', ''DONE'', ''CANCELLED'']
      then Some (''STATE_CHANGE'', current, [(''state'', JStr val)])
      else if key = ''NEXT_ACTION'' \<and> current \<noteq> None
      then Some (''NEXT_ACTION'', current, [(''next_action'', JStr val)])
      else if key \<in> set [''BLOCKER'', ''BLOCKERS''] \<and> current \<noteq> None \<and> val \<notin> set [[], ''NONE'', ''[]'']
      then Some (''BLOCKER'', current, [(''blocker'', JStr val)])
      else if key \<in> set EVIDENCE_FIELDS \<and> current \<noteq> None
      then Some (''EVIDENCE'', current, [(key, JStr val)])
      else if key \<in> set [''REVOKED'', ''REVOCATION'']
      then Some (''REVOCATION'', current, [(key, JStr val)])
      else if key = ''CONFLICT''
      then Some (''CONFLICT'', current, [(''conflict'', JStr val)])
      else None)"

text \<open>The Chinese key words of the code, in UTF-8: the merge rule, the decision, the
  prohibition with what is prohibited, the revocation and the conflict.\<close>

definition MERGE_PREFIXES :: "string list" where
  "MERGE_PREFIXES =
     (let w = bytes [230, 148, 175, 231, 183, 154, 229, 144, 136, 228, 189, 181, 229, 142, 159, 229, 137, 135]
      in [w @ '':'', w @ bytes [239, 188, 154]])"

definition RULE_PREFIXES :: "string list" where
  "RULE_PREFIXES =
     (let w = bytes [230, 177, 186, 231, 173, 150]
      in [''RULE:'', ''RULE'' @ bytes [239, 188, 154], w @ '':'', w @ bytes [239, 188, 154]])"

definition MUST_NOT :: string where
  "MUST_NOT = bytes [228, 184, 141, 229, 190, 151]"

definition PROHIBITED :: "string list" where
  "PROHIBITED =
     map bytes [[230, 129, 162, 229, 190, 169], [233, 135, 141, 229, 187, 186],
       [233, 135, 141, 230, 150, 176, 233, 150, 139, 229, 149, 159], [228, 191, 174, 230, 148, 185]]"

definition REVOKE_PREFIXES :: "string list" where
  "REVOKE_PREFIXES =
     [bytes [230, 146, 164, 233, 138, 183], bytes [229, 183, 178, 230, 146, 164, 233, 138, 183], ''REVOKED'']"

definition CONFLICT_PREFIXES :: "string list" where
  "CONFLICT_PREFIXES =
     (let w = bytes [232, 161, 157, 231, 170, 129]
      in [w @ '':'', w @ bytes [239, 188, 154], ''CONFLICT:''])"

abbreviation starts_any :: "string \<Rightarrow> string list \<Rightarrow> bool" where
  "starts_any line ps \<equiv> \<exists>p \<in> set ps. starts_with line p"

definition mentioned_task :: "string option \<Rightarrow> string \<Rightarrow> string option" where
  "mentioned_task current line =
     (case search_id False (py_chars line) of Some i \<Rightarrow> Some i | None \<Rightarrow> current)"

definition prose_event :: "string option \<Rightarrow> string \<Rightarrow> line_event option" where
  "prose_event current line =
     (if starts_any line MERGE_PREFIXES then Some (''INTENT'', None, [(''text'', JStr line)])
      else if starts_any line RULE_PREFIXES then Some (''INTENT'', current, [(''text'', JStr line)])
      else if current \<noteq> None \<and> contains line MUST_NOT \<and> (\<exists>t \<in> set PROHIBITED. contains line t)
      then Some (''HOLD'', current, [(''constraint'', JStr line)])
      else if starts_any line REVOKE_PREFIXES
      then Some (''REVOCATION'', mentioned_task current line, [(''text'', JStr line)])
      else if starts_any line CONFLICT_PREFIXES
      then Some (''CONFLICT'', mentioned_task current line, [(''text'', JStr line)])
      else None)"

text \<open>One line: the current task after it, and its event.\<close>

definition read_line :: "string option \<Rightarrow> string \<Rightarrow> string option \<times> line_event option" where
  "read_line current raw_line =
     (let line = strip raw_line in
      if line = [] then (current, None)
      else case parse_header line of
        Some (i, title) \<Rightarrow>
          (Some i, if title \<noteq> [] then Some (''TASK'', Some i, [(''title'', JStr title)]) else None)
      | None \<Rightarrow>
          (case parse_field line of
             Some (key, val) \<Rightarrow> (current, field_event current key val)
           | None \<Rightarrow> (current, prose_event current line)))"

section \<open>Collecting the candidates of a text\<close>

definition opt_str :: "string option \<Rightarrow> json" where
  "opt_str v = (case v of Some s \<Rightarrow> JStr s | None \<Rightarrow> JNull)"

definition conversation_candidate ::
  "line_event \<Rightarrow> json \<Rightarrow> string \<Rightarrow> nat \<Rightarrow> py_error + json dict" where
  "conversation_candidate ev source_coordinate source_sha256 source_line =
     (case ev of (kind, task_id, payload) \<Rightarrow>
        if kind \<notin> set CONVERSATION_EVENT_KINDS
        then Inl (ValueErrorOn ''unsupported candidate kind'' (JStr kind))
        else Inr
          [(''kind'', JStr kind), (''task_id'', opt_str task_id), (''payload'', JObj payload),
           (''source_coordinate'', source_coordinate), (''source_sha256'', JStr source_sha256),
           (''source_line'', JInt (int source_line)), (''candidate_only'', JBool True),
           (''authority_granted'', JBool False), (''requires_total_field_verify'', JBool True)])"

definition append_candidate :: "json dict list \<Rightarrow> json dict \<Rightarrow> json dict list" where
  "append_candidate events c =
     (if \<exists>e \<in> set events. dumps_canonical (JObj e) = dumps_canonical (JObj c)
      then events else events @ [c])"

fun collect ::
  "json \<Rightarrow> string \<Rightarrow> nat \<Rightarrow> string option \<Rightarrow> string list \<Rightarrow> json dict list \<Rightarrow> py_error + json dict list" where
  "collect coord sha line_no current [] events = Inr events"
| "collect coord sha line_no current (raw # raws) events =
     (case read_line current raw of
        (current', None) \<Rightarrow> collect coord sha (Suc line_no) current' raws events
      | (current', Some ev) \<Rightarrow>
          e_bind (conversation_candidate ev coord sha line_no) (\<lambda>c.
            collect coord sha (Suc line_no) current' raws (append_candidate events c)))"

definition CONVERSATION_EVENT_SCHEMA_VERSION :: string where
  "CONVERSATION_EVENT_SCHEMA_VERSION = ''W7TP-CONVERSATION-EVENT-CANDIDATE/1.0''"

definition extract_conversation_event_candidates ::
  "(string \<Rightarrow> string) \<Rightarrow> json \<Rightarrow> json \<Rightarrow> py_error + json dict" where
  "extract_conversation_event_candidates sha text_value source_coordinate =
     (case text_value of
        JStr t \<Rightarrow>
          e_bind (collect source_coordinate (sha t) 1 None (splitlines t) []) (\<lambda>events.
          Inr [(''schema_version'', JStr CONVERSATION_EVENT_SCHEMA_VERSION),
               (''candidate_only'', JBool True), (''authority_granted'', JBool False),
               (''requires_total_field_verify'', JBool True),
               (''source_coordinate'', source_coordinate), (''source_sha256'', JStr (sha t)),
               (''events'', JArr (map JObj events))])
      | _ \<Rightarrow> Inl (TypeError ''conversation text must be a string''))"

end
