(* ===== verification/IntentContinuity.thy ===== *)
theory IntentContinuity
  imports ConversationEvents WorkLedger
begin

text \<open>
  \<open>core/intent_continuity.py\<close>, the part that keeps state: the conversation checkpoint, the
  projection of a verified candidate into an event of the ledgers, and the application of an
  event.
\<close>

section \<open>The conversation checkpoint\<close>

definition REQUIRED_CHECKPOINT_FIELDS :: "string list" where
  "REQUIRED_CHECKPOINT_FIELDS =
     [''mainline'', ''current_goal'', ''current_state'', ''last_decision'', ''open_tasks'',
      ''next_action'', ''d8'', ''hold_reason'']"

definition D8_VALUES :: "string list" where
  "D8_VALUES = [''PASS'', ''HOLD'', ''BLOCK'']"

definition validate_checkpoint :: "json \<Rightarrow> py_error + json dict" where
  "validate_checkpoint data =
     e_bind (required_fields ''checkpoint missing fields'' REQUIRED_CHECKPOINT_FIELDS data) (\<lambda>d.
     e_bind (in_strings (fld d ''d8'') D8_VALUES) (\<lambda>ok.
     e_bind (check ok (ValueErrorOn ''invalid d8'' (fld d ''d8''))) (\<lambda>_.
     e_bind (check (is_arr (fld d ''open_tasks'')) (ValueError ''open_tasks must be a list'')) (\<lambda>_.
     Inr d))))"

definition load_checkpoint :: "string \<Rightarrow> (unit, json dict) obj_op" where
  "load_checkpoint path =
     m_bind (read_file path) (\<lambda>t. m_bind (loads_op t) (\<lambda>v. lift (validate_checkpoint v)))"

definition checkpoint_conversation_unlocked :: "json dict \<Rightarrow> string \<Rightarrow> (unit, json dict) obj_op" where
  "checkpoint_conversation_unlocked data path =
     m_bind now_op (\<lambda>now.
     let payload = dset ''updated_at'' (JStr now) data in
     m_then (lift (validate_checkpoint (JObj payload)))
    (m_then (replace_file path (dumps_indent2 (JObj payload) @ [CHR 10]))
            (ret payload)))"

definition checkpoint_conversation :: "json dict \<Rightarrow> string \<Rightarrow> (unit, json dict) obj_op" where
  "checkpoint_conversation data path =
     continuity_effect_scope (checkpoint_conversation_unlocked data path)"

definition opened :: "string \<Rightarrow> (unit, work_ledger) obj_op" where
  "opened path = (\<lambda>(u, w). (open_work_ledger path w, (u, w)))"

definition next_action_text :: "json dict option \<Rightarrow> json" where
  "next_action_text next = (case next of Some t \<Rightarrow> fld t ''NEXT_ACTION'' | None \<Rightarrow> JStr ''NONE'')"

definition refresh_checkpoint_from_ledger ::
  "string \<Rightarrow> string \<Rightarrow> json \<Rightarrow> json \<Rightarrow> json \<Rightarrow> json \<Rightarrow> json \<Rightarrow> (unit, json dict) obj_op" where
  "refresh_checkpoint_from_ledger ledger_path checkpoint_path current_goal current_state
       last_decision d8 hold_reason =
     m_bind (opened ledger_path) (\<lambda>ledger.
     m_bind (lift (list_open_tasks ledger)) (\<lambda>open_tasks.
     m_bind (lift (get_next_action ledger [])) (\<lambda>next_item.
     checkpoint_conversation
       [(''mainline'', if dhas (wl_data ledger) ''MAINLINE'' then fld (wl_data ledger) ''MAINLINE''
                       else JStr ''W7TP / 8D ADI''),
        (''current_goal'', current_goal), (''current_state'', current_state),
        (''last_decision'', last_decision),
        (''open_tasks'', JArr (map (\<lambda>t. fld t ''TASK_ID'') open_tasks)),
        (''next_action'', next_action_text next_item),
        (''d8'', d8), (''hold_reason'', hold_reason)]
       checkpoint_path)))"

definition actions_opened :: "string \<Rightarrow> (unit, action_ledger) obj_op" where
  "actions_opened path =
     (\<lambda>(u, w). case open_action_ledger path w of (r, w') \<Rightarrow> (r, (u, w')))"

definition file_sha256 :: "string \<Rightarrow> (unit, json) obj_op" where
  "file_sha256 path =
     m_bind (read_file path) (\<lambda>t. m_bind (gets (\<lambda>(_, w). sha256 w t)) (\<lambda>h. ret (JStr h)))"

definition sync_checkpoint_evidence_locked ::
  "string \<Rightarrow> string \<Rightarrow> string \<Rightarrow> string list \<Rightarrow> (unit, json dict) obj_op" where
  "sync_checkpoint_evidence_locked ledger_path action_ledger_path checkpoint_path verified_active =
     m_bind (opened ledger_path) (\<lambda>ledger.
     m_bind (actions_opened action_ledger_path) (\<lambda>al.
     m_bind (load_checkpoint checkpoint_path) (\<lambda>payload.
     m_bind (lift (list_open_tasks ledger)) (\<lambda>open_tasks.
     m_bind (lift (get_next_action ledger verified_active)) (\<lambda>next_item.
     m_bind (file_sha256 ledger_path) (\<lambda>work_sha.
     m_bind (file_sha256 action_ledger_path) (\<lambda>action_sha.
     checkpoint_conversation
       (dset ''continuity_evidence'' (JObj
          [(''evidence_only'', JBool True), (''authority_changed'', JBool False),
           (''work_ledger_updated_at'', fld (wl_data ledger) ''UPDATED_AT''),
           (''action_ledger_updated_at'', fld (al_data al) ''UPDATED_AT''),
           (''work_ledger_sha256'', work_sha), (''action_ledger_sha256'', action_sha)])
       (dset ''next_action'' (next_action_text next_item)
       (dset ''open_tasks'' (JArr (map (\<lambda>t. fld t ''TASK_ID'') open_tasks)) payload)))
       checkpoint_path)))))))"

definition sync_checkpoint_evidence ::
  "string \<Rightarrow> string \<Rightarrow> string \<Rightarrow> string list \<Rightarrow> (unit, json dict) obj_op" where
  "sync_checkpoint_evidence ledger_path action_ledger_path checkpoint_path verified_active =
     continuity_effect_scope
       (sync_checkpoint_evidence_locked ledger_path action_ledger_path checkpoint_path verified_active)"

section \<open>Projecting a verified candidate\<close>

definition conversation_evidence :: "json dict \<Rightarrow> json dict" where
  "conversation_evidence candidate =
     [(''EVIDENCE_TYPE'', JStr ''VERIFIED_CONVERSATION_EVENT''),
      (''SOURCE_COORDINATE'', get_or_none candidate ''source_coordinate''),
      (''SOURCE_SHA256'', get_or_none candidate ''source_sha256'')]"

definition task_updated :: "string \<Rightarrow> json dict \<Rightarrow> json dict" where
  "task_updated task_id changes =
     [(''type'', JStr ''TASK_UPDATED''), (''TASK_ID'', JStr task_id), (''changes'', JObj changes)]"

text \<open>\<open>str(payload.get(key, default))\<close>.\<close>

definition text_or :: "string \<Rightarrow> json dict \<Rightarrow> string \<Rightarrow> string" where
  "text_or other d k = (case dget d k of Some v \<Rightarrow> py_str v | None \<Rightarrow> other)"

definition project_kind ::
  "json dict \<Rightarrow> json \<Rightarrow> string \<Rightarrow> json dict \<Rightarrow> json dict \<Rightarrow> py_error + json dict option" where
  "project_kind candidate kind task_id payload task =
     (if kind = JStr ''STATE_CHANGE'' then
        (let state = get_or_none payload ''state'' in
         if state = JStr ''DONE'' then
           Inr (Some [(''type'', JStr ''TASK_COMPLETED''), (''TASK_ID'', JStr task_id),
                      (''evidence'', JObj (conversation_evidence candidate))])
         else
           e_bind (in_strings state [''TODO'', ''DOING'', ''BLOCKED'', ''HOLD'', ''CANCELLED'']) (\<lambda>ok.
           e_bind (check ok (ValueError ''conversation candidate state invalid'')) (\<lambda>_.
           Inr (Some (task_updated task_id [(''STATE'', state)])))))
      else if kind = JStr ''NEXT_ACTION'' then
        Inr (Some (task_updated task_id [(''NEXT_ACTION'', JStr (text_or [] payload ''next_action''))]))
      else if kind = JStr ''BLOCKER'' then
        e_bind (item payload ''blocker'') (\<lambda>b.
        Inr (Some [(''type'', JStr ''TASK_BLOCKED''), (''TASK_ID'', JStr task_id),
                   (''blocker'', JStr (py_str b))]))
      else if kind = JStr ''HOLD'' then
        e_bind (py_list (fld task ''BLOCKERS'')) (\<lambda>blockers.
        let constraint = JStr (text_or ''CONVERSATION_HOLD'' payload ''constraint'') in
        Inr (Some (task_updated task_id
          [(''STATE'', JStr ''HOLD''),
           (''BLOCKERS'', JArr (if constraint \<in> set blockers then blockers else blockers @ [constraint]))])))
      else if kind = JStr ''EVIDENCE'' then
        e_bind (py_list (fld task ''D4_EVIDENCE'')) (\<lambda>evidence.
        Inr (Some (task_updated task_id
          [(''D4_EVIDENCE'', JArr (evidence @ [JObj (dmerge (conversation_evidence candidate) payload)]))])))
      else Inr None)"

definition project_verified_conversation_candidate ::
  "json dict \<Rightarrow> json dict \<Rightarrow> string \<Rightarrow> world \<Rightarrow> py_error + json dict option" where
  "project_verified_conversation_candidate candidate receipt ledger_path w =
     e_bind (check (get_or_none candidate ''candidate_only'' = JBool True \<and>
                    get_or_none candidate ''authority_granted'' = JBool False \<and>
                    get_or_none candidate ''requires_total_field_verify'' = JBool True)
               (ValueError ''conversation candidate authority boundary invalid'')) (\<lambda>_.
     e_bind (check (get_or_none receipt ''final_decision'' = JStr ''ALLOW'' \<and>
                    get_or_none receipt ''fixed_point_status'' = JStr ''REACHED'')
               (ValueError ''conversation candidate not verified by Total Field'')) (\<lambda>_.
     let kind = get_or_none candidate ''kind'';
         task_id = get_or_none candidate ''task_id'';
         payload = get_or_none candidate ''payload'' in
     e_bind (in_strings kind CONVERSATION_EVENT_KINDS) (\<lambda>known.
     e_bind (check (known \<and> is_obj payload) (ValueError ''conversation candidate structure invalid'')) (\<lambda>_.
     if task_id = JNull then Inr None
     else
       e_bind (check (is_str task_id \<and> is_task_id (str_of task_id))
                 (ValueError ''conversation candidate task_id invalid'')) (\<lambda>_.
       e_bind (open_work_ledger ledger_path w) (\<lambda>l.
       case task_pos task_id (wl_data l) of
         None \<Rightarrow> Inl (KeyError ''task_id'')
       | Some i \<Rightarrow>
           project_kind candidate kind (str_of task_id) (dict_of payload) (tasks (wl_data l) ! i)))))))"

section \<open>Applying an event\<close>

text \<open>\<open>**v\<close>: only a mapping can be unpacked, and no key may name another argument.\<close>

definition unpack :: "json \<Rightarrow> string list \<Rightarrow> py_error + json dict" where
  "unpack v taken =
     (case v of
        JObj d \<Rightarrow> if \<exists>k \<in> set (dkeys d). k \<in> set taken
                  then Inl (TypeError ''got multiple values for argument'') else Inr d
      | _ \<Rightarrow> Inl (TypeError ''argument after ** must be a mapping''))"

definition BEGIN_ARGUMENTS :: "string list" where
  "BEGIN_ARGUMENTS =
     [''action_id'', ''task_id'', ''turn_id'', ''process_id'', ''target_coordinate'', ''tool'',
      ''idempotency_key'']"

definition begin_arguments :: "json \<Rightarrow> py_error + json dict" where
  "begin_arguments v =
     e_bind (unpack v [''self'']) (\<lambda>d.
       if (\<forall>k \<in> set (dkeys d). k \<in> set BEGIN_ARGUMENTS) \<and> (\<forall>k \<in> set BEGIN_ARGUMENTS. dhas d k)
       then Inr d else Inl (TypeError ''begin_action() arguments''))"

text \<open>The call on the work ledger that an event of one of the four task types stands for.\<close>

definition task_event :: "json dict \<Rightarrow> (py_error + (work_ledger, json) obj_op) option" where
  "task_event event =
     (let kind = get_or_none event ''type'' in
      if kind = JStr ''TASK_CREATED'' then
        Some (e_bind (item event ''task'') (\<lambda>t.
          case t of JObj d \<Rightarrow> Inr (create_task d) | _ \<Rightarrow> Inl (AttributeError ''setdefault'')))
      else if kind = JStr ''TASK_UPDATED'' then
        Some (e_bind (item event ''TASK_ID'') (\<lambda>i.
              e_bind (unpack (get_default event ''changes'' (JObj [])) [''self'', ''task_id'']) (\<lambda>changes.
              Inr (update_task i changes))))
      else if kind = JStr ''TASK_COMPLETED'' then
        Some (e_bind (item event ''TASK_ID'') (\<lambda>i.
              Inr (complete_task i
                (case get_or_none event ''evidence'' of JNull \<Rightarrow> None | v \<Rightarrow> Some v) None)))
      else if kind = JStr ''TASK_BLOCKED'' then
        Some (e_bind (item event ''TASK_ID'') (\<lambda>i.
              e_bind (item event ''blocker'') (\<lambda>b. Inr (block_task i b))))
      else None)"

definition action_event :: "json dict \<Rightarrow> py_error + (action_ledger, json) obj_op" where
  "action_event event =
     (let kind = get_or_none event ''type'' in
      if kind = JStr ''ACTION_STARTED'' then
        e_bind (item event ''action'') (\<lambda>v.
        e_bind (begin_arguments v) (\<lambda>a.
        Inr (begin_action (fld a ''action_id'') (fld a ''task_id'') (fld a ''turn_id'')
              (fld a ''process_id'') (fld a ''target_coordinate'') (fld a ''tool'')
              (fld a ''idempotency_key''))))
      else if kind = JStr ''ACTION_WAITING'' then
        e_bind (item event ''ACTION_ID'') (\<lambda>i.
        Inr (mark_waiting i (get_or_none event ''last_tool_effect'')))
      else if kind = JStr ''ACTION_INTERRUPTED'' then
        e_bind (item event ''ACTION_ID'') (\<lambda>i.
        e_bind (item event ''error'') (\<lambda>err.
        Inr (mark_interrupted i err (get_or_none event ''last_confirmed_effect'')
              (get_or_none event ''last_tool_effect'') (get_or_none event ''resume_from''))))
      else if kind = JStr ''ACTION_RESUMED'' then
        e_bind (item event ''ACTION_ID'') (\<lambda>i.
        e_bind (item event ''resume_from'') (\<lambda>from.
        Inr (resume_action i (get_or_none event ''new_process_id'') from)))
      else if kind = JStr ''ACTION_COMPLETED'' then
        e_bind (item event ''ACTION_ID'') (\<lambda>i.
        Inr (complete_action i (get_or_none event ''confirmed_effect'')))
      else if kind = JStr ''ACTION_FAILED'' then
        e_bind (item event ''ACTION_ID'') (\<lambda>i.
        e_bind (item event ''error'') (\<lambda>err.
        Inr (fail_action i err (get_or_none event ''last_tool_effect''))))
      else Inl (ValueErrorOn ''unsupported conversation event type'' kind))"

definition apply_conversation_event ::
  "json dict \<Rightarrow> string \<Rightarrow> string \<Rightarrow> world \<Rightarrow> (py_error + json) \<times> world" where
  "apply_conversation_event event ledger_path action_ledger_path w =
     (case open_work_ledger ledger_path w of
        Inl e \<Rightarrow> (Inl e, w)
      | Inr ledger \<Rightarrow>
          (case task_event event of
             Some (Inl e) \<Rightarrow> (Inl e, w)
           | Some (Inr call) \<Rightarrow> (case call (ledger, w) of (r, (_, w')) \<Rightarrow> (r, w'))
           | None \<Rightarrow>
               (case open_action_ledger action_ledger_path w of
                  (Inl e, w') \<Rightarrow> (Inl e, w')
                | (Inr al, w') \<Rightarrow>
                    (case action_event event of
                       Inl e \<Rightarrow> (Inl e, w')
                     | Inr call \<Rightarrow> (case call (al, w') of (r, (_, w'')) \<Rightarrow> (r, w''))))))"

end
