(* ===== verification/ConversationProps.thy ===== *)
theory ConversationProps
  imports ConversationEvents SortedKeys PyLines
begin

text \<open>
  What the extraction of candidates from a conversation returns: a line-by-line reference
  definition, and the shape of every candidate.
\<close>

section \<open>Identifiers\<close>

lemma prefix_id_Some:
  "prefix_id p gs = Some (i, rest) \<Longrightarrow> i = take (length p + 3) gs \<and> prefix_id p i = Some (i, [])"
  by (auto simp: prefix_id_def Let_def min_def take_drop add.commute split: if_splits)

lemma prefix_id_take:
  "prefix_id p gs = None \<Longrightarrow> length p + 3 \<le> m \<Longrightarrow> prefix_id p (take m gs) = None"
  by (auto simp: prefix_id_def Let_def min_def take_drop add.commute split: if_splits)

lemma id_at_exact: "grouped gs \<Longrightarrow> id_at gs = Some (i, rest) \<Longrightarrow> is_task_id (concat i)"
proof -
  assume gs: "grouped gs" and i: "id_at gs = Some (i, rest)"
  have ex: "\<exists>n. i = take n gs \<and> id_at i = Some (i, [])"
  proof (cases "prefix_id ''T-'' gs")
    case None
    with i have p: "prefix_id ''NLDEV-'' gs = Some (i, rest)" by (simp add: id_at_def)
    note s = prefix_id_Some [OF p]
    with None have "prefix_id ''T-'' i = None"
      using prefix_id_take [of "''T-''" gs "length ''NLDEV-'' + 3"] by simp
    with s show ?thesis by (auto simp: id_at_def)
  next
    case (Some r)
    with i have "prefix_id ''T-'' gs = Some (i, rest)" by (simp add: id_at_def)
    note prefix_id_Some [OF this]
    then show ?thesis by (auto simp: id_at_def)
  qed
  then obtain n where n: "i = take n gs" "id_at i = Some (i, [])" by blast
  with gs have "py_chars (concat i) = i" using grouped_take by (simp add: grouped_def)
  with n(2) show "is_task_id (concat i)" by (simp add: is_task_id_def)
qed

lemma search_id_exact: "grouped gs \<Longrightarrow> search_id b gs = Some i \<Longrightarrow> is_task_id i"
proof (induction b gs rule: search_id.induct)
  case (2 b g gs)
  have gs: "grouped gs" using 2(3) by (rule grouped_tl)
  show ?case
  proof (cases "if b then None else id_at (g # gs)")
    case None
    with 2 gs show ?thesis by (auto split: if_splits)
  next
    case (Some r)
    obtain j rest where r: "r = (j, rest)" by (cases r)
    with Some have j: "id_at (g # gs) = Some (j, rest)" by (simp split: if_splits)
    show ?thesis
    proof (cases "rest = [] \<or> \<not> is_alnum (hd rest)")
      case True
      with 2(4) Some r have "i = concat j" by (simp split: if_splits)
      with id_at_exact [OF 2(3) j] show ?thesis by simp
    next
      case False
      with 2 Some r gs show ?thesis by (simp split: if_splits)
    qed
  qed
qed simp

section \<open>The shape of a line's event\<close>

abbreviation valid_task :: "string option \<Rightarrow> bool" where
  "valid_task t \<equiv> (case t of None \<Rightarrow> True | Some i \<Rightarrow> is_task_id i)"

text \<open>The payload entry that the projection of each kind reads.\<close>

definition conversation_states :: "string list" where
  "conversation_states = [''TODO'', ''DOING'', ''BLOCKED'', ''HOLD'', ''DONE'', ''CANCELLED'']"

definition good_event :: "line_event \<Rightarrow> bool" where
  "good_event ev = (case ev of (kind, task, payload) \<Rightarrow>
     kind \<in> set CONVERSATION_EVENT_KINDS \<and> valid_task task \<and> dict_wf payload \<and>
     (kind = ''STATE_CHANGE'' \<longrightarrow> fld payload ''state'' \<in> JStr ` set conversation_states) \<and>
     (kind = ''BLOCKER'' \<longrightarrow> dhas payload ''blocker''))"

lemma if_SomeE:
  "(if b then Some x else r) = Some e \<Longrightarrow> (b \<Longrightarrow> e = x \<Longrightarrow> P) \<Longrightarrow> (r = Some e \<Longrightarrow> P) \<Longrightarrow> P"
  by (cases b) simp_all

lemma good_field_event: "valid_task cur \<Longrightarrow> field_event cur k v = Some ev \<Longrightarrow> good_event ev"
  unfolding field_event_def
  by (elim if_SomeE) (simp_all add: good_event_def CONVERSATION_EVENT_KINDS_def dhas_def conversation_states_def, blast?)

lemma good_prose_event: "valid_task cur \<Longrightarrow> prose_event cur line = Some ev \<Longrightarrow> good_event ev"
proof -
  assume cur: "valid_task cur" and ev: "prose_event cur line = Some ev"
  have "valid_task (mentioned_task cur line)"
    using cur search_id_exact [of "py_chars line" False]
    by (auto simp: mentioned_task_def split: option.splits)
  with cur ev show ?thesis
    unfolding prose_event_def
    by (elim if_SomeE) (simp_all add: good_event_def CONVERSATION_EVENT_KINDS_def)
qed

lemma parse_header_id: "parse_header line = Some (i, title) \<Longrightarrow> is_task_id i"
  using id_at_exact [of "py_chars line"]
  by (auto simp: parse_header_def split: option.splits if_splits)

lemma read_line_cases:
  assumes "read_line cur raw = (cur', ev)"
  obtains (none) "cur' = cur" "ev = None"
  | (header) i title where "parse_header (strip raw) = Some (i, title)" "cur' = Some i"
      "ev = (if title \<noteq> [] then Some (''TASK'', Some i, [(''title'', JStr title)]) else None)"
  | (field) k v where "cur' = cur" "ev = field_event cur k v"
  | (prose) "cur' = cur" "ev = prose_event cur (strip raw)"
  using assms
  by (auto simp: read_line_def Let_def split: if_splits option.splits prod.splits)

lemma read_line_good:
  assumes "valid_task cur" and "read_line cur raw = (cur', ev)"
  shows "valid_task cur'" and "ev = Some e \<Longrightarrow> good_event e"
proof -
  from assms(2) have "valid_task cur' \<and> (ev = Some e \<longrightarrow> good_event e)"
  proof (cases rule: read_line_cases)
    case (header i title)
    then show ?thesis using parse_header_id
      by (auto simp: good_event_def CONVERSATION_EVENT_KINDS_def)
  next
    case (field k v)
    with assms(1) show ?thesis using good_field_event by metis
  next
    case prose
    with assms(1) show ?thesis using good_prose_event by metis
  qed (use assms(1) in simp)
  then show "valid_task cur'" and "ev = Some e \<Longrightarrow> good_event e" by simp_all
qed

section \<open>The loop against a line-by-line definition\<close>

definition header_of :: "string \<Rightarrow> string option" where
  "header_of raw =
     (if strip raw = [] then None else map_option fst (parse_header (strip raw)))"

text \<open>The current task of a line: the identifier of the last header above it.\<close>

definition task_after :: "string option \<Rightarrow> string list \<Rightarrow> string option" where
  "task_after cur raws =
     fold (\<lambda>raw t. case header_of raw of Some i \<Rightarrow> Some i | None \<Rightarrow> t) raws cur"

definition candidate_record :: "line_event \<Rightarrow> json \<Rightarrow> string \<Rightarrow> nat \<Rightarrow> json dict" where
  "candidate_record ev coord sha n =
     (case ev of (kind, task, payload) \<Rightarrow>
       [(''kind'', JStr kind), (''task_id'', opt_str task), (''payload'', JObj payload),
        (''source_coordinate'', coord), (''source_sha256'', JStr sha),
        (''source_line'', JInt (int n)), (''candidate_only'', JBool True),
        (''authority_granted'', JBool False), (''requires_total_field_verify'', JBool True)])"

definition line_candidates ::
  "json \<Rightarrow> string \<Rightarrow> nat \<Rightarrow> string option \<Rightarrow> string list \<Rightarrow> nat \<Rightarrow> json dict list" where
  "line_candidates coord sha first cur raws n =
     (case snd (read_line (task_after cur (take n raws)) (raws ! n)) of
        None \<Rightarrow> [] | Some ev \<Rightarrow> [candidate_record ev coord sha (first + n)])"

lemma task_after_simps [simp]:
  "task_after cur [] = cur"
  "task_after cur (raw # raws) =
     task_after (case header_of raw of Some i \<Rightarrow> Some i | None \<Rightarrow> cur) raws"
  by (simp_all add: task_after_def)

lemma fst_read_line:
  "fst (read_line cur raw) = (case header_of raw of Some i \<Rightarrow> Some i | None \<Rightarrow> cur)"
  by (auto simp: read_line_def header_of_def Let_def split: option.splits prod.splits)

lemma candidate_good:
  "good_event ev \<Longrightarrow> conversation_candidate ev coord sha n = Inr (candidate_record ev coord sha n)"
  by (auto simp: conversation_candidate_def candidate_record_def good_event_def split: prod.splits)

lemma candidate_wf: "good_event ev \<Longrightarrow> dict_wf (candidate_record ev (JStr c) sha n)"
  by (auto simp: candidate_record_def good_event_def opt_str_def split: prod.splits option.splits)

lemma candidate_line: "fld (candidate_record ev coord sha n) ''source_line'' = JInt (int n)"
  by (simp add: candidate_record_def split: prod.splits)

lemma append_fresh:
  assumes "good_event ev" and "\<forall>e \<in> set events. dict_wf e \<and> (\<exists>m < n. fld e ''source_line'' = JInt (int m))"
  shows "append_candidate events (candidate_record ev (JStr c) sha n)
    = events @ [candidate_record ev (JStr c) sha n]"
proof -
  let ?c = "candidate_record ev (JStr c) sha n"
  have "dumps_canonical (JObj e) \<noteq> dumps_canonical (JObj ?c)" if "e \<in> set events" for e
  proof
    assume eq: "dumps_canonical (JObj e) = dumps_canonical (JObj ?c)"
    from that assms(2) obtain m where m: "dict_wf e" "m < n" "fld e ''source_line'' = JInt (int m)"
      by blast
    from canonical_fields [OF m(1) candidate_wf [OF assms(1)] eq, of "''source_line''"]
    show False using m(2,3) by (simp add: candidate_line)
  qed
  then show ?thesis by (auto simp: append_candidate_def)
qed

lemma line_candidates_Cons:
  "line_candidates coord sha first cur (raw # raws) (Suc n) =
   line_candidates coord sha (Suc first) (fst (read_line cur raw)) raws n"
  by (simp add: line_candidates_def fst_read_line split: option.splits)

lemma collect_lines:
  assumes "valid_task cur"
    and "\<forall>e \<in> set events. dict_wf e \<and> (\<exists>m < first. fld e ''source_line'' = JInt (int m))"
  shows "collect (JStr c) sha first cur raws events =
    Inr (events @ concat (map (line_candidates (JStr c) sha first cur raws) [0..<length raws]))"
  using assms
proof (induction raws arbitrary: first cur events)
  case (Cons raw raws)
  obtain cur' ev where rd: "read_line cur raw = (cur', ev)" by (cases "read_line cur raw")
  have cur': "valid_task cur'" using Cons.prems(1) rd by (rule read_line_good)
  have old: "\<exists>m < Suc first. fld e ''source_line'' = JInt (int m)" "dict_wf e" if "e \<in> set events" for e
    using Cons.prems(2) that less_SucI by blast+
  have rest: "map (line_candidates (JStr c) sha first cur (raw # raws)) [0..<length (raw # raws)] =
      line_candidates (JStr c) sha first cur (raw # raws) 0 #
      map (line_candidates (JStr c) sha (Suc first) cur' raws) [0..<length raws]"
    using rd by (simp add: upt_conv_Cons map_Suc_upt [symmetric] line_candidates_Cons del: upt_Suc)
  have first: "line_candidates (JStr c) sha first cur (raw # raws) 0 =
      (case ev of None \<Rightarrow> [] | Some e \<Rightarrow> [candidate_record e (JStr c) sha first])"
    using rd by (simp add: line_candidates_def split: option.split)
  show ?case
  proof (cases ev)
    case None
    have "collect (JStr c) sha (Suc first) cur' raws events = Inr (events @
        concat (map (line_candidates (JStr c) sha (Suc first) cur' raws) [0..<length raws]))"
      by (rule Cons.IH [OF cur']) (use old in blast)
    with None rd first show ?thesis unfolding rest by simp
  next
    case (Some e)
    with read_line_good [OF Cons.prems(1) rd] have e: "good_event e" by blast
    let ?c = "candidate_record e (JStr c) sha first"
    have "\<forall>e \<in> set (events @ [?c]). dict_wf e \<and> (\<exists>m < Suc first. fld e ''source_line'' = JInt (int m))"
      using old candidate_wf [OF e] candidate_line by (auto simp del: jwf.simps)
    from Cons.IH [OF cur' this] Some rd first e append_fresh [OF e Cons.prems(2)] show ?thesis
      unfolding rest by (simp add: candidate_good)
  qed
qed simp

lemma extraction_lines:
  "extract_conversation_event_candidates sha (JStr t) (JStr c) = Inr
     [(''schema_version'', JStr CONVERSATION_EVENT_SCHEMA_VERSION),
      (''candidate_only'', JBool True), (''authority_granted'', JBool False),
      (''requires_total_field_verify'', JBool True),
      (''source_coordinate'', JStr c), (''source_sha256'', JStr (sha t)),
      (''events'', JArr (map JObj (concat (map (line_candidates (JStr c) (sha t) 1 None (splitlines t))
         [0..<length (splitlines t)]))))]"
  by (simp add: extract_conversation_event_candidates_def collect_lines)

text \<open>
  Extracting the candidates of a conversation text never fails, and gives exactly the
  candidates of its lines taken one by one: the line \<open>n\<close> is read with the identifier of the
  last header above it as its current task, and contributes what \<open>read_line\<close> gives for
  it with the number \<open>n + 1\<close>.  The comparison of canonical texts in
  \<open>_append_candidate\<close> never drops anything.
\<close>

theorem extraction_is_line_by_line:
  "extract_conversation_event_candidates sha (JStr t) (JStr c) = Inr
     [(''schema_version'', JStr CONVERSATION_EVENT_SCHEMA_VERSION),
      (''candidate_only'', JBool True), (''authority_granted'', JBool False),
      (''requires_total_field_verify'', JBool True),
      (''source_coordinate'', JStr c), (''source_sha256'', JStr (sha t)),
      (''events'', JArr (map JObj (concat (map (line_candidates (JStr c) (sha t) 1 None (splitlines t))
         [0..<length (splitlines t)]))))]"
  by (rule extraction_lines)

end
