(* ===== verification/IntentProps.thy ===== *)
theory IntentProps
  imports IntentContinuity ConversationProps ActionProps WorkProps
begin

text \<open>
  Conversation events against the two ledgers: what applying any event leaves in the files,
  which events the projection of a verified candidate can produce, how an extracted candidate
  passes the projection, and the checkpoint's round trip.
\<close>

section \<open>Events are calls on the ledgers\<close>

definition event_ids_hashable :: "json dict \<Rightarrow> bool" where
  "event_ids_hashable event \<longleftrightarrow>
     hashable (fld (dict_of (fld event ''task'')) ''TASK_ID'') \<and>
     hashable (fld (dict_of (fld event ''action'')) ''action_id'')"

definition never_reopens :: "work_call \<Rightarrow> bool" where
  "never_reopens c \<longleftrightarrow> (case c of ReopenTask _ _ _ _ \<Rightarrow> False | _ \<Rightarrow> True)"

lemma jwf_item: "dict_wf d \<Longrightarrow> item d k = Inr v \<Longrightarrow> jwf v"
  using dict_wf_dget by (simp add: item_Inr)

lemma item_fld: "item d k = Inr v \<Longrightarrow> fld d k = v"
  by (rule get_or_none_item)

lemma unpack_Inr: "unpack v ks = Inr d \<Longrightarrow> v = JObj d"
  by (auto simp: unpack_def split: json.splits if_splits)

lemma jwf_get_default: "dict_wf d \<Longrightarrow> jwf x \<Longrightarrow> jwf (get_default d k x)"
  by (auto simp: get_default_def dict_wf_dget split: option.splits simp del: jwf.simps)

lemma task_event_call:
  assumes "task_event event = Some (Inr m)" and "dict_wf event" and "event_ids_hashable event"
  shows "\<exists>c. m = run_work c \<and> well_formed_work c \<and> never_reopens c"
proof -
  let ?kind = "get_or_none event ''type''"
  consider (created) "?kind = JStr ''TASK_CREATED''" | (updated) "?kind = JStr ''TASK_UPDATED''"
    | (completed) "?kind = JStr ''TASK_COMPLETED''" | (blocked) "?kind = JStr ''TASK_BLOCKED''"
    using assms(1) by (auto simp: task_event_def Let_def split: if_splits)
  then show ?thesis
  proof cases
    case created
    with assms(1) obtain v where v: "item event ''task'' = Inr v"
      "(case v of JObj d \<Rightarrow> Inr (create_task d) | _ \<Rightarrow> Inl (AttributeError ''setdefault'')) = Inr m"
      by (auto simp: task_event_def e_bind_InrD)
    then obtain d where d: "item event ''task'' = Inr (JObj d)" "m = create_task d"
      by (cases v) auto
    from jwf_item [OF assms(2) d(1)] item_fld [OF d(1)] assms(3) d(2) show ?thesis
      by (intro exI [of _ "Create d"])
        (simp add: event_ids_hashable_def never_reopens_def del: jwf.simps)
  next
    case updated
    with assms(1) obtain i ch where u: "unpack (get_default event ''changes'' (JObj [])) [''self'', ''task_id''] = Inr ch"
      "m = update_task i ch"
      by (auto simp: task_event_def e_bind_InrD)
    have "jwf (get_default event ''changes'' (JObj []))" by (rule jwf_get_default [OF assms(2)]) simp
    with unpack_Inr [OF u(1)] u(2) show ?thesis
      by (intro exI [of _ "UpdateTask i ch"]) (simp add: never_reopens_def del: jwf.simps)
  next
    case completed
    with assms(1) obtain i where "m = complete_task i
        (case get_or_none event ''evidence'' of JNull \<Rightarrow> None | v \<Rightarrow> Some v) None"
      by (auto simp: task_event_def e_bind_InrD)
    moreover have "case (case get_or_none event ''evidence'' of JNull \<Rightarrow> None | v \<Rightarrow> Some v) of
        None \<Rightarrow> True | Some v \<Rightarrow> jwf v"
      using jwf_fld [OF assms(2), of "''evidence''"] by (cases "fld event ''evidence''") simp_all
    ultimately show ?thesis
      by (intro exI [of _ "CompleteTask i _ None"] conjI) (simp_all add: never_reopens_def)
  next
    case blocked
    with assms(1) obtain i b where b: "item event ''blocker'' = Inr b" "m = block_task i b"
      by (auto simp: task_event_def e_bind_InrD)
    from jwf_item [OF assms(2) b(1)] b(2) show ?thesis
      by (intro exI [of _ "BlockTask i b"]) (simp add: never_reopens_def)
  qed
qed

lemma begin_arguments_Inr:
  "begin_arguments v = Inr a \<Longrightarrow> v = JObj a"
  by (auto simp: begin_arguments_def e_bind_InrD dest: unpack_Inr split: if_splits)

lemma action_event_call:
  assumes "action_event event = Inr m" and "dict_wf event" and "event_ids_hashable event"
  shows "\<exists>c. m = run_call c \<and> well_formed_call c"
proof -
  let ?kind = "get_or_none event ''type''"
  consider (started) "?kind = JStr ''ACTION_STARTED''" | (waiting) "?kind = JStr ''ACTION_WAITING''"
    | (interrupted) "?kind = JStr ''ACTION_INTERRUPTED''" | (resumed) "?kind = JStr ''ACTION_RESUMED''"
    | (completed) "?kind = JStr ''ACTION_COMPLETED''" | (failed) "?kind = JStr ''ACTION_FAILED''"
    using assms(1) by (auto simp: action_event_def Let_def split: if_splits)
  then show ?thesis
  proof cases
    case started
    with assms(1) obtain v a where a: "item event ''action'' = Inr v" "begin_arguments v = Inr a"
      "m = begin_action (fld a ''action_id'') (fld a ''task_id'') (fld a ''turn_id'')
              (fld a ''process_id'') (fld a ''target_coordinate'') (fld a ''tool'')
              (fld a ''idempotency_key'')"
      by (auto simp: action_event_def e_bind_InrD)
    from begin_arguments_Inr [OF a(2)] have v: "v = JObj a" .
    with jwf_item [OF assms(2) a(1)] have wf: "jwf (fld a k)" for k by simp
    from v item_fld [OF a(1)] assms(3) have "hashable (fld a ''action_id'')"
      by (simp add: event_ids_hashable_def)
    with wf a(3) show ?thesis
      by (intro exI [of _ "Begin (fld a ''action_id'') (fld a ''task_id'') (fld a ''turn_id'')
              (fld a ''process_id'') (fld a ''target_coordinate'') (fld a ''tool'')
              (fld a ''idempotency_key'')"]) simp
  next
    case waiting
    with assms(1) obtain i where "m = mark_waiting i (fld event ''last_tool_effect'')"
      by (auto simp: action_event_def e_bind_InrD)
    then show ?thesis using jwf_fld [OF assms(2)] by (intro exI [of _ "Waiting i _"]) auto
  next
    case interrupted
    with assms(1) obtain i err where e: "item event ''error'' = Inr err"
      "m = mark_interrupted i err (fld event ''last_confirmed_effect'')
              (fld event ''last_tool_effect'') (fld event ''resume_from'')"
      by (auto simp: action_event_def e_bind_InrD)
    with jwf_item [OF assms(2) e(1)] show ?thesis using jwf_fld [OF assms(2)]
      by (intro exI [of _ "Interrupted i err _ _ _"]) auto
  next
    case resumed
    with assms(1) obtain i f where e: "item event ''resume_from'' = Inr f"
      "m = resume_action i (fld event ''new_process_id'') f"
      by (auto simp: action_event_def e_bind_InrD)
    with jwf_item [OF assms(2) e(1)] show ?thesis using jwf_fld [OF assms(2)]
      by (intro exI [of _ "Resume i _ f"]) auto
  next
    case completed
    with assms(1) obtain i where "m = complete_action i (fld event ''confirmed_effect'')"
      by (auto simp: action_event_def e_bind_InrD)
    then show ?thesis using jwf_fld [OF assms(2)] by (intro exI [of _ "Complete i _"]) auto
  next
    case failed
    with assms(1) obtain i err where e: "item event ''error'' = Inr err"
      "m = fail_action i err (fld event ''last_tool_effect'')"
      by (auto simp: action_event_def e_bind_InrD)
    with jwf_item [OF assms(2) e(1)] show ?thesis using jwf_fld [OF assms(2)]
      by (intro exI [of _ "Fail i err _"]) auto
  qed
qed

lemma extends_closed:
  assumes "wl_extends c d d'" and "never_reopens c" and "i < length (tasks d)" and "closed (tasks d ! i)"
  shows "tasks d' ! i = tasks d ! i"
proof -
  have "\<not> reopen_of c (tasks d ! i) (tasks d' ! i)"
    using assms(2) by (auto simp: reopen_of_def never_reopens_def)
  with assms show ?thesis by (auto simp: wl_extends_def)
qed

lemma wl_extends_refl: "wl_extends c d d"
  by (simp add: wl_extends_def)

lemma open_action_files: "open_action_ledger q w = (r, w') \<Longrightarrow>
   files w' = files w \<and> (\<forall>l. r = Inr l \<longrightarrow> al_path l = q)"
  by (auto simp: open_action_ledger_def load_or_init_def split: option.splits prod.splits sum.splits
      dest!: sym [of _ r])

text \<open>What an applied event has done to the files.\<close>

lemma apply_cases:
  assumes "work_disk p w d" and "dict_wf event" and "event_ids_hashable event" and "disk_ok q w"
    and run: "apply_conversation_event event p q w = (r, w')"
  obtains (work) c where "never_reopens c"
      "files w' = files w \<or> (\<exists>d'. wl_ok d' \<and> wl_extends c d d' \<and> files w' = (files w)(p \<mapsto> render d'))"
  | (action) "disk_step q w w'"
proof (cases "task_event event")
  case None
  obtain r1 w1 where o: "open_action_ledger q w = (r1, w1)" by (cases "open_action_ledger q w")
  note f = open_action_files [OF o]
  show thesis
  proof (cases "r1")
    case (Inl e)
    with run None o f open_work_disk [OF assms(1)] show thesis
      by (intro action) (simp add: apply_conversation_event_def disk_step_def)
  next
    case (Inr l)
    show thesis
    proof (cases "action_event event")
      case (Inl e)
      with run None o f \<open>r1 = Inr l\<close> open_work_disk [OF assms(1)] show thesis
        by (intro action) (simp add: apply_conversation_event_def disk_step_def)
    next
      case (Inr m)
      from action_event_call [OF this assms(2,3)] obtain c where c: "m = run_call c" "well_formed_call c"
        by blast
      obtain r2 l2 w2 where m: "m (l, w1) = (r2, (l2, w2))" by (metis prod_cases3)
      with run None o \<open>r1 = Inr l\<close> Inr open_work_disk [OF assms(1)] have "w2 = w'"
        by (simp add: apply_conversation_event_def)
      have l: "al_path l = q" and "files w1 = files w" using f \<open>r1 = Inr l\<close> by simp_all
      then have "disk_ok (al_path l) w1" using assms(4) by (simp add: disk_ok_def)
      from run_call_disk_step [OF c(2) this m [unfolded c(1)]] have "disk_step q w1 w'"
        using l \<open>w2 = w'\<close> by simp
      with \<open>files w1 = files w\<close> have "disk_step q w w'" by (simp add: disk_step_def loaded_def)
      then show thesis by (rule action)
    qed
  qed
next
  case (Some t)
  show thesis
  proof (cases t)
    case (Inl e)
    with run Some open_work_disk [OF assms(1)] have "w' = w"
      by (simp add: apply_conversation_event_def)
    then show thesis by (intro action) simp
  next
    case (Inr m)
    let ?l = "\<lparr>wl_path = p, wl_data = d, wl_sha = sha256 w (render d)\<rparr>"
    from Some Inr task_event_call [OF _ assms(2,3)] obtain c
      where c: "m = run_work c" "well_formed_work c" "never_reopens c" by blast
    obtain r2 l2 w2 where m: "m (?l, w) = (r2, (l2, w2))" by (metis prod_cases3)
    with run Some Inr open_work_disk [OF assms(1)] have "w2 = w'"
      by (simp add: apply_conversation_event_def)
    have "wl_ok (wl_data ?l)" using assms(1) by (simp add: work_disk_def)
    from run_work_step [OF this c(2) m [unfolded c(1)]] \<open>w2 = w'\<close>
    show thesis by (intro work [OF c(3)]) (simp add: wl_step_def)
  qed
qed

text \<open>
  C27: The work ledger is a readable file, the action ledger is a readable file or absent, and they
  are two files.  Apply any structured event whose new identifiers are hashable: the \<open>TASK_ID\<close> of a
  task it creates and the \<open>action_id\<close> of an action it records are no list and no dictionary (with
  such a \<open>TASK_ID\<close> \<open>create_task\<close> saves a ledger that cannot be read again).  Then, with whatever
  outcome, the work ledger stays readable, no task is lost or renamed and a closed task is
  unchanged (an event can never reopen one), the action ledger stays readable or absent, and no
  third file is touched.
\<close>

theorem events_never_reopen:
  assumes "wl_ok d" and "files w p = Some (render d)" and "disk_ok q w" and "p \<noteq> q"
    and "dict_wf event" and "event_ids_hashable event"
    and "apply_conversation_event event p q w = (r, w')"
  shows "\<exists>d'. wl_ok d' \<and> files w' p = Some (render d') \<and> disk_ok q w' \<and>
    (\<forall>x. x \<noteq> p \<and> x \<noteq> q \<longrightarrow> files w' x = files w x) \<and>
    (\<forall>i < length (tasks d). i < length (tasks d') \<and>
       pyeq (fld (tasks d' ! i) ''TASK_ID'') (fld (tasks d ! i) ''TASK_ID'') \<and>
       (closed (tasks d ! i) \<longrightarrow> tasks d' ! i = tasks d ! i))"
proof -
  have wd: "work_disk p w d" using assms(1,2) by (simp add: work_disk_def)
  from wd assms(5,6,3,7) show ?thesis
  proof (cases rule: apply_cases)
    case (work c)
    from work(2) show ?thesis
    proof
      assume "files w' = files w"
      with assms(1-3) show ?thesis by (intro exI [of _ d]) (simp add: disk_ok_def)
    next
      assume "\<exists>d'. wl_ok d' \<and> wl_extends c d d' \<and> files w' = (files w)(p \<mapsto> render d')"
      then obtain d' where d': "wl_ok d'" "wl_extends c d d'" "files w' = (files w)(p \<mapsto> render d')" by blast
      moreover have "disk_ok q w'" using assms(3,4) d'(3) by (simp add: disk_ok_def)
      ultimately show ?thesis using extends_closed [OF d'(2) work(1)]
        by (intro exI [of _ d']) (auto simp: wl_extends_def)
    qed
  next
    case action
    with assms(3) have ok: "disk_ok q w'" by (rule disk_step_ok)
    from action have f: "\<forall>x. x \<noteq> q \<longrightarrow> files w' x = files w x" by (auto simp: disk_step_def)
    with assms(2,4) have "files w' p = Some (render d)" by simp
    with assms(1) ok f show ?thesis by (intro exI [of _ d]) simp
  qed
qed

theorem events_never_reopen_witness:
  "\<exists>r (w' :: world) d'. apply_conversation_event
      [(''type'', JStr ''TASK_UPDATED''), (''TASK_ID'', JStr ''a''),
       (''changes'', JObj [(''STATE'', JStr ''TODO'')])] ''W'' ''L''
      (demo_disk [demo_task ''a'' ''DONE'' ''P1'']) = (r, w') \<and>
    files w' ''W'' = Some (render d') \<and> tasks d' ! 0 = demo_task ''a'' ''DONE'' ''P1''"
proof -
  let ?ts = "[demo_task ''a'' ''DONE'' ''P1'']"
  let ?e = "[(''type'', JStr ''TASK_UPDATED''), (''TASK_ID'', JStr ''a''),
       (''changes'', JObj [(''STATE'', JStr ''TODO'')])]"
  obtain r w' where run: "apply_conversation_event ?e ''W'' ''L'' (demo_disk ?ts) = (r, w')"
    by (cases "apply_conversation_event ?e ''W'' ''L'' (demo_disk ?ts)")
  have ok: "wl_ok (demo_tasks ?ts)"
    by (intro wl_ok_demo) (auto intro: task_ok_demo simp: ALLOWED_STATES_def distinct_by_def)
  have f: "files (demo_disk ?ts) ''W'' = Some (render (demo_tasks ?ts))" "disk_ok ''L'' (demo_disk ?ts)"
    by (simp_all add: demo_disk_def disk_ok_def)
  have "dict_wf ?e" "event_ids_hashable ?e"
    by (simp_all add: event_ids_hashable_def hashable_def)
  from events_never_reopen [OF ok f _ this run]
  obtain d' where "files w' ''W'' = Some (render d')" "tasks d' ! 0 = demo_task ''a'' ''DONE'' ''P1''"
    by (auto simp: closed_def demo_task_def)
  with run show ?thesis by blast
qed

section \<open>Projection\<close>

definition verified :: "json dict \<Rightarrow> bool" where
  "verified receipt \<longleftrightarrow>
     fld receipt ''final_decision'' = JStr ''ALLOW'' \<and> fld receipt ''fixed_point_status'' = JStr ''REACHED''"

definition candidate_flags :: "json dict \<Rightarrow> bool" where
  "candidate_flags c \<longleftrightarrow>
     fld c ''candidate_only'' = JBool True \<and> fld c ''authority_granted'' = JBool False \<and>
     fld c ''requires_total_field_verify'' = JBool True"

text \<open>The fields of a task that a projected update may change.\<close>

definition conversation_changes :: "string set" where
  "conversation_changes = {''STATE'', ''NEXT_ACTION'', ''BLOCKERS'', ''D4_EVIDENCE''}"

lemma project_kind_bounded:
  assumes "project_kind cand kind i payload t = Inr (Some ev)"
  shows "fld ev ''TASK_ID'' = JStr i \<and> event_ids_hashable ev \<and>
    (fld ev ''type'' = JStr ''TASK_COMPLETED'' \<and> fld ev ''evidence'' = JObj (conversation_evidence cand) \<or>
     fld ev ''type'' = JStr ''TASK_BLOCKED'' \<or>
     fld ev ''type'' = JStr ''TASK_UPDATED'' \<and>
       (\<exists>ch. fld ev ''changes'' = JObj ch \<and> set (dkeys ch) \<subseteq> conversation_changes))"
  using assms unfolding project_kind_def
  by (auto simp: e_bind_InrD Let_def task_updated_def event_ids_hashable_def conversation_changes_def
      hashable_def split: if_splits)

lemma project_Some:
  assumes "project_verified_conversation_candidate cand receipt p w = Inr (Some ev)"
  obtains l i k where "candidate_flags cand" "verified receipt" "fld cand ''task_id'' = JStr i"
    "open_work_ledger p w = Inr l" "task_pos (JStr i) (wl_data l) = Some k"
    "project_kind cand (fld cand ''kind'') i (dict_of (fld cand ''payload'')) (tasks (wl_data l) ! k) = Inr (Some ev)"
proof -
  obtain l where l: "candidate_flags cand" "verified receipt" "is_str (fld cand ''task_id'')"
    "open_work_ledger p w = Inr l"
    "(case task_pos (fld cand ''task_id'') (wl_data l) of None \<Rightarrow> Inl (KeyError ''task_id'')
      | Some k \<Rightarrow> project_kind cand (fld cand ''kind'') (str_of (fld cand ''task_id''))
          (dict_of (fld cand ''payload'')) (tasks (wl_data l) ! k)) = Inr (Some ev)"
    using assms
    by (auto simp: project_verified_conversation_candidate_def e_bind_InrD Let_def verified_def
        candidate_flags_def split: if_splits)
  then obtain i where "fld cand ''task_id'' = JStr i" by (auto simp: is_str_def split: json.splits)
  with l that show thesis by (auto split: option.splits)
qed

text \<open>
  C26: The projection yields an event only for a candidate that still claims no authority and a
  receipt that says ALLOW with the fixed point REACHED; the event names the candidate's own
  task, which is in the ledger, and can only complete it with the candidate's source as
  evidence, block it, or update its state, next action, blockers and evidence.
\<close>

theorem projection_needs_verification:
  assumes "project_verified_conversation_candidate cand receipt p w = Inr (Some ev)"
  shows "candidate_flags cand \<and> verified receipt \<and> fld ev ''TASK_ID'' = fld cand ''task_id'' \<and>
    (\<exists>l. open_work_ledger p w = Inr l \<and>
       (\<exists>t \<in> set (tasks (wl_data l)). pyeq (fld t ''TASK_ID'') (fld cand ''task_id''))) \<and>
    (fld ev ''type'' = JStr ''TASK_COMPLETED'' \<and> fld ev ''evidence'' = JObj (conversation_evidence cand) \<or>
     fld ev ''type'' = JStr ''TASK_BLOCKED'' \<or>
     fld ev ''type'' = JStr ''TASK_UPDATED'' \<and>
       (\<exists>ch. fld ev ''changes'' = JObj ch \<and> set (dkeys ch) \<subseteq> conversation_changes))"
  using assms
proof (rule project_Some)
  fix l i k
  assume c: "candidate_flags cand" "verified receipt" and i: "fld cand ''task_id'' = JStr i"
    and l: "open_work_ledger p w = Inr l" and k: "task_pos (JStr i) (wl_data l) = Some k"
    and ev: "project_kind cand (fld cand ''kind'') i (dict_of (fld cand ''payload''))
      (tasks (wl_data l) ! k) = Inr (Some ev)"
  from task_pos_Some [OF k] have "\<exists>t \<in> set (tasks (wl_data l)). pyeq (fld t ''TASK_ID'') (JStr i)"
    by auto
  with c i l project_kind_bounded [OF ev] show ?thesis by auto
qed

lemma project_verified:
  assumes "candidate_flags cand" and "verified receipt" and "fld cand ''kind'' = JStr kind"
    and "kind \<in> set CONVERSATION_EVENT_KINDS" and "is_obj (fld cand ''payload'')"
  shows "project_verified_conversation_candidate cand receipt p w =
    (if fld cand ''task_id'' = JNull then Inr None
     else e_bind (check (is_str (fld cand ''task_id'') \<and> is_task_id (str_of (fld cand ''task_id'')))
                 (ValueError ''conversation candidate task_id invalid'')) (\<lambda>_.
       e_bind (open_work_ledger p w) (\<lambda>l.
       case task_pos (fld cand ''task_id'') (wl_data l) of
         None \<Rightarrow> Inl (KeyError ''task_id'')
       | Some i \<Rightarrow> project_kind cand (JStr kind) (str_of (fld cand ''task_id''))
             (dict_of (fld cand ''payload'')) (tasks (wl_data l) ! i))))"
  using assms
  by (simp add: project_verified_conversation_candidate_def verified_def candidate_flags_def Let_def check_def)

lemma project_unverified:
  assumes "candidate_flags cand" and "\<not> verified receipt"
  shows "project_verified_conversation_candidate cand receipt p w =
    Inl (ValueError ''conversation candidate not verified by Total Field'')"
  using assms
  by (cases "fld receipt ''final_decision'' = JStr ''ALLOW''")
    (simp_all add: project_verified_conversation_candidate_def verified_def candidate_flags_def check_def)

lemma candidate_record_fields:
  "ev = (kind, task, payload) \<Longrightarrow> cand = candidate_record ev (JStr c) sha n \<Longrightarrow>
   candidate_flags cand \<and> fld cand ''kind'' = JStr kind \<and> fld cand ''task_id'' = opt_str task \<and>
   fld cand ''payload'' = JObj payload"
  by (simp add: candidate_record_def candidate_flags_def)

lemma project_kind_total:
  assumes "good_event (kind, task, payload)"
    and "is_arr (fld t ''BLOCKERS'')" and "is_arr (fld t ''D4_EVIDENCE'')"
  shows "\<exists>r. project_kind cand (JStr kind) i payload t = Inr r"
proof -
  obtain xs ys where arr: "fld t ''BLOCKERS'' = JArr xs" "fld t ''D4_EVIDENCE'' = JArr ys"
    using assms(2,3) by (auto simp: is_arr_def split: json.splits)
  consider (state) "kind = ''STATE_CHANGE''" | (blocker) "kind = ''BLOCKER''"
    | (other) "kind \<noteq> ''STATE_CHANGE''" "kind \<noteq> ''BLOCKER''" by blast
  then show ?thesis
  proof cases
    case state
    with assms(1) have "fld payload ''state'' \<in> JStr ` set conversation_states"
      by (simp add: good_event_def)
    then obtain st where st: "fld payload ''state'' = JStr st" "st \<in> set conversation_states"
      by (rule imageE)
    then have "st \<noteq> ''DONE'' \<Longrightarrow> st \<in> set [''TODO'', ''DOING'', ''BLOCKED'', ''HOLD'', ''CANCELLED'']"
      by (auto simp: conversation_states_def)
    with state st(1) show ?thesis
      by (cases "st = ''DONE''") (simp_all add: project_kind_def check_def)
  next
    case blocker
    with assms(1) obtain v where "item payload ''blocker'' = Inr v"
      by (auto simp: good_event_def item_Inr dhas_def)
    with blocker show ?thesis by (simp add: project_kind_def)
  next
    case other
    with arr show ?thesis by (simp add: project_kind_def py_list_def Let_def)
  qed
qed

lemma concat_line_candidates:
  assumes "cand \<in> set (concat (map (line_candidates (JStr c) sha first cur raws) [0..<length raws]))"
    and "valid_task cur"
  obtains ev n where "good_event ev" "cand = candidate_record ev (JStr c) sha n"
proof -
  from assms(1) obtain n where n: "n < length raws" "cand \<in> set (line_candidates (JStr c) sha first cur raws n)"
    by auto
  then obtain ev where ev: "snd (read_line (task_after cur (take n raws)) (raws ! n)) = Some ev"
    "cand = candidate_record ev (JStr c) sha (first + n)"
    by (cases "snd (read_line (task_after cur (take n raws)) (raws ! n))")
      (simp_all add: line_candidates_def)
  have "valid_task (task_after cur raws')" for raws'
    using assms(2)
  proof (induction raws' arbitrary: cur)
    case (Cons r rs)
    have "valid_task (fst (read_line cur r))"
      using read_line_good(1) [OF Cons.prems] by (metis prod.collapse)
    with Cons.IH show ?case by (simp add: fst_read_line)
  qed simp
  then have "good_event ev" using read_line_good(2) ev(1) by (metis prod.collapse)
  with ev(2) that show thesis by blast
qed

lemma opened_task_lists:
  assumes "open_work_ledger p w = Inr l" and "k < length (tasks (wl_data l))"
  shows "is_arr (fld (tasks (wl_data l) ! k) ''BLOCKERS'')"
    and "is_arr (fld (tasks (wl_data l) ! k) ''D4_EVIDENCE'')"
proof -
  obtain ts where ts: "fld (wl_data l) ''TASKS'' = JArr ts" "check_tasks [] ts = Inr ()"
    using assms(1)
    by (auto simp: open_work_ledger_def parse_work_file_def e_bind_InrD get_or_none_def
        split: option.splits json.splits)
  have valid: "check_tasks seen ts = Inr () \<Longrightarrow> \<forall>v \<in> set ts. validate_task v = Inr ()" for seen
    by (induction ts arbitrary: seen) (auto simp: e_bind_InrD Let_def split: if_splits)
  have "tasks (wl_data l) ! k = dict_of (ts ! k)" "k < length ts"
    using assms(2) ts(1) by (simp_all add: tasks_def)
  moreover from this valid [OF ts(2)] have "validate_task (ts ! k) = Inr ()" by simp
  ultimately show "is_arr (fld (tasks (wl_data l) ! k) ''BLOCKERS'')"
    and "is_arr (fld (tasks (wl_data l) ! k) ''D4_EVIDENCE'')"
    by (auto simp: validate_task_def e_bind_InrD required_fields_Inr check_def LIST_FIELDS_def
        split: if_splits)
qed

text \<open>
  C28: The extraction and the projection fit together: every candidate extracted from a text is
  refused without a verified receipt, and with one it passes every structural check of the
  projection; what can still be missing is only the task itself.
\<close>

theorem extracted_candidates_project:
  assumes "extract_conversation_event_candidates sha (JStr t) (JStr c) = Inr res"
    and "JObj cand \<in> set (arr_of (fld res ''events''))"
    and "open_work_ledger p w = Inr l"
  shows "project_verified_conversation_candidate cand receipt p w \<in>
    (if \<not> verified receipt then {Inl (ValueError ''conversation candidate not verified by Total Field'')}
     else if fld cand ''task_id'' = JNull then {Inr None}
     else if task_pos (fld cand ''task_id'') (wl_data l) = None then {Inl (KeyError ''task_id'')}
     else range Inr)"
proof -
  from assms(1) have "res = [(''schema_version'', JStr CONVERSATION_EVENT_SCHEMA_VERSION),
      (''candidate_only'', JBool True), (''authority_granted'', JBool False),
      (''requires_total_field_verify'', JBool True),
      (''source_coordinate'', JStr c), (''source_sha256'', JStr (sha t)),
      (''events'', JArr (map JObj (concat (map (line_candidates (JStr c) (sha t) 1 None (splitlines t))
         [0..<length (splitlines t)]))))]"
    unfolding extraction_lines by simp
  with assms(2) have "cand \<in> set (concat (map (line_candidates (JStr c) (sha t) 1 None (splitlines t))
         [0..<length (splitlines t)]))"
    by (simp add: image_iff)
  then obtain ev n where ev: "good_event ev" "cand = candidate_record ev (JStr c) (sha t) n"
    by (rule concat_line_candidates) simp
  obtain kind task payload where evp: "ev = (kind, task, payload)" by (cases ev)
  note cf = candidate_record_fields [OF evp ev(2)]
  show ?thesis
  proof (cases "verified receipt")
    case False
    with cf project_unverified show ?thesis by simp
  next
    case True
    have g: "kind \<in> set CONVERSATION_EVENT_KINDS" "valid_task task"
      using ev(1) evp by (simp_all add: good_event_def)
    from cf g True have eq: "project_verified_conversation_candidate cand receipt p w =
      (if fld cand ''task_id'' = JNull then Inr None
       else e_bind (check (is_str (fld cand ''task_id'') \<and> is_task_id (str_of (fld cand ''task_id'')))
                   (ValueError ''conversation candidate task_id invalid'')) (\<lambda>_.
         e_bind (open_work_ledger p w) (\<lambda>l.
         case task_pos (fld cand ''task_id'') (wl_data l) of
           None \<Rightarrow> Inl (KeyError ''task_id'')
         | Some i \<Rightarrow> project_kind cand (JStr kind) (str_of (fld cand ''task_id''))
               (dict_of (fld cand ''payload'')) (tasks (wl_data l) ! i))))"
      by (intro project_verified) (simp_all add: is_obj_def)
    show ?thesis
    proof (cases task)
      case None
      with eq cf True show ?thesis by (simp add: opt_str_def)
    next
      case (Some i)
      with g(2) cf have i: "fld cand ''task_id'' = JStr i" "is_task_id i" by (simp_all add: opt_str_def)
      have pl: "fld cand ''payload'' = JObj payload" using cf by simp
      from eq [unfolded i(1) pl] i(2) assms(3) have e: "project_verified_conversation_candidate cand receipt p w =
         (case task_pos (JStr i) (wl_data l) of None \<Rightarrow> Inl (KeyError ''task_id'')
          | Some k \<Rightarrow> project_kind cand (JStr kind) i payload (tasks (wl_data l) ! k))"
        by (simp add: check_def is_str_def cong: option.case_cong)
      show ?thesis
      proof (cases "task_pos (JStr i) (wl_data l)")
        case None
        with e i True show ?thesis by simp
      next
        case (Some k)
        with opened_task_lists [OF assms(3)] task_pos_Some
        have "is_arr (fld (tasks (wl_data l) ! k) ''BLOCKERS'')"
          "is_arr (fld (tasks (wl_data l) ! k) ''D4_EVIDENCE'')" by blast+
        from project_kind_total [OF ev(1) [unfolded evp] this] e i True Some show ?thesis by fastforce
      qed
    qed
  qed
qed

text \<open>
  C29: A verified candidate that says DONE for an open task of the ledger is carried out: the
  projection gives an event, and applying it completes the task with the candidate's source as the
  new piece of evidence, leaves every other task alone and stores the result in the file.
\<close>

theorem verified_done_completes_task:
  assumes "wl_ok d" and "files w p = Some (render d)"
    and "candidate_flags cand" and "verified receipt"
    and "fld cand ''kind'' = JStr ''STATE_CHANGE''" and "fld cand ''payload'' = JObj [(''state'', JStr ''DONE'')]"
    and "fld cand ''task_id'' = JStr i" and "is_task_id i"
    and "task_pos (JStr i) d = Some k" and "\<not> closed (tasks d ! k)"
  shows "\<exists>ev t' w' d'. project_verified_conversation_candidate cand receipt p w = Inr (Some ev) \<and>
    apply_conversation_event ev p q w = (Inr (JObj t'), w') \<and>
    fld t' ''STATE'' = JStr ''DONE'' \<and>
    fld t' ''D4_EVIDENCE'' =
      JArr (arr_of (fld (tasks d ! k) ''D4_EVIDENCE'') @ [JObj (conversation_evidence cand)]) \<and>
    files w' = (files w)(p \<mapsto> render d') \<and> tasks d' = (tasks d)[k := t']"
proof -
  let ?l = "\<lparr>wl_path = p, wl_data = d, wl_sha = sha256 w (render d)\<rparr>"
  let ?e = "JObj (conversation_evidence cand)"
  let ?ev = "[(''type'', JStr ''TASK_COMPLETED''), (''TASK_ID'', JStr i), (''evidence'', ?e)]"
  have o: "open_work_ledger p w = Inr ?l"
    using open_work_disk assms(1,2) by (simp add: work_disk_def)
  have "project_verified_conversation_candidate cand receipt p w = Inr (Some ?ev)"
    using project_verified [OF assms(3-5), of p w] assms(6-9) o
    by (simp add: CONVERSATION_EVENT_KINDS_def is_obj_def is_str_def check_def project_kind_def)
  moreover have "fresh ?l w" using assms(2) by (simp add: fresh_def)
  with assms(1,9,10) complete_task_runs [of ?l w "JStr i" k "Some ?e" None]
  obtain l' w' t' where c: "complete_task (JStr i) (Some ?e) None (?l, w) = (Inr (JObj t'), (l', w'))"
    "tasks (wl_data l') = (tasks d)[k := t']" "files w' = (files w)(p \<mapsto> render (wl_data l'))"
    "fld t' ''STATE'' = JStr ''DONE''"
    "fld t' ''D4_EVIDENCE'' = JArr (arr_of (fld (tasks d ! k) ''D4_EVIDENCE'') @ [?e])"
    by auto
  from o c(1) have "apply_conversation_event ?ev p q w = (Inr (JObj t'), w')"
    by (simp add: apply_conversation_event_def task_event_def item_def)
  ultimately show ?thesis using c by blast
qed

section \<open>The checkpoint\<close>

lemma validate_checkpoint_JObj: "validate_checkpoint (JObj d) = Inr d' \<Longrightarrow> d' = d"
  by (auto simp: validate_checkpoint_def e_bind_InrD required_fields_Inr)

lemma checkpoint_run:
  assumes "checkpoint_conversation data c ((), w) = (Inr pl, ((), w'))"
  shows "(\<exists>now. pl = dset ''updated_at'' (JStr now) data) \<and> validate_checkpoint (JObj pl) = Inr pl \<and>
    files w' = (files w)(c \<mapsto> render pl)"
proof -
  obtain w1 w2 where run: "checkpoint_conversation_unlocked data c ((), w1) = (Inr pl, ((), w2))"
    and f: "files w1 = files w" "files w2 = files w'"
    using scope_files [OF assms [unfolded checkpoint_conversation_def]] by blast
  let ?pl = "dset ''updated_at'' (JStr (clock w1 (ticks w1))) data"
  obtain d' where v: "validate_checkpoint (JObj ?pl) = Inr d'"
    using run by (auto simp: checkpoint_conversation_unlocked_def Let_def split: sum.splits)
  with run have "pl = ?pl" "files w2 = (files w1)(c \<mapsto> render ?pl)"
    by (auto simp: checkpoint_conversation_unlocked_def Let_def render_def)
  with v validate_checkpoint_JObj [OF v] f show ?thesis by auto
qed

lemma load_checkpoint_same:
  "files w1 = files w \<Longrightarrow> load_checkpoint c ((), w) = (r, ((), w)) \<Longrightarrow>
   load_checkpoint c ((), w1) = (r, ((), w1))"
  by (auto simp: load_checkpoint_def m_bind_def split: option.splits prod.splits sum.splits)

lemma load_rendered_checkpoint:
  "dict_wf pl \<Longrightarrow> validate_checkpoint (JObj pl) = Inr pl \<Longrightarrow> files w c = Some (render pl) \<Longrightarrow>
   load_checkpoint c ((), w) = (Inr pl, ((), w))"
  by (simp add: load_checkpoint_def loads_render del: jwf.simps)

text \<open>What a successful synchronisation has read and stored.\<close>

lemma sync_run:
  assumes "work_disk p w d" and "disk_ok q w" and "load_checkpoint c ((), w) = (Inr ck, ((), w))"
    and "sync_checkpoint_evidence p q c active ((), w) = (Inr pl, ((), w'))"
  obtains ts nx al tq now where "list_open_tasks \<lparr>wl_path = p, wl_data = d, wl_sha = sha256 w (render d)\<rparr> = Inr ts"
    "get_next_action \<lparr>wl_path = p, wl_data = d, wl_sha = sha256 w (render d)\<rparr> active = Inr nx"
    "dict_wf al" "files w q = Some tq"
    "pl = dset ''updated_at'' (JStr now)
       (dset ''continuity_evidence'' (JObj
          [(''evidence_only'', JBool True), (''authority_changed'', JBool False),
           (''work_ledger_updated_at'', fld d ''UPDATED_AT''),
           (''action_ledger_updated_at'', fld al ''UPDATED_AT''),
           (''work_ledger_sha256'', JStr (sha256 w (render d))),
           (''action_ledger_sha256'', JStr (sha256 w tq))])
       (dset ''next_action'' (next_action_text nx)
       (dset ''open_tasks'' (JArr (map (\<lambda>t. fld t ''TASK_ID'') ts)) ck)))"
    "validate_checkpoint (JObj pl) = Inr pl" "files w' = (files w)(c \<mapsto> render pl)"
proof -
  let ?l = "\<lparr>wl_path = p, wl_data = d, wl_sha = sha256 w (render d)\<rparr>"
  obtain w1 w2 where run: "sync_checkpoint_evidence_locked p q c active ((), w1) = (Inr pl, ((), w2))"
    and f: "files w1 = files w" "sha256 w1 = sha256 w" "files w2 = files w'"
    using scope_files [OF assms(4) [unfolded sync_checkpoint_evidence_def]] by metis
  have wd: "work_disk p w1 d" using assms(1) f(1) by (simp add: work_disk_def)
  have op: "opened p ((), w1) = (Inr ?l, ((), w1))"
    using open_work_disk [OF wd] f(2) by (simp add: opened_def)
  have "disk_ok q w1" using assms(2) f(1) by (simp add: disk_ok_def)
  then obtain al w3 where al: "load_or_init q ((), w1) = (Inr al, ((), w3))" "loaded q w1 al"
    "files w3 = files w1" by (rule load_or_init_ok)
  have sha3: "sha256 w3 = sha256 w"
    using al(1) f(2) by (auto simp: load_or_init_def split: option.splits sum.splits)
  have ao: "actions_opened q ((), w1) = (Inr \<lparr>al_path = q, al_data = al\<rparr>, ((), w3))"
    using al(1) by (simp add: actions_opened_def open_action_ledger_def)
  have ck: "load_checkpoint c ((), w3) = (Inr ck, ((), w3))"
    by (rule load_checkpoint_same [OF _ assms(3)]) (simp add: al(3) f(1))
  from run op ao ck obtain ts nx where ts: "list_open_tasks ?l = Inr ts" "get_next_action ?l active = Inr nx"
    by (auto simp: sync_checkpoint_evidence_locked_def split: sum.splits)
  have fp: "file_sha256 p ((), w3) = (Inr (JStr (sha256 w (render d))), ((), w3))"
    using assms(1) al(3) f(1) sha3 by (simp add: file_sha256_def work_disk_def)
  from run op ao ck ts fp obtain tq where tq: "files w3 q = Some tq"
    by (auto simp: sync_checkpoint_evidence_locked_def file_sha256_def m_bind_def split: option.splits)
  then have fq: "file_sha256 q ((), w3) = (Inr (JStr (sha256 w tq)), ((), w3))"
    using sha3 by (simp add: file_sha256_def)
  let ?pl = "dset ''continuity_evidence'' (JObj
          [(''evidence_only'', JBool True), (''authority_changed'', JBool False),
           (''work_ledger_updated_at'', fld d ''UPDATED_AT''),
           (''action_ledger_updated_at'', fld al ''UPDATED_AT''),
           (''work_ledger_sha256'', JStr (sha256 w (render d))),
           (''action_ledger_sha256'', JStr (sha256 w tq))])
       (dset ''next_action'' (next_action_text nx)
       (dset ''open_tasks'' (JArr (map (\<lambda>t. fld t ''TASK_ID'') ts)) ck))"
  from run op ao ck ts fp fq have "checkpoint_conversation ?pl c ((), w3) = (Inr pl, ((), w2))"
    by (simp add: sync_checkpoint_evidence_locked_def)
  from checkpoint_run [OF this] obtain now where "pl = dset ''updated_at'' (JStr now) ?pl"
    "validate_checkpoint (JObj pl) = Inr pl" "files w2 = (files w3)(c \<mapsto> render pl)" by blast
  moreover have "dict_wf al" using al(2) by (simp add: loaded_def al_ok_def)
  ultimately show thesis using that ts tq al(3) f by simp
qed

lemma list_open_tasks_wf:
  "wl_ok d \<Longrightarrow> wl_data l = d \<Longrightarrow> list_open_tasks l = Inr ts \<Longrightarrow> \<forall>t \<in> set ts. dict_wf t"
  by (auto simp: wl_ok_def task_ok_def dest!: list_open_tasks_Inr simp del: jwf.simps)

lemma next_action_wf:
  assumes "wl_ok d" and "wl_data l = d" and "get_next_action l active = Inr nx"
  shows "jwf (next_action_text nx)"
proof -
  from assms(3) obtain ts cs where ts: "list_open_tasks l = Inr ts"
    "filter_err (actionable (tasks (wl_data l))) ts = Inr cs"
    "nx = (if cs = [] then None
          else let t = hd (sort_key (next_key active) cs)
               in Some [(''TASK_ID'', fld t ''TASK_ID''), (''NEXT_ACTION'', fld t ''NEXT_ACTION'')])"
    by (auto simp: get_next_action_def e_bind_InrD)
  have "\<forall>t \<in> set cs. dict_wf t"
    using ts(2) list_open_tasks_wf [OF assms(1,2) ts(1)] by (auto simp: filter_err_Inr)
  then have "cs \<noteq> [] \<Longrightarrow> dict_wf (hd (sort_key (next_key active) cs))"
    using hd_sort_key_in by blast
  with ts(3) show ?thesis
    by (cases "cs = []") (simp_all add: next_action_text_def Let_def del: jwf.simps(2))
qed

text \<open>
  C30: Synchronising the checkpoint refreshes its evidence only: loading it afterwards gives back
  what the call returned, every field except the open tasks, the next action, the evidence and the
  time stamp is the one stored before, the open tasks are the ledger's in their order, and the
  digests are those of the two ledger files, which the call leaves as they are.
\<close>

theorem checkpoint_sync_roundtrip:
  assumes "wl_ok d" and "files w p = Some (render d)" and "disk_ok q w" and "c \<noteq> p" and "c \<noteq> q"
    and "load_checkpoint c ((), w) = (Inr ck, ((), w))" and "dict_wf ck"
    and "sync_checkpoint_evidence p q c active ((), w) = (Inr pl, ((), w'))"
  shows "load_checkpoint c ((), w') = (Inr pl, ((), w')) \<and>
    (\<forall>k. k \<notin> {''open_tasks'', ''next_action'', ''continuity_evidence'', ''updated_at''} \<longrightarrow>
       fld pl k = fld ck k) \<and>
    fld pl ''open_tasks'' =
      JArr (map (\<lambda>t. fld t ''TASK_ID'') (sort_key open_key (filter open_task (tasks d)))) \<and>
    (\<exists>e tq. fld pl ''continuity_evidence'' = JObj e \<and> fld e ''authority_changed'' = JBool False \<and>
       fld e ''work_ledger_sha256'' = JStr (sha256 w (render d)) \<and> files w' p = Some (render d) \<and>
       fld e ''action_ledger_sha256'' = JStr (sha256 w tq) \<and> files w' q = Some tq)"
proof -
  have wd: "work_disk p w d" using assms(1,2) by (simp add: work_disk_def)
  let ?l = "\<lparr>wl_path = p, wl_data = d, wl_sha = sha256 w (render d)\<rparr>"
  from wd assms(3,6,8) show ?thesis
  proof (rule sync_run)
    fix ts nx al tq now
    let ?e = "[(''evidence_only'', JBool True), (''authority_changed'', JBool False),
           (''work_ledger_updated_at'', fld d ''UPDATED_AT''),
           (''action_ledger_updated_at'', fld al ''UPDATED_AT''),
           (''work_ledger_sha256'', JStr (sha256 w (render d))),
           (''action_ledger_sha256'', JStr (sha256 w tq))]"
    assume ts: "list_open_tasks ?l = Inr ts" and nx: "get_next_action ?l active = Inr nx"
      and al: "dict_wf al" and tq: "files w q = Some tq"
      and pl: "pl = dset ''updated_at'' (JStr now) (dset ''continuity_evidence'' (JObj ?e)
       (dset ''next_action'' (next_action_text nx)
       (dset ''open_tasks'' (JArr (map (\<lambda>t. fld t ''TASK_ID'') ts)) ck)))"
      and v: "validate_checkpoint (JObj pl) = Inr pl" and f: "files w' = (files w)(c \<mapsto> render pl)"
    have "dict_wf d" using assms(1) by (simp add: wl_ok_def)
    then have e: "jwf (JObj ?e)" using jwf_fld [of d] jwf_fld [OF al] by simp
    have ids: "jwf (JArr (map (\<lambda>t. fld t ''TASK_ID'') ts))"
      using list_open_tasks_wf [OF assms(1) _ ts] jwf_fld by simp
    have n: "jwf (next_action_text nx)" using next_action_wf [OF assms(1) _ nx] by simp
    have "dict_wf pl" unfolding pl
      by (intro dict_wf_dset assms(7) ids n e jwf.simps(6) [THEN iffD2] TrueI)
    with v f have "load_checkpoint c ((), w') = (Inr pl, ((), w'))"
      by (intro load_rendered_checkpoint) (simp_all del: jwf.simps)
    moreover have "ts = sort_key open_key (filter open_task (tasks d))"
      using list_open_tasks_Inr [OF ts] by simp
    ultimately show ?thesis using pl f assms(2,4,5) tq by simp
  qed
qed

section \<open>Concrete inputs\<close>

lemma not_space_ascii: "33 \<le> (of_char c :: nat) \<Longrightarrow> (of_char c :: nat) < 127 \<Longrightarrow> \<not> is_space [c]"
  using is_space_Cons_small [of c "[]"] by auto

lemma is_break_space: "is_break g \<Longrightarrow> is_space g"
  by (auto simp: is_break_def is_space_def break_groups_def space_codes_def)

lemma demo_chars:
  "py_chars ''CONFLICT=x'' = map (\<lambda>c. [c]) ''CONFLICT=x''" "py_chars ''x'' = [''x'']"
  by (simp_all add: is_cont_def)

lemma demo_lines: "splitlines ''CONFLICT=x'' = [''CONFLICT=x'']"
proof -
  have "\<not> is_break [c]" if "33 \<le> (of_char c :: nat)" "(of_char c :: nat) < 127" for c
    using that not_space_ascii is_break_space by blast
  then show ?thesis by (simp only: splitlines_def demo_chars) simp
qed

lemma demo_line: "read_line None ''CONFLICT=x'' = (None, Some (''CONFLICT'', None, [(''conflict'', JStr ''x'')]))"
proof -
  have s: "strip ''CONFLICT=x'' = ''CONFLICT=x''" "strip ''x'' = ''x''"
    by (simp_all only: strip_def demo_chars) (simp_all add: not_space_ascii)
  have h: "parse_header ''CONFLICT=x'' = None"
    by (simp only: parse_header_def demo_chars) (simp add: id_at_def prefix_id_def)
  have "parse_field ''CONFLICT=x'' = Some (''CONFLICT'', ''x'')"
    by (simp only: parse_field_def demo_chars)
      (simp add: is_key_char_def is_upper_def is_ascii_digit_def is_digit_def not_space_ascii s)
  with s h show ?thesis
    by (simp add: read_line_def field_event_def EVIDENCE_FIELDS_def)
qed

definition demo_candidate :: "json dict" where
  "demo_candidate =
     [(''kind'', JStr ''STATE_CHANGE''), (''task_id'', JStr ''T-001''),
      (''payload'', JObj [(''state'', JStr ''DONE'')]), (''candidate_only'', JBool True),
      (''authority_granted'', JBool False), (''requires_total_field_verify'', JBool True)]"

definition demo_receipt :: "json dict" where
  "demo_receipt = [(''final_decision'', JStr ''ALLOW''), (''fixed_point_status'', JStr ''REACHED'')]"

abbreviation demo_list :: "json dict list" where
  "demo_list \<equiv> [demo_task ''T-001'' ''DOING'' ''P1'']"

lemma demo_candidate_simps [simp]:
  "candidate_flags demo_candidate" "verified demo_receipt"
  "fld demo_candidate ''kind'' = JStr ''STATE_CHANGE''"
  "fld demo_candidate ''payload'' = JObj [(''state'', JStr ''DONE'')]"
  "fld demo_candidate ''task_id'' = JStr ''T-001''"
  by (simp_all add: candidate_flags_def verified_def) (simp_all add: demo_candidate_def demo_receipt_def)

lemma demo_task_id: "is_task_id ''T-001''"
proof -
  have "py_chars ''T-001'' = map (\<lambda>c. [c]) ''T-001''" by (simp add: is_cont_def)
  moreover have "is_decimal ''0''" "is_decimal ''1''"
    by (simp_all add: is_decimal_def code_point_def decimal_runs_def)
  ultimately show ?thesis
    by (simp only: is_task_id_def) (simp add: id_at_def prefix_id_def)
qed

lemma demo_list_ok:
  "wl_ok (demo_tasks demo_list)" "task_pos (JStr ''T-001'') (demo_tasks demo_list) = Some 0"
  "\<not> closed (tasks (demo_tasks demo_list) ! 0)" "files (demo_disk demo_list) ''W'' = Some (render (demo_tasks demo_list))"
proof -
  show "wl_ok (demo_tasks demo_list)"
    by (intro wl_ok_demo) (auto intro: task_ok_demo simp: ALLOWED_STATES_def distinct_by_def)
  show "task_pos (JStr ''T-001'') (demo_tasks demo_list) = Some 0"
    by (simp add: task_pos_def) (simp add: demo_task_def)
  show "\<not> closed (tasks (demo_tasks demo_list) ! 0)"
    by simp (simp add: closed_def demo_task_def)
qed (simp add: demo_disk_def)

theorem verified_done_completes_task_witness:
  "\<exists>ev t' (w' :: world). apply_conversation_event ev ''W'' ''L'' (demo_disk demo_list) = (Inr (JObj t'), w') \<and>
     fld t' ''STATE'' = JStr ''DONE''"
  using verified_done_completes_task [OF demo_list_ok(1,4) demo_candidate_simps demo_task_id demo_list_ok(2,3)]
  by blast

theorem projection_needs_verification_witness:
  "\<exists>ev. project_verified_conversation_candidate demo_candidate demo_receipt ''W'' (demo_disk demo_list) = Inr (Some ev) \<and>
     fld ev ''TASK_ID'' = JStr ''T-001''"
proof -
  have "open_work_ledger ''W'' (demo_disk demo_list) = Inr (demo_open demo_list)"
    using demo_list_ok(1) by (rule open_demo)
  then have "\<exists>ev. project_verified_conversation_candidate demo_candidate demo_receipt ''W'' (demo_disk demo_list) = Inr (Some ev)"
    using demo_list_ok(2) demo_task_id project_verified [OF demo_candidate_simps(1-3), of "''W''" "demo_disk demo_list"]
    by (simp add: CONVERSATION_EVENT_KINDS_def is_obj_def is_str_def check_def project_kind_def demo_open_def)
  then obtain ev where "project_verified_conversation_candidate demo_candidate demo_receipt ''W'' (demo_disk demo_list) = Inr (Some ev)" ..
  with projection_needs_verification [OF this] show ?thesis by simp
qed

theorem extracted_candidates_project_witness:
  "\<exists>cand. project_verified_conversation_candidate cand demo_receipt ''W'' (demo_disk demo_list) = Inr None"
proof -
  have ex: "extract_conversation_event_candidates (\<lambda>s. s) (JStr ''CONFLICT=x'') (JStr ''c'') = Inr
     [(''schema_version'', JStr CONVERSATION_EVENT_SCHEMA_VERSION),
      (''candidate_only'', JBool True), (''authority_granted'', JBool False),
      (''requires_total_field_verify'', JBool True),
      (''source_coordinate'', JStr ''c''), (''source_sha256'', JStr ''CONFLICT=x''),
      (''events'', JArr [JObj (candidate_record (''CONFLICT'', None, [(''conflict'', JStr ''x'')])
          (JStr ''c'') ''CONFLICT=x'' 1)])]"
    unfolding extraction_lines demo_lines by (simp add: line_candidates_def demo_line)
  let ?c = "candidate_record (''CONFLICT'', None, [(''conflict'', JStr ''x'')]) (JStr ''c'') ''CONFLICT=x'' 1"
  have "fld ?c ''task_id'' = JNull" by (simp add: candidate_record_def opt_str_def)
  with extracted_candidates_project [OF ex _ open_demo [OF demo_list_ok(1)], of ?c demo_receipt]
  show ?thesis by auto
qed

definition demo_checkpoint :: "json dict" where
  "demo_checkpoint =
     [(''mainline'', JStr ''m''), (''current_goal'', JStr ''g''), (''current_state'', JStr ''s''),
      (''last_decision'', JStr ''l''), (''open_tasks'', JArr []), (''next_action'', JStr ''NONE''),
      (''d8'', JStr ''HOLD''), (''hold_reason'', JStr ''h'')]"

definition demo_actions :: "json dict" where
  "demo_actions = [(''LEDGER_VERSION'', JStr ''1.0''), (''UPDATED_AT'', JStr ''t''), (''ACTIONS'', JArr [])]"

definition demo_three :: world where
  "demo_three = \<lparr>files = [''W'' \<mapsto> render (demo_tasks []), ''L'' \<mapsto> render demo_actions,
       ''C'' \<mapsto> render demo_checkpoint], clock = (\<lambda>_. ''t''), ticks = 0, sha256 = (\<lambda>s. s),
     scope_depth = 0, lock_held = False\<rparr>"

lemma demo_validate_checkpoint:
  "fld d ''d8'' = JStr ''HOLD'' \<Longrightarrow> is_arr (fld d ''open_tasks'') \<Longrightarrow>
   \<forall>k \<in> set REQUIRED_CHECKPOINT_FIELDS. dhas d k \<Longrightarrow> validate_checkpoint (JObj d) = Inr d"
  using required_fields_Inr [of "''checkpoint missing fields''" REQUIRED_CHECKPOINT_FIELDS "JObj d" d]
  by (simp add: validate_checkpoint_def check_def D8_VALUES_def)

lemma demo_checkpoint_ok: "validate_checkpoint (JObj demo_checkpoint) = Inr demo_checkpoint"
  by (rule demo_validate_checkpoint)
    (simp_all add: demo_checkpoint_def is_arr_def REQUIRED_CHECKPOINT_FIELDS_def dhas_def)

lemma checkpoint_succeeds:
  assumes "validate_checkpoint (JObj data) = Inr data" and "fld data ''d8'' = JStr ''HOLD''"
    and "is_arr (fld data ''open_tasks'')" and "\<forall>k \<in> set REQUIRED_CHECKPOINT_FIELDS. dhas data k"
  shows "\<exists>pl w'. checkpoint_conversation data c ((), w) = (Inr pl, ((), w'))"
proof -
  have "validate_checkpoint (JObj (dset ''updated_at'' (JStr now) data)) = Inr (dset ''updated_at'' (JStr now) data)" for now
    by (rule demo_validate_checkpoint) (use assms in simp_all)
  then show ?thesis
    by (simp add: checkpoint_conversation_def checkpoint_conversation_unlocked_def
        continuity_effect_scope_def Let_def)
qed

theorem checkpoint_sync_roundtrip_witness:
  "\<exists>pl (w' :: world). sync_checkpoint_evidence ''W'' ''L'' ''C'' [] ((), demo_three) = (Inr pl, ((), w')) \<and>
     load_checkpoint ''C'' ((), w') = (Inr pl, ((), w')) \<and> fld pl ''current_goal'' = JStr ''g''"
proof -
  have ok: "wl_ok (demo_tasks [])" by (rule wl_ok_demo) simp_all
  have al: "al_ok demo_actions" unfolding demo_actions_def by (rule al_ok_empty)
  then have dk: "disk_ok ''L'' demo_three" by (auto simp: disk_ok_def demo_three_def)
  have cwf: "dict_wf demo_checkpoint" by (simp add: demo_checkpoint_def)
  have ld: "load_checkpoint ''C'' ((), demo_three) = (Inr demo_checkpoint, ((), demo_three))"
    by (rule load_rendered_checkpoint [OF cwf demo_checkpoint_ok]) (simp add: demo_three_def)
  let ?w = "demo_three\<lparr>lock_held := True, scope_depth := 1\<rparr>"
  have o: "opened ''W'' ((), ?w) = (Inr \<lparr>wl_path = ''W'', wl_data = demo_tasks [], wl_sha = render (demo_tasks [])\<rparr>, ((), ?w))"
    using open_work_disk [of "''W''" ?w "demo_tasks []"] ok
    by (simp add: opened_def work_disk_def demo_three_def)
  have a: "actions_opened ''L'' ((), ?w) = (Inr \<lparr>al_path = ''L'', al_data = demo_actions\<rparr>, ((), ?w))"
    using parse_render [OF al]
    by (simp add: actions_opened_def open_action_ledger_def load_or_init_def demo_three_def)
  have l: "load_checkpoint ''C'' ((), ?w) = (Inr demo_checkpoint, ((), ?w))"
    by (rule load_checkpoint_same [OF _ ld]) simp
  have t: "list_open_tasks \<lparr>wl_path = ''W'', wl_data = demo_tasks [], wl_sha = render (demo_tasks [])\<rparr> = Inr []"
    by (simp add: list_open_tasks_def)
  have f: "file_sha256 ''W'' ((), ?w) = (Inr (JStr (render (demo_tasks []))), ((), ?w))"
    "file_sha256 ''L'' ((), ?w) = (Inr (JStr (render demo_actions)), ((), ?w))"
    by (simp_all add: file_sha256_def demo_three_def)
  let ?d = "dset ''continuity_evidence'' (JObj
          [(''evidence_only'', JBool True), (''authority_changed'', JBool False),
           (''work_ledger_updated_at'', fld (demo_tasks []) ''UPDATED_AT''),
           (''action_ledger_updated_at'', fld demo_actions ''UPDATED_AT''),
           (''work_ledger_sha256'', JStr (render (demo_tasks []))),
           (''action_ledger_sha256'', JStr (render demo_actions))])
       (dset ''next_action'' (JStr ''NONE'') (dset ''open_tasks'' (JArr []) demo_checkpoint))"
  have d: "fld ?d ''d8'' = JStr ''HOLD''" "is_arr (fld ?d ''open_tasks'')"
    "\<forall>k \<in> set REQUIRED_CHECKPOINT_FIELDS. dhas ?d k"
    by (simp_all add: is_arr_def REQUIRED_CHECKPOINT_FIELDS_def) (simp_all add: demo_checkpoint_def dhas_def)
  from checkpoint_succeeds [OF demo_validate_checkpoint [OF d] d, of "''C''" ?w]
  obtain pl w1 where c: "checkpoint_conversation ?d ''C'' ((), ?w) = (Inr pl, ((), w1))" by blast
  have "sync_checkpoint_evidence_locked ''W'' ''L'' ''C'' [] ((), ?w) = (Inr pl, ((), w1))"
    using o a l t f c
    by (simp add: sync_checkpoint_evidence_locked_def get_next_action_def next_action_text_def)
  then have run: "sync_checkpoint_evidence ''W'' ''L'' ''C'' [] ((), demo_three) =
      (Inr pl, ((), w1\<lparr>scope_depth := 0, lock_held := False\<rparr>))"
    by (simp add: sync_checkpoint_evidence_def continuity_effect_scope_def demo_three_def)
  have "files demo_three ''W'' = Some (render (demo_tasks []))" by (simp add: demo_three_def)
  from checkpoint_sync_roundtrip [OF ok this dk _ _ ld cwf run] run
  show ?thesis by (auto simp: demo_checkpoint_def)
qed

end
