(* ===== verification/PyTime.thy ===== *)
theory PyTime
  imports PyStr
begin

text \<open>
  \<open>datetime.fromisoformat\<close> and instants: the formats that Python 3.7 to 3.10 accept
  (a date, then any separator and a time with minutes, seconds and three or six digits of
  fraction, then an offset), which include every text of \<open>datetime.isoformat\<close>.  Later
  versions accept more formats; the model answers those with an error.  An instant is a number
  of microseconds in UTC; a datetime without offset is naive.
\<close>

section \<open>Fields of digits\<close>

definition two_digits :: "string \<Rightarrow> nat option" where
  "two_digits s = (if length s = 2 \<and> list_all is_digit s then Some (read_nat s) else None)"

definition days_in_month :: "nat \<Rightarrow> nat \<Rightarrow> nat" where
  "days_in_month y m =
     (if m = 2 then (if y mod 4 = 0 \<and> (y mod 100 \<noteq> 0 \<or> y mod 400 = 0) then 29 else 28)
      else if m \<in> {4, 6, 9, 11} then 30 else 31)"

text \<open>The day number of the proleptic Gregorian calendar, \<open>date.toordinal\<close>.\<close>

definition ordinal :: "nat \<Rightarrow> nat \<Rightarrow> nat \<Rightarrow> nat" where
  "ordinal y m d =
     365 * (y - 1) + (y - 1) div 4 - (y - 1) div 100 + (y - 1) div 400
       + sum_list (map (days_in_month y) [1..<m]) + d"

definition iso_date :: "string \<Rightarrow> nat option" where
  "iso_date s =
     (let ys = take 4 s; ms = take 2 (drop 5 s); ds = take 2 (drop 8 s) in
      if length s = 10 \<and> list_all is_digit ys \<and> s ! 4 = CHR ''-'' \<and> s ! 7 = CHR ''-'' then
        (case (two_digits ms, two_digits ds) of
           (Some m, Some d) \<Rightarrow>
             if 1 \<le> read_nat ys \<and> 1 \<le> m \<and> m \<le> 12 \<and> 1 \<le> d \<and> d \<le> days_in_month (read_nat ys) m
             then Some (ordinal (read_nat ys) m d) else None
         | _ \<Rightarrow> None)
      else None)"

text \<open>\<open>HH[:MM[:SS[.fff[fff]]]]\<close>: hours, minutes, seconds and microseconds.\<close>

definition iso_fraction :: "string \<Rightarrow> nat option" where
  "iso_fraction s =
     (case s of
        [] \<Rightarrow> Some 0
      | c # f \<Rightarrow>
          if c = CHR ''.'' \<and> list_all is_digit f \<and> length f = 3 then Some (read_nat f * 1000)
          else if c = CHR ''.'' \<and> list_all is_digit f \<and> length f = 6 then Some (read_nat f)
          else None)"

definition iso_clock :: "string \<Rightarrow> (nat \<times> nat \<times> nat \<times> nat) option" where
  "iso_clock s =
     (case two_digits (take 2 s) of
        None \<Rightarrow> None
      | Some h \<Rightarrow>
          if length s = 2 then Some (h, 0, 0, 0)
          else if s ! 2 \<noteq> CHR '':'' then None
          else case two_digits (take 2 (drop 3 s)) of
            None \<Rightarrow> None
          | Some m \<Rightarrow>
              if length s = 5 then Some (h, m, 0, 0)
              else if s ! 5 \<noteq> CHR '':'' then None
              else case (two_digits (take 2 (drop 6 s)), iso_fraction (drop 8 s)) of
                (Some sec, Some us) \<Rightarrow> Some (h, m, sec, us)
              | _ \<Rightarrow> None)"

definition microseconds :: "nat \<times> nat \<times> nat \<times> nat \<Rightarrow> int" where
  "microseconds t = (case t of (h, m, s, us) \<Rightarrow>
     ((int h * 60 + int m) * 60 + int s) * 1000000 + int us)"

definition is_sign :: "char \<Rightarrow> bool" where
  "is_sign c \<longleftrightarrow> c = CHR ''+'' \<or> c = CHR ''-''"

definition day_us :: int where
  "day_us = 86400 * 1000000"

text \<open>The time with its offset, if it has one; the offset is less than a day.\<close>

definition iso_offset :: "string \<Rightarrow> (int option) option" where
  "iso_offset s =
     (case s of
        [] \<Rightarrow> Some None
      | c # z \<Rightarrow>
          if length z \<notin> {5, 8, 15} then None
          else map_option (\<lambda>t. Some (if c = CHR ''-'' then - microseconds t else microseconds t))
                 (iso_clock z))"

definition iso_time :: "string \<Rightarrow> (int \<times> int option) option" where
  "iso_time s =
     (case (iso_clock (takeWhile (\<lambda>c. \<not> is_sign c) s), iso_offset (dropWhile (\<lambda>c. \<not> is_sign c) s)) of
        (Some (h, m, sec, us), Some off) \<Rightarrow>
          if h < 24 \<and> m < 60 \<and> sec < 60 \<and> (case off of None \<Rightarrow> True | Some z \<Rightarrow> \<bar>z\<bar> < day_us)
          then Some (microseconds (h, m, sec, us), off) else None
      | _ \<Rightarrow> None)"

section \<open>Instants\<close>

datatype stamp_value = Naive int | Instant int

definition fromisoformat :: "string \<Rightarrow> stamp_value option" where
  "fromisoformat s =
     (let gs = py_chars s; date = concat (take 10 gs); time = concat (drop 11 gs) in
      case iso_date date of
        None \<Rightarrow> None
      | Some day \<Rightarrow>
          if time = [] then Some (Naive (int day * day_us))
          else map_option (\<lambda>(t, off).
                 case off of None \<Rightarrow> Naive (int day * day_us + t)
                 | Some z \<Rightarrow> Instant (int day * day_us + t - z)) (iso_time time))"

text \<open>
  \<open>astimezone(timezone.utc)\<close> of an instant: one before year 1 or after year 9999 has no
  datetime in UTC and raises \<open>OverflowError\<close>.
\<close>

definition in_calendar :: "int \<Rightarrow> bool" where
  "in_calendar t \<longleftrightarrow> day_us \<le> t \<and> t < 3652060 * day_us"

definition as_utc :: "int \<Rightarrow> py_error + int" where
  "as_utc t = (if in_calendar t then Inr t else Inl (OverflowError ''date value out of range''))"

lemma as_utc_Inr [simp]: "as_utc t = Inr u \<longleftrightarrow> in_calendar t \<and> u = t"
  by (auto simp: as_utc_def)

end
