(* ===== verification/EffectGate.thy ===== *)
theory EffectGate
  imports PyRepr PyTime
begin

text \<open>
  \<open>core/external_effect_gate.py\<close>: the gate for effects made through external tools.  The time
  of the call is the argument \<open>current\<close>, in microseconds (the code takes it from the caller or
  from the clock).
\<close>

section \<open>Membership\<close>

text \<open>
  Python's \<open>x in v\<close> for a JSON value: an equal element of a list, a key of a dictionary, a
  substring of a string; other values have no membership.
\<close>

definition py_in :: "json \<Rightarrow> json \<Rightarrow> py_error + bool" where
  "py_in x v =
     (case v of
        JArr xs \<Rightarrow> Inr (\<exists>y \<in> set xs. pyeq x y)
      | JObj d \<Rightarrow> (if hashable x then Inr (\<exists>k \<in> set (dkeys d). x = JStr k)
                   else Inl (TypeError ''unhashable type''))
      | JStr s \<Rightarrow> (case x of JStr p \<Rightarrow> Inr (contains s p)
                   | _ \<Rightarrow> Inl (TypeError ''in <string> requires string as left operand''))
      | _ \<Rightarrow> Inl (TypeError ''argument is not iterable''))"

definition READ_ONLY_OPERATIONS :: "string list" where
  "READ_ONLY_OPERATIONS =
     [''observe'', ''read'', ''list'', ''search'', ''inspect'', ''status'', ''health'', ''screenshot'']"

definition PERMIT_FIELDS :: "string list" where
  "PERMIT_FIELDS =
     [''task_id'', ''node'', ''object_ref'', ''operation'', ''preimage_ref'', ''rollback_ref'',
      ''expires_at'', ''authority_ref'', ''authorized_effect'']"

definition effect_hold :: "bool \<Rightarrow> string \<Rightarrow> py_error + unit" where
  "effect_hold ok reason = check ok (ExternalEffectHold reason)"

definition utc :: "string \<Rightarrow> py_error + int" where
  "utc v =
     (case fromisoformat (replace_all ''Z'' ''+00:00'' v) of
        None \<Rightarrow> Inl (ValueError ''Invalid isoformat string'')
      | Some (Naive _) \<Rightarrow> Inl (ExternalEffectHold ''HOLD_EFFECT_PERMIT_TTL_TIMEZONE_REQUIRED'')
      | Some (Instant t) \<Rightarrow> as_utc t)"

definition load_active_authority :: "string \<Rightarrow> world \<Rightarrow> py_error + json dict" where
  "load_active_authority path w =
     (case (case files w path of None \<Rightarrow> None | Some t \<Rightarrow> loads t) of
        None \<Rightarrow> Inl (ExternalEffectHold ''HOLD_ACTIVE_TOTAL_FIELD_AUTHORITY_UNREADABLE'')
      | Some v \<Rightarrow>
          (case v of
             JObj d \<Rightarrow>
               e_bind (effect_hold (get_or_none d ''state'' = JStr ''ACTIVE_TOTAL_FIELD_AUTHORITY'')
                         ''HOLD_ACTIVE_TOTAL_FIELD_AUTHORITY_INVALID'') (\<lambda>_. Inr d)
           | _ \<Rightarrow> Inl (ExternalEffectHold ''HOLD_ACTIVE_TOTAL_FIELD_AUTHORITY_INVALID'')))"

definition get_list :: "json dict \<Rightarrow> string \<Rightarrow> json" where
  "get_list d k = (case dget d k of Some v \<Rightarrow> v | None \<Rightarrow> JArr [])"

definition authorize_external_effect ::
  "string \<Rightarrow> string \<Rightarrow> string \<Rightarrow> string \<Rightarrow> json \<Rightarrow> string \<Rightarrow> int \<Rightarrow> world \<Rightarrow> py_error + json dict" where
  "authorize_external_effect task_id node object_ref operation permit authority_path current w =
     (if lower (strip operation) \<in> set READ_ONLY_OPERATIONS
      then Inr [(''state'', JStr ''ALLOW_READ_ONLY_EXTERNAL_OBSERVATION''),
                (''effect_authority'', JBool False), (''mutation'', JBool False)]
      else case permit of
        JObj p \<Rightarrow>
          e_bind (effect_hold (set (dkeys p) = set PERMIT_FIELDS) ''HOLD_EFFECT_PERMIT_SHAPE_INVALID'') (\<lambda>_.
          e_bind (effect_hold (\<forall>(k, v) \<in> set [(''task_id'', task_id), (''node'', node),
                      (''object_ref'', object_ref), (''operation'', operation)]. fld p k = JStr v)
                    ''HOLD_EFFECT_PERMIT_COORDINATE_MISMATCH'') (\<lambda>_.
          e_bind (effect_hold (truthy (fld p ''preimage_ref'') \<and> truthy (fld p ''rollback_ref''))
                    ''HOLD_EFFECT_PERMIT_RECOVERY_COORDINATE_MISSING'') (\<lambda>_.
          e_bind (load_active_authority authority_path w) (\<lambda>authority.
          e_bind (effect_hold (fld p ''authority_ref'' = JStr authority_path)
                    ''HOLD_EFFECT_PERMIT_AUTHORITY_REF_MISMATCH'') (\<lambda>_.
          let effect = fld p ''authorized_effect'' in
          e_bind (py_in effect (get_list authority ''prohibited_effects'')) (\<lambda>prohibited.
          e_bind (effect_hold (\<not> prohibited) ''HOLD_EXTERNAL_EFFECT_PROHIBITED'') (\<lambda>_.
          e_bind (py_in effect (get_list authority ''allowed_effects'')) (\<lambda>allowed.
          e_bind (effect_hold allowed ''HOLD_EXTERNAL_EFFECT_NOT_ALLOWED_BY_TOTAL_FIELD'') (\<lambda>_.
          e_bind (utc (py_str (fld p ''expires_at''))) (\<lambda>expires.
          e_bind (effect_hold (current < expires) ''HOLD_EFFECT_PERMIT_EXPIRED'') (\<lambda>_.
          Inr [(''state'', JStr ''ALLOW_EXACT_EXTERNAL_EFFECT''), (''effect_authority'', JBool True),
               (''mutation'', JBool True), (''authorized_effect'', effect), (''task_id'', JStr task_id),
               (''node'', JStr node), (''object_ref'', JStr object_ref), (''operation'', JStr operation)])))))))))))
      | _ \<Rightarrow> Inl (ExternalEffectHold ''HOLD_EXTERNAL_MUTATION_EFFECT_PERMIT_REQUIRED''))"

section \<open>When an effect is authorised\<close>

text \<open>What the permit and the active authority must say.\<close>

definition permit_covers :: "json dict \<Rightarrow> string \<Rightarrow> string \<Rightarrow> string \<Rightarrow> string \<Rightarrow> string \<Rightarrow> bool" where
  "permit_covers p task_id node object_ref operation authority_path \<longleftrightarrow>
     set (dkeys p) = set PERMIT_FIELDS \<and>
     fld p ''task_id'' = JStr task_id \<and> fld p ''node'' = JStr node \<and>
     fld p ''object_ref'' = JStr object_ref \<and> fld p ''operation'' = JStr operation \<and>
     truthy (fld p ''preimage_ref'') \<and> truthy (fld p ''rollback_ref'') \<and>
     fld p ''authority_ref'' = JStr authority_path"

definition authority_allows :: "world \<Rightarrow> string \<Rightarrow> json \<Rightarrow> bool" where
  "authority_allows w path effect \<longleftrightarrow>
     (\<exists>a. load_active_authority path w = Inr a \<and>
        py_in effect (get_list a ''prohibited_effects'') = Inr False \<and>
        py_in effect (get_list a ''allowed_effects'') = Inr True)"

lemma effect_hold_Inr [simp]: "effect_hold ok r = Inr u \<longleftrightarrow> ok"
  by (simp add: effect_hold_def)

lemma effect_hold_cases: "effect_hold ok r = (if ok then Inr () else Inl (ExternalEffectHold r))"
  by (simp add: effect_hold_def check_def)

lemma utc_Inr:
  "utc v = Inr t \<longleftrightarrow> fromisoformat (replace_all ''Z'' ''+00:00'' v) = Some (Instant t) \<and> in_calendar t"
  by (auto simp: utc_def split: option.splits stamp_value.splits)

text \<open>An offset can move the last hours of year 9999 out of the calendar; such a permit is refused.\<close>

lemma utc_beyond_calendar:
  "utc ''9999-12-31T23:59:59-01:00'' = Inl (OverflowError ''date value out of range'')"
proof -
  have num: "read_nat ''9999'' = 9999" "read_nat ''12'' = 12" "read_nat ''31'' = 31"
    by (simp_all add: read_nat_def digit_val_def)
  have "ordinal 9999 12 31 = 3652059" by (simp add: ordinal_def days_in_month_def upt_rec)
  then have day: "iso_date ''9999-12-31'' = Some 3652059"
    by (simp add: iso_date_def two_digits_def num days_in_month_def Let_def is_digit_def)
  have time: "iso_time ''23:59:59-01:00'' = Some (86399000000, Some (- 3600000000))" by code_simp
  have spelled: "replace_all ''Z'' ''+00:00'' ''9999-12-31T23:59:59-01:00'' = ''9999-12-31T23:59:59-01:00''"
    by code_simp
  have "[concat (take 10 gs), concat (drop 11 gs)] = [''9999-12-31'', ''23:59:59-01:00'']"
    if "gs = py_chars ''9999-12-31T23:59:59-01:00''" for gs
    unfolding that by code_simp
  then show ?thesis
    by (simp add: utc_def fromisoformat_def spelled Let_def day time day_us_def as_utc_def in_calendar_def)
qed

lemma authorized_mutation:
  "(\<exists>r. authorize_external_effect t n ref op (JObj p) path now w = Inr r \<and> fld r ''mutation'' = JBool True) \<longleftrightarrow>
   lower (strip op) \<notin> set READ_ONLY_OPERATIONS \<and> permit_covers p t n ref op path \<and>
   authority_allows w path (fld p ''authorized_effect'') \<and>
   (\<exists>expires. utc (py_str (fld p ''expires_at'')) = Inr expires \<and> now < expires)"
  (is "?auth \<longleftrightarrow> ?cond")
proof
  assume ?auth
  then show ?cond
    by (auto simp: authorize_external_effect_def e_bind_InrD Let_def permit_covers_def
        authority_allows_def split: if_splits)
next
  assume c: ?cond
  then obtain a expires where "load_active_authority path w = Inr a"
    "py_in (fld p ''authorized_effect'') (get_list a ''prohibited_effects'') = Inr False"
    "py_in (fld p ''authorized_effect'') (get_list a ''allowed_effects'') = Inr True"
    "utc (py_str (fld p ''expires_at'')) = Inr expires" "now < expires"
    by (auto simp: authority_allows_def)
  with c show ?auth
    by (simp add: authorize_external_effect_def permit_covers_def effect_hold_cases)
qed

text \<open>
  C38: A mutation is authorised exactly when the operation is not a read-only one and a permit
  with exactly the nine fields names this task, node, object and operation, has a preimage and a
  rollback reference, refers to the active authority, which allows its effect and does not
  prohibit it, and its expiry reads as an instant with an offset, inside the years that UTC can
  represent, strictly after the time of the call.
\<close>

theorem mutation_authorized_iff:
  "(\<exists>r. authorize_external_effect t n ref op (JObj p) path now w = Inr r \<and> fld r ''mutation'' = JBool True) \<longleftrightarrow>
   lower (strip op) \<notin> set READ_ONLY_OPERATIONS \<and> permit_covers p t n ref op path \<and>
   authority_allows w path (fld p ''authorized_effect'') \<and>
   (\<exists>expires. fromisoformat (replace_all ''Z'' ''+00:00'' (py_str (fld p ''expires_at''))) = Some (Instant expires) \<and>
      in_calendar expires \<and> now < expires)"
  unfolding authorized_mutation utc_Inr by blast

end
