(* ===== verification/ResourceProbes.thy ===== *)
theory ResourceProbes
  imports EffectGate ConversationEvents
begin

text \<open>
  \<open>core/resource_arbitration.py\<close>, the probes that observe each resource.  What a probe sees of
  the outside is in a record: the body each probe reads from a URL (by the probe's resource
  identifier), the files, the outcome of each subprocess (\<open>None\<close> when starting it raises), the
  environment variable, the adapters found by \<open>glob\<close> in sorted order, and each probe's clock.
  A response is cut after 128 KiB, as the code does.
\<close>

section \<open>Observations\<close>

record observations =
  http_body :: "string \<Rightarrow> string \<Rightarrow> string option"
  disk :: "string \<Rightarrow> string option"
  tailscale_status :: "(int \<times> string) option"
  lan_ping :: "int option"
  tailnet_ping :: "int option"
  listeners :: "string option"
  cloud_model_env :: string
  org_adapters :: "string list"
  probe_clock :: "string \<Rightarrow> string"
  set_order :: "string list \<Rightarrow> string list"

definition http_json :: "observations \<Rightarrow> string \<Rightarrow> string \<Rightarrow> json option" where
  "http_json obs probe url =
     (case http_body obs probe url of None \<Rightarrow> None | Some raw \<Rightarrow> loads (take (128 * 1024) raw))"

definition health_ok :: "observations \<Rightarrow> string \<Rightarrow> string \<Rightarrow> bool" where
  "health_ok obs probe url \<longleftrightarrow> http_json obs probe url \<noteq> None"

definition is_file :: "observations \<Rightarrow> string \<Rightarrow> bool" where
  "is_file obs path \<longleftrightarrow> disk obs path \<noteq> None"

text \<open>\<open>root / relative\<close>; a file that cannot be read or parsed counts as the empty object.\<close>

definition path_join :: "string \<Rightarrow> string \<Rightarrow> string" where
  "path_join root rel = (if root = ''/'' then root @ rel else root @ ''/'' @ rel)"

definition read_json_or_empty :: "observations \<Rightarrow> string \<Rightarrow> json" where
  "read_json_or_empty obs path =
     (case (case disk obs path of None \<Rightarrow> None | Some t \<Rightarrow> loads t) of
        None \<Rightarrow> JObj [] | Some v \<Rightarrow> v)"

definition DEFAULT_ROOT :: string where
  "DEFAULT_ROOT = ''/home/taiji_admin/Taiji_Hub''"

section \<open>The common part of a resource\<close>

definition resource_base ::
  "observations \<Rightarrow> string \<Rightarrow> string \<Rightarrow> string \<Rightarrow> string \<Rightarrow> string \<Rightarrow> json dict" where
  "resource_base obs resource_id resource_type node provider model_or_service =
      [(''RESOURCE_ID'', JStr resource_id), (''RESOURCE_TYPE'', JStr resource_type),
       (''NODE'', JStr node), (''PROVIDER'', JStr provider),
       (''MODEL_OR_SERVICE'', JStr model_or_service), (''CURRENT_STATE'', JStr ''UNKNOWN''),
       (''CAPABILITY_SET'', str_list []), (''CONTEXT_LOCATION'', JStr node),
       (''PRIVACY_CLASS'', JStr ''UNKNOWN''), (''AUTHORITY_CLASS'', JStr ''NONE''),
       (''COST_CLASS'', JStr ''UNKNOWN''), (''SUBSCRIPTION_CLASS'', JStr ''UNKNOWN''),
       (''LATENCY_CLASS'', JStr ''UNKNOWN''), (''TRANSFER_COST'', JStr ''UNKNOWN''),
       (''TOOL_CAPABILITY'', JStr ''NONE''), (''VERIFICATION_COST'', JStr ''UNKNOWN''),
       (''RECOVERY_DISTANCE'', JStr ''UNKNOWN''),
       (''OBSERVED_AT'', JStr (probe_clock obs resource_id)), (''EVIDENCE_REFS'', str_list [])]"

section \<open>The router's children\<close>

definition router_common :: "string \<Rightarrow> json \<Rightarrow> json dict" where
  "router_common location capabilities =
      [(''CURRENT_STATE'', JStr ''REGISTERED_AVAILABLE_RESOURCE''),
       (''CAPABILITY_SET'', capabilities), (''CONTEXT_LOCATION'', JStr location),
       (''PRIVACY_CLASS'', JStr ''ROUTER_FABRIC''),
       (''AUTHORITY_CLASS'', JStr ''RESOURCE_CAPABILITY_NOT_D8''),
       (''COST_CLASS'', JStr ''REGISTERED_RESOURCE''),
       (''SUBSCRIPTION_CLASS'', JStr ''SYSTEM_RESOURCE''),
       (''LATENCY_CLASS'', JStr ''ROUTER_DEPENDENT''),
       (''TRANSFER_COST'', JStr ''ADI_AFFECTED_CLOSURE_ONLY''),
       (''VERIFICATION_COST'', JStr ''REOBSERVE_BEFORE_EFFECT''),
       (''RECOVERY_DISTANCE'', JStr ''ROUTER_DEPENDENT'')]"

definition router_node :: "observations \<Rightarrow> string \<Rightarrow> string \<Rightarrow> json dict \<Rightarrow> py_error + json dict" where
  "router_node obs topology_path name meta =
     e_bind (py_list (or_else (get_or_none meta ''role'') (JArr []))) (\<lambda>roles.
     Inr (dmerge (resource_base obs (''ROUTER_NODE_'' @ upper name) ''ROUTER_CHILD_NODE'' name ''TAIJI_ROUTER'' name)
       (router_common (''router://nodes/'' @ name) (JArr roles) @
      [(''TOOL_CAPABILITY'', JStr ''ROUTER_DISPATCHABLE_RESOURCE''),
       (''MAX_AUTHORITY_LEVEL'', get_or_none meta ''max_authority_level''),
       (''EVIDENCE_REFS'', str_list [topology_path, ''router://nodes/'' @ name])])))"

fun router_nodes :: "observations \<Rightarrow> string \<Rightarrow> json dict \<Rightarrow> py_error + json dict list" where
  "router_nodes obs path [] = Inr []"
| "router_nodes obs path ((name, meta) # rest) =
     (case meta of
        JObj m \<Rightarrow>
          e_bind (router_node obs path name m) (\<lambda>r.
          e_bind (router_nodes obs path rest) (\<lambda>rs. Inr (r # rs)))
      | _ \<Rightarrow> router_nodes obs path rest)"

definition router_service :: "observations \<Rightarrow> string \<Rightarrow> string \<Rightarrow> json \<Rightarrow> json dict" where
  "router_service obs topology_path name endpoint =
     dmerge (resource_base obs (''ROUTER_SERVICE_'' @ upper name) ''ROUTER_CHILD_SERVICE'' ''taiji01-router''
               ''TAIJI_ROUTER'' name)
       (router_common (''router://services/'' @ name) (str_list [name]) @
      [(''TOOL_CAPABILITY'', JStr ''ROUTER_SERVICE''), (''ENDPOINT'', endpoint),
       (''EVIDENCE_REFS'', str_list [topology_path, ''router://services/'' @ name])])"

definition probe_router_resource_fabric :: "observations \<Rightarrow> string \<Rightarrow> py_error + json dict list" where
  "probe_router_resource_fabric obs root =
     (let path = path_join root ''configs/taiji_topology.json'';
          topo = read_json_or_empty obs path in
      e_bind (get_attr topo ''nodes'' JNull) (\<lambda>nodes.
      e_bind (items_of (or_else nodes (JObj []))) (\<lambda>nodes.
      e_bind (router_nodes obs path nodes) (\<lambda>rs.
      e_bind (get_attr topo ''services'' JNull) (\<lambda>services.
      e_bind (items_of (or_else services (JObj []))) (\<lambda>services.
      Inr (rs @ map (\<lambda>(name, endpoint). router_service obs path name endpoint) services)))))))"

section \<open>The two information nodes\<close>

definition probe_taiji01_node :: "observations \<Rightarrow> json dict" where
  "probe_taiji01_node obs =
     (let total_ok = health_ok obs ''TAIJI01_NODE'' ''http://127.0.0.1:8082/healthz'';
          adi_ok = health_ok obs ''TAIJI01_NODE'' ''http://127.0.0.1:9110/health'' in
      dmerge (resource_base obs ''TAIJI01_NODE'' ''SERVER_NODE'' ''taiji01'' ''W7TP_LOCAL'' ''taiji01 Server'')
      [(''CURRENT_STATE'', JStr (if total_ok \<or> adi_ok then ''AVAILABLE_CONNECTED'' else ''HOLD_NODE_UNAVAILABLE'')),
       (''CAPABILITY_SET'', str_list [''INFORMATION_SEARCH_NODE'', ''SERVER_FIRST_DEVELOPMENT'', ''CPU'', ''RAM'', ''STORAGE'', ''RUNTIME'', ''TOTAL_FIELD_HOST'', ''NATIVE_ADI_HOST'', ''EVIDENCE_CONVERGENCE'', ''FORMAL_EFFECT_HOST'']),
       (''CONTEXT_LOCATION'', JStr ''taiji01:/home/taiji_admin/Taiji_Hub''),
       (''PRIVACY_CLASS'', JStr ''LOCAL_SERVER_NODE''),
       (''AUTHORITY_CLASS'', JStr ''TOTAL_FIELD_HOST_EFFECT_BOUNDARY''),
       (''COST_CLASS'', JStr ''OWNED_LOCAL_COMPUTE''), (''SUBSCRIPTION_CLASS'', JStr ''OWNED''),
       (''LATENCY_CLASS'', JStr ''LOCAL''), (''TRANSFER_COST'', JStr ''LOW''),
       (''TOOL_CAPABILITY'', JStr ''SERVER_RUNTIME_AND_INFORMATION_SEARCH''),
       (''VERIFICATION_COST'', JStr ''LOW''),
       (''RECOVERY_DISTANCE'', JStr ''SHORTEST_AUTHORITY_PATH''),
       (''EVIDENCE_REFS'', str_list [''http://127.0.0.1:8082/healthz'', ''http://127.0.0.1:9110/health'', ''taiji01:/home/taiji_admin/Taiji_Hub''])])"

definition MSI_LAN_IP :: string where "MSI_LAN_IP = ''192.168.50.82''"

definition MSI_WINDOWS_TAILSCALE_IP :: string where "MSI_WINDOWS_TAILSCALE_IP = ''100.105.82.28''"

definition MSI_LAN_OLLAMA_URL :: string where
  "MSI_LAN_OLLAMA_URL = ''http://'' @ MSI_LAN_IP @ '':11435''"

definition MSI_WINDOWS_TAILSCALE_OLLAMA_URL :: string where
  "MSI_WINDOWS_TAILSCALE_OLLAMA_URL = ''http://'' @ MSI_WINDOWS_TAILSCALE_IP @ '':11434''"

text \<open>The LAN is tried first; the tailnet only when the LAN does not answer.\<close>

definition msi_route :: "observations \<Rightarrow> bool \<times> string \<times> string" where
  "msi_route obs =
     (if lan_ping obs = Some 0 then (True, ''LAN_REACHABLE'', ''LAN_PRIMARY'')
      else if tailnet_ping obs = Some 0
      then (True, ''TAILSCALE_WINDOWS_DIRECT_OR_RELAY_REACHABLE'', ''TAILSCALE_WINDOWS_FALLBACK'')
      else (False, ''UNKNOWN'', ''NONE''))"

definition probe_msi_node :: "observations \<Rightarrow> json dict" where
  "probe_msi_node obs =
     (case msi_route obs of (reachable, latency, route) \<Rightarrow>
      dmerge (resource_base obs ''MSI_NODE'' ''DEVELOPER_NODE'' ''MSI'' ''W7TP_LOCAL'' ''MSI Developer Device'')
      [(''CURRENT_STATE'', JStr (if reachable then ''AVAILABLE_CONNECTED'' else ''HOLD_NODE_UNREACHABLE'')),
       (''CAPABILITY_SET'', str_list [''DEVELOPER_DEVICE'', ''DESIGN_SOURCE'', ''EXPERIMENT_SOURCE'', ''GPU_VRAM'', ''WINDOWS'', ''WSL'', ''LOCAL_REPO'', ''LOCAL_SKILLS'', ''LOCAL_MODELS'', ''BROWSER_IDE'', ''ENGINEERING_EVIDENCE_SOURCE'']),
       (''CONTEXT_LOCATION'', JStr ''MSI_DEVELOPER_DEVICE''),
       (''PRIVACY_CLASS'', JStr ''LOCAL_DEVELOPER_NODE''),
       (''AUTHORITY_CLASS'', JStr ''CAPABILITY_SOURCE_NOT_D8''),
       (''COST_CLASS'', JStr ''OWNED_LOCAL_COMPUTE''), (''SUBSCRIPTION_CLASS'', JStr ''OWNED''),
       (''LATENCY_CLASS'', JStr latency), (''NETWORK_ROUTE'', JStr route),
       (''TRANSFER_COST'', JStr ''ADI_AFFECTED_CLOSURE_ONLY''),
       (''TOOL_CAPABILITY'', JStr ''REMOTE_NODE_CAPABILITY_SOURCE''),
       (''VERIFICATION_COST'', JStr ''LOCALIZE_AND_REOBSERVE''),
       (''RECOVERY_DISTANCE'', JStr ''SHORT''),
       (''EVIDENCE_REFS'', str_list [''lan://MSI/'' @ MSI_LAN_IP, ''tailscale-windows://MSI/'' @ MSI_WINDOWS_TAILSCALE_IP, MSI_LAN_OLLAMA_URL, MSI_WINDOWS_TAILSCALE_OLLAMA_URL, ''MSI:/home/taiji_admin/Taiji_Hub'', ''MSI:/home/taiji_admin/Taiji_Hub/.skill-build'', ''MSI:/home/taiji_admin/Taiji_Hub/docs'', ''MSI:/home/taiji_admin/Taiji_Hub/runtime'', ''MSI:/home/taiji_admin/Taiji_Hub/products'', ''MSI:/home/taiji_admin/Taiji_Hub/tests''])])"

section \<open>Tailnet peers\<close>

definition is_host_char :: "string \<Rightarrow> bool" where
  "is_host_char g \<longleftrightarrow>
     (case g of [c] \<Rightarrow> is_digit c \<or> (65 \<le> (of_char c :: nat) \<and> (of_char c :: nat) \<le> 90)
                 \<or> (97 \<le> (of_char c :: nat) \<and> (of_char c :: nat) \<le> 122) \<or> c \<in> set ''_.:-''
      | _ \<Rightarrow> False)"

text \<open>Every maximal run of other characters becomes one hyphen.\<close>

fun hyphenate :: "bool \<Rightarrow> string list \<Rightarrow> string" where
  "hyphenate in_run [] = []"
| "hyphenate in_run (g # gs) =
     (if is_host_char g then g @ hyphenate False gs
      else if in_run then hyphenate True gs else CHR ''-'' # hyphenate True gs)"

definition strip_hyphens :: "string \<Rightarrow> string" where
  "strip_hyphens s =
     rev (dropWhile (\<lambda>c. c = CHR ''-'') (rev (dropWhile (\<lambda>c. c = CHR ''-'') s)))"

definition peer_id :: "string \<Rightarrow> string" where
  "peer_id host =
     (let s = strip_hyphens (hyphenate False (py_chars host)) in if s = [] then ''peer'' else s)"

definition tailnet_node :: "observations \<Rightarrow> string \<Rightarrow> json list \<Rightarrow> bool \<Rightarrow> json dict" where
  "tailnet_node obs host ips online =
     dmerge (resource_base obs (''TAILNET_NODE:'' @ peer_id host) ''DISTRIBUTED_COMPUTE_NODE'' host ''TAILSCALE'' host)
      [(''CURRENT_STATE'', JStr (if online then ''AVAILABLE_NETWORK_REACHABLE'' else ''REGISTERED_OFFLINE'')),
       (''CAPABILITY_SET'', str_list [''DISTRIBUTED_NODE'', ''NETWORK_RESOURCE'']),
       (''CONTEXT_LOCATION'', JStr host), (''PRIVACY_CLASS'', JStr ''TAILNET_NODE''),
       (''AUTHORITY_CLASS'', JStr ''CAPABILITY_SOURCE_NOT_D8''),
       (''COST_CLASS'', JStr ''NODE_SPECIFIC''),
       (''SUBSCRIPTION_CLASS'', JStr ''REGISTERED_RESOURCE''),
       (''LATENCY_CLASS'', JStr ''TAILNET''), (''TRANSFER_COST'', JStr ''ROUTED_BY_8D_ADI''),
       (''TOOL_CAPABILITY'', JStr ''NODE_CAPABILITY_TO_BE_LOCALIZED''),
       (''VERIFICATION_COST'', JStr ''PROBE_BEFORE_USE''),
       (''RECOVERY_DISTANCE'', JStr ''NODE_SPECIFIC''),
       (''EVIDENCE_REFS'', str_list ((''tailscale://'' @ host) # map (\<lambda>ip. ''tailscale-ip://'' @ py_str ip) ips)),
       (''NETWORK_REACHABLE'', JBool online), (''TOOL_AGENT_REACHABLE'', JStr ''UNKNOWN'')]"

fun tailnet_nodes :: "observations \<Rightarrow> json list \<Rightarrow> py_error + json dict list" where
  "tailnet_nodes obs [] = Inr []"
| "tailnet_nodes obs (peer # peers) =
     e_bind (get_attr peer ''HostName'' JNull) (\<lambda>name.
     let host = strip (py_str (or_else name (JStr []))) in
     if host = [] \<or> casefold host = ''msi'' then tailnet_nodes obs peers
     else
       e_bind (get_attr peer ''TailscaleIPs'' JNull) (\<lambda>ips.
       e_bind (get_attr peer ''Online'' JNull) (\<lambda>online.
       e_bind (py_list (or_else ips (JArr []))) (\<lambda>ips.
       e_bind (tailnet_nodes obs peers) (\<lambda>rs. Inr (tailnet_node obs host ips (truthy online) # rs))))))"

definition probe_tailnet_nodes :: "observations \<Rightarrow> py_error + json dict list" where
  "probe_tailnet_nodes obs =
     (case tailscale_status obs of
        None \<Rightarrow> Inr []
      | Some (code, out) \<Rightarrow>
          if code \<noteq> 0 then Inr []
          else case loads out of
            None \<Rightarrow> Inr []
          | Some status \<Rightarrow>
              e_bind (get_attr status ''Peer'' JNull) (\<lambda>peers.
              e_bind (case or_else peers (JObj []) of JObj d \<Rightarrow> Inr d | _ \<Rightarrow> Inl (AttributeError ''values'')) (\<lambda>d.
              tailnet_nodes obs (map snd d))))"

section \<open>Models\<close>

text \<open>\<open>[row.get("name") for row in data.get("models", []) if isinstance(row, dict)]\<close>.\<close>

definition model_names :: "json option \<Rightarrow> py_error + json list" where
  "model_names probe =
     (case probe of
        None \<Rightarrow> Inr []
      | Some data \<Rightarrow>
          e_bind (get_attr data ''models'' (JArr [])) (\<lambda>models.
          e_bind (py_list models) (\<lambda>rows.
          Inr (map (\<lambda>r. get_or_none (dict_of r) ''name'') (filter is_obj rows)))))"

definition context_pull_path :: string where
  "context_pull_path = path_join DEFAULT_ROOT ''tools/total_field_dynamic_context_pull.py''"

definition tags_url :: "string \<Rightarrow> string" where
  "tags_url url = rstrip_slash url @ ''/api/tags''"

definition probe_local_ollama :: "observations \<Rightarrow> string \<Rightarrow> string \<Rightarrow> py_error + json dict" where
  "probe_local_ollama obs url model =
     e_bind (model_names (http_json obs ''MSI_OLLAMA_LOCAL'' (tags_url url))) (\<lambda>names.
     let bound = is_file obs context_pull_path \<and>
           is_file obs (path_join DEFAULT_ROOT ''tools/total_field/msi_llm_candidate_adapter.py'') in
     Inr (dmerge (resource_base obs ''MSI_OLLAMA_LOCAL'' ''MODEL_COMPUTE'' ''MSI'' ''OLLAMA'' model)
      [(''CURRENT_STATE'', JStr (if JStr model \<in> set names then ''AVAILABLE'' else ''HOLD_MODEL_NOT_PRESENT'')),
       (''CAPABILITY_SET'', str_list [''LANGUAGE'', ''INTENT'', ''CODE'', ''TOOLS'', ''LOCAL_REVIEW'']),
       (''PRIVACY_CLASS'', JStr ''LOCAL''), (''AUTHORITY_CLASS'', JStr ''CANDIDATE_ONLY_NOT_D8''),
       (''COST_CLASS'', JStr ''LOCAL_COMPUTE''), (''SUBSCRIPTION_CLASS'', JStr ''LOCAL_OWNED''),
       (''LATENCY_CLASS'', JStr ''LAN_OR_TAILNET''),
       (''TRANSFER_COST'', JStr (if bound then ''POINTER_FIRST_CONTEXT_PULL_REQUIRED'' else ''HOLD_DYNAMIC_CONTEXT_ADAPTER_MISSING'')),
       (''CONTEXT_BINDING_STATE'', JStr (if bound then ''POINTER_FIRST_TOTAL_FIELD_BOUND'' else ''HOLD_POINTER_FIRST_ADAPTER_MISSING'')),
       (''CONTEXT_POLICY'', JStr ''ALL_CONTEXT_REQUIRING_LLM''),
       (''TOOL_CAPABILITY'', JStr ''SHADOW_SOURCE_TOOLS''),
       (''VERIFICATION_COST'', JStr ''LOW_TO_MEDIUM''), (''RECOVERY_DISTANCE'', JStr ''SHORT''),
       (''EVIDENCE_REFS'', str_list [tags_url url])]))"

definition probe_ollama_cloud :: "observations \<Rightarrow> string \<Rightarrow> py_error + json dict" where
  "probe_ollama_cloud obs url =
     (let model = strip (cloud_model_env obs) in
      e_bind (if model = [] then Inr []
              else model_names (http_json obs ''OLLAMA_CLOUD'' (tags_url url))) (\<lambda>names.
      let state = (if model = [] then ''HOLD_PROVIDER_MODEL_UNCONFIGURED''
                   else if JStr model \<notin> set names then ''HOLD_CLOUD_MODEL_NOT_PRESENT''
                   else ''REGISTERED_MODEL_REF_PRESENT_ADAPTER_PENDING'') in
      Inr (dmerge (resource_base obs ''OLLAMA_CLOUD'' ''MODEL_COMPUTE'' ''MSI'' ''OLLAMA_CLOUD''
                     (if model = [] then ''UNCONFIGURED'' else model))
      [(''CURRENT_STATE'', JStr state),
       (''CAPABILITY_SET'', str_list [''LANGUAGE'', ''REASONING'', ''STRUCTURED_CANDIDATE'', ''CLOUD_CANDIDATE'']),
       (''PRIVACY_CLASS'', JStr ''CLOUD_MINIMUM_DEIDENTIFIED_ONLY''),
       (''AUTHORITY_CLASS'', JStr ''CANDIDATE_ONLY_NOT_D8''),
       (''COST_CLASS'', JStr ''CLOUD_SUBSCRIPTION_OR_API''),
       (''SUBSCRIPTION_CLASS'', JStr ''OLLAMA_ACCOUNT_RESOURCE''),
       (''LATENCY_CLASS'', JStr ''CLOUD_VIA_MSI_OLLAMA''),
       (''TRANSFER_COST'', JStr ''MINIMUM_DEIDENTIFIED_PACKET_ONLY''),
       (''CONTEXT_BINDING_STATE'', JStr ''HOLD_PROVIDER_ADAPTER_NOT_BOUND''),
       (''CONTEXT_POLICY'', JStr ''POINTER_FIRST_MINIMUM_DEIDENTIFIED_ONLY''),
       (''TOOL_CAPABILITY'', JStr ''REGISTERED_CLOUD_MODEL_CAPABILITY_NO_LIVE_ADAPTER''),
       (''VERIFICATION_COST'', JStr ''MEDIUM_TO_HIGH''),
       (''RECOVERY_DISTANCE'', JStr ''SHORT_NO_DIRECT_EFFECT''),
       (''EVIDENCE_REFS'', str_list [tags_url url, ''env:TAIJI_OLLAMA_CLOUD_MODEL'', ''configs/total_field/w7tp_capability_internalization_registry_v1.json'']),
       (''MODEL_REF_SOURCE'', JStr ''TAIJI_OLLAMA_CLOUD_MODEL''),
       (''MODEL_REF_CONFIGURED'', JBool (model \<noteq> [])),
       (''CLOUD_INFERENCE_IS_D6'', JBool False), (''DIRECT_EXTERNAL_EFFECT'', JBool False)])))"

text \<open>The port of the first \<open>127.0.0.1:\<close> of a line that a digit follows.\<close>

definition digit_value :: "string \<Rightarrow> nat" where
  "digit_value g =
     (case List.find (\<lambda>n. n \<le> code_point g \<and> code_point g < n + 10) decimal_runs of
        Some n \<Rightarrow> code_point g - n | None \<Rightarrow> 0)"

fun find_port :: "string list \<Rightarrow> nat option" where
  "find_port [] = None"
| "find_port (g # gs) =
     (let prefix = map (\<lambda>c. [c]) ''127.0.0.1:'';
          digits = takeWhile is_decimal (drop (length prefix) (g # gs)) in
      if take (length prefix) (g # gs) = prefix \<and> digits \<noteq> []
      then Some (foldl (\<lambda>n d. 10 * n + digit_value d) 0 digits)
      else find_port gs)"

fun some_ports :: "string list \<Rightarrow> nat list" where
  "some_ports [] = []"
| "some_ports (line # lines) =
     (case find_port (py_chars line) of Some p \<Rightarrow> p # some_ports lines | None \<Rightarrow> some_ports lines)"

definition loopback_ports :: "observations \<Rightarrow> nat list" where
  "loopback_ports obs =
     (case listeners obs of None \<Rightarrow> []
      | Some out \<Rightarrow> sort (remdups (some_ports (splitlines out))))"

definition loopback :: "nat \<Rightarrow> string" where
  "loopback port = ''http://127.0.0.1:'' @ show_nat port @ ''/''"

definition agent_card :: "observations \<Rightarrow> nat \<Rightarrow> json dict option" where
  "agent_card obs port =
     (case http_json obs ''GEMINI_CODE_ASSIST'' (loopback port @ ''.well-known/agent-card.json'') of
        Some (JObj c) \<Rightarrow>
          if get_or_none c ''name'' = JStr ''Gemini SDLC Agent'' then Some c else None
      | _ \<Rightarrow> None)"

definition gemini_found :: "observations \<Rightarrow> nat \<Rightarrow> json dict \<Rightarrow> json dict" where
  "gemini_found obs port c =
     (let adapter = path_join DEFAULT_ROOT ''tools/gemini_code_assist_a2a_candidate.py'';
          bound = is_file obs adapter \<and> is_file obs context_pull_path in
      [(''CURRENT_STATE'', JStr ''AVAILABLE''),
       (''CAPABILITY_SET'', str_list ([''CODE_GENERATION'', ''MULTI_FILE_REASONING'', ''PLAN'', ''WRITE_CANDIDATE'', ''CHECKPOINT_RESTORE''] @ (if bound then [''POINTER_FIRST_DYNAMIC_CONTEXT_PULL'', ''TOTAL_FIELD_CANDIDATE_RETURN'', ''ISOLATED_A2A_WORKSPACE''] else []))),
       (''PRIVACY_CLASS'', JStr ''CLOUD_SUBSCRIPTION''),
       (''AUTHORITY_CLASS'', JStr ''CANDIDATE_ONLY_NOT_D8''),
       (''COST_CLASS'', JStr ''SUBSCRIPTION''),
       (''SUBSCRIPTION_CLASS'', JStr ''PAID_CURRENT_MONTH''),
       (''LATENCY_CLASS'', JStr ''CLOUD_INTERACTIVE''),
       (''TRANSFER_COST'', JStr (if bound then ''POINTER_FIRST_CONTEXT_PULL_REQUIRED'' else ''STATIC_CELL_REQUIRED'')),
       (''TOOL_CAPABILITY'', JStr (if bound then ''A2A_POINTER_FIRST_CANDIDATE'' else ''A2A_AGENT'')),
       (''CONTEXT_BINDING_STATE'', JStr (if bound then ''POINTER_FIRST_TOTAL_FIELD_BOUND'' else ''HOLD_POINTER_FIRST_ADAPTER_MISSING'')),
       (''CONTEXT_POLICY'', JStr ''ALL_CONTEXT_REQUIRING_LLM''),
       (''SOURCE_WRITE_AUTHORITY'', JStr ''NONE''),
       (''FORMAL_EFFECT_RETURN'', JStr ''TAIJI01_TOTAL_FIELD''),
       (''WORKSPACE_POLICY'', JStr ''ISOLATED_TASK_WORKSPACE_REQUIRED''),
       (''VERIFICATION_COST'', JStr ''MEDIUM''), (''RECOVERY_DISTANCE'', JStr ''MEDIUM''),
       (''EVIDENCE_REFS'', str_list [loopback port @ ''.well-known/agent-card.json'', adapter, context_pull_path]),
       (''A2A_URL'', JStr (loopback port)), (''AGENT_VERSION'', get_or_none c ''version'')])"

definition probe_gemini_code_assist :: "observations \<Rightarrow> json dict" where
  "probe_gemini_code_assist obs =
     (let base = resource_base obs ''GEMINI_CODE_ASSIST'' ''MODEL_COMPUTE'' ''taiji01-code-server''
                   ''GOOGLE'' ''Gemini SDLC Agent'' in
      case List.find (\<lambda>p. agent_card obs p \<noteq> None) (loopback_ports obs) of
        Some p \<Rightarrow> dmerge base (gemini_found obs p (the (agent_card obs p)))
      | None \<Rightarrow> dset ''CURRENT_STATE'' (JStr ''HOLD_AGENT_NOT_DISCOVERED'') base)"

definition probe_vertex :: "observations \<Rightarrow> string \<Rightarrow> py_error + json dict" where
  "probe_vertex obs root =
     (let config = path_join root ''config/w7tp_vertex_candidate_gateway.json'';
          gateway = path_join root ''tools/total_field/w7tp_vertex_candidate_gateway.py'' in
      case read_json_or_empty obs config of
        JObj data \<Rightarrow>
          let configured = is_file obs gateway \<and> get_or_none data ''provider'' = JStr ''GOOGLE_VERTEX_AI'' \<and>
                truthy (get_or_none data ''project'') \<and> truthy (get_or_none data ''model'') in
          Inr (dmerge (resource_base obs ''GOOGLE_VERTEX_GEMINI'' ''MODEL_COMPUTE'' ''GOOGLE_CLOUD''
                         ''GOOGLE_VERTEX_AI'' ''Gemini'')
      [(''CURRENT_STATE'', JStr (if configured then ''AVAILABLE_CONFIGURED'' else ''HOLD_NOT_CONFIGURED'')),
       (''CAPABILITY_SET'', str_list [''HEAVY_REASONING'', ''STRUCTURED_CANDIDATE'', ''RESEARCH'']),
       (''PRIVACY_CLASS'', JStr ''CLOUD''), (''AUTHORITY_CLASS'', JStr ''CANDIDATE_ONLY_NOT_D8''),
       (''COST_CLASS'', JStr ''CLOUD_API''), (''SUBSCRIPTION_CLASS'', JStr ''PROJECT_RESOURCE''),
       (''LATENCY_CLASS'', JStr ''CLOUD''),
       (''TRANSFER_COST'', JStr ''POINTER_FIRST_CONTEXT_PULL_REQUIRED''),
       (''CONTEXT_BINDING_STATE'', JStr ''HOLD_POINTER_FIRST_ADAPTER_MISSING''),
       (''CONTEXT_POLICY'', JStr ''ALL_CONTEXT_REQUIRING_LLM''),
       (''TOOL_CAPABILITY'', JStr ''VERTEX_CANDIDATE_GATEWAY''),
       (''VERIFICATION_COST'', JStr ''MEDIUM_TO_HIGH''),
       (''RECOVERY_DISTANCE'', JStr ''SHORT_NO_DIRECT_EFFECT''),
       (''EVIDENCE_REFS'', str_list [config, gateway]),
       (''PROJECT'', get_or_none data ''project''), (''MODEL'', get_or_none data ''model'')])
      | _ \<Rightarrow> Inl (AttributeError ''get''))"

definition probe_workspace :: "observations \<Rightarrow> string \<Rightarrow> json dict" where
  "probe_workspace obs root =
     (let broker = path_join root ''configs/cloud/local_xiaoj_cloud_api_broker_dryrun.template.json'';
          adapters = org_adapters obs;
          configured = is_file obs broker \<and> adapters \<noteq> [] in
      dmerge (resource_base obs ''GOOGLE_WORKSPACE_ORG'' ''ORG_KNOWLEDGE_SOURCE'' ''GOOGLE_WORKSPACE''
                ''GOOGLE'' ''wuchang.life'')
      [(''CURRENT_STATE'', JStr (if configured then ''REGISTERED_EXTERNAL_CONTEXT_SOURCE'' else ''HOLD_CONTEXT_ADAPTER_EVIDENCE_MISSING'')),
       (''CAPABILITY_SET'', str_list [''DRIVE'', ''DOCS'', ''SHEETS'', ''GMAIL'', ''CALENDAR'', ''ORG_CONTEXT'']),
       (''CONTEXT_LOCATION'', JStr ''wuchang.life''),
       (''PRIVACY_CLASS'', JStr ''ORG_DATA_LOCALIZE_BEFORE_MODEL''),
       (''AUTHORITY_CLASS'', JStr ''ORG_KNOWLEDGE_SOURCE_NOT_D8''),
       (''COST_CLASS'', JStr ''WORKSPACE_SUBSCRIPTION_OR_API''),
       (''SUBSCRIPTION_CLASS'', JStr ''NONPROFIT_ORG_RESOURCE''),
       (''LATENCY_CLASS'', JStr ''CLOUD_CONTEXT''),
       (''TRANSFER_COST'', JStr ''ADI_LOCALIZE_THEN_STATIC_CELL''),
       (''TOOL_CAPABILITY'', JStr ''EXTERNAL_CONNECTOR_OR_ADAPTER''),
       (''VERIFICATION_COST'', JStr ''SOURCE_REFETCH_REQUIRED''),
       (''RECOVERY_DISTANCE'', JStr ''NO_DIRECT_EFFECT''),
       (''EVIDENCE_REFS'', str_list (if adapters \<noteq> [] then [broker, last adapters] else [broker]))])"

section \<open>The authority\<close>

definition probe_total :: "observations \<Rightarrow> json dict" where
  "probe_total obs =
     dmerge (resource_base obs ''TAIJI01_TOTAL_FIELD'' ''AUTHORITY_EXECUTION'' ''taiji01'' ''W7TP'' ''Total Field'')
      [(''CURRENT_STATE'', JStr (if health_ok obs ''TAIJI01_TOTAL_FIELD'' ''http://127.0.0.1:8082/healthz'' then ''AVAILABLE'' else ''HOLD_UNAVAILABLE'')),
       (''CAPABILITY_SET'', str_list [''VERIFY'', ''EFFECT_GATE'', ''REOBSERVE'', ''ROLLBACK'']),
       (''PRIVACY_CLASS'', JStr ''LOCAL_AUTHORITY''),
       (''AUTHORITY_CLASS'', JStr ''FORMAL_EFFECT_BOUNDARY''), (''COST_CLASS'', JStr ''LOCAL''),
       (''SUBSCRIPTION_CLASS'', JStr ''OWNED''), (''LATENCY_CLASS'', JStr ''LOCAL''),
       (''TRANSFER_COST'', JStr ''LOW''), (''TOOL_CAPABILITY'', JStr ''RUNTIME_EFFECT''),
       (''VERIFICATION_COST'', JStr ''REQUIRED''),
       (''RECOVERY_DISTANCE'', JStr ''SHORTEST_AUTHORITY_PATH''),
       (''EVIDENCE_REFS'', str_list [''http://127.0.0.1:8082/healthz''])]"

definition probe_adi :: "observations \<Rightarrow> json dict" where
  "probe_adi obs =
     dmerge (resource_base obs ''TAIJI01_NATIVE_ADI'' ''INDEX_VERIFIER'' ''taiji01'' ''W7TP'' ''Native ADI'')
      [(''CURRENT_STATE'', JStr (if health_ok obs ''TAIJI01_NATIVE_ADI'' ''http://127.0.0.1:9110/health'' then ''AVAILABLE'' else ''HOLD_UNAVAILABLE'')),
       (''CAPABILITY_SET'', str_list [''ADI_COORDINATE'', ''STATE_PACKET'', ''RECONSTRUCTION'']),
       (''PRIVACY_CLASS'', JStr ''LOCAL''),
       (''AUTHORITY_CLASS'', JStr ''PRIMARY_DECISION_ENGINE_NOT_AUTHORITY''),
       (''COST_CLASS'', JStr ''LOCAL''), (''SUBSCRIPTION_CLASS'', JStr ''OWNED''),
       (''LATENCY_CLASS'', JStr ''LOCAL''), (''TRANSFER_COST'', JStr ''LOW''),
       (''TOOL_CAPABILITY'', JStr ''INDEX_AND_RECONSTRUCT''),
       (''VERIFICATION_COST'', JStr ''LOW''), (''RECOVERY_DISTANCE'', JStr ''SHORT''),
       (''EVIDENCE_REFS'', str_list [''http://127.0.0.1:9110/health''])]"

definition probe_total_field :: "observations \<Rightarrow> json dict list" where
  "probe_total_field obs = [probe_total obs, probe_adi obs]"

end
