(* ===== verification/Arbitration.thy ===== *)
theory Arbitration
  imports ResourceProbes
begin

text \<open>
  \<open>core/resource_arbitration.py\<close>, the decision: the classification of an intent, the
  arbitration over the probed resources, and the envelope of a work cell.  The order in which
  Python iterates over a set of strings is part of the observations.
\<close>

section \<open>The profile of an intent\<close>

definition code_words :: "string list" where
  "code_words =
      [bytes [231, 168, 139, 229, 188, 143], ''code'', bytes [233, 150, 139, 231, 153, 188], bytes
       [228, 191, 174, 230, 173, 163], bytes [233, 135, 141, 230, 167, 139], ''api'', bytes [230, 168,
       161, 231, 181, 132]]"

definition design_words :: "string list" where
  "design_words =
      [bytes [232, 168, 173, 232, 168, 136], ''design'', bytes [230, 158, 182, 230, 167, 139],
       ''architecture'', bytes [232, 166, 143, 229, 138, 131], ''plan'', bytes [231, 148, 162, 229,
       147, 129], ''product'']"

definition complex_code_words :: "string list" where
  "complex_code_words =
      [bytes [232, 183, 168, 230, 170, 148], bytes [233, 135, 141, 230, 167, 139], bytes [230, 158,
       182, 230, 167, 139], bytes [232, 164, 135, 233, 155, 156], bytes [229, 164, 167, 229, 158,
       139], ''multi-file'']"

definition org_knowledge_words :: "string list" where
  "org_knowledge_words =
      [''workspace'', ''drive'', ''gmail'', ''calendar'', ''docs'', ''sheets'', bytes [233, 155, 178,
       231, 171, 175, 231, 161, 172, 231, 162, 159], bytes [233, 131, 181, 228, 187, 182], bytes [232,
       161, 140, 228, 186, 139, 230, 155, 134], bytes [230, 150, 135, 228, 187, 182], bytes [232, 169,
       166, 231, 174, 151, 232, 161, 168], bytes [229, 183, 165, 228, 189, 156, 229, 141, 128]]"

definition heavy_reasoning_words :: "string list" where
  "heavy_reasoning_words =
      [bytes [230, 183, 177, 229, 186, 166], bytes [231, 160, 148, 231, 169, 182], bytes [229, 133,
       168, 229, 159, 159], bytes [230, 175, 148, 232, 188, 131], bytes [230, 142, 168, 230, 188,
       148], bytes [231, 171, 182, 229, 147, 129], bytes [230, 158, 182, 230, 167, 139],
       ''reasoning'', ''research'', ''benchmark'']"

definition sensitive_words :: "string list" where
  "sensitive_words =
      [bytes [231, 167, 152, 229, 175, 134], bytes [229, 175, 134, 231, 162, 188], ''token'',
       ''private key'', bytes [231, 167, 129, 233, 145, 176], bytes [230, 156, 131, 229, 147, 161,
       230, 152, 142, 230, 150, 135], bytes [229, 128, 139, 232, 179, 135], ''credential'', ''secret'']"

definition effectful_words :: "string list" where
  "effectful_words =
      [bytes [229, 129, 154], bytes [228, 191, 174], bytes [230, 149, 180, 229, 144, 136], bytes [229,
       187, 186, 230, 167, 139], bytes [229, 149, 159, 231, 148, 168], bytes [233, 131, 168, 231, 189,
       178], bytes [230, 129, 162, 229, 190, 169], bytes [228, 191, 174, 230, 148, 185],
       ''implement'', ''fix'', ''deploy'', ''enable'', ''write'']"

definition product_design_words :: "string list" where
  "product_design_words =
      [bytes [231, 148, 162, 229, 147, 129], bytes [231, 171, 182, 229, 147, 129], bytes [231, 171,
       182, 232, 179, 189], bytes [229, 177, 149, 231, 164, 186], ''product'', ''competition'']"

definition latency_sensitive_words :: "string list" where
  "latency_sensitive_words =
      [bytes [231, 171, 139, 229, 141, 179], bytes [229, 141, 179, 230, 153, 130], bytes [228, 189,
       142, 229, 187, 182, 233, 129, 178], ''realtime'', ''latency'']"

record task_profile =
  p_code :: bool
  p_design :: bool
  p_complex_code :: bool
  p_org_knowledge :: bool
  p_heavy_reasoning :: bool
  p_sensitive :: bool
  p_effectful :: bool
  p_product_design :: bool
  p_latency_sensitive :: bool

definition mentions :: "string \<Rightarrow> string list \<Rightarrow> bool" where
  "mentions folded ws \<longleftrightarrow> (\<exists>word \<in> set ws. contains folded (casefold word))"

definition classify_intent :: "string \<Rightarrow> task_profile" where
  "classify_intent intent =
     (let t = casefold intent in
      \<lparr>p_code = mentions t code_words, p_design = mentions t design_words,
       p_complex_code = mentions t complex_code_words, p_org_knowledge = mentions t org_knowledge_words,
       p_heavy_reasoning = mentions t heavy_reasoning_words, p_sensitive = mentions t sensitive_words,
       p_effectful = mentions t effectful_words, p_product_design = mentions t product_design_words,
       p_latency_sensitive = mentions t latency_sensitive_words\<rparr>)"

definition profile_json :: "task_profile \<Rightarrow> json" where
  "profile_json p = JObj
     [(''code'', JBool (p_code p)), (''design'', JBool (p_design p)),
      (''complex_code'', JBool (p_complex_code p)), (''org_knowledge'', JBool (p_org_knowledge p)),
      (''heavy_reasoning'', JBool (p_heavy_reasoning p)), (''sensitive'', JBool (p_sensitive p)),
      (''effectful'', JBool (p_effectful p)), (''product_design'', JBool (p_product_design p)),
      (''latency_sensitive'', JBool (p_latency_sensitive p))]"

definition information_search :: "task_profile \<Rightarrow> bool" where
  "information_search p \<longleftrightarrow> p_design p \<or> p_code p \<or> p_product_design p \<or> p_heavy_reasoning p"

section \<open>Resources by identifier\<close>

definition resource_id :: "json dict \<Rightarrow> string" where
  "resource_id r = str_of (fld r ''RESOURCE_ID'')"

definition by_id :: "json dict list \<Rightarrow> json dict dict" where
  "by_id resources = fold (\<lambda>r d. dset (resource_id r) r d) resources []"

definition is_registered :: "json dict \<Rightarrow> bool" where
  "is_registered r = truthy (get_or_none r ''RESOURCE_ID'')"

definition is_available :: "json dict \<Rightarrow> bool" where
  "is_available r =
     (let state = py_str (case dget r ''CURRENT_STATE'' of Some v \<Rightarrow> v | None \<Rightarrow> JStr [])
      in starts_with state ''AVAILABLE'' \<or> state = ''REGISTERED_EXTERNAL_CONTEXT_SOURCE'' \<or>
         state = ''REGISTERED_AVAILABLE_RESOURCE'')"

definition probe_all ::
  "observations \<Rightarrow> string \<Rightarrow> string \<Rightarrow> string \<Rightarrow> py_error + json dict list" where
  "probe_all obs root local_ollama_url local_model =
     e_bind (probe_local_ollama obs local_ollama_url local_model) (\<lambda>ollama.
     e_bind (probe_ollama_cloud obs local_ollama_url) (\<lambda>cloud.
     e_bind (probe_vertex obs root) (\<lambda>vertex.
     e_bind (probe_router_resource_fabric obs root) (\<lambda>router.
     e_bind (probe_tailnet_nodes obs) (\<lambda>tailnet.
     Inr ([probe_taiji01_node obs, probe_msi_node obs, ollama, cloud, probe_gemini_code_assist obs,
           vertex, probe_workspace obs root] @ router @ tailnet @ probe_total_field obs))))))"

section \<open>The decision\<close>

record decision =
  qualified_set :: "string list"
  preferred_set :: "string list"
  parallel_set :: "string list"
  denied_set :: "string list"
  why_selected :: "string dict"
  why_not :: "string dict"

definition CLOUD_IDS :: "string list" where
  "CLOUD_IDS = [''GEMINI_CODE_ASSIST'', ''GOOGLE_VERTEX_GEMINI'', ''OLLAMA_CLOUD'']"

definition GOOGLE_IDS :: "string list" where
  "GOOGLE_IDS = [''GEMINI_CODE_ASSIST'', ''GOOGLE_VERTEX_GEMINI'']"

text \<open>Model compute without a pointer-first binding to the Total Field is denied.\<close>

definition unbound_model :: "json dict \<Rightarrow> bool" where
  "unbound_model r \<longleftrightarrow>
     get_or_none r ''RESOURCE_TYPE'' = JStr ''MODEL_COMPUTE'' \<and>
     get_or_none r ''CONTEXT_BINDING_STATE'' \<noteq> JStr ''POINTER_FIRST_TOTAL_FIELD_BOUND''"

definition unbound_ids :: "json dict dict \<Rightarrow> string list \<Rightarrow> string list" where
  "unbound_ids ids available = filter (\<lambda>rid. rid \<in> set available \<and>
     (case dget ids rid of Some r \<Rightarrow> unbound_model r | None \<Rightarrow> False)) (dkeys ids)"

definition note_all :: "string list \<Rightarrow> string \<Rightarrow> string dict \<Rightarrow> string dict" where
  "note_all rids text d = fold (\<lambda>rid d. dset rid text d) rids d"

definition denials ::
  "(string list \<Rightarrow> string list) \<Rightarrow> task_profile \<Rightarrow> bool \<Rightarrow> json dict dict \<Rightarrow> string list \<Rightarrow> string list \<times> string dict" where
  "denials order p google_allowed ids available =
     (let unbound = unbound_ids ids available;
          notes = note_all unbound
            (''Context-requiring LLM work requires pointer-first Dynamic Context '' @
             ''bound to taiji01 Total Field.'') [] in
      if p_sensitive p then
        (unbound @ filter (\<lambda>rid. rid \<in> set available) (order CLOUD_IDS),
         note_all (order CLOUD_IDS) ''Sensitive payload requires local truth/context reduction first.'' notes)
      else if \<not> google_allowed then
        (unbound @ filter (\<lambda>rid. rid \<in> set available) (order GOOGLE_IDS),
         note_all (order GOOGLE_IDS) ''Google compute disabled for this request.'' notes)
      else (unbound, notes))"

definition initial_decision :: "string list \<times> string dict \<Rightarrow> decision" where
  "initial_decision d =
     \<lparr>qualified_set = [], preferred_set = [], parallel_set = [], denied_set = fst d, why_selected = [], why_not = snd d\<rparr>"

definition qualify :: "string \<Rightarrow> decision \<Rightarrow> decision" where
  "qualify rid d = d\<lparr>qualified_set := qualified_set d @ [rid]\<rparr>"

definition set_preferred :: "string \<Rightarrow> decision \<Rightarrow> decision" where
  "set_preferred rid d = d\<lparr>preferred_set := preferred_set d @ [rid]\<rparr>"

definition in_parallel :: "string \<Rightarrow> decision \<Rightarrow> decision" where
  "in_parallel rid d = d\<lparr>parallel_set := parallel_set d @ [rid]\<rparr>"

definition because :: "string \<Rightarrow> string \<Rightarrow> decision \<Rightarrow> decision" where
  "because rid text d = d\<lparr>why_selected := dset rid text (why_selected d)\<rparr>"

definition search_node :: "task_profile \<Rightarrow> string list \<Rightarrow> string \<Rightarrow> decision \<Rightarrow> decision" where
  "search_node p available rid d =
     (if rid \<in> set available then
        let d = qualify rid d in
        if information_search p
        then because rid ''Required information-search node for 8D ADI affected-closure localization.''
               (in_parallel rid d)
        else d
      else d)"

definition qualify_local :: "task_profile \<Rightarrow> string list \<Rightarrow> decision \<Rightarrow> decision" where
  "qualify_local p available d =
     (if ''MSI_OLLAMA_LOCAL'' \<in> set available \<and> ''MSI_OLLAMA_LOCAL'' \<notin> set (denied_set d) then
        let d = qualify ''MSI_OLLAMA_LOCAL'' d in
        if information_search p
        then because ''MSI_OLLAMA_LOCAL''
               (''Model-compute child of MSI_NODE; used only after MSI developer-node '' @
                ''design/experiment evidence has been localized.'') d
        else d
      else d)"

definition qualify_if :: "bool \<Rightarrow> string list \<Rightarrow> string \<Rightarrow> decision \<Rightarrow> decision" where
  "qualify_if wanted available rid d =
     (if wanted \<and> rid \<in> set available \<and> rid \<notin> set (denied_set d) then qualify rid d else d)"

definition choose_preferred :: "task_profile \<Rightarrow> decision \<Rightarrow> decision" where
  "choose_preferred p d =
     (if p_complex_code p \<and> ''GEMINI_CODE_ASSIST'' \<in> set (qualified_set d) then
        let d = because ''GEMINI_CODE_ASSIST''
                  ''High-value complex code task matches paid Code Assist SDLC capability.''
                  (set_preferred ''GEMINI_CODE_ASSIST'' d) in
        if ''MSI_OLLAMA_LOCAL'' \<in> set (qualified_set d)
        then because ''MSI_OLLAMA_LOCAL'' ''Local reconstruction and verification companion.''
               (in_parallel ''MSI_OLLAMA_LOCAL'' d)
        else d
      else if ''MSI_OLLAMA_LOCAL'' \<in> set (qualified_set d) then
        because ''MSI_OLLAMA_LOCAL'' ''Shortest low-transfer local path for current task profile.''
          (set_preferred ''MSI_OLLAMA_LOCAL'' d)
      else d)"

definition add_reasoning :: "task_profile \<Rightarrow> decision \<Rightarrow> decision" where
  "add_reasoning p d =
     (if p_heavy_reasoning p \<and> ''GOOGLE_VERTEX_GEMINI'' \<in> set (qualified_set d) then
        because ''GOOGLE_VERTEX_GEMINI''
          ''Heavy structured reasoning can use cloud candidate compute with static cells.''
          (if ''GOOGLE_VERTEX_GEMINI'' \<notin> set (preferred_set d) then in_parallel ''GOOGLE_VERTEX_GEMINI'' d else d)
      else d)"

definition add_org :: "task_profile \<Rightarrow> decision \<Rightarrow> decision" where
  "add_org p d =
     (if p_org_knowledge p \<and> ''GOOGLE_WORKSPACE_ORG'' \<in> set (qualified_set d) then
        because ''GOOGLE_WORKSPACE_ORG''
          ''Organization context source; ADI localization required before model handoff.''
          (in_parallel ''GOOGLE_WORKSPACE_ORG'' d)
      else d)"

definition AUTHORITY_IDS :: "string list" where
  "AUTHORITY_IDS = [''TAIJI01_NATIVE_ADI'', ''TAIJI01_TOTAL_FIELD'']"

definition add_authority :: "string list \<Rightarrow> decision \<Rightarrow> decision" where
  "add_authority available d =
     (let rids = filter (\<lambda>rid. rid \<in> set available) AUTHORITY_IDS
      in d\<lparr>qualified_set := qualified_set d @ rids, parallel_set := parallel_set d @ rids\<rparr>)"

definition deduplicated :: "decision \<Rightarrow> decision" where
  "deduplicated d =
     d\<lparr>qualified_set := dedup (qualified_set d), preferred_set := dedup (preferred_set d),
       parallel_set := dedup (parallel_set d), denied_set := dedup (denied_set d)\<rparr>"

definition decide ::
  "(string list \<Rightarrow> string list) \<Rightarrow> task_profile \<Rightarrow> bool \<Rightarrow> json dict dict \<Rightarrow> decision" where
  "decide order p google_allowed ids =
     (let available = map fst (filter (\<lambda>(_, r). is_available r) ids);
          d0 = initial_decision (denials order p google_allowed ids available);
          d1 = search_node p available ''MSI_NODE'' (search_node p available ''TAIJI01_NODE'' d0);
          d2 = qualify_local p available d1;
          d3 = qualify_if (p_code p) available ''GEMINI_CODE_ASSIST'' d2;
          d4 = qualify_if (p_heavy_reasoning p) available ''GOOGLE_VERTEX_GEMINI'' d3;
          d5 = (if p_org_knowledge p \<and> ''GOOGLE_WORKSPACE_ORG'' \<in> set available
                then qualify ''GOOGLE_WORKSPACE_ORG'' d4 else d4)
      in deduplicated (add_authority available (add_org p (add_reasoning p (choose_preferred p d5)))))"

section \<open>The returned document\<close>

definition notes_json :: "string dict \<Rightarrow> json" where
  "notes_json d = JObj (map (\<lambda>(k, v). (k, JStr v)) d)"

definition ALLOWED_CLOUD_RETURNS :: "string list" where
  "ALLOWED_CLOUD_RETURNS =
     [''HYPOTHESIS_DELTA'', ''DESIGN_DELTA'', ''CODE_PATCH_CANDIDATE'', ''TEST_CANDIDATE'',
      ''RISK_CANDIDATE'', ''RESOURCE_RECOMMENDATION'']"

definition resource_router :: "string list \<Rightarrow> json" where
  "resource_router registered = JObj
     [(''ROUTER_ID'', JStr ''TAIJI_RESOURCE_ROUTER''),
      (''ROUTER_TYPE'', JStr ''DISTRIBUTED_COMPUTE_RESOURCE_ROUTER''),
      (''DECISION_ENGINE'', JStr ''8D_ADI''), (''FORMAL_EFFECT_BOUNDARY'', JStr ''TAIJI01_TOTAL_FIELD''),
      (''INFORMATION_SEARCH_NODES'', str_list [''TAIJI01_NODE'', ''MSI_NODE'']),
      (''CHILD_RESOURCES'', str_list registered),
      (''RULE'', JStr (''Every child is a registered resource; only currently available and '' @
         ''policy-qualified children may be selected for a work cell.''))]"

definition llm_context_policy :: json where
  "llm_context_policy = JObj
     [(''scope'', JStr ''ALL_CONTEXT_REQUIRING_LLM''),
      (''delivery_mode'', JStr ''TOTAL_FIELD_POINTER_FIRST_DYNAMIC_CONTEXT_PULL''),
      (''unbound_model_compute'', JStr ''HOLD''), (''provider_authority'', JStr ''NONE''),
      (''formal_effect_boundary'', JStr ''TAIJI01_TOTAL_FIELD'')]"

definition is_router_child :: "string \<Rightarrow> bool" where
  "is_router_child rid \<longleftrightarrow> starts_with rid ''ROUTER_NODE_'' \<or> starts_with rid ''ROUTER_SERVICE_''"

definition decision_document ::
  "observations \<Rightarrow> task_profile \<Rightarrow> json dict list \<Rightarrow> json dict dict \<Rightarrow> decision \<Rightarrow> json dict" where
  "decision_document obs p resources ids d =
     (let registered = map fst (filter (\<lambda>(_, r). is_registered r) ids);
          available = map fst (filter (\<lambda>(_, r). is_available r) ids);
          hold = map fst (filter (\<lambda>(_, r). \<not> is_available r) ids) in
      [(''STATE'', JStr ''PASS_RESOURCE_ARBITRATION''), (''TASK_PROFILE'', profile_json p),
       (''RESOURCE_ROUTER'', resource_router registered),
       (''RESOURCE_COORDINATES'', JArr (map JObj resources)), (''REGISTERED_SET'', str_list registered),
       (''AVAILABLE_SET'', str_list available), (''QUALIFIED_SET'', str_list (qualified_set d)),
       (''PREFERRED_SET'', str_list (preferred_set d)), (''PARALLEL_SET'', str_list (parallel_set d)),
       (''DENIED_SET'', str_list (denied_set d)), (''HOLD_SET'', str_list (dedup hold)),
       (''WHY_SELECTED'', notes_json (why_selected d)), (''WHY_NOT_SELECTED'', notes_json (why_not d)),
       (''LLM_CONTEXT_POLICY'', llm_context_policy),
       (''PRIMARY_INFORMATION_SEARCH_NODES'', str_list [''taiji01'', ''MSI'']),
       (''RESOURCE_FABRIC_SCOPE'', JStr ''ALL_ROUTER_DESCENDANTS''),
       (''ROUTER_RESOURCE_SET'', str_list (filter is_router_child available)),
       (''DESIGN_LOCALIZATION_REQUIRED'', JBool (information_search p)),
       (''DESIGN_SOURCE_SET'',
          str_list (if information_search p then [''taiji01'', ''MSI''] else [''taiji01''])),
       (''DUAL_SEARCH_RULE'', JStr
          (''For design/architecture/product work, ADI-localize the affected closure on both '' @
           ''taiji01 and MSI before declaring a gap or creating new design. Do not full-scan either node.'')),
       (''MSI_DESIGN_LOCALIZATION_RULE'', JStr
          (''ADI-localize MSI developer-device design/experiment/skill evidence; '' @
           ''read only the affected closure, not the whole device.'')),
       (''REQUIRED_HANDOFF'', JStr
          (''TOTAL_FIELD_POINTER_FIRST_DYNAMIC_CONTEXT_PULL for every context-requiring '' @
           ''MODEL_COMPUTE resource; Total Field remains formal effect boundary.'')),
       (''EXPECTED_RETURN'', str_list ALLOWED_CLOUD_RETURNS),
       (''OBSERVED_AT'', JStr (probe_clock obs ''ARBITRATION''))])"

definition arbitrate_resources ::
  "observations \<Rightarrow> string \<Rightarrow> string \<Rightarrow> string \<Rightarrow> string \<Rightarrow> bool \<Rightarrow> py_error + json dict" where
  "arbitrate_resources obs intent root local_ollama_url local_model google_allowed =
     (let p = classify_intent intent in
      e_bind (probe_all obs root local_ollama_url local_model) (\<lambda>resources.
      let ids = by_id resources in
      Inr (decision_document obs p resources ids (decide (set_order obs) p google_allowed ids))))"

section \<open>The envelope of a work cell\<close>

definition sha_json :: "(string \<Rightarrow> string) \<Rightarrow> json \<Rightarrow> string" where
  "sha_json sha v = sha (dumps_canonical v)"

definition build_static_state_cell_envelope ::
  "(string \<Rightarrow> string) \<Rightarrow> string \<Rightarrow> string \<Rightarrow> string \<Rightarrow> string list \<Rightarrow> json dict \<Rightarrow> int \<Rightarrow> json dict" where
  "build_static_state_cell_envelope sha nonce intent task_id affected_closure resource_decision ttl_seconds =
     (let intent_hash = sha intent;
          seed = JObj [(''task_id'', JStr task_id), (''intent_hash'', JStr intent_hash),
                       (''affected_closure'', str_list affected_closure),
                       (''preferred'', get_list resource_decision ''PREFERRED_SET'')];
          packet =
            [(''CELL_ID'', JStr (''cell:'' @ take 24 (sha_json sha seed))),
             (''TASK_CLASS'', case dget resource_decision ''TASK_PROFILE'' of Some v \<Rightarrow> v | None \<Rightarrow> JObj []),
             (''INTENT_REF'', JStr (''sha256:'' @ intent_hash)),
             (''ADI_COORDINATE'', JStr ''taiji01:8D_ADI:current-work-cell''),
             (''SOURCE_COORDINATES'', str_list affected_closure),
             (''TARGET_COORDINATE'', JStr ''taiji01:/home/taiji_admin/Taiji_Hub''),
             (''OBSERVED_FACT_REFS'', JArr []),
             (''STATE_CODES'', str_list [''CANDIDATE_INPUT'', ''LOCAL_TRUTH_REQUIRED'']),
             (''SOURCE_HASHES'', JArr []),
             (''CURRENT_STATE_SUMMARY'', JStr ''LOCAL_TOTAL_FIELD_OWNS_TRUTH''),
             (''TARGET_STATE_SUMMARY'', JStr ''MINIMUM_REQUIRED_DELTA''),
             (''MINIMUM_REQUIRED_DELTA'', JStr ''TO_BE_LOCALIZED''),
             (''INTERFACE_SIGNATURES'', JArr []), (''NECESSARY_CODE_FRAGMENTS'', JArr []),
             (''DEPENDENCY_REFS'', JArr []), (''PRODUCT_LEVEL_TARGET'', JNull),
             (''COMPETITOR_COORDINATES'', JArr []),
             (''CONSTRAINTS'', str_list [''NO_CLOUD_AUTHORITY'', ''NO_RAW_SECRET'', ''MINIMUM_CONTEXT'']),
             (''FORBIDDEN_EFFECTS'', str_list [''D8_PASS'', ''CANONICAL'', ''DEPLOYED'', ''DB_WRITE'']),
             (''OUTPUT_SCHEMA'', str_list ALLOWED_CLOUD_RETURNS),
             (''RECONSTRUCTION_RULE'', JStr ''LOCAL_RECONSTRUCTION_REQUIRED''),
             (''VERIFICATION_RULE'', JStr ''LOCAL_8D_ADI_AND_DETERMINISTIC_TESTS_REQUIRED''),
             (''TTL'', JInt ttl_seconds), (''NONCE'', JStr nonce)]
      in packet @ [(''EVIDENCE_HASH'', JStr (sha_json sha (JObj packet)))])"

end
