(* ===== verification/ArbitrationProps.thy ===== *)
theory ArbitrationProps
  imports Arbitration
begin

text \<open>
  What the arbitration may select: the kinds of resource the probes produce, the sets of the
  decision for any profile, and the two together for the document that is returned.
\<close>

section \<open>Resources by identifier\<close>

lemma by_id_snoc: "by_id (rs @ [r]) = dset (resource_id r) r (by_id rs)"
  by (simp add: by_id_def)

lemma by_id_Some: "dget (by_id rs) rid = Some r \<Longrightarrow> r \<in> set rs \<and> resource_id r = rid"
  by (induction rs rule: rev_induct) (auto simp: by_id_def by_id_snoc split: if_splits)

lemma dkeys_by_id: "set (dkeys (by_id rs)) = resource_id ` set rs"
  by (induction rs rule: rev_induct) (auto simp: by_id_def by_id_snoc dkeys_dset)

lemma distinct_by_id: "distinct (dkeys (by_id rs))"
  by (induction rs rule: rev_induct) (simp_all add: by_id_def by_id_snoc)

definition available_ids :: "json dict dict \<Rightarrow> string list" where
  "available_ids ids = map fst (filter (\<lambda>(_, r). is_available r) ids)"

lemma available_dget:
  "distinct (dkeys ids) \<Longrightarrow> rid \<in> set (available_ids ids) \<longleftrightarrow>
   (\<exists>r. dget ids rid = Some r \<and> is_available r)"
  by (auto simp: available_ids_def image_iff)

section \<open>What the probes produce\<close>

definition MODEL_IDS :: "string list" where
  "MODEL_IDS = [''MSI_OLLAMA_LOCAL'', ''OLLAMA_CLOUD'', ''GEMINI_CODE_ASSIST'', ''GOOGLE_VERTEX_GEMINI'']"

text \<open>The identifier and type of a probed resource, and the binding of the Vertex gateway.\<close>

definition probed_kind :: "json dict \<Rightarrow> bool" where
  "probed_kind r \<longleftrightarrow>
     (fld r ''RESOURCE_TYPE'' = JStr ''MODEL_COMPUTE'' \<longrightarrow> resource_id r \<in> set MODEL_IDS) \<and>
     (resource_id r = ''GOOGLE_VERTEX_GEMINI'' \<longrightarrow> unbound_model r) \<and>
     is_str (fld r ''RESOURCE_ID'') \<and> resource_id r \<noteq> []"

lemma fld_updates:
  "k \<notin> set (dkeys u) \<Longrightarrow> fld (dmerge d u) k = fld d k"
  by (simp add: get_or_none_def dget_dmerge_notin)

lemma base_fields:
  "fld (resource_base obs i t n p m) ''RESOURCE_ID'' = JStr i"
  "fld (resource_base obs i t n p m) ''RESOURCE_TYPE'' = JStr t"
  by (simp_all add: resource_base_def)

lemma probed_kind_base:
  assumes "''RESOURCE_ID'' \<notin> set (dkeys u)" and "''RESOURCE_TYPE'' \<notin> set (dkeys u)"
    and "t = ''MODEL_COMPUTE'' \<Longrightarrow> i \<in> set MODEL_IDS" and "i \<noteq> ''GOOGLE_VERTEX_GEMINI''" and "i \<noteq> []"
  shows "probed_kind (dmerge (resource_base obs i t n p m) u)"
  using assms by (simp add: probed_kind_def resource_id_def fld_updates base_fields is_str_def)

lemma probed_router:
  "router_node obs path name meta = Inr r \<Longrightarrow> probed_kind r"
  "probed_kind (router_service obs path name v)"
proof -
  assume "router_node obs path name meta = Inr r"
  then obtain roles where r: "r = dmerge (resource_base obs (''ROUTER_NODE_'' @ upper name) ''ROUTER_CHILD_NODE'' name ''TAIJI_ROUTER'' name)
       (router_common (''router://nodes/'' @ name) (JArr roles) @
      [(''TOOL_CAPABILITY'', JStr ''ROUTER_DISPATCHABLE_RESOURCE''),
       (''MAX_AUTHORITY_LEVEL'', get_or_none meta ''max_authority_level''),
       (''EVIDENCE_REFS'', str_list [path, ''router://nodes/'' @ name])])"
    by (auto simp: router_node_def e_bind_InrD)
  show "probed_kind r" unfolding r
    by (rule probed_kind_base) (simp_all add: router_common_def)
next
  show "probed_kind (router_service obs path name v)"
    unfolding router_service_def by (rule probed_kind_base) (simp_all add: router_common_def)
qed

lemma probed_router_nodes: "router_nodes obs path ns = Inr rs \<Longrightarrow> \<forall>r \<in> set rs. probed_kind r"
proof (induction ns arbitrary: rs)
  case (Cons n ns)
  obtain name meta where n: "n = (name, meta)" by (cases n)
  show ?case
  proof (cases meta)
    case (JObj m)
    with Cons.prems n obtain r rs' where "router_node obs path name m = Inr r"
      "router_nodes obs path ns = Inr rs'" "rs = r # rs'"
      by (auto simp: e_bind_InrD)
    with Cons.IH probed_router(1) show ?thesis by auto
  qed (use Cons n in simp_all)
qed simp

lemma probed_fabric: "probe_router_resource_fabric obs root = Inr rs \<Longrightarrow> \<forall>r \<in> set rs. probed_kind r"
  using probed_router_nodes probed_router(2)
  by (fastforce simp: probe_router_resource_fabric_def e_bind_InrD Let_def)

lemma probed_tailnet: "tailnet_nodes obs ps = Inr rs \<Longrightarrow> \<forall>r \<in> set rs. probed_kind r"
proof (induction ps arbitrary: rs)
  case (Cons p ps)
  have "probed_kind (tailnet_node obs host ips online)" for host ips online
    unfolding tailnet_node_def by (rule probed_kind_base) simp_all
  with Cons show ?case
    by (auto simp: e_bind_InrD Let_def split: if_splits)
qed simp

lemma probed_peers: "probe_tailnet_nodes obs = Inr rs \<Longrightarrow> \<forall>r \<in> set rs. probed_kind r"
  using probed_tailnet
  by (fastforce simp: probe_tailnet_nodes_def e_bind_InrD split: option.splits prod.splits if_splits)

lemma probed_models:
  "probe_local_ollama obs url model = Inr r \<Longrightarrow> probed_kind r"
  "probe_ollama_cloud obs url = Inr r' \<Longrightarrow> probed_kind r'"
  "probed_kind (probe_gemini_code_assist obs)"
proof -
  assume "probe_local_ollama obs url model = Inr r"
  then show "probed_kind r"
    unfolding probe_local_ollama_def Let_def e_bind_InrD
    by (elim exE conjE) (simp only: sum.inject, erule subst, rule probed_kind_base, simp_all add: MODEL_IDS_def)
next
  assume "probe_ollama_cloud obs url = Inr r'"
  then show "probed_kind r'"
    unfolding probe_ollama_cloud_def Let_def e_bind_InrD
    by (elim exE conjE) (simp only: sum.inject, erule subst, rule probed_kind_base, simp_all add: MODEL_IDS_def)
next
  have "probed_kind (dmerge (resource_base obs ''GEMINI_CODE_ASSIST'' ''MODEL_COMPUTE'' ''taiji01-code-server''
                   ''GOOGLE'' ''Gemini SDLC Agent'') u)"
    if "''RESOURCE_ID'' \<notin> set (dkeys u)" "''RESOURCE_TYPE'' \<notin> set (dkeys u)" for u
    using that by (rule probed_kind_base) (simp_all add: MODEL_IDS_def)
  from this [of "gemini_found obs _ _"] this [of "[(''CURRENT_STATE'', JStr ''HOLD_AGENT_NOT_DISCOVERED'')]"]
  show "probed_kind (probe_gemini_code_assist obs)"
    by (auto simp: probe_gemini_code_assist_def Let_def gemini_found_def split: option.splits)
qed

lemma probed_vertex: "probe_vertex obs root = Inr r \<Longrightarrow> probed_kind r"
proof -
  assume r: "probe_vertex obs root = Inr r"
  have "fld r ''CONTEXT_BINDING_STATE'' = JStr ''HOLD_POINTER_FIRST_ADAPTER_MISSING''"
    using r unfolding probe_vertex_def Let_def
    by (cases "read_json_or_empty obs (path_join root ''config/w7tp_vertex_candidate_gateway.json'')") auto
  moreover have "fld r ''RESOURCE_ID'' = JStr ''GOOGLE_VERTEX_GEMINI''"
    using r unfolding probe_vertex_def Let_def
    by (cases "read_json_or_empty obs (path_join root ''config/w7tp_vertex_candidate_gateway.json'')")
      (auto simp: base_fields)
  moreover have "fld r ''RESOURCE_TYPE'' = JStr ''MODEL_COMPUTE''"
    using r unfolding probe_vertex_def Let_def
    by (cases "read_json_or_empty obs (path_join root ''config/w7tp_vertex_candidate_gateway.json'')")
      (auto simp: base_fields)
  ultimately show ?thesis
    by (simp add: probed_kind_def unbound_model_def resource_id_def MODEL_IDS_def is_str_def)
qed

lemma probed_fixed:
  "probed_kind (probe_taiji01_node obs)" "probed_kind (probe_msi_node obs)"
  "probed_kind (probe_workspace obs root)" "probed_kind (probe_total obs)" "probed_kind (probe_adi obs)"
  unfolding probe_taiji01_node_def probe_msi_node_def probe_workspace_def probe_total_def probe_adi_def
    Let_def split_beta
  by (rule probed_kind_base; simp)+

lemma probe_all_kinds:
  assumes "probe_all obs root url model = Inr rs"
  shows "\<forall>r \<in> set rs. probed_kind r"
  using assms probed_models probed_vertex probed_fixed probed_fabric probed_peers
  by (auto simp: probe_all_def e_bind_InrD probe_total_field_def)

section \<open>The decision for any profile\<close>

text \<open>
  What every step keeps: only available identifiers are qualified, a model only when it is not
  denied, and what is preferred or runs in parallel is qualified.
\<close>

definition SELECTABLE :: "string list" where
  "SELECTABLE =
     [''TAIJI01_NODE'', ''MSI_NODE'', ''MSI_OLLAMA_LOCAL'', ''GEMINI_CODE_ASSIST'',
      ''GOOGLE_VERTEX_GEMINI'', ''GOOGLE_WORKSPACE_ORG'', ''TAIJI01_NATIVE_ADI'', ''TAIJI01_TOTAL_FIELD'']"

definition selectable :: "string list \<Rightarrow> string list \<Rightarrow> string \<Rightarrow> bool" where
  "selectable available den rid \<longleftrightarrow>
     rid \<in> set available \<and> rid \<in> set SELECTABLE \<and> (rid \<in> set MODEL_IDS \<longrightarrow> rid \<notin> set den)"

definition sound :: "string list \<Rightarrow> string list \<Rightarrow> decision \<Rightarrow> bool" where
  "sound available den d \<longleftrightarrow>
     set (denied_set d) = set den \<and> (\<forall>rid \<in> set (qualified_set d). selectable available den rid) \<and>
     set (preferred_set d) \<subseteq> set (qualified_set d) \<and> set (parallel_set d) \<subseteq> set (qualified_set d)"

lemma sound_because [inv_intros]: "sound a n d \<Longrightarrow> sound a n (because rid t d)"
  by (simp add: sound_def because_def)

lemma sound_qualify [inv_intros]: "selectable a n rid \<Longrightarrow> sound a n d \<Longrightarrow> sound a n (qualify rid d)"
  by (auto simp: sound_def qualify_def)

lemma sound_prefer [inv_intros]:
  "rid \<in> set (qualified_set d) \<Longrightarrow> sound a n d \<Longrightarrow> sound a n (set_preferred rid d)"
  by (auto simp: sound_def set_preferred_def)

lemma sound_parallel [inv_intros]:
  "rid \<in> set (qualified_set d) \<Longrightarrow> sound a n d \<Longrightarrow> sound a n (in_parallel rid d)"
  by (auto simp: sound_def in_parallel_def)

lemma qualified_steps [simp]:
  "qualified_set (because rid t d) = qualified_set d" "qualified_set (set_preferred rid d) = qualified_set d"
  "qualified_set (in_parallel rid d) = qualified_set d" "qualified_set (qualify rid d) = qualified_set d @ [rid]"
  by (simp_all add: because_def set_preferred_def in_parallel_def qualify_def)

lemma selectable_node:
  "rid \<in> set available \<Longrightarrow> rid \<in> set SELECTABLE \<Longrightarrow> rid \<notin> set MODEL_IDS \<Longrightarrow> selectable available den rid"
  by (simp add: selectable_def)

lemma sound_search_node:
  "rid \<in> set SELECTABLE \<Longrightarrow> rid \<notin> set MODEL_IDS \<Longrightarrow> sound a n d \<Longrightarrow> sound a n (search_node p a rid d)"
  by (simp add: search_node_def Let_def inv_intros selectable_node)

lemma denied_sound: "sound a n d \<Longrightarrow> set (denied_set d) = set n"
  by (simp add: sound_def)

lemma sound_qualify_model:
  "rid \<in> set a \<Longrightarrow> rid \<in> set SELECTABLE \<Longrightarrow> rid \<notin> set (denied_set d) \<Longrightarrow> sound a n d \<Longrightarrow>
   sound a n (qualify rid d)"
  by (rule sound_qualify) (simp_all add: selectable_def denied_sound)

lemma selectable_ids:
  "''MSI_OLLAMA_LOCAL'' \<in> set SELECTABLE" "''GEMINI_CODE_ASSIST'' \<in> set SELECTABLE"
  "''GOOGLE_VERTEX_GEMINI'' \<in> set SELECTABLE" "''GOOGLE_WORKSPACE_ORG'' \<in> set SELECTABLE - set MODEL_IDS"
  "''TAIJI01_NODE'' \<in> set SELECTABLE - set MODEL_IDS" "''MSI_NODE'' \<in> set SELECTABLE - set MODEL_IDS"
  "set AUTHORITY_IDS \<subseteq> set SELECTABLE - set MODEL_IDS"
  by (simp_all add: SELECTABLE_def MODEL_IDS_def AUTHORITY_IDS_def)

lemma sound_qualify_local: "sound a n d \<Longrightarrow> sound a n (qualify_local p a d)"
  by (simp add: qualify_local_def Let_def sound_because sound_qualify_model selectable_ids)

lemma sound_qualify_if:
  "rid \<in> set SELECTABLE \<Longrightarrow> sound a n d \<Longrightarrow> sound a n (qualify_if b a rid d)"
  by (simp add: qualify_if_def sound_qualify_model)

lemma sound_choose: "sound a n d \<Longrightarrow> sound a n (choose_preferred p d)"
  by (simp add: choose_preferred_def Let_def inv_intros)

lemma sound_reasoning: "sound a n d \<Longrightarrow> sound a n (add_reasoning p d)"
  by (simp add: add_reasoning_def inv_intros)

lemma sound_org: "sound a n d \<Longrightarrow> sound a n (add_org p d)"
  by (simp add: add_org_def inv_intros)

lemma sound_authority: "sound a n d \<Longrightarrow> sound a n (add_authority a d)"
proof -
  assume d: "sound a n d"
  have "\<forall>rid \<in> set (filter (\<lambda>rid. rid \<in> set a) AUTHORITY_IDS). selectable a n rid"
    using selectable_ids(7) by (auto intro: selectable_node)
  with d show ?thesis unfolding sound_def add_authority_def Let_def by simp blast
qed

lemma sound_dedup: "sound a n d \<Longrightarrow> sound a n (deduplicated d)"
  by (simp add: sound_def deduplicated_def)

abbreviation denied_ids :: "(string list \<Rightarrow> string list) \<Rightarrow> task_profile \<Rightarrow> bool \<Rightarrow> json dict dict \<Rightarrow> string list" where
  "denied_ids order p google ids \<equiv> fst (denials order p google ids (available_ids ids))"

lemma decide_sound: "sound (available_ids ids) (denied_ids order p google ids) (decide order p google ids)"
proof -
  let ?a = "available_ids ids" and ?n = "denied_ids order p google ids"
  have "sound ?a ?n (initial_decision (denials order p google ids ?a))"
    by (simp add: sound_def initial_decision_def)
  then have "sound ?a ?n (search_node p ?a ''MSI_NODE'' (search_node p ?a ''TAIJI01_NODE''
      (initial_decision (denials order p google ids ?a))))" (is "sound _ _ ?d1")
    using selectable_ids(5,6) by (auto intro!: sound_search_node)
  then have "sound ?a ?n (qualify_if (p_heavy_reasoning p) ?a ''GOOGLE_VERTEX_GEMINI''
      (qualify_if (p_code p) ?a ''GEMINI_CODE_ASSIST'' (qualify_local p ?a ?d1)))" (is "sound _ _ ?d4")
    by (intro sound_qualify_if sound_qualify_local selectable_ids)
  moreover have "''GOOGLE_WORKSPACE_ORG'' \<in> set ?a \<Longrightarrow> selectable ?a ?n ''GOOGLE_WORKSPACE_ORG''"
    using selectable_ids(4) by (auto intro: selectable_node)
  ultimately have "sound ?a ?n (if p_org_knowledge p \<and> ''GOOGLE_WORKSPACE_ORG'' \<in> set ?a
      then qualify ''GOOGLE_WORKSPACE_ORG'' ?d4 else ?d4)"
    by (simp add: sound_qualify)
  then show ?thesis
    unfolding decide_def Let_def available_ids_def [symmetric]
    by (intro sound_dedup sound_authority sound_org sound_reasoning sound_choose)
qed

text \<open>What is denied, as a set: the order in which a Python set is traversed has no part in it.\<close>

lemma denied_ids_set:
  assumes "\<And>xs. set (order xs) = set xs"
  shows "set (denied_ids order p google ids) = set (unbound_ids ids (available_ids ids)) \<union>
    (set (available_ids ids) \<inter>
       (if p_sensitive p then set CLOUD_IDS else if \<not> google then set GOOGLE_IDS else {}))"
  using assms by (auto simp: denials_def Let_def)

lemma unbound_ids_iff:
  assumes "distinct (dkeys ids)"
  shows "rid \<in> set (unbound_ids ids (available_ids ids)) \<longleftrightarrow>
    (\<exists>r. dget ids rid = Some r \<and> is_available r \<and> unbound_model r)"
  using available_dget [OF assms, of rid] dget_Some_set [of ids rid]
  by (force simp: unbound_ids_def split: option.splits)

text \<open>The same on the probed resources.\<close>

lemma selected_admissible:
  assumes "\<And>xs. set (order xs) = set xs" and "\<forall>r \<in> set rs. probed_kind r"
    and "d = decide order p google (by_id rs)"
  shows "set (preferred_set d) \<subseteq> set (qualified_set d)" and "set (parallel_set d) \<subseteq> set (qualified_set d)"
    and "set (denied_set d) \<inter> set (qualified_set d) = {}"
    and "rid \<in> set (qualified_set d) \<Longrightarrow>
      \<exists>r \<in> set rs. resource_id r = rid \<and> is_available r \<and> \<not> unbound_model r"
    and "p_sensitive p \<Longrightarrow> set CLOUD_IDS \<inter> set (qualified_set d) = {}"
    and "\<not> google \<Longrightarrow> set GOOGLE_IDS \<inter> set (qualified_set d) = {}"
proof -
  let ?ids = "by_id rs" and ?a = "available_ids (by_id rs)" and ?n = "denied_ids order p google (by_id rs)"
  have s: "sound ?a ?n d" unfolding assms(3) by (rule decide_sound)
  then show "set (preferred_set d) \<subseteq> set (qualified_set d)" "set (parallel_set d) \<subseteq> set (qualified_set d)"
    by (simp_all add: sound_def)
  from s have q: "selectable ?a ?n rid" if "rid \<in> set (qualified_set d)" for rid
    using that by (simp add: sound_def)
  have unb: "rid \<in> set MODEL_IDS" if "dget ?ids rid = Some r" "unbound_model r" for rid r
    using by_id_Some [OF that(1)] that(2) assms(2) by (auto simp: probed_kind_def unbound_model_def)
  have clouds: "set CLOUD_IDS \<subseteq> set MODEL_IDS" "set GOOGLE_IDS \<subseteq> set MODEL_IDS"
    by (simp_all add: CLOUD_IDS_def GOOGLE_IDS_def MODEL_IDS_def)
  note dn = denied_ids_set [OF assms(1), of p google ?ids]
  have "set ?n \<subseteq> set MODEL_IDS"
    unfolding dn using clouds unb by (auto simp: unbound_ids_iff distinct_by_id split: if_splits)
  with q show "set (denied_set d) \<inter> set (qualified_set d) = {}"
    using denied_sound [OF s] by (auto simp: selectable_def)
  show "\<exists>r \<in> set rs. resource_id r = rid \<and> is_available r \<and> \<not> unbound_model r"
    if "rid \<in> set (qualified_set d)"
  proof -
    from q [OF that] have "rid \<in> set ?a" "rid \<in> set MODEL_IDS \<longrightarrow> rid \<notin> set ?n"
      by (simp_all add: selectable_def)
    then obtain r where r: "dget ?ids rid = Some r" "is_available r" "rid \<in> set MODEL_IDS \<longrightarrow> rid \<notin> set ?n"
      by (auto simp: available_dget distinct_by_id)
    have "\<not> unbound_model r"
      using unb [OF r(1)] r unfolding dn by (auto simp: unbound_ids_iff distinct_by_id)
    with r by_id_Some [OF r(1)] show ?thesis by blast
  qed
  show "set CLOUD_IDS \<inter> set (qualified_set d) = {}" if "p_sensitive p"
    using q clouds that dn by (auto simp: selectable_def)
  show "set GOOGLE_IDS \<inter> set (qualified_set d) = {}" if "\<not> google"
  proof (cases "p_sensitive p")
    case True
    have "set GOOGLE_IDS \<subseteq> set CLOUD_IDS" by (simp add: GOOGLE_IDS_def CLOUD_IDS_def)
    with True q clouds dn show ?thesis unfolding selectable_def by simp blast
  next
    case False
    with q clouds that dn show ?thesis by (auto simp: selectable_def)
  qed
qed

section \<open>The returned document\<close>

definition strings :: "json dict \<Rightarrow> string \<Rightarrow> string list" where
  "strings doc k = map str_of (arr_of (fld doc k))"

lemma arbitrate_Inr:
  assumes "arbitrate_resources obs intent root url model google = Inr doc"
  obtains rs where "probe_all obs root url model = Inr rs"
    "doc = decision_document obs (classify_intent intent) rs (by_id rs)
       (decide (set_order obs) (classify_intent intent) google (by_id rs))"
  using assms by (auto simp: arbitrate_resources_def Let_def e_bind_InrD)

lemma document_sets:
  assumes "doc = decision_document obs p rs ids d"
  shows "strings doc ''QUALIFIED_SET'' = qualified_set d" "strings doc ''PREFERRED_SET'' = preferred_set d"
    "strings doc ''PARALLEL_SET'' = parallel_set d" "strings doc ''DENIED_SET'' = denied_set d"
    "strings doc ''AVAILABLE_SET'' = available_ids ids"
    "strings doc ''REGISTERED_SET'' = map fst (filter (\<lambda>(_, r). is_registered r) ids)"
    "strings doc ''HOLD_SET'' = dedup (map fst (filter (\<lambda>(_, r). \<not> is_available r) ids))"
    "arr_of (fld doc ''RESOURCE_COORDINATES'') = map JObj rs"
  unfolding assms decision_document_def Let_def strings_def available_ids_def
  by (simp_all add: o_def)

text \<open>
  C39: Whatever the probes observe, the arbitration selects soundly: what it prefers or runs in
  parallel is qualified, nothing denied is qualified, every qualified identifier belongs to an
  observed resource that is available and is not a model without its pointer-first binding, and
  no cloud model is qualified for a sensitive intent nor a Google one when Google is not allowed.
\<close>

theorem selection_is_admissible:
  assumes "\<And>xs. set (set_order obs xs) = set xs"
    and "arbitrate_resources obs intent root url model google = Inr doc"
  shows "set (strings doc ''PREFERRED_SET'') \<union> set (strings doc ''PARALLEL_SET'') \<subseteq> set (strings doc ''QUALIFIED_SET'') \<and>
    set (strings doc ''DENIED_SET'') \<inter> set (strings doc ''QUALIFIED_SET'') = {} \<and>
    (\<forall>rid \<in> set (strings doc ''QUALIFIED_SET''). \<exists>r. JObj r \<in> set (arr_of (fld doc ''RESOURCE_COORDINATES'')) \<and>
       resource_id r = rid \<and> is_available r \<and> \<not> unbound_model r) \<and>
    (p_sensitive (classify_intent intent) \<longrightarrow> set CLOUD_IDS \<inter> set (strings doc ''QUALIFIED_SET'') = {}) \<and>
    (\<not> google \<longrightarrow> set GOOGLE_IDS \<inter> set (strings doc ''QUALIFIED_SET'') = {})"
proof -
  obtain rs where rs: "probe_all obs root url model = Inr rs"
    and doc: "doc = decision_document obs (classify_intent intent) rs (by_id rs)
       (decide (set_order obs) (classify_intent intent) google (by_id rs))"
    using assms(2) by (rule arbitrate_Inr)
  note sel = selected_admissible [OF assms(1) probe_all_kinds [OF rs] refl, where p = "classify_intent intent" and google = google]
  have mem: "JObj r \<in> set (map JObj rs) \<longleftrightarrow> r \<in> set rs" for r by auto
  show ?thesis unfolding document_sets [OF doc] mem
    using sel by blast
qed

text \<open>
  The Vertex gateway and Ollama Cloud can never be selected, whatever is observed and asked: a
  configured Vertex gateway is available but always denied for its missing binding, so the branches
  that would use it for heavy reasoning are never taken.
\<close>

theorem vertex_never_selected:
  assumes "\<And>xs. set (set_order obs xs) = set xs"
    and "arbitrate_resources obs intent root url model google = Inr doc"
  shows "''GOOGLE_VERTEX_GEMINI'' \<notin> set (strings doc ''QUALIFIED_SET'') \<and>
    ''OLLAMA_CLOUD'' \<notin> set (strings doc ''QUALIFIED_SET'') \<and>
    (''GOOGLE_VERTEX_GEMINI'' \<in> set (strings doc ''AVAILABLE_SET'') \<longrightarrow>
       ''GOOGLE_VERTEX_GEMINI'' \<in> set (strings doc ''DENIED_SET''))"
proof -
  obtain rs where rs: "probe_all obs root url model = Inr rs"
    and doc: "doc = decision_document obs (classify_intent intent) rs (by_id rs)
       (decide (set_order obs) (classify_intent intent) google (by_id rs))"
    using assms(2) by (rule arbitrate_Inr)
  let ?d = "decide (set_order obs) (classify_intent intent) google (by_id rs)"
  let ?n = "denied_ids (set_order obs) (classify_intent intent) google (by_id rs)"
  have s: "sound (available_ids (by_id rs)) ?n ?d" by (rule decide_sound)
  have "\<forall>rid \<in> set (qualified_set ?d). rid \<in> set SELECTABLE" using s by (simp add: sound_def selectable_def)
  moreover have "''OLLAMA_CLOUD'' \<notin> set SELECTABLE" by (simp add: SELECTABLE_def)
  ultimately have "''OLLAMA_CLOUD'' \<notin> set (qualified_set ?d)" by blast
  moreover have v: "unbound_model r" if "r \<in> set rs" "resource_id r = ''GOOGLE_VERTEX_GEMINI''" for r
    using probe_all_kinds [OF rs] that by (simp add: probed_kind_def)
  then have "''GOOGLE_VERTEX_GEMINI'' \<notin> set (qualified_set ?d)"
    using selected_admissible(4) [OF assms(1) probe_all_kinds [OF rs] refl] by blast
  moreover have "''GOOGLE_VERTEX_GEMINI'' \<in> set ?n" if "''GOOGLE_VERTEX_GEMINI'' \<in> set (available_ids (by_id rs))"
  proof -
    from that obtain r where r: "dget (by_id rs) ''GOOGLE_VERTEX_GEMINI'' = Some r" "is_available r"
      by (auto simp: available_dget distinct_by_id)
    with v by_id_Some [OF r(1)] show ?thesis
      by (simp add: denied_ids_set [OF assms(1)] unbound_ids_iff distinct_by_id)
  qed
  ultimately show ?thesis unfolding document_sets [OF doc] using denied_sound [OF s] by simp
qed

text \<open>
  Every probed resource is registered, and the available and the held identifiers divide the
  registered ones between them without overlap or repetition.
\<close>

theorem registered_is_available_or_held:
  assumes "arbitrate_resources obs intent root url model google = Inr doc"
  shows "set (strings doc ''REGISTERED_SET'') = resource_id ` {r. JObj r \<in> set (arr_of (fld doc ''RESOURCE_COORDINATES''))} \<and>
    set (strings doc ''AVAILABLE_SET'') \<union> set (strings doc ''HOLD_SET'') = set (strings doc ''REGISTERED_SET'') \<and>
    set (strings doc ''AVAILABLE_SET'') \<inter> set (strings doc ''HOLD_SET'') = {} \<and>
    distinct (strings doc ''AVAILABLE_SET'' @ strings doc ''HOLD_SET'')"
proof -
  obtain rs where rs: "probe_all obs root url model = Inr rs"
    and doc: "doc = decision_document obs (classify_intent intent) rs (by_id rs)
       (decide (set_order obs) (classify_intent intent) google (by_id rs))"
    using assms by (rule arbitrate_Inr)
  let ?ids = "by_id rs"
  have "is_registered r" if "(rid, r) \<in> set ?ids" for rid r
  proof -
    from that distinct_by_id have "dget ?ids rid = Some r" by simp
    from by_id_Some [OF this] probe_all_kinds [OF rs] have "probed_kind r" by blast
    then show ?thesis
      by (cases "fld r ''RESOURCE_ID''") (simp_all add: probed_kind_def is_registered_def is_str_def resource_id_def)
  qed
  then have "filter (\<lambda>(_, r). is_registered r) ?ids = ?ids" by (auto intro!: filter_True)
  moreover have "set (dkeys ?ids) = resource_id ` set rs" by (rule dkeys_by_id)
  moreover have "{r. JObj r \<in> set (map JObj rs)} = set rs" by auto
  moreover have "distinct (map fst (filter P ?ids))" for P
    using distinct_by_id [of rs] by (rule distinct_map_filter)
  moreover have "map fst (filter (\<lambda>(_, r). is_available r) ?ids) = available_ids ?ids"
    by (simp add: available_ids_def)
  moreover have "set (available_ids ?ids) \<inter> set (map fst (filter (\<lambda>(_, r). \<not> is_available r) ?ids)) = {}"
    using distinct_by_id [of rs] by (auto simp: available_ids_def) (metis map_of_is_SomeI option.inject)
  moreover have "set (available_ids ?ids) \<union> set (map fst (filter (\<lambda>(_, r). \<not> is_available r) ?ids)) = set (dkeys ?ids)"
    by (force simp: available_ids_def)
  ultimately show ?thesis unfolding document_sets [OF doc]
    by (simp add: dedup_id) (simp add: available_ids_def)
qed

section \<open>A concrete observation\<close>

text \<open>Nothing answers, and the Vertex gateway is configured.\<close>

definition demo_observations :: observations where
  "demo_observations =
     \<lparr>http_body = (\<lambda>_ _. None), disk = (\<lambda>_. None), tailscale_status = None, lan_ping = Some 0,
      tailnet_ping = None, listeners = None, cloud_model_env = [], org_adapters = [],
      probe_clock = (\<lambda>_. ''t''), set_order = (\<lambda>xs. rev xs)\<rparr>"

lemma demo_order: "set (set_order demo_observations xs) = set xs"
  by (simp add: demo_observations_def)

lemma demo_probe: "\<exists>rs. probe_all demo_observations ''r'' ''u'' ''m'' = Inr rs"
proof -
  let ?o = demo_observations
  have o: "http_body ?o = (\<lambda>_ _. None)" "disk ?o = (\<lambda>_. None)" "tailscale_status ?o = None" "cloud_model_env ?o = []"
    by (simp_all add: demo_observations_def)
  have j: "http_json ?o x y = None" "read_json_or_empty ?o x = JObj []" for x y
    by (simp_all add: http_json_def read_json_or_empty_def o)
  have "\<exists>r. probe_local_ollama ?o ''u'' ''m'' = Inr r"
    by (simp add: probe_local_ollama_def model_names_def j Let_def)
  moreover have "strip [] = []" by (simp add: strip_def)
  then have "\<exists>r. probe_ollama_cloud ?o ''u'' = Inr r"
    by (simp add: probe_ollama_cloud_def o Let_def)
  moreover have "\<exists>r. probe_vertex ?o ''r'' = Inr r"
    by (simp add: probe_vertex_def j Let_def)
  moreover have "probe_router_resource_fabric ?o ''r'' = Inr []"
    by (simp add: probe_router_resource_fabric_def j get_attr_def items_of_def or_else_def)
  moreover have "probe_tailnet_nodes ?o = Inr []" by (simp add: probe_tailnet_nodes_def o)
  ultimately show ?thesis by (auto simp: probe_all_def)
qed

lemma demo_arbitration: "\<exists>doc. arbitrate_resources demo_observations i ''r'' ''u'' ''m'' True = Inr doc"
  using demo_probe by (auto simp: arbitrate_resources_def Let_def)

theorem selection_is_admissible_witness:
  "\<exists>doc. arbitrate_resources demo_observations ''plan'' ''r'' ''u'' ''m'' True = Inr doc \<and>
     set (strings doc ''DENIED_SET'') \<inter> set (strings doc ''QUALIFIED_SET'') = {}"
proof -
  obtain doc where d: "arbitrate_resources demo_observations ''plan'' ''r'' ''u'' ''m'' True = Inr doc"
    using demo_arbitration by blast
  from selection_is_admissible [OF demo_order d] d show ?thesis by blast
qed

theorem vertex_never_selected_witness:
  "\<exists>doc. arbitrate_resources demo_observations ''research'' ''r'' ''u'' ''m'' True = Inr doc \<and>
     ''GOOGLE_VERTEX_GEMINI'' \<notin> set (strings doc ''QUALIFIED_SET'')"
proof -
  obtain doc where d: "arbitrate_resources demo_observations ''research'' ''r'' ''u'' ''m'' True = Inr doc"
    using demo_arbitration by blast
  from vertex_never_selected [OF demo_order d] d show ?thesis by blast
qed

theorem registered_is_available_or_held_witness:
  "\<exists>doc. arbitrate_resources demo_observations ''x'' ''r'' ''u'' ''m'' True = Inr doc \<and>
     set (strings doc ''AVAILABLE_SET'') \<inter> set (strings doc ''HOLD_SET'') = {}"
proof -
  obtain doc where d: "arbitrate_resources demo_observations ''x'' ''r'' ''u'' ''m'' True = Inr doc"
    using demo_arbitration by blast
  from registered_is_available_or_held [OF d] d show ?thesis by blast
qed

end
