(* ===== verification/Capability.thy ===== *)
theory Capability
  imports PyRepr
begin

text \<open>
  \<open>core/capability_internalization.py\<close>, the registry: loading it with its checks, the dependency
  graph, and the selection of capabilities.  The repository's files are a function from paths
  relative to its root; the JSON schema validator is a parameter that gives the path of the first
  error.  Code that runs after the schema check reads a field as the type the schema gives it.
\<close>

section \<open>The repository's files\<close>

datatype fs_node = FileNode string | DirNode | NoNode

text \<open>What a path relative to the root is, and whether it resolves to a place below the root.\<close>

record repo =
  node :: "string \<Rightarrow> fs_node"
  resolves_inside :: "string \<Rightarrow> bool"

definition cap_check :: "bool \<Rightarrow> string \<Rightarrow> string \<Rightarrow> py_error + unit" where
  "cap_check ok reason path = check ok (CapabilityError reason path)"

definition load_json :: "repo \<Rightarrow> string \<Rightarrow> string \<Rightarrow> py_error + json dict" where
  "load_json fs path reason =
     (case node fs path of
        FileNode t \<Rightarrow>
          (case loads t of Some (JObj d) \<Rightarrow> Inr d | _ \<Rightarrow> Inl (CapabilityError reason ''$''))
      | _ \<Rightarrow> Inl (CapabilityError reason ''$''))"

definition REQUIRED_CLASSES :: "string list" where
  "REQUIRED_CLASSES =
     [''CLAW'', ''LLM'', ''STATIC_PULL'', ''DYNAMIC_CONTEXT'', ''NODE_COMPUTE'', ''ORIGIN_CELL'',
      ''GST'', ''NVR_READ'']"

section \<open>The rows of the registry\<close>

definition cap_rows :: "json dict \<Rightarrow> json dict list" where
  "cap_rows registry = map dict_of (arr_of (fld registry ''capabilities''))"

definition cap_id :: "json dict \<Rightarrow> string" where
  "cap_id row = str_of (fld row ''capability_id'')"

definition cap_class :: "json dict \<Rightarrow> string" where
  "cap_class row = str_of (fld row ''capability_class'')"

definition strings_of :: "json \<Rightarrow> string list" where
  "strings_of v = map str_of (arr_of v)"

definition cap_deps :: "json dict \<Rightarrow> string list" where
  "cap_deps row = strings_of (get_or_none row ''requires_capability_ids'')"

definition source_refs :: "json dict \<Rightarrow> string list" where
  "source_refs row = strings_of (fld row ''source_refs'')"

section \<open>Source references\<close>

definition local_part :: "string \<Rightarrow> string" where
  "local_part ref = takeWhile (\<lambda>c. c \<noteq> CHR ''#'') ref"

fun missing_ref :: "repo \<Rightarrow> nat \<Rightarrow> string list \<Rightarrow> nat option" where
  "missing_ref fs j [] = None"
| "missing_ref fs j (ref # refs) =
     (let l = local_part ref in
      if l = [] \<or> CHR '':'' \<in> set l then missing_ref fs (Suc j) refs
      else if node fs l = NoNode then Some j else missing_ref fs (Suc j) refs)"

fun validate_source_refs :: "repo \<Rightarrow> nat \<Rightarrow> json dict list \<Rightarrow> py_error + unit" where
  "validate_source_refs fs i [] = Inr ()"
| "validate_source_refs fs i (row # rows) =
     (case missing_ref fs 0 (source_refs row) of
        Some j \<Rightarrow> Inl (CapabilityError ''CAPABILITY_SOURCE_REF_MISSING''
          (''$.capabilities['' @ show_nat i @ ''].source_refs['' @ show_nat j @ '']''))
      | None \<Rightarrow> validate_source_refs fs (Suc i) rows)"

section \<open>The dependency graph\<close>

type_synonym graph = "(string \<times> string list) list"

definition dependency_graph :: "json dict list \<Rightarrow> graph" where
  "dependency_graph rows = fold (\<lambda>row g. AList.update (cap_id row) (cap_deps row) g) rows []"

text \<open>
  \<open>visit\<close> for a list of identifiers: \<open>active\<close> is the path from the start, \<open>done\<close> what has been
  left.  The recursion ends because a visit only starts for a known identifier off the path.
\<close>

function visit_all ::
  "graph \<Rightarrow> string list \<Rightarrow> string list \<Rightarrow> string list \<Rightarrow> py_error + string list" where
  "visit_all g active finished [] = Inr finished"
| "visit_all g active finished (c # cs) =
     (case map_of g c of
        None \<Rightarrow> Inl (CapabilityError ''CAPABILITY_DEPENDENCY_MISSING'' c)
      | Some deps \<Rightarrow>
          if c \<in> set active then Inl (CapabilityError ''CAPABILITY_DEPENDENCY_CYCLE'' c)
          else if c \<in> set finished then visit_all g active finished cs
          else e_bind (visit_all g (c # active) finished deps)
                 (\<lambda>finished'. visit_all g active (c # finished') cs))"
  by pat_completeness auto
termination
proof (relation "measures [\<lambda>(g, active, _, _). card (set (map fst g) - set active), \<lambda>(_, _, _, cs). length cs]")
  fix g :: graph and active finished :: "string list" and c cs deps
  assume "map_of g c = Some deps" and "c \<notin> set active"
  then have "c \<in> set (map fst g) - set active" by (force dest: map_of_SomeD)
  then have "card (set (map fst g) - set (c # active)) < card (set (map fst g) - set active)"
    by (intro psubset_card_mono) auto
  then show "((g, c # active, finished, deps), g, active, finished, c # cs)
    \<in> measures [\<lambda>(g, active, _, _). card (set (map fst g) - set active), \<lambda>(_, _, _, cs). length cs]"
    by simp
qed auto

definition validate_dependency_graph :: "json dict list \<Rightarrow> py_error + unit" where
  "validate_dependency_graph rows =
     (let g = dependency_graph rows
      in e_bind (visit_all g [] [] (map fst g)) (\<lambda>_. Inr ()))"

section \<open>Loading the registry\<close>

definition error_path :: "json list \<Rightarrow> string" where
  "error_path parts =
     ''$'' @ concat (map (\<lambda>p. case p of JInt n \<Rightarrow> ''['' @ show_int n @ '']'' | _ \<Rightarrow> ''.'' @ py_str p) parts)"

definition authority_wall :: "json dict \<Rightarrow> bool" where
  "authority_wall registry \<longleftrightarrow>
     (let b = dict_of (fld registry ''authority_boundary'') in
      get_or_none registry ''canonical'' = JBool False \<and>
      get_or_none b ''provider_authority'' = JBool False \<and>
      get_or_none b ''external_authority_inherited'' = JBool False \<and>
      get_or_none b ''total_field_verify_required'' = JBool True \<and>
      get_or_none b ''formal_effect_boundary'' = JStr ''TAIJI01_TOTAL_FIELD'')"

definition no_provider_authority :: "json dict \<Rightarrow> bool" where
  "no_provider_authority row \<longleftrightarrow>
     (let d8 = dict_of (fld row ''d8_authority'') in
      get_or_none d8 ''provider_authority'' = JBool False \<and> get_or_none d8 ''final_decision'' = JBool False \<and>
      get_or_none d8 ''canonical'' = JBool False \<and> get_or_none d8 ''requires_total_field_verify'' = JBool True)"

definition fail_closed :: "json dict \<Rightarrow> bool" where
  "fail_closed row \<longleftrightarrow> get_or_none (dict_of (fld row ''d7_risk'')) ''fail_closed'' = JBool True"

fun check_rows :: "nat \<Rightarrow> json dict list \<Rightarrow> py_error + unit" where
  "check_rows i [] = Inr ()"
| "check_rows i (row # rows) =
     e_bind (cap_check (no_provider_authority row) ''CAPABILITY_PROVIDER_AUTHORITY_FORBIDDEN''
               (''$.capabilities['' @ show_nat i @ ''].d8_authority'')) (\<lambda>_.
     e_bind (cap_check (fail_closed row) ''CAPABILITY_FAIL_CLOSED_REQUIRED''
               (''$.capabilities['' @ show_nat i @ ''].d7_risk.fail_closed'')) (\<lambda>_.
     check_rows (Suc i) rows))"

definition load_internalization_registry ::
  "(json dict \<Rightarrow> json dict \<Rightarrow> json list option) \<Rightarrow> repo \<Rightarrow> string \<Rightarrow> string \<Rightarrow> py_error + json dict" where
  "load_internalization_registry schema_error fs registry_path schema_path =
     e_bind (load_json fs schema_path ''CAPABILITY_SCHEMA_READ_FAILED'') (\<lambda>schema.
     e_bind (load_json fs registry_path ''CAPABILITY_REGISTRY_READ_FAILED'') (\<lambda>registry.
     e_bind (case schema_error schema registry of
               None \<Rightarrow> Inr ()
             | Some path \<Rightarrow> Inl (CapabilityError ''CAPABILITY_REGISTRY_SCHEMA_INVALID'' (error_path path))) (\<lambda>_.
     let rows = cap_rows registry in
     e_bind (cap_check (distinct (map cap_id rows)) ''CAPABILITY_ID_DUPLICATE'' ''$'') (\<lambda>_.
     e_bind (cap_check (distinct (map cap_class rows)) ''CAPABILITY_CLASS_DUPLICATE'' ''$'') (\<lambda>_.
     e_bind (cap_check (set (map cap_class rows) = set REQUIRED_CLASSES)
               ''CAPABILITY_CLASS_COVERAGE_INVALID'' ''$'') (\<lambda>_.
     e_bind (cap_check (authority_wall registry) ''CAPABILITY_REGISTRY_AUTHORITY_WALL_INVALID'' ''$'') (\<lambda>_.
     e_bind (check_rows 0 rows) (\<lambda>_.
     e_bind (validate_dependency_graph rows) (\<lambda>_.
     e_bind (validate_source_refs fs 0 rows) (\<lambda>_.
     Inr registry))))))))))"

section \<open>Selection\<close>

text \<open>\<open>_normalized\<close>, as a list without repetition; \<open>None\<close> is the empty set.\<close>

definition normalized :: "json list \<Rightarrow> string list" where
  "normalized vs = remdups (map (\<lambda>v. casefold (strip (py_str v))) (filter (\<lambda>v. strip (py_str v) \<noteq> []) vs))"

definition normalized_arg :: "json list option \<Rightarrow> string list" where
  "normalized_arg vs = (case vs of None \<Rightarrow> [] | Some xs \<Rightarrow> normalized xs)"

definition row_mode :: "json dict \<Rightarrow> string" where
  "row_mode row = upper (py_str (fld (dict_of (fld row ''d5_execution'')) ''mode''))"

definition selected_row :: "string \<Rightarrow> string list \<Rightarrow> string list \<Rightarrow> string list \<Rightarrow> json dict \<Rightarrow> bool" where
  "selected_row wanted modes tags blocked row \<longleftrightarrow>
     (wanted = [] \<or> wanted \<in> set (normalized (arr_of (fld (dict_of (fld row ''d3_coordinate'')) ''node_scope'')))) \<and>
     (modes = [] \<or> row_mode row \<in> set modes) \<and>
     (tags = [] \<or> set tags \<subseteq> set (normalized (arr_of (fld row ''selection_tags'')))) \<and>
     set blocked \<inter> set (normalized (arr_of (fld (dict_of (fld row ''d7_risk'')) ''risk_tags''))) = {}"

definition select_internalized_capabilities ::
  "(json dict \<Rightarrow> json dict \<Rightarrow> json list option) \<Rightarrow> repo \<Rightarrow> string \<Rightarrow> string \<Rightarrow>
   json \<Rightarrow> json list option \<Rightarrow> json list option \<Rightarrow> json list option \<Rightarrow> py_error + json dict" where
  "select_internalized_capabilities schema_error fs registry_path schema_path d3_node d5_modes
       required_tags forbidden_risks =
     e_bind (load_internalization_registry schema_error fs registry_path schema_path) (\<lambda>registry.
     let wanted = (if truthy d3_node then casefold (strip (py_str d3_node)) else []);
         modes = remdups (map upper (normalized_arg d5_modes));
         tags = normalized_arg required_tags;
         blocked = normalized_arg forbidden_risks;
         chosen = filter (selected_row wanted modes tags blocked) (cap_rows registry) in
     Inr [(''state'', JStr ''PASS_CAPABILITY_INTERNALIZATION_SELECTION''),
          (''selection_basis'', JObj
             [(''D3_node'', d3_node), (''D5_modes'', str_list (sort modes)),
              (''D7_forbidden_risks'', str_list (sort blocked)), (''required_tags'', str_list (sort tags))]),
          (''authority_boundary'', fld registry ''authority_boundary''),
          (''selected_capability_ids'', JArr (map (\<lambda>r. fld r ''capability_id'') chosen)),
          (''selected_capabilities'', JArr (map JObj chosen))])"

end
