(* ===== verification/CapabilityContext.thy ===== *)
theory CapabilityContext
  imports Capability
begin

text \<open>
  \<open>core/capability_internalization.py\<close>, the context projection: the binding of a source reference,
  the identifiers of known indexes, the projection built for a task, and the validator of a
  projection, which takes any JSON value.  A build reads the repository in one state.
\<close>

section \<open>Identifiers\<close>

definition CAPABILITY_CONTEXT_SCHEMA :: string where
  "CAPABILITY_CONTEXT_SCHEMA = ''W7TP_CAPABILITY_CONTEXT_PROJECTION/1.0''"

definition CAPABILITY_REF_PREFIX :: string where
  "CAPABILITY_REF_PREFIX = ''capability:''"

definition REGISTRY_REL :: string where
  "REGISTRY_REL = ''configs/total_field/w7tp_capability_internalization_registry_v1.json''"

definition SCHEMA_REL :: string where
  "SCHEMA_REL = ''schemas/field/w7tp_capability_internalization_registry.schema.json''"

definition POINTER_REL :: string where
  "POINTER_REL = ''runtime/total_field/master_index/ACTIVE_W7TP_CANONICAL_POINTER.json''"

definition upper_key_char :: "char \<Rightarrow> bool" where
  "upper_key_char c \<longleftrightarrow> is_digit c \<or> (65 \<le> (of_char c :: nat) \<and> (of_char c :: nat) \<le> 90) \<or> c = CHR ''_''"

text \<open>\<open>_ID.fullmatch\<close>: the prefix, at least one key character, the suffix.\<close>

definition is_cap_id :: "string \<Rightarrow> bool" where
  "is_cap_id s \<longleftrightarrow>
     (let pre = ''CAP_INTERNAL_''; suf = ''_V1''; n = length s - length suf;
          mid = drop (length pre) (take n s) in
      length pre + length suf < length s \<and> take (length pre) s = pre \<and> drop n s = suf \<and>
      list_all upper_key_char mid)"

definition ref_char :: "char \<Rightarrow> bool" where
  "ref_char c \<longleftrightarrow> is_digit c \<or> (65 \<le> (of_char c :: nat) \<and> (of_char c :: nat) \<le> 90)
     \<or> (97 \<le> (of_char c :: nat) \<and> (of_char c :: nat) \<le> 122) \<or> c \<in> set ''_.:-''"

definition is_ref_id :: "string \<Rightarrow> bool" where
  "is_ref_id s \<longleftrightarrow> s \<noteq> [] \<and> list_all ref_char s"

definition projection_hash :: "(string \<Rightarrow> string) \<Rightarrow> json dict \<Rightarrow> string" where
  "projection_hash sha v = sha (dumps_canonical (JObj v))"

section \<open>Source bindings\<close>

fun split_on :: "char \<Rightarrow> string \<Rightarrow> string list" where
  "split_on c [] = [[]]"
| "split_on c (x # xs) =
     (if x = c then [] # split_on c xs
      else (case split_on c xs of p # ps \<Rightarrow> (x # p) # ps | [] \<Rightarrow> [[x]]))"

definition source_binding :: "(string \<Rightarrow> string) \<Rightarrow> repo \<Rightarrow> string \<Rightarrow> py_error + json dict" where
  "source_binding sha fs ref =
     (let l = local_part ref in
      if starts_with l ''/'' \<or> ''..'' \<in> set (split_on (CHR ''/'') l)
      then Inl (CapabilityError ''CAPABILITY_SOURCE_PATH_ESCAPE'' ref)
      else if CHR '':'' \<in> set l
      then Inr [(''ref'', JStr ref), (''state'', JStr ''EXTERNAL_REFERENCE_NOT_PROBED''), (''sha256'', JNull)]
      else if \<not> resolves_inside fs l
      then Inl (CapabilityError ''CAPABILITY_SOURCE_PATH_ESCAPE'' ref)
      else case node fs l of
        FileNode t \<Rightarrow>
          Inr [(''ref'', JStr ref), (''state'', JStr ''FILE_HASH_OBSERVED''), (''sha256'', JStr (sha t))]
      | DirNode \<Rightarrow>
          Inr [(''ref'', JStr ref), (''state'', JStr ''DIRECTORY_REFERENCE''), (''sha256'', JNull)]
      | NoNode \<Rightarrow>
          Inr [(''ref'', JStr ref), (''state'', JStr ''LOCALIZED_UNKNOWN_SOURCE_NOT_PRESENT''),
               (''sha256'', JNull)])"

section \<open>The identifiers of a known index\<close>

definition RULE_MATRIX :: string where
  "RULE_MATRIX = ''docs/adi_native/NATIVE_ADI_SOURCE_RULE_MATRIX.md''"

definition JSON_INDEXES :: "string list" where
  "JSON_INDEXES =
     [''capabilities/W7TP_NATIVE_SKILLS_INDEX.json'',
      ''runtime/total_field/secondary_cloud/capability_registry.json'',
      ''packets/product_av_ordering_ai/merchant_invention_capability_map.json'']"

definition strip_ticks :: "string \<Rightarrow> string" where
  "strip_ticks s = rev (dropWhile (\<lambda>c. c = CHR 96) (rev (dropWhile (\<lambda>c. c = CHR 96) s)))"

text \<open>A table row of the rule matrix; a row with an identifier and no third cell raises.\<close>

definition matrix_row :: "string \<Rightarrow> py_error + json list" where
  "matrix_row line =
     (if \<not> starts_with line [CHR ''|'', CHR '' '', CHR 96] then Inr []
      else
        let cells = split_on (CHR ''|'') line; identifier = strip_ticks (strip (cells ! 1)) in
        if identifier = [] \<or> \<not> list_all upper_key_char identifier then Inr []
        else if length cells < 3 then Inl (IndexError ''list index out of range'')
        else Inr [JObj [(''id'', JStr identifier), (''source_status'', JStr (strip (cells ! 2))),
                        (''role'', JStr ''RULE_SOURCE_NAVIGATION_NOT_CURRENT_AUTHORITY'')]])"

definition skill_entry :: "json \<Rightarrow> json list" where
  "skill_entry v =
     (case v of
        JStr s \<Rightarrow> if is_ref_id s then [JObj [(''id'', v), (''role'', JStr ''REGISTERED_SKILL_NOT_RUNTIME_PROOF'')]]
                  else []
      | _ \<Rightarrow> [])"

definition capability_entry :: "string \<Rightarrow> json \<Rightarrow> py_error + json" where
  "capability_entry ref v =
     (let bad = CapabilityError ''CAPABILITY_CONTEXT_SOURCE_INDEX_INVALID'' ref in
      case v of
        JObj d \<Rightarrow>
          (case or_else (get_or_none d ''capability_ref'') (get_or_none d ''id'') of
             JStr s \<Rightarrow> if is_ref_id s
                       then Inr (JObj [(''id'', JStr s), (''role'', JStr ''SOURCE_RECORDED_CAPABILITY_NOT_ACTIVE_CLAIM'')])
                       else Inl bad
           | _ \<Rightarrow> Inl bad)
      | _ \<Rightarrow> Inl bad)"

definition get_items :: "json dict \<Rightarrow> string \<Rightarrow> py_error + json list" where
  "get_items d k = (case dget d k of Some v \<Rightarrow> py_list v | None \<Rightarrow> Inr [])"

definition index_entries :: "repo \<Rightarrow> string \<Rightarrow> string \<Rightarrow> py_error + json list" where
  "index_entries fs ref t =
     (if ref = RULE_MATRIX then
        e_bind (map_err matrix_row (splitlines t)) (\<lambda>ess. Inr (concat ess))
      else
        e_bind (load_json fs (local_part ref) ''CAPABILITY_CONTEXT_SOURCE_INDEX_INVALID'') (\<lambda>data.
        e_bind (get_items data ''skills'') (\<lambda>skills.
        e_bind (get_items data ''capabilities'') (\<lambda>caps.
        e_bind (map_err (capability_entry ref) caps) (\<lambda>es.
        Inr (concat (map skill_entry skills) @ es))))))"

definition index_base :: "json dict \<Rightarrow> json dict" where
  "index_base binding =
     dmerge binding [(''content_scope'', JStr ''REFERENCE_ONLY''), (''entries'', JArr []),
                     (''effect_authorization'', JStr ''NOT_GRANTED_BY_CONTEXT'')]"

text \<open>
  The projection of one index.  The file is read three times: \<open>fs\<close> for the binding, \<open>fs_read\<close> for
  the contents and \<open>fs_after\<close> for the check that it has not changed.
\<close>

definition source_index_projection ::
  "(string \<Rightarrow> string) \<Rightarrow> repo \<Rightarrow> repo \<Rightarrow> repo \<Rightarrow> string \<Rightarrow> py_error + json dict" where
  "source_index_projection sha fs fs_read fs_after ref =
     e_bind (source_binding sha fs ref) (\<lambda>binding.
     let result = index_base binding in
     if fld binding ''state'' \<noteq> JStr ''FILE_HASH_OBSERVED'' then Inr result
     else if ref \<noteq> RULE_MATRIX \<and> ref \<notin> set JSON_INDEXES then Inr result
     else
       case node fs_read (local_part ref) of
         FileNode t \<Rightarrow>
           e_bind (index_entries fs_read ref t) (\<lambda>entries.
           e_bind (source_binding sha fs_after ref) (\<lambda>after.
           e_bind (cap_check (fld after ''sha256'' = fld binding ''sha256'')
                     ''CAPABILITY_CONTEXT_SOURCE_INDEX_DRIFT'' ref) (\<lambda>_.
           e_bind (cap_check (length entries \<le> 512) ''CAPABILITY_CONTEXT_SOURCE_INDEX_BUDGET'' ref) (\<lambda>_.
           Inr (dmerge result
             [(''content_scope'', JStr ''ALL_DECLARED_IDENTIFIERS_IN_BOUND_SOURCE''),
              (''entries'', JArr entries), (''entry_count'', JInt (int (length entries))),
              (''runtime_readiness'', JStr ''NOT_REOBSERVED'')])))))
       | _ \<Rightarrow> if ref = RULE_MATRIX then Inl (FileNotFoundError ref)
              else Inl (CapabilityError ''CAPABILITY_CONTEXT_SOURCE_INDEX_INVALID'' ''$''))"

section \<open>The requirements of a task\<close>

text \<open>
  The work list of the closure: a popped identifier adds the dependencies it declares and that
  are not yet required.  The Python set is a list without repetition here; only its members
  matter, because it is sorted before it is used.
\<close>

function close_required :: "graph \<Rightarrow> string list \<Rightarrow> string list \<Rightarrow> string list" where
  "close_required g required [] = required"
| "close_required g required (p # ps) =
     (let cid = last (p # ps); rest = butlast (p # ps);
          fresh = remdups (filter (\<lambda>d. d \<notin> set required)
                    (case map_of g cid of Some deps \<Rightarrow> deps | None \<Rightarrow> []))
      in close_required g (required @ fresh) (rest @ fresh))"
  by pat_completeness auto

definition declared :: "graph \<Rightarrow> string set" where
  "declared g = \<Union> (set ` snd ` set g)"

lemma declared_fresh:
  "set (remdups (filter P (case map_of g c of Some deps \<Rightarrow> deps | None \<Rightarrow> []))) \<subseteq> declared g"
proof (cases "map_of g c")
  case (Some deps)
  then have "(c, deps) \<in> set g" by (rule map_of_SomeD)
  then have "set deps \<subseteq> declared g" by (force simp: declared_def)
  with Some show ?thesis by auto
qed simp

termination close_required
proof (relation "measures [\<lambda>(g, required, _). card (declared g - set required), \<lambda>(_, _, ps). length ps]")
  fix g :: graph and required :: "string list" and p :: string and ps cid rest fresh
  assume c: "cid = last (p # ps)" and r: "rest = butlast (p # ps)"
    and f: "fresh = remdups (filter (\<lambda>d. d \<notin> set required)
        (case map_of g cid of Some deps \<Rightarrow> deps | None \<Rightarrow> []))"
  have fin: "finite (declared g)" by (simp add: declared_def)
  show "((g, required @ fresh, rest @ fresh), g, required, p # ps)
    \<in> measures [\<lambda>(g, required, _). card (declared g - set required), \<lambda>(_, _, ps). length ps]"
  proof (cases "fresh = []")
    case True
    with r show ?thesis by simp
  next
    case False
    then obtain x where x: "x \<in> set fresh" by (cases fresh) auto
    then have "x \<in> declared g - set required"
      using declared_fresh [of "\<lambda>d. d \<notin> set required" g cid] f by auto
    with x fin have "card (declared g - set (required @ fresh)) < card (declared g - set required)"
      by (intro psubset_card_mono) auto
    then show ?thesis by simp
  qed
qed simp

definition is_string_list :: "json \<Rightarrow> (string \<Rightarrow> bool) \<Rightarrow> bool" where
  "is_string_list v P \<longleftrightarrow>
     (case v of JArr xs \<Rightarrow> (\<forall>x \<in> set xs. is_str x \<and> P (str_of x)) \<and> distinct (map str_of xs) | _ \<Rightarrow> False)"

definition task_source_refs :: "json dict \<Rightarrow> py_error + string list" where
  "task_source_refs task =
     e_bind (get_items task ''DEPENDENCIES'') (\<lambda>deps.
     e_bind (case get_or_none task ''D3_COORDINATE'' of
               JObj c \<Rightarrow> get_items c ''affected_closure'' | _ \<Rightarrow> Inr []) (\<lambda>affected.
     Inr (map str_of (filter is_str (deps @ affected)))))"

definition seed_required :: "string list \<Rightarrow> string list \<Rightarrow> json dict list \<Rightarrow> string list" where
  "seed_required requested refs rows =
     remdups (requested @ [''CAP_INTERNAL_DYNAMIC_CONTEXT_V1''] @
       map cap_id (filter (\<lambda>row. set refs \<inter> set (source_refs row) \<noteq> {}) rows))"

section \<open>Building a projection\<close>

definition catalogue_row :: "(string \<Rightarrow> string) \<Rightarrow> repo \<Rightarrow> string list \<Rightarrow> json dict \<Rightarrow> py_error + json" where
  "catalogue_row sha fs required row =
     (let cid = cap_id row; d3 = dict_of (fld row ''d3_coordinate'') in
      e_bind (map_err (source_binding sha fs) (source_refs row)) (\<lambda>bindings.
      Inr (JObj
        [(''capability_id'', JStr cid), (''capability_ref'', JStr (CAPABILITY_REF_PREFIX @ cid)),
         (''capability_class'', JStr (cap_class row)), (''registered_status'', fld row ''status''),
         (''runtime_readiness'', JStr ''NOT_REOBSERVED''),
         (''node_scope'', JArr (arr_of (fld d3 ''node_scope''))), (''owner_ref'', fld d3 ''owner_ref''),
         (''coordinate_ref'', fld d3 ''coordinate_ref''), (''source_bindings'', JArr (map JObj bindings)),
         (''resource_refs'', JArr (arr_of (fld row ''resource_refs''))),
         (''requires_capability_ids'', str_list (cap_deps row)),
         (''selection_reason'', JStr (if cid \<in> set required then ''REQUIRED_BY_TASK_OR_CONTEXT_DEPENDENCY''
                                     else ''CATALOGUE_AWARENESS_ONLY_NOT_SELECTED_FOR_EFFECT'')),
         (''effect_policy'', fld (dict_of (fld row ''d5_execution'')) ''mode''),
         (''risk_tags'', JArr (arr_of (fld (dict_of (fld row ''d7_risk'')) ''risk_tags''))),
         (''effect_authorization'', JStr ''NOT_GRANTED_BY_CONTEXT'')])))"

definition PINNED_REFS_AFTER :: "string list" where
  "PINNED_REFS_AFTER =
     [''AGENTS.md'', ''core/capability_internalization.py'', ''tools/w7tp_task_state_local_rule.py'',
      ''tools/w7tp_task_state_minimum_packet.py'', ''tools/total_field_dynamic_context_pull.py'',
      ''runtime/total_field/ACTIVE_TOTAL_FIELD_AUTHORITY.json'']"

definition system_frame :: "json dict \<Rightarrow> json" where
  "system_frame contract = JObj
     [(''canonical_id'', fld contract ''canonical_id''), (''version'', fld contract ''version''),
      (''semantics'', fld contract ''semantics''), (''dimensions'', fld contract ''dimensions''),
      (''adi_definition_ref'', JStr ''AGENTS.md#2.2''),
      (''founder_definition_authority'', JStr ''FOUNDER_ONLY''),
      (''effect_authority_ref'', JStr ''runtime/total_field/ACTIVE_TOTAL_FIELD_AUTHORITY.json''),
      (''provider_authority'', JBool False)]"

definition context_coverage :: "json dict list \<Rightarrow> json" where
  "context_coverage indices = JObj
     [(''scope'', JStr ''EXACT_BOUND_INTERNALIZATION_REGISTRY''), (''registry_entries_complete'', JBool True),
      (''all_technologies_complete'', JBool False),
      (''external_index_contents'', JStr ''DECLARED_IDENTIFIERS_ONLY_NO_RULE_BODY_OR_AUTHORITY''),
      (''unexpanded_index_refs'',
         JArr (map (\<lambda>v. fld v ''ref'') (filter (\<lambda>v. fld v ''content_scope'' = JStr ''REFERENCE_ONLY'') indices))),
      (''task_evidence_scope'', JStr ''SELECTED_RECORDS_NOT_ENTIRE_HISTORY''),
      (''runtime_effect_scope'', JStr ''NOT_TESTED_BY_INDEX''),
      (''dependency_scope'', JStr ''EXPLICIT_DECLARED_CAPABILITY_DEPENDENCIES_ONLY'')]"

definition context_state :: "string list \<Rightarrow> string" where
  "context_state missing =
     (if missing \<noteq> [] then ''HOLD_REQUIRED_CAPABILITY_UNRESOLVED'' else ''BOUND_REGISTERED_CAPABILITY_CONTEXT'')"

definition contract_current :: "json dict \<Rightarrow> json dict \<Rightarrow> bool" where
  "contract_current pointer contract \<longleftrightarrow>
     get_or_none pointer ''state'' = JStr ''ACTIVE_CANONICAL'' \<and>
     pyeq (get_or_none pointer ''canonical_id'') (get_or_none contract ''canonical_id'') \<and>
     pyeq (get_or_none pointer ''version'') (get_or_none contract ''version'') \<and>
     get_or_none contract ''semantics'' = JStr ''8_IN_1_SINGLE_DYNAMIC_STATE_FIELD''"

definition context_value ::
  "string \<Rightarrow> string list \<Rightarrow> string list \<Rightarrow> json dict \<Rightarrow> json dict list \<Rightarrow> json list \<Rightarrow> json dict list \<Rightarrow> json dict" where
  "context_value task_id required missing contract bindings catalogue indices =
     [(''schema_id'', JStr CAPABILITY_CONTEXT_SCHEMA), (''task_ref'', JStr (''task:'' @ task_id)),
      (''state'', JStr (context_state missing)), (''system_frame'', system_frame contract),
      (''source_bindings'', JArr (map JObj bindings)), (''catalogue'', JArr catalogue),
      (''required_capability_ids'', str_list (sort required)),
      (''missing_required_capability_ids'', str_list missing),
      (''catalogue_count'', JInt (int (length catalogue))),
      (''source_index_refs'', JArr (map JObj indices)), (''coverage'', context_coverage indices),
      (''effect_authorization'', JStr ''NOT_GRANTED_BY_CONTEXT'')]"

definition build_capability_context_projection ::
  "(string \<Rightarrow> string) \<Rightarrow> (json dict \<Rightarrow> json dict \<Rightarrow> json list option) \<Rightarrow> repo \<Rightarrow> json dict \<Rightarrow> py_error + json dict" where
  "build_capability_context_projection sha schema_error fs task =
     (let task_id = get_or_none task ''TASK_ID'' in
      e_bind (cap_check (is_str task_id \<and> str_of task_id \<noteq> []) ''CAPABILITY_CONTEXT_TASK_REQUIRED'' ''$'') (\<lambda>_.
      e_bind (load_internalization_registry schema_error fs REGISTRY_REL SCHEMA_REL) (\<lambda>registry.
      e_bind (load_json fs POINTER_REL ''CAPABILITY_CONTEXT_POINTER_MISSING'') (\<lambda>pointer.
      let contract_ref = get_or_none pointer ''canonical_path'' in
      e_bind (cap_check (is_str contract_ref) ''CAPABILITY_CONTEXT_CONTRACT_REF_MISSING'' ''$'') (\<lambda>_.
      e_bind (source_binding sha fs (str_of contract_ref)) (\<lambda>contract_binding.
      e_bind (cap_check (pyeq (fld contract_binding ''sha256'') (get_or_none pointer ''canonical_sha256''))
                ''CAPABILITY_CONTEXT_CONTRACT_HASH_MISMATCH'' ''$'') (\<lambda>_.
      e_bind (load_json fs (str_of contract_ref) ''CAPABILITY_CONTEXT_CONTRACT_MISSING'') (\<lambda>contract.
      e_bind (cap_check (contract_current pointer contract) ''CAPABILITY_CONTEXT_CURRENT_CONTRACT_MISMATCH'' ''$'') (\<lambda>_.
      let requested = (case dget task ''REQUIRED_CAPABILITY_IDS'' of Some v \<Rightarrow> v | None \<Rightarrow> JArr []) in
      e_bind (cap_check (is_string_list requested is_cap_id) ''CAPABILITY_CONTEXT_REQUIREMENTS_INVALID'' ''$'') (\<lambda>_.
      e_bind (task_source_refs task) (\<lambda>refs.
      let rows = cap_rows registry;
          seed = seed_required (strings_of requested) refs rows;
          required = close_required (dependency_graph rows) seed seed;
          missing = sort (filter (\<lambda>c. c \<notin> set (map cap_id rows)) required) in
      e_bind (map_err (catalogue_row sha fs required) (sort_key cap_id rows)) (\<lambda>catalogue.
      e_bind (map_err (source_index_projection sha fs fs fs) (strings_of (fld registry ''source_registry_refs''))) (\<lambda>indices.
      e_bind (item contract ''canonical_id'') (\<lambda>_. e_bind (item contract ''version'') (\<lambda>_.
      e_bind (item contract ''dimensions'') (\<lambda>_.
      e_bind (map_err (source_binding sha fs) [REGISTRY_REL, SCHEMA_REL, POINTER_REL]) (\<lambda>before.
      e_bind (map_err (source_binding sha fs) PINNED_REFS_AFTER) (\<lambda>after.
      let v = context_value (str_of task_id) required missing contract
                (before @ [contract_binding] @ after) catalogue indices in
      Inr (v @ [(''projection_sha256'', JStr (projection_hash sha v))])))))))))))))))))))"

section \<open>Validating a projection\<close>

definition ctx :: "bool \<Rightarrow> string \<Rightarrow> py_error + unit" where
  "ctx ok reason = cap_check ok reason ''$''"

definition catalogue_entry_ok :: "json \<Rightarrow> bool" where
  "catalogue_entry_ok row \<longleftrightarrow>
     (case row of
        JObj d \<Rightarrow> is_str (get_or_none d ''capability_id'') \<and> is_cap_id (str_of (get_or_none d ''capability_id'')) \<and>
                  is_str (get_or_none d ''capability_class'')
      | _ \<Rightarrow> False)"

text \<open>\<open>set(v).issubset(required)\<close> for a list of strings.\<close>

definition subset_of :: "json \<Rightarrow> string list \<Rightarrow> py_error + bool" where
  "subset_of v required =
     e_bind (py_list v) (\<lambda>xs.
       if \<exists>x \<in> set xs. \<not> hashable x then Inl (TypeError ''unhashable type'')
       else Inr (\<forall>x \<in> set xs. \<exists>r \<in> set required. x = JStr r))"

fun check_catalogue :: "string list \<Rightarrow> json dict list \<Rightarrow> py_error + unit" where
  "check_catalogue required [] = Inr ()"
| "check_catalogue required (row # rows) =
     (let cid = cap_id row in
      e_bind (ctx (get_or_none row ''capability_ref'' = JStr (CAPABILITY_REF_PREFIX @ cid))
                ''CAPABILITY_CONTEXT_REFERENCE_MISMATCH'') (\<lambda>_.
      e_bind (if cid \<in> set required
              then subset_of (case dget row ''requires_capability_ids'' of Some v \<Rightarrow> v | None \<Rightarrow> JArr []) required
              else Inr True) (\<lambda>covered.
      e_bind (ctx covered ''CAPABILITY_CONTEXT_DEPENDENCY_OMITTED'') (\<lambda>_.
      e_bind (ctx (get_or_none row ''effect_authorization'' = JStr ''NOT_GRANTED_BY_CONTEXT'' \<and>
                   get_or_none row ''runtime_readiness'' = JStr ''NOT_REOBSERVED'')
                ''CAPABILITY_CONTEXT_AUTHORITY_ESCALATION'') (\<lambda>_.
      check_catalogue required rows)))))"

definition get_array :: "json dict \<Rightarrow> string \<Rightarrow> json" where
  "get_array d k = (case dget d k of Some v \<Rightarrow> v | None \<Rightarrow> JArr [])"

definition get_object :: "json dict \<Rightarrow> string \<Rightarrow> json" where
  "get_object d k = (case dget d k of Some v \<Rightarrow> v | None \<Rightarrow> JObj [])"

definition check_coverage :: "json dict \<Rightarrow> string list \<Rightarrow> py_error + unit" where
  "check_coverage out missing =
     (let over = CapabilityError ''CAPABILITY_CONTEXT_COVERAGE_OVERCLAIM'' ''$'' in
      if get_or_none out ''state'' \<noteq> JStr (context_state missing) then Inl over
      else case get_object out ''coverage'' of
        JObj c \<Rightarrow>
          check (get_or_none c ''registry_entries_complete'' = JBool True \<and>
                 get_or_none c ''all_technologies_complete'' = JBool False \<and>
                 get_or_none out ''effect_authorization'' = JStr ''NOT_GRANTED_BY_CONTEXT'') over
      | _ \<Rightarrow> Inl (AttributeError ''get''))"

definition validate_capability_context_projection ::
  "(string \<Rightarrow> string) \<Rightarrow> json \<Rightarrow> string \<Rightarrow> string list option \<Rightarrow> py_error + json dict" where
  "validate_capability_context_projection sha v task_ref capability_refs =
     e_bind (ctx (is_obj v \<and> get_or_none (dict_of v) ''schema_id'' = JStr CAPABILITY_CONTEXT_SCHEMA)
               ''CAPABILITY_CONTEXT_SCHEMA_INVALID'') (\<lambda>_.
     let claimed = get_or_none (dict_of v) ''projection_sha256'';
         out = dpop ''projection_sha256'' (dict_of v) in
     e_bind (ctx (claimed = JStr (projection_hash sha out)) ''CAPABILITY_CONTEXT_HASH_MISMATCH'') (\<lambda>_.
     e_bind (ctx (get_or_none out ''task_ref'' = JStr task_ref) ''CAPABILITY_CONTEXT_TASK_MISMATCH'') (\<lambda>_.
     let catalogue = arr_of (get_array out ''catalogue'') in
     e_bind (ctx (is_arr (get_array out ''catalogue'') \<and>
                  pyeq (get_or_none out ''catalogue_count'') (JInt (int (length catalogue))))
               ''CAPABILITY_CONTEXT_CATALOGUE_INCOMPLETE'') (\<lambda>_.
     e_bind (ctx (\<forall>row \<in> set catalogue. catalogue_entry_ok row) ''CAPABILITY_CONTEXT_CATALOGUE_INVALID'') (\<lambda>_.
     let rows = map dict_of catalogue; ids = map cap_id rows; classes = map cap_class rows in
     e_bind (ctx (distinct ids \<and> set classes = set REQUIRED_CLASSES \<and> length classes = length REQUIRED_CLASSES)
               ''CAPABILITY_CONTEXT_CATALOGUE_INCOMPLETE'') (\<lambda>_.
     e_bind (ctx (case capability_refs of None \<Rightarrow> True
                  | Some refs \<Rightarrow> (\<forall>cid \<in> set ids. CAPABILITY_REF_PREFIX @ cid \<in> set refs))
               ''CAPABILITY_CONTEXT_REFERENCE_OMITTED'') (\<lambda>_.
     e_bind (ctx (is_string_list (get_array out ''required_capability_ids'') is_cap_id)
               ''CAPABILITY_CONTEXT_REQUIREMENTS_INVALID'') (\<lambda>_.
     let required = strings_of (get_array out ''required_capability_ids'');
         frame = get_object out ''system_frame'' in
     e_bind (ctx (is_obj frame \<and> get_or_none (dict_of frame) ''provider_authority'' = JBool False \<and>
                  get_or_none (dict_of frame) ''founder_definition_authority'' = JStr ''FOUNDER_ONLY'' \<and>
                  get_or_none (dict_of frame) ''semantics'' = JStr ''8_IN_1_SINGLE_DYNAMIC_STATE_FIELD'')
               ''CAPABILITY_CONTEXT_AUTHORITY_ESCALATION'') (\<lambda>_.
     let missing = sort (remdups (filter (\<lambda>c. c \<notin> set ids) required)) in
     e_bind (ctx (get_or_none out ''missing_required_capability_ids'' = str_list missing)
               ''CAPABILITY_CONTEXT_REQUIREMENT_COVERAGE_MISMATCH'') (\<lambda>_.
     e_bind (check_catalogue required rows) (\<lambda>_.
     e_bind (check_coverage out missing) (\<lambda>_.
     Inr (dset ''projection_sha256'' claimed out)))))))))))))"

end
