(* ===== verification/CapabilityProps.thy ===== *)
theory CapabilityProps
  imports CapabilityContext
begin

text \<open>
  The dependency graph of the capabilities, the closure of a task's requirements, and what a
  projection that is built or accepted says.
\<close>

section \<open>The edges of a dependency graph\<close>

definition edges :: "graph \<Rightarrow> (string \<times> string) set" where
  "edges g = {(c, d). \<exists>deps. map_of g c = Some deps \<and> d \<in> set deps}"

lemma edges_Some: "map_of g c = Some deps \<Longrightarrow> edges g `` {c} = set deps"
  by (auto simp: edges_def)

lemma edges_None: "map_of g c = None \<Longrightarrow> edges g `` {c} = {}"
  by (auto simp: edges_def)

lemma graph_snoc:
  "dependency_graph (rows @ [row]) = dset (cap_id row) (cap_deps row) (dependency_graph rows)"
  by (simp add: dependency_graph_def)

lemma graph_distinct: "distinct (dkeys (dependency_graph rows))"
  by (induction rows rule: rev_induct) (simp_all add: graph_snoc, simp add: dependency_graph_def)

lemma graph_keys: "set (dkeys (dependency_graph rows)) = cap_id ` set rows"
  by (induction rows rule: rev_induct) (auto simp: graph_snoc dkeys_dset, auto simp: dependency_graph_def)

lemma graph_lookup:
  "distinct (map cap_id rows) \<Longrightarrow> row \<in> set rows \<Longrightarrow>
   dget (dependency_graph rows) (cap_id row) = Some (cap_deps row)"
  by (induction rows rule: rev_induct) (auto simp: graph_snoc, metis image_eqI)

lemma declared_edges: "distinct (dkeys g) \<Longrightarrow> declared g = edges g `` set (dkeys g)"
  by (force simp: declared_def edges_def dest: map_of_SomeD)

section \<open>The depth-first search\<close>

text \<open>
  The list of what has been left is a topological order: an identifier's dependencies all
  come after it.
\<close>

fun topo :: "graph \<Rightarrow> string list \<Rightarrow> bool" where
  "topo g [] \<longleftrightarrow> True"
| "topo g (c # cs) \<longleftrightarrow>
     (case map_of g c of None \<Rightarrow> False | Some deps \<Rightarrow> set deps \<subseteq> set cs) \<and> topo g cs"

lemma topo_closed: "topo g cs \<Longrightarrow> edges g `` set cs \<subseteq> set cs"
  by (induction cs) (auto simp: edges_def split: option.splits)

lemma topo_acyclic: "topo g cs \<Longrightarrow> c \<in> set cs \<Longrightarrow> (c, c) \<notin> (edges g)\<^sup>+"
proof (induction cs arbitrary: c)
  case (Cons x cs)
  then have t: "topo g cs" and x: "edges g `` {x} \<subseteq> set cs"
    by (auto simp: edges_def split: option.splits)
  show ?case
  proof
    assume cyc: "(c, c) \<in> (edges g)\<^sup>+"
    then obtain d where "(c, d) \<in> edges g" and d: "(d, c) \<in> (edges g)\<^sup>*" by (auto dest: tranclD)
    with Cons.prems x topo_closed [OF t] have "d \<in> set cs" by auto
    with d topo_closed [OF t] have "c \<in> set cs" by (metis Image_closed_trancl rev_ImageI)
    with Cons.IH [OF t] cyc show False by blast
  qed
qed simp

lemma visit_sound:
  "visit_all g active finished cs = Inr out \<Longrightarrow> topo g finished \<Longrightarrow>
   topo g out \<and> set finished \<subseteq> set out \<and> set cs \<subseteq> set out"
proof (induction g active finished cs arbitrary: out rule: visit_all.induct)
  case (2 g active finished c cs)
  from "2.prems"(1) obtain deps where deps: "map_of g c = Some deps" and c: "c \<notin> set active"
    by (auto split: option.splits if_splits)
  show ?case
  proof (cases "c \<in> set finished")
    case True
    with "2.IH"(1) [OF deps c True] "2.prems" deps c show ?thesis by auto
  next
    case False
    with "2.prems"(1) deps c obtain mid where mid: "visit_all g (c # active) finished deps = Inr mid"
      and out: "visit_all g active (c # mid) cs = Inr out"
      by (auto simp: e_bind_InrD)
    have "topo g mid \<and> set finished \<subseteq> set mid \<and> set deps \<subseteq> set mid"
      using "2.IH"(2) [OF deps c False mid "2.prems"(2)] .
    with "2.IH"(3) [OF deps c False mid out] deps show ?thesis by auto
  qed
qed simp

lemma visit_complete:
  "declared g \<subseteq> set (dkeys g) \<Longrightarrow> acyclic (edges g) \<Longrightarrow> set cs \<subseteq> set (dkeys g) \<Longrightarrow>
   set active \<times> set cs \<subseteq> (edges g)\<^sup>+ \<Longrightarrow> \<exists>out. visit_all g active finished cs = Inr out"
proof (induction g active finished cs rule: visit_all.induct)
  case (2 g active finished c cs)
  from "2.prems"(3) obtain deps where deps: "map_of g c = Some deps"
    by (cases "map_of g c") (auto simp: dget_None_keys)
  have c: "c \<notin> set active"
    using "2.prems"(2,4) by (auto simp: acyclic_def)
  have rest: "set cs \<subseteq> set (dkeys g)" "set active \<times> set cs \<subseteq> (edges g)\<^sup>+"
    using "2.prems"(3,4) by auto
  show ?case
  proof (cases "c \<in> set finished")
    case True
    with "2.IH"(1) [OF deps c True "2.prems"(1,2) rest] deps c show ?thesis by simp
  next
    case False
    have known: "set deps \<subseteq> set (dkeys g)"
      using "2.prems"(1) map_of_SomeD [OF deps] by (force simp: declared_def)
    have path: "set (c # active) \<times> set deps \<subseteq> (edges g)\<^sup>+"
    proof -
      have e: "(c, d) \<in> edges g" if "d \<in> set deps" for d using deps that by (auto simp: edges_def)
      have "(a, c) \<in> (edges g)\<^sup>+" if "a \<in> set active" for a using "2.prems"(4) that by auto
      with e show ?thesis by (auto intro: trancl.intros)
    qed
    obtain mid where mid: "visit_all g (c # active) finished deps = Inr mid"
      using "2.IH"(2) [OF deps c False "2.prems"(1,2) known path] by blast
    with "2.IH"(3) [OF deps c False mid "2.prems"(1,2) rest] deps c False show ?thesis by simp
  qed
qed simp

lemma graph_accepted:
  assumes d: "distinct (dkeys g)"
  shows "(\<exists>out. visit_all g [] [] (dkeys g) = Inr out) \<longleftrightarrow>
    edges g `` set (dkeys g) \<subseteq> set (dkeys g) \<and> acyclic (edges g)"
proof
  assume "\<exists>out. visit_all g [] [] (dkeys g) = Inr out"
  then obtain out where "visit_all g [] [] (dkeys g) = Inr out" by blast
  from visit_sound [OF this] have t: "topo g out" and keys: "set (dkeys g) \<subseteq> set out" by auto
  have "c \<in> set (dkeys g)" if "c \<in> set out" for c
    using t that by (induction out) (auto split: option.splits dest: dget_Some_set intro: rev_image_eqI)
  with keys have "set out = set (dkeys g)" by blast
  moreover have "(c, c) \<notin> (edges g)\<^sup>+" for c
  proof
    assume cyc: "(c, c) \<in> (edges g)\<^sup>+"
    then have "c \<in> set (dkeys g)"
      by (auto dest!: tranclD simp: edges_def dest: map_of_SomeD intro: rev_image_eqI)
    with topo_acyclic [OF t] keys cyc show False by blast
  qed
  ultimately show "edges g `` set (dkeys g) \<subseteq> set (dkeys g) \<and> acyclic (edges g)"
    using topo_closed [OF t] by (simp add: acyclic_def)
next
  assume "edges g `` set (dkeys g) \<subseteq> set (dkeys g) \<and> acyclic (edges g)"
  then show "\<exists>out. visit_all g [] [] (dkeys g) = Inr out"
    using visit_complete [of g "dkeys g" "[]" "[]"] by (simp add: declared_edges [OF d])
qed

text \<open>
  C36: a registry's dependency graph is accepted exactly when every declared dependency is the
  identifier of a capability of the registry and no capability depends on itself, directly or
  through others: the depth-first search with its two sets misses no cycle and reports none
  that is not there.
\<close>

theorem dependency_graph_accepted_iff:
  "validate_dependency_graph rows = Inr () \<longleftrightarrow>
   edges (dependency_graph rows) `` (cap_id ` set rows) \<subseteq> cap_id ` set rows \<and>
   acyclic (edges (dependency_graph rows))"
  using graph_accepted [OF graph_distinct, of rows]
  by (simp only: validate_dependency_graph_def Let_def e_bind_InrD graph_keys) simp

section \<open>The closure of the requirements\<close>

lemma fresh_edges:
  "set (remdups (filter (\<lambda>d. d \<notin> R) (case map_of g c of Some deps \<Rightarrow> deps | None \<Rightarrow> []))) =
   edges g `` {c} - R"
  by (cases "map_of g c") (auto simp: edges_None edges_Some)

lemma close_required_set:
  "set ps \<subseteq> set required \<Longrightarrow> edges g `` (set required - set ps) \<subseteq> set required \<Longrightarrow>
   set (close_required g required ps) = (edges g)\<^sup>* `` set required"
proof (induction g required ps rule: close_required.induct)
  case (1 g required)
  then show ?case by (simp add: Image_closed_trancl)
next
  case (2 g required p ps)
  define c where "c = last (p # ps)"
  define rest where "rest = butlast (p # ps)"
  define fresh where "fresh = remdups (filter (\<lambda>d. d \<notin> set required)
    (case map_of g c of Some deps \<Rightarrow> deps | None \<Rightarrow> []))"
  have all: "set (p # ps) = insert c (set rest)"
    unfolding c_def rest_def using append_butlast_last_id [of "p # ps"]
    by (metis Un_insert_right append_Nil2 list.distinct(1) list.simps(15) set_append sup_bot.right_neutral empty_set)
  have f: "set fresh = edges g `` {c} - set required"
    unfolding fresh_def by (rule fresh_edges)
  have c: "c \<in> set required" using "2.prems"(1) all by auto
  have "set (close_required g (required @ fresh) (rest @ fresh)) = (edges g)\<^sup>* `` set (required @ fresh)"
  proof (rule "2.IH" [OF c_def rest_def fresh_def])
    show "set (rest @ fresh) \<subseteq> set (required @ fresh)" using "2.prems"(1) all by auto
    show "edges g `` (set (required @ fresh) - set (rest @ fresh)) \<subseteq> set (required @ fresh)"
      using "2.prems"(2) all f by auto
  qed
  moreover have "(edges g)\<^sup>* `` set (required @ fresh) = (edges g)\<^sup>* `` set required"
    using c f by (auto intro: converse_rtrancl_into_rtrancl)
  ultimately show ?case by (simp add: Let_def c_def rest_def fresh_def)
qed

lemma close_required_distinct:
  "distinct required \<Longrightarrow> distinct (close_required g required ps)"
proof (induction g required ps rule: close_required.induct)
  case (2 g required p ps)
  have "distinct (required @ remdups (filter (\<lambda>d. d \<notin> set required) xs))" for xs
    using "2.prems" by auto
  from "2.IH" [OF refl refl refl this] show ?case
    by (simp only: close_required.simps(2) Let_def)
qed simp

lemma set_seed:
  "set (seed_required requested refs rows) = set requested \<union> {''CAP_INTERNAL_DYNAMIC_CONTEXT_V1''} \<union>
     cap_id ` {row \<in> set rows. set refs \<inter> set (source_refs row) \<noteq> {}}"
  by (auto simp: seed_required_def)

lemma closure_of_seed: "set (close_required g seed seed) = (edges g)\<^sup>* `` set seed"
  by (rule close_required_set) simp_all

text \<open>
  C37: whatever the registry declares, cyclic or incomplete, the work list of a task's requirements
  ends, and it ends with every identifier that can be reached from a requested capability, from
  the context capability or from a capability that shares a source reference with the task, and
  with no other, each once.
\<close>

theorem required_closure_is_reachability:
  "let seed = seed_required requested refs rows; g = dependency_graph rows in
   set (close_required g seed seed) =
     (edges g)\<^sup>* `` (set requested \<union> {''CAP_INTERNAL_DYNAMIC_CONTEXT_V1''} \<union>
       cap_id ` {row \<in> set rows. set refs \<inter> set (source_refs row) \<noteq> {}}) \<and>
   distinct (close_required g seed seed)"
  unfolding Let_def closure_of_seed set_seed by (simp add: close_required_distinct seed_required_def)

end
