(* ===== verification/NativeSpiral.thy ===== *)
theory NativeSpiral
  imports PyWorld
begin

text \<open>
  \<open>services/w7tp_native_adi/core.py\<close>, \<open>spiral_position\<close>: where the points that share a time slot
  are placed.  \<open>math.isqrt\<close> is the integer square root; the loop after it is kept.
\<close>

section \<open>The position of an index\<close>

primrec isqrt :: "nat \<Rightarrow> nat" where
  "isqrt 0 = 0"
| "isqrt (Suc n) = (let r = isqrt n in if (r + 1)\<^sup>2 \<le> Suc n then r + 1 else r)"

function raise_layer :: "nat \<Rightarrow> nat \<Rightarrow> nat" where
  "raise_layer n layer = (if (2 * layer + 1)\<^sup>2 \<le> n then raise_layer n (layer + 1) else layer)"
  by pat_completeness auto
termination
proof (relation "measure (\<lambda>(n, layer). n - layer)")
  fix n layer :: nat
  assume "(2 * layer + 1)\<^sup>2 \<le> n"
  moreover have "layer < (2 * layer + 1)\<^sup>2" by (simp add: power2_eq_square)
  ultimately show "((n, layer + 1), n, layer) \<in> measure (\<lambda>(n, layer). n - layer)" by simp
qed simp

declare raise_layer.simps [simp del]

definition spiral_xy :: "nat \<Rightarrow> int \<times> int" where
  "spiral_xy n =
     (if n = 0 then (0, 0)
      else
        let layer = int (raise_layer n ((isqrt n + 1) div 2));
            side = 2 * layer;
            maximum = (2 * layer + 1)\<^sup>2 - 1;
            distance = maximum - int n in
        if distance < side then (layer - distance, - layer)
        else if distance < 2 * side then (- layer, - layer + (distance - side))
        else if distance < 3 * side then (- layer + (distance - 2 * side), layer)
        else (layer, layer - (distance - 3 * side)))"

definition spiral_position :: "int \<Rightarrow> py_error + int \<times> int" where
  "spiral_position index =
     (if index < 0 then Inl (NativeADIError ''COLLISION_INDEX_INVALID'' ''$.collision_index'')
      else Inr (spiral_xy (nat index)))"

section \<open>Layers\<close>

lemma isqrt_bounds: "(isqrt n)\<^sup>2 \<le> n \<and> n < (isqrt n + 1)\<^sup>2"
proof (induction n)
  case (Suc n)
  then show ?case by (auto simp: Let_def power2_eq_square)
qed simp

definition layer_of :: "nat \<Rightarrow> nat" where
  "layer_of n = (isqrt n + 1) div 2"

lemma layer_lower: "0 < n \<Longrightarrow> (2 * layer_of n - 1)\<^sup>2 \<le> n"
proof -
  assume "0 < n"
  have "2 * layer_of n - 1 \<le> isqrt n" by (simp add: layer_of_def)
  then have "(2 * layer_of n - 1)\<^sup>2 \<le> (isqrt n)\<^sup>2" by (rule power_mono) simp
  also have "\<dots> \<le> n" using isqrt_bounds by blast
  finally show ?thesis .
qed

lemma layer_upper: "n < (2 * layer_of n + 1)\<^sup>2"
proof -
  have "isqrt n + 1 \<le> 2 * layer_of n + 1" by (simp add: layer_of_def)
  then have up: "(isqrt n + 1)\<^sup>2 \<le> (2 * layer_of n + 1)\<^sup>2" by (rule power_mono) simp
  have "n < (isqrt n + 1)\<^sup>2" using isqrt_bounds by blast
  also note up
  finally show ?thesis .
qed

lemma layer_pos: "0 < n \<Longrightarrow> 0 < layer_of n"
  using layer_upper [of n] by (cases "layer_of n") simp_all

lemma raise_layer_idle: "raise_layer n (layer_of n) = layer_of n"
  using layer_upper [of n] by (subst raise_layer.simps) simp

text \<open>The distance of an index from the end of its layer, over the integers.\<close>

definition ring_back :: "nat \<Rightarrow> int" where
  "ring_back n = (2 * int (layer_of n) + 1)\<^sup>2 - 1 - int n"

lemma ring_back_bounds: "0 < n \<Longrightarrow> 0 \<le> ring_back n \<and> ring_back n < 8 * int (layer_of n)"
proof -
  assume n: "0 < n"
  define l where "l = int (layer_of n)"
  have l: "1 \<le> l" using layer_pos [OF n] by (simp add: l_def)
  have "int ((2 * layer_of n - 1)\<^sup>2) \<le> int n" using layer_lower [OF n] by (simp only: of_nat_le_iff)
  moreover have "int (2 * layer_of n - 1) = 2 * l - 1" using layer_pos [OF n] by (simp add: l_def)
  ultimately have low: "(2 * l - 1)\<^sup>2 \<le> int n" by (simp only: of_nat_power)
  have "int n < int ((2 * layer_of n + 1)\<^sup>2)" using layer_upper [of n] by (simp only: of_nat_less_iff)
  then have up: "int n < (2 * l + 1)\<^sup>2" by (simp add: l_def add.commute)
  have "(2 * l + 1)\<^sup>2 - (2 * l - 1)\<^sup>2 = 8 * l" by (simp add: power2_eq_square algebra_simps)
  with low up show ?thesis by (simp add: ring_back_def l_def)
qed

lemma layer_unique:
  "(2 * int l - 1)\<^sup>2 \<le> int n \<Longrightarrow> int n < (2 * int l + 1)\<^sup>2 \<Longrightarrow> 0 < l \<Longrightarrow> layer_of n = l"
proof -
  assume low: "(2 * int l - 1)\<^sup>2 \<le> int n" and up: "int n < (2 * int l + 1)\<^sup>2" and l: "0 < l"
  have b: "int (isqrt n)^2 \<le> int n" "int n < (int (isqrt n) + 1)^2"
    using isqrt_bounds [of n] by (simp_all flip: of_nat_power of_nat_Suc add: add.commute)
  have "2 * int l - 1 < int (isqrt n) + 1"
    using b(2) low power_less_imp_less_base [of "2 * int l - 1" 2 "int (isqrt n) + 1"] by simp
  moreover have "int (isqrt n) < 2 * int l + 1"
  proof (rule power_less_imp_less_base)
    show "(int (isqrt n))\<^sup>2 < (2 * int l + 1)\<^sup>2" using b(1) up by (rule le_less_trans)
  qed simp
  ultimately show ?thesis using l by (simp add: layer_of_def)
qed

section \<open>Points of a layer\<close>

definition ring_point :: "int \<Rightarrow> int \<Rightarrow> int \<times> int" where
  "ring_point l d =
     (if d < 2 * l then (l - d, - l)
      else if d < 4 * l then (- l, d - 3 * l)
      else if d < 6 * l then (d - 5 * l, l)
      else (l, 7 * l - d))"

definition ring_of :: "int \<times> int \<Rightarrow> int" where
  "ring_of p = max \<bar>fst p\<bar> \<bar>snd p\<bar>"

definition ring_dist :: "int \<times> int \<Rightarrow> int" where
  "ring_dist p =
     (let (x, y) = p; l = ring_of p in
      if y = - l \<and> x \<noteq> - l then l - x
      else if x = - l \<and> y \<noteq> l then 3 * l + y
      else if y = l \<and> x \<noteq> l then 5 * l + x
      else 7 * l - y)"

lemma spiral_xy_ring: "0 < n \<Longrightarrow> spiral_xy n = ring_point (int (layer_of n)) (ring_back n)"
  unfolding spiral_xy_def layer_of_def [symmetric] raise_layer_idle
  by (simp add: Let_def ring_point_def ring_back_def)

lemma ring_point_inverse:
  assumes "0 < l" and "0 \<le> d" and "d < 8 * l"
  shows "ring_of (ring_point l d) = l" and "ring_dist (ring_point l d) = d"
proof -
  show r: "ring_of (ring_point l d) = l"
    using assms by (auto simp: ring_point_def ring_of_def)
  show "ring_dist (ring_point l d) = d"
    unfolding ring_dist_def r Let_def using assms by (auto simp: ring_point_def)
qed

lemma ring_dist_inverse:
  assumes "p \<noteq> (0, 0)"
  shows "0 < ring_of p" and "0 \<le> ring_dist p" and "ring_dist p < 8 * ring_of p"
    and "ring_point (ring_of p) (ring_dist p) = p"
proof -
  obtain x y where p: "p = (x, y)" by (cases p)
  define l where "l = ring_of p"
  have l: "0 < l" "\<bar>x\<bar> \<le> l" "\<bar>y\<bar> \<le> l" "\<bar>x\<bar> = l \<or> \<bar>y\<bar> = l"
    using assms by (auto simp: l_def ring_of_def p)
  show "0 < ring_of p" using l(1) by (simp add: l_def)
  have d: "ring_dist p = (if y = - l \<and> x \<noteq> - l then l - x else if x = - l \<and> y \<noteq> l then 3 * l + y
      else if y = l \<and> x \<noteq> l then 5 * l + x else 7 * l - y)" (is "_ = ?d")
    unfolding ring_dist_def Let_def l_def [symmetric] by (simp add: p)
  consider "y = - l" "- l < x" "x \<le> l" | "x = - l" "y < l" "- l \<le> y" | "y = l" "x < l" "- l \<le> x"
    | "x = l" "- l < y" "y \<le> l"
    using l by linarith
  then have "0 \<le> ?d \<and> ?d < 8 * l \<and> ring_point l ?d = (x, y)"
    using l(1) by cases (simp_all add: ring_point_def)
  then show "0 \<le> ring_dist p" "ring_dist p < 8 * ring_of p" "ring_point (ring_of p) (ring_dist p) = p"
    unfolding l_def [symmetric] d [symmetric] p [symmetric] by simp_all
qed

lemma spiral_xy_0 [simp]: "spiral_xy 0 = (0, 0)"
  by (simp add: spiral_xy_def)

lemma spiral_ring: "ring_of (spiral_xy n) = int (layer_of n)"
proof (cases "n = 0")
  case True
  then show ?thesis by (simp add: ring_of_def layer_of_def)
next
  case False
  then have n: "0 < n" by simp
  show ?thesis
    using ring_point_inverse(1) ring_back_bounds [OF n] layer_pos [OF n] by (simp add: spiral_xy_ring [OF n])
qed

lemma spiral_dist: "0 < n \<Longrightarrow> ring_dist (spiral_xy n) = ring_back n"
  using ring_point_inverse(2) ring_back_bounds [of n] layer_pos [of n] by (simp add: spiral_xy_ring)

lemma spiral_inj: "spiral_xy m = spiral_xy n \<Longrightarrow> m = n"
proof -
  assume e: "spiral_xy m = spiral_xy n"
  then have l: "layer_of m = layer_of n" using spiral_ring [of m] spiral_ring [of n] by simp
  show ?thesis
  proof (cases "layer_of m = 0")
    case True
    with l layer_pos [of m] layer_pos [of n] show ?thesis by (cases m; cases n) simp_all
  next
    case False
    have z: "layer_of 0 = 0" by (simp add: layer_of_def)
    from False l z have "0 < m" "0 < n" by (metis neq0_conv)+
    with e have "ring_back m = ring_back n" using spiral_dist by metis
    with l show ?thesis by (simp add: ring_back_def)
  qed
qed

lemma spiral_surj: "\<exists>n. spiral_xy n = p"
proof (cases "p = (0, 0)")
  case True
  then show ?thesis by (auto intro: exI [of _ 0])
next
  case False
  define l where "l = ring_of p"
  define n where "n = nat ((2 * l + 1)\<^sup>2 - 1 - ring_dist p)"
  note b = ring_dist_inverse [OF False, folded l_def]
  have sq: "(2 * l + 1)\<^sup>2 - 8 * l = (2 * l - 1)\<^sup>2" by (simp add: power2_eq_square algebra_simps)
  have one: "1 \<le> (2 * l - 1)\<^sup>2" using b(1) by (simp add: one_le_power)
  have n: "int n = (2 * l + 1)\<^sup>2 - 1 - ring_dist p" unfolding n_def using b sq one by simp
  have pos: "0 < n" using n b sq one by simp
  have "layer_of n = nat l"
    by (rule layer_unique) (use n b sq in simp_all)
  with b(1) have lay: "int (layer_of n) = l" by simp
  then have "ring_back n = ring_dist p" using n by (simp add: ring_back_def)
  with b(4) lay spiral_xy_ring [OF pos] show ?thesis by auto
qed

section \<open>Consecutive positions\<close>

definition neighbours :: "int \<times> int \<Rightarrow> int \<times> int \<Rightarrow> bool" where
  "neighbours p q \<longleftrightarrow> \<bar>fst q - fst p\<bar> + \<bar>snd q - snd p\<bar> = 1"

lemma neighbours_ring: "0 < l \<Longrightarrow> 0 < d \<Longrightarrow> d < 8 * l \<Longrightarrow> neighbours (ring_point l d) (ring_point l (d - 1))"
  by (auto simp: neighbours_def ring_point_def)

lemma layer_step:
  assumes "0 < n"
  shows "layer_of (Suc n) = layer_of n \<and> ring_back (Suc n) = ring_back n - 1 \<and> 0 < ring_back n \<or>
    layer_of (Suc n) = Suc (layer_of n) \<and> ring_back n = 0 \<and> ring_back (Suc n) = 8 * int (layer_of n) + 7"
proof (cases "ring_back n = 0")
  case False
  then have pos: "0 < ring_back n" using ring_back_bounds [OF assms] by simp
  have "layer_of (Suc n) = layer_of n"
  proof (rule layer_unique)
    show "(2 * int (layer_of n) - 1)\<^sup>2 \<le> int (Suc n)" "int (Suc n) < (2 * int (layer_of n) + 1)\<^sup>2"
      using ring_back_bounds [OF assms] pos
      by (simp_all add: ring_back_def power2_eq_square algebra_simps)
  qed (rule layer_pos [OF assms])
  with pos show ?thesis by (simp add: ring_back_def)
next
  case True
  have "layer_of (Suc n) = Suc (layer_of n)"
    by (rule layer_unique) (use True in \<open>simp_all add: ring_back_def power2_eq_square algebra_simps\<close>)
  with True show ?thesis by (simp add: ring_back_def power2_eq_square algebra_simps)
qed

lemma spiral_step: "neighbours (spiral_xy n) (spiral_xy (Suc n))"
proof (cases "n = 0")
  case True
  then show ?thesis by (simp add: neighbours_def spiral_xy_ring ring_point_def ring_back_def layer_of_def power2_eq_square)
next
  case False
  then have n: "0 < n" by simp
  define l where "l = int (layer_of n)"
  have l: "0 < l" using layer_pos [OF n] by (simp add: l_def)
  have b: "ring_back n < 8 * l" using ring_back_bounds [OF n] by (simp add: l_def)
  from layer_step [OF n] show ?thesis
  proof
    assume "layer_of (Suc n) = layer_of n \<and> ring_back (Suc n) = ring_back n - 1 \<and> 0 < ring_back n"
    with neighbours_ring [OF l _ b] show ?thesis
      by (simp add: spiral_xy_ring [OF n] spiral_xy_ring l_def)
  next
    assume "layer_of (Suc n) = Suc (layer_of n) \<and> ring_back n = 0 \<and> ring_back (Suc n) = 8 * int (layer_of n) + 7"
    with l show ?thesis
      by (simp add: spiral_xy_ring [OF n] spiral_xy_ring l_def [symmetric] neighbours_def ring_point_def)
  qed
qed

lemma layer_mono: "layer_of n \<le> layer_of (Suc n)"
proof (cases "n = 0")
  case True
  then show ?thesis by (simp add: layer_of_def)
next
  case False
  with layer_step [of n] show ?thesis by auto
qed

text \<open>
  C40: the collision spiral is a walk through the whole plane: every point is the position of
  exactly one index, consecutive indexes are neighbours, and the distance from the centre in the
  maximum norm, which is half the rounded-up integer square root of the index, never decreases.
\<close>

theorem spiral_walks_the_plane:
  "bij spiral_xy \<and> neighbours (spiral_xy n) (spiral_xy (Suc n)) \<and>
   ring_of (spiral_xy n) = int ((isqrt n + 1) div 2) \<and>
   ring_of (spiral_xy n) \<le> ring_of (spiral_xy (Suc n))"
proof -
  have "inj spiral_xy" by (rule injI) (rule spiral_inj)
  moreover have "surj spiral_xy" by (metis spiral_surj surjI)
  ultimately show ?thesis
    using spiral_step layer_mono by (simp add: bij_def spiral_ring layer_of_def)
qed

end
