(* ===== verification/NativeRecord.thy ===== *)
theory NativeRecord
  imports NativeSpiral PyRepr PyLines SortedKeys
begin

text \<open>
  \<open>services/w7tp_native_adi/core.py\<close>, the part without state: normal values (stripped keys, no
  credentials), the canonical text and digest of a value, the checks of arguments, and a record
  with its place on the spiral and its digest.
\<close>

section \<open>Constants\<close>

definition PROTOCOL_VERSION :: string where
  "PROTOCOL_VERSION = ''W7TP_8D_GENERATIVE_TRANSMISSION/1.0''"

definition STATE_SCHEMA_VERSION :: string where
  "STATE_SCHEMA_VERSION = ''W7TP_NATIVE_ADI_STATE/1.0''"

definition PACKET_SCHEMA_VERSION :: string where
  "PACKET_SCHEMA_VERSION = ''W7TP_NATIVE_ADI_PACKET/1.0''"

definition SERVICE_NAME :: string where
  "SERVICE_NAME = ''W7TP_NATIVE_ADI_AGENT''"

definition MAX_TIME_SLOT :: int where
  "MAX_TIME_SLOT = 2 ^ 63 - 1"

definition MAX_RESULTS :: int where
  "MAX_RESULTS = 10000"

definition MAX_PACKET_RECORDS :: nat where
  "MAX_PACKET_RECORDS = 250000"

definition MAX_PAYLOAD_BYTES :: nat where
  "MAX_PAYLOAD_BYTES = 65536"

definition FORBIDDEN_CREDENTIAL_KEYS :: "string list" where
  "FORBIDDEN_CREDENTIAL_KEYS =
     [''access_token'', ''api_key'', ''client_secret'', ''credential'', ''id_token'', ''password'',
      ''private_key'', ''raw_credential'', ''raw_secret'', ''raw_token'', ''refresh_token'', ''secret'',
      ''token'']"

definition adi_check :: "bool \<Rightarrow> string \<Rightarrow> string \<Rightarrow> py_error + unit" where
  "adi_check ok reason path = check ok (NativeADIError reason path)"

lemma adi_check_Inr [simp]: "adi_check ok reason path = Inr u \<longleftrightarrow> ok"
  by (simp add: adi_check_def)

lemma adi_check_True [simp]: "adi_check True reason path = Inr ()"
  by simp

section \<open>Normal values\<close>

fun normalize_json :: "string \<Rightarrow> json \<Rightarrow> py_error + json"
  and normalize_items :: "string \<Rightarrow> nat \<Rightarrow> json list \<Rightarrow> py_error + json list"
  and normalize_fields :: "string \<Rightarrow> json dict \<Rightarrow> json dict \<Rightarrow> py_error + json dict" where
  "normalize_json path (JArr xs) = e_bind (normalize_items path 0 xs) (\<lambda>ys. Inr (JArr ys))"
| "normalize_json path (JObj d) = e_bind (normalize_fields path d []) (\<lambda>e. Inr (JObj e))"
| "normalize_json path v = Inr v"
| "normalize_items path i [] = Inr []"
| "normalize_items path i (x # xs) =
     e_bind (normalize_json (path @ ''['' @ show_nat i @ '']'') x) (\<lambda>y.
     e_bind (normalize_items path (Suc i) xs) (\<lambda>ys. Inr (y # ys)))"
| "normalize_fields path [] acc = Inr acc"
| "normalize_fields path ((raw_key, v) # d) acc =
     (let key = strip raw_key in
      if key = [] then Inl (NativeADIError ''JSON_OBJECT_KEY_INVALID'' path)
      else if casefold key \<in> set FORBIDDEN_CREDENTIAL_KEYS
      then Inl (NativeADIError ''RAW_CREDENTIAL_FORBIDDEN'' (path @ ''.'' @ key))
      else e_bind (normalize_json (path @ ''.'' @ key) v) (\<lambda>w. normalize_fields path d (dset key w acc)))"

definition canonical_bytes :: "json \<Rightarrow> py_error + string" where
  "canonical_bytes v = e_bind (normalize_json ''$'' v) (\<lambda>n. Inr (dumps_canonical n))"

definition canonical_sha256 :: "(string \<Rightarrow> string) \<Rightarrow> json \<Rightarrow> py_error + string" where
  "canonical_sha256 sha v = e_bind (canonical_bytes v) (\<lambda>t. Inr (sha t))"

text \<open>\<open>_record_hash_basis\<close>, \<open>_packet_hash_basis\<close> and \<open>_event_hash_basis\<close>: a value without its digest.\<close>

definition hash_basis :: "string \<Rightarrow> json dict \<Rightarrow> py_error + json" where
  "hash_basis field d = normalize_json ''$'' (JObj (dpop field d))"

section \<open>Arguments\<close>

definition is_id_char :: "char \<Rightarrow> bool" where
  "is_id_char c \<longleftrightarrow> is_digit c \<or> (65 \<le> (of_char c :: nat) \<and> (of_char c :: nat) \<le> 90)
     \<or> (97 \<le> (of_char c :: nat) \<and> (of_char c :: nat) \<le> 122)"

definition is_record_id :: "string \<Rightarrow> bool" where
  "is_record_id s \<longleftrightarrow>
     (case s of [] \<Rightarrow> False
      | c # cs \<Rightarrow> is_id_char c \<and> length cs \<le> 127 \<and> list_all (\<lambda>x. is_id_char x \<or> x \<in> set ''._:-'') cs)"

definition require_id :: "json \<Rightarrow> string \<Rightarrow> py_error + string" where
  "require_id v path =
     (case v of JStr s \<Rightarrow> if is_record_id s then Inr s else Inl (NativeADIError ''RECORD_ID_INVALID'' path)
      | _ \<Rightarrow> Inl (NativeADIError ''RECORD_ID_INVALID'' path))"

definition require_time_slot :: "json \<Rightarrow> string \<Rightarrow> py_error + int" where
  "require_time_slot v path =
     (case v of
        JInt n \<Rightarrow> if n < 0 \<or> n > MAX_TIME_SLOT then Inl (NativeADIError ''ABSOLUTE_TIME_SLOT_INVALID'' path)
                  else Inr n
      | _ \<Rightarrow> Inl (NativeADIError ''ABSOLUTE_TIME_SLOT_INVALID'' path))"

section \<open>Records\<close>

definition record_body :: "string \<Rightarrow> int \<Rightarrow> int \<Rightarrow> int \<times> int \<Rightarrow> json dict \<Rightarrow> json dict" where
  "record_body rid slot index xy payload =
     [(''id'', JStr rid), (''time_slot'', JInt slot), (''collision_index'', JInt index),
      (''spiral_position'', JObj [(''x'', JInt (fst xy)), (''y'', JInt (snd xy))]),
      (''payload'', JObj payload)]"

definition build_record ::
  "(string \<Rightarrow> string) \<Rightarrow> json \<Rightarrow> json \<Rightarrow> json \<Rightarrow> int \<Rightarrow> py_error + json dict" where
  "build_record sha record_id time_slot payload index =
     e_bind (require_id record_id ''$.id'') (\<lambda>rid.
     e_bind (require_time_slot time_slot ''$.time_slot'') (\<lambda>slot.
     e_bind (normalize_json ''$.payload'' payload) (\<lambda>safe.
     e_bind (adi_check (is_obj safe) ''PAYLOAD_OBJECT_REQUIRED'' ''$.payload'') (\<lambda>_.
     e_bind (canonical_bytes safe) (\<lambda>t.
     e_bind (adi_check (length t \<le> MAX_PAYLOAD_BYTES) ''PAYLOAD_TOO_LARGE'' ''$.payload'') (\<lambda>_.
     e_bind (spiral_position index) (\<lambda>xy.
     let body = record_body rid slot index xy (dict_of safe) in
     e_bind (canonical_sha256 sha (JObj body)) (\<lambda>h.
     Inr (body @ [(''record_sha256'', JStr h)])))))))))"

definition RECORD_FIELDS :: "string list" where
  "RECORD_FIELDS =
     [''id'', ''time_slot'', ''collision_index'', ''spiral_position'', ''payload'', ''record_sha256'']"

definition validate_supplied :: "(string \<Rightarrow> string) \<Rightarrow> json \<Rightarrow> py_error + json dict" where
  "validate_supplied sha supplied =
     e_bind (adi_check (is_obj supplied \<and> set (dkeys (dict_of supplied)) = set RECORD_FIELDS)
               ''RECORD_SHAPE_INVALID'' ''$'') (\<lambda>_.
     let d = dict_of supplied in
     e_bind (case get_or_none d ''collision_index'' of JInt n \<Rightarrow> Inr n
             | _ \<Rightarrow> Inl (NativeADIError ''COLLISION_INDEX_INVALID'' ''$.collision_index'')) (\<lambda>index.
     e_bind (build_record sha (get_or_none d ''id'') (get_or_none d ''time_slot'')
               (get_or_none d ''payload'') index) (\<lambda>rebuilt.
     e_bind (normalize_json ''$'' supplied) (\<lambda>n.
     e_bind (adi_check (pyeq (JObj rebuilt) n) ''RECORD_INTEGRITY_MISMATCH'' ''$'') (\<lambda>_. Inr rebuilt)))))"

definition rec_id :: "json dict \<Rightarrow> string" where
  "rec_id r = str_of (fld r ''id'')"

definition rec_slot :: "json dict \<Rightarrow> int" where
  "rec_slot r = int_of (fld r ''time_slot'')"

definition rec_index :: "json dict \<Rightarrow> int" where
  "rec_index r = int_of (fld r ''collision_index'')"

definition rec_sha :: "json dict \<Rightarrow> string" where
  "rec_sha r = str_of (fld r ''record_sha256'')"

definition record_sort_key :: "json dict \<Rightarrow> int \<times> int \<times> string" where
  "record_sort_key r = (rec_slot r, rec_index r, rec_id r)"

section \<open>Normal values are their own normal form\<close>

definition normal_key :: "string \<Rightarrow> bool" where
  "normal_key k \<longleftrightarrow> k \<noteq> [] \<and> strip k = k \<and> casefold k \<notin> set FORBIDDEN_CREDENTIAL_KEYS"

fun normal :: "json \<Rightarrow> bool" where
  "normal (JArr xs) = (\<forall>x \<in> set xs. normal x)"
| "normal (JObj d) = (distinct (map fst d) \<and> (\<forall>p \<in> set d. normal_key (fst p) \<and> normal (snd p)))"
| "normal _ = True"

lemma normal_jwf: "normal v \<Longrightarrow> jwf v"
  by (induction v) auto

lemma grouped_dropWhile: "grouped gs \<Longrightarrow> grouped (dropWhile P gs)"
  by (induction gs) (auto dest: grouped_tl)

lemma py_chars_concat_rev_dropWhile:
  "grouped gs \<Longrightarrow> grouped (rev (dropWhile P (rev gs)))"
proof -
  assume g: "grouped gs"
  have "rev gs = takeWhile P (rev gs) @ dropWhile P (rev gs)" by simp
  then have "gs = rev (dropWhile P (rev gs)) @ rev (takeWhile P (rev gs))"
    by (metis rev_append rev_rev_ident)
  then have "rev (dropWhile P (rev gs)) = take (length (rev (dropWhile P (rev gs)))) gs"
    by (metis append_eq_conv_conj)
  with g grouped_take show ?thesis by metis
qed

lemma strip_strip [simp]: "strip (strip s) = strip s"
proof -
  let ?a = "dropWhile is_space (py_chars s)"
  let ?b = "rev (dropWhile is_space (rev ?a))"
  have "grouped ?b" by (intro py_chars_concat_rev_dropWhile grouped_dropWhile grouped_py_chars)
  then have p: "py_chars (strip s) = ?b" by (simp add: strip_def grouped_def)
  have b: "dropWhile is_space ?b = ?b"
  proof (cases ?b)
    case (Cons g gs)
    obtain t where t: "?a = ?b @ t"
      by (metis rev_append rev_rev_ident takeWhile_dropWhile_id)
    with Cons have "hd ?a = g" "?a \<noteq> []" by simp_all
    then have "\<not> is_space g" using hd_dropWhile [of is_space "py_chars s"] by simp
    with Cons show ?thesis by simp
  next
    case Nil
    then show ?thesis by (simp only: dropWhile.simps)
  qed
  have "rev (dropWhile is_space (rev ?b)) = ?b" by simp
  then have "strip (strip s) = concat ?b" unfolding strip_def [of "strip s"] p b by (rule arg_cong)
  then show ?thesis by (simp only: strip_def [of s])
qed

lemma normalize_normal:
  "normalize_json path v = Inr n \<Longrightarrow> normal n"
  "normalize_items path i xs = Inr ys \<Longrightarrow> \<forall>y \<in> set ys. normal y"
  "normalize_fields path d acc = Inr e \<Longrightarrow> normal (JObj acc) \<Longrightarrow> normal (JObj e)"
proof (induction path v and path i xs and path d acc
    arbitrary: n and ys and e rule: normalize_json_normalize_items_normalize_fields.induct)
  case (7 path raw_key v d acc)
  from "7.prems"(1) obtain w where
    k: "strip raw_key \<noteq> []" "casefold (strip raw_key) \<notin> set FORBIDDEN_CREDENTIAL_KEYS"
    and w: "normalize_json (path @ ''.'' @ strip raw_key) v = Inr w"
    and r: "normalize_fields path d (dset (strip raw_key) w acc) = Inr e"
    by (auto simp: Let_def e_bind_InrD split: if_splits)
  have "normal w" using "7.IH"(1) [OF refl k w] .
  moreover have "normal_key (strip raw_key)" using k by (simp add: normal_key_def)
  ultimately have "normal (JObj (dset (strip raw_key) w acc))"
    using "7.prems"(2) set_dset_subset [of "strip raw_key" w acc] by fastforce
  with "7.IH"(2) [OF refl k w r] show ?case by blast
qed (auto simp: e_bind_InrD)

lemma dset_fresh: "k \<notin> set (dkeys d) \<Longrightarrow> dset k v d = d @ [(k, v)]"
  by (induction d) auto

lemma normal_normalize:
  "normal v \<Longrightarrow> normalize_json path v = Inr v"
  "\<forall>x \<in> set xs. normal x \<Longrightarrow> normalize_items path i xs = Inr xs"
  "normal (JObj d) \<Longrightarrow> distinct (dkeys (acc @ d)) \<Longrightarrow> normalize_fields path d acc = Inr (acc @ d)"
proof (induction path v and path i xs and path d acc
    rule: normalize_json_normalize_items_normalize_fields.induct)
  case (7 path raw_key v d acc)
  from "7.prems"(1) have k: "strip raw_key = raw_key" "raw_key \<noteq> []"
    "casefold raw_key \<notin> set FORBIDDEN_CREDENTIAL_KEYS" and v: "normal v" and d: "normal (JObj d)"
    by (auto simp: normal_key_def)
  from "7.prems"(2) have fresh: "raw_key \<notin> set (dkeys acc)" by auto
  have w: "normalize_json (path @ ''.'' @ raw_key) v = Inr v" using "7.IH"(1) k v by simp
  have "distinct (dkeys (dset raw_key v acc @ d))"
    using "7.prems"(2) by (auto simp: dset_fresh [OF fresh])
  then have "normalize_fields path d (dset raw_key v acc) = Inr (dset raw_key v acc @ d)"
    using "7.IH"(2) [of raw_key v] k w d by simp
  then show ?case using k w by (simp add: dset_fresh [OF fresh])
qed simp_all

section \<open>Keys in ASCII\<close>

definition ascii_word :: "string \<Rightarrow> bool" where
  "ascii_word s \<longleftrightarrow> list_all (\<lambda>c. 33 \<le> (of_char c :: nat) \<and> (of_char c :: nat) < 127) s"

lemma ascii_chars: "ascii_word s \<Longrightarrow> py_chars s = map (\<lambda>c. [c]) s"
proof (induction s)
  case (Cons c s)
  then have s: "list_all (\<lambda>c. \<not> is_cont c) s" by (auto simp: ascii_word_def is_cont_def list_all_iff)
  then have "takeWhile is_cont s = []" "dropWhile is_cont s = s" by (cases s; simp)+
  with Cons show ?case by (simp add: ascii_word_def)
qed simp

lemma ascii_strip: "ascii_word s \<Longrightarrow> strip s = s"
proof -
  assume a: "ascii_word s"
  have sp: "\<not> is_space [c]" if "c \<in> set s" for c
    using a is_space_Cons_small [of c "[]"] that by (fastforce simp: ascii_word_def list_all_iff)
  have "dropWhile is_space (map (\<lambda>c. [c]) t) = map (\<lambda>c. [c]) t" if "set t \<subseteq> set s" for t
    using that sp by (cases t) auto
  from this [of s] this [of "rev s"] show ?thesis
    by (simp add: strip_def ascii_chars [OF a] rev_map)
qed

lemma ascii_casefold: "ascii_word s \<Longrightarrow> casefold s = lower s"
proof -
  assume a: "ascii_word s"
  have t: "\<forall>p \<in> set fold_table. 127 \<le> hd (fst p)" by (simp add: fold_table_def)
  have "fold_group [c] = [lower_char c]" if "c \<in> set s" for c
  proof -
    have "(of_char c :: nat) < 127" using a that by (auto simp: ascii_word_def list_all_iff)
    then have "map_of fold_table [of_char c] = None"
      using t by (force simp: map_of_eq_None_iff)
    then show ?thesis by (simp add: fold_group_def lower_def)
  qed
  then have "concat (map fold_group (map (\<lambda>c. [c]) s)) = map lower_char s"
    by (induction s) simp_all
  then show ?thesis by (simp add: casefold_def ascii_chars [OF a] lower_def)
qed

lemma ascii_key: "ascii_word k \<Longrightarrow> k \<noteq> [] \<Longrightarrow> lower k \<notin> set FORBIDDEN_CREDENTIAL_KEYS \<Longrightarrow> normal_key k"
  by (simp add: normal_key_def ascii_strip ascii_casefold)

text \<open>The keys that the code writes.\<close>

definition WRITTEN_KEYS :: "string list" where
  "WRITTEN_KEYS = RECORD_FIELDS @
     [''x'', ''y'', ''protocol_version'', ''schema_version'', ''records'', ''sequence'', ''observed_at'',
      ''event_type'', ''previous_event_sha256'', ''event_sha256'', ''record'', ''record_count'',
      ''source_packet_sha256'', ''event_sequence'', ''last_event_sha256'', ''state'', ''state_sha256'',
      ''mode'', ''entries'', ''delivery'', ''state_atom_count'', ''state_atoms'', ''absolute_time_slot'',
      ''point_count'', ''absolute_time_slot_mapping'', ''collision_resolution'', ''reference_match'',
      ''missing_reference'', ''target_state_sha256'', ''target_id_set_sha256'', ''source_state_sha256'',
      ''source_id_set_sha256'', ''reference_lookup_sha256'', ''delta_sha256'',
      ''reconstruction_conditions_sha256'', ''D1'', ''D2'', ''D3'', ''D4'', ''D5'', ''D6'', ''D7'', ''D8'',
      ''intent'', ''coordinate'', ''slices'', ''execution'', ''reconstruction_conditions'', ''hard_risk'',
      ''redlines'', ''verification_root'', ''decision'', ''packet_type'', ''total_field_decision'',
      ''dynamic_context_8d'', ''source'', ''state_schema_version'', ''source_bytes'', ''id_set_sha256'',
      ''reference_lookup'', ''delta'', ''verification'', ''risk_assessment'', ''packet_sha256'']"

lemma written_keys: "list_all (\<lambda>k. ascii_word k \<and> k \<noteq> [] \<and> lower k \<notin> set FORBIDDEN_CREDENTIAL_KEYS) WRITTEN_KEYS"
  by code_simp

lemma written_keys_normal: "list_all normal_key WRITTEN_KEYS"
  using written_keys ascii_key by (auto simp: list_all_iff)

lemmas normal_keys [simp] = written_keys_normal [unfolded WRITTEN_KEYS_def RECORD_FIELDS_def, simplified]

end
