(* ===== verification/NativeStore.thy ===== *)
theory NativeStore
  imports NativeRecord
begin

text \<open>
  \<open>services/w7tp_native_adi/core.py\<close>, \<open>SpacetimeADI\<close>: its state, accepting a record, the event
  log and the snapshot, \<open>insert\<close> and \<open>search\<close>.  The lock makes an operation one step.  A slot that
  an error leaves empty stays in the table of slots, as in the code.
\<close>

section \<open>The state\<close>

record native_store =
  ns_records :: "json dict dict"
  ns_slots :: "(int \<times> string list) list"
  ns_metrics :: "int dict"
  ns_dir :: "string option"
  ns_seq :: int
  ns_last :: "string option"

definition empty_store :: "string option \<Rightarrow> native_store" where
  "empty_store dir =
     \<lparr>ns_records = [], ns_slots = [],
      ns_metrics = [(''insert_requests'', 0), (''search_requests'', 0), (''packet_requests'', 0),
                    (''reconstruct_requests'', 0), (''rejected_requests'', 0)],
      ns_dir = dir, ns_seq = 0, ns_last = None\<rparr>"

definition bucket :: "native_store \<Rightarrow> int \<Rightarrow> string list" where
  "bucket s slot = (case map_of (ns_slots s) slot of Some ids \<Rightarrow> ids | None \<Rightarrow> [])"

definition snapshot_path :: "string \<Rightarrow> string" where
  "snapshot_path dir = dir @ ''/snapshot.json''"

definition event_path :: "string \<Rightarrow> string" where
  "event_path dir = dir @ ''/events.jsonl''"

definition sha_op :: "('o, string \<Rightarrow> string) obj_op" where
  "sha_op = gets (\<lambda>(_, w). sha256 w)"

lemma sha_op_apply [simp]: "sha_op (ob, w) = (Inr (sha256 w), (ob, w))"
  by (simp add: sha_op_def)

section \<open>Metrics\<close>

definition bump_store :: "string \<Rightarrow> native_store \<Rightarrow> native_store" where
  "bump_store k s =
     s\<lparr>ns_metrics := dset k ((case dget (ns_metrics s) k of Some n \<Rightarrow> n | None \<Rightarrow> 0) + 1) (ns_metrics s)\<rparr>"

definition bump :: "string \<Rightarrow> (native_store, unit) obj_op" where
  "bump k = modify (\<lambda>(s, w). (bump_store k s, w))"

text \<open>Every operation counts its call, and counts it as rejected when it ends with \<open>ADIError\<close>.\<close>

definition counted :: "string \<Rightarrow> (native_store, 'a) obj_op \<Rightarrow> (native_store, 'a) obj_op" where
  "counted k m = m_then (bump k) (\<lambda>sw.
     case m sw of
       (Inl (NativeADIError reason path), (s, w)) \<Rightarrow>
         (Inl (NativeADIError reason path), (bump_store ''rejected_requests'' s, w))
     | res \<Rightarrow> res)"

section \<open>Accepting a record\<close>

definition accept_record :: "json \<Rightarrow> (native_store, bool) obj_op" where
  "accept_record supplied =
     m_bind sha_op (\<lambda>sha.
     m_bind (lift (validate_supplied sha supplied)) (\<lambda>r.
     m_bind obj (\<lambda>s.
     case dget (ns_records s) (rec_id r) of
       Some existing \<Rightarrow>
         m_then (guard (pyeq (JObj existing) (JObj r)) (NativeADIError ''APPEND_ONLY_RECORD_CONFLICT'' ''$.id''))
                (ret False)
     | None \<Rightarrow>
         let slot = rec_slot r; ids = bucket s slot;
             s1 = s\<lparr>ns_slots := AList.update slot ids (ns_slots s)\<rparr> in
         m_then (set_obj s1)
        (m_then (guard (rec_index r = int (length ids))
                   (NativeADIError ''SPIRAL_COLLISION_ORDER_MISMATCH'' ''$.collision_index''))
        (m_then (set_obj (s1\<lparr>ns_slots := AList.update slot (ids @ [rec_id r]) (ns_slots s1),
                             ns_records := dset (rec_id r) r (ns_records s1)\<rparr>))
                (ret True))))))"

fun accept_all :: "json list \<Rightarrow> (native_store, unit) obj_op" where
  "accept_all [] = ret ()"
| "accept_all (v # vs) = m_bind (accept_record v) (\<lambda>_. accept_all vs)"

section \<open>The records of a state\<close>

text \<open>\<open>len(ids)\<close> and the iteration of \<open>ids\<close>, which may be any JSON value but a string.\<close>

definition id_items :: "json \<Rightarrow> py_error + json list" where
  "id_items ids =
     (case ids of
        JArr xs \<Rightarrow> Inr xs
      | JObj d \<Rightarrow> Inr (map JStr (dkeys d))
      | JStr _ \<Rightarrow> Inl (NativeADIError ''PACKET_ID_SET_INVALID'' ''$.ids'')
      | _ \<Rightarrow> Inl (TypeError ''object has no len()''))"

fun require_ids :: "nat \<Rightarrow> json list \<Rightarrow> py_error + string list" where
  "require_ids i [] = Inr []"
| "require_ids i (v # vs) =
     e_bind (require_id v (''$.ids['' @ show_nat i @ '']'')) (\<lambda>x.
     e_bind (require_ids (Suc i) vs) (\<lambda>xs. Inr (x # xs)))"

definition chosen_records :: "native_store \<Rightarrow> json \<Rightarrow> py_error + json dict list" where
  "chosen_records s ids =
     (if ids = JNull then Inr (map snd (ns_records s))
      else
        e_bind (id_items ids) (\<lambda>items.
        e_bind (adi_check (length items \<le> MAX_PACKET_RECORDS) ''PACKET_ID_SET_INVALID'' ''$.ids'') (\<lambda>_.
        e_bind (require_ids 0 items) (\<lambda>xs.
        e_bind (adi_check (distinct xs) ''PACKET_ID_SET_DUPLICATE'' ''$.ids'') (\<lambda>_.
        e_bind (adi_check (\<forall>x \<in> set xs. dhas (ns_records s) x) ''PACKET_RECORD_NOT_FOUND'' ''$.ids'') (\<lambda>_.
        Inr (map (\<lambda>x. case dget (ns_records s) x of Some r \<Rightarrow> r | None \<Rightarrow> []) xs)))))))"

definition selected_records :: "native_store \<Rightarrow> json \<Rightarrow> py_error + json dict list" where
  "selected_records s ids =
     e_bind (chosen_records s ids) (\<lambda>rs.
     e_bind (adi_check (length rs \<le> MAX_PACKET_RECORDS) ''PACKET_RECORD_LIMIT_EXCEEDED'' ''$'') (\<lambda>_.
     Inr (sort_key record_sort_key rs)))"

definition state_document :: "json dict list \<Rightarrow> py_error + json dict" where
  "state_document rs =
     e_bind (map_err (\<lambda>r. normalize_json ''$'' (JObj r)) rs) (\<lambda>ns.
     Inr [(''protocol_version'', JStr PROTOCOL_VERSION), (''schema_version'', JStr STATE_SCHEMA_VERSION),
          (''records'', JArr ns)])"

definition export_state :: "native_store \<Rightarrow> json \<Rightarrow> py_error + json dict" where
  "export_state s ids = e_bind (selected_records s ids) state_document"

definition state_sha256 :: "(string \<Rightarrow> string) \<Rightarrow> native_store \<Rightarrow> json \<Rightarrow> py_error + string" where
  "state_sha256 sha s ids = e_bind (export_state s ids) (\<lambda>d. canonical_sha256 sha (JObj d))"

definition record_hashes :: "native_store \<Rightarrow> string dict" where
  "record_hashes s = map (\<lambda>(rid, r). (rid, py_str (fld r ''record_sha256''))) (ns_records s)"

section \<open>The event log and the snapshot\<close>

definition last_json :: "string option \<Rightarrow> json" where
  "last_json l = (case l of None \<Rightarrow> JNull | Some h \<Rightarrow> JStr h)"

definition append_file :: "string \<Rightarrow> string \<Rightarrow> ('o, unit) obj_op" where
  "append_file p t = (\<lambda>(ob, w).
     (Inr (), (ob, w\<lparr>files := (files w)(p \<mapsto> (case files w p of Some old \<Rightarrow> old | None \<Rightarrow> []) @ t)\<rparr>)))"

lemma append_file_apply [simp]:
  "append_file p t (ob, w) =
   (Inr (), (ob, w\<lparr>files := (files w)(p \<mapsto> (case files w p of Some old \<Rightarrow> old | None \<Rightarrow> []) @ t)\<rparr>))"
  by (simp add: append_file_def)

definition native_event :: "int \<Rightarrow> string \<Rightarrow> string \<Rightarrow> string option \<Rightarrow> json \<Rightarrow> json dict" where
  "native_event seq now event_type previous payload =
     [(''protocol_version'', JStr PROTOCOL_VERSION),
      (''schema_version'', JStr ''W7TP_NATIVE_ADI_APPEND_ONLY_EVENT/1.0''), (''sequence'', JInt seq),
      (''observed_at'', JStr now), (''event_type'', JStr event_type),
      (''previous_event_sha256'', last_json previous), (''payload'', payload)]"

definition log_event :: "string \<Rightarrow> json dict \<Rightarrow> (native_store, unit) obj_op" where
  "log_event event_type payload =
     m_bind obj (\<lambda>s.
     case ns_dir s of
       None \<Rightarrow> ret ()
     | Some dir \<Rightarrow>
         m_bind now_op (\<lambda>now.
         m_bind (lift (normalize_json ''$'' (JObj payload))) (\<lambda>p.
         let body = native_event (ns_seq s + 1) now event_type (ns_last s) p in
         m_bind sha_op (\<lambda>sha.
         m_bind (lift (canonical_sha256 sha (JObj body))) (\<lambda>h.
         m_then (append_file (event_path dir) [])
        (m_bind (lift (canonical_bytes (JObj (body @ [(''event_sha256'', JStr h)])))) (\<lambda>t.
         m_then (append_file (event_path dir) (t @ [CHR 10]))
                (set_obj (s\<lparr>ns_seq := ns_seq s + 1, ns_last := Some h\<rparr>)))))))))"

definition snapshot_body :: "native_store \<Rightarrow> json dict \<Rightarrow> json dict" where
  "snapshot_body s doc =
     [(''protocol_version'', JStr PROTOCOL_VERSION), (''schema_version'', JStr STATE_SCHEMA_VERSION),
      (''event_sequence'', JInt (ns_seq s)), (''last_event_sha256'', last_json (ns_last s)),
      (''state'', JObj doc)]"

definition persist_snapshot :: "(native_store, unit) obj_op" where
  "persist_snapshot =
     m_bind obj (\<lambda>s.
     case ns_dir s of
       None \<Rightarrow> ret ()
     | Some dir \<Rightarrow>
         m_bind (lift (export_state s JNull)) (\<lambda>doc.
         m_bind sha_op (\<lambda>sha.
         m_bind (lift (canonical_sha256 sha (JObj doc))) (\<lambda>h.
         m_bind (lift (canonical_bytes (JObj (snapshot_body s doc @ [(''state_sha256'', JStr h)])))) (\<lambda>t.
         replace_file (snapshot_path dir) (t @ [CHR 10]))))))"

section \<open>Insert and search\<close>

definition insert_body :: "json \<Rightarrow> json \<Rightarrow> json \<Rightarrow> (native_store, json dict) obj_op" where
  "insert_body record_id time_slot payload =
     m_bind (lift (require_id record_id ''$.id'')) (\<lambda>rid.
     m_bind (lift (require_time_slot time_slot ''$.time_slot'')) (\<lambda>slot.
     m_bind sha_op (\<lambda>sha.
     m_bind obj (\<lambda>s.
     case dget (ns_records s) rid of
       Some existing \<Rightarrow>
         m_bind (lift (build_record sha (JStr rid) (JInt slot) payload (rec_index existing))) (\<lambda>c.
         m_then (guard (pyeq (JObj c) (JObj existing))
                   (NativeADIError ''APPEND_ONLY_RECORD_CONFLICT'' ''$.id''))
                (ret existing))
     | None \<Rightarrow>
         m_bind (lift (build_record sha (JStr rid) (JInt slot) payload (int (length (bucket s slot))))) (\<lambda>r.
         m_then (log_event ''INSERT'' [(''record'', JObj r)])
        (m_bind (accept_record (JObj r)) (\<lambda>_.
         m_then persist_snapshot (ret r))))))))"

definition insert_op :: "json \<Rightarrow> json \<Rightarrow> json \<Rightarrow> (native_store, json dict) obj_op" where
  "insert_op record_id time_slot payload =
     counted ''insert_requests'' (insert_body record_id time_slot payload)"

definition search_records :: "native_store \<Rightarrow> int \<Rightarrow> int \<Rightarrow> int \<Rightarrow> py_error + json dict list" where
  "search_records s start stop limit =
     map_err (\<lambda>rid. case dget (ns_records s) rid of Some r \<Rightarrow> Inr r | None \<Rightarrow> Inl (KeyError rid))
       (take (nat limit)
         (concat (map (bucket s) (sort (filter (\<lambda>k. start \<le> k \<and> k \<le> stop) (map fst (ns_slots s)))))))"

definition search_body :: "json \<Rightarrow> json \<Rightarrow> json \<Rightarrow> (native_store, json dict list) obj_op" where
  "search_body start_slot end_slot limit =
     m_bind obj (\<lambda>s. lift (
       e_bind (require_time_slot start_slot ''$.start_slot'') (\<lambda>start.
       e_bind (require_time_slot end_slot ''$.end_slot'') (\<lambda>stop.
       e_bind (adi_check (start \<le> stop) ''TIME_RANGE_INVALID'' ''$'') (\<lambda>_.
       e_bind (case limit of JInt n \<Rightarrow> if n < 1 \<or> n > MAX_RESULTS
                                     then Inl (NativeADIError ''RESULT_LIMIT_INVALID'' ''$.limit'') else Inr n
               | _ \<Rightarrow> Inl (NativeADIError ''RESULT_LIMIT_INVALID'' ''$.limit'')) (\<lambda>n.
       search_records s start stop n))))))"

definition search_op :: "json \<Rightarrow> json \<Rightarrow> json \<Rightarrow> (native_store, json dict list) obj_op" where
  "search_op start_slot end_slot limit =
     counted ''search_requests'' (search_body start_slot end_slot limit)"

section \<open>Metrics and evidence\<close>

definition evidence_root :: "(native_store, string) obj_op" where
  "evidence_root =
     m_bind obj (\<lambda>s. m_bind sha_op (\<lambda>sha.
       case ns_last s of
         Some (c # h) \<Rightarrow> ret (c # h)
       | _ \<Rightarrow> lift (state_sha256 sha s JNull)))"

definition metrics_op :: "(native_store, json dict) obj_op" where
  "metrics_op =
     m_bind obj (\<lambda>s. m_bind sha_op (\<lambda>sha.
     m_bind (lift (state_sha256 sha s JNull)) (\<lambda>h.
     m_bind evidence_root (\<lambda>root.
     ret (dmerge [(''service'', JStr SERVICE_NAME), (''record_count'', JInt (int (length (ns_records s)))),
                  (''time_slice_count'', JInt (int (length (ns_slots s)))), (''state_sha256'', JStr h),
                  (''evidence_root'', JStr root)]
            (map (\<lambda>(k, n). (k, JInt n)) (ns_metrics s)))))))"

end
