(* ===== verification/NativePacket.thy ===== *)
theory NativePacket
  imports NativeStore
begin

text \<open>
  \<open>services/w7tp_native_adi/core.py\<close>, \<open>SpacetimeADI\<close>: the packet of a set of records, the checks
  of a packet, and the reconstruction of the records at a receiver.
\<close>

section \<open>Building a packet\<close>

text \<open>
  \<open>dict(receiver_lookup or {})\<close>: a mapping, or a sequence of pairs.  Keys that are not strings are
  dropped here, because only record identifiers are looked up.
\<close>

fun pairs_dict :: "json list \<Rightarrow> json dict \<Rightarrow> py_error + json dict" where
  "pairs_dict [] acc = Inr acc"
| "pairs_dict (v # vs) acc =
     e_bind (py_list v) (\<lambda>kv.
       case kv of
         [k, x] \<Rightarrow>
           if \<not> hashable k then Inl (TypeError ''unhashable type'')
           else pairs_dict vs (case k of JStr s \<Rightarrow> dset s x acc | _ \<Rightarrow> acc)
       | _ \<Rightarrow> Inl (ValueError ''dictionary update sequence element''))"

definition lookup_dict :: "json \<Rightarrow> py_error + json dict" where
  "lookup_dict v =
     (if \<not> truthy v then Inr []
      else case v of
        JObj d \<Rightarrow> Inr d
      | JArr xs \<Rightarrow> pairs_dict xs []
      | JStr s \<Rightarrow> pairs_dict (map JStr (py_chars s)) []
      | _ \<Rightarrow> Inl (TypeError ''object is not iterable''))"

definition delivery :: "json dict \<Rightarrow> json dict \<Rightarrow> string" where
  "delivery lookup r =
     (if get_or_none lookup (rec_id r) = JStr (rec_sha r) then ''REFERENCE'' else ''STATE_ATOM'')"

definition reference_entry :: "json dict \<Rightarrow> json dict \<Rightarrow> json" where
  "reference_entry lookup r =
     JObj [(''id'', JStr (rec_id r)), (''record_sha256'', JStr (rec_sha r)),
           (''delivery'', JStr (delivery lookup r))]"

definition reference_lookup_json :: "json list \<Rightarrow> json" where
  "reference_lookup_json entries =
     JObj [(''mode'', JStr ''LOCAL_ID_SHA256_LOOKUP''), (''entries'', JArr entries)]"

definition delta_json :: "json dict list \<Rightarrow> json" where
  "delta_json atoms =
     JObj [(''mode'', JStr ''REQUIRED_STATE_ATOMS_ONLY''), (''state_atom_count'', JInt (int (length atoms))),
           (''state_atoms'', JArr (map JObj atoms))]"

definition slice_counts :: "native_store \<Rightarrow> json dict list \<Rightarrow> json" where
  "slice_counts s records =
     JArr (map (\<lambda>slot. JObj [(''absolute_time_slot'', JInt slot),
                             (''point_count'', JInt (int (length (bucket s slot))))])
             (sort (remdups (map rec_slot records))))"

definition conditions_json :: "string \<Rightarrow> string \<Rightarrow> json" where
  "conditions_json state_sha id_set_sha = JObj
     [(''absolute_time_slot_mapping'', JStr ''DIRECT_INTEGER_SLOT''),
      (''collision_resolution'', JStr ''FOUNDER_NATIVE_CENTER_OUT_SPIRAL''),
      (''reference_match'', JStr ''ID_AND_RECORD_SHA256''),
      (''missing_reference'', JStr ''REQUIRE_STATE_ATOM_FAIL_CLOSED''),
      (''target_state_sha256'', JStr state_sha), (''target_id_set_sha256'', JStr id_set_sha)]"

definition root_basis :: "json \<Rightarrow> json \<Rightarrow> json \<Rightarrow> json \<Rightarrow> string \<Rightarrow> json" where
  "root_basis state_sha id_set_sha reference_sha delta_sha conditions_sha = JObj
     [(''source_state_sha256'', state_sha), (''source_id_set_sha256'', id_set_sha),
      (''reference_lookup_sha256'', reference_sha), (''delta_sha256'', delta_sha),
      (''reconstruction_conditions_sha256'', JStr conditions_sha)]"

definition context_8d ::
  "string \<Rightarrow> nat \<Rightarrow> json \<Rightarrow> string \<Rightarrow> string \<Rightarrow> json \<Rightarrow> string \<Rightarrow> json" where
  "context_8d state_sha size_n slices reference_sha delta_sha conditions root = JObj
     [(''D1'', JObj [(''intent'', JStr ''RECONSTRUCT_EQUIVALENT_NATIVE_ADI_STATE'')]),
      (''D2'', JObj [(''state_sha256'', JStr state_sha), (''record_count'', JInt (int size_n))]),
      (''D3'', JObj [(''coordinate'', JStr ''ABSOLUTE_TIME_HORIZONTAL_SLICES''), (''slices'', slices)]),
      (''D4'', JObj [(''reference_lookup_sha256'', JStr reference_sha), (''delta_sha256'', JStr delta_sha)]),
      (''D5'', JObj [(''execution'', JStr ''LOCAL_RECONSTRUCTION_CANDIDATE'')]),
      (''D6'', JObj [(''reconstruction_conditions'', conditions)]),
      (''D7'', JObj [(''hard_risk'', JBool False), (''redlines'', JArr [])]),
      (''D8'', JObj [(''verification_root'', JStr root), (''decision'', JStr ''CANDIDATE'')])]"

definition packet_body ::
  "json \<Rightarrow> nat \<Rightarrow> nat \<Rightarrow> string \<Rightarrow> string \<Rightarrow> json \<Rightarrow> json \<Rightarrow> json \<Rightarrow> string \<Rightarrow> string \<Rightarrow> string \<Rightarrow> json dict" where
  "packet_body context size_n source_bytes state_sha id_set_sha lookup delta conditions reference_sha
       delta_sha root =
     [(''protocol_version'', JStr PROTOCOL_VERSION), (''schema_version'', JStr PACKET_SCHEMA_VERSION),
      (''packet_type'', JStr ''W7TP_NATIVE_ADI_8D_DYNAMIC_CONTEXT''),
      (''total_field_decision'', JStr ''CANDIDATE''), (''dynamic_context_8d'', context),
      (''source'', JObj
        [(''state_schema_version'', JStr STATE_SCHEMA_VERSION), (''record_count'', JInt (int size_n)),
         (''source_bytes'', JInt (int source_bytes)), (''state_sha256'', JStr state_sha),
         (''id_set_sha256'', JStr id_set_sha)]),
      (''reference_lookup'', lookup), (''delta'', delta), (''reconstruction_conditions'', conditions),
      (''verification'', JObj
        [(''source_state_sha256'', JStr state_sha), (''source_id_set_sha256'', JStr id_set_sha),
         (''reference_lookup_sha256'', JStr reference_sha), (''delta_sha256'', JStr delta_sha),
         (''verification_root'', JStr root)]),
      (''risk_assessment'', JObj [(''hard_risk'', JBool False), (''redlines'', JArr [])])]"

definition build_packet ::
  "(string \<Rightarrow> string) \<Rightarrow> native_store \<Rightarrow> json dict list \<Rightarrow> json dict \<Rightarrow> py_error + json dict" where
  "build_packet sha s records lookup =
     e_bind (state_document records) (\<lambda>doc.
     e_bind (canonical_bytes (JObj doc)) (\<lambda>source_bytes.
     let state_sha = sha source_bytes in
     e_bind (canonical_sha256 sha (str_list (sort (map rec_id records)))) (\<lambda>id_set_sha.
     let lookup_json = reference_lookup_json (map (reference_entry lookup) records);
         delta = delta_json (filter (\<lambda>r. delivery lookup r = ''STATE_ATOM'') records);
         conditions = conditions_json state_sha id_set_sha in
     e_bind (canonical_sha256 sha lookup_json) (\<lambda>reference_sha.
     e_bind (canonical_sha256 sha delta) (\<lambda>delta_sha.
     e_bind (canonical_sha256 sha conditions) (\<lambda>conditions_sha.
     e_bind (canonical_sha256 sha
               (root_basis (JStr state_sha) (JStr id_set_sha) (JStr reference_sha) (JStr delta_sha)
                  conditions_sha)) (\<lambda>root.
     let body = packet_body
           (context_8d state_sha (length records) (slice_counts s records) reference_sha delta_sha
              conditions root)
           (length records) (length source_bytes) state_sha id_set_sha lookup_json delta conditions
           reference_sha delta_sha root in
     e_bind (canonical_sha256 sha (JObj body)) (\<lambda>h.
     Inr (body @ [(''packet_sha256'', JStr h)])))))))))"

definition packet_op :: "json \<Rightarrow> json \<Rightarrow> (native_store, json dict) obj_op" where
  "packet_op ids receiver_lookup =
     counted ''packet_requests''
       (m_bind obj (\<lambda>s. m_bind sha_op (\<lambda>sha.
        m_bind (lift (selected_records s ids)) (\<lambda>records.
        m_bind (lift (lookup_dict receiver_lookup)) (\<lambda>lookup.
        lift (build_packet sha s records lookup))))))"

section \<open>Checking a packet\<close>

definition PACKET_FIELDS :: "string list" where
  "PACKET_FIELDS =
     [''protocol_version'', ''schema_version'', ''packet_type'', ''total_field_decision'',
      ''dynamic_context_8d'', ''source'', ''reference_lookup'', ''delta'',
      ''reconstruction_conditions'', ''verification'', ''risk_assessment'', ''packet_sha256'']"

definition D_FIELDS :: "string list" where
  "D_FIELDS = [''D1'', ''D2'', ''D3'', ''D4'', ''D5'', ''D6'', ''D7'', ''D8'']"

definition is_hex64 :: "json \<Rightarrow> bool" where
  "is_hex64 v =
     (case v of JStr s \<Rightarrow> length s = 64 \<and>
          list_all (\<lambda>c. is_digit c \<or> 97 \<le> (of_char c :: nat) \<and> (of_char c :: nat) \<le> 102) s
      | _ \<Rightarrow> False)"

fun check_entries :: "nat \<Rightarrow> string list \<Rightarrow> json list \<Rightarrow> py_error + unit" where
  "check_entries i seen [] = Inr ()"
| "check_entries i seen (entry # entries) =
     (let path = ''$.reference_lookup.entries['' @ show_nat i @ '']''; d = dict_of entry in
      e_bind (adi_check (is_obj entry \<and> set (dkeys d) = {''id'', ''record_sha256'', ''delivery''})
                ''PACKET_REFERENCE_ENTRY_INVALID'' path) (\<lambda>_.
      e_bind (require_id (get_or_none d ''id'') (path @ ''.id'')) (\<lambda>rid.
      e_bind (adi_check (is_hex64 (get_or_none d ''record_sha256''))
                ''PACKET_REFERENCE_HASH_INVALID'' path) (\<lambda>_.
      e_bind (in_strings (get_or_none d ''delivery'') [''REFERENCE'', ''STATE_ATOM'']) (\<lambda>known.
      e_bind (adi_check known ''PACKET_DELIVERY_MODE_INVALID'' path) (\<lambda>_.
      e_bind (adi_check (rid \<notin> set seen) ''PACKET_REFERENCE_DUPLICATE'' path) (\<lambda>_.
      check_entries (Suc i) (rid # seen) entries)))))))"

definition check_versions :: "json dict \<Rightarrow> py_error + unit" where
  "check_versions n =
     e_bind (adi_check (fld n ''protocol_version'' = JStr PROTOCOL_VERSION)
               ''PACKET_PROTOCOL_VERSION_INVALID'' ''$'') (\<lambda>_.
     e_bind (adi_check (fld n ''schema_version'' = JStr PACKET_SCHEMA_VERSION)
               ''PACKET_SCHEMA_VERSION_INVALID'' ''$'') (\<lambda>_.
     e_bind (adi_check (fld n ''packet_type'' = JStr ''W7TP_NATIVE_ADI_8D_DYNAMIC_CONTEXT'')
               ''PACKET_TYPE_INVALID'' ''$'') (\<lambda>_.
     e_bind (adi_check (fld n ''total_field_decision'' = JStr ''CANDIDATE'')
               ''PACKET_CANDIDATE_DECISION_REQUIRED'' ''$'') (\<lambda>_.
     adi_check (is_obj (fld n ''dynamic_context_8d'') \<and>
                set (dkeys (dict_of (fld n ''dynamic_context_8d''))) = set D_FIELDS)
       ''PACKET_8D_CONTEXT_INVALID'' ''$''))))"

definition check_source :: "json dict \<Rightarrow> py_error + unit" where
  "check_source n =
     (let source = dict_of (fld n ''source''); lookup = dict_of (fld n ''reference_lookup'');
          entries = get_or_none lookup ''entries'' in
      e_bind (adi_check (is_obj (fld n ''source'') \<and>
                get_or_none source ''state_schema_version'' = JStr STATE_SCHEMA_VERSION)
                ''PACKET_SOURCE_SCHEMA_INVALID'' ''$'') (\<lambda>_.
      e_bind (adi_check (is_obj (fld n ''reference_lookup'') \<and>
                get_or_none lookup ''mode'' = JStr ''LOCAL_ID_SHA256_LOOKUP'')
                ''PACKET_REFERENCE_LOOKUP_INVALID'' ''$'') (\<lambda>_.
      e_bind (adi_check (is_arr entries \<and> arr_of entries \<noteq> [])
                ''PACKET_REFERENCE_LOOKUP_REQUIRED'' ''$'') (\<lambda>_.
      e_bind (adi_check (pyeq (get_or_none source ''record_count'') (JInt (int (length (arr_of entries)))))
                ''PACKET_RECORD_COUNT_MISMATCH'' ''$'') (\<lambda>_.
      check_entries 0 [] (arr_of entries))))))"

definition check_delta :: "json dict \<Rightarrow> py_error + unit" where
  "check_delta n =
     (let delta = dict_of (fld n ''delta''); atoms = get_or_none delta ''state_atoms'' in
      e_bind (adi_check (is_obj (fld n ''delta'') \<and>
                get_or_none delta ''mode'' = JStr ''REQUIRED_STATE_ATOMS_ONLY'')
                ''PACKET_DELTA_INVALID'' ''$'') (\<lambda>_.
      adi_check (is_arr atoms \<and>
          pyeq (get_or_none delta ''state_atom_count'') (JInt (int (length (arr_of atoms)))))
        ''PACKET_STATE_ATOMS_INVALID'' ''$''))"

definition check_roots :: "(string \<Rightarrow> string) \<Rightarrow> json dict \<Rightarrow> py_error + unit" where
  "check_roots sha n =
     (let verification = dict_of (fld n ''verification'') in
      e_bind (adi_check (is_obj (fld n ''reconstruction_conditions'') \<and>
                dict_of (fld n ''reconstruction_conditions'') \<noteq> [])
                ''PACKET_RECONSTRUCTION_CONDITIONS_REQUIRED'' ''$'') (\<lambda>_.
      e_bind (adi_check (is_obj (fld n ''verification'') \<and>
                truthy (get_or_none verification ''verification_root''))
                ''PACKET_VERIFICATION_ROOT_REQUIRED'' ''$'') (\<lambda>_.
      e_bind (canonical_sha256 sha (fld n ''reference_lookup'')) (\<lambda>reference_sha.
      e_bind (adi_check (get_or_none verification ''reference_lookup_sha256'' = JStr reference_sha)
                ''PACKET_REFERENCE_ROOT_MISMATCH'' ''$'') (\<lambda>_.
      e_bind (canonical_sha256 sha (fld n ''delta'')) (\<lambda>delta_sha.
      e_bind (adi_check (get_or_none verification ''delta_sha256'' = JStr delta_sha)
                ''PACKET_DELTA_ROOT_MISMATCH'' ''$'') (\<lambda>_.
      e_bind (canonical_sha256 sha (fld n ''reconstruction_conditions'')) (\<lambda>conditions_sha.
      e_bind (canonical_sha256 sha
          (root_basis (get_or_none verification ''source_state_sha256'')
             (get_or_none verification ''source_id_set_sha256'')
             (get_or_none verification ''reference_lookup_sha256'')
             (get_or_none verification ''delta_sha256'') conditions_sha)) (\<lambda>root.
      adi_check (get_or_none verification ''verification_root'' = JStr root)
        ''PACKET_VERIFICATION_ROOT_MISMATCH'' ''$'')))))))))"

definition validate_packet :: "(string \<Rightarrow> string) \<Rightarrow> json \<Rightarrow> py_error + json dict" where
  "validate_packet sha packet =
     e_bind (adi_check (is_obj packet \<and> set (dkeys (dict_of packet)) = set PACKET_FIELDS)
               ''PACKET_SCHEMA_INVALID'' ''$'') (\<lambda>_.
     e_bind (normalize_json ''$'' packet) (\<lambda>normalized.
     let n = dict_of normalized; risk = dict_of (fld n ''risk_assessment'') in
     e_bind (check_versions n) (\<lambda>_.
     e_bind (hash_basis ''packet_sha256'' n) (\<lambda>basis.
     e_bind (canonical_sha256 sha basis) (\<lambda>h.
     e_bind (adi_check (fld n ''packet_sha256'' = JStr h) ''PACKET_SHA256_MISMATCH'' ''$'') (\<lambda>_.
     e_bind (check_source n) (\<lambda>_.
     e_bind (check_delta n) (\<lambda>_.
     e_bind (check_roots sha n) (\<lambda>_.
     e_bind (adi_check (is_obj (fld n ''risk_assessment'') \<and> get_or_none risk ''hard_risk'' = JBool False \<and>
               get_or_none risk ''redlines'' = JArr [])
               ''PACKET_HARD_RISK_BLOCKED'' ''$'') (\<lambda>_. Inr n))))))))))"

section \<open>Reconstruction\<close>

fun packet_atoms ::
  "(string \<Rightarrow> string) \<Rightarrow> json dict dict \<Rightarrow> json list \<Rightarrow> py_error + json dict dict" where
  "packet_atoms sha atoms [] = Inr atoms"
| "packet_atoms sha atoms (raw # raws) =
     e_bind (validate_supplied sha raw) (\<lambda>atom.
     e_bind (adi_check (\<not> dhas atoms (rec_id atom)) ''PACKET_STATE_ATOM_DUPLICATE'' ''$'') (\<lambda>_.
     packet_atoms sha (dset (rec_id atom) atom atoms) raws))"

text \<open>The record of an entry, from the store or from the packet's atoms.\<close>

definition resolve_entry :: "json dict dict \<Rightarrow> json dict dict \<Rightarrow> json dict \<Rightarrow> py_error + json dict" where
  "resolve_entry records atoms entry =
     (let rid = str_of (fld entry ''id''); h = str_of (fld entry ''record_sha256'');
          found = (\<lambda>d reason path. case dget d rid of
            Some r \<Rightarrow> if rec_sha r = h then Inr r else Inl (NativeADIError reason path)
          | None \<Rightarrow> Inl (NativeADIError reason path)) in
      if fld entry ''delivery'' = JStr ''REFERENCE''
      then found records ''REFERENCE_LOOKUP_MISS'' (''$.reference_lookup.'' @ rid)
      else found atoms ''REQUIRED_STATE_ATOM_MISSING'' (''$.delta.'' @ rid))"

definition used_atoms :: "json dict list \<Rightarrow> string set" where
  "used_atoms entries =
     set (map (\<lambda>e. str_of (fld e ''id'')) (filter (\<lambda>e. fld e ''delivery'' \<noteq> JStr ''REFERENCE'') entries))"

definition resolve_packet ::
  "(string \<Rightarrow> string) \<Rightarrow> json dict dict \<Rightarrow> json dict \<Rightarrow> py_error + json dict list" where
  "resolve_packet sha records n =
     (let entries = map dict_of (arr_of (fld (dict_of (fld n ''reference_lookup'')) ''entries'')) in
      e_bind (packet_atoms sha [] (arr_of (fld (dict_of (fld n ''delta'')) ''state_atoms''))) (\<lambda>atoms.
      e_bind (map_err (resolve_entry records atoms) entries) (\<lambda>resolved.
      e_bind (adi_check (used_atoms entries = set (dkeys atoms)) ''UNREFERENCED_STATE_ATOM_FORBIDDEN'' ''$'')
        (\<lambda>_. Inr (sort_key record_sort_key resolved)))))"

text \<open>The checks of the reconstructed state against the packet's source.\<close>

definition reconstruction_checks ::
  "(string \<Rightarrow> string) \<Rightarrow> json dict \<Rightarrow> string \<Rightarrow> string \<Rightarrow> py_error + (string \<times> bool) list" where
  "reconstruction_checks sha n bytes_text ids_sha =
     (let source = dict_of (fld n ''source'') in
      e_bind (item source ''state_sha256'') (\<lambda>state_sha.
      e_bind (item source ''id_set_sha256'') (\<lambda>id_set_sha.
      e_bind (item source ''source_bytes'') (\<lambda>source_bytes.
      Inr [(''schema_valid'', True),
           (''source_hash_equals_reconstructed_hash'', state_sha = JStr (sha bytes_text)),
           (''id_set_equivalent'', id_set_sha = JStr ids_sha),
           (''byte_equivalent'', pyeq (JInt (int (length bytes_text))) source_bytes),
           (''reference_or_lookup_present'', arr_of (fld (dict_of (fld n ''reference_lookup'')) ''entries'') \<noteq> []),
           (''reconstruction_conditions_present'', dict_of (fld n ''reconstruction_conditions'') \<noteq> []),
           (''protocol_and_schema_present'', True),
           (''verification_root_present'', truthy (fld (dict_of (fld n ''verification'')) ''verification_root'')),
           (''hard_risk_clear'', True)]))))"

text \<open>The packet with the decision \<open>ALLOW\<close>; \<open>D8\<close> is only now used as a mapping.\<close>

definition allow_packet :: "(string \<Rightarrow> string) \<Rightarrow> json dict \<Rightarrow> py_error + json dict" where
  "allow_packet sha n =
     e_bind (normalize_json ''$'' (JObj n)) (\<lambda>normalized.
     let a = dset ''total_field_decision'' (JStr ''ALLOW'') (dict_of normalized);
         context = dict_of (fld a ''dynamic_context_8d'') in
     e_bind (case fld context ''D8'' of
               JObj d8 \<Rightarrow> Inr (dset ''decision'' (JStr ''ALLOW'') d8)
             | _ \<Rightarrow> Inl (TypeError ''object does not support item assignment'')) (\<lambda>d8.
     let b = dset ''dynamic_context_8d'' (JObj (dset ''D8'' (JObj d8) context)) a in
     e_bind (hash_basis ''packet_sha256'' b) (\<lambda>basis.
     e_bind (canonical_sha256 sha basis) (\<lambda>h.
     Inr (dset ''packet_sha256'' (JStr h) b)))))"

definition reconstruct_result ::
  "json dict \<Rightarrow> json dict list \<Rightarrow> json dict \<Rightarrow> string \<Rightarrow> string \<Rightarrow> (string \<times> bool) list \<Rightarrow> json dict \<Rightarrow> json dict" where
  "reconstruct_result n ordered doc bytes_text state_sha checks allowed =
     (let source = dict_of (fld n ''source'') in
      [(''state'', JStr ''PASS_RECONSTRUCTED_EQUIVALENT_STATE''), (''total_field_decision'', JStr ''ALLOW''),
       (''source_sha256'', fld source ''state_sha256''), (''reconstructed_sha256'', JStr state_sha),
       (''source_bytes'', fld source ''source_bytes''),
       (''reconstructed_bytes'', JInt (int (length bytes_text))),
       (''record_count'', JInt (int (length ordered))), (''query_result_count'', JInt (int (length ordered))),
       (''checks'', JObj (map (\<lambda>(k, b). (k, JBool b)) checks)), (''reconstructed_state'', JObj doc),
       (''authorized_packet'', JObj allowed)])"

definition log_reconstruction :: "json dict \<Rightarrow> json dict list \<Rightarrow> (native_store, unit) obj_op" where
  "log_reconstruction n newly =
     (if newly = [] then ret ()
      else log_event ''RECONSTRUCT_ALLOW''
        [(''source_packet_sha256'', fld n ''packet_sha256''), (''records'', JArr (map JObj newly))])"

definition reconstruct_body :: "json \<Rightarrow> (native_store, json dict) obj_op" where
  "reconstruct_body packet =
     m_bind obj (\<lambda>s. m_bind sha_op (\<lambda>sha.
     m_bind (lift (validate_packet sha packet)) (\<lambda>n.
     m_bind (lift (resolve_packet sha (ns_records s) n)) (\<lambda>ordered.
     m_bind (lift (state_document ordered)) (\<lambda>doc.
     m_bind (lift (canonical_bytes (JObj doc))) (\<lambda>t.
     m_bind (lift (canonical_sha256 sha (str_list (sort (map rec_id ordered))))) (\<lambda>ids_sha.
     m_bind (lift (reconstruction_checks sha n t ids_sha)) (\<lambda>checks.
     m_then (guard (list_all snd checks)
               (NativeADIError ''TOTAL_FIELD_RECONSTRUCTION_VERIFICATION_FAILED'' ''$''))
    (m_then (log_reconstruction n (filter (\<lambda>r. \<not> dhas (ns_records s) (rec_id r)) ordered))
    (m_then (accept_all (map JObj ordered))
    (m_then persist_snapshot
    (m_bind (lift (allow_packet sha n)) (\<lambda>allowed.
     ret (reconstruct_result n ordered doc t (sha t) checks allowed))))))))))))))"

definition reconstruct_op :: "json \<Rightarrow> (native_store, json dict) obj_op" where
  "reconstruct_op packet = counted ''reconstruct_requests'' (reconstruct_body packet)"

end
