(* ===== verification/NativeService.thy ===== *)
theory NativeService
  imports NativePacket ConversationEvents
begin

text \<open>
  \<open>services/w7tp_native_adi/core.py\<close>, loading the snapshot and replaying the event log, and
  \<open>service.py\<close>, what a request does: the routes with their checks and answers.  Sockets, headers
  and threads are left out.
\<close>

section \<open>Numbers\<close>

definition decimal_value :: "string \<Rightarrow> nat option" where
  "decimal_value g =
     (case filter (\<lambda>n. n \<le> code_point g \<and> code_point g < n + 10) decimal_runs of
        n # _ \<Rightarrow> Some (code_point g - n) | [] \<Rightarrow> None)"

text \<open>The digits of \<open>int(text)\<close>: single underscores may stand between digits.\<close>

fun int_digits :: "nat \<Rightarrow> bool \<Rightarrow> string list \<Rightarrow> nat option" where
  "int_digits n after_digit [] = (if after_digit then Some n else None)"
| "int_digits n after_digit (g # gs) =
     (case decimal_value g of
        Some d \<Rightarrow> int_digits (10 * n + d) True gs
      | None \<Rightarrow> if g = ''_'' \<and> after_digit then int_digits n False gs else None)"

definition int_of_text :: "string \<Rightarrow> int option" where
  "int_of_text s =
     (case py_chars (strip s) of
        [] \<Rightarrow> None
      | g # gs \<Rightarrow>
          if g = ''-'' then map_option (\<lambda>n. - int n) (int_digits 0 False gs)
          else if g = ''+'' then map_option int (int_digits 0 False gs)
          else map_option int (int_digits 0 False (g # gs)))"

definition py_int :: "json \<Rightarrow> py_error + int" where
  "py_int v =
     (case v of
        JInt n \<Rightarrow> Inr n
      | JBool b \<Rightarrow> Inr (of_bool b)
      | JStr s \<Rightarrow> (case int_of_text s of Some n \<Rightarrow> Inr n | None \<Rightarrow> Inl (ValueError ''invalid literal for int()''))
      | _ \<Rightarrow> Inl (TypeError ''int() argument''))"

section \<open>Loading the state\<close>

text \<open>The records of a snapshot and its event sequence; the checks come before any record is accepted.\<close>

definition read_snapshot :: "(string \<Rightarrow> string) \<Rightarrow> string \<Rightarrow> py_error + json list \<times> json" where
  "read_snapshot sha t =
     e_bind (case loads t of None \<Rightarrow> Inl (NativeADIError ''SNAPSHOT_READ_FAILED'' ''$'') | Some v \<Rightarrow> Inr v) (\<lambda>v.
     e_bind (get_attr v ''protocol_version'' JNull) (\<lambda>protocol.
     let snapshot = dict_of v; state = get_or_none snapshot ''state'';
         mismatch = NativeADIError ''SNAPSHOT_INTEGRITY_MISMATCH'' ''$'' in
     e_bind (check (protocol = JStr PROTOCOL_VERSION \<and>
                    get_or_none snapshot ''schema_version'' = JStr STATE_SCHEMA_VERSION) mismatch) (\<lambda>_.
     e_bind (canonical_sha256 sha state) (\<lambda>h.
     e_bind (check (get_or_none snapshot ''state_sha256'' = JStr h) mismatch) (\<lambda>_.
     e_bind (adi_check (is_obj state \<and> is_arr (get_or_none (dict_of state) ''records''))
               ''SNAPSHOT_STATE_INVALID'' ''$'') (\<lambda>_.
     Inr (arr_of (get_or_none (dict_of state) ''records''),
          case dget snapshot ''event_sequence'' of Some n \<Rightarrow> n | None \<Rightarrow> JInt 0)))))))"

definition load_snapshot :: "string \<Rightarrow> (native_store, int) obj_op" where
  "load_snapshot t =
     m_bind sha_op (\<lambda>sha.
     m_bind (lift (read_snapshot sha t)) (\<lambda>(records, sequence).
     m_then (accept_all records) (lift (py_int sequence))))"

text \<open>The chain of events: the events to replay, and the digest of the last one.\<close>

fun read_events ::
  "(string \<Rightarrow> string) \<Rightarrow> int \<Rightarrow> nat \<Rightarrow> string option \<Rightarrow> string list \<Rightarrow> py_error + json dict list \<times> string option" where
  "read_events sha snapshot_sequence i previous [] = Inr ([], previous)"
| "read_events sha snapshot_sequence i previous (line # ls) =
     (let path = ''$.events['' @ show_nat i @ '']'';
          broken = NativeADIError ''EVENT_LOG_CHAIN_INVALID'' path in
      e_bind (case loads line of None \<Rightarrow> Inl (NativeADIError ''EVENT_LOG_JSON_INVALID'' path) | Some v \<Rightarrow> Inr v) (\<lambda>v.
      e_bind (get_attr v ''sequence'' JNull) (\<lambda>sequence.
      let event = dict_of v in
      e_bind (check (pyeq sequence (JInt (int i + 1)) \<and>
                     get_or_none event ''previous_event_sha256'' = last_json previous) broken) (\<lambda>_.
      e_bind (hash_basis ''event_sha256'' event) (\<lambda>basis.
      e_bind (canonical_sha256 sha basis) (\<lambda>h.
      e_bind (check (get_or_none event ''event_sha256'' = JStr h) broken) (\<lambda>_.
      e_bind (read_events sha snapshot_sequence (Suc i) (Some h) ls) (\<lambda>(events, last_sha).
      Inr (if int i + 1 > snapshot_sequence then event # events else events, last_sha)))))))))"

text \<open>Replaying one event.\<close>

definition replay_event :: "json dict \<Rightarrow> (native_store, unit) obj_op" where
  "replay_event event =
     (let payload = (case dget event ''payload'' of Some p \<Rightarrow> p | None \<Rightarrow> JObj []);
          kind = get_or_none event ''event_type'' in
      if kind = JStr ''INSERT''
      then m_bind (lift (get_attr payload ''record'' JNull)) (\<lambda>r. m_bind (accept_record r) (\<lambda>_. ret ()))
      else if kind = JStr ''RECONSTRUCT_ALLOW''
      then m_bind (lift (get_attr payload ''records'' (JArr []))) (\<lambda>rs.
           m_bind (lift (py_list rs)) accept_all)
      else guard (kind = JStr ''EMPTY_STATE_CREATED'') (NativeADIError ''EVENT_TYPE_INVALID'' ''$''))"

fun replay_all :: "json dict list \<Rightarrow> (native_store, unit) obj_op" where
  "replay_all [] = ret ()"
| "replay_all (e # es) = m_then (replay_event e) (replay_all es)"

definition load_events :: "string \<Rightarrow> int \<Rightarrow> (native_store, json dict list) obj_op" where
  "load_events dir snapshot_sequence = (\<lambda>(s, w).
     case files w (event_path dir) of
       None \<Rightarrow> (Inr [], (s, w))
     | Some t \<Rightarrow>
         (case read_events (sha256 w) snapshot_sequence 0 None (splitlines t) of
            Inl e \<Rightarrow> (Inl e, (s, w))
          | Inr (events, last_sha) \<Rightarrow>
              (Inr events, (s\<lparr>ns_seq := int (length (splitlines t)), ns_last := last_sha\<rparr>, w))))"

definition load_persistent_state :: "string \<Rightarrow> (native_store, unit) obj_op" where
  "load_persistent_state dir =
     m_bind (gets (\<lambda>(_, w). files w (snapshot_path dir))) (\<lambda>snapshot.
     m_bind (case snapshot of None \<Rightarrow> ret 0 | Some t \<Rightarrow> load_snapshot t) (\<lambda>sequence.
     m_bind (load_events dir sequence) (\<lambda>events.
     m_then (replay_all events)
    (m_then (if snapshot = None then log_event ''EMPTY_STATE_CREATED'' [(''record_count'', JInt 0)] else ret ())
            persist_snapshot))))"

definition open_native :: "string option \<Rightarrow> world \<Rightarrow> (py_error + native_store) \<times> world" where
  "open_native dir w =
     (case dir of
        None \<Rightarrow> (Inr (empty_store None), w)
      | Some d \<Rightarrow>
          (case load_persistent_state d (empty_store dir, w) of
             (Inl e, (s, w')) \<Rightarrow> (Inl e, w')
           | (Inr _, (s, w')) \<Rightarrow> (Inr s, w')))"

section \<open>Requests\<close>

definition MAX_HTTP_REQUEST_BYTES :: int where
  "MAX_HTTP_REQUEST_BYTES = 33554432"

definition AUTHORITY :: string where
  "AUTHORITY = ''TOTAL_FIELD_SERVER_MASTER''"

definition health_payload :: "json dict" where
  "health_payload =
     [(''state'', JStr ''PASS''), (''service'', JStr SERVICE_NAME), (''authority'', JStr AUTHORITY),
      (''protocol'', JStr ''W7TP_8D_GENERATIVE_TRANSMISSION''), (''production'', JBool True)]"

definition request_json :: "string \<Rightarrow> string \<Rightarrow> py_error + json dict" where
  "request_json raw_length body =
     e_bind (case int_of_text raw_length of Some n \<Rightarrow> Inr n
             | None \<Rightarrow> Inl (NativeADIError ''HTTP_CONTENT_LENGTH_INVALID'' ''$'')) (\<lambda>n.
     e_bind (adi_check (2 \<le> n \<and> n \<le> MAX_HTTP_REQUEST_BYTES) ''HTTP_REQUEST_SIZE_INVALID'' ''$'') (\<lambda>_.
     e_bind (case loads (take (nat n) body) of Some v \<Rightarrow> Inr v
             | None \<Rightarrow> Inl (NativeADIError ''HTTP_REQUEST_JSON_INVALID'' ''$'')) (\<lambda>v.
     e_bind (adi_check (is_obj v) ''HTTP_REQUEST_OBJECT_REQUIRED'' ''$'') (\<lambda>_. Inr (dict_of v)))))"

definition get_request :: "string \<Rightarrow> (native_store, int \<times> json dict) obj_op" where
  "get_request path =
     (if path = ''/health'' then ret (200, health_payload)
      else if path = ''/metrics'' then m_bind metrics_op (\<lambda>m. ret (200, m))
      else ret (404, [(''state'', JStr ''HOLD''), (''reason_code'', JStr ''ROUTE_NOT_FOUND'')]))"

definition route_post :: "string \<Rightarrow> json dict \<Rightarrow> (native_store, int \<times> json dict) obj_op" where
  "route_post path payload =
     (if path = ''/v1/adi/insert'' then
        m_then (lift (adi_check (set (dkeys payload) = {''id'', ''time_slot'', ''payload''})
                        ''INSERT_REQUEST_SHAPE_INVALID'' ''$''))
       (m_bind (insert_op (fld payload ''id'') (fld payload ''time_slot'') (fld payload ''payload'')) (\<lambda>r.
        ret (200, [(''state'', JStr ''PASS''), (''record'', JObj r)])))
      else if path = ''/v1/adi/search'' then
        m_then (lift (adi_check ({''start_slot'', ''end_slot''} \<subseteq> set (dkeys payload) \<and>
                         set (dkeys payload) \<subseteq> {''start_slot'', ''end_slot'', ''limit''})
                        ''SEARCH_REQUEST_SHAPE_INVALID'' ''$''))
       (m_bind (search_op (fld payload ''start_slot'') (fld payload ''end_slot'')
                  (case dget payload ''limit'' of Some n \<Rightarrow> n | None \<Rightarrow> JInt 100)) (\<lambda>rs.
        ret (200, [(''state'', JStr ''PASS''), (''results'', JArr (map JObj rs))])))
      else if path = ''/v1/adi/packet'' then
        m_then (lift (adi_check (set (dkeys payload) \<subseteq> {''ids'', ''receiver_lookup''})
                        ''PACKET_REQUEST_SHAPE_INVALID'' ''$''))
       (m_bind (packet_op (get_or_none payload ''ids'') (get_or_none payload ''receiver_lookup'')) (\<lambda>p. ret (200, p)))
      else if path = ''/v1/adi/reconstruct'' then
        m_then (lift (adi_check (set (dkeys payload) = {''packet''}) ''RECONSTRUCT_REQUEST_SHAPE_INVALID'' ''$''))
       (m_bind (reconstruct_op (fld payload ''packet'')) (\<lambda>r. ret (200, r)))
      else ret (404, [(''state'', JStr ''HOLD''), (''reason_code'', JStr ''ROUTE_NOT_FOUND'')]))"

text \<open>\<open>do_POST\<close>: an \<open>ADIError\<close> becomes an answer that claims to have had no effect.\<close>

definition post_request :: "string \<Rightarrow> string \<Rightarrow> string \<Rightarrow> (native_store, int \<times> json dict) obj_op" where
  "post_request path raw_length body = (\<lambda>sw.
     case m_bind (lift (request_json raw_length body)) (route_post path) sw of
       (Inl (NativeADIError reason where_), sw') \<Rightarrow>
         (Inr (422, [(''state'', JStr ''HOLD''), (''reason_code'', JStr reason), (''path'', JStr where_),
                     (''side_effects'', JInt 0)]), sw')
     | res \<Rightarrow> res)"

end
