(* ===== verification/NativeInvariant.thy ===== *)
theory NativeInvariant
  imports NativeService
begin

text \<open>
  What every operation keeps of a store: records that carry their own digest, and buckets in which
  the record at a position has that position as its collision index.  Records are only added.
\<close>

section \<open>Records that were built\<close>

definition whole_record :: "(string \<Rightarrow> string) \<Rightarrow> string \<Rightarrow> int \<Rightarrow> int \<Rightarrow> json dict \<Rightarrow> json dict" where
  "whole_record sha i n c p =
     (let body = record_body i n c (spiral_xy (nat c)) p
      in body @ [(''record_sha256'', JStr (sha (dumps_canonical (JObj body))))])"

definition good_record :: "(string \<Rightarrow> string) \<Rightarrow> json dict \<Rightarrow> bool" where
  "good_record sha r \<longleftrightarrow>
     (\<exists>i n c p. is_record_id i \<and> 0 \<le> n \<and> n \<le> MAX_TIME_SLOT \<and> 0 \<le> c \<and> normal (JObj p) \<and>
        length (dumps_canonical (JObj p)) \<le> MAX_PAYLOAD_BYTES \<and> r = whole_record sha i n c p)"

declare normal.simps(2) [simp del] normalize_json.simps(2) [simp del]

lemma normal_body: "normal (JObj p) \<Longrightarrow> normal (JObj (record_body i n c xy p))"
  by (simp add: record_body_def normal.simps(2))

lemma normal_whole: "normal (JObj p) \<Longrightarrow> normal (JObj (whole_record sha i n c p))"
  by (simp add: whole_record_def Let_def record_body_def normal.simps(2))

lemma canonical_normal: "normal v \<Longrightarrow> canonical_bytes v = Inr (dumps_canonical v)"
  by (simp add: canonical_bytes_def normal_normalize)

lemma sha_normal: "normal v \<Longrightarrow> canonical_sha256 sha v = Inr (sha (dumps_canonical v))"
  by (simp add: canonical_sha256_def canonical_normal)

lemma spiral_position_Inr: "spiral_position c = Inr xy \<longleftrightarrow> 0 \<le> c \<and> xy = spiral_xy (nat c)"
  by (auto simp: spiral_position_def)

lemma build_record_good:
  assumes "build_record sha a b v c = Inr r"
  shows "good_record sha r \<and> fld r ''collision_index'' = JInt c \<and> fld r ''id'' = a \<and> fld r ''time_slot'' = b"
proof -
  from assms obtain i n p where a: "a = JStr i" "is_record_id i" and b: "b = JInt n" "0 \<le> n" "n \<le> MAX_TIME_SLOT"
    and p: "normalize_json ''$.payload'' v = Inr (JObj p)"
    and t: "length (dumps_canonical (JObj p)) \<le> MAX_PAYLOAD_BYTES" and c: "0 \<le> c"
    and r: "e_bind (canonical_sha256 sha (JObj (record_body i n c (spiral_xy (nat c)) p)))
      (\<lambda>h. Inr (record_body i n c (spiral_xy (nat c)) p @ [(''record_sha256'', JStr h)])) = Inr r"
  proof -
    from assms obtain i n safe t xy where *: "require_id a ''$.id'' = Inr i" "require_time_slot b ''$.time_slot'' = Inr n"
      "normalize_json ''$.payload'' v = Inr safe" "is_obj safe" "canonical_bytes safe = Inr t"
      "length t \<le> MAX_PAYLOAD_BYTES" "spiral_position c = Inr xy"
      "e_bind (canonical_sha256 sha (JObj (record_body i n c xy (dict_of safe))))
        (\<lambda>h. Inr (record_body i n c xy (dict_of safe) @ [(''record_sha256'', JStr h)])) = Inr r"
      by (auto simp: build_record_def e_bind_InrD Let_def)
    from *(4) obtain p where p: "safe = JObj p" by (auto simp: is_obj_def split: json.splits)
    have "normal safe" using *(3) by (rule normalize_normal)
    then have "t = dumps_canonical (JObj p)" using *(5) by (simp add: canonical_normal p)
    with * p show thesis
      by (intro that [of i n p])
        (auto simp: require_id_def require_time_slot_def spiral_position_Inr split: json.splits if_splits)
  qed
  have np: "normal (JObj p)" using p by (rule normalize_normal)
  then have "r = whole_record sha i n c p"
    using r by (simp add: sha_normal normal_body whole_record_def Let_def)
  then show ?thesis
    using a b c t np by (auto simp: good_record_def whole_record_def Let_def record_body_def)
qed

lemma build_record_whole:
  assumes "is_record_id i" "0 \<le> n" "n \<le> MAX_TIME_SLOT" "0 \<le> c" "normal (JObj p)"
    "length (dumps_canonical (JObj p)) \<le> MAX_PAYLOAD_BYTES"
  shows "build_record sha (JStr i) (JInt n) (JObj p) c = Inr (whole_record sha i n c p)"
  using assms by (simp add: build_record_def require_id_def require_time_slot_def normal_normalize is_obj_def
      canonical_normal sha_normal normal_body spiral_position_def whole_record_def Let_def)

lemma good_record_normal: "good_record sha r \<Longrightarrow> normal (JObj r)"
  by (auto simp: good_record_def normal_whole)

lemma whole_fields [simp]:
  "fld (whole_record sha i n c p) ''id'' = JStr i"
  "fld (whole_record sha i n c p) ''time_slot'' = JInt n"
  "fld (whole_record sha i n c p) ''collision_index'' = JInt c"
  "fld (whole_record sha i n c p) ''payload'' = JObj p"
  "fld (whole_record sha i n c p) ''spiral_position'' =
     JObj [(''x'', JInt (fst (spiral_xy (nat c)))), (''y'', JInt (snd (spiral_xy (nat c))))]"
  by (simp_all add: whole_record_def Let_def record_body_def)

lemma whole_keys: "fst ` set (whole_record sha i n c p) = set RECORD_FIELDS"
  by (auto simp: whole_record_def Let_def record_body_def RECORD_FIELDS_def)

lemma good_record_validates:
  assumes "good_record sha r"
  shows "validate_supplied sha (JObj r) = Inr r"
proof -
  from assms obtain i n c p where g: "is_record_id i" "0 \<le> n" "n \<le> MAX_TIME_SLOT" "0 \<le> c" "normal (JObj p)"
    "length (dumps_canonical (JObj p)) \<le> MAX_PAYLOAD_BYTES" and r: "r = whole_record sha i n c p"
    by (auto simp: good_record_def)
  show ?thesis
    using build_record_whole [OF g, of sha] normal_normalize(1) [OF normal_whole [OF g(5), of sha i n c]]
    by (simp add: validate_supplied_def is_obj_def whole_keys r)
qed

lemma validate_supplied_good: "validate_supplied sha v = Inr r \<Longrightarrow> good_record sha r"
  by (auto simp: validate_supplied_def e_bind_InrD Let_def dest: build_record_good)

lemma good_record_numbers: "good_record sha r \<Longrightarrow> 0 \<le> rec_index r \<and> fld r ''collision_index'' = JInt (rec_index r)"
  by (auto simp: good_record_def rec_index_def)

section \<open>The invariant\<close>

definition bucket_ok :: "native_store \<Rightarrow> int \<Rightarrow> bool" where
  "bucket_ok s slot \<longleftrightarrow>
     (\<forall>i < length (bucket s slot).
        \<exists>r. dget (ns_records s) (bucket s slot ! i) = Some r \<and> rec_slot r = slot \<and> rec_index r = int i)"

definition placed :: "native_store \<Rightarrow> string \<Rightarrow> json dict \<Rightarrow> bool" where
  "placed s k r \<longleftrightarrow>
     nat (rec_index r) < length (bucket s (rec_slot r)) \<and> bucket s (rec_slot r) ! nat (rec_index r) = k"

definition store_ok :: "(string \<Rightarrow> string) \<Rightarrow> native_store \<Rightarrow> bool" where
  "store_ok sha s \<longleftrightarrow>
     distinct (dkeys (ns_records s)) \<and> (\<forall>slot. bucket_ok s slot) \<and>
     (\<forall>k r. dget (ns_records s) k = Some r \<longrightarrow> good_record sha r \<and> rec_id r = k \<and> placed s k r)"

text \<open>From one state to a later one.\<close>

definition grows :: "native_store \<times> world \<Rightarrow> native_store \<times> world \<Rightarrow> bool" where
  "grows sw sw' \<longleftrightarrow>
     sha256 (snd sw') = sha256 (snd sw) \<and> ns_dir (fst sw') = ns_dir (fst sw) \<and>
     (\<forall>k r. dget (ns_records (fst sw)) k = Some r \<longrightarrow> dget (ns_records (fst sw')) k = Some r) \<and>
     (store_ok (sha256 (snd sw)) (fst sw) \<longrightarrow> store_ok (sha256 (snd sw)) (fst sw'))"

lemma grows_refl [simp]: "grows sw sw"
  by (simp add: grows_def)

lemma grows_trans: "grows a b \<Longrightarrow> grows b c \<Longrightarrow> grows a c"
  by (simp add: grows_def)

lemma store_ok_cong:
  "ns_records s' = ns_records s \<Longrightarrow> (\<And>slot. bucket s' slot = bucket s slot) \<Longrightarrow> store_ok sha s' = store_ok sha s"
  by (simp add: store_ok_def bucket_ok_def placed_def)

lemma grows_same:
  "ns_records s' = ns_records s \<Longrightarrow> (\<And>slot. bucket s' slot = bucket s slot) \<Longrightarrow> ns_dir s' = ns_dir s \<Longrightarrow>
   sha256 w' = sha256 w \<Longrightarrow> grows (s, w) (s', w')"
  using store_ok_cong [of s' s] by (simp add: grows_def)

lemma bucket_more [simp]:
  "bucket (s\<lparr>ns_metrics := m\<rparr>) slot = bucket s slot" "bucket (s\<lparr>ns_seq := q\<rparr>) slot = bucket s slot"
  "bucket (s\<lparr>ns_last := l\<rparr>) slot = bucket s slot" "bucket (s\<lparr>ns_records := d\<rparr>) slot = bucket s slot"
  by (simp_all add: bucket_def)

lemma bucket_update [simp]:
  "bucket (s\<lparr>ns_slots := AList.update k ids (ns_slots s)\<rparr>) slot = (if slot = k then ids else bucket s slot)"
  by (simp add: bucket_def update_conv')

lemma bucket_update2 [simp]:
  "bucket (s\<lparr>ns_slots := AList.update k ids (AList.update k jds (ns_slots s))\<rparr>) slot =
   (if slot = k then ids else bucket s slot)"
  by (simp add: bucket_def update_conv')

text \<open>A new record at the end of its bucket.\<close>

definition with_record :: "json dict \<Rightarrow> native_store \<Rightarrow> native_store" where
  "with_record r s =
     (let slot = rec_slot r; ids = bucket s slot in
      s\<lparr>ns_slots := AList.update slot (ids @ [rec_id r]) (AList.update slot ids (ns_slots s)),
        ns_records := dset (rec_id r) r (ns_records s)\<rparr>)"

lemma with_record_simps [simp]:
  "ns_records (with_record r s) = dset (rec_id r) r (ns_records s)"
  "bucket (with_record r s) slot =
     (if slot = rec_slot r then bucket s slot @ [rec_id r] else bucket s slot)"
  "ns_dir (with_record r s) = ns_dir s" "ns_seq (with_record r s) = ns_seq s"
  "ns_last (with_record r s) = ns_last s"
  by (simp_all add: with_record_def Let_def bucket_def update_conv')

lemma with_record_ok:
  assumes ok: "store_ok sha s" and r: "good_record sha r" and new: "dget (ns_records s) (rec_id r) = None"
    and len: "rec_index r = int (length (bucket s (rec_slot r)))"
  shows "store_ok sha (with_record r s)"
proof -
  have old: "k \<noteq> rec_id r" if "dget (ns_records s) k = Some q" for k q using new that by auto
  have b: "bucket_ok (with_record r s) slot" for slot
    unfolding bucket_ok_def
  proof (intro allI impI)
    fix i assume i: "i < length (bucket (with_record r s) slot)"
    show "\<exists>q. dget (ns_records (with_record r s)) (bucket (with_record r s) slot ! i) = Some q \<and>
        rec_slot q = slot \<and> rec_index q = int i"
    proof (cases "slot = rec_slot r \<and> i = length (bucket s slot)")
      case True
      with len show ?thesis by simp
    next
      case False
      with i have i: "i < length (bucket s slot)" and
        e: "bucket (with_record r s) slot ! i = bucket s slot ! i"
        by (auto simp: nth_append split: if_splits)
      from ok have "bucket_ok s slot" by (simp add: store_ok_def)
      with i obtain q where "dget (ns_records s) (bucket s slot ! i) = Some q" "rec_slot q = slot" "rec_index q = int i"
        by (auto simp: bucket_ok_def)
      with e old show ?thesis by (intro exI [of _ q]) auto
    qed
  qed
  have p: "good_record sha q \<and> rec_id q = k \<and> placed (with_record r s) k q"
    if q: "dget (ns_records (with_record r s)) k = Some q" for k q
  proof (cases "k = rec_id r")
    case True
    with q r len show ?thesis by (simp add: placed_def)
  next
    case False
    with q have "dget (ns_records s) k = Some q" by simp
    with ok have "good_record sha q \<and> rec_id q = k \<and> placed s k q" by (simp add: store_ok_def)
    then have "nat (rec_index q) < length (bucket s (rec_slot q))" "bucket s (rec_slot q) ! nat (rec_index q) = k"
      and "good_record sha q \<and> rec_id q = k" by (simp_all add: placed_def)
    then show ?thesis
      unfolding placed_def by (cases "rec_slot q = rec_slot r") (simp_all add: nth_append)
  qed
  from ok have "distinct (dkeys (ns_records s))" by (simp add: store_ok_def)
  then have "distinct (dkeys (ns_records (with_record r s)))" by simp
  with b p show ?thesis unfolding store_ok_def by blast
qed

section \<open>Accepting\<close>

lemma accept_record_cases:
  assumes "validate_supplied (sha256 w) v = Inr r"
  shows "accept_record v (s, w) =
    (case dget (ns_records s) (rec_id r) of
       Some q \<Rightarrow> (if pyeq (JObj q) (JObj r) then Inr False
                 else Inl (NativeADIError ''APPEND_ONLY_RECORD_CONFLICT'' ''$.id''), (s, w))
     | None \<Rightarrow>
         if rec_index r = int (length (bucket s (rec_slot r))) then (Inr True, (with_record r s, w))
         else (Inl (NativeADIError ''SPIRAL_COLLISION_ORDER_MISMATCH'' ''$.collision_index''),
               (s\<lparr>ns_slots := AList.update (rec_slot r) (bucket s (rec_slot r)) (ns_slots s)\<rparr>, w)))"
  using assms by (simp add: accept_record_def Let_def with_record_def m_then_def split: option.splits)

lemma accept_record_grows: "grows (s, w) (snd (accept_record v (s, w)))"
proof (cases "validate_supplied (sha256 w) v")
  case (Inl e)
  then show ?thesis by (simp add: accept_record_def)
next
  case (Inr r)
  have good: "good_record (sha256 w) r" using Inr by (rule validate_supplied_good)
  show ?thesis
  proof (cases "dget (ns_records s) (rec_id r)")
    case None
    have "grows (s, w) (with_record r s, w)" if "rec_index r = int (length (bucket s (rec_slot r)))"
      using with_record_ok [OF _ good None that] None by (auto simp: grows_def)
    moreover have "grows (s, w)
        (s\<lparr>ns_slots := AList.update (rec_slot r) (bucket s (rec_slot r)) (ns_slots s)\<rparr>, w)"
      by (rule grows_same) simp_all
    ultimately show ?thesis using None by (simp add: accept_record_cases [OF Inr])
  qed (simp add: accept_record_cases [OF Inr])
qed

end
