(* ===== verification/NativeRuns.thy ===== *)
theory NativeRuns
  imports NativeInvariant
begin

text \<open>
  Every operation of a store keeps its invariant and its records, whatever its outcome; and the
  states that a service can be in.
\<close>

section \<open>Operations\<close>

abbreviation safe :: "(native_store, 'a) obj_op \<Rightarrow> bool" where
  "safe m \<equiv> keeps grows m"

lemma safe_bind [inv_intros]: "safe m \<Longrightarrow> (\<And>a. safe (f a)) \<Longrightarrow> safe (m_bind m f)"
  by (rule keeps_bind) (auto intro: grows_trans)

lemma safe_then [inv_intros]: "safe m \<Longrightarrow> safe n \<Longrightarrow> safe (m_then m n)"
  unfolding m_then_def by (rule safe_bind)

lemma safe_pure [inv_intros]:
  "safe (ret a)" "safe (lift r)" "safe (guard b e)" "safe obj" "safe sha_op" "safe (gets g)"
  by (auto simp: keeps_def)

lemma safe_if [inv_intros]: "safe m \<Longrightarrow> safe n \<Longrightarrow> safe (if b then m else n)"
  by simp

lemma safe_accept [inv_intros]: "safe (accept_record v)"
  using accept_record_grows by (auto simp: keeps_def)

lemma safe_accept_all [inv_intros]: "safe (accept_all vs)"
  by (induction vs) (simp_all only: accept_all.simps safe_pure inv_intros)

lemma safe_append_file [inv_intros]: "safe (append_file p t)" "safe (replace_file p t)" "safe now_op"
  by (auto simp: keeps_def intro!: grows_same)

lemma log_event_state:
  "\<exists>q l. fst (snd (log_event k p (s, w))) = s\<lparr>ns_seq := q, ns_last := l\<rparr> \<and>
     sha256 (snd (snd (log_event k p (s, w)))) = sha256 w"
proof (cases "ns_dir s")
  case None
  then show ?thesis by (auto simp: log_event_def intro!: exI [of _ "ns_seq s"] exI [of _ "ns_last s"])
next
  case (Some dir)
  have same: "\<exists>q l. s = s\<lparr>ns_seq := q, ns_last := l\<rparr>"
    by (rule exI [of _ "ns_seq s"], rule exI [of _ "ns_last s"]) simp
  then show ?thesis
    using Some by (auto simp: log_event_def Let_def m_then_def split: sum.split)
qed

lemma safe_log_event [inv_intros]: "safe (log_event k p)"
  unfolding keeps_def
proof
  fix sw :: "native_store \<times> world"
  obtain s w where sw: "sw = (s, w)" by (cases sw)
  obtain q l where "fst (snd (log_event k p (s, w))) = s\<lparr>ns_seq := q, ns_last := l\<rparr>"
    "sha256 (snd (snd (log_event k p (s, w)))) = sha256 w"
    using log_event_state by blast
  then show "grows sw (snd (log_event k p sw))"
    unfolding sw by (cases "snd (log_event k p (s, w))") (auto intro!: grows_same simp: bucket_def)
qed

lemma safe_persist [inv_intros]: "safe persist_snapshot"
  unfolding persist_snapshot_def by (intro inv_intros) (auto split: option.split intro!: inv_intros)

lemma grows_bump [simp]: "grows (s, w) (bump_store k s, w)"
  by (rule grows_same) (simp_all add: bump_store_def)

lemma safe_counted [inv_intros]:
  assumes "safe m"
  shows "safe (counted k m)"
  unfolding keeps_def
proof
  fix sw :: "native_store \<times> world"
  obtain s w where sw: "sw = (s, w)" by (cases sw)
  obtain r s' w' where m: "m (bump_store k s, w) = (r, (s', w'))" by (metis surj_pair)
  have "grows (bump_store k s, w) (s', w')" using assms m by (metis keeps_def snd_conv)
  then have g: "grows (s, w) (s', w')" by (rule grows_trans [OF grows_bump])
  have "grows (s, w) (bump_store ''rejected_requests'' s', w')" by (rule grows_trans [OF g grows_bump])
  with g m show "grows sw (snd (counted k m sw))"
    by (auto simp: counted_def bump_def m_then_def sw split: sum.splits py_error.splits)
qed

lemma safe_insert [inv_intros]: "safe (insert_op a b c)"
  unfolding insert_op_def insert_body_def
  by (intro inv_intros) (auto split: option.split intro!: inv_intros)

lemma safe_search [inv_intros]: "safe (search_op a b c)"
  unfolding search_op_def search_body_def by (intro inv_intros)

lemma safe_packet [inv_intros]: "safe (packet_op a b)"
  unfolding packet_op_def by (intro inv_intros)

lemma safe_log_reconstruction [inv_intros]: "safe (log_reconstruction n rs)"
  by (auto simp: log_reconstruction_def intro: inv_intros)

lemma safe_reconstruct [inv_intros]: "safe (reconstruct_op p)"
  unfolding reconstruct_op_def reconstruct_body_def by (intro inv_intros)

lemma safe_metrics [inv_intros]: "safe metrics_op"
proof -
  have "safe evidence_root"
    unfolding evidence_root_def by (intro inv_intros) (auto split: option.split list.split intro!: inv_intros)
  then show ?thesis unfolding metrics_op_def by (intro inv_intros)
qed

lemma safe_route [inv_intros]: "safe (route_post path p)"
  unfolding route_post_def by (intro inv_intros)

lemma safe_get [inv_intros]: "safe (get_request path)"
  unfolding get_request_def by (intro inv_intros)

lemma safe_post [inv_intros]: "safe (post_request path n body)"
  unfolding keeps_def
proof
  fix sw
  let ?m = "m_bind (lift (request_json n body)) (route_post path)"
  have "safe ?m" by (intro inv_intros)
  then have "grows sw (snd (?m sw))" unfolding keeps_def by (rule spec)
  then show "grows sw (snd (post_request path n body sw))"
    unfolding post_request_def
    by (cases "?m sw") (auto split: sum.split py_error.split simp del: m_bind_lift)
qed

section \<open>Loading\<close>

lemma safe_replay [inv_intros]: "safe (replay_event e)"
  unfolding replay_event_def Let_def by (intro inv_intros)

lemma safe_replay_all [inv_intros]: "safe (replay_all es)"
  by (induction es) (simp_all only: replay_all.simps safe_pure inv_intros)

lemma safe_load_snapshot [inv_intros]: "safe (load_snapshot t)"
  unfolding load_snapshot_def by (intro inv_intros) (auto intro!: inv_intros split: prod.split)

lemma safe_load_events [inv_intros]: "safe (load_events dir n)"
  unfolding keeps_def
proof
  fix sw :: "native_store \<times> world"
  obtain s w where sw: "sw = (s, w)" by (cases sw)
  have "grows (s, w) (s\<lparr>ns_seq := q, ns_last := l\<rparr>, w)" for q l
    by (rule grows_same) (simp_all add: bucket_def)
  then show "grows sw (snd (load_events dir n sw))"
    by (auto simp: load_events_def sw split: option.split sum.split prod.split)
qed

lemma safe_load [inv_intros]: "safe (load_persistent_state dir)"
  unfolding load_persistent_state_def
  by (intro inv_intros) (auto split: option.split intro!: inv_intros)

lemma empty_store_ok: "store_ok sha (empty_store dir)"
  by (simp add: store_ok_def bucket_ok_def bucket_def empty_store_def)

lemma open_native_ok: "open_native dir w = (Inr s, w') \<Longrightarrow> store_ok (sha256 w) s \<and> ns_dir s = dir"
proof (cases dir)
  case (Some d)
  assume "open_native dir w = (Inr s, w')"
  with Some obtain u where "load_persistent_state d (empty_store dir, w) = (Inr u, (s, w'))"
    by (auto simp: open_native_def split: prod.splits sum.splits)
  moreover have "grows (empty_store dir, w) (snd (load_persistent_state d (empty_store dir, w)))"
    using safe_load by (simp add: keeps_def)
  ultimately show ?thesis using empty_store_ok [of "sha256 w" dir] by (simp add: grows_def empty_store_def)
qed (use empty_store_ok in \<open>auto simp: open_native_def empty_store_def\<close>)

section \<open>The states of a service\<close>

text \<open>
  A service opens its store and answers requests; between two requests the world may change in
  any way, except that the digest function stays the same.
\<close>

inductive native_run :: "(string \<Rightarrow> string) \<Rightarrow> native_store \<Rightarrow> bool" for sha where
  opened: "open_native dir w = (Inr s, w') \<Longrightarrow> sha256 w = sha \<Longrightarrow> native_run sha s"
| inserted: "native_run sha s \<Longrightarrow> sha256 w = sha \<Longrightarrow> insert_op a b c (s, w) = (res, (s', w')) \<Longrightarrow> native_run sha s'"
| searched: "native_run sha s \<Longrightarrow> sha256 w = sha \<Longrightarrow> search_op a b c (s, w) = (res', (s', w')) \<Longrightarrow> native_run sha s'"
| packed: "native_run sha s \<Longrightarrow> sha256 w = sha \<Longrightarrow> packet_op a b (s, w) = (res, (s', w')) \<Longrightarrow> native_run sha s'"
| reconstructed: "native_run sha s \<Longrightarrow> sha256 w = sha \<Longrightarrow> reconstruct_op p (s, w) = (res, (s', w')) \<Longrightarrow> native_run sha s'"
| posted: "native_run sha s \<Longrightarrow> sha256 w = sha \<Longrightarrow> post_request path n body (s, w) = (ans, (s', w')) \<Longrightarrow> native_run sha s'"
| got: "native_run sha s \<Longrightarrow> sha256 w = sha \<Longrightarrow> get_request path (s, w) = (ans, (s', w')) \<Longrightarrow> native_run sha s'"

lemma safe_step: "safe m \<Longrightarrow> m (s, w) = (r, (s', w')) \<Longrightarrow> store_ok (sha256 w) s \<Longrightarrow> store_ok (sha256 w) s'"
  by (metis fst_conv grows_def keeps_def snd_conv)

lemma run_ok: "native_run sha s \<Longrightarrow> store_ok sha s"
proof (induction rule: native_run.induct)
  case (opened dir w s w')
  then show ?case using open_native_ok by blast
next
  case (inserted s w a b c res s' w')
  with safe_step [OF safe_insert inserted.hyps(3)] show ?case by simp
next
  case (searched s w a b c res' s' w')
  with safe_step [OF safe_search searched.hyps(3)] show ?case by simp
next
  case (packed s w a b res s' w')
  with safe_step [OF safe_packet packed.hyps(3)] show ?case by simp
next
  case (reconstructed s w p res s' w')
  with safe_step [OF safe_reconstruct reconstructed.hyps(3)] show ?case by simp
next
  case (posted s w path n body ans s' w')
  with safe_step [OF safe_post posted.hyps(3)] show ?case by simp
next
  case (got s w path ans s' w')
  with safe_step [OF safe_get got.hyps(3)] show ?case by simp
qed

end
