(* ===== verification/NativeReplica.thy ===== *)
theory NativeReplica
  imports NativeRuns "HOL-Library.Multiset"
begin

text \<open>
  Points of a slot never collide, and a replica that lags behind catches up with one packet that
  carries only the records it lacks.
\<close>

section \<open>Points\<close>

lemma good_position:
  "good_record sha r \<Longrightarrow> fld r ''spiral_position'' =
     JObj [(''x'', JInt (fst (spiral_xy (nat (rec_index r))))), (''y'', JInt (snd (spiral_xy (nat (rec_index r)))))]"
  by (auto simp: good_record_def rec_index_def)

lemma same_position:
  assumes "good_record sha r" "good_record sha q" "fld r ''spiral_position'' = fld q ''spiral_position''"
  shows "rec_index r = rec_index q"
proof -
  have "spiral_xy (nat (rec_index r)) = spiral_xy (nat (rec_index q))"
    using assms by (simp add: good_position prod_eq_iff)
  then have "nat (rec_index r) = nat (rec_index q)" by (rule spiral_inj)
  with assms good_record_numbers show ?thesis by (metis nat_eq_iff)
qed

lemma store_okD:
  assumes "store_ok sha s" "dget (ns_records s) k = Some r"
  shows "good_record sha r" "rec_id r = k" "nat (rec_index r) < length (bucket s (rec_slot r))"
    "bucket s (rec_slot r) ! nat (rec_index r) = k"
  using assms by (auto simp: store_ok_def placed_def)

text \<open>
  C8: in every state that a service can reach, a stored record still passes the check for supplied
  records, it stands in its slot's bucket at the place its collision index names, and two records
  of one slot with the same spiral position are the same record.
\<close>

theorem native_points_never_collide:
  assumes "native_run sha s"
    and "dget (ns_records s) a = Some r" and "dget (ns_records s) b = Some q"
    and "rec_slot r = rec_slot q" and "fld r ''spiral_position'' = fld q ''spiral_position''"
  shows "a = b \<and> validate_supplied sha (JObj r) = Inr r \<and> bucket s (rec_slot r) ! nat (rec_index r) = a"
proof -
  have ok: "store_ok sha s" using assms(1) by (rule run_ok)
  note r = store_okD [OF ok assms(2)] and q = store_okD [OF ok assms(3)]
  have "rec_index r = rec_index q" using same_position [OF r(1) q(1) assms(5)] .
  with r q assms(4) good_record_validates [OF r(1)] show ?thesis by simp
qed

section \<open>Accepting records that belong to a larger state\<close>

lemma accept_good_new:
  assumes "good_record (sha256 w) r" "dget (ns_records s) (rec_id r) = None"
    "rec_index r = int (length (bucket s (rec_slot r)))"
  shows "accept_record (JObj r) (s, w) = (Inr True, (with_record r s, w))"
  using assms accept_record_cases [OF good_record_validates [OF assms(1)], of s] by simp

lemma accept_good_known:
  assumes "good_record (sha256 w) r" "dget (ns_records s) (rec_id r) = Some r"
  shows "accept_record (JObj r) (s, w) = (Inr False, (s, w))"
  using assms accept_record_cases [OF good_record_validates [OF assms(1)], of s] by simp

definition part_of :: "native_store \<Rightarrow> native_store \<Rightarrow> bool" where
  "part_of t s \<longleftrightarrow> (\<forall>k r. dget (ns_records t) k = Some r \<longrightarrow> dget (ns_records s) k = Some r)"

definition ordered_records :: "native_store \<Rightarrow> json dict list" where
  "ordered_records s = sort_key record_sort_key (map snd (ns_records s))"

lemma records_iff:
  "store_ok sha s \<Longrightarrow> r \<in> set (ordered_records s) \<longleftrightarrow> dget (ns_records s) (rec_id r) = Some r"
  by (force simp: ordered_records_def store_ok_def)

lemma next_index:
  assumes s: "store_ok sha s" and u: "store_ok sha u" and us: "part_of u s"
    and L: "ordered_records s = xs @ r # ys" and xs: "\<forall>x \<in> set xs. dget (ns_records u) (rec_id x) = Some x"
    and new: "dget (ns_records u) (rec_id r) = None"
  shows "rec_index r = int (length (bucket u (rec_slot r)))"
proof -
  define slot where "slot = rec_slot r"
  define c where "c = nat (rec_index r)"
  define n where "n = length (bucket u slot)"
  have "r \<in> set (ordered_records s)" by (simp add: L)
  then have rs: "dget (ns_records s) (rec_id r) = Some r" using records_iff [OF s] by simp
  note r = store_okD [OF s rs, folded slot_def c_def]
  have cr: "rec_index r = int c" using good_record_numbers [OF r(1)] by (simp add: c_def)
  have at: "\<exists>q. dget (ns_records v) (bucket v slot ! i) = Some q \<and> rec_slot q = slot \<and> rec_index q = int i"
    if "store_ok sha v" "i < length (bucket v slot)" for v i
    using that by (auto simp: store_ok_def bucket_ok_def)
  have "\<not> c < n"
  proof
    assume "c < n"
    then obtain q where q: "dget (ns_records u) (bucket u slot ! c) = Some q" "rec_slot q = slot" "rec_index q = int c"
      using at [OF u] by (auto simp: n_def)
    with us have "dget (ns_records s) (bucket u slot ! c) = Some q" by (simp add: part_of_def)
    from store_okD(4) [OF s this] q r(4) have "bucket u slot ! c = rec_id r" by simp
    with q new show False by simp
  qed
  moreover have "\<not> n < c"
  proof
    assume n: "n < c"
    then obtain q where q: "dget (ns_records s) (bucket s slot ! n) = Some q" "rec_slot q = slot" "rec_index q = int n"
      using at [OF s] r(3) by (meson less_trans)
    have qL: "q \<in> set (ordered_records s)"
      using records_iff [OF s] store_okD(2) [OF s q(1)] q(1) by simp
    have "record_sort_key q < record_sort_key r"
      using q n cr by (simp add: record_sort_key_def slot_def)
    moreover have "sorted (map record_sort_key (xs @ r # ys))"
      unfolding L [symmetric] ordered_records_def by (rule sorted_sort_key)
    then have "\<forall>y \<in> set (r # ys). record_sort_key r \<le> record_sort_key y"
      by (auto simp: sorted_append)
    ultimately have "q \<in> set xs" using qL L by fastforce
    with xs have "dget (ns_records u) (rec_id q) = Some q" by blast
    from store_okD(3) [OF u this] q show False by (simp add: n_def)
  qed
  ultimately show ?thesis using cr by (simp add: n_def slot_def)
qed

text \<open>Only the records and the buckets change.\<close>

definition frame :: "native_store \<Rightarrow> native_store \<Rightarrow> bool" where
  "frame t u \<longleftrightarrow> ns_dir u = ns_dir t \<and> ns_seq u = ns_seq t \<and> ns_last u = ns_last t"

lemma accept_ordered:
  assumes s: "store_ok (sha256 w) s"
  shows "store_ok (sha256 w) u \<Longrightarrow> part_of u s \<Longrightarrow> ordered_records s = xs @ ys \<Longrightarrow>
    \<forall>x \<in> set xs. dget (ns_records u) (rec_id x) = Some x \<Longrightarrow>
    \<exists>t. accept_all (map JObj ys) (u, w) = (Inr (), (t, w)) \<and> store_ok (sha256 w) t \<and> part_of t s \<and>
      (\<forall>x \<in> set (xs @ ys). dget (ns_records t) (rec_id x) = Some x) \<and> frame u t"
proof (induction ys arbitrary: u xs)
  case (Cons r ys)
  have rs: "dget (ns_records s) (rec_id r) = Some r"
    using records_iff [OF s, of r] Cons.prems(3) by simp
  have good: "good_record (sha256 w) r" using store_okD(1) [OF s rs] .
  have L: "ordered_records s = (xs @ [r]) @ ys" using Cons.prems(3) by simp
  show ?case
  proof (cases "dget (ns_records u) (rec_id r)")
    case None
    have i: "rec_index r = int (length (bucket u (rec_slot r)))"
      by (rule next_index [OF s Cons.prems(1,2,3,4) None])
    have "part_of (with_record r u) s" using Cons.prems(2) rs by (auto simp: part_of_def)
    moreover have "\<forall>x \<in> set (xs @ [r]). dget (ns_records (with_record r u)) (rec_id x) = Some x"
      using Cons.prems(4) None by auto
    ultimately obtain t where t: "accept_all (map JObj ys) (with_record r u, w) = (Inr (), (t, w))"
      "store_ok (sha256 w) t" "part_of t s" "\<forall>x \<in> set ((xs @ [r]) @ ys). dget (ns_records t) (rec_id x) = Some x"
      "frame (with_record r u) t"
      using Cons.IH [OF with_record_ok [OF Cons.prems(1) good None i] _ L] by blast
    then have "frame u t" by (simp add: frame_def)
    with t accept_good_new [OF good None i] show ?thesis by (intro exI [of _ t]) simp
  next
    case (Some q)
    with Cons.prems(2) rs have q: "dget (ns_records u) (rec_id r) = Some r" by (auto simp: part_of_def)
    then have "\<forall>x \<in> set (xs @ [r]). dget (ns_records u) (rec_id x) = Some x" using Cons.prems(4) by auto
    from Cons.IH [OF Cons.prems(1,2) L this]
    obtain t where "accept_all (map JObj ys) (u, w) = (Inr (), (t, w))"
      "store_ok (sha256 w) t" "part_of t s" "\<forall>x \<in> set ((xs @ [r]) @ ys). dget (ns_records t) (rec_id x) = Some x"
      "frame u t" by blast
    moreover have "m_bind (accept_record (JObj r)) (\<lambda>_. m) (u, w) = m (u, w)" for m :: "(native_store, unit) obj_op"
      using accept_good_known [OF good q] by (simp add: m_bind_def)
    ultimately show ?thesis by (intro exI [of _ t]) simp
  qed
qed (auto simp: frame_def)

lemma accept_missing:
  assumes "store_ok (sha256 w) s" "store_ok (sha256 w) t" "part_of t s"
  shows "\<exists>u. accept_all (map JObj (ordered_records s)) (t, w) = (Inr (), (u, w)) \<and> store_ok (sha256 w) u \<and>
    (\<forall>k. dget (ns_records u) k = dget (ns_records s) k) \<and> frame t u"
proof -
  obtain u where u: "accept_all (map JObj (ordered_records s)) (t, w) = (Inr (), (u, w))" "store_ok (sha256 w) u"
    "part_of u s" "\<forall>x \<in> set (ordered_records s). dget (ns_records u) (rec_id x) = Some x" "frame t u"
    using accept_ordered [OF assms(1) assms(2,3), of "[]" "ordered_records s"] by auto
  have "dget (ns_records u) k = dget (ns_records s) k" for k
  proof (cases "dget (ns_records s) k")
    case None
    with u(3) show ?thesis by (cases "dget (ns_records u) k") (auto simp: part_of_def)
  next
    case (Some r)
    from store_okD(2) [OF assms(1) Some] Some records_iff [OF assms(1), of r]
    have "r \<in> set (ordered_records s)" "rec_id r = k" by simp_all
    with u(4) Some show ?thesis by fastforce
  qed
  with u show ?thesis by blast
qed

section \<open>States with the same records\<close>

lemma key_inj: "store_ok sha s \<Longrightarrow> inj_on record_sort_key (set (map snd (ns_records s)))"
proof (rule inj_onI)
  fix r q
  assume ok: "store_ok sha s" and r: "r \<in> set (map snd (ns_records s))" and q: "q \<in> set (map snd (ns_records s))"
    and e: "record_sort_key r = record_sort_key q"
  from r q have "r \<in> set (ordered_records s)" "q \<in> set (ordered_records s)"
    by (simp_all add: ordered_records_def)
  then have "dget (ns_records s) (rec_id r) = Some r" "dget (ns_records s) (rec_id q) = Some q"
    using records_iff [OF ok] by simp_all
  moreover have "rec_id r = rec_id q" using e by (simp add: record_sort_key_def)
  ultimately show "r = q" by (metis option.inject)
qed

lemma records_mset:
  assumes "store_ok sha s" "store_ok sha u" "\<And>k. dget (ns_records u) k = dget (ns_records s) k"
  shows "mset (ns_records u) = mset (ns_records s)"
proof -
  have d: "distinct (dkeys (ns_records u))" "distinct (dkeys (ns_records s))"
    using assms(1,2) by (simp_all add: store_ok_def)
  moreover have "map_of (ns_records u) = map_of (ns_records s)" using assms(3) by (rule ext)
  ultimately have "set (ns_records u) = set (ns_records s)" using map_of_inject_set by blast
  moreover have "distinct (ns_records u)" "distinct (ns_records s)" using d by (simp_all add: distinct_map)
  ultimately show ?thesis using set_eq_iff_mset_eq_distinct by blast
qed

lemma ordered_same:
  assumes "store_ok sha s" "store_ok sha u" "\<And>k. dget (ns_records u) k = dget (ns_records s) k"
  shows "ordered_records u = ordered_records s" and "length (ns_records u) = length (ns_records s)"
proof -
  have m: "mset (ns_records u) = mset (ns_records s)" by (rule records_mset [OF assms])
  then show "length (ns_records u) = length (ns_records s)" by (rule mset_eq_length)
  have "mset (map snd (ns_records u)) = mset (map snd (ns_records s))" using m by simp
  then show "ordered_records u = ordered_records s"
    unfolding ordered_records_def
    by (intro sort_key_inj_key_eq key_inj [OF assms(2)]) (simp_all add: mset_sort sorted_sort_key)
qed

lemma selected_all:
  "length (ns_records s) \<le> MAX_PACKET_RECORDS \<Longrightarrow> selected_records s JNull = Inr (ordered_records s)"
  by (simp add: selected_records_def chosen_records_def ordered_records_def)

definition document :: "native_store \<Rightarrow> json dict" where
  "document s =
     [(''protocol_version'', JStr PROTOCOL_VERSION), (''schema_version'', JStr STATE_SCHEMA_VERSION),
      (''records'', JArr (map JObj (ordered_records s)))]"

lemma document_ordered:
  assumes "store_ok sha s"
  shows "state_document (ordered_records s) = Inr (document s)" and "normal (JObj (document s))"
proof -
  have n: "normal (JObj r)" if "r \<in> set (ordered_records s)" for r
    using that records_iff [OF assms] store_okD(1) [OF assms] good_record_normal by blast
  have "map_err (\<lambda>r. normalize_json ''$'' (JObj r)) (ordered_records s) = Inr (map JObj (ordered_records s))"
    by (rule map_err_all_Inr) (simp add: normal_normalize n)
  then show "state_document (ordered_records s) = Inr (document s)"
    by (simp add: state_document_def document_def)
  show "normal (JObj (document s))"
    using n by (simp add: document_def normal.simps(2))
qed

lemma export_all:
  "store_ok sha s \<Longrightarrow> length (ns_records s) \<le> MAX_PACKET_RECORDS \<Longrightarrow> export_state s JNull = Inr (document s)"
  by (simp add: export_state_def selected_all document_ordered)

end
