(* ===== verification/NativeTransfer.thy ===== *)
theory NativeTransfer
  imports NativeReplica
begin

text \<open>
  A packet built from a state passes every check of a receiver that holds part of the state, and
  leaves the receiver with the whole of it.
\<close>

section \<open>The packet\<close>

definition lookup_part :: "json dict dict \<Rightarrow> json dict" where
  "lookup_part records = map (\<lambda>(k, r). (k, JStr (rec_sha r))) records"

lemma py_str_sha: "good_record sha r \<Longrightarrow> py_str (fld r ''record_sha256'') = rec_sha r \<and>
    fld r ''record_sha256'' = JStr (rec_sha r)"
  by (auto simp: good_record_def whole_record_def record_body_def Let_def rec_sha_def)

lemma good_hex: "good_record sha r \<Longrightarrow> (\<And>x. is_hex64 (JStr (sha x))) \<Longrightarrow> is_hex64 (JStr (rec_sha r))"
  by (auto simp: good_record_def whole_record_def record_body_def Let_def rec_sha_def)

lemma good_id: "good_record sha r \<Longrightarrow> is_record_id (rec_id r)"
  by (auto simp: good_record_def rec_id_def)

lemma atom_dict: "dict_of (reference_entry lookup r) =
    [(''id'', JStr (rec_id r)), (''record_sha256'', JStr (rec_sha r)), (''delivery'', JStr (delivery lookup r))]"
  by (simp add: reference_entry_def)

lemma entries_checked:
  "\<forall>r \<in> set rs. is_record_id (rec_id r) \<and> is_hex64 (JStr (rec_sha r)) \<Longrightarrow> distinct (map rec_id rs) \<Longrightarrow>
   set seen \<inter> rec_id ` set rs = {} \<Longrightarrow> check_entries i seen (map (reference_entry lookup) rs) = Inr ()"
proof (induction rs arbitrary: i seen)
  case (Cons r rs)
  have d: "in_strings (JStr (delivery lookup r)) [''REFERENCE'', ''STATE_ATOM''] = Inr True"
    by (simp add: delivery_def)
  have k: "is_obj (reference_entry lookup r)"
    "set (dkeys (dict_of (reference_entry lookup r))) = {''id'', ''record_sha256'', ''delivery''}"
    by (auto simp: reference_entry_def is_obj_def)
  have "check_entries (Suc i) (rec_id r # seen) (map (reference_entry lookup) rs) = Inr ()"
    using Cons by auto
  with Cons.prems d k show ?case by (simp add: Let_def atom_dict require_id_def)
qed simp

lemma atoms_collected:
  "\<forall>r \<in> set rs. good_record sha r \<Longrightarrow> distinct (map rec_id rs) \<Longrightarrow> set (dkeys acc) \<inter> rec_id ` set rs = {} \<Longrightarrow>
   packet_atoms sha acc (map JObj rs) = Inr (acc @ map (\<lambda>r. (rec_id r, r)) rs)"
proof (induction rs arbitrary: acc)
  case (Cons r rs)
  have f: "rec_id r \<notin> set (dkeys acc)" using Cons.prems(3) by auto
  have "set (dkeys (acc @ [(rec_id r, r)])) \<inter> rec_id ` set rs = {}" using Cons.prems(2,3) by auto
  with Cons have "packet_atoms sha (acc @ [(rec_id r, r)]) (map JObj rs) =
      Inr ((acc @ [(rec_id r, r)]) @ map (\<lambda>r. (rec_id r, r)) rs)" by auto
  with f Cons.prems(1) show ?case
    by (simp add: good_record_validates dset_fresh [OF f] dhas_def dget_None_keys)
qed simp

lemma atoms_lookup:
  "distinct (map rec_id rs) \<Longrightarrow> r \<in> set rs \<Longrightarrow> dget (map (\<lambda>r. (rec_id r, r)) rs) (rec_id r) = Some r"
  by (rule map_of_is_SomeI) (auto simp: o_def)

lemma lookup_part_dget: "dget (lookup_part d) k = map_option (\<lambda>r. JStr (rec_sha r)) (dget d k)"
  unfolding lookup_part_def by (induction d) auto

lemma reference_held:
  assumes "delivery (lookup_part (ns_records t)) r \<noteq> ''STATE_ATOM''" "part_of t s"
    "dget (ns_records s) (rec_id r) = Some r"
  shows "dget (ns_records t) (rec_id r) = Some r"
proof -
  from assms(1) obtain q where q: "dget (ns_records t) (rec_id r) = Some q"
    by (cases "dget (ns_records t) (rec_id r)")
      (auto simp: delivery_def get_or_none_def lookup_part_dget split: if_splits)
  with assms(2,3) have "q = r" by (auto simp: part_of_def)
  with q show ?thesis by simp
qed

text \<open>The packet with the digests written out.\<close>

definition packet_parts ::
  "(string \<Rightarrow> string) \<Rightarrow> native_store \<Rightarrow> json dict \<Rightarrow> json \<times> json \<times> json \<times> string \<times> string" where
  "packet_parts sha s lookup =
     (let L = ordered_records s; state_text = dumps_canonical (JObj (document s));
          ids_sha = sha (dumps_canonical (str_list (sort (map rec_id L)))) in
      (reference_lookup_json (map (reference_entry lookup) L),
       delta_json (filter (\<lambda>r. delivery lookup r = ''STATE_ATOM'') L),
       conditions_json (sha state_text) ids_sha, state_text, ids_sha))"

definition sealed_packet :: "(string \<Rightarrow> string) \<Rightarrow> native_store \<Rightarrow> json dict \<Rightarrow> json dict" where
  "sealed_packet sha s lookup =
     (let (refs, delta, conditions, state_text, ids_sha) = packet_parts sha s lookup;
          digest = (\<lambda>v. sha (dumps_canonical v));
          root = digest (root_basis (JStr (sha state_text)) (JStr ids_sha) (JStr (digest refs))
                           (JStr (digest delta)) (digest conditions)) in
      packet_body
        (context_8d (sha state_text) (length (ordered_records s)) (slice_counts s (ordered_records s))
           (digest refs) (digest delta) conditions root)
        (length (ordered_records s)) (length state_text) (sha state_text) ids_sha refs delta conditions
        (digest refs) (digest delta) root)"

definition packet_of :: "(string \<Rightarrow> string) \<Rightarrow> native_store \<Rightarrow> json dict \<Rightarrow> json dict" where
  "packet_of sha s lookup =
     sealed_packet sha s lookup @
     [(''packet_sha256'', JStr (sha (dumps_canonical (JObj (sealed_packet sha s lookup)))))]"

lemma normal_parts:
  assumes "\<forall>r \<in> set rs. normal (JObj r)"
  shows "normal (reference_lookup_json (map (reference_entry lookup) rs))"
    and "normal (delta_json (filter P rs))" and "normal (conditions_json a b)"
    and "normal (slice_counts s rs)" and "normal (str_list xs)"
    and "normal (root_basis (JStr a) (JStr b) (JStr c) (JStr d) e)"
    and "normal c8 \<Longrightarrow> normal sl \<Longrightarrow> normal (context_8d a n sl b c c8 root)"
  using assms by (auto simp: reference_lookup_json_def reference_entry_def delta_json_def conditions_json_def
      slice_counts_def root_basis_def context_8d_def normal.simps(2))

lemma normal_packet_body:
  "normal c8 \<Longrightarrow> normal refs \<Longrightarrow> normal delta \<Longrightarrow> normal conds \<Longrightarrow>
   normal (JObj (packet_body c8 n m a b refs delta conds c d e))"
  by (simp add: packet_body_def normal.simps(2))

lemma ordered_good: "store_ok sha s \<Longrightarrow> \<forall>r \<in> set (ordered_records s). good_record sha r"
  using records_iff store_okD(1) by blast

lemma ordered_ids: "store_ok sha s \<Longrightarrow> distinct (map rec_id (ordered_records s))"
proof -
  assume ok: "store_ok sha s"
  have "map rec_id (map snd (ns_records s)) = dkeys (ns_records s)"
    using ok by (auto simp: store_ok_def)
  moreover have "distinct (dkeys (ns_records s))" using ok by (simp add: store_ok_def)
  ultimately have "distinct (map rec_id (map snd (ns_records s)))" by (simp only:)
  moreover have "mset (map rec_id (ordered_records s)) = mset (map rec_id (map snd (ns_records s)))"
    by (simp add: ordered_records_def multiset.map_comp)
  ultimately show ?thesis by (metis mset_eq_imp_distinct_iff)
qed

lemma packet_built:
  assumes ok: "store_ok sha s"
  shows "build_packet sha s (ordered_records s) lookup = Inr (packet_of sha s lookup)"
    and "normal (JObj (sealed_packet sha s lookup))"
proof -
  have n: "\<forall>r \<in> set (ordered_records s). normal (JObj r)"
    using ordered_good [OF ok] good_record_normal by blast
  note np = normal_parts [OF n] normal_packet_body
  note doc = document_ordered [OF ok]
  show "build_packet sha s (ordered_records s) lookup = Inr (packet_of sha s lookup)"
    by (simp add: build_packet_def doc canonical_normal sha_normal np packet_of_def sealed_packet_def
        packet_parts_def Let_def)
  show "normal (JObj (sealed_packet sha s lookup))"
    by (simp add: sealed_packet_def packet_parts_def Let_def np)
qed

section \<open>The checks of the receiver\<close>

lemma sealed_fields:
  "packet_parts sha s lookup = (refs, delta, conditions, t, ids) \<Longrightarrow>
   fld (packet_of sha s lookup) ''reference_lookup'' = refs \<and>
   fld (packet_of sha s lookup) ''delta'' = delta \<and>
   fld (packet_of sha s lookup) ''reconstruction_conditions'' = conditions \<and>
   fld (packet_of sha s lookup) ''source'' = JObj
        [(''state_schema_version'', JStr STATE_SCHEMA_VERSION),
         (''record_count'', JInt (int (length (ordered_records s)))),
         (''source_bytes'', JInt (int (length t))), (''state_sha256'', JStr (sha t)), (''id_set_sha256'', JStr ids)] \<and>
   fld (packet_of sha s lookup) ''risk_assessment'' = JObj [(''hard_risk'', JBool False), (''redlines'', JArr [])] \<and>
   (\<exists>root. root = sha (dumps_canonical (root_basis (JStr (sha t)) (JStr ids) (JStr (sha (dumps_canonical refs)))
              (JStr (sha (dumps_canonical delta))) (sha (dumps_canonical conditions)))) \<and>
      fld (packet_of sha s lookup) ''verification'' = JObj
        [(''source_state_sha256'', JStr (sha t)), (''source_id_set_sha256'', JStr ids),
         (''reference_lookup_sha256'', JStr (sha (dumps_canonical refs))),
         (''delta_sha256'', JStr (sha (dumps_canonical delta))), (''verification_root'', JStr root)])"
  by (simp add: packet_of_def sealed_packet_def packet_body_def Let_def)

lemma packet_keys: "set (dkeys (packet_of sha s lookup)) = set PACKET_FIELDS"
  by (cases "packet_parts sha s lookup")
    (auto simp: packet_of_def sealed_packet_def packet_body_def Let_def PACKET_FIELDS_def)

lemma packet_basis: "dpop ''packet_sha256'' (packet_of sha s lookup) = sealed_packet sha s lookup"
  by (cases "packet_parts sha s lookup")
    (auto simp: packet_of_def sealed_packet_def packet_body_def Let_def)

lemma normal_snoc: "normal (JObj d) \<Longrightarrow> k \<notin> set (dkeys d) \<Longrightarrow> normal_key k \<Longrightarrow> normal v \<Longrightarrow> normal (JObj (d @ [(k, v)]))"
  by (auto simp: normal.simps(2))

lemma packet_normal: "store_ok sha s \<Longrightarrow> normal (JObj (packet_of sha s lookup))"
  unfolding packet_of_def
  by (intro normal_snoc packet_built(2)) (auto simp: sealed_packet_def packet_body_def Let_def split: prod.split)

lemma packet_versions: "check_versions (packet_of sha s lookup) = Inr ()"
  by (cases "packet_parts sha s lookup")
    (auto simp: check_versions_def packet_of_def sealed_packet_def packet_body_def Let_def context_8d_def
      D_FIELDS_def is_obj_def)

lemma packet_validates:
  assumes ok: "store_ok sha s" and hex: "\<And>x. is_hex64 (JStr (sha x))" and ne: "ns_records s \<noteq> []"
  shows "validate_packet sha (JObj (packet_of sha s lookup)) = Inr (packet_of sha s lookup)"
proof -
  let ?L = "ordered_records s"
  obtain refs delta conditions t ids where parts: "packet_parts sha s lookup = (refs, delta, conditions, t, ids)"
    by (metis prod_cases5)
  note f = sealed_fields [OF parts]
  have refs: "refs = reference_lookup_json (map (reference_entry lookup) ?L)"
    and delta: "delta = delta_json (filter (\<lambda>r. delivery lookup r = ''STATE_ATOM'') ?L)"
    and conditions: "conditions = conditions_json (sha t) ids"
    using parts by (auto simp: packet_parts_def Let_def)
  have n: "\<forall>r \<in> set ?L. normal (JObj r)" using ordered_good [OF ok] good_record_normal by blast
  note np = normal_parts [OF n]
  have nonempty: "?L \<noteq> []"
    using ne by (metis length_0_conv length_map length_sort ordered_records_def)
  have "check_entries 0 [] (map (reference_entry lookup) ?L) = Inr ()"
    using ordered_good [OF ok] good_hex hex good_id ordered_ids [OF ok] by (intro entries_checked) auto
  then have src: "check_source (packet_of sha s lookup) = Inr ()"
    using f nonempty by (simp add: check_source_def refs reference_lookup_json_def is_obj_def is_arr_def)
  have dl: "check_delta (packet_of sha s lookup) = Inr ()"
    using f by (simp add: check_delta_def delta delta_json_def is_obj_def is_arr_def)
  have ex: "sha x \<noteq> []" for x using hex [of x] by (auto simp: is_hex64_def)
  have roots: "check_roots sha (packet_of sha s lookup) = Inr ()"
    using f np ex by (auto simp: check_roots_def refs delta conditions sha_normal is_obj_def)
      (simp_all add: conditions_json_def)
  have h: "fld (packet_of sha s lookup) ''packet_sha256'' =
      JStr (sha (dumps_canonical (JObj (sealed_packet sha s lookup))))"
    by (cases "packet_parts sha s lookup") (simp add: packet_of_def sealed_packet_def packet_body_def Let_def)
  show ?thesis
    using packet_keys [of sha s lookup] packet_normal [OF ok, of lookup] packet_built(2) [OF ok, of lookup] f h
    by (simp add: validate_packet_def is_obj_def normal_normalize packet_versions hash_basis_def packet_basis
        sha_normal src dl roots)
qed

section \<open>Reconstruction at the receiver\<close>

lemma packet_entries:
  "arr_of (fld (dict_of (fld (packet_of sha s lookup) ''reference_lookup'')) ''entries'') =
     map (reference_entry lookup) (ordered_records s)"
  "arr_of (fld (dict_of (fld (packet_of sha s lookup) ''delta'')) ''state_atoms'') =
     map JObj (filter (\<lambda>r. delivery lookup r = ''STATE_ATOM'') (ordered_records s))"
proof -
  obtain refs delta conditions t ids where parts: "packet_parts sha s lookup = (refs, delta, conditions, t, ids)"
    by (metis prod_cases5)
  then have "refs = reference_lookup_json (map (reference_entry lookup) (ordered_records s))"
    "delta = delta_json (filter (\<lambda>r. delivery lookup r = ''STATE_ATOM'') (ordered_records s))"
    by (auto simp: packet_parts_def Let_def)
  moreover have "fld (packet_of sha s lookup) ''reference_lookup'' = refs" "fld (packet_of sha s lookup) ''delta'' = delta"
    using sealed_fields [OF parts] by blast+
  ultimately show "arr_of (fld (dict_of (fld (packet_of sha s lookup) ''reference_lookup'')) ''entries'') =
     map (reference_entry lookup) (ordered_records s)"
  "arr_of (fld (dict_of (fld (packet_of sha s lookup) ''delta'')) ''state_atoms'') =
     map JObj (filter (\<lambda>r. delivery lookup r = ''STATE_ATOM'') (ordered_records s))"
    by (simp_all only:) (simp_all add: reference_lookup_json_def delta_json_def)
qed

lemma map_err_map: "map_err f (map g xs) = map_err (\<lambda>x. f (g x)) xs"
  by (induction xs) (simp_all split: sum.splits)

lemma entry_fields:
  "fld (dict_of (reference_entry lookup r)) ''id'' = JStr (rec_id r)"
  "fld (dict_of (reference_entry lookup r)) ''record_sha256'' = JStr (rec_sha r)"
  "fld (dict_of (reference_entry lookup r)) ''delivery'' = JStr (delivery lookup r)"
  by (simp_all add: atom_dict)

lemma used_atoms_entries:
  "used_atoms (map dict_of (map (reference_entry lookup) rs)) =
   rec_id ` set (filter (\<lambda>r. delivery lookup r = ''STATE_ATOM'') rs)"
proof (induction rs)
  case (Cons r rs)
  have "used_atoms (e # es) = (if fld e ''delivery'' \<noteq> JStr ''REFERENCE'' then {str_of (fld e ''id'')} else {}) \<union>
      used_atoms es" for e es by (simp add: used_atoms_def)
  with Cons show ?case by (simp add: entry_fields delivery_def)
qed (simp add: used_atoms_def)

lemma packet_resolves:
  assumes ok: "store_ok sha s" and part: "part_of t s"
  shows "resolve_packet sha (ns_records t) (packet_of sha s (lookup_part (ns_records t))) = Inr (ordered_records s)"
proof -
  let ?L = "ordered_records s"
  let ?look = "lookup_part (ns_records t)"
  let ?A = "filter (\<lambda>r. delivery ?look r = ''STATE_ATOM'') ?L"
  let ?atoms = "map (\<lambda>r. (rec_id r, r)) ?A"
  have dA: "distinct (map rec_id ?A)" using ordered_ids [OF ok] by (rule distinct_map_filter)
  have atoms: "packet_atoms sha [] (map JObj ?A) = Inr ?atoms"
    using atoms_collected [of ?A sha "[]"] ordered_good [OF ok] dA by simp
  have res: "resolve_entry (ns_records t) ?atoms (dict_of (reference_entry ?look r)) = Inr r" if r: "r \<in> set ?L" for r
  proof (cases "delivery ?look r = ''STATE_ATOM''")
    case True
    then have "dget ?atoms (rec_id r) = Some r" using r dA by (intro atoms_lookup) auto
    with True show ?thesis by (simp add: resolve_entry_def entry_fields Let_def)
  next
    case False
    then have "delivery ?look r = ''REFERENCE''" by (simp add: delivery_def split: if_splits)
    moreover have "dget (ns_records t) (rec_id r) = Some r"
      using reference_held [OF False part] records_iff [OF ok, of r] r by simp
    ultimately show ?thesis by (simp add: resolve_entry_def entry_fields Let_def)
  qed
  have m: "map_err (resolve_entry (ns_records t) ?atoms) (map dict_of (map (reference_entry ?look) ?L)) = Inr ?L"
    unfolding map_err_map by (subst map_err_all_Inr [where g = "\<lambda>r. r"]) (simp_all only: res list.map_ident)
  have "used_atoms (map dict_of (map (reference_entry ?look) ?L)) = set (dkeys ?atoms)"
    unfolding used_atoms_entries by (simp add: image_image)
  moreover have "sort_key record_sort_key ?L = ?L" by (simp add: ordered_records_def)
  ultimately show ?thesis
    by (simp only: resolve_packet_def Let_def packet_entries atoms m e_bind_simps adi_check_True simp_thms)
qed

lemma log_event_ok:
  assumes "normal (JObj payload)"
  shows "\<exists>q l w'. log_event k payload (s, w) = (Inr (), (s\<lparr>ns_seq := q, ns_last := l\<rparr>, w')) \<and> sha256 w' = sha256 w"
proof (cases "ns_dir s")
  case None
  then show ?thesis
    by (intro exI [of _ "ns_seq s"] exI [of _ "ns_last s"] exI [of _ w]) (simp add: log_event_def)
next
  case (Some dir)
  have "normal (JObj (native_event q now k l (JObj payload)))" for q now l
    using assms by (cases l) (auto simp: native_event_def normal.simps(2) last_json_def)
  moreover from this have "normal (JObj (native_event q now k l (JObj payload) @ [(''event_sha256'', JStr h)]))" for q now l h
    by (rule normal_snoc) (simp_all add: native_event_def)
  ultimately show ?thesis
    using Some assms
    by (simp add: log_event_def Let_def normal_normalize sha_normal canonical_normal m_then_def)
      (intro exI, rule refl)
qed

lemma store_seq [simp]:
  "store_ok sha (s\<lparr>ns_seq := q, ns_last := l\<rparr>) = store_ok sha s"
  "part_of (s\<lparr>ns_seq := q, ns_last := l\<rparr>) u = part_of s u"
  by (rule store_ok_cong) (simp_all add: bucket_def part_of_def)

lemma persist_ok:
  assumes "store_ok (sha256 w) s" and "length (ns_records s) \<le> MAX_PACKET_RECORDS"
  shows "\<exists>w'. persist_snapshot (s, w) = (Inr (), (s, w')) \<and> sha256 w' = sha256 w"
proof (cases "ns_dir s")
  case None
  then show ?thesis by (simp add: persist_snapshot_def)
next
  case (Some dir)
  note doc = export_all [OF assms] document_ordered(2) [OF assms(1)]
  have "normal (JObj (snapshot_body s (document s)))"
    using doc(2) by (cases "ns_last s") (auto simp: snapshot_body_def normal.simps(2) [of "_ # _"] last_json_def normal.simps(2) [of "[]"])
  then have "normal (JObj (snapshot_body s (document s) @ [(''state_sha256'', JStr h)]))" for h
    by (rule normal_snoc) (simp_all add: snapshot_body_def)
  with doc Some show ?thesis by (simp add: persist_snapshot_def sha_normal canonical_normal)
qed

lemma allow_ok: "store_ok sha s \<Longrightarrow> \<exists>p. allow_packet sha (packet_of sha s lookup) = Inr p"
proof -
  assume ok: "store_ok sha s"
  let ?P = "packet_of sha s lookup"
  let ?a = "dset ''total_field_decision'' (JStr ''ALLOW'') ?P"
  have nP: "normal (JObj ?P)" by (rule packet_normal [OF ok])
  have set_normal: "normal (JObj (dset k v d))" if "normal (JObj d)" "normal_key k" "normal v" for k v d
    using that set_dset_subset [of k v d] by (fastforce simp: normal.simps(2))
  have fld_normal: "normal (fld d k)" if "normal (JObj d)" for d k
    using that by (cases "dget d k") (auto simp: normal.simps(2) get_or_none_def dest: map_of_SomeD)
  have pop_normal: "normal (JObj (dpop k d))" if "normal (JObj d)" for k d
    using that set_dpop_subset [of k d] by (fastforce simp: normal.simps(2))
  obtain c8 d8 where c: "fld ?P ''dynamic_context_8d'' = JObj c8" "fld c8 ''D8'' = JObj d8"
    by (cases "packet_parts sha s lookup")
      (auto simp: packet_of_def sealed_packet_def packet_body_def Let_def context_8d_def)
  then have n: "normal (JObj c8)" "normal (JObj d8)" using fld_normal nP by metis+
  let ?b = "dset ''dynamic_context_8d'' (JObj (dset ''D8'' (JObj (dset ''decision'' (JStr ''ALLOW'') d8)) c8)) ?a"
  have "normal (JObj ?b)" using nP n by (intro set_normal) simp_all
  from pop_normal [OF this, of "''packet_sha256''"] c nP show ?thesis
    by (simp add: allow_packet_def normal_normalize Let_def hash_basis_def sha_normal)
qed

lemma packet_checks:
  assumes "packet_parts sha s lookup = (refs, delta, conditions, t, ids)" and "ns_records s \<noteq> []"
    and hex: "\<And>x. is_hex64 (JStr (sha x))"
  shows "\<exists>checks. reconstruction_checks sha (packet_of sha s lookup) t ids = Inr checks \<and> list_all snd checks"
proof -
  have ex: "sha x \<noteq> []" for x using hex [of x] by (auto simp: is_hex64_def)
  have ne: "ordered_records s \<noteq> []"
    using assms(2) by (metis length_0_conv length_map length_sort ordered_records_def)
  have "conditions = conditions_json (sha t) ids" using assms(1) by (auto simp: packet_parts_def Let_def)
  with sealed_fields [OF assms(1)] ne ex show ?thesis
    by (auto simp: reconstruction_checks_def item_def packet_entries conditions_json_def)
qed

section \<open>A replica catches up\<close>

definition same_records :: "native_store \<Rightarrow> native_store \<Rightarrow> bool" where
  "same_records u s \<longleftrightarrow> (\<forall>k. dget (ns_records u) k = dget (ns_records s) k)"

lemma reconstruct_packet:
  assumes s: "store_ok sha s" and t: "store_ok sha t" and part: "part_of t s" and ne: "ns_records s \<noteq> []"
    and len: "length (ns_records s) \<le> MAX_PACKET_RECORDS" and hex: "\<And>x. is_hex64 (JStr (sha x))"
    and v: "sha256 v = sha"
  shows "\<exists>R u v'. reconstruct_body (JObj (packet_of sha s (lookup_part (ns_records t)))) (t, v) = (Inr R, (u, v')) \<and>
    same_records u s \<and> store_ok sha u"
proof -
  let ?P = "packet_of sha s (lookup_part (ns_records t))"
  let ?L = "ordered_records s"
  let ?new = "filter (\<lambda>r. \<not> dhas (ns_records t) (rec_id r)) ?L"
  obtain refs delta conditions tx ids where parts:
    "packet_parts sha s (lookup_part (ns_records t)) = (refs, delta, conditions, tx, ids)"
    by (metis prod_cases5)
  then have tx: "tx = dumps_canonical (JObj (document s))" and ids: "ids = sha (dumps_canonical (str_list (sort (map rec_id ?L))))"
    by (auto simp: packet_parts_def Let_def)
  obtain checks where checks: "reconstruction_checks sha ?P tx ids = Inr checks" "list_all snd checks"
    using packet_checks [OF parts ne hex] by blast
  obtain allowed where al: "allow_packet sha ?P = Inr allowed" using allow_ok [OF s] by blast
  have n: "normal (JObj r)" if "r \<in> set ?L" for r using that ordered_good [OF s] good_record_normal by blast
  have h: "fld ?P ''packet_sha256'' = JStr x" if "x = sha (dumps_canonical (JObj (sealed_packet sha s (lookup_part (ns_records t)))))" for x
    using parts that by (simp add: packet_of_def sealed_packet_def packet_body_def Let_def)
  have "\<exists>q l v1. log_reconstruction ?P ?new (t, v) = (Inr (), (t\<lparr>ns_seq := q, ns_last := l\<rparr>, v1)) \<and> sha256 v1 = sha256 v"
  proof (cases "?new = []")
    case True
    then show ?thesis
      unfolding log_reconstruction_def by (intro exI [of _ "ns_seq t"] exI [of _ "ns_last t"] exI [of _ v]) simp
  next
    case False
    have "normal (JObj [(''source_packet_sha256'', fld ?P ''packet_sha256''), (''records'', JArr (map JObj ?new))])"
      using n h [OF refl] by (auto simp: normal.simps(2))
    from log_event_ok [OF this] False show ?thesis unfolding log_reconstruction_def by simp
  qed
  then obtain q l v1 where lg: "log_reconstruction ?P ?new (t, v) = (Inr (), (t\<lparr>ns_seq := q, ns_last := l\<rparr>, v1))"
    and v1: "sha256 v1 = sha" using v by auto
  obtain u where u: "accept_all (map JObj ?L) (t\<lparr>ns_seq := q, ns_last := l\<rparr>, v1) = (Inr (), (u, v1))"
    "store_ok sha u" "\<forall>k. dget (ns_records u) k = dget (ns_records s) k"
    using accept_missing [of v1 s "t\<lparr>ns_seq := q, ns_last := l\<rparr>"] s t part v1 by auto
  have "length (ns_records u) = length (ns_records s)" using ordered_same(2) [OF s u(2)] u(3) by simp
  then obtain v2 where ps: "persist_snapshot (u, v1) = (Inr (), (u, v2))"
    using persist_ok [of v1 u] u(2) v1 len by auto
  have "reconstruct_body (JObj ?P) (t, v) =
      (Inr (reconstruct_result ?P ?L (document s) tx (sha tx) checks allowed), (u, v2))"
    by (simp add: reconstruct_body_def v packet_validates [OF s hex ne] packet_resolves [OF s part] Let_def
        document_ordered [OF s] canonical_normal sha_normal normal_parts(5) checks tx [symmetric] ids [symmetric]
        lg u(1) ps al m_then_def)
  with u show ?thesis by (auto simp: same_records_def)
qed

lemma counted_Inr: "m (bump_store k s, w) = (Inr a, sw') \<Longrightarrow> counted k m (s, w) = (Inr a, sw')"
  by (simp add: counted_def bump_def m_then_def)

lemma bump_simps [simp]:
  "ns_records (bump_store k s) = ns_records s" "bucket (bump_store k s) slot = bucket s slot"
  "ns_dir (bump_store k s) = ns_dir s" "ordered_records (bump_store k s) = ordered_records s"
  "store_ok sha (bump_store k s) = store_ok sha s"
  by (simp_all add: bump_store_def ordered_records_def)
    (rule store_ok_cong, simp_all)

lemma hashes_part:
  assumes "store_ok sha t"
  shows "map_vals JStr (record_hashes t) = lookup_part (ns_records t)"
proof -
  have "py_str (fld r ''record_sha256'') = rec_sha r" if "(k, r) \<in> set (ns_records t)" for k r
  proof -
    have "dget (ns_records t) k = Some r" using that assms by (simp add: store_ok_def)
    from store_okD(1) [OF assms this] py_str_sha show ?thesis by blast
  qed
  then show ?thesis by (auto simp: map_vals_def record_hashes_def lookup_part_def)
qed

lemma packet_op_all:
  assumes s: "store_ok (sha256 w) s" and len: "length (ns_records s) \<le> MAX_PACKET_RECORDS"
  shows "packet_op JNull (JObj d) (s, w) =
    (Inr (packet_of (sha256 w) (bump_store ''packet_requests'' s) d), (bump_store ''packet_requests'' s, w))"
proof -
  let ?b = "bump_store ''packet_requests'' s"
  have "lookup_dict (JObj d) = Inr d" by (simp add: lookup_dict_def)
  with packet_built(1) [of "sha256 w" ?b d] s len show ?thesis
    unfolding packet_op_def by (intro counted_Inr) (simp add: selected_all)
qed

text \<open>
  C6: a replica that holds part of the records of a sender sends its record hashes and applies the
  packet the sender builds from them.  The packet passes all of the replica's checks, the
  reconstruction succeeds, and afterwards the replica holds exactly the sender's records and
  exports the same state, although the packet carries only the records that the replica lacked.
\<close>

theorem replica_catches_up:
  assumes "native_run sha s" and "native_run sha t" and "part_of t s" and "ns_records s \<noteq> []"
    and "length (ns_records s) \<le> MAX_PACKET_RECORDS" and "\<forall>x. is_hex64 (JStr (sha x))"
    and "sha256 w = sha" and "sha256 v = sha"
  shows "\<exists>P s' R u v'.
    packet_op JNull (JObj (map_vals JStr (record_hashes t))) (s, w) = (Inr P, (s', w)) \<and>
    map dict_of (arr_of (fld (dict_of (fld P ''delta'')) ''state_atoms'')) =
      filter (\<lambda>r. \<not> dhas (ns_records t) (rec_id r)) (ordered_records s) \<and>
    reconstruct_op (JObj P) (t, v) = (Inr R, (u, v')) \<and>
    same_records u s \<and> export_state u JNull = export_state s JNull"
proof -
  have s: "store_ok sha s" and t: "store_ok sha t" using assms(1,2) run_ok by blast+
  let ?b = "bump_store ''packet_requests'' s" and ?c = "bump_store ''reconstruct_requests'' t"
  let ?P = "packet_of sha ?b (lookup_part (ns_records t))"
  have p: "packet_op JNull (JObj (map_vals JStr (record_hashes t))) (s, w) = (Inr ?P, (?b, w))"
    using packet_op_all [of w s] s assms(5,7) hashes_part [OF t] by simp
  obtain R u v' where r: "reconstruct_body (JObj ?P) (?c, v) = (Inr R, (u, v'))" "same_records u ?b" "store_ok sha u"
    using reconstruct_packet [of sha ?b ?c v] s t assms by (auto simp: part_of_def)
  then have op: "reconstruct_op (JObj ?P) (t, v) = (Inr R, (u, v'))"
    unfolding reconstruct_op_def by (intro counted_Inr) simp
  have same: "\<And>k. dget (ns_records u) k = dget (ns_records s) k" using r(2) by (simp add: same_records_def)
  have "export_state u JNull = export_state s JNull"
    using export_all [OF s assms(5)] export_all [OF r(3)] ordered_same [OF s r(3) same] assms(5)
    by (simp add: document_def)
  moreover have "map dict_of (arr_of (fld (dict_of (fld ?P ''delta'')) ''state_atoms'')) =
      filter (\<lambda>r. delivery (lookup_part (ns_records t)) r = ''STATE_ATOM'') (ordered_records s)"
    by (simp add: packet_entries o_def)
  moreover have "filter (\<lambda>r. delivery (lookup_part (ns_records t)) r = ''STATE_ATOM'') (ordered_records s) =
      filter (\<lambda>r. \<not> dhas (ns_records t) (rec_id r)) (ordered_records s)"
  proof (rule filter_cong [OF refl])
    fix r assume "r \<in> set (ordered_records s)"
    then have rs: "dget (ns_records s) (rec_id r) = Some r" using records_iff [OF s] by simp
    show "(delivery (lookup_part (ns_records t)) r = ''STATE_ATOM'') = (\<not> dhas (ns_records t) (rec_id r))"
    proof (cases "dget (ns_records t) (rec_id r)")
      case None
      then show ?thesis by (simp add: delivery_def get_or_none_def lookup_part_dget dhas_def)
    next
      case (Some q)
      with assms(3) rs have "q = r" by (auto simp: part_of_def)
      with Some show ?thesis by (simp add: delivery_def get_or_none_def lookup_part_dget dhas_def)
    qed
  qed
  ultimately show ?thesis using p op r(2) by (auto simp: same_records_def)
qed

section \<open>A concrete run\<close>

lemma good_whole:
  "is_record_id i \<Longrightarrow> 0 \<le> n \<Longrightarrow> n \<le> MAX_TIME_SLOT \<Longrightarrow> 0 \<le> c \<Longrightarrow> normal (JObj p) \<Longrightarrow>
   length (dumps_canonical (JObj p)) \<le> MAX_PAYLOAD_BYTES \<Longrightarrow> good_record sha (whole_record sha i n c p)"
  unfolding good_record_def by blast

lemma insert_new:
  assumes s: "store_ok (sha256 w) s" and new: "dget (ns_records s) i = None"
    and ok: "is_record_id i" "0 \<le> n" "n \<le> MAX_TIME_SLOT" "normal (JObj p)"
      "length (dumps_canonical (JObj p)) \<le> MAX_PAYLOAD_BYTES"
    and len: "length (ns_records s) < MAX_PACKET_RECORDS"
  shows "\<exists>q l w'. insert_body (JStr i) (JInt n) (JObj p) (s, w) =
      (Inr (whole_record (sha256 w) i n (int (length (bucket s n))) p),
       (with_record (whole_record (sha256 w) i n (int (length (bucket s n))) p) (s\<lparr>ns_seq := q, ns_last := l\<rparr>), w'))
      \<and> sha256 w' = sha256 w"
proof -
  let ?r = "whole_record (sha256 w) i n (int (length (bucket s n))) p"
  have good: "good_record (sha256 w) ?r"
    using ok by (intro good_whole) simp_all
  have b: "build_record (sha256 w) (JStr i) (JInt n) (JObj p) (int (length (bucket s n))) = Inr ?r"
    using ok by (intro build_record_whole) simp_all
  have f: "rec_id ?r = i" "rec_slot ?r = n" "rec_index ?r = int (length (bucket s n))"
    by (simp_all add: rec_id_def rec_slot_def rec_index_def)
  have "normal (JObj [(''record'', JObj ?r)])" using good_record_normal [OF good] by (simp add: normal.simps(2))
  from log_event_ok [OF this] obtain q l w1 where
    l: "log_event ''INSERT'' [(''record'', JObj ?r)] (s, w) = (Inr (), (s\<lparr>ns_seq := q, ns_last := l\<rparr>, w1))"
    and w1: "sha256 w1 = sha256 w" by blast
  let ?t = "s\<lparr>ns_seq := q, ns_last := l\<rparr>"
  have bt: "bucket ?t n = bucket s n" by (simp add: bucket_def)
  have a: "accept_record (JObj ?r) (?t, w1) = (Inr True, (with_record ?r ?t, w1))"
    using good new f w1 bt by (intro accept_good_new) simp_all
  have "store_ok (sha256 w) (with_record ?r ?t)"
    using good new f s bt by (intro with_record_ok) simp_all
  moreover have "length (ns_records (with_record ?r ?t)) \<le> MAX_PACKET_RECORDS"
    using new f len by (simp add: dset_fresh dget_None_keys)
  ultimately obtain w2 where "persist_snapshot (with_record ?r ?t, w1) = (Inr (), (with_record ?r ?t, w2))"
    "sha256 w2 = sha256 w" using persist_ok [of w1 "with_record ?r ?t", unfolded w1] by blast
  then show ?thesis
    using l a new ok w1
    by (intro exI [of _ q] exI [of _ l] exI [of _ w2])
      (simp add: insert_body_def require_id_def require_time_slot_def b m_then_def m_bind_def)
qed

definition demo_digest :: "string \<Rightarrow> string" where
  "demo_digest t = replicate 64 (CHR ''0'')"

definition demo_native_world :: world where
  "demo_native_world =
     \<lparr>files = Map.empty, clock = (\<lambda>_. []), ticks = 0, sha256 = demo_digest, scope_depth = 0, lock_held = False\<rparr>"

lemma demo_run:
  "\<exists>s c. native_run demo_digest s \<and> ns_records s = [(''a'', whole_record demo_digest ''a'' 5 c [])]"
proof -
  let ?e = "empty_store None" and ?w = demo_native_world
  have e: "native_run demo_digest ?e"
    by (rule native_run.opened [of None ?w ?e ?w]) (simp_all add: open_native_def demo_native_world_def)
  have lit: "is_record_id ''a''" "0 \<le> (5 :: int)" "5 \<le> MAX_TIME_SLOT" "normal (JObj [])"
    "length (dumps_canonical (JObj [])) \<le> MAX_PAYLOAD_BYTES"
    by (simp_all add: is_record_id_def is_id_char_def is_digit_def MAX_TIME_SLOT_def normal.simps(2)
        dumps_canonical_def fmt_compact_def MAX_PAYLOAD_BYTES_def)
  let ?b = "bump_store ''insert_requests'' ?e"
  have "ns_records ?e = []" by (simp add: empty_store_def)
  then obtain q l w' where i: "insert_body (JStr ''a'') (JInt 5) (JObj []) (?b, ?w) =
      (Inr (whole_record (sha256 ?w) ''a'' 5 (int (length (bucket ?b 5))) []),
       (with_record (whole_record (sha256 ?w) ''a'' 5 (int (length (bucket ?b 5))) []) (?b\<lparr>ns_seq := q, ns_last := l\<rparr>), w'))"
    using insert_new [of ?w ?b "''a''" 5 "[]"] lit empty_store_ok by (auto simp: MAX_PACKET_RECORDS_def)
  let ?s = "with_record (whole_record (sha256 ?w) ''a'' 5 (int (length (bucket ?b 5))) []) (?b\<lparr>ns_seq := q, ns_last := l\<rparr>)"
  have "insert_op (JStr ''a'') (JInt 5) (JObj []) (?e, ?w) =
      (Inr (whole_record (sha256 ?w) ''a'' 5 (int (length (bucket ?b 5))) []), (?s, w'))"
    unfolding insert_op_def by (rule counted_Inr) (rule i)
  from native_run.inserted [OF e _ this] have "native_run demo_digest ?s" by (simp add: demo_native_world_def)
  moreover have "ns_records ?s = [(''a'', whole_record (sha256 ?w) ''a'' 5 (int (length (bucket ?b 5))) [])]"
    by (simp add: \<open>ns_records ?e = []\<close> rec_id_def)
  moreover have w: "sha256 ?w = demo_digest" by (simp add: demo_native_world_def)
  ultimately show ?thesis unfolding w by blast
qed

theorem native_points_never_collide_witness:
  "\<exists>s r. native_run demo_digest s \<and> dget (ns_records s) ''a'' = Some r \<and> validate_supplied demo_digest (JObj r) = Inr r"
proof -
  obtain s r where s: "native_run demo_digest s" "ns_records s = [(''a'', r)]" using demo_run by blast
  then have g: "dget (ns_records s) ''a'' = Some r" by simp
  from native_points_never_collide [OF s(1) g g refl refl] s g show ?thesis by blast
qed

theorem replica_catches_up_witness:
  "\<exists>s u v'. native_run demo_digest s \<and> dhas (ns_records s) ''a'' \<and> same_records u s \<and>
     (\<exists>P R. reconstruct_op (JObj P) (empty_store None, demo_native_world) = (Inr R, (u, v')))"
proof -
  obtain s r where s: "native_run demo_digest s" "ns_records s = [(''a'', r)]" using demo_run by blast
  let ?w = demo_native_world
  have t: "native_run demo_digest (empty_store None)"
    by (rule native_run.opened [of None ?w _ ?w]) (simp_all add: open_native_def demo_native_world_def)
  have p: "part_of (empty_store None) s" by (simp add: part_of_def empty_store_def)
  have h: "\<forall>x. is_hex64 (JStr (demo_digest x))" by (simp add: is_hex64_def demo_digest_def is_digit_def list_all_iff)
  have "sha256 ?w = demo_digest" by (simp add: demo_native_world_def)
  from replica_catches_up [OF s(1) t p _ _ h this this] s(2)
  obtain P R u v' where "reconstruct_op (JObj P) (empty_store None, ?w) = (Inr R, (u, v'))" "same_records u s"
    by (auto simp: MAX_PACKET_RECORDS_def)
  moreover have "dhas (ns_records s) ''a''" using s(2) by (simp add: dhas_def)
  ultimately show ?thesis using s(1) by blast
qed

end
