(* ===== verification/PlainText.thy ===== *)
theory PlainText
  imports SortedKeys PyLines
begin

text \<open>
  Printable ASCII: the canonical text of a value with plain strings is plain, and a plain text is
  one line.
\<close>

definition plain_char :: "char \<Rightarrow> bool" where
  "plain_char c \<longleftrightarrow> 32 \<le> (of_char c :: nat) \<and> (of_char c :: nat) < 127"

abbreviation plain :: "string \<Rightarrow> bool" where
  "plain \<equiv> list_all plain_char"

fun plain_json :: "json \<Rightarrow> bool" where
  "plain_json (JStr s) = plain s"
| "plain_json (JArr xs) = (\<forall>x \<in> set xs. plain_json x)"
| "plain_json (JObj d) = (\<forall>p \<in> set d. plain (fst p) \<and> plain_json (snd p))"
| "plain_json _ = True"

lemma plain_literals [simp]:
  "plain_char (CHR '','')" "plain_char (CHR '':'')" "plain_char (CHR ''{'')" "plain_char (CHR ''}'')"
  "plain_char (CHR ''['')" "plain_char (CHR '']'')" "plain_char (CHR ''-'')" "plain_char (CHR 34)"
  "plain_char (CHR ''a'')" "plain_char (CHR ''e'')" "plain_char (CHR ''f'')" "plain_char (CHR ''l'')" "plain_char (CHR ''n'')" "plain_char (CHR ''r'')" "plain_char (CHR ''s'')" "plain_char (CHR ''t'')" "plain_char (CHR ''u'')"
  by (simp_all add: plain_char_def)

lemma plain_digit: "is_digit c \<Longrightarrow> plain_char c"
  by (simp add: is_digit_def plain_char_def)

lemma plain_show_int: "plain (show_int i)"
  using show_nat_digits plain_digit by (auto simp: show_int_def list_all_iff)

lemma plain_quote: "plain s \<Longrightarrow> plain (quote s)"
proof -
  have "plain (esc_char c)" if "plain_char c" for c
    using that by (auto simp: esc_char_def plain_char_def)
  then show "plain s \<Longrightarrow> plain (quote s)"
    by (induction s) (auto simp: quote_def)
qed

lemma plain_join: "plain sep \<Longrightarrow> \<forall>x \<in> set xs. plain x \<Longrightarrow> plain (join sep xs)"
  by (induction sep xs rule: join.induct) auto

lemma plain_enc: "plain_json v \<Longrightarrow> plain (enc fmt_compact l v)"
proof (induction v arbitrary: l)
  case (JArr xs)
  then have "plain (join '','' (map (enc fmt_compact (Suc l)) xs))"
    by (intro plain_join) auto
  then show ?case by (simp add: fmt_compact_def newline_indent_def)
next
  case (JObj d)
  have "plain (quote k @ '':'' @ enc fmt_compact (Suc l) v)" if "(k, v) \<in> set d" for k v
    using that JObj.prems JObj.IH [OF that, of v] plain_quote by auto
  then have "plain (join '','' (map (\<lambda>(k, v). quote k @ '':'' @ enc fmt_compact (Suc l) v) d))"
    by (intro plain_join) auto
  then show ?case by (simp add: fmt_compact_def newline_indent_def)
qed (simp_all add: plain_show_int plain_quote)

lemma plain_sort_keys: "plain_json v \<Longrightarrow> plain_json (sort_keys v)"
proof (induction v)
  case (JObj d)
  then show ?case by (fastforce simp: sort_keys_JObj map_vals_def)
qed simp_all

lemma plain_dumps: "plain_json v \<Longrightarrow> plain (dumps_canonical v)"
  by (simp add: dumps_canonical_def plain_enc plain_sort_keys)

lemma plain_chars: "plain s \<Longrightarrow> py_chars s = map (\<lambda>c. [c]) s"
proof (induction s)
  case (Cons c s)
  then have "list_all (\<lambda>c. \<not> is_cont c) s" by (auto simp: plain_char_def is_cont_def list_all_iff)
  then have "takeWhile is_cont s = []" "dropWhile is_cont s = s" by (cases s; simp)+
  with Cons show ?case by simp
qed simp

lemma plain_no_break: "plain s \<Longrightarrow> \<forall>g \<in> set (py_chars s). \<not> is_break g"
proof -
  have n: "\<forall>ns \<in> set [[10], [11], [12], [13], [28], [29], [30], [194, 133], [226, 128, 168], [226, 128, 169 :: nat]].
      \<not> (32 \<le> hd ns \<and> hd ns < 127)" by simp
  have "\<not> is_break [c]" if "plain_char c" for c
  proof
    assume "is_break [c]"
    then obtain ns where ns: "ns \<in> set [[10], [11], [12], [13], [28], [29], [30], [194, 133], [226, 128, 168], [226, 128, 169 :: nat]]"
      "[c] = bytes ns" by (auto simp: is_break_def break_groups_def)
    then have "c = char_of (hd ns)" "hd ns < 256" by (auto simp: bytes_def)
    then have "(of_char c :: nat) = hd ns" by (simp add: of_char_of)
    with n ns(1) that show False by (simp only: plain_char_def)
  qed
  then show "plain s \<Longrightarrow> \<forall>g \<in> set (py_chars s). \<not> is_break g" by (auto simp: plain_chars list_all_iff)
qed

end
