(* ===== verification/NativeReload.thy ===== *)
theory NativeReload
  imports NativeTransfer PlainText
begin

text \<open>
  What a restart reads back: \<open>json.loads\<close> gives the fields in sorted order, so a record comes back
  with a sorted payload and the same digest.  A log with as many lines as events gives back its
  events.
\<close>

section \<open>Sorted values\<close>

lemma sorted_obj [simp]: "JObj (dict_of (sort_keys (JObj d))) = sort_keys (JObj d)"
  by simp

declare sort_keys.simps(2) [simp del]

lemma pynorm_sort_keys [simp]: "pynorm (sort_keys v) = pynorm v"
proof (induction v)
  case (JObj d)
  then have "map_vals (\<lambda>v. pynorm (sort_keys v)) (sort_key fst d) = map_vals pynorm (sort_key fst d)"
    unfolding map_vals_def by fastforce
  then have "pynorm (JObj (map_vals sort_keys (sort_key fst d))) = JObj (map_vals pynorm (sort_key fst d))"
    by (simp flip: map_vals_def)
  moreover have "pynorm (JObj d) = JObj (map_vals pynorm (sort_key fst d))" by (simp flip: map_vals_def)
  ultimately show ?case by (simp only: sort_keys_JObj)
qed simp_all

lemma pyeq_sort_keys [simp]: "pyeq v (sort_keys v)" "pyeq (sort_keys v) v"
  by (simp_all add: pyeq_def)

lemma dumps_sort_keys [simp]: "dumps_canonical (sort_keys v) = dumps_canonical v"
  by (simp add: dumps_canonical_def)

lemma dumps_cong: "sort_keys v = sort_keys u \<Longrightarrow> dumps_canonical v = dumps_canonical u"
  by (simp add: dumps_canonical_def)

lemma dkeys_map_vals [simp]: "dkeys (map_vals f d) = dkeys d"
  by (simp add: map_vals_def o_def case_prod_beta)

lemma normal_sort_keys [simp]: "normal v \<Longrightarrow> normal (sort_keys v)"
proof (induction v)
  case (JObj d)
  have "distinct (dkeys (sort_key fst d))"
    using JObj.prems by (metis mset_eq_imp_distinct_iff mset_map mset_sort normal.simps(2))
  moreover have "\<forall>p \<in> set (map_vals sort_keys (sort_key fst d)). normal_key (fst p) \<and> normal (snd p)"
  proof
    fix p assume "p \<in> set (map_vals sort_keys (sort_key fst d))"
    then obtain k v where p: "p = (k, sort_keys v)" "(k, v) \<in> set d" by (auto simp: map_vals_def)
    with JObj.prems have "normal_key k" "normal v" by (auto simp: normal.simps(2))
    with p JObj.IH [OF p(2), of v] show "normal_key (fst p) \<and> normal (snd p)" by simp
  qed
  ultimately show ?case by (simp add: sort_keys_JObj normal.simps(2))
qed simp_all

lemma sort_keys_dpop: "JObj (dpop k (dict_of (sort_keys (JObj d)))) = sort_keys (JObj (dpop k d))"
proof -
  have "dpop k e = filter (\<lambda>p. fst p \<noteq> k) e" for e :: "json dict" by (induction e) auto
  moreover have "filter (\<lambda>p. fst p \<noteq> k) (map_vals f e) = map_vals f (filter (\<lambda>p. fst p \<noteq> k) e)"
    for f :: "json \<Rightarrow> json" and e
    by (simp add: map_vals_def filter_map o_def case_prod_beta)
  ultimately show ?thesis by (simp add: sort_keys_JObj filter_sort)
qed

lemma sort_keys_shapes [simp]:
  "is_obj (sort_keys v) = is_obj v" "is_arr (sort_keys v) = is_arr v" "arr_of (sort_keys v) = map sort_keys (arr_of v)"
  by (cases v; simp add: is_obj_def is_arr_def sort_keys.simps(2))+

lemma sort_keys_leaf [simp]:
  "sort_keys v = JStr a \<longleftrightarrow> v = JStr a" "sort_keys v = JInt n \<longleftrightarrow> v = JInt n" "sort_keys v = JNull \<longleftrightarrow> v = JNull"
  by (cases v; simp add: sort_keys.simps(2))+

lemma dget_sorted:
  "dict_wf d \<Longrightarrow> dget (dict_of (sort_keys (JObj d))) k = map_option sort_keys (dget d k)"
proof -
  assume "dict_wf d"
  then have "distinct (dkeys (map (\<lambda>(k, v). (k, sort_keys v)) d))" by (simp add: case_prod_beta o_def)
  then show ?thesis by (simp add: sort_keys.simps(2) dget_sort_key dget_map_snd)
qed

section \<open>Records read back\<close>

definition sorted_record :: "json dict \<Rightarrow> json dict" where
  "sorted_record r = map (\<lambda>(k, v). (k, if k = ''payload'' then sort_keys v else v)) r"

lemma body_text:
  "dumps_canonical (JObj (record_body i n c xy (dict_of (sort_keys (JObj p))))) =
   dumps_canonical (JObj (record_body i n c xy p))"
  by (rule dumps_cong) (simp add: record_body_def sort_keys.simps(2) [of "_ # _"])

lemma sorted_whole: "sorted_record (whole_record sha i n c p) = whole_record sha i n c (dict_of (sort_keys (JObj p)))"
  by (simp add: sorted_record_def whole_record_def Let_def body_text) (simp add: record_body_def)

lemma sorted_good:
  assumes "good_record sha r"
  shows "good_record sha (sorted_record r)"
proof -
  from assms obtain i n c p where g: "is_record_id i" "0 \<le> n" "n \<le> MAX_TIME_SLOT" "0 \<le> c" "normal (JObj p)"
    "length (dumps_canonical (JObj p)) \<le> MAX_PAYLOAD_BYTES" and r: "r = whole_record sha i n c p"
    by (auto simp: good_record_def)
  show ?thesis
    unfolding r sorted_whole using g by (intro good_whole) simp_all
qed

lemma sorted_fields [simp]:
  "rec_id (sorted_record r) = rec_id r" "rec_slot (sorted_record r) = rec_slot r"
  "rec_index (sorted_record r) = rec_index r" "rec_sha (sorted_record r) = rec_sha r"
  "record_sort_key (sorted_record r) = record_sort_key r"
proof -
  have f: "fld (sorted_record r) k = fld r k" if "k \<noteq> ''payload''" for k
    using that unfolding sorted_record_def by (induction r) (auto simp: get_or_none_def)
  show "rec_id (sorted_record r) = rec_id r" "rec_slot (sorted_record r) = rec_slot r"
    "rec_index (sorted_record r) = rec_index r" "rec_sha (sorted_record r) = rec_sha r"
    "record_sort_key (sorted_record r) = record_sort_key r"
    by (simp_all add: rec_id_def rec_slot_def rec_index_def rec_sha_def record_sort_key_def f)
qed

lemma sorted_same_text: "sort_keys (JObj (sorted_record r)) = sort_keys (JObj r)"
proof -
  have "map (\<lambda>(k, v). (k, sort_keys v)) (sorted_record r) = map (\<lambda>(k, v). (k, sort_keys v)) r"
    unfolding sorted_record_def by auto
  then show ?thesis by (simp only: sort_keys.simps(2))
qed

lemma read_back_validates:
  assumes "good_record sha r"
  shows "validate_supplied sha (sort_keys (JObj r)) = Inr (sorted_record r)"
proof -
  from assms obtain i n c p where g: "is_record_id i" "0 \<le> n" "n \<le> MAX_TIME_SLOT" "0 \<le> c" "normal (JObj p)"
    "length (dumps_canonical (JObj p)) \<le> MAX_PAYLOAD_BYTES" and r: "r = whole_record sha i n c p"
    by (auto simp: good_record_def)
  let ?d = "dict_of (sort_keys (JObj r))"
  let ?q = "dict_of (sort_keys (JObj p))"
  have nr: "normal (JObj r)" using assms by (rule good_record_normal)
  then have wf: "dict_wf r" by (rule normal_jwf)
  have keys: "set (dkeys ?d) = set RECORD_FIELDS"
    using whole_keys [of sha i n c p] by (simp add: r sort_keys_JObj map_vals_def image_image case_prod_beta)
  have f: "fld ?d k = sort_keys (fld r k)" for k by (rule fld_sort_keys [OF wf])
  have "build_record sha (JStr i) (JInt n) (JObj ?q) c = Inr (whole_record sha i n c ?q)"
    using g by (intro build_record_whole) simp_all
  then have b: "build_record sha (fld ?d ''id'') (fld ?d ''time_slot'') (fld ?d ''payload'') c = Inr (sorted_record r)"
    by (simp add: f) (simp add: r sorted_whole)
  have e: "pyeq (JObj (sorted_record r)) (sort_keys (JObj r))"
    using pyeq_sort_keys(1) [of "JObj (sorted_record r)"] by (simp only: sorted_same_text)
  have c: "fld ?d ''collision_index'' = JInt c" by (simp add: f) (simp add: r)
  have io: "is_obj (sort_keys (JObj r))" by simp (simp add: is_obj_def)
  have nn: "normalize_json ''$'' (sort_keys (JObj r)) = Inr (sort_keys (JObj r))"
    using nr by (intro normal_normalize normal_sort_keys)
  show ?thesis
    by (simp only: validate_supplied_def io keys simp_thms adi_check_True e_bind_simps Let_def c json.case b nn e)
qed

section \<open>The snapshot read back\<close>

definition canon_store :: "native_store \<Rightarrow> native_store" where
  "canon_store s = s\<lparr>ns_records := map_vals sorted_record (ns_records s)\<rparr>"

lemma canon_dget [simp]: "dget (ns_records (canon_store s)) k = map_option sorted_record (dget (ns_records s) k)"
  by (simp add: canon_store_def map_vals_def dget_map_snd)

lemma canon_simps [simp]:
  "bucket (canon_store s) slot = bucket s slot" "length (ns_records (canon_store s)) = length (ns_records s)"
  by (simp_all add: canon_store_def map_vals_def)

lemma canon_ok: "store_ok sha s \<Longrightarrow> store_ok sha (canon_store s)"
  unfolding store_ok_def bucket_ok_def placed_def
  by (auto simp: sorted_good canon_store_def dget_map_snd map_vals_def o_def case_prod_beta; fastforce)

lemma canon_ordered: "ordered_records (canon_store s) = map sorted_record (ordered_records s)"
proof -
  have "sort_key record_sort_key (map sorted_record rs) = map sorted_record (sort_key record_sort_key rs)" for rs
  proof (induction rs)
    case (Cons r rs)
    have "insort_key record_sort_key (sorted_record r) (map sorted_record xs) =
        map sorted_record (insort_key record_sort_key r xs)" for xs
      by (induction xs) simp_all
    with Cons show ?case by simp
  qed simp
  moreover have "map snd (ns_records (canon_store s)) = map sorted_record (map snd (ns_records s))"
    by (simp add: canon_store_def map_vals_def o_def case_prod_beta)
  ultimately show ?thesis by (simp only: ordered_records_def)
qed

lemma accept_read_back:
  "good_record (sha256 w) r \<Longrightarrow> accept_record (sort_keys (JObj r)) (s, w) = accept_record (JObj (sorted_record r)) (s, w)"
  by (simp add: accept_record_def read_back_validates good_record_validates sorted_good)

lemma accept_world: "snd (snd (accept_record v (s, w))) = w"
proof (cases "validate_supplied (sha256 w) v")
  case (Inr r)
  then show ?thesis by (simp add: accept_record_cases split: option.split)
qed (simp add: accept_record_def)

lemma accept_all_read_back:
  "\<forall>r \<in> set rs. good_record (sha256 w) r \<Longrightarrow>
   accept_all (map (\<lambda>r. sort_keys (JObj r)) rs) (s, w) = accept_all (map JObj (map sorted_record rs)) (s, w)"
proof (induction rs arbitrary: s)
  case (Cons r rs)
  obtain res s' where a: "accept_record (JObj (sorted_record r)) (s, w) = (res, (s', w))"
    using accept_world [of "JObj (sorted_record r)" s w] by (metis prod.collapse)
  with Cons show ?case by (simp add: m_bind_def accept_read_back split: sum.split)
qed simp

definition same_content :: "native_store \<Rightarrow> native_store \<Rightarrow> bool" where
  "same_content u s \<longleftrightarrow> (\<forall>k. dget (ns_records u) k = map_option sorted_record (dget (ns_records s) k))"

lemma snapshot_accepted:
  assumes "store_ok (sha256 w) s"
  shows "\<exists>u. accept_all (map (\<lambda>r. sort_keys (JObj r)) (ordered_records s)) (empty_store dir, w) = (Inr (), (u, w)) \<and>
    store_ok (sha256 w) u \<and> same_content u s \<and> frame (empty_store dir) u"
proof -
  have "part_of (empty_store dir) (canon_store s)" by (simp add: part_of_def empty_store_def)
  from accept_missing [OF canon_ok [OF assms] empty_store_ok this]
  show ?thesis
    using accept_all_read_back [of "ordered_records s" w] ordered_good [OF assms]
    by (simp add: canon_ordered same_content_def)
qed

definition snapshot_dict :: "(string \<Rightarrow> string) \<Rightarrow> native_store \<Rightarrow> json dict" where
  "snapshot_dict sha s =
     snapshot_body s (document s) @ [(''state_sha256'', JStr (sha (dumps_canonical (JObj (document s)))))]"

definition snapshot_text :: "(string \<Rightarrow> string) \<Rightarrow> native_store \<Rightarrow> string" where
  "snapshot_text sha s = dumps_canonical (JObj (snapshot_dict sha s)) @ [CHR 10]"

lemma snapshot_normal:
  assumes "store_ok sha s"
  shows "normal (JObj (snapshot_dict sha s))"
proof -
  have "normal (JObj (snapshot_body s (document s)))"
    using document_ordered(2) [OF assms]
    by (cases "ns_last s") (auto simp: snapshot_body_def normal.simps(2) [of "_ # _"] last_json_def normal.simps(2) [of "[]"])
  then show ?thesis unfolding snapshot_dict_def by (rule normal_snoc) (simp_all add: snapshot_body_def)
qed

lemma loads_line: "jwf v \<Longrightarrow> loads (dumps_canonical v @ [CHR 10]) = Some (sort_keys v)"
  using loads_enc [of fmt_compact "sort_keys v" "[CHR 10]" 0] by (simp add: dumps_canonical_def blanks_def is_ws_def)

lemma snapshot_read:
  assumes "store_ok sha s"
  shows "read_snapshot sha (snapshot_text sha s) =
    Inr (map (\<lambda>r. sort_keys (JObj r)) (ordered_records s), JInt (ns_seq s))"
proof -
  let ?d = "dict_of (sort_keys (JObj (snapshot_dict sha s)))"
  have wf: "dict_wf (snapshot_dict sha s)" using snapshot_normal [OF assms] by (rule normal_jwf)
  have l: "loads (snapshot_text sha s) = Some (sort_keys (JObj (snapshot_dict sha s)))"
    unfolding snapshot_text_def using wf by (rule loads_line)
  have f: "fld ?d k = sort_keys (fld (snapshot_dict sha s) k)" for k using wf by (rule fld_sort_keys)
  have wd: "dict_wf (document s)" using document_ordered(2) [OF assms] by (rule normal_jwf)
  have r: "arr_of (fld (dict_of (sort_keys (JObj (document s)))) ''records'') =
      map (\<lambda>r. sort_keys (JObj r)) (ordered_records s)"
    "is_arr (fld (dict_of (sort_keys (JObj (document s)))) ''records'')"
    unfolding fld_sort_keys [OF wd] by (simp_all add: document_def is_arr_def)
  have n: "normal (JObj (document s))" by (rule document_ordered(2) [OF assms])
  have g: "get_attr (sort_keys (JObj (snapshot_dict sha s))) ''protocol_version'' JNull = Inr (fld ?d ''protocol_version'')"
    by (simp add: sort_keys.simps(2) get_attr_def get_or_none_def)
  have q: "dget ?d ''event_sequence'' = Some (JInt (ns_seq s))"
    unfolding dget_sorted [OF wf] by (simp add: snapshot_dict_def snapshot_body_def)
  have s: "fld (snapshot_dict sha s) ''state'' = JObj (document s)"
    "fld (snapshot_dict sha s) ''schema_version'' = JStr STATE_SCHEMA_VERSION"
    "fld (snapshot_dict sha s) ''protocol_version'' = JStr PROTOCOL_VERSION"
    "fld (snapshot_dict sha s) ''state_sha256'' = JStr (sha (dumps_canonical (JObj (document s))))"
    by (simp_all add: snapshot_dict_def snapshot_body_def)
  show ?thesis
    by (simp add: read_snapshot_def l g f s q r Let_def sha_normal n check_def) (simp add: is_obj_def)
qed

section \<open>The log read back\<close>

text \<open>An event with its digest, and a chain of events.\<close>

definition sealed_event :: "(string \<Rightarrow> string) \<Rightarrow> int \<Rightarrow> string \<Rightarrow> string \<Rightarrow> string option \<Rightarrow> json dict \<Rightarrow> json dict" where
  "sealed_event sha seq now kind previous payload =
     (let body = native_event seq now kind previous (JObj payload)
      in body @ [(''event_sha256'', JStr (sha (dumps_canonical (JObj body))))])"

definition event_sha :: "json dict \<Rightarrow> string" where
  "event_sha e = str_of (fld e ''event_sha256'')"

fun chained :: "(string \<Rightarrow> string) \<Rightarrow> nat \<Rightarrow> string option \<Rightarrow> json dict list \<Rightarrow> bool" where
  "chained sha i previous [] \<longleftrightarrow> True"
| "chained sha i previous (e # es) \<longleftrightarrow>
     (\<exists>now kind p. normal (JObj p) \<and> e = sealed_event sha (int i + 1) now kind previous p) \<and>
     chained sha (Suc i) (Some (event_sha e)) es"

definition last_event :: "json dict list \<Rightarrow> string option" where
  "last_event es = (if es = [] then None else Some (event_sha (last es)))"

lemma chained_snoc:
  "chained sha i previous (es @ [e]) \<longleftrightarrow> chained sha i previous es \<and>
     (\<exists>now kind p. normal (JObj p) \<and>
        e = sealed_event sha (int (i + length es) + 1) now kind (if es = [] then previous else last_event es) p)"
  by (induction es arbitrary: i previous) (auto simp: last_event_def)

lemma normal_event: "normal (JObj p) \<Longrightarrow> normal (JObj (native_event q now k l (JObj p)))"
  by (cases l) (auto simp: native_event_def normal.simps(2) last_json_def)

lemma normal_sealed: "normal (JObj p) \<Longrightarrow> normal (JObj (sealed_event sha q now k l p))"
  unfolding sealed_event_def Let_def by (rule normal_snoc [OF normal_event]) (simp_all add: native_event_def)

definition event_text :: "json dict \<Rightarrow> string" where
  "event_text e = dumps_canonical (JObj e)"

lemma event_fields:
  "fld (sealed_event sha q now k l p) ''sequence'' = JInt q"
  "fld (sealed_event sha q now k l p) ''previous_event_sha256'' = last_json l"
  "fld (sealed_event sha q now k l p) ''event_type'' = JStr k"
  "fld (sealed_event sha q now k l p) ''payload'' = JObj p"
  "fld (sealed_event sha q now k l p) ''event_sha256'' =
     JStr (sha (dumps_canonical (JObj (native_event q now k l (JObj p)))))"
  by (simp_all add: sealed_event_def Let_def native_event_def)

lemma event_body_left: "dpop ''event_sha256'' (sealed_event sha q now k l p) = native_event q now k l (JObj p)"
  by (simp add: sealed_event_def Let_def native_event_def)

lemma last_json_sorted [simp]: "sort_keys (last_json l) = last_json l"
  by (cases l) (simp_all add: last_json_def)

lemma read_event:
  assumes p: "normal (JObj p)" and e: "e = sealed_event sha (int i + 1) now k previous p"
  shows "read_events sha n i previous (event_text e # ls) =
    e_bind (read_events sha n (Suc i) (Some (event_sha e)) ls)
      (\<lambda>(events, last_sha). Inr (if int i + 1 > n then dict_of (sort_keys (JObj e)) # events else events, last_sha))"
proof -
  let ?d = "dict_of (sort_keys (JObj e))"
  let ?b = "JObj (native_event (int i + 1) now k previous (JObj p))"
  have wf: "dict_wf e" unfolding e by (rule normal_jwf [OF normal_sealed [OF p]])
  have l: "loads (event_text e) = Some (sort_keys (JObj e))"
    unfolding event_text_def using wf by (rule canonical.receive_emit)
  have f: "fld ?d key = sort_keys (fld e key)" for key using wf by (rule fld_sort_keys)
  have g: "get_attr (sort_keys (JObj e)) ''sequence'' JNull = Inr (fld ?d ''sequence'')"
    by (simp add: sort_keys.simps(2) get_attr_def get_or_none_def)
  have h: "event_sha e = sha (dumps_canonical ?b)" by (simp add: event_sha_def e event_fields)
  have "normal (sort_keys ?b)" using normal_event [OF p] by (rule normal_sort_keys)
  then have "hash_basis ''event_sha256'' ?d = Inr (sort_keys ?b)" "canonical_sha256 sha (sort_keys ?b) = Inr (event_sha e)"
    by (simp_all only: hash_basis_def sort_keys_dpop e event_body_left normal_normalize sha_normal dumps_sort_keys h [unfolded e])
  then show ?thesis
    by (simp add: l g f Let_def check_def) (simp add: e event_fields h [unfolded e])
qed

lemma read_chain:
  "chained sha i previous es \<Longrightarrow>
   read_events sha n i previous (map event_text es) =
     Inr (map (\<lambda>e. dict_of (sort_keys (JObj e))) (drop (nat n - i) es), if es = [] then previous else last_event es)"
proof (induction es arbitrary: i previous)
  case (Cons e es)
  then obtain now k p where e: "normal (JObj p)" "e = sealed_event sha (int i + 1) now k previous p" by auto
  have "read_events sha n (Suc i) (Some (event_sha e)) (map event_text es) =
     Inr (map (\<lambda>e. dict_of (sort_keys (JObj e))) (drop (nat n - Suc i) es),
          if es = [] then Some (event_sha e) else last_event es)"
    using Cons by auto
  moreover have "nat n - i = (if int i + 1 > n then 0 else Suc (nat n - Suc i))"
    "int i + 1 > n \<Longrightarrow> nat n - Suc i = 0" by auto
  ultimately show ?case
    using read_event [OF e, of n] by (auto simp: last_event_def)
qed simp

section \<open>The lines of the log\<close>

definition log_text :: "json dict list \<Rightarrow> string" where
  "log_text es = concat (map (\<lambda>e. event_text e @ [CHR 10]) es)"

lemma split_groups_lf:
  "gs = [] \<or> last gs \<noteq> [CHR 13] \<Longrightarrow>
   split_groups (gs @ [[CHR 10]]) acc \<noteq> [] \<and>
   (length (split_groups (gs @ [[CHR 10]]) acc) = 1 \<longrightarrow> split_groups (gs @ [[CHR 10]]) acc = [acc @ concat gs])"
proof (induction "gs @ [[CHR 10]]" acc arbitrary: gs rule: split_groups.induct)
  case (2 g gs' acc)
  show ?case
  proof (cases gs)
    case (Cons g0 rest)
    with 2(4) have g: "g0 = g" "gs' = rest @ [[CHR 10]]" by simp_all
    have l: "rest = [] \<or> last rest \<noteq> [CHR 13]" using 2(5) Cons by auto
    show ?thesis
    proof (cases "g = [CHR 13] \<and> gs' \<noteq> [] \<and> hd gs' = [CHR 10]")
      case True
      with Cons g 2(5) have r: "rest \<noteq> []" by auto
      then have "tl gs' = tl rest @ [[CHR 10]]" using g by (cases rest) simp_all
      moreover have "tl rest = [] \<or> last (tl rest) \<noteq> [CHR 13]" using l r by (cases rest) auto
      ultimately have "split_groups (tl gs') [] \<noteq> []" using 2(1) [OF True] by metis
      with True Cons g show ?thesis by simp
    next
      case False
      with 2(2) [OF False] 2(3) [OF False] Cons g l show ?thesis by (cases "is_break g") auto
    qed
  qed simp
qed simp

lemma event_ends: "\<exists>t. event_text e = CHR ''{'' # t @ [CHR ''}'']"
  by (simp add: event_text_def dumps_canonical_def sort_keys.simps(2))

lemma event_last: "last (py_chars (event_text e)) \<noteq> [CHR 13]"
proof -
  obtain t where "event_text e = (CHR ''{'' # t) @ [CHR ''}'']" using event_ends by auto
  moreover have "\<not> is_cont (CHR ''}'')" by (simp add: is_cont_def)
  ultimately show ?thesis using py_chars_append [of "CHR ''}''" "CHR ''{'' # t" "[]"] by simp
qed

lemma log_text_Cons:
  "splitlines (log_text (e # es)) = split_groups (py_chars (event_text e) @ [[CHR 10]]) [] @ splitlines (log_text es)"
proof -
  have "py_chars (event_text e @ [CHR 10] @ log_text es) = py_chars (event_text e) @ [[CHR 10]] @ py_chars (log_text es)"
  proof (cases es)
    case Nil
    then show ?thesis using py_chars_append [of "CHR 10" "event_text e" "[]"] by (simp add: log_text_def)
  next
    case (Cons e' es')
    obtain t where "event_text e' = CHR ''{'' # t" using event_ends by blast
    then obtain r where r: "log_text es = CHR ''{'' # r" using Cons by (auto simp: log_text_def)
    have "py_chars (event_text e @ CHR 10 # log_text es) = py_chars (event_text e) @ py_chars ([CHR 10] @ log_text es)"
      using py_chars_append [of "CHR 10" "event_text e" "log_text es"] by simp
    also have "py_chars ([CHR 10] @ log_text es) = [[CHR 10]] @ py_chars (log_text es)"
      unfolding r by (subst py_chars_append) (simp_all del: py_chars.simps(2), simp)
    finally show ?thesis by simp
  qed
  then show ?thesis
    using split_groups_append [of "py_chars (event_text e) @ [[CHR 10]]" "[]" "py_chars (log_text es)"]
    by (simp add: splitlines_def log_text_def)
qed

lemma event_line:
  "split_groups (py_chars (event_text e) @ [[CHR 10]]) [] \<noteq> []"
  "length (split_groups (py_chars (event_text e) @ [[CHR 10]]) []) = 1 \<Longrightarrow>
   split_groups (py_chars (event_text e) @ [[CHR 10]]) [] = [event_text e]"
  using split_groups_lf [of "py_chars (event_text e)" "[]"] event_last [of e] by simp_all

lemma log_lines_least: "length es \<le> length (splitlines (log_text es))"
proof (induction es)
  case (Cons e es)
  have "1 \<le> length (split_groups (py_chars (event_text e) @ [[CHR 10]]) [])"
    using event_line(1) [of e] by (cases "split_groups (py_chars (event_text e) @ [[CHR 10]]) []") simp_all
  with Cons show ?case by (simp add: log_text_Cons)
qed simp

lemma log_lines: "length (splitlines (log_text es)) = length es \<Longrightarrow> splitlines (log_text es) = map event_text es"
proof (induction es)
  case (Cons e es)
  have "1 \<le> length (split_groups (py_chars (event_text e) @ [[CHR 10]]) [])"
    using event_line(1) [of e] by (cases "split_groups (py_chars (event_text e) @ [[CHR 10]]) []") simp_all
  with Cons.prems log_lines_least [of es]
  have "length (split_groups (py_chars (event_text e) @ [[CHR 10]]) []) = 1"
    "length (splitlines (log_text es)) = length es" by (simp_all add: log_text_Cons)
  with Cons.IH event_line(2) [of e] show ?case by (simp add: log_text_Cons)
qed (simp add: log_text_def splitlines_def)

end
