(* ===== verification/NativeDurable.thy ===== *)
theory NativeDurable
  imports NativeReload
begin

text \<open>
  The files of a service: what every request leaves in them, and that a restart, also one after
  the process died between the log and the snapshot, gives back the state.
\<close>

section \<open>Log and snapshot of a state\<close>

definition logged :: "string \<Rightarrow> native_store \<Rightarrow> world \<Rightarrow> json dict list \<Rightarrow> bool" where
  "logged d s w es \<longleftrightarrow>
     chained (sha256 w) 0 None es \<and> ns_seq s = int (length es) \<and> ns_last s = last_event es \<and>
     files w (event_path d) = Some (log_text es)"

definition durable :: "string \<Rightarrow> native_store \<Rightarrow> world \<Rightarrow> bool" where
  "durable d s w \<longleftrightarrow>
     store_ok (sha256 w) s \<and> ns_dir s = Some d \<and> length (ns_records s) \<le> MAX_PACKET_RECORDS \<and>
     (\<exists>es. logged d s w es) \<and> files w (snapshot_path d) = Some (snapshot_text (sha256 w) s)"

lemma paths_differ [simp]: "event_path d \<noteq> snapshot_path d" "snapshot_path d \<noteq> event_path d"
  by (simp_all add: event_path_def snapshot_path_def)

definition put :: "string \<Rightarrow> string \<Rightarrow> world \<Rightarrow> world" where
  "put p t w = w\<lparr>files := (files w)(p \<mapsto> t)\<rparr>"

lemma put_simps [simp]:
  "files (put p t w) = (files w)(p \<mapsto> t)" "sha256 (put p t w) = sha256 w" "clock (put p t w) = clock w"
  "ticks (put p t w) = ticks w"
  by (simp_all add: put_def)

definition tick :: "world \<Rightarrow> world" where
  "tick w = w\<lparr>ticks := Suc (ticks w)\<rparr>"

lemma tick_simps [simp]: "files (tick w) = files w" "sha256 (tick w) = sha256 w" "clock (tick w) = clock w"
  by (simp_all add: tick_def)

definition next_event :: "string \<Rightarrow> json dict \<Rightarrow> native_store \<Rightarrow> world \<Rightarrow> json dict" where
  "next_event k p s w = sealed_event (sha256 w) (ns_seq s + 1) (clock w (ticks w)) k (ns_last s) p"

definition after_event :: "json dict \<Rightarrow> native_store \<Rightarrow> native_store" where
  "after_event e s = s\<lparr>ns_seq := ns_seq s + 1, ns_last := Some (event_sha e)\<rparr>"

lemma after_simps [simp]:
  "ns_records (after_event e s) = ns_records s" "ns_dir (after_event e s) = ns_dir s"
  "ns_seq (after_event e s) = ns_seq s + 1" "ns_last (after_event e s) = Some (event_sha e)"
  "bucket (after_event e s) slot = bucket s slot" "store_ok sha (after_event e s) = store_ok sha s"
  by (simp_all add: after_event_def)

lemma log_event_run:
  assumes d: "ns_dir s = Some d" and p: "normal (JObj p)"
  shows "log_event k p (s, w) =
    (Inr (), (after_event (next_event k p s w) s,
      put (event_path d)
        ((case files w (event_path d) of Some old \<Rightarrow> old | None \<Rightarrow> []) @
           event_text (next_event k p s w) @ [CHR 10])
        (tick w)))"
proof -
  let ?b = "native_event (ns_seq s + 1) (clock w (ticks w)) k (ns_last s) (JObj p)"
  let ?e = "next_event k p s w"
  have e: "?e = ?b @ [(''event_sha256'', JStr (event_sha ?e))]"
    by (simp add: next_event_def event_sha_def event_fields) (simp add: sealed_event_def Let_def)
  have h: "sha256 w (dumps_canonical (JObj ?b)) = event_sha ?e"
    by (simp add: next_event_def event_sha_def event_fields)
  have n: "normal (JObj ?e)" unfolding next_event_def by (rule normal_sealed [OF p])
  show ?thesis
    using d p n normal_event [OF p]
    by (simp add: log_event_def Let_def normal_normalize sha_normal canonical_normal m_then_def h
        flip: e)
      (simp add: after_event_def put_def tick_def event_text_def split: option.split)
qed

lemma logged_event:
  assumes "logged d s w es" and "ns_dir s = Some d" and p: "normal (JObj p)"
  shows "\<exists>e w'. log_event k p (s, w) = (Inr (), (after_event e s, w')) \<and> sha256 w' = sha256 w \<and>
     logged d (after_event e s) w' (es @ [e]) \<and> files w' = (files w)(event_path d \<mapsto> log_text (es @ [e])) \<and>
     e = next_event k p s w \<and> clock w' = clock w"
proof -
  let ?e = "next_event k p s w"
  have "chained (sha256 w) 0 None (es @ [?e])"
    using assms p by (auto simp: logged_def chained_snoc next_event_def last_event_def)
  moreover have "log_text (es @ [?e]) = log_text es @ event_text ?e @ [CHR 10]" by (simp add: log_text_def)
  ultimately show ?thesis
    using assms log_event_run [OF assms(2) p, of k w]
    by (auto simp: logged_def last_event_def)
qed

lemma persist_run:
  assumes "store_ok (sha256 w) s" "ns_dir s = Some d"
  shows "persist_snapshot (s, w) =
    (if length (ns_records s) \<le> MAX_PACKET_RECORDS
     then (Inr (), (s, put (snapshot_path d) (snapshot_text (sha256 w) s) w))
     else (Inl (NativeADIError ''PACKET_RECORD_LIMIT_EXCEEDED'' ''$''), (s, w)))"
proof (cases "length (ns_records s) \<le> MAX_PACKET_RECORDS")
  case True
  have "normal (JObj (snapshot_dict (sha256 w) s))" by (rule snapshot_normal [OF assms(1)])
  moreover have "normal (JObj (document s))" by (rule document_ordered(2) [OF assms(1)])
  ultimately show ?thesis
    using True assms
    by (simp add: persist_snapshot_def export_all sha_normal canonical_normal snapshot_text_def put_def
        flip: snapshot_dict_def)
next
  case False
  then show ?thesis
    using assms by (simp add: persist_snapshot_def export_state_def selected_records_def chosen_records_def adi_check_def check_def)
qed

section \<open>Requests keep the files\<close>

lemma text_bump [simp]: "snapshot_text sha (bump_store k s) = snapshot_text sha s"
proof -
  have "ns_seq (bump_store k s) = ns_seq s" "ns_last (bump_store k s) = ns_last s" by (simp_all add: bump_store_def)
  then show ?thesis by (simp add: snapshot_text_def snapshot_dict_def snapshot_body_def document_def)
qed

lemma durable_bump [simp]: "durable d (bump_store k s) w = durable d s w"
proof -
  have "ns_seq (bump_store k s) = ns_seq s" "ns_last (bump_store k s) = ns_last s" by (simp_all add: bump_store_def)
  then show ?thesis by (simp add: durable_def logged_def)
qed

lemma counted_cases:
  assumes "counted k m (s, w) = (res, (s', w'))"
  obtains s1 where "m (bump_store k s, w) = (res, (s1, w'))" and "s' = s1 \<or> s' = bump_store ''rejected_requests'' s1"
proof -
  obtain r s1 w1 where "m (bump_store k s, w) = (r, (s1, w1))" by (metis surj_pair)
  with assms that show thesis
    by (auto simp: counted_def bump_def m_then_def split: sum.splits py_error.splits)
qed

lemma after_insert_text:
  "ns_seq (with_record r s) = ns_seq s" "ns_last (with_record r s) = ns_last s"
  by simp_all

lemma insert_run:
  assumes ok: "store_ok (sha256 w) s" and d: "ns_dir s = Some d" and lg: "logged d s w es"
    and run: "insert_body a b c (s, w) = (res, (s', w'))"
  obtains (unchanged) "s' = s" "w' = w"
  | (new) r e where "good_record (sha256 w) r" "dget (ns_records s) (rec_id r) = None"
      "rec_index r = int (length (bucket s (rec_slot r)))"
      "e = next_event ''INSERT'' [(''record'', JObj r)] s w" "s' = with_record r (after_event e s)"
      "logged d s' w' (es @ [e])" "sha256 w' = sha256 w" "clock w' = clock w"
      "res = Inr r \<and> durable d s' w' \<or> isl res \<and> length (ns_records s') > MAX_PACKET_RECORDS"
proof (cases "s' = s \<and> w' = w")
  case False
  obtain i n r where i: "require_id a ''$.id'' = Inr i" "require_time_slot b ''$.time_slot'' = Inr n"
      "dget (ns_records s) i = None"
    and r: "build_record (sha256 w) (JStr i) (JInt n) c (int (length (bucket s n))) = Inr r"
    and m: "m_then (log_event ''INSERT'' [(''record'', JObj r)]) (m_bind (accept_record (JObj r)) (\<lambda>_.
         m_then persist_snapshot (ret r))) (s, w) = (res, (s', w'))"
    using run False
    by (auto simp: insert_body_def split: option.splits sum.splits if_splits)
  from build_record_good [OF r] have good: "good_record (sha256 w) r"
    and f: "rec_index r = int (length (bucket s n))" "rec_id r = i" "rec_slot r = n"
    by (simp_all add: rec_index_def rec_id_def rec_slot_def)
  have "normal (JObj [(''record'', JObj r)])" using good_record_normal [OF good] by (simp add: normal.simps(2))
  from logged_event [OF lg d this] obtain e w1 where
    l: "log_event ''INSERT'' [(''record'', JObj r)] (s, w) = (Inr (), (after_event e s, w1))"
    and w1: "sha256 w1 = sha256 w" "logged d (after_event e s) w1 (es @ [e])" "clock w1 = clock w"
    and e: "e = next_event ''INSERT'' [(''record'', JObj r)] s w" by blast
  let ?t = "with_record r (after_event e s)"
  have a: "accept_record (JObj r) (after_event e s, w1) = (Inr True, (?t, w1))"
    using good i(3) f w1(1) by (intro accept_good_new) simp_all
  have ok': "store_ok (sha256 w) ?t"
    using good i(3) f ok by (intro with_record_ok) simp_all
  have p: "persist_snapshot (?t, w1) = (if length (ns_records ?t) \<le> MAX_PACKET_RECORDS
     then (Inr (), (?t, put (snapshot_path d) (snapshot_text (sha256 w) ?t) w1))
     else (Inl (NativeADIError ''PACKET_RECORD_LIMIT_EXCEEDED'' ''$''), (?t, w1)))"
    using persist_run [of w1 ?t d] ok' d w1(1) by simp
  have lg1: "logged d ?t w1 (es @ [e])" using w1(1,2) by (simp add: logged_def)
  show thesis
  proof (rule new)
    show "good_record (sha256 w) r" by fact
    show "dget (ns_records s) (rec_id r) = None" "rec_index r = int (length (bucket s (rec_slot r)))"
      using i f by simp_all
    show "e = next_event ''INSERT'' [(''record'', JObj r)] s w" by fact
    have out: "if length (ns_records ?t) \<le> MAX_PACKET_RECORDS
        then res = Inr r \<and> s' = ?t \<and> w' = put (snapshot_path d) (snapshot_text (sha256 w) ?t) w1
        else (\<exists>x. res = Inl x) \<and> s' = ?t \<and> w' = w1"
      using m l a p by (auto simp: m_then_def m_bind_def split: if_splits)
    show "s' = ?t" using out by (auto split: if_splits)
    show "sha256 w' = sha256 w" "clock w' = clock w" using out w1(1,3) by (auto split: if_splits)
    show "logged d s' w' (es @ [e])" using out lg1 by (auto simp: logged_def split: if_splits)
    show "res = Inr r \<and> durable d s' w' \<or> isl res \<and> length (ns_records s') > MAX_PACKET_RECORDS"
      using out ok' lg1 w1(1) d by (auto simp: durable_def logged_def isl_def split: if_splits)
  qed
qed (use unchanged in blast)

lemma log_grows: "logged d s w es \<Longrightarrow> logged d s' w' (es @ [e]) \<Longrightarrow> files w' (event_path d) \<noteq> files w (event_path d)"
  by (simp add: logged_def log_text_def)

lemma insert_durable:
  assumes "durable d s w" and "insert_op a b c (s, w) = (res, (s', w'))"
    and "\<not> isl res \<or> files w' = files w"
  shows "durable d s' w'"
proof -
  let ?b = "bump_store ''insert_requests'' s"
  from assms(2) obtain s1 where i: "insert_body a b c (?b, w) = (res, (s1, w'))"
    and s1: "s' = s1 \<or> s' = bump_store ''rejected_requests'' s1"
    unfolding insert_op_def by (rule counted_cases)
  have b: "durable d ?b w" using assms(1) by simp
  then obtain es where es: "logged d ?b w es" by (auto simp: durable_def)
  have ok: "store_ok (sha256 w) ?b" "ns_dir ?b = Some d" using b by (simp_all add: durable_def)
  have "durable d s1 w'"
  proof (rule insert_run [OF ok es i])
    assume "s1 = ?b" "w' = w"
    with b show ?thesis by simp
  next
    fix r e
    assume new: "logged d s1 w' (es @ [e])" "res = Inr r \<and> durable d s1 w' \<or> isl res \<and> length (ns_records s1) > MAX_PACKET_RECORDS"
    have "files w' \<noteq> files w" using log_grows [OF es new(1)] by metis
    with new(2) assms(3) show ?thesis by auto
  qed
  with s1 show ?thesis by auto
qed

lemma log_event_logged:
  assumes "log_event k payload (s, w) = (Inr u, (s', w'))" and "logged d s w es" and d: "ns_dir s = Some d"
  shows "\<exists>e. s' = after_event e s \<and> sha256 w' = sha256 w \<and> logged d s' w' (es @ [e]) \<and>
    files w' (snapshot_path d) = files w (snapshot_path d)"
proof -
  obtain v where v: "normalize_json ''$'' (JObj payload) = Inr v"
    using assms(1) d by (cases "normalize_json ''$'' (JObj payload)") (simp_all add: log_event_def)
  then obtain q where q: "v = JObj q" by (auto simp: normalize_json.simps(2) e_bind_InrD)
  have n: "normal (JObj q)" using normalize_normal(1) [OF v] q by simp
  have "log_event k payload (s, w) = log_event k q (s, w)"
    using d v q normal_normalize(1) [OF n] by (simp add: log_event_def Let_def)
  with logged_event [OF assms(2) d n, of k] assms(1) show ?thesis by auto
qed

lemma accept_frame: "frame s (fst (snd (accept_record v (s, w))))"
proof (cases "validate_supplied (sha256 w) v")
  case (Inr r)
  then show ?thesis by (simp add: accept_record_cases frame_def split: option.split)
qed (simp add: accept_record_def frame_def)

lemma accept_all_frame:
  "accept_all vs (s, w) = (res, (s', w')) \<Longrightarrow> w' = w \<and> frame s s'"
proof (induction vs arbitrary: s)
  case (Cons v vs)
  obtain r s1 where a: "accept_record v (s, w) = (r, (s1, w))" "frame s s1"
    using accept_world [of v s w] accept_frame [of s v w] by (metis prod.collapse)
  show ?case
  proof (cases r)
    case (Inr b)
    with Cons.prems a(1) have "accept_all vs (s1, w) = (res, (s', w'))" by (simp add: m_bind_def)
    from Cons.IH [OF this] a(2) show ?thesis by (simp add: frame_def)
  qed (use Cons.prems a in \<open>simp add: m_bind_def\<close>)
qed (simp add: frame_def)

lemma reconstruct_durable:
  assumes "durable d s w" and "reconstruct_op p (s, w) = (Inr R, (s', w'))"
  shows "durable d s' w'"
proof -
  let ?b = "bump_store ''reconstruct_requests'' s"
  from assms(2) obtain s2 where i: "reconstruct_body p (?b, w) = (Inr R, (s2, w'))"
    and s2: "s' = s2 \<or> s' = bump_store ''rejected_requests'' s2"
    unfolding reconstruct_op_def by (rule counted_cases)
  have b: "durable d ?b w" using assms(1) by simp
  then obtain es where es: "logged d ?b w es" by (auto simp: durable_def)
  have ok: "store_ok (sha256 w) ?b" "ns_dir ?b = Some d" "files w (snapshot_path d) = Some (snapshot_text (sha256 w) ?b)"
    using b by (simp_all add: durable_def)
  from i obtain n ordered k where
    m: "m_then (log_reconstruction n (filter (\<lambda>r. \<not> dhas (ns_records ?b) (rec_id r)) ordered))
       (m_then (accept_all (map JObj ordered)) (m_then persist_snapshot (m_bind (lift (allow_packet (sha256 w) n)) k)))
       (?b, w) = (Inr R, (s2, w'))" and k: "\<And>a sw. snd (k a sw) = sw"
    by (auto simp: reconstruct_body_def split: sum.splits if_splits)
  let ?new = "filter (\<lambda>r. \<not> dhas (ns_records ?b) (rec_id r)) ordered"
  obtain t1 v1 t2 v2 t3 v3 u1 u2 u3 where
    l: "log_reconstruction n ?new (?b, w) = (Inr u1, (t1, v1))"
    and a: "accept_all (map JObj ordered) (t1, v1) = (Inr u2, (t2, v2))"
    and ps: "persist_snapshot (t2, v2) = (Inr u3, (t3, v3))"
    and al: "m_bind (lift (allow_packet (sha256 w) n)) k (t3, v3) = (Inr R, (s2, w'))"
  proof -
    obtain u1 x1 where 1: "log_reconstruction n ?new (?b, w) = (Inr u1, x1)"
      "m_then (accept_all (map JObj ordered)) (m_then persist_snapshot (m_bind (lift (allow_packet (sha256 w) n)) k)) x1
        = (Inr R, (s2, w'))" using iffD1 [OF m_then_InrD m] by blast
    obtain u2 x2 where 2: "accept_all (map JObj ordered) x1 = (Inr u2, x2)"
      "m_then persist_snapshot (m_bind (lift (allow_packet (sha256 w) n)) k) x2 = (Inr R, (s2, w'))"
      using iffD1 [OF m_then_InrD 1(2)] by blast
    obtain u3 x3 where 3: "persist_snapshot x2 = (Inr u3, x3)"
      "m_bind (lift (allow_packet (sha256 w) n)) k x3 = (Inr R, (s2, w'))"
      using iffD1 [OF m_then_InrD 2(2)] by blast
    show thesis
      by (rule that [of u1 "fst x1" "snd x1" u2 "fst x2" "snd x2" u3 "fst x3" "snd x3"])
        (simp_all only: prod.collapse 1(1) 2(1) 3)
  qed
  have "\<exists>es'. logged d t1 v1 es' \<and> ns_dir t1 = Some d \<and> sha256 v1 = sha256 w \<and> store_ok (sha256 w) t1"
  proof (cases "?new = []")
    case True
    with l es ok show ?thesis by (auto simp: log_reconstruction_def)
  next
    case False
    then have "log_event ''RECONSTRUCT_ALLOW''
        [(''source_packet_sha256'', fld n ''packet_sha256''), (''records'', JArr (map JObj ?new))] (?b, w) = (Inr u1, (t1, v1))"
      using l by (simp add: log_reconstruction_def)
    from log_event_logged [OF this es ok(2)] ok show ?thesis by auto
  qed
  then obtain es' where t1: "logged d t1 v1 es'" "ns_dir t1 = Some d" "sha256 v1 = sha256 w" "store_ok (sha256 w) t1"
    by blast
  have f: "v2 = v1" "frame t1 t2" using accept_all_frame [OF a] by simp_all
  have "store_ok (sha256 v1) t2" using safe_step [OF safe_accept_all a] t1 by simp
  with f t1 have t2: "store_ok (sha256 v1) t2" "ns_dir t2 = Some d" "logged d t2 v1 es'"
    by (simp_all add: frame_def logged_def)
  have "length (ns_records t2) \<le> MAX_PACKET_RECORDS \<and> t3 = t2 \<and> v3 = put (snapshot_path d) (snapshot_text (sha256 v1) t2) v1"
    using ps persist_run [OF t2(1,2)] f(1) by (auto split: if_splits)
  with t2 have "durable d t3 v3" by (auto simp: durable_def logged_def)
  moreover have "(s2, w') = (t3, v3)"
  proof (cases "allow_packet (sha256 w) n")
    case (Inr a)
    with al have "k a (t3, v3) = (Inr R, (s2, w'))" by simp
    with k [of a "(t3, v3)"] show ?thesis by simp
  qed (use al in simp)
  ultimately show ?thesis using s2 by auto
qed

text \<open>A refused reconstruction that changed no file was refused before its records were logged.\<close>

lemma log_event_cases:
  assumes "log_event k payload (s, w) = (r, (s', w'))" and "logged d s w es" and d: "ns_dir s = Some d"
  shows "isl r \<and> s' = s \<and> files w' = files w \<and> sha256 w' = sha256 w \<or>
    (\<exists>x e. r = Inr x \<and> ns_dir s' = Some d \<and> logged d s' w' (es @ [e]))"
proof (cases r)
  case (Inl x)
  obtain v where v: "normalize_json ''$'' (JObj payload) = v" by simp
  show ?thesis
  proof (cases v)
    case Inl': (Inl y)
    with assms(1) d v show ?thesis by (auto simp: log_event_def Let_def m_then_def m_bind_def)
  next
    case (Inr q)
    with v obtain q' where ok: "normalize_json ''$'' (JObj payload) = Inr (JObj q')"
      by (auto simp: normalize_json.simps(2) e_bind_InrD)
    have n: "normal (JObj q')" using normalize_normal(1) [OF ok] .
    have "log_event k payload (s, w) = log_event k q' (s, w)"
      using d ok normal_normalize(1) [OF n] by (simp add: log_event_def Let_def)
    with logged_event [OF assms(2) d n, of k] assms(1) d show ?thesis by auto
  qed
next
  case (Inr u)
  with log_event_logged [of k payload s w u s' w' d es] assms show ?thesis by auto
qed

lemma accept_all_known:
  "\<forall>r \<in> set rs. good_record (sha256 w) r \<and> dhas (ns_records s) (rec_id r) \<Longrightarrow>
    snd (accept_all (map JObj rs) (s, w)) = (s, w)"
proof (induction rs)
  case (Cons r rs)
  then obtain q where q: "dget (ns_records s) (rec_id r) = Some q" by (auto simp: dhas_def)
  have "snd (accept_record (JObj r) (s, w)) = (s, w)"
    using Cons.prems q accept_record_cases [OF good_record_validates, of w r s] by simp
  then obtain x where "accept_record (JObj r) (s, w) = (x, (s, w))" by (metis prod.collapse)
  with Cons show ?case by (cases x) simp_all
qed simp

lemma packet_atoms_good:
  "packet_atoms sha atoms vs = Inr out \<Longrightarrow> (\<And>k r. dget atoms k = Some r \<Longrightarrow> good_record sha r) \<Longrightarrow>
    dget out k = Some r \<Longrightarrow> good_record sha r"
proof (induction vs arbitrary: atoms)
  case (Cons v vs)
  then obtain a where a: "validate_supplied sha v = Inr a" "packet_atoms sha (dset (rec_id a) a atoms) vs = Inr out"
    by (auto simp: e_bind_InrD)
  show ?case
    using a(1) Cons.prems(2) by (intro Cons.IH [OF a(2) _ Cons.prems(3)]) (auto dest: validate_supplied_good split: if_splits)
qed simp

lemma resolved_good:
  assumes "resolve_packet sha records n = Inr rs" and "\<And>k r. dget records k = Some r \<Longrightarrow> good_record sha r"
    and "r \<in> set rs"
  shows "good_record sha r"
proof -
  let ?es = "map dict_of (arr_of (fld (dict_of (fld n ''reference_lookup'')) ''entries''))"
  obtain atoms resolved where a: "packet_atoms sha [] (arr_of (fld (dict_of (fld n ''delta'')) ''state_atoms'')) = Inr atoms"
    and m: "map_err (resolve_entry records atoms) ?es = Inr resolved" and rs: "set rs = set resolved"
    using assms(1) by (auto simp: resolve_packet_def Let_def e_bind_InrD split: if_splits)
  from m assms(3) rs obtain e where "resolve_entry records atoms e = Inr r"
    by (auto simp: map_err_Inr list_all2_conv_all_nth in_set_conv_nth)
  then obtain k where "dget records k = Some r \<or> dget atoms k = Some r"
    by (auto simp: resolve_entry_def Let_def split: if_splits option.splits)
  then show ?thesis using assms(2) packet_atoms_good [OF a] by auto
qed

lemma persist_log:
  "persist_snapshot (s, w) = (res, (s', w')) \<Longrightarrow> ns_dir s = Some d \<Longrightarrow> files w' (event_path d) = files w (event_path d)"
  by (auto simp: persist_snapshot_def m_then_def m_bind_def split: sum.splits prod.splits)

lemma durable_cong: "durable d s w \<Longrightarrow> files w' = files w \<Longrightarrow> sha256 w' = sha256 w \<Longrightarrow> durable d s w'"
  by (simp add: durable_def logged_def)

lemma put_same: "files w p = Some t \<Longrightarrow> put p t w = w"
  by (simp add: put_def fun_upd_idem)

lemma accept_persist_log:
  assumes "m_then (accept_all vs) (m_then persist_snapshot (m_bind (lift q) k)) (t, v) = (res, (s', w'))"
    and "ns_dir t = Some d" and k: "\<And>a sw. snd (k a sw) = sw"
  shows "files w' (event_path d) = files v (event_path d)"
proof -
  obtain r1 t1 v1 where a: "accept_all vs (t, v) = (r1, (t1, v1))" by (metis surj_pair)
  obtain r2 t2 v2 where ps: "persist_snapshot (t1, v1) = (r2, (t2, v2))" by (metis surj_pair)
  have f: "v1 = v" "ns_dir t1 = Some d" using accept_all_frame [OF a] assms(2) by (simp_all add: frame_def)
  from persist_log [OF ps f(2)] f(1) have v2: "files v2 (event_path d) = files v (event_path d)" by simp
  have "snd (m_bind (lift q) k (t2, v2)) = (t2, v2)" using k by (cases q) simp_all
  with assms(1) a ps f(1) v2 show ?thesis by (cases r1; cases r2) auto
qed

lemma reconstruct_steps:
  assumes "reconstruct_body p (s, w) = (res, (s', w'))"
  shows "(s', w') = (s, w) \<or> (\<exists>n ordered g. resolve_packet (sha256 w) (ns_records s) n = Inr ordered \<and>
    m_then (log_reconstruction n (filter (\<lambda>r. \<not> dhas (ns_records s) (rec_id r)) ordered)) (m_then (accept_all (map JObj ordered))
      (m_then persist_snapshot (m_bind (lift (allow_packet (sha256 w) n)) (\<lambda>a. ret (g a))))) (s, w) = (res, (s', w')))"
  using assms by (fastforce simp: reconstruct_body_def split: sum.splits if_splits)

lemma reconstruct_unchanged:
  assumes "durable d s w" and "reconstruct_op p (s, w) = (Inl x, (s', w'))" and same: "files w' = files w"
  shows "durable d s' w'"
proof -
  let ?b = "bump_store ''reconstruct_requests'' s"
  from assms(2) obtain s2 where i: "reconstruct_body p (?b, w) = (Inl x, (s2, w'))"
    and s2: "s' = s2 \<or> s' = bump_store ''rejected_requests'' s2"
    unfolding reconstruct_op_def by (rule counted_cases)
  have b: "durable d ?b w" using assms(1) by simp
  then obtain es where es: "logged d ?b w es" by (auto simp: durable_def)
  have ok: "store_ok (sha256 w) ?b" "ns_dir ?b = Some d" "files w (snapshot_path d) = Some (snapshot_text (sha256 w) ?b)"
    using b by (simp_all add: durable_def)
  have "durable d s2 w'"
  proof (cases "s2 = ?b \<and> w' = w")
    case False
    let ?new = "\<lambda>ordered. filter (\<lambda>r. \<not> dhas (ns_records ?b) (rec_id r)) ordered"
    from reconstruct_steps [OF i] obtain n ordered and g :: "json dict \<Rightarrow> json dict" where
      rs: "resolve_packet (sha256 w) (ns_records ?b) n = Inr ordered"
      and m: "m_then (log_reconstruction n (?new ordered)) (m_then (accept_all (map JObj ordered))
         (m_then persist_snapshot (m_bind (lift (allow_packet (sha256 w) n)) (\<lambda>a. ret (g a)))))
         (?b, w) = (Inl x, (s2, w'))"
      using False by blast
    let ?k = "\<lambda>a. ret (g a)"
    have k: "\<And>a sw. snd (?k a sw) = sw" by simp
    show ?thesis
    proof (cases "?new ordered = []")
      case True
      have "\<forall>r \<in> set ordered. good_record (sha256 w) r \<and> dhas (ns_records ?b) (rec_id r)"
        using resolved_good [OF rs] store_okD(1) [OF ok(1)] True by (auto simp: filter_empty_conv)
      from accept_all_known [OF this] obtain r1 where a: "accept_all (map JObj ordered) (?b, w) = (r1, (?b, w))"
        by (metis prod.collapse)
      have ps: "persist_snapshot (?b, w) = (Inr (), (?b, w))"
        using persist_run [OF ok(1,2)] put_same [OF ok(3)] b by (simp add: durable_def)
      have al: "snd (m_bind (lift (allow_packet (sha256 w) n)) ?k (?b, w)) = (?b, w)"
        using k by (cases "allow_packet (sha256 w) n") simp_all
      have "(s2, w') = (?b, w)" using m True a ps al by (cases r1) (auto simp: log_reconstruction_def)
      with b show ?thesis by simp
    next
      case new: False
      obtain r1 t1 v1 where l: "log_reconstruction n (?new ordered) (?b, w) = (r1, (t1, v1))" by (metis surj_pair)
      from l new have "log_event ''RECONSTRUCT_ALLOW''
        [(''source_packet_sha256'', fld n ''packet_sha256''), (''records'', JArr (map JObj (?new ordered)))] (?b, w) = (r1, (t1, v1))"
        by (simp add: log_reconstruction_def)
      from log_event_cases [OF this es ok(2)] show ?thesis
      proof (elim disjE exE conjE)
        assume "isl r1" "t1 = ?b" "files v1 = files w" "sha256 v1 = sha256 w"
        with m l durable_cong [OF b] show ?thesis by (cases r1) auto
      next
        fix y e
        assume e: "r1 = Inr y" "ns_dir t1 = Some d" "logged d t1 v1 (es @ [e])"
        with m l have "m_then (accept_all (map JObj ordered)) (m_then persist_snapshot (m_bind (lift (allow_packet (sha256 w) n)) ?k))
          (t1, v1) = (Inl x, (s2, w'))" by simp
        from accept_persist_log [OF this e(2) k] have "files w' (event_path d) = files v1 (event_path d)" .
        with log_grows [OF es e(3)] same show ?thesis by simp
      qed
    qed
  qed (use b in simp)
  with s2 show ?thesis by auto
qed

lemma read_only_durable:
  assumes "durable d s w" and "counted k m (s, w) = (res, (s', w'))" and "\<And>sw. snd (m sw) = sw"
  shows "durable d s' w'"
proof -
  from assms(2) obtain s1 where s1: "m (bump_store k s, w) = (res, (s1, w'))"
    "s' = s1 \<or> s' = bump_store ''rejected_requests'' s1" by (rule counted_cases)
  have "(s1, w') = (bump_store k s, w)" using assms(3) [of "(bump_store k s, w)"] s1(1) by simp
  with assms(1) s1(2) show ?thesis by auto
qed

lemma search_packet_durable:
  "durable d s w \<Longrightarrow> search_op a b c (s, w) = (res, (s', w')) \<Longrightarrow> durable d s' w'"
  "durable d s w \<Longrightarrow> packet_op a b (s, w) = (res', (s', w')) \<Longrightarrow> durable d s' w'"
proof -
  show "durable d s w \<Longrightarrow> search_op a b c (s, w) = (res, (s', w')) \<Longrightarrow> durable d s' w'"
    unfolding search_op_def by (erule read_only_durable) (auto simp: search_body_def split: prod.split)
  show "durable d s w \<Longrightarrow> packet_op a b (s, w) = (res', (s', w')) \<Longrightarrow> durable d s' w'"
    unfolding packet_op_def by (erule read_only_durable) (auto split: prod.split sum.split)
qed

text \<open>A new directory: the first event is written and an empty snapshot.\<close>

definition first_event :: "string \<Rightarrow> world \<Rightarrow> json dict" where
  "first_event d w = next_event ''EMPTY_STATE_CREATED'' [(''record_count'', JInt 0)] (empty_store (Some d)) w"

lemma created_run:
  assumes "files w (snapshot_path d) = None" "files w (event_path d) = None"
  shows "\<exists>w'. open_native (Some d) w = (Inr (after_event (first_event d w) (empty_store (Some d))), w') \<and>
    durable d (after_event (first_event d w) (empty_store (Some d))) w' \<and> sha256 w' = sha256 w \<and>
    logged d (after_event (first_event d w) (empty_store (Some d))) w' [first_event d w] \<and> clock w' = clock w"
proof -
  let ?e = "empty_store (Some d)"
  let ?n = "first_event d w"
  let ?p = "[(''record_count'', JInt 0)]"
  have e: "ns_dir ?e = Some d" "ns_records ?e = []" "store_ok (sha256 w) ?e" "ns_seq ?e = 0" "ns_last ?e = None"
    using empty_store_ok by (simp_all add: empty_store_def)
  have p: "normal (JObj ?p)" by (simp add: normal.simps(2))
  let ?w = "put (event_path d) (event_text ?n @ [CHR 10]) (tick w)"
  have l: "log_event ''EMPTY_STATE_CREATED'' ?p (?e, w) = (Inr (), (after_event ?n ?e, ?w))"
    using log_event_run [OF e(1) p] assms(2) by (simp add: first_event_def)
  have ok: "store_ok (sha256 ?w) (after_event ?n ?e)" "ns_dir (after_event ?n ?e) = Some d"
    "length (ns_records (after_event ?n ?e)) \<le> MAX_PACKET_RECORDS" using e by simp_all
  let ?s = "put (snapshot_path d) (snapshot_text (sha256 ?w) (after_event ?n ?e)) ?w"
  have "load_persistent_state d (?e, w) = (Inr (), (after_event ?n ?e, ?s))"
    using assms(1,2) l persist_run [OF ok(1,2)] ok(3)
    by (simp add: load_persistent_state_def load_events_def m_then_def m_bind_def gets_def)
  then have o: "open_native (Some d) w = (Inr (after_event ?n ?e), ?s)" by (simp add: open_native_def)
  have lg: "logged d (after_event ?n ?e) ?s [?n]"
    using p e by (auto simp: logged_def last_event_def log_text_def next_event_def first_event_def)
  then have "durable d (after_event ?n ?e) ?s" using ok by (auto simp: durable_def)
  with o lg show ?thesis by (intro exI [of _ ?s]) simp
qed

lemma created_durable:
  assumes "files w (snapshot_path d) = None" "files w (event_path d) = None"
    and "open_native (Some d) w = (Inr s, w')"
  shows "durable d s w' \<and> sha256 w' = sha256 w"
  using created_run [OF assms(1,2)] assms(3) by auto

end
