(* ===== verification/NativeRestart.thy ===== *)
theory NativeRestart
  imports NativeDurable
begin

text \<open>
  A restart gives back the state, also when the process died after it had logged an insert and
  before it replaced the snapshot.
\<close>

section \<open>The files of a running service\<close>

text \<open>Every event takes one line of the log: no payload holds a line separator of \<open>str.splitlines\<close>.\<close>

definition one_line_each :: "string \<Rightarrow> native_store \<Rightarrow> world \<Rightarrow> bool" where
  "one_line_each d s w \<longleftrightarrow>
     (case files w (event_path d) of None \<Rightarrow> False | Some t \<Rightarrow> int (length (splitlines t)) = ns_seq s)"

text \<open>
  Any sequence of requests and starts of a service.  Left out is a request that was refused after it
  had changed a file: an insert over the record limit, or a reconstruction whose records were logged
  and then refused (\<open>conflicting_packet_blocks_restart\<close> shows what the next start does then).
\<close>

inductive served :: "(string \<Rightarrow> string) \<Rightarrow> string \<Rightarrow> native_store \<Rightarrow> world \<Rightarrow> bool" for sha d where
  created: "files w (snapshot_path d) = None \<Longrightarrow> files w (event_path d) = None \<Longrightarrow> sha256 w = sha \<Longrightarrow>
    open_native (Some d) w = (Inr s, w') \<Longrightarrow> served sha d s w'"
| inserted: "served sha d s w \<Longrightarrow> insert_op a b c (s, w) = (res, (s', w')) \<Longrightarrow>
    \<not> isl res \<or> files w' = files w \<Longrightarrow> served sha d s' w'"
| searched: "served sha d s w \<Longrightarrow> search_op a b c (s, w) = (found, (s', w')) \<Longrightarrow> served sha d s' w'"
| packed: "served sha d s w \<Longrightarrow> packet_op a b (s, w) = (res, (s', w')) \<Longrightarrow> served sha d s' w'"
| reconstructed: "served sha d s w \<Longrightarrow> reconstruct_op p (s, w) = (found, (s', w')) \<Longrightarrow>
    \<not> isl found \<or> files w' = files w \<Longrightarrow> served sha d s' w'"
| restarted: "served sha d s w \<Longrightarrow> one_line_each d s w \<Longrightarrow> open_native (Some d) w = (Inr t, w') \<Longrightarrow> served sha d t w'"

section \<open>Reading the files\<close>

lemma same_text:
  assumes s: "store_ok sha s" and t: "store_ok sha t" and same: "same_content t s"
  shows "dumps_canonical (JObj (document t)) = dumps_canonical (JObj (document s))"
    and "ns_seq t = ns_seq s \<Longrightarrow> ns_last t = ns_last s \<Longrightarrow> snapshot_text sha t = snapshot_text sha s"
    and "length (ns_records t) = length (ns_records s)"
proof -
  have eq: "\<And>k. dget (ns_records t) k = dget (ns_records (canon_store s)) k"
    using same by (simp add: same_content_def)
  from ordered_same [OF canon_ok [OF s] t eq]
  have o: "ordered_records t = map sorted_record (ordered_records s)"
    and l: "length (ns_records t) = length (ns_records s)" by (simp_all add: canon_ordered)
  show "length (ns_records t) = length (ns_records s)" by (rule l)
  have d: "sort_keys (JObj (document t)) = sort_keys (JObj (document s))"
    by (simp add: document_def o sort_keys.simps(2) [of "_ # _"] sorted_same_text)
  then show "dumps_canonical (JObj (document t)) = dumps_canonical (JObj (document s))" by (rule dumps_cong)
  assume "ns_seq t = ns_seq s" "ns_last t = ns_last s"
  with d have "sort_keys (JObj (snapshot_dict sha t)) = sort_keys (JObj (snapshot_dict sha s))"
    using dumps_cong [OF d]
    by (simp add: snapshot_dict_def snapshot_body_def sort_keys.simps(2) [of "_ # _"])
  from dumps_cong [OF this] show "snapshot_text sha t = snapshot_text sha s" by (simp only: snapshot_text_def)
qed

definition opened_on :: "string \<Rightarrow> json dict list \<Rightarrow> world \<Rightarrow> native_store \<Rightarrow> bool" where
  "opened_on d es w u \<longleftrightarrow>
     store_ok (sha256 w) u \<and> ns_dir u = Some d \<and> ns_seq u = int (length es) \<and> ns_last u = last_event es"

text \<open>Loading, up to the events that the snapshot does not cover.\<close>

abbreviation replayed :: "int \<Rightarrow> json dict list \<Rightarrow> json dict list" where
  "replayed n es \<equiv> map (\<lambda>e. dict_of (sort_keys (JObj e))) (drop (nat n) es)"

lemma load_files:
  assumes ok: "store_ok (sha256 w) s0" and snap: "files w (snapshot_path d) = Some (snapshot_text (sha256 w) s0)"
    and log: "files w (event_path d) = Some (log_text es)" and chain: "chained (sha256 w) 0 None es"
    and lines: "length (splitlines (log_text es)) = length es"
  shows "\<exists>u. opened_on d es w u \<and> same_content u s0 \<and>
    load_persistent_state d (empty_store (Some d), w) =
      m_then (replay_all (replayed (ns_seq s0) es)) persist_snapshot (u, w)"
proof -
  let ?tail = "replayed (ns_seq s0) es"
  obtain u where u: "accept_all (map (\<lambda>r. sort_keys (JObj r)) (ordered_records s0)) (empty_store (Some d), w) = (Inr (), (u, w))"
    "store_ok (sha256 w) u" "same_content u s0" "frame (empty_store (Some d)) u"
    using snapshot_accepted [OF ok] by blast
  have ls: "load_snapshot (snapshot_text (sha256 w) s0) (empty_store (Some d), w) = (Inr (ns_seq s0), (u, w))"
    using u(1) by (simp add: load_snapshot_def snapshot_read [OF ok] m_then_def m_bind_def [of "accept_all _"] py_int_def)
  let ?u = "u\<lparr>ns_seq := int (length es), ns_last := last_event es\<rparr>"
  have "read_events (sha256 w) (ns_seq s0) 0 None (splitlines (log_text es)) = Inr (?tail, last_event es)"
    using read_chain [OF chain, of "ns_seq s0"] log_lines [OF lines] by (simp add: last_event_def)
  then have le: "load_events d (ns_seq s0) (u, w) = (Inr ?tail, (?u, w))"
    by (simp add: load_events_def log lines)
  have idle: "m_bind (ret ()) (\<lambda>_. persist_snapshot) = persist_snapshot" by (rule ext) simp
  have "opened_on d es w ?u" using u(2,4) by (simp add: opened_on_def frame_def empty_store_def)
  moreover have "same_content ?u s0" using u(3) by (simp add: same_content_def)
  moreover have "load_persistent_state d (empty_store (Some d), w) = m_then (replay_all ?tail) persist_snapshot (?u, w)"
    using ls le idle
    by (simp add: load_persistent_state_def gets_def m_then_def m_bind_def [of "load_events _ _"]
        m_bind_def [of "load_snapshot _"] m_bind_def [of "\<lambda>_. (_, _)"] snap del: m_bind_lift)
  ultimately show ?thesis by blast
qed

lemma reload:
  assumes ok: "store_ok (sha256 w) s0" and snap: "files w (snapshot_path d) = Some (snapshot_text (sha256 w) s0)"
    and log: "files w (event_path d) = Some (log_text es)" and chain: "chained (sha256 w) 0 None es"
    and lines: "length (splitlines (log_text es)) = length es"
    and tail: "\<And>u. opened_on d es w u \<Longrightarrow> same_content u s0 \<Longrightarrow>
      \<exists>t. replay_all (replayed (ns_seq s0) es) (u, w) = (Inr (), (t, w)) \<and>
        opened_on d es w t \<and> length (ns_records t) \<le> MAX_PACKET_RECORDS \<and> same_content t s"
  shows "\<exists>t. open_native (Some d) w = (Inr t, put (snapshot_path d) (snapshot_text (sha256 w) t) w) \<and>
    opened_on d es w t \<and> same_content t s"
proof -
  obtain u where u: "opened_on d es w u" "same_content u s0" "load_persistent_state d (empty_store (Some d), w) =
      m_then (replay_all (replayed (ns_seq s0) es)) persist_snapshot (u, w)"
    using load_files [OF ok snap log chain lines] by blast
  obtain t where t: "replay_all (replayed (ns_seq s0) es) (u, w) = (Inr (), (t, w))" "opened_on d es w t"
    "length (ns_records t) \<le> MAX_PACKET_RECORDS" "same_content t s" using tail [OF u(1,2)] by blast
  have "persist_snapshot (t, w) = (Inr (), (t, put (snapshot_path d) (snapshot_text (sha256 w) t) w))"
    using persist_run [of w t d] t(2,3) by (simp add: opened_on_def)
  with u(3) t show ?thesis
    by (auto simp: open_native_def m_then_def m_bind_def [of "replay_all _"])
qed

section \<open>A restart\<close>

lemma one_line_log: "logged d s w es \<Longrightarrow> one_line_each d s w \<longleftrightarrow> length (splitlines (log_text es)) = length es"
  by (auto simp: one_line_each_def logged_def)

lemma content_refl: "(\<And>k. dget (ns_records t) k = dget (ns_records u) k) \<Longrightarrow> same_content u s \<Longrightarrow> same_content t s"
  by (simp add: same_content_def)

lemma opened_text:
  assumes "opened_on d es w t" and "same_content t s" and "store_ok (sha256 w) s" and "logged d s w es"
  shows "snapshot_text (sha256 w) t = snapshot_text (sha256 w) s"
  using same_text(2) [OF assms(3) _ assms(2)] assms(1,4) by (simp add: opened_on_def logged_def)

lemma restart_durable:
  assumes dur: "durable d s w" and one: "one_line_each d s w"
  shows "\<exists>t es. open_native (Some d) w = (Inr t, w) \<and> opened_on d es w t \<and> same_content t s \<and> logged d s w es"
proof -
  obtain es where es: "logged d s w es" using dur by (auto simp: durable_def)
  note d = dur [unfolded durable_def] es [unfolded logged_def]
  have len: "length (ns_records s) \<le> MAX_PACKET_RECORDS" and ok: "store_ok (sha256 w) s"
    and snap: "files w (snapshot_path d) = Some (snapshot_text (sha256 w) s)" using d by simp_all
  have none: "drop (nat (ns_seq s)) es = []" using d by simp
  have "\<exists>t. open_native (Some d) w = (Inr t, put (snapshot_path d) (snapshot_text (sha256 w) t) w) \<and>
    opened_on d es w t \<and> same_content t s"
  proof (rule reload [OF ok snap])
    show "files w (event_path d) = Some (log_text es)" "chained (sha256 w) 0 None es" using d by simp_all
    show "length (splitlines (log_text es)) = length es" using one one_line_log [OF es] by simp
    fix u assume u: "opened_on d es w u" "same_content u s"
    then have "length (ns_records u) = length (ns_records s)"
      using same_text(3) [OF ok _ u(2)] by (simp add: opened_on_def)
    with u len none show "\<exists>t. replay_all (map (\<lambda>e. dict_of (sort_keys (JObj e))) (drop (nat (ns_seq s)) es)) (u, w) =
        (Inr (), (t, w)) \<and> opened_on d es w t \<and> length (ns_records t) \<le> MAX_PACKET_RECORDS \<and> same_content t s"
      by (intro exI [of _ u]) simp
  qed
  then obtain t where t: "open_native (Some d) w = (Inr t, put (snapshot_path d) (snapshot_text (sha256 w) t) w)"
    "opened_on d es w t" "same_content t s" by blast
  have "put (snapshot_path d) (snapshot_text (sha256 w) t) w = w"
    using snap opened_text [OF t(2,3) ok es] by (intro put_same) simp
  with t es show ?thesis by auto
qed

lemma opened_durable:
  assumes "opened_on d es w t" "same_content t s" "durable d s w" "logged d s w es"
  shows "durable d t w"
proof -
  have ok: "store_ok (sha256 w) s" and t: "store_ok (sha256 w) t" using assms by (simp_all add: durable_def opened_on_def)
  from same_text(3) [OF ok t assms(2)] opened_text [OF assms(1,2) ok assms(4)] assms show ?thesis
    by (auto simp: durable_def opened_on_def logged_def)
qed

lemma served_durable: "served sha d s w \<Longrightarrow> durable d s w \<and> sha256 w = sha"
proof (induction rule: served.induct)
  case (created w s w')
  then show ?case using created_durable by blast
next
  case (inserted s w a b c res s' w')
  have "grows (s, w) (s', w')" using safe_insert [of a b c] inserted.hyps(2) by (metis keeps_def snd_conv)
  with inserted insert_durable show ?case by (auto simp: grows_def)
next
  case (searched s w a b c found s' w')
  have "grows (s, w) (s', w')" using safe_search [of a b c] searched.hyps(2) by (metis keeps_def snd_conv)
  with searched search_packet_durable(1) show ?case by (auto simp: grows_def)
next
  case (packed s w a b res s' w')
  have "grows (s, w) (s', w')" using safe_packet [of a b] packed.hyps(2) by (metis keeps_def snd_conv)
  with packed search_packet_durable(2) show ?case by (auto simp: grows_def)
next
  case (reconstructed s w p found s' w')
  have g: "grows (s, w) (s', w')" using safe_reconstruct [of p] reconstructed.hyps(2) by (metis keeps_def snd_conv)
  have dur: "durable d s w" and op: "reconstruct_op p (s, w) = (found, (s', w'))" using reconstructed by simp_all
  have "durable d s' w'"
  proof (cases found)
    case (Inl x)
    with reconstructed.hyps(3) have "files w' = files w" by simp
    with reconstruct_unchanged [OF dur op [unfolded Inl]] show ?thesis by simp
  next
    case (Inr R)
    from reconstruct_durable [OF dur op [unfolded Inr]] show ?thesis .
  qed
  with g reconstructed.IH show ?case by (auto simp: grows_def)
next
  case (restarted s w t w')
  obtain u es where u: "open_native (Some d) w = (Inr u, w)" "opened_on d es w u" "same_content u s" "logged d s w es"
    using restart_durable restarted by blast
  with restarted opened_durable [OF u(2,3)] show ?case by auto
qed

section \<open>A restart after a crash\<close>

lemma replay_insert:
  assumes good: "good_record (sha256 w) r" and e: "e = sealed_event sha q now ''INSERT'' l [(''record'', JObj r)]"
    and new: "dget (ns_records u) (rec_id r) = None" and i: "rec_index r = int (length (bucket u (rec_slot r)))"
  shows "replay_event (dict_of (sort_keys (JObj e))) (u, w) = (Inr (), (with_record (sorted_record r) u, w))"
proof -
  let ?d = "dict_of (sort_keys (JObj e))"
  have n: "normal (JObj [(''record'', JObj r)])" using good_record_normal [OF good] by (simp add: normal.simps(2))
  have wf: "dict_wf e" unfolding e by (rule normal_jwf [OF normal_sealed [OF n]])
  have k: "fld ?d ''event_type'' = JStr ''INSERT''" unfolding fld_sort_keys [OF wf] by (simp add: e event_fields)
  have "dget e ''payload'' = Some (JObj [(''record'', JObj r)])"
    by (simp add: e sealed_event_def native_event_def Let_def)
  then have p: "dget ?d ''payload'' = Some (JObj [(''record'', sort_keys (JObj r))])"
    unfolding dget_sorted [OF wf] by (simp add: sort_keys.simps(2) [of "[_]"])
  have "accept_record (sort_keys (JObj r)) (u, w) = (Inr True, (with_record (sorted_record r) u, w))"
    using accept_read_back [OF good] accept_good_new [OF sorted_good [OF good]] new i by simp
  then show ?thesis
    by (simp add: replay_event_def k p Let_def get_attr_def m_bind_def [of "accept_record _"])
qed

lemma bucket_positions:
  assumes s: "store_ok sha s" and u: "store_ok sha u" and same: "same_content u s"
  shows "length (bucket u slot) = length (bucket s slot)"
proof -
  have le: "length (bucket a slot) \<le> length (bucket b slot)"
    if ok: "store_ok sha a" "store_ok sha b" and
      ex: "\<And>k r. dget (ns_records a) k = Some r \<Longrightarrow>
        \<exists>q. dget (ns_records b) k = Some q \<and> rec_slot q = rec_slot r \<and> rec_index q = rec_index r" for a b
  proof (rule ccontr)
    let ?i = "length (bucket b slot)"
    assume "\<not> length (bucket a slot) \<le> ?i"
    then have i: "?i < length (bucket a slot)" by simp
    have "bucket_ok a slot" using ok(1) by (simp add: store_ok_def)
    with i obtain r where r: "dget (ns_records a) (bucket a slot ! ?i) = Some r" "rec_slot r = slot" "rec_index r = int ?i"
      unfolding bucket_ok_def by blast
    from ex [OF r(1)] obtain q where q: "dget (ns_records b) (bucket a slot ! ?i) = Some q" "rec_slot q = slot" "rec_index q = int ?i"
      using r by auto
    from store_okD(3) [OF ok(2) q(1)] q show False by simp
  qed
  have "length (bucket u slot) \<le> length (bucket s slot)"
    by (rule le [OF u s]) (use same in \<open>auto simp: same_content_def\<close>)
  moreover have "length (bucket s slot) \<le> length (bucket u slot)"
    by (rule le [OF s u]) (use same in \<open>auto simp: same_content_def\<close>)
  ultimately show ?thesis by simp
qed

text \<open>The world in which the log has the event of an insert and the snapshot is still the old one.\<close>

lemma torn_restart:
  assumes b: "durable d b w" and lg: "logged d b w es" and good: "good_record (sha256 w) r"
    and new: "dget (ns_records b) (rec_id r) = None" and i: "rec_index r = int (length (bucket b (rec_slot r)))"
    and e: "e = next_event ''INSERT'' [(''record'', JObj r)] b w" and s1: "s1 = with_record r (after_event e b)"
    and dur: "durable d s1 w1" and lg1: "logged d s1 w1 (es @ [e])" and sha: "sha256 w1 = sha256 w"
    and one: "one_line_each d s1 w1" and c: "c = w1\<lparr>files := (files w1)(snapshot_path d := files w (snapshot_path d))\<rparr>"
  shows "\<exists>t. open_native (Some d) c = (Inr t, w1) \<and> opened_on d (es @ [e]) w1 t \<and> same_content t s1"
proof -
  have cs: "sha256 c = sha256 w" "files c (event_path d) = files w1 (event_path d)"
    "files c (snapshot_path d) = files w (snapshot_path d)" using sha by (simp_all add: c)
  have ok: "store_ok (sha256 c) b" and ok1: "store_ok (sha256 c) s1" using b dur sha cs by (simp_all add: durable_def)
  have seq: "ns_seq b = int (length es)" using lg by (simp add: logged_def)
  have "\<exists>t. open_native (Some d) c = (Inr t, put (snapshot_path d) (snapshot_text (sha256 c) t) c) \<and>
    opened_on d (es @ [e]) c t \<and> same_content t s1"
  proof (rule reload [OF ok])
    show "files c (snapshot_path d) = Some (snapshot_text (sha256 c) b)" using b cs by (simp add: durable_def)
    show "files c (event_path d) = Some (log_text (es @ [e]))" "chained (sha256 c) 0 None (es @ [e])"
      using lg1 cs sha by (simp_all add: logged_def)
    show "length (splitlines (log_text (es @ [e]))) = length (es @ [e])" using one one_line_log [OF lg1] by simp
    fix u assume u: "opened_on d (es @ [e]) c u" "same_content u b"
    let ?t = "with_record (sorted_record r) u"
    have uok: "store_ok (sha256 c) u" using u(1) by (simp add: opened_on_def)
    have ui: "dget (ns_records u) (rec_id r) = None" "rec_index r = int (length (bucket u (rec_slot r)))"
      using u(2) new i bucket_positions [OF ok uok u(2)] by (simp_all add: same_content_def)
    have "replay_event (dict_of (sort_keys (JObj e))) (u, c) = (Inr (), (?t, c))"
      using replay_insert [OF _ e [unfolded next_event_def]] good ui cs(1) by metis
    moreover have "store_ok (sha256 c) ?t" using uok sorted_good [of "sha256 c" r] good ui cs(1) by (intro with_record_ok) simp_all
    moreover have "same_content ?t s1" using u(2) by (simp add: same_content_def s1)
    moreover from this have "length (ns_records ?t) = length (ns_records s1)"
      using same_text(3) [OF ok1] calculation(2) by blast
    ultimately show "\<exists>t. replay_all (map (\<lambda>e. dict_of (sort_keys (JObj e))) (drop (nat (ns_seq b)) (es @ [e]))) (u, c) =
        (Inr (), (t, c)) \<and> opened_on d (es @ [e]) c t \<and> length (ns_records t) \<le> MAX_PACKET_RECORDS \<and> same_content t s1"
      using seq u(1) dur by (intro exI [of _ ?t]) (simp add: m_then_def m_bind_def [of "replay_event _"] opened_on_def durable_def)
  qed
  then obtain t where t: "open_native (Some d) c = (Inr t, put (snapshot_path d) (snapshot_text (sha256 c) t) c)"
    "opened_on d (es @ [e]) c t" "same_content t s1" by blast
  have t1: "opened_on d (es @ [e]) w1 t" using t(2) cs sha by (simp add: opened_on_def)
  have "files w1 (snapshot_path d) = Some (snapshot_text (sha256 c) t)"
    using opened_text [OF t1 t(3) _ lg1] dur sha cs(1) by (simp add: durable_def)
  then have "put (snapshot_path d) (snapshot_text (sha256 c) t) c = w1"
    by (simp add: c put_def fun_upd_idem)
  with t(1,3) t1 show ?thesis by auto
qed

lemma same_sha:
  assumes "store_ok sha s" "store_ok sha t" "same_content t s" "length (ns_records s) \<le> MAX_PACKET_RECORDS"
  shows "state_sha256 sha t JNull = state_sha256 sha s JNull"
  using same_text(1,3) [OF assms(1-3)] assms export_all [OF assms(1)] export_all [OF assms(2)]
    document_ordered(2) [OF assms(1)] document_ordered(2) [OF assms(2)]
  by (simp add: state_sha256_def sha_normal)

text \<open>
  C7: a successful insert survives a crash.  The service was created in an empty directory and then
  handled any sequence of requests and restarts, with two conditions (\<open>served\<close>): no insert or
  reconstruction before was refused after it had already changed a file, and every event takes one
  line of the log.  If the process dies after the insert was logged, before or after the snapshot
  was replaced, the next start succeeds: it holds the same records as the state after the insert
  (payload keys sorted), the same state digest, event number and chain head, and it leaves the files
  as the insert would have left them.
\<close>

theorem restart_recovers:
  assumes "served sha d s w" and "insert_op a b c (s, w) = (Inr r, (s', w'))" and "one_line_each d s' w'"
    and "crashed = w' \<or> crashed = w'\<lparr>files := (files w')(snapshot_path d := files w (snapshot_path d))\<rparr>"
  shows "\<exists>t. open_native (Some d) crashed = (Inr t, w') \<and> same_content t s' \<and>
    ns_seq t = ns_seq s' \<and> ns_last t = ns_last s' \<and> state_sha256 sha t JNull = state_sha256 sha s' JNull"
proof -
  have "served sha d s' w'" using served.inserted [OF assms(1,2)] by simp
  from served_durable [OF this] have dur: "durable d s' w'" and sha: "sha256 w' = sha" by simp_all
  let ?b = "bump_store ''insert_requests'' s"
  have b: "durable d ?b w" "sha256 w = sha" using served_durable [OF assms(1)] by simp_all
  then obtain es where es: "logged d ?b w es" by (auto simp: durable_def)
  have ok: "store_ok (sha256 w) ?b" "ns_dir ?b = Some d" using b by (simp_all add: durable_def)
  obtain s1 where run: "insert_body a b c (?b, w) = (Inr r, (s1, w'))"
    and s1: "s' = s1 \<or> s' = bump_store ''rejected_requests'' s1"
    using assms(2) unfolding insert_op_def by (rule counted_cases)
  have same_seq: "ns_seq s' = ns_seq s1" "ns_last s' = ns_last s1" "ns_records s' = ns_records s1"
    using s1 by (auto simp: bump_store_def)
  have "\<exists>t es'. open_native (Some d) crashed = (Inr t, w') \<and> opened_on d es' w' t \<and> same_content t s' \<and> logged d s' w' es'"
  proof (cases "crashed = w'")
    case True
    with restart_durable [OF dur assms(3)] show ?thesis by blast
  next
    case False
    then have c: "crashed = w'\<lparr>files := (files w')(snapshot_path d := files w (snapshot_path d))\<rparr>" using assms(4) by simp
    show ?thesis
    proof (rule insert_run [OF ok es run])
      assume "s1 = ?b" "w' = w"
      then have "crashed = w'" by (simp add: c)
      with False show ?thesis by simp
    next
      fix r' e
      assume new: "good_record (sha256 w) r'" "dget (ns_records ?b) (rec_id r') = None"
        "rec_index r' = int (length (bucket ?b (rec_slot r')))" "e = next_event ''INSERT'' [(''record'', JObj r')] ?b w"
        "s1 = with_record r' (after_event e ?b)" "logged d s1 w' (es @ [e])" "sha256 w' = sha256 w"
      have d1: "durable d s1 w'" using dur s1 by auto
      have "one_line_each d s1 w'" using assms(3) same_seq by (simp only: one_line_each_def)
      have lg: "logged d s' w' (es @ [e])" using new(6) same_seq by (simp only: logged_def)
      from torn_restart [OF b(1) es new(1-5) d1 new(6,7) \<open>one_line_each d s1 w'\<close> c]
      obtain t where "open_native (Some d) crashed = (Inr t, w')" "opened_on d (es @ [e]) w' t" "same_content t s1"
        by blast
      moreover from this(3) have "same_content t s'" using same_seq(3) by (simp add: same_content_def)
      ultimately show ?thesis using lg by blast
    qed
  qed
  then obtain t es' where t: "open_native (Some d) crashed = (Inr t, w')" "opened_on d es' w' t" "same_content t s'"
    "logged d s' w' es'" by blast
  moreover have "state_sha256 sha t JNull = state_sha256 sha s' JNull"
    using t dur sha by (intro same_sha) (simp_all add: durable_def opened_on_def)
  ultimately show ?thesis by (auto simp: opened_on_def logged_def)
qed

section \<open>A concrete crash\<close>

lemma plain_one_line:
  assumes "logged d s w es" and "\<forall>e \<in> set es. plain_json (JObj e)"
  shows "one_line_each d s w"
proof -
  have "splitlines (log_text es) = map event_text es" using assms(2)
  proof (induction es)
    case (Cons e es)
    have "\<forall>g \<in> set (py_chars (event_text e)). \<not> is_break g"
      using Cons.prems by (intro plain_no_break) (simp add: event_text_def plain_dumps del: plain_json.simps)
    from split_groups_line [OF this, of "[]"] Cons show ?case by (simp add: log_text_Cons)
  qed (simp add: log_text_def splitlines_def)
  then have "length (splitlines (log_text es)) = length es" by simp
  then show ?thesis using one_line_log [OF assms(1)] by blast
qed

lemma plain_digest [simp]: "plain (demo_digest t)"
  by (simp add: demo_digest_def plain_char_def list_all_length)

lemma plain_demo:
  assumes "clock w = (\<lambda>_. [])" and "sha256 w = demo_digest"
  shows "ns_last s = None \<or> ns_last s = Some (demo_digest x) \<Longrightarrow> plain_json (JObj p) \<Longrightarrow> plain k \<Longrightarrow>
      plain_json (JObj (next_event k p s w))"
    and "plain i \<Longrightarrow> plain_json (JObj [(''record'', JObj (whole_record demo_digest i 5 c [(''y'', JInt 1), (''x'', JStr ''v'')]))])"
    and "plain_json (JObj [(''record_count'', JInt 0)])" "plain ''INSERT''" "plain ''EMPTY_STATE_CREATED''"
  using assms
  by (auto simp: next_event_def sealed_event_def native_event_def Let_def last_json_def PROTOCOL_VERSION_def
      whole_record_def record_body_def plain_char_def)

abbreviation demo_payload :: "json dict" where
  "demo_payload \<equiv> [(''y'', JInt 1), (''x'', JStr ''v'')]"

text \<open>A service that was just created and takes its first record.\<close>

lemma demo_insert:
  assumes i: "is_record_id i" "plain i"
  shows "\<exists>s w r s' w' es x. served demo_digest ''d'' s w \<and> ns_records s = [] \<and>
    insert_op (JStr i) (JInt 5) (JObj demo_payload) (s, w) = (Inr r, (s', w')) \<and> dkeys (ns_records s') = [i] \<and>
    bucket s' 5 \<noteq> [] \<and> logged ''d'' s' w' es \<and> (\<forall>e \<in> set es. plain_json (JObj e)) \<and>
    clock w' = (\<lambda>_. []) \<and> ns_last s' = Some (demo_digest x)"
proof -
  let ?w = demo_native_world
  let ?p = demo_payload
  let ?s = "after_event (first_event ''d'' ?w) (empty_store (Some ''d''))"
  have none: "files ?w (snapshot_path ''d'') = None" "files ?w (event_path ''d'') = None"
    and sha0: "sha256 ?w = demo_digest" by (simp_all add: demo_native_world_def)
  obtain w where o: "open_native (Some ''d'') ?w = (Inr ?s, w)" and dur: "durable ''d'' ?s w"
    and sha: "sha256 w = demo_digest" and lg: "logged ''d'' ?s w [first_event ''d'' ?w]" and clk: "clock w = (\<lambda>_. [])"
    using created_run [OF none] sha0 by (auto simp: demo_native_world_def)
  have served: "served demo_digest ''d'' ?s w" by (rule served.created [OF none sha0 o])
  let ?b = "bump_store ''insert_requests'' ?s"
  have empty: "ns_records ?s = []" by (simp add: empty_store_def)
  have k: "list_all (\<lambda>k. ascii_word k \<and> k \<noteq> [] \<and> lower k \<notin> set FORBIDDEN_CREDENTIAL_KEYS) [''y'', ''x'']" by code_simp
  have "normal (JObj ?p)" using k ascii_key by (simp add: normal.simps(2))
  moreover have "(5 :: int) \<le> MAX_TIME_SLOT" by (simp add: MAX_TIME_SLOT_def)
  moreover have "length (dumps_canonical (JObj ?p)) = 15" by code_simp
  then have "length (dumps_canonical (JObj ?p)) \<le> MAX_PAYLOAD_BYTES" by (simp only: MAX_PAYLOAD_BYTES_def)
  moreover have b: "store_ok (sha256 w) ?b" "ns_dir ?b = Some ''d''" using dur by (simp_all add: durable_def)
  ultimately obtain q l w' where run: "insert_body (JStr i) (JInt 5) (JObj ?p) (?b, w) =
      (Inr (whole_record demo_digest i 5 (int (length (bucket ?b 5))) ?p),
       (with_record (whole_record demo_digest i 5 (int (length (bucket ?b 5))) ?p) (?b\<lparr>ns_seq := q, ns_last := l\<rparr>), w'))"
    using insert_new [of w ?b i 5 ?p] i empty sha by (auto simp: MAX_PACKET_RECORDS_def)
  let ?r = "whole_record demo_digest i 5 (int (length (bucket ?b 5))) ?p"
  define s' where "s' = with_record ?r (?b\<lparr>ns_seq := q, ns_last := l\<rparr>)"
  note run = run [folded s'_def]
  have op: "insert_op (JStr i) (JInt 5) (JObj ?p) (?s, w) = (Inr ?r, (s', w'))"
    unfolding insert_op_def by (rule counted_Inr) (rule run)
  have keys: "dkeys (ns_records s') = [i]" "bucket s' 5 \<noteq> []"
    using empty by (simp_all add: s'_def rec_id_def rec_slot_def)
  have first: "plain_json (JObj (first_event ''d'' ?w))"
    unfolding first_event_def
    by (rule plain_demo(1) [OF _ sha0 _ plain_demo(3,5) [OF clk sha]]) (simp_all add: demo_native_world_def empty_store_def)
  have "ns_last ?b = Some (event_sha (first_event ''d'' ?w))" by (simp add: bump_store_def)
  then have last: "ns_last ?b = None \<or> ns_last ?b = Some (demo_digest (dumps_canonical (JObj (dpop ''event_sha256'' (first_event ''d'' ?w)))))"
    unfolding first_event_def next_event_def event_body_left by (simp add: event_sha_def event_fields sha0)
  have blg: "logged ''d'' ?b w [first_event ''d'' ?w]" using lg by (simp add: logged_def bump_store_def)
  have "\<exists>es x. logged ''d'' s' w' es \<and> (\<forall>e \<in> set es. plain_json (JObj e)) \<and> clock w' = (\<lambda>_. []) \<and> ns_last s' = Some (demo_digest x)"
  proof (rule insert_run [OF b blg run])
    assume "s' = ?b"
    then show ?thesis using keys(1) empty by simp
  next
    fix r e
    assume e: "e = next_event ''INSERT'' [(''record'', JObj r)] ?b w" and lg': "logged ''d'' s' w' ([first_event ''d'' ?w] @ [e])"
      and s': "s' = with_record r (after_event e ?b)" and w': "clock w' = clock w"
      and "Inr ?r = (Inr r :: py_error + json dict) \<and> durable ''d'' s' w' \<or>
        isl (Inr ?r :: py_error + json dict) \<and> length (ns_records s') > MAX_PACKET_RECORDS"
    then have "r = ?r" by simp
    then have "plain_json (JObj e)"
      using plain_demo(1) [OF clk sha last plain_demo(2) [OF clk sha i(2)] plain_demo(4) [OF clk sha]] e
      by (simp del: plain_json.simps)
    moreover have "ns_last s' = Some (demo_digest (dumps_canonical (JObj (dpop ''event_sha256'' e))))"
      unfolding s' e next_event_def event_body_left by (simp add: event_sha_def event_fields sha)
    ultimately show ?thesis using lg' first w' clk
      by (intro exI [of _ "[first_event ''d'' ?w] @ [e]"] exI [of _ "dumps_canonical (JObj (dpop ''event_sha256'' e))"])
        (simp del: plain_json.simps)
  qed
  then obtain es x where fin: "logged ''d'' s' w' es" "\<forall>e \<in> set es. plain_json (JObj e)" "clock w' = (\<lambda>_. [])"
    "ns_last s' = Some (demo_digest x)" by (elim exE conjE) (rule that)
  show ?thesis by (intro exI conjI) (rule served empty op keys fin)+
qed

theorem restart_recovers_witness:
  "\<exists>s w r s' w' t. served demo_digest ''d'' s w \<and>
     insert_op (JStr ''a'') (JInt 5) (JObj demo_payload) (s, w) = (Inr r, (s', w')) \<and>
     open_native (Some ''d'') (w'\<lparr>files := (files w')(snapshot_path ''d'' := files w (snapshot_path ''d''))\<rparr>) = (Inr t, w') \<and>
     dhas (ns_records t) ''a'' \<and> \<not> dhas (ns_records s) ''a''"
proof -
  have "is_record_id ''a''" "plain ''a''" by (simp_all add: is_record_id_def is_id_char_def is_digit_def)
  from demo_insert [OF this] obtain s w r s' w' es where s: "served demo_digest ''d'' s w" "ns_records s = []"
    "insert_op (JStr ''a'') (JInt 5) (JObj demo_payload) (s, w) = (Inr r, (s', w'))" "dkeys (ns_records s') = [''a'']"
    and lg: "logged ''d'' s' w' es" "\<forall>e \<in> set es. plain_json (JObj e)" by (elim exE conjE) (rule that)
  from restart_recovers [OF s(1,3) plain_one_line [OF lg] disjI2 [OF refl]]
  obtain t where "open_native (Some ''d'') (w'\<lparr>files := (files w')(snapshot_path ''d'' := files w (snapshot_path ''d''))\<rparr>) = (Inr t, w')"
    "same_content t s'" by blast
  moreover from this(2) s(4) have "dhas (ns_records t) ''a''" by (auto simp: same_content_def dhas_def)
  moreover have "\<not> dhas (ns_records s) ''a''" using s(2) by (simp add: dhas_def)
  ultimately show ?thesis using s(1,3) by blast
qed

end
