(* ===== verification/NativeConflict.thy ===== *)
theory NativeConflict
  imports NativeRestart
begin

text \<open>
  A packet that passes every check and still does not fit: it is refused after it was logged, and
  the log then refuses every start.
\<close>

section \<open>A packet without references\<close>

lemma packet_op_none:
  assumes "store_ok (sha256 v) u" and "length (ns_records u) \<le> MAX_PACKET_RECORDS"
  shows "packet_op JNull JNull (u, v) =
    (Inr (packet_of (sha256 v) (bump_store ''packet_requests'' u) []), (bump_store ''packet_requests'' u, v))"
proof -
  have "lookup_dict JNull = Inr []" by (simp add: lookup_dict_def)
  with packet_built(1) [of "sha256 v" "bump_store ''packet_requests'' u" "[]"] assms show ?thesis
    unfolding packet_op_def by (intro counted_Inr) (simp add: selected_all)
qed

lemma resolves_without_references:
  assumes "store_ok sha u"
  shows "resolve_packet sha records (packet_of sha u []) = Inr (ordered_records u)"
proof -
  have d: "delivery [] r = ''STATE_ATOM''" for r by (simp add: delivery_def get_or_none_def)
  have "resolve_entry records atoms (dict_of (reference_entry [] r)) = resolve_entry [] atoms (dict_of (reference_entry [] r))"
    for atoms r by (simp add: resolve_entry_def entry_fields d Let_def)
  then have "map_err (resolve_entry records atoms) (map dict_of (map (reference_entry []) rs)) =
      map_err (resolve_entry [] atoms) (map dict_of (map (reference_entry []) rs))" for atoms rs
    by (simp add: map_err_map)
  then have "resolve_packet sha records (packet_of sha u []) = resolve_packet sha [] (packet_of sha u [])"
    by (simp only: resolve_packet_def Let_def packet_entries)
  moreover have "part_of (empty_store None) u" by (simp add: part_of_def empty_store_def)
  then have "resolve_packet sha [] (packet_of sha u []) = Inr (ordered_records u)"
    using packet_resolves [OF assms, of "empty_store None"] by (simp add: empty_store_def lookup_part_def)
  ultimately show ?thesis by simp
qed

lemma only_record_first:
  assumes u: "store_ok sha u" "ns_records u = [(k, r)]"
  shows "rec_index r = 0"
proof -
  have good: "good_record sha r" and at: "nat (rec_index r) < length (bucket u (rec_slot r))"
    using store_okD(1,3) [OF u(1), of k r] u(2) by simp_all
  have "bucket_ok u (rec_slot r)" using u(1) by (simp add: store_ok_def)
  moreover have "0 < length (bucket u (rec_slot r))" by (rule le_less_trans [OF le0 at])
  ultimately obtain q where "dget (ns_records u) (bucket u (rec_slot r) ! 0) = Some q" "rec_index q = int 0"
    unfolding bucket_ok_def by blast
  with u(2) show ?thesis by (simp split: if_splits)
qed

text \<open>The event of a reconstruction that brings one record.\<close>

abbreviation bring :: "json \<Rightarrow> json dict \<Rightarrow> json dict" where
  "bring h r \<equiv> [(''source_packet_sha256'', h), (''records'', JArr [JObj r])]"

lemma one_record_refused:
  assumes u: "store_ok sha u" "ns_records u = [(k, r)]" and lg: "logged d s w es" and d: "ns_dir s = Some d"
    and new: "dget (ns_records s) k = None" and taken: "rec_index r \<noteq> int (length (bucket s (rec_slot r)))"
    and hex: "\<And>x. is_hex64 (JStr (sha x))" and w: "sha256 w = sha"
  shows "\<exists>h s' e w'. reconstruct_body (JObj (packet_of sha u [])) (s, w) =
      (Inl (NativeADIError ''SPIRAL_COLLISION_ORDER_MISMATCH'' ''$.collision_index''), (s', w')) \<and>
    (\<exists>x. h = JStr (sha x)) \<and> e = next_event ''RECONSTRUCT_ALLOW'' (bring h r) s w \<and> logged d s' w' (es @ [e]) \<and>
    files w' (snapshot_path d) = files w (snapshot_path d) \<and> sha256 w' = sha"
proof -
  let ?P = "packet_of sha u []"
  have L: "ordered_records u = [r]" using u(2) by (simp add: ordered_records_def)
  have k: "rec_id r = k" and good: "good_record sha r" using store_okD(1,2) [OF u(1), of k r] u(2) by simp_all
  obtain refs delta conditions tx ids where parts: "packet_parts sha u [] = (refs, delta, conditions, tx, ids)"
    by (metis prod_cases5)
  then have tx: "tx = dumps_canonical (JObj (document u))" and ids: "ids = sha (dumps_canonical (str_list (sort (map rec_id [r]))))"
    by (auto simp: packet_parts_def Let_def L)
  have ne: "ns_records u \<noteq> []" using u(2) by simp
  obtain checks where checks: "reconstruction_checks sha ?P tx ids = Inr checks" "list_all snd checks"
    using packet_checks [OF parts ne hex] by blast
  let ?h = "fld ?P ''packet_sha256''"
  have h: "\<exists>x. ?h = JStr (sha x)" using parts by (simp add: packet_of_def sealed_packet_def packet_body_def Let_def) blast
  have "normal (JObj (bring ?h r))" using h good_record_normal [OF good] by (auto simp: normal.simps(2))
  from logged_event [OF lg d this, of "''RECONSTRUCT_ALLOW''"] obtain e w1 where
    l: "log_event ''RECONSTRUCT_ALLOW'' (bring ?h r) (s, w) = (Inr (), (after_event e s, w1))"
    and w1: "sha256 w1 = sha" "logged d (after_event e s) w1 (es @ [e])"
      "files w1 = (files w)(event_path d \<mapsto> log_text (es @ [e]))"
    and e: "e = next_event ''RECONSTRUCT_ALLOW'' (bring ?h r) s w" using w by blast
  let ?t = "after_event e s"
  let ?u = "?t\<lparr>ns_slots := AList.update (rec_slot r) (bucket ?t (rec_slot r)) (ns_slots ?t)\<rparr>"
  have a: "accept_record (JObj r) (?t, w1) =
      (Inl (NativeADIError ''SPIRAL_COLLISION_ORDER_MISMATCH'' ''$.collision_index''), (?u, w1))"
    using accept_record_cases [OF good_record_validates, of w1 r ?t] good new k taken w1(1) by simp
  have nw: "filter (\<lambda>r. \<not> dhas (ns_records s) (rec_id r)) [r] = [r]" using new k by (simp add: dhas_def)
  have n: "\<forall>r \<in> set [r]. normal (JObj r)" using good_record_normal [OF good] by simp
  have "reconstruct_body (JObj ?P) (s, w) =
      (Inl (NativeADIError ''SPIRAL_COLLISION_ORDER_MISMATCH'' ''$.collision_index''), (?u, w1))"
    using packet_validates [OF u(1) hex ne, of "[]"] resolves_without_references [OF u(1), of "ns_records s"]
      document_ordered [OF u(1)] nw l a checks
    by (simp add: reconstruct_body_def w L Let_def canonical_normal sha_normal normal_parts(5) tx [symmetric]
        ids [symmetric, simplified] log_reconstruction_def m_then_def m_bind_def [of "log_event _ _"]
        m_bind_def [of "accept_record _"] m_bind_def [of "m_bind _ _"])
  moreover have "logged d ?u w1 (es @ [e])" using w1(2) by (simp add: logged_def)
  ultimately show ?thesis using e w1 h by (intro exI [of _ ?h] exI [of _ ?u] exI [of _ e] exI [of _ w1]) simp
qed

section \<open>The next start\<close>

lemma replay_bring:
  assumes good: "good_record (sha256 w) r" and h: "normal h"
    and e: "e = sealed_event sha q now ''RECONSTRUCT_ALLOW'' l (bring h r)"
    and new: "dget (ns_records u) (rec_id r) = None" and taken: "rec_index r \<noteq> int (length (bucket u (rec_slot r)))"
  shows "\<exists>sw. replay_event (dict_of (sort_keys (JObj e))) (u, w) =
    (Inl (NativeADIError ''SPIRAL_COLLISION_ORDER_MISMATCH'' ''$.collision_index''), sw)"
proof -
  let ?d = "dict_of (sort_keys (JObj e))"
  have n: "normal (JObj (bring h r))" using good_record_normal [OF good] h by (simp add: normal.simps(2))
  have wf: "dict_wf e" unfolding e by (rule normal_jwf [OF normal_sealed [OF n]])
  have k: "fld ?d ''event_type'' = JStr ''RECONSTRUCT_ALLOW''" unfolding fld_sort_keys [OF wf] by (simp add: e event_fields)
  have "dget e ''payload'' = Some (JObj (bring h r))"
    by (simp add: e sealed_event_def native_event_def Let_def)
  then have p: "dget ?d ''payload'' = Some (sort_keys (JObj (bring h r)))"
    unfolding dget_sorted [OF wf] by simp
  have f: "fld (dict_of (sort_keys (JObj (bring h r)))) ''records'' = JArr [sort_keys (JObj r)]"
    unfolding fld_sort_keys [OF normal_jwf [OF n]] by simp
  then have g: "get_attr (sort_keys (JObj (bring h r))) ''records'' (JArr []) = Inr (JArr [sort_keys (JObj r)])"
    by (simp add: sort_keys.simps(2) [of "bring h r"] get_attr_def get_or_none_def split: option.splits)
  have "accept_record (sort_keys (JObj r)) (u, w) =
      (Inl (NativeADIError ''SPIRAL_COLLISION_ORDER_MISMATCH'' ''$.collision_index''),
       (u\<lparr>ns_slots := AList.update (rec_slot r) (bucket u (rec_slot r)) (ns_slots u)\<rparr>, w))"
    using accept_read_back [OF good] accept_record_cases [OF good_record_validates, OF sorted_good [OF good], of u] new taken
    by simp
  then show ?thesis
    by (simp add: replay_event_def k p Let_def g py_list_def m_bind_def [of "accept_record _"])
qed



end
