(* ===== verification/NetPolicy.thy ===== *)
theory NetPolicy
  imports Complex_Main PyRepr PyTime
begin

text \<open>
  \<open>capabilities/w7tp-8d-adi-adaptive-network/scripts/w7tp_adaptive_network\<close>:
  \<open>zone_policy.py\<close>, which carriers one zone may use towards another, and \<open>policy_engine.py\<close>,
  which of the observed paths are qualified for one intent and which of them is the candidate.

  A path is a dictionary whose \<open>candidate_score\<close>, a finite float, is kept beside the other
  keys as the rational number it is; no score is the default 0.0.  The optional argument
  \<open>now\<close> is a text, as all callers pass it; without it the code reads the clock for each row,
  and \<open>clk i\<close> is what the clock shows when row \<open>i\<close> is judged.
\<close>

section \<open>The zones\<close>

definition DEFAULT_PATH_ORDER :: "string list" where
  "DEFAULT_PATH_ORDER =
     [''LOOPBACK_SERVICE_PATH'', ''CONTAINER_LOCAL_PATH'', ''LAN_IPV4'', ''TAILSCALE_IPV4'',
      ''NATIVE_IPV6'', ''TAILSCALE_IPV6'', ''GUEST_SERVICE_PATH'', ''IOT_SERVICE_PATH'',
      ''WAN_PUBLICATION_PATH'']"

definition IPV6_PATH_TYPES :: "string list" where
  "IPV6_PATH_TYPES = [''NATIVE_IPV6'', ''TAILSCALE_IPV6'']"

definition ZONE_PATH_RULES :: "((string \<times> string) \<times> string list) list" where
  "ZONE_PATH_RULES =
     [((''ZONE_CORE'', ''ZONE_CORE''),
        [''LOOPBACK_SERVICE_PATH'', ''CONTAINER_LOCAL_PATH'', ''LAN_IPV4'', ''TAILSCALE_IPV4'',
         ''NATIVE_IPV6'', ''TAILSCALE_IPV6'']),
      ((''ZONE_MANAGEMENT'', ''ZONE_MANAGEMENT''), [''LAN_IPV4'', ''TAILSCALE_IPV4'', ''TAILSCALE_IPV6'']),
      ((''ZONE_TAILSCALE'', ''ZONE_MANAGEMENT''), [''TAILSCALE_IPV4'', ''TAILSCALE_IPV6'']),
      ((''ZONE_TAILSCALE'', ''ZONE_CORE''), [''TAILSCALE_IPV4'', ''TAILSCALE_IPV6'']),
      ((''ZONE_MANAGEMENT'', ''ZONE_CORE''), [''LAN_IPV4'', ''TAILSCALE_IPV4'', ''TAILSCALE_IPV6'']),
      ((''ZONE_GUEST_SERVICE'', ''ZONE_GUEST_SERVICE''), [''GUEST_SERVICE_PATH'']),
      ((''ZONE_IOT'', ''ZONE_IOT_SERVICE''), [''IOT_SERVICE_PATH'']),
      ((''ZONE_CORE'', ''ZONE_IOT_SERVICE''), [''IOT_SERVICE_PATH'']),
      ((''ZONE_WAN'', ''ZONE_FUTURE_PUBLIC_SERVICE''), [''WAN_PUBLICATION_PATH''])]"

definition PUBLIC_DIRECT_DENY_ZONES :: "string list" where
  "PUBLIC_DIRECT_DENY_ZONES =
     [''ZONE_CORE'', ''ZONE_MANAGEMENT'', ''ZONE_TAILSCALE'', ''ZONE_GUEST_SERVICE'', ''ZONE_IOT'',
      ''ZONE_IOT_SERVICE'', ''ZONE_TOTAL_FIELD'', ''ZONE_DATABASE'']"

record zone_decision =
  zone_allowed :: bool
  zone_paths :: "string list"
  zone_reason :: string
  zone_from :: string
  zone_to :: string

definition zone_text :: "json dict \<Rightarrow> string \<Rightarrow> string" where
  "zone_text intent k = py_str (or_else (fld intent k) (JStr ''LOCALIZED_UNKNOWN''))"

definition evaluate_zone_policy :: "json dict \<Rightarrow> zone_decision" where
  "evaluate_zone_policy intent =
     (let source = zone_text intent ''source_zone''; target = zone_text intent ''target_zone'';
          deny = (\<lambda>r. \<lparr>zone_allowed = False, zone_paths = [], zone_reason = r,
                       zone_from = source, zone_to = target\<rparr>) in
      if source = ''ZONE_WAN'' \<and> target \<in> set PUBLIC_DIRECT_DENY_ZONES
      then deny ''WAN_DIRECT_TO_PROTECTED_ZONE_DENIED''
      else if source = ''ZONE_WAN'' \<and> target = ''ZONE_FUTURE_PUBLIC_SERVICE'' \<and>
              fld intent ''service_class'' \<noteq> JStr ''PUBLIC_APPLICATION''
      then deny ''WAN_SERVICE_IS_NOT_EXPLICIT_PUBLIC_APPLICATION''
      else if source = ''ZONE_WAN'' \<and> target = ''ZONE_FUTURE_PUBLIC_SERVICE'' \<and>
              fld intent ''published_gateway_bound'' \<noteq> JBool True
      then deny ''WAN_PUBLISHED_GATEWAY_NOT_BOUND''
      else case map_of ZONE_PATH_RULES (source, target) of
        None \<Rightarrow> deny ''ZONE_RELATION_NOT_DECLARED_FOR_THIS_INTENT''
      | Some allowed \<Rightarrow>
          \<lparr>zone_allowed = True, zone_paths = sort allowed, zone_reason = ''ZONE_RELATION_CANDIDATE_ALLOWED'',
           zone_from = source, zone_to = target\<rparr>)"

definition zone_json :: "zone_decision \<Rightarrow> json" where
  "zone_json z = JObj
     [(''allowed'', JBool (zone_allowed z)), (''source_zone'', JStr (zone_from z)),
      (''target_zone'', JStr (zone_to z)), (''allowed_path_types'', str_list (zone_paths z)),
      (''reason'', JStr (zone_reason z)), (''policy_scope'', JStr ''CANDIDATE_ZONE_POLICY_ONLY''),
      (''public_entry_is_internal_authority'', JBool False)]"

section \<open>Instants of the calendar\<close>

definition to_utc :: "stamp_value \<Rightarrow> py_error + int" where
  "to_utc v =
     (case v of
        Naive t \<Rightarrow> Inr t
      | Instant t \<Rightarrow> as_utc t)"

definition parse_stamp :: "string \<Rightarrow> stamp_value option" where
  "parse_stamp s = fromisoformat (replace_all ''Z'' ''+00:00'' s)"

text \<open>\<open>_parse_time\<close>: a text that is no time is no instant.\<close>

definition parse_time :: "json \<Rightarrow> py_error + int option" where
  "parse_time v =
     (case v of
        JStr s \<Rightarrow>
          (case parse_stamp s of None \<Rightarrow> Inr None | Some x \<Rightarrow> e_bind (to_utc x) (\<lambda>t. Inr (Some t)))
      | _ \<Rightarrow> Inr None)"

section \<open>Paths\<close>

record net_path =
  path_data :: "json dict"
  path_score :: "rat option"

definition path_type_text :: "json dict \<Rightarrow> string" where
  "path_type_text d = py_str (get_default d ''path_type'' (JStr ''UNKNOWN''))"

definition path_id_of :: "net_path list \<Rightarrow> nat \<Rightarrow> json dict \<Rightarrow> string" where
  "path_id_of paths i d =
     (let t = path_type_text d;
          given = fld d ''path_id'';
          pid = (if \<not> truthy given \<and> count_list (map (\<lambda>p. path_type_text (path_data p)) paths) t = 1
                 then JStr t else given);
          coordinate = or_else (fld d ''target'') (or_else (fld d ''interface'') (JStr (show_int (int i))))
      in if truthy pid then py_str pid else t @ ''@'' @ py_str coordinate)"

definition with_path_ids :: "net_path list \<Rightarrow> net_path list" where
  "with_path_ids paths =
     map (\<lambda>(i, p). p\<lparr>path_data := dset ''path_id'' (JStr (path_id_of paths i (path_data p))) (path_data p)\<rparr>)
         (enumerate 0 paths)"

definition row_id :: "net_path \<Rightarrow> string" where
  "row_id p = str_of (fld (path_data p) ''path_id'')"

definition path_is_stale :: "string option \<Rightarrow> int \<Rightarrow> json dict \<Rightarrow> py_error + bool" where
  "path_is_stale now clk d =
     (if truthy (fld d ''stale'') then Inr True
      else if \<not> truthy (fld d ''expires_at'') then Inr False
      else
        e_bind (parse_time (fld d ''expires_at'')) (\<lambda>expiry.
        e_bind (case now of Some s \<Rightarrow> parse_time (JStr s) | None \<Rightarrow> Inr (Some clk)) (\<lambda>current.
        Inr (case (expiry, current) of (Some x, Some c) \<Rightarrow> x \<le> c | _ \<Rightarrow> True))))"

definition base_eligible :: "json dict \<Rightarrow> bool" where
  "base_eligible d \<longleftrightarrow>
     truthy (fld d ''available'') \<and> truthy (fld d ''host_reachable'') \<and>
     truthy (fld d ''service_reachable'') \<and> fld d ''identity_state'' \<noteq> JStr ''CONFLICT''"

section \<open>What the intent asks for\<close>

text \<open>\<open>set(v)\<close>: the elements of an iterable value, which must be hashable.\<close>

definition py_elements :: "json \<Rightarrow> py_error + json list" where
  "py_elements v =
     e_bind (py_list v) (\<lambda>xs.
       if \<forall>x \<in> set xs. hashable x then Inr xs else Inl (TypeError ''unhashable type''))"

definition permitted_types :: "json dict \<Rightarrow> zone_decision \<Rightarrow> py_error + string list" where
  "permitted_types intent zone =
     e_bind (py_elements (or_else (fld intent ''permitted_paths'') (str_list DEFAULT_PATH_ORDER))) (\<lambda>xs.
       Inr (filter (\<lambda>t. JStr t \<in> set xs) (zone_paths zone)))"

definition intent_path_order :: "json dict \<Rightarrow> py_error + string list" where
  "intent_path_order intent =
     (let requested = or_else (fld intent ''path_preference'') (fld intent ''permitted_paths'') in
      if \<not> truthy requested then Inr DEFAULT_PATH_ORDER
      else e_bind (py_list requested) (\<lambda>xs.
        Inr (map py_str xs @ filter (\<lambda>v. v \<notin> set (map py_str xs)) DEFAULT_PATH_ORDER)))"

text \<open>The reasons against a row; a row without any is qualified.\<close>

definition row_faults :: "json dict \<Rightarrow> bool \<Rightarrow> bool \<Rightarrow> bool \<Rightarrow> json dict \<Rightarrow> string list" where
  "row_faults intent stale ok ipv6 d =
     (let service = fld d ''service_identity''; bound = fld d ''intent_id'' in
      (if stale then [''STALE_EVIDENCE''] else []) @
      (if \<not> ok then [''PATH_NOT_PERMITTED_FOR_INTENT_OR_ZONE''] else []) @
      (if truthy service \<and> \<not> pyeq service (fld intent ''service_identity'')
       then [''SERVICE_IDENTITY_MISMATCH''] else []) @
      (if truthy bound \<and> \<not> pyeq bound (fld intent ''intent_id'')
       then [''INTENT_BINDING_MISMATCH''] else []) @
      (if fld d ''identity_state'' = JStr ''CONFLICT'' then [''PATH_IDENTITY_CONFLICT''] else []) @
      (if ipv6 \<and> \<not> truthy (fld d ''qualified'') then [''IPV6_CANDIDATE_NOT_QUALIFIED''] else []) @
      (if \<not> base_eligible d then [''PATH_OR_SERVICE_NOT_REACHABLE''] else []))"

definition row_reasons ::
  "json dict \<Rightarrow> string list \<Rightarrow> string option \<Rightarrow> int \<Rightarrow> json dict \<Rightarrow> py_error + bool \<times> string list" where
  "row_reasons intent permitted now clk d =
     (let kind = get_default d ''path_type'' (JStr ''UNKNOWN'') in
      e_bind (path_is_stale now clk d) (\<lambda>stale.
      e_bind (in_strings kind permitted) (\<lambda>ok.
      e_bind (in_strings kind IPV6_PATH_TYPES) (\<lambda>ipv6.
      Inr (stale, row_faults intent stale ok ipv6 d)))))"

definition judge_rows ::
  "json dict \<Rightarrow> string list \<Rightarrow> string option \<Rightarrow> (nat \<Rightarrow> int) \<Rightarrow> net_path list \<Rightarrow>
   py_error + (net_path \<times> bool \<times> string list) list" where
  "judge_rows intent permitted now clk rows =
     map_err (\<lambda>(i, row). e_bind (row_reasons intent permitted now (clk i) (path_data row)) (\<lambda>j. Inr (row, j)))
             (enumerate 0 rows)"

section \<open>The order of the qualified paths\<close>

text \<open>A later entry of the preference overrides an earlier one; of two rows with one id the last counts.\<close>

definition rank_of :: "string list \<Rightarrow> string \<Rightarrow> nat option" where
  "rank_of preference v = map_of (rev (zip preference [0..<length preference])) v"

definition row_rank :: "string list \<Rightarrow> net_path \<Rightarrow> nat" where
  "row_rank preference row =
     (case rank_of preference (row_id row) of
        Some n \<Rightarrow> n
      | None \<Rightarrow>
          (case rank_of preference (py_str (fld (path_data row) ''path_type'')) of
             Some n \<Rightarrow> n
           | None \<Rightarrow> length (remdups preference)))"

definition path_key :: "net_path list \<Rightarrow> string list \<Rightarrow> string \<Rightarrow> nat \<times> rat \<times> string" where
  "path_key rows preference pid =
     (let row = last (filter (\<lambda>r. row_id r = pid) rows) in
      (row_rank preference row, - (case path_score row of Some q \<Rightarrow> q | None \<Rightarrow> 0), pid))"

definition sort_path_ids :: "string list \<Rightarrow> net_path list \<Rightarrow> string list \<Rightarrow> string list" where
  "sort_path_ids ids rows preference = sort_key (path_key rows preference) ids"

section \<open>The candidate\<close>

record policy =
  candidate_decision :: string
  policy_reason :: string
  selected_path :: "string option"
  selected_row :: "json dict option"
  alternate_paths :: "string list"
  concurrent_paths :: "string list"
  available_path_set :: "string list"
  qualified_path_set :: "string list"
  denied_path_set :: "string list"
  stale_path_set :: "string list"
  denial_reasons :: "string list dict"
  zone_outcome :: zone_decision

text \<open>\<open>sorted(set(xs))\<close> of strings.\<close>

definition sorted_set :: "string list \<Rightarrow> string list" where
  "sorted_set xs = sort (remdups xs)"

definition requested_concurrent :: "json dict \<Rightarrow> string list \<Rightarrow> py_error + string list" where
  "requested_concurrent intent qualified =
     e_bind (py_elements (or_else (fld intent ''concurrent_paths'') (JArr []))) (\<lambda>xs.
       Inr (if truthy (fld intent ''allow_concurrent_paths'') \<and> xs = [] then qualified
            else filter (\<lambda>p. JStr p \<in> set xs) qualified))"

text \<open>The branches of the decision: its name, its reason, whether the selection is kept.\<close>

definition policy_outcome ::
  "json dict \<Rightarrow> zone_decision \<Rightarrow> bool \<Rightarrow> bool \<Rightarrow> py_error + string \<times> string \<times> bool" where
  "policy_outcome intent zone some_selected some_paths =
     (let state = get_default intent ''target_identity_state'' (JStr ''OBSERVED_PARTIAL'') in
      e_bind (in_strings state [''CONFLICT'', ''UNKNOWN'', ''LOCALIZED_UNKNOWN'']) (\<lambda>unbound.
      Inr (if unbound
           then (''HOLD'', if state = JStr ''CONFLICT'' then ''TARGET_IDENTITY_CONFLICT''
                           else ''TARGET_IDENTITY_NOT_BOUND'', False)
           else if \<not> zone_allowed zone then (''DENY'', zone_reason zone, False)
           else if some_selected
           then (''CANDIDATE_PATH_SELECTED'', ''PER_INTENT_QUALIFIED_PATH_SELECTED'', True)
           else if \<not> some_paths then (''LOCALIZED_UNKNOWN'', ''NO_CURRENT_PATH_EVIDENCE'', True)
           else (''HOLD'', ''NO_QUALIFIED_PATH_FOR_THIS_INTENT'', True))))"

definition evaluate_policy ::
  "json dict \<Rightarrow> net_path list \<Rightarrow> string option \<Rightarrow> (nat \<Rightarrow> int) \<Rightarrow> py_error + policy" where
  "evaluate_policy intent paths now clk =
     (let zone = evaluate_zone_policy intent; rows = with_path_ids paths in
      e_bind (permitted_types intent zone) (\<lambda>permitted.
      e_bind (intent_path_order intent) (\<lambda>preference.
      e_bind (judge_rows intent permitted now clk rows) (\<lambda>judged.
      let denied = filter (\<lambda>(_, _, rs). rs \<noteq> []) judged;
          qualified = sort_path_ids (map (\<lambda>(r, _, _). row_id r) (filter (\<lambda>(_, _, rs). rs = []) judged))
                        rows preference;
          selected_id = (case qualified of [] \<Rightarrow> None | pid # _ \<Rightarrow> Some pid) in
      e_bind (requested_concurrent intent qualified) (\<lambda>concurrent.
      e_bind (policy_outcome intent zone (selected_id \<noteq> None) (paths \<noteq> [])) (\<lambda>(decision, reason, kept).
      Inr \<lparr>candidate_decision = decision, policy_reason = reason,
           selected_path = (if kept then selected_id else None),
           selected_row = (if kept then map_option path_data (find (\<lambda>r. Some (row_id r) = selected_id) rows)
                           else None),
           alternate_paths = filter (\<lambda>pid. Some pid \<noteq> selected_id) qualified,
           concurrent_paths = (if kept then concurrent else []),
           available_path_set =
             sorted_set (map row_id (filter (\<lambda>r. truthy (fld (path_data r) ''available'')) rows)),
           qualified_path_set = qualified,
           denied_path_set = sorted_set (map (\<lambda>(r, _, _). row_id r) denied),
           stale_path_set = sorted_set (map (\<lambda>(r, _, _). row_id r) (filter (\<lambda>(_, stale, _). stale) judged)),
           denial_reasons = foldl (\<lambda>d (r, _, rs). dset (row_id r) (sorted_set rs) d) [] denied,
           zone_outcome = zone\<rparr>))))))"

definition option_json :: "string option \<Rightarrow> json" where
  "option_json x = (case x of None \<Rightarrow> JNull | Some s \<Rightarrow> JStr s)"

definition policy_json :: "policy \<Rightarrow> json dict" where
  "policy_json p =
     (let of_row = (\<lambda>k. case selected_row p of None \<Rightarrow> JNull | Some d \<Rightarrow> fld d k) in
      [(''network_model'', JStr ''MULTI_PATH_CONCURRENT_FIELD''),
       (''routing_unit'', JStr ''PER_INTENT_BINDING''), (''failover_scope'', JStr ''PER_BINDING''),
       (''global_three_way_selection'', JBool False),
       (''candidate_decision'', JStr (candidate_decision p)), (''decision'', JStr (candidate_decision p)),
       (''selected_path'', option_json (selected_path p)),
       (''selected_path_type'', of_row ''path_type''), (''selected_interface'', of_row ''interface''),
       (''selected_target'', of_row ''target''),
       (''alternate_paths'', str_list (alternate_paths p)),
       (''concurrent_paths'', str_list (concurrent_paths p)),
       (''available_path_set'', str_list (available_path_set p)),
       (''qualified_path_set'', str_list (qualified_path_set p)), (''active_path_set'', JArr []),
       (''denied_path_set'', str_list (denied_path_set p)),
       (''stale_path_set'', str_list (stale_path_set p)),
       (''denial_reasons'', JObj (map (\<lambda>(k, rs). (k, str_list rs)) (denial_reasons p))),
       (''zone_policy'', zone_json (zone_outcome p)), (''reason'', JStr (policy_reason p)),
       (''score_used_as_authority'', JBool False), (''authorized'', JBool False),
       (''total_field_decision'', JStr ''NOT_RUN''), (''canonical'', JBool False)])"

end
