(* ===== verification/NetRoute.thy ===== *)
theory NetRoute
  imports NetPolicy NativeService
begin

text \<open>
  \<open>route_selector.py\<close>, \<open>consumer.py\<close> and \<open>failover.py\<close> of the adaptive network capability:
  the decision on one intent after the verification of the chosen path, the call that services
  make, and the re-evaluation of a binding.  \<open>sha\<close> is \<open>hashlib.sha256(...).hexdigest()\<close>; \<open>int()\<close>
  is \<open>py_int\<close> of the native service.  The clock readings \<open>clk\<close> go on behind the rows' own.
\<close>

section \<open>Texts of instants\<close>

text \<open>\<open>datetime.isoformat\<close> in UTC with the offset written \<open>Z\<close>.\<close>

function month_day :: "nat \<Rightarrow> nat \<Rightarrow> nat \<Rightarrow> nat \<times> nat" where
  "month_day y m n =
     (if 12 \<le> m \<or> n \<le> days_in_month y m then (m, n) else month_day y (Suc m) (n - days_in_month y m))"
  by pat_completeness auto
termination
  by (relation "measure (\<lambda>(_, m, _). 12 - m)") auto

definition civil_year :: "nat \<Rightarrow> nat" where
  "civil_year n =
     (let n0 = n - 1; n400 = n0 div 146097; r400 = n0 mod 146097;
          n100 = r400 div 36524; r100 = r400 mod 36524;
          n4 = r100 div 1461; r4 = r100 mod 1461; n1 = r4 div 365 in
      n400 * 400 + n100 * 100 + n4 * 4 + n1 + (if n1 = 4 \<or> n100 = 4 then 0 else 1))"

fun padded :: "nat \<Rightarrow> nat \<Rightarrow> string" where
  "padded 0 n = []"
| "padded (Suc w) n = padded w (n div 10) @ [char_of (48 + n mod 10)]"

definition format_time :: "int \<Rightarrow> string" where
  "format_time t =
     (let n = nat (t div day_us); us = nat (t mod day_us); y = civil_year n;
          (m, d) = month_day y 1 (n - (ordinal y 1 1 - 1)); secs = us div 1000000; frac = us mod 1000000 in
      padded 4 y @ ''-'' @ padded 2 m @ ''-'' @ padded 2 d @ ''T'' @
      padded 2 (secs div 3600) @ '':'' @ padded 2 (secs div 60 mod 60) @ '':'' @ padded 2 (secs mod 60) @
      (if frac = 0 then [] else ''.'' @ padded 6 frac) @ ''Z'')"

text \<open>\<open>_coerce_time\<close>: a malformed text raises.\<close>

definition coerce_time :: "json \<Rightarrow> py_error + int option" where
  "coerce_time v =
     (case v of
        JStr s \<Rightarrow>
          (case parse_stamp s of
             None \<Rightarrow> Inl (ValueError ''Invalid isoformat string'')
           | Some x \<Rightarrow> e_bind (to_utc x) (\<lambda>t. Inr (Some t)))
      | _ \<Rightarrow> Inr None)"

section \<open>The gates of the verification\<close>

definition D8_TWO_PHASE_GATES :: "string list" where
  "D8_TWO_PHASE_GATES =
     [''SOURCE_BOUND'', ''SOURCE_ZONE_BOUND'', ''INTERFACE_BOUND'', ''ROUTE_BOUND'', ''TARGET_BOUND'',
      ''TARGET_ZONE_BOUND'', ''SERVICE_PASS'', ''APPLICATION_PASS'', ''RESPONSE_VERIFIED'']"

definition LEGACY_GATE_NAMES :: "(string \<times> string) list" where
  "LEGACY_GATE_NAMES =
     [(''SOURCE_BOUND'', ''source''), (''INTERFACE_BOUND'', ''interface''), (''ROUTE_BOUND'', ''route''),
      (''TARGET_BOUND'', ''target''), (''SERVICE_PASS'', ''service''),
      (''APPLICATION_PASS'', ''application''), (''RESPONSE_VERIFIED'', ''response'')]"

definition gate_value :: "json dict \<Rightarrow> string \<Rightarrow> bool" where
  "gate_value verification gate =
     truthy (if dhas verification gate then fld verification gate
             else if dhas verification (lower gate) then fld verification (lower gate)
             else case map_of LEGACY_GATE_NAMES gate of
               Some legacy \<Rightarrow> fld verification legacy | None \<Rightarrow> JBool False)"

definition normalize_gates :: "json dict \<Rightarrow> (string \<times> bool) list" where
  "normalize_gates verification = map (\<lambda>g. (g, gate_value verification g)) D8_TWO_PHASE_GATES"

definition verification_for_path :: "json dict \<Rightarrow> string option \<Rightarrow> json dict" where
  "verification_for_path verification pid =
     (case pid of
        None \<Rightarrow> verification
      | Some s \<Rightarrow>
          (case (s \<noteq> [], fld verification s) of (True, JObj d) \<Rightarrow> d | _ \<Rightarrow> verification))"

definition gates_pass :: "json dict \<Rightarrow> string option \<Rightarrow> bool" where
  "gates_pass verification pid \<longleftrightarrow> list_all snd (normalize_gates (verification_for_path verification pid))"

section \<open>The identifier and the expiry of a decision\<close>

definition gates_json :: "(string \<times> bool) list \<Rightarrow> json" where
  "gates_json gs = JObj (map (\<lambda>(g, b). (g, JBool b)) gs)"

definition BINDING_KEYS :: "string list" where
  "BINDING_KEYS =
     [''intent_id'', ''source_node'', ''source_zone'', ''target_node'', ''target_zone'',
      ''service_identity'', ''service_class'', ''published_gateway_bound'']"

definition decision_digest ::
  "(string \<Rightarrow> string) \<Rightarrow> json dict \<Rightarrow> policy \<Rightarrow> (string \<times> bool) list \<Rightarrow> string \<Rightarrow> string" where
  "decision_digest sha intent p gates version =
     ''sha256:'' @ sha (dumps_canonical (JObj
       [(''intent'', JObj (map (\<lambda>k. (k, fld intent k)) BINDING_KEYS)),
        (''selected_path'', option_json (selected_path p)),
        (''alternate_paths'', str_list (alternate_paths p)),
        (''concurrent_paths'', str_list (concurrent_paths p)),
        (''gates'', gates_json gates), (''policy_version'', JStr version)]))"

text \<open>The names under which the selected path is looked for in the observed paths.\<close>

definition path_identifiers :: "json dict \<Rightarrow> string list" where
  "path_identifiers d =
     (let t = path_type_text d; target = or_else (fld d ''target'') (fld d ''interface'') in
      [py_str (or_else (fld d ''path_id'') (JStr t)), t] @
      (if truthy target then [t @ ''@'' @ py_str target] else []))"

definition selected_path_expiry :: "net_path list \<Rightarrow> string option \<Rightarrow> py_error + int option" where
  "selected_path_expiry paths selected =
     (case selected of
        None \<Rightarrow> Inr None
      | Some pid \<Rightarrow>
          if pid = [] then Inr None
          else case find (\<lambda>p. pid \<in> set (path_identifiers (path_data p))) paths of
            None \<Rightarrow> Inr None
          | Some p \<Rightarrow> coerce_time (fld (path_data p) ''expires_at''))"

section \<open>The decision\<close>

record route =
  route_policy :: policy
  route_intent :: "json dict"
  authorized :: bool
  two_phase_gates :: "(string \<times> bool) list"
  active_path_set :: "string list"
  decision_id :: string
  decided_at :: string
  decision_expiry :: int
  decision_ttl :: int
  policy_version :: string

definition route_decision :: "route \<Rightarrow> string" where
  "route_decision r = (if authorized r then ''D8_ALLOW_FOR_THIS_INTENT'' else ''HOLD'')"

definition route_timestamp :: "json \<Rightarrow> string option \<Rightarrow> int \<Rightarrow> py_error + json" where
  "route_timestamp observed_at now clk =
     (if truthy observed_at then Inr observed_at
      else e_bind (coerce_time (option_json now)) (\<lambda>t.
        Inr (JStr (format_time (case t of Some u \<Rightarrow> u | None \<Rightarrow> clk)))))"

definition active_paths :: "policy \<Rightarrow> json dict \<Rightarrow> bool \<Rightarrow> string list" where
  "active_paths p verification ok =
     (case selected_path p of Some pid \<Rightarrow> if ok \<and> pid \<noteq> [] then [pid] else [] | None \<Rightarrow> []) @
     filter (\<lambda>pid. Some pid \<noteq> selected_path p \<and> gates_pass verification (Some pid)) (concurrent_paths p)"

definition select_route ::
  "(string \<Rightarrow> string) \<Rightarrow> json dict \<Rightarrow> net_path list \<Rightarrow> json dict \<Rightarrow> json \<Rightarrow> int \<Rightarrow> string \<Rightarrow>
   string option \<Rightarrow> (nat \<Rightarrow> int) \<Rightarrow> py_error + route" where
  "select_route sha intent paths verification observed_at ttl version now clk =
     e_bind (evaluate_policy intent paths now clk) (\<lambda>p.
     let gates = normalize_gates (verification_for_path verification (selected_path p));
         ok = (candidate_decision p = ''CANDIDATE_PATH_SELECTED'' \<and> list_all snd gates) in
     e_bind (route_timestamp observed_at now (clk (length paths))) (\<lambda>timestamp.
     e_bind (coerce_time timestamp) (\<lambda>observed.
     e_bind (case observed of None \<Rightarrow> Inl (ValueError ''invalid_observed_at'') | Some t \<Rightarrow> Inr t) (\<lambda>t.
     let until = t + max 1 ttl * 1000000 in
     e_bind (check (in_calendar until) (OverflowError ''date value out of range'')) (\<lambda>_.
     e_bind (selected_path_expiry paths (selected_path p)) (\<lambda>expiry.
     Inr \<lparr>route_policy = p, route_intent = intent, authorized = ok, two_phase_gates = gates,
          active_path_set = sorted_set (active_paths p verification ok),
          decision_id = decision_digest sha intent p gates version,
          decided_at = py_str timestamp,
          decision_expiry = (case expiry of Some x \<Rightarrow> min x until | None \<Rightarrow> until),
          decision_ttl = max 1 ttl, policy_version = version\<rparr>))))))"

definition route_state :: "route \<Rightarrow> string" where
  "route_state r =
     (if authorized r then ''VERIFIED_CANDIDATE''
      else if candidate_decision (route_policy r) = ''CANDIDATE_PATH_SELECTED''
      then ''CANDIDATE_PATH_SELECTED_AWAITING_D8_CLOSURE''
      else candidate_decision (route_policy r))"

definition intent_or_unknown :: "json dict \<Rightarrow> string \<Rightarrow> json" where
  "intent_or_unknown intent k = get_default intent k (JStr ''LOCALIZED_UNKNOWN'')"

text \<open>The keys that the decision sets over those of the policy, and the answer.\<close>

definition route_update :: "route \<Rightarrow> json dict" where
  "route_update r =
     (let intent = route_intent r in
      [(''decision'', JStr (route_decision r)), (''authorized'', JBool (authorized r)),
       (''candidate_selection_state'', JStr (candidate_decision (route_policy r))),
       (''d8_two_phase_gates'', gates_json (two_phase_gates r)),
       (''d8_two_phase_decision'', JStr (if authorized r then ''PASS'' else ''HOLD''))] @
      map (\<lambda>k. (k, intent_or_unknown intent k)) (butlast BINDING_KEYS) @
      [(''published_gateway_bound'', JBool (truthy (fld intent ''published_gateway_bound''))),
       (''intent'', JObj intent), (''active_path_set'', str_list (active_path_set r)),
       (''end_to_end_chain'', gates_json (two_phase_gates r)),
       (''end_to_end_verified'', JBool (authorized r)), (''decision_state'', JStr (route_state r)),
       (''binding_state'', JStr (if authorized r then ''HEALTHY'' else ''HOLD'')),
       (''decision_id'', JStr (decision_id r)), (''observed_at'', JStr (decided_at r)),
       (''expires_at'', JStr (format_time (decision_expiry r))),
       (''ttl_seconds'', JInt (decision_ttl r)), (''policy_version'', JStr (policy_version r)),
       (''authority_scope'', JStr ''CANDIDATE_D8_DECISION_ONLY''),
       (''total_field_decision'', JStr ''NOT_RUN''), (''canonical'', JBool False)])"

definition route_json :: "route \<Rightarrow> json dict" where
  "route_json r = dmerge (policy_json (route_policy r)) (route_update r)"

section \<open>The call of the services\<close>

record service_call =
  call_intent_id :: string
  call_source_node :: string
  call_target_node :: string
  call_service :: string
  call_source_zone :: string
  call_target_zone :: string
  call_class :: string
  call_gateway :: bool
  call_permitted :: "string list option"
  call_concurrent :: "string list option"
  call_allow_concurrent :: bool
  call_preference :: "string list option"
  call_identity :: string

definition list_json :: "string list option \<Rightarrow> json" where
  "list_json x = (case x of None \<Rightarrow> JNull | Some xs \<Rightarrow> str_list xs)"

definition call_intent :: "service_call \<Rightarrow> json dict" where
  "call_intent c =
     [(''intent_id'', JStr (call_intent_id c)), (''source_node'', JStr (call_source_node c)),
      (''source_zone'', JStr (call_source_zone c)), (''target_node'', JStr (call_target_node c)),
      (''target_zone'', JStr (call_target_zone c)), (''service_identity'', JStr (call_service c)),
      (''service_class'', JStr (call_class c)), (''published_gateway_bound'', JBool (call_gateway c)),
      (''permitted_paths'', list_json (call_permitted c)),
      (''concurrent_paths'', or_else (list_json (call_concurrent c)) (JArr [])),
      (''allow_concurrent_paths'', JBool (call_allow_concurrent c)),
      (''path_preference'', list_json (call_preference c)),
      (''target_identity_state'', JStr (call_identity c))]"

definition resolve_service ::
  "(string \<Rightarrow> string) \<Rightarrow> service_call \<Rightarrow> net_path list \<Rightarrow> json dict \<Rightarrow> json \<Rightarrow> int \<Rightarrow> string \<Rightarrow>
   string option \<Rightarrow> (nat \<Rightarrow> int) \<Rightarrow> py_error + route" where
  "resolve_service sha c paths = select_route sha (call_intent c) paths"

section \<open>Failover of one binding\<close>

text \<open>\<open>dict(v)\<close>; a list of pairs, which it would also take, is answered with the error.\<close>

definition py_dict :: "json \<Rightarrow> py_error + json dict" where
  "py_dict v = (case v of JObj d \<Rightarrow> Inr d | _ \<Rightarrow> Inl (TypeError ''cannot convert to a dictionary''))"

definition intent_from_binding :: "json dict \<Rightarrow> json dict" where
  "intent_from_binding binding = map (\<lambda>k. (k, fld binding k)) BINDING_KEYS"

definition failover_intent :: "json dict \<Rightarrow> py_error + json dict" where
  "failover_intent binding =
     e_bind (py_dict (or_else (fld binding ''intent'') (JObj (intent_from_binding binding)))) (\<lambda>intent.
     e_bind (py_list (get_default binding ''alternate_paths'' (JArr []))) (\<lambda>alternates.
     let preference = filter truthy (fld binding ''selected_path'' # alternates) in
     Inr (if preference = [] then intent else dset ''path_preference'' (JArr preference) intent)))"

record failover =
  reevaluated :: route
  binding_state :: string
  previous_path :: json

definition failover_state :: "json \<Rightarrow> json \<Rightarrow> bool \<Rightarrow> string" where
  "failover_state next previous ok =
     (if pyeq next previous \<and> ok then ''HEALTHY''
      else if truthy next \<and> \<not> pyeq next previous \<and> ok then ''ALTERNATE_ACTIVE''
      else if truthy next \<and> \<not> pyeq next previous then ''ALTERNATE_VERIFYING''
      else if truthy previous then ''PRIMARY_PATH_FAILED'' else ''HOLD'')"

definition evaluate_binding_failover ::
  "(string \<Rightarrow> string) \<Rightarrow> json dict \<Rightarrow> net_path list \<Rightarrow> json dict \<Rightarrow> string option \<Rightarrow> (nat \<Rightarrow> int) \<Rightarrow>
   py_error + failover" where
  "evaluate_binding_failover sha binding paths verification now clk =
     e_bind (failover_intent binding) (\<lambda>intent.
     e_bind (py_int (get_default binding ''ttl_seconds'' (JInt 300))) (\<lambda>ttl.
     e_bind (select_route sha intent paths verification (fld binding ''observed_at'') ttl
               (py_str (get_default binding ''policy_version'' (JStr ''PER_INTENT_MULTIPATH_V1''))) now clk) (\<lambda>r.
     Inr \<lparr>reevaluated = r,
          binding_state = failover_state (option_json (selected_path (route_policy r)))
                            (fld binding ''selected_path'') (authorized r),
          previous_path = fld binding ''selected_path''\<rparr>)))"

definition failover_json :: "failover \<Rightarrow> json dict" where
  "failover_json f = dmerge (route_json (reevaluated f))
     [(''binding_state'', JStr (binding_state f)), (''previous_selected_path'', previous_path f),
      (''failover_scope'', JStr ''PER_BINDING''), (''other_bindings_modified'', JBool False)]"

end
