(* ===== verification/NetProps.thy ===== *)
theory NetProps
  imports NetRoute
begin

text \<open>
  What the network policy lets an intent use: a specification of a usable path in terms of the
  row and the zone table, the qualified set as the ordered list of the usable paths, and the
  properties of the candidate and of the decision.
\<close>

section \<open>Usable paths\<close>

definition zone_permits :: "json dict \<Rightarrow> string \<Rightarrow> bool" where
  "zone_permits intent t \<longleftrightarrow>
     (case map_of ZONE_PATH_RULES (zone_text intent ''source_zone'', zone_text intent ''target_zone'') of
        None \<Rightarrow> False | Some ts \<Rightarrow> t \<in> set ts) \<and>
     (zone_text intent ''source_zone'' = ''ZONE_WAN'' \<longrightarrow>
        zone_text intent ''target_zone'' = ''ZONE_FUTURE_PUBLIC_SERVICE'' \<and>
        fld intent ''service_class'' = JStr ''PUBLIC_APPLICATION'' \<and>
        fld intent ''published_gateway_bound'' = JBool True)"

definition intent_permits :: "json dict \<Rightarrow> string \<Rightarrow> bool" where
  "intent_permits intent t \<longleftrightarrow>
     (truthy (fld intent ''permitted_paths'') \<longrightarrow>
        (case py_elements (fld intent ''permitted_paths'') of Inr xs \<Rightarrow> JStr t \<in> set xs | Inl _ \<Rightarrow> False))"

definition current_evidence :: "string option \<Rightarrow> int \<Rightarrow> json dict \<Rightarrow> bool" where
  "current_evidence now clk d \<longleftrightarrow>
     \<not> truthy (fld d ''stale'') \<and>
     (if truthy (fld d ''expires_at'') then
        (case (parse_time (fld d ''expires_at''),
               case now of Some s \<Rightarrow> parse_time (JStr s) | None \<Rightarrow> Inr (Some clk)) of
           (Inr (Some x), Inr (Some c)) \<Rightarrow> c < x | _ \<Rightarrow> False)
      else True)"

definition usable :: "json dict \<Rightarrow> string option \<Rightarrow> int \<Rightarrow> json dict \<Rightarrow> bool" where
  "usable intent now clk d \<longleftrightarrow>
     current_evidence now clk d \<and> base_eligible d \<and>
     (case get_default d ''path_type'' (JStr ''UNKNOWN'') of
        JStr t \<Rightarrow> zone_permits intent t \<and> intent_permits intent t \<and>
                  (t \<in> set IPV6_PATH_TYPES \<longrightarrow> truthy (fld d ''qualified''))
      | _ \<Rightarrow> False) \<and>
     (truthy (fld d ''service_identity'') \<longrightarrow> pyeq (fld d ''service_identity'') (fld intent ''service_identity'')) \<and>
     (truthy (fld d ''intent_id'') \<longrightarrow> pyeq (fld d ''intent_id'') (fld intent ''intent_id''))"

definition usable_rows ::
  "json dict \<Rightarrow> string option \<Rightarrow> (nat \<Rightarrow> int) \<Rightarrow> net_path list \<Rightarrow> net_path list" where
  "usable_rows intent now clk rows =
     map snd (filter (\<lambda>(i, r). usable intent now (clk i) (path_data r)) (enumerate 0 rows))"

definition identity_bound :: "json dict \<Rightarrow> bool" where
  "identity_bound intent \<longleftrightarrow>
     get_default intent ''target_identity_state'' (JStr ''OBSERVED_PARTIAL'')
       \<notin> JStr ` {''CONFLICT'', ''UNKNOWN'', ''LOCALIZED_UNKNOWN''}"

subsection \<open>The qualified set\<close>

lemma wan_rule:
  assumes "map_of ZONE_PATH_RULES (''ZONE_WAN'', t) = Some ts"
  shows "t = ''ZONE_FUTURE_PUBLIC_SERVICE''"
  using assms by (simp add: ZONE_PATH_RULES_def split: if_splits)

lemma public_zone_not_denied: "''ZONE_FUTURE_PUBLIC_SERVICE'' \<notin> set PUBLIC_DIRECT_DENY_ZONES"
  by (simp add: PUBLIC_DIRECT_DENY_ZONES_def)

lemma zone_policy_cases:
  "(evaluate_zone_policy intent =
      \<lparr>zone_allowed = True,
       zone_paths = sort (the (map_of ZONE_PATH_RULES (zone_text intent ''source_zone'', zone_text intent ''target_zone''))),
       zone_reason = ''ZONE_RELATION_CANDIDATE_ALLOWED'', zone_from = zone_text intent ''source_zone'',
       zone_to = zone_text intent ''target_zone''\<rparr> \<and> Ex (zone_permits intent)) \<or>
   (\<not> zone_allowed (evaluate_zone_policy intent) \<and> zone_paths (evaluate_zone_policy intent) = [] \<and>
    \<not> Ex (zone_permits intent))"
proof (cases "map_of ZONE_PATH_RULES (zone_text intent ''source_zone'', zone_text intent ''target_zone'')")
  case None
  then have "\<not> Ex (zone_permits intent)" by (simp add: zone_permits_def)
  with None show ?thesis by (simp add: evaluate_zone_policy_def Let_def)
next
  case (Some ts)
  have ne: "ts \<noteq> []"
    using map_of_SomeD [OF Some] by (auto simp: ZONE_PATH_RULES_def)
  then obtain t where t: "t \<in> set ts" by (cases ts) auto
  show ?thesis
  proof (cases "zone_text intent ''source_zone'' = ''ZONE_WAN''")
    case True
    then have "zone_text intent ''target_zone'' = ''ZONE_FUTURE_PUBLIC_SERVICE''"
      using Some wan_rule by simp
    with True Some t show ?thesis
      by (auto simp: evaluate_zone_policy_def zone_permits_def Let_def public_zone_not_denied)
  next
    case False
    with Some t show ?thesis
      by (auto simp: evaluate_zone_policy_def zone_permits_def Let_def)
  qed
qed

lemma zone_paths_iff: "t \<in> set (zone_paths (evaluate_zone_policy intent)) \<longleftrightarrow> zone_permits intent t"
proof (cases "Ex (zone_permits intent)")
  case True
  then obtain u ts where "map_of ZONE_PATH_RULES (zone_text intent ''source_zone'', zone_text intent ''target_zone'') = Some ts"
    "zone_permits intent u"
    by (auto simp: zone_permits_def split: option.splits)
  moreover from this have "zone_permits intent t \<longleftrightarrow> t \<in> set ts" by (auto simp: zone_permits_def)
  ultimately show ?thesis using zone_policy_cases [of intent] by auto
next
  case False
  then show ?thesis using zone_policy_cases [of intent] by auto
qed

lemma zone_allowed_iff: "zone_allowed (evaluate_zone_policy intent) \<longleftrightarrow> Ex (zone_permits intent)"
  using zone_policy_cases [of intent] by auto

lemma zone_permits_known: "zone_permits intent t \<Longrightarrow> t \<in> set DEFAULT_PATH_ORDER"
proof -
  assume "zone_permits intent t"
  then obtain ts where "map_of ZONE_PATH_RULES (zone_text intent ''source_zone'', zone_text intent ''target_zone'') = Some ts"
    and t: "t \<in> set ts" by (auto simp: zone_permits_def split: option.splits)
  from this(1) have "((zone_text intent ''source_zone'', zone_text intent ''target_zone''), ts) \<in> set ZONE_PATH_RULES"
    by (rule map_of_SomeD)
  moreover have "\<forall>r \<in> set ZONE_PATH_RULES. set (snd r) \<subseteq> set DEFAULT_PATH_ORDER" by code_simp
  ultimately show ?thesis using t by fastforce
qed

lemma permitted_types_iff:
  assumes "permitted_types intent (evaluate_zone_policy intent) = Inr permitted"
  shows "t \<in> set permitted \<longleftrightarrow> zone_permits intent t \<and> intent_permits intent t"
proof (cases "truthy (fld intent ''permitted_paths'')")
  case True
  with assms show ?thesis
    by (cases "py_elements (fld intent ''permitted_paths'')")
      (auto simp: permitted_types_def or_else_def intent_permits_def zone_paths_iff)
next
  case False
  then have "py_elements (or_else (fld intent ''permitted_paths'') (str_list DEFAULT_PATH_ORDER)) =
      Inr (map JStr DEFAULT_PATH_ORDER)"
    by (simp add: or_else_def py_elements_def py_list_def hashable_def)
  with assms False zone_permits_known [of intent t] show ?thesis
    by (auto simp: permitted_types_def intent_permits_def zone_paths_iff)
qed

lemma stale_iff: "path_is_stale now clk d = Inr st \<Longrightarrow> st \<longleftrightarrow> \<not> current_evidence now clk d"
  by (auto simp: path_is_stale_def current_evidence_def e_bind_InrD split: option.splits if_splits)

lemma row_faults_Nil: "row_faults intent stale ok ipv6 d = [] \<longleftrightarrow>
    \<not> stale \<and> ok \<and> base_eligible d \<and> (ipv6 \<longrightarrow> truthy (fld d ''qualified'')) \<and>
    (truthy (fld d ''service_identity'') \<longrightarrow> pyeq (fld d ''service_identity'') (fld intent ''service_identity'')) \<and>
    (truthy (fld d ''intent_id'') \<longrightarrow> pyeq (fld d ''intent_id'') (fld intent ''intent_id''))"
  by (simp add: row_faults_def Let_def base_eligible_def)

lemma row_reasons_cases:
  assumes "row_reasons intent permitted now clk d = Inr (st, rs)"
  obtains ok ipv6 where "path_is_stale now clk d = Inr st"
    "in_strings (get_default d ''path_type'' (JStr ''UNKNOWN'')) permitted = Inr ok"
    "in_strings (get_default d ''path_type'' (JStr ''UNKNOWN'')) IPV6_PATH_TYPES = Inr ipv6"
    "rs = row_faults intent st ok ipv6 d"
  using assms by (auto simp: row_reasons_def Let_def e_bind_InrD)

lemma in_strings_iff: "in_strings v names = Inr b \<Longrightarrow> b \<longleftrightarrow> (case v of JStr t \<Rightarrow> t \<in> set names | _ \<Rightarrow> False)"
  by (auto simp: in_strings_def split: if_splits json.splits)

lemma row_reasons_Nil:
  assumes p: "permitted_types intent (evaluate_zone_policy intent) = Inr permitted"
    and r: "row_reasons intent permitted now clk d = Inr (st, rs)"
  shows "rs = [] \<longleftrightarrow> usable intent now clk d"
  using r
proof (cases rule: row_reasons_cases)
  case (1 ok ipv6)
  have "permitted_types intent (evaluate_zone_policy intent) = Inr permitted" by (rule p)
  then show ?thesis
    unfolding 1(4) row_faults_Nil usable_def in_strings_iff [OF 1(2)] in_strings_iff [OF 1(3)]
      stale_iff [OF 1(1)]
    by (cases "get_default d ''path_type'' (JStr ''UNKNOWN'')") (auto simp: permitted_types_iff [OF p])
qed

lemma judge_rows_fst: "judge_rows intent permitted now clk rows = Inr judged \<Longrightarrow> map fst judged = rows"
proof -
  assume "judge_rows intent permitted now clk rows = Inr judged"
  then have "list_all2 (\<lambda>ir j. fst j = snd ir) (enumerate 0 rows) judged"
    unfolding judge_rows_def map_err_Inr by (rule list_all2_mono) (auto simp: e_bind_InrD)
  then have "map snd (enumerate 0 rows) = map fst judged"
    by (induction rule: list_all2_induct) simp_all
  then show ?thesis by simp
qed

lemma judged_usable:
  assumes p: "permitted_types intent (evaluate_zone_policy intent) = Inr permitted"
    and j: "judge_rows intent permitted now clk rows = Inr judged"
  shows "map fst (filter (\<lambda>(_, _, rs). rs = []) judged) = usable_rows intent now clk rows"
proof -
  have "list_all2 (\<lambda>ir j. fst j = snd ir \<and> (snd (snd j) = [] \<longleftrightarrow> usable intent now (clk (fst ir)) (path_data (snd ir))))
      (enumerate 0 rows) judged"
    using j unfolding judge_rows_def map_err_Inr
    by (rule list_all2_mono) (auto simp: e_bind_InrD dest: row_reasons_Nil [OF p])
  then have "map fst (filter (\<lambda>j. snd (snd j) = []) judged) =
      map snd (filter (\<lambda>ir. usable intent now (clk (fst ir)) (path_data (snd ir))) (enumerate 0 rows))"
    by (induction rule: list_all2_induct) auto
  then show ?thesis by (simp add: usable_rows_def case_prod_unfold)
qed

text \<open>The identifiers of the usable paths in the order of the intent.\<close>

definition ranked_ids ::
  "json dict \<Rightarrow> string list \<Rightarrow> string option \<Rightarrow> (nat \<Rightarrow> int) \<Rightarrow> net_path list \<Rightarrow> string list" where
  "ranked_ids intent preference now clk rows =
     sort_path_ids (map row_id (usable_rows intent now clk rows)) rows preference"

lemma evaluate_policy_cases:
  assumes "evaluate_policy intent paths now clk = Inr p"
  obtains preference concurrent decision reason kept where
    "intent_path_order intent = Inr preference"
    "qualified_path_set p = ranked_ids intent preference now clk (with_path_ids paths)"
    "requested_concurrent intent (qualified_path_set p) = Inr concurrent"
    "policy_outcome intent (evaluate_zone_policy intent) (qualified_path_set p \<noteq> []) (paths \<noteq> []) =
       Inr (decision, reason, kept)"
    "candidate_decision p = decision"
    "concurrent_paths p = (if kept then concurrent else [])"
    "selected_path p = (if kept then (case qualified_path_set p of [] \<Rightarrow> None | pid # _ \<Rightarrow> Some pid) else None)"
    "selected_row p = (if kept then map_option path_data
       (find (\<lambda>r. Some (row_id r) = (case qualified_path_set p of [] \<Rightarrow> None | pid # _ \<Rightarrow> Some pid))
          (with_path_ids paths)) else None)"
proof -
  obtain permitted preference judged where j:
    "permitted_types intent (evaluate_zone_policy intent) = Inr permitted"
    "intent_path_order intent = Inr preference"
    "judge_rows intent permitted now clk (with_path_ids paths) = Inr judged"
    using assms by (auto simp: evaluate_policy_def Let_def e_bind_InrD)
  have "map (\<lambda>(r, _, _). row_id r) (filter (\<lambda>(_, _, rs). rs = []) judged) =
      map row_id (usable_rows intent now clk (with_path_ids paths))"
    unfolding judged_usable [OF j(1,3), symmetric] by (simp add: o_def case_prod_unfold)
  then have q: "sort_path_ids (map (\<lambda>(r, _, _). row_id r) (filter (\<lambda>(_, _, rs). rs = []) judged))
      (with_path_ids paths) preference = ranked_ids intent preference now clk (with_path_ids paths)"
    by (simp add: ranked_ids_def)
  have ne: "((case xs of [] \<Rightarrow> None | x # _ \<Rightarrow> Some x) \<noteq> None) = (xs \<noteq> [])" for xs :: "string list"
    by (cases xs) auto
  show thesis
    using assms j that [of preference]
    unfolding evaluate_policy_def Let_def ne
    by (simp only: e_bind_simps q) (auto simp: e_bind_InrD)
qed

section \<open>The candidate\<close>

lemma ranked_ids_set [simp]:
  "set (ranked_ids intent preference now clk rows) = row_id ` set (usable_rows intent now clk rows)"
  by (simp add: ranked_ids_def sort_path_ids_def)

lemma usable_rows_zone: "usable_rows intent now clk rows \<noteq> [] \<Longrightarrow> zone_allowed (evaluate_zone_policy intent)"
proof -
  assume "usable_rows intent now clk rows \<noteq> []"
  then obtain i and r :: net_path where "usable intent now (clk i) (path_data r)"
    by (auto simp: usable_rows_def filter_empty_conv)
  then have "Ex (zone_permits intent)" by (auto simp: usable_def split: json.splits)
  then show ?thesis by (simp add: zone_allowed_iff)
qed

lemma policy_outcome_kept:
  assumes "policy_outcome intent (evaluate_zone_policy intent) some paths = Inr (decision, reason, kept)"
  shows "kept \<longleftrightarrow> identity_bound intent \<and> zone_allowed (evaluate_zone_policy intent)"
    and "decision = ''CANDIDATE_PATH_SELECTED'' \<longleftrightarrow> kept \<and> some"
proof -
  let ?state = "get_default intent ''target_identity_state'' (JStr ''OBSERVED_PARTIAL'')"
  obtain unbound where u: "in_strings ?state [''CONFLICT'', ''UNKNOWN'', ''LOCALIZED_UNKNOWN''] = Inr unbound"
    using assms by (auto simp: policy_outcome_def Let_def e_bind_InrD)
  have "unbound \<longleftrightarrow> \<not> identity_bound intent"
    using in_strings_iff [OF u] by (auto simp: identity_bound_def split: json.splits)
  then show "kept \<longleftrightarrow> identity_bound intent \<and> zone_allowed (evaluate_zone_policy intent)"
    and "decision = ''CANDIDATE_PATH_SELECTED'' \<longleftrightarrow> kept \<and> some"
    using assms u by (auto simp: policy_outcome_def Let_def evaluate_zone_policy_def split: if_splits option.splits)
qed

lemma policy_selected:
  assumes p: "evaluate_policy intent paths now clk = Inr p"
    and pref: "intent_path_order intent = Inr preference"
  shows "selected_path p =
      (if identity_bound intent then
         (case ranked_ids intent preference now clk (with_path_ids paths) of [] \<Rightarrow> None | pid # _ \<Rightarrow> Some pid)
       else None)"
    and "candidate_decision p = ''CANDIDATE_PATH_SELECTED'' \<longleftrightarrow> selected_path p \<noteq> None"
    and "set (concurrent_paths p) \<subseteq> row_id ` set (usable_rows intent now clk (with_path_ids paths))"
    and "concurrent_paths p \<noteq> [] \<Longrightarrow> identity_bound intent"
proof -
  let ?rows = "with_path_ids paths"
  let ?ids = "ranked_ids intent preference now clk ?rows"
  obtain preference' concurrent decision reason kept where e:
    "intent_path_order intent = Inr preference'"
    "qualified_path_set p = ranked_ids intent preference' now clk ?rows"
    "requested_concurrent intent (qualified_path_set p) = Inr concurrent"
    "policy_outcome intent (evaluate_zone_policy intent) (qualified_path_set p \<noteq> []) (paths \<noteq> []) =
       Inr (decision, reason, kept)"
    "candidate_decision p = decision" "concurrent_paths p = (if kept then concurrent else [])"
    "selected_path p = (if kept then (case qualified_path_set p of [] \<Rightarrow> None | pid # _ \<Rightarrow> Some pid) else None)"
    using p by (rule evaluate_policy_cases)
  have q: "qualified_path_set p = ?ids" using e(1,2) pref by simp
  note kept = policy_outcome_kept [OF e(4)]
  have zone: "?ids \<noteq> [] \<Longrightarrow> zone_allowed (evaluate_zone_policy intent)"
    using usable_rows_zone [of intent now clk ?rows] by (metis empty_set image_is_empty ranked_ids_set set_empty)
  show "selected_path p = (if identity_bound intent then (case ?ids of [] \<Rightarrow> None | pid # _ \<Rightarrow> Some pid) else None)"
    using zone kept(1) by (auto simp: e(7) q split: list.splits)
  show "candidate_decision p = ''CANDIDATE_PATH_SELECTED'' \<longleftrightarrow> selected_path p \<noteq> None"
    using kept(2) by (auto simp: e(5,7) split: list.splits)
  have "set concurrent \<subseteq> set ?ids"
    using e(3) by (auto simp: requested_concurrent_def e_bind_InrD q split: if_splits)
  then show "set (concurrent_paths p) \<subseteq> row_id ` set (usable_rows intent now clk ?rows)"
    by (auto simp: e(6))
  show "concurrent_paths p \<noteq> [] \<Longrightarrow> identity_bound intent"
    using kept(1) by (auto simp: e(6) split: if_splits)
qed

text \<open>
  C11: The candidate of an intent is the best of the usable paths.  No path is selected exactly
  when the identity of the target is not bound or no path is usable for the intent: current,
  reachable with its service, of a type that both the zone table and the intent permit,
  qualified if it is an IPv6 path, and bound to no other service or intent.  A selected path
  belongs to a usable row, and no usable row comes before it in the order of the intent's
  preference, score and identifier.
\<close>

theorem selected_path_is_best_usable:
  assumes p: "evaluate_policy intent paths now clk = Inr p"
    and pref: "intent_path_order intent = Inr preference"
  shows "(selected_path p = None \<longleftrightarrow>
            \<not> identity_bound intent \<or> usable_rows intent now clk (with_path_ids paths) = []) \<and>
    (\<forall>pid. selected_path p = Some pid \<longrightarrow>
       pid \<in> row_id ` set (usable_rows intent now clk (with_path_ids paths)) \<and>
       (\<forall>r \<in> set (usable_rows intent now clk (with_path_ids paths)).
          path_key (with_path_ids paths) preference pid \<le> path_key (with_path_ids paths) preference (row_id r)))"
proof -
  let ?us = "usable_rows intent now clk (with_path_ids paths)"
  let ?ids = "ranked_ids intent preference now clk (with_path_ids paths)"
  note sel = policy_selected(1) [OF p pref]
  have empty: "?ids = [] \<longleftrightarrow> ?us = []"
    by (metis empty_set image_is_empty ranked_ids_set set_empty)
  have best: "path_key (with_path_ids paths) preference pid \<le> path_key (with_path_ids paths) preference (row_id r)"
    if "?ids = pid # rest" and r: "r \<in> set ?us" for pid rest r
    using sort_key_hd_least [of "row_id r" "map row_id ?us" "path_key (with_path_ids paths) preference"] that
    by (simp add: ranked_ids_def sort_path_ids_def)
  have member: "pid \<in> row_id ` set ?us" if "?ids = pid # rest" for pid rest
    using that by (metis list.set_intros(1) ranked_ids_set)
  show ?thesis
    using empty best member by (cases ?ids) (auto simp: sel)
qed

section \<open>The decision\<close>

lemma gates_pass_iff:
  "gates_pass verification pid \<longleftrightarrow>
   (\<forall>g \<in> set D8_TWO_PHASE_GATES. gate_value (verification_for_path verification pid) g)"
  by (simp add: gates_pass_def normalize_gates_def list_all_iff)

lemma select_route_cases:
  assumes "select_route sha intent paths verification observed ttl version now clk = Inr r"
  obtains p expiry t where "evaluate_policy intent paths now clk = Inr p" "route_policy r = p"
    "route_intent r = intent"
    "authorized r \<longleftrightarrow> candidate_decision p = ''CANDIDATE_PATH_SELECTED'' \<and> gates_pass verification (selected_path p)"
    "active_path_set r = sorted_set (active_paths p verification (authorized r))"
    "selected_path_expiry paths (selected_path p) = Inr expiry"
    "decision_expiry r = (case expiry of Some x \<Rightarrow> min x (t + max 1 ttl * 1000000)
       | None \<Rightarrow> t + max 1 ttl * 1000000)"
    "route_timestamp observed now (clk (length paths)) = Inr (JStr (decided_at r))"
    "coerce_time (JStr (decided_at r)) = Inr (Some t)" "decision_ttl r = max 1 ttl"
proof -
  obtain p where p: "evaluate_policy intent paths now clk = Inr p"
    using assms by (auto simp: select_route_def e_bind_InrD)
  obtain ts ob t expiry where e: "route_timestamp observed now (clk (length paths)) = Inr ts"
    "coerce_time ts = Inr (Some t)" "selected_path_expiry paths (selected_path p) = Inr expiry"
    and r: "r = \<lparr>route_policy = p, route_intent = intent,
          authorized = (candidate_decision p = ''CANDIDATE_PATH_SELECTED'' \<and>
            list_all snd (normalize_gates (verification_for_path verification (selected_path p)))),
          two_phase_gates = normalize_gates (verification_for_path verification (selected_path p)),
          active_path_set = sorted_set (active_paths p verification
            (candidate_decision p = ''CANDIDATE_PATH_SELECTED'' \<and>
             list_all snd (normalize_gates (verification_for_path verification (selected_path p))))),
          decision_id = decision_digest sha intent p
            (normalize_gates (verification_for_path verification (selected_path p))) version,
          decided_at = py_str ts,
          decision_expiry = (case expiry of Some x \<Rightarrow> min x (t + max 1 ttl * 1000000)
            | None \<Rightarrow> t + max 1 ttl * 1000000),
          decision_ttl = max 1 ttl, policy_version = version\<rparr>"
    using assms p by (auto simp: select_route_def Let_def e_bind_InrD split: option.splits)
  from e(2) obtain s where s: "ts = JStr s" by (cases ts) (auto simp: coerce_time_def)
  show thesis
    by (rule that [of p expiry t]) (use p e s in \<open>simp_all add: r gates_pass_def\<close>)
qed

text \<open>No path has an empty identifier.\<close>

lemma py_str_nonempty: "truthy v \<Longrightarrow> py_str v \<noteq> []"
proof (cases v)
  case (JInt n)
  have "show_int n \<noteq> []" by (simp add: show_int_def show_nat.simps)
  with JInt show ?thesis by (simp add: py_str_def)
qed (simp_all add: py_str_def)

lemma with_path_ids_nth:
  "i < length paths \<Longrightarrow> with_path_ids paths ! i =
     (paths ! i)\<lparr>path_data := dset ''path_id'' (JStr (path_id_of paths i (path_data (paths ! i)))) (path_data (paths ! i))\<rparr>"
  by (simp add: with_path_ids_def nth_enumerate_eq)

lemma length_with_path_ids [simp]: "length (with_path_ids paths) = length paths"
  by (simp add: with_path_ids_def)

lemma row_id_nth: "i < length paths \<Longrightarrow> row_id (with_path_ids paths ! i) = path_id_of paths i (path_data (paths ! i))"
  by (simp add: row_id_def with_path_ids_nth)

lemma path_id_nonempty: "path_id_of paths i d \<noteq> []"
proof -
  have "(if truthy v then py_str v else t @ ''@'' @ s) \<noteq> []" for v t s
    by (simp add: py_str_nonempty)
  then show ?thesis unfolding path_id_of_def Let_def by blast
qed

lemma row_id_nonempty: "r \<in> set (with_path_ids paths) \<Longrightarrow> row_id r \<noteq> []"
  by (auto simp: in_set_conv_nth row_id_nth path_id_nonempty)

lemma usable_rows_subset: "set (usable_rows intent now clk rows) \<subseteq> set rows"
  by (auto simp: usable_rows_def in_set_enumerate_eq)

lemma usable_rowsD:
  assumes "r \<in> set (usable_rows intent now clk rows)"
  obtains i where "i < length rows" "rows ! i = r" "usable intent now (clk i) (path_data r)"
  using assms by (auto simp: usable_rows_def in_set_enumerate_eq)

lemma active_path:
  assumes r: "select_route sha intent paths verification observed ttl version now clk = Inr r"
    and pid: "pid \<in> set (active_path_set r)"
  shows "identity_bound intent" "pid \<in> row_id ` set (usable_rows intent now clk (with_path_ids paths))"
    "gates_pass verification (Some pid)"
proof -
  obtain p expiry t where e: "evaluate_policy intent paths now clk = Inr p"
    "authorized r \<longleftrightarrow> candidate_decision p = ''CANDIDATE_PATH_SELECTED'' \<and> gates_pass verification (selected_path p)"
    "active_path_set r = sorted_set (active_paths p verification (authorized r))"
    using r by (rule select_route_cases)
  obtain preference where pref: "intent_path_order intent = Inr preference"
    using e(1) by (rule evaluate_policy_cases)
  note sel = policy_selected [OF e(1) pref]
  have "pid \<in> set (concurrent_paths p) \<and> gates_pass verification (Some pid) \<or>
      authorized r \<and> selected_path p = Some pid"
    using pid by (auto simp: e(3) sorted_set_def active_paths_def split: option.splits if_splits)
  then have "identity_bound intent \<and> pid \<in> row_id ` set (usable_rows intent now clk (with_path_ids paths)) \<and>
      gates_pass verification (Some pid)"
  proof (elim disjE conjE)
    assume "pid \<in> set (concurrent_paths p)" "gates_pass verification (Some pid)"
    moreover from this(1) have "concurrent_paths p \<noteq> []" by auto
    ultimately show ?thesis using sel(3,4) by auto
  next
    assume a: "authorized r" "selected_path p = Some pid"
    then have "identity_bound intent" "pid \<in> set (ranked_ids intent preference now clk (with_path_ids paths))"
      using sel(1) by (auto split: if_splits list.splits simp del: ranked_ids_set)
    with a e(2) show ?thesis by simp
  qed
  then show "identity_bound intent" "pid \<in> row_id ` set (usable_rows intent now clk (with_path_ids paths))"
    "gates_pass verification (Some pid)" by simp_all
qed

text \<open>
  C9: A route is authorised exactly when the identity of the target is bound, some path is
  usable for the intent, and all nine gates of the verification are set for the first path in
  the order of the intent.  Neither a score nor the verification of another path replaces them.
\<close>

theorem route_authorized_iff:
  assumes r: "select_route sha intent paths verification observed ttl version now clk = Inr r"
    and pref: "intent_path_order intent = Inr preference"
  shows "authorized r \<longleftrightarrow>
    identity_bound intent \<and> usable_rows intent now clk (with_path_ids paths) \<noteq> [] \<and>
    (\<forall>g \<in> set D8_TWO_PHASE_GATES. gate_value (verification_for_path verification
        (Some (hd (ranked_ids intent preference now clk (with_path_ids paths))))) g)"
proof -
  let ?ids = "ranked_ids intent preference now clk (with_path_ids paths)"
  obtain p expiry t where e: "evaluate_policy intent paths now clk = Inr p"
    "authorized r \<longleftrightarrow> candidate_decision p = ''CANDIDATE_PATH_SELECTED'' \<and> gates_pass verification (selected_path p)"
    using r by (rule select_route_cases)
  have empty: "?ids = [] \<longleftrightarrow> usable_rows intent now clk (with_path_ids paths) = []"
    by (metis empty_set image_is_empty ranked_ids_set set_empty)
  show ?thesis
    using empty policy_selected(1,2) [OF e(1) pref]
    by (cases ?ids) (auto simp: e(2) gates_pass_iff split: if_splits)
qed


section \<open>An example\<close>

text \<open>A call inside the core zone over one LAN and one Tailscale path, at an instant of the year 2026.\<close>

definition demo_path :: "string \<Rightarrow> string \<Rightarrow> bool \<Rightarrow> net_path" where
  "demo_path kind pid up =
     \<lparr>path_data = [(''path_id'', JStr pid), (''path_type'', JStr kind), (''available'', JBool up),
        (''host_reachable'', JBool up), (''service_reachable'', JBool up), (''qualified'', JBool up),
        (''interface'', JStr ''eth0''), (''target'', JStr ''edge'')],
      path_score = Some (1 / 2)\<rparr>"

definition demo_call :: service_call where
  "demo_call =
     \<lparr>call_intent_id = ''READ_HEALTH'', call_source_node = ''hub'', call_target_node = ''edge'',
      call_service = ''HEALTH'', call_source_zone = ''ZONE_CORE'', call_target_zone = ''ZONE_CORE'',
      call_class = ''INTERNAL_APPLICATION'', call_gateway = False, call_permitted = None,
      call_concurrent = None, call_allow_concurrent = True, call_preference = None,
      call_identity = ''OBSERVED_PARTIAL''\<rparr>"

definition verified_paths :: "string list \<Rightarrow> json dict" where
  "verified_paths pids = map (\<lambda>pid. (pid, gates_json (map (\<lambda>g. (g, True)) D8_TWO_PHASE_GATES))) pids"

definition demo_now :: string where
  "demo_now = ''2026-09-24T00:00:00Z''"

lemma demo_stamp: "parse_stamp demo_now = Some (Instant 63925891200000000)"
proof -
  have num: "read_nat ''2026'' = 2026" "read_nat ''09'' = 9" "read_nat ''24'' = 24"
    by (simp_all add: read_nat_def digit_val_def)
  have "ordinal 2026 9 24 = 739883" by (simp add: ordinal_def days_in_month_def upt_rec)
  then have day: "iso_date ''2026-09-24'' = Some 739883"
    by (simp add: iso_date_def two_digits_def num days_in_month_def Let_def is_digit_def)
  have time: "iso_time ''00:00:00+00:00'' = Some (0, Some 0)" by code_simp
  have spelled: "replace_all ''Z'' ''+00:00'' demo_now = ''2026-09-24T00:00:00+00:00''"
    by code_simp
  have "[concat (take 10 gs), concat (drop 11 gs)] = [''2026-09-24'', ''00:00:00+00:00'']"
    if "gs = py_chars ''2026-09-24T00:00:00+00:00''" for gs
    unfolding that by code_simp
  then show ?thesis by (simp add: parse_stamp_def fromisoformat_def spelled Let_def day time day_us_def)
qed

lemma select_route_at:
  assumes p: "evaluate_policy intent paths now clk = Inr p"
    and x: "selected_path_expiry paths (selected_path p) = Inr expiry"
    and s: "s \<noteq> []" "coerce_time (JStr s) = Inr (Some t)" "in_calendar (t + max 1 ttl * 1000000)"
  obtains r where "select_route sha intent paths ver (JStr s) ttl version now clk = Inr r"
    "route_policy r = p"
    "decision_expiry r = (case expiry of Some x \<Rightarrow> min x (t + max 1 ttl * 1000000)
       | None \<Rightarrow> t + max 1 ttl * 1000000)"
proof -
  have now: "route_timestamp (JStr s) now c = Inr (JStr s)" for c
    using s(1) by (simp add: route_timestamp_def)
  have c: "check (in_calendar (t + max 1 ttl * 1000000)) e = Inr ()" for e
    using s(3) by (simp add: check_def)
  show thesis
    by (rule that, simp only: select_route_def p now s(2) x c e_bind_simps option.case Let_def)
      simp_all
qed

lemma select_route_run:
  assumes p: "evaluate_policy intent paths now clk = Inr p"
    and x: "selected_path_expiry paths (selected_path p) = Inr expiry" and ttl: "ttl \<le> 3600"
  obtains r where "select_route sha intent paths ver (JStr demo_now) ttl version now clk = Inr r"
    "route_policy r = p"
proof -
  have "demo_now \<noteq> []" "coerce_time (JStr demo_now) = Inr (Some 63925891200000000)"
    "in_calendar (63925891200000000 + max 1 ttl * 1000000)"
    using ttl by (simp_all add: demo_now_def coerce_time_def demo_stamp [unfolded demo_now_def] to_utc_def
        as_utc_def in_calendar_def day_us_def)
  from select_route_at [OF p x this, of sha ver version] that show thesis by blast
qed

definition demo_paths :: "bool \<Rightarrow> net_path list" where
  "demo_paths lan = [demo_path ''LAN_IPV4'' ''LAN'' lan, demo_path ''TAILSCALE_IPV4'' ''TAIL'' True]"

lemma demo_route:
  obtains r where "select_route sha (call_intent demo_call) (demo_paths True) ver (JStr demo_now) 300 ''V1''
      (Some demo_now) clk = Inr r"
    "selected_path (route_policy r) = Some ''LAN''" "alternate_paths (route_policy r) = [''TAIL'']"
proof -
  have "case evaluate_policy (call_intent demo_call) (demo_paths True) (Some demo_now) clk of
      Inr p \<Rightarrow> selected_path p = Some ''LAN'' \<and> alternate_paths p = [''TAIL'']  | Inl _ \<Rightarrow> False"
    by code_simp
  then obtain p where p: "evaluate_policy (call_intent demo_call) (demo_paths True) (Some demo_now) clk = Inr p"
    "selected_path p = Some ''LAN''" "alternate_paths p = [''TAIL'']" by (auto split: sum.splits)
  have "selected_path_expiry (demo_paths True) (Some ''LAN'') = Inr None" by code_simp
  then have x: "selected_path_expiry (demo_paths True) (selected_path p) = Inr None" by (simp add: p(2))
  show thesis
    by (rule select_route_run [OF p(1) x, of 300 sha ver "''V1''"]) (use p(2,3) that in simp_all)
qed

lemma select_route_active:
  assumes r: "select_route sha intent paths ver observed ttl version now clk = Inr r"
    and sel: "selected_path (route_policy r) = Some pid" and gates: "gates_pass ver (Some pid)"
    and found: "candidate_decision (route_policy r) = ''CANDIDATE_PATH_SELECTED''"
  shows "authorized r" "pid \<in> set (active_path_set r)"
proof -
  obtain p expiry t where e: "evaluate_policy intent paths now clk = Inr p" "route_policy r = p"
    "authorized r \<longleftrightarrow> candidate_decision p = ''CANDIDATE_PATH_SELECTED'' \<and> gates_pass ver (selected_path p)"
    "active_path_set r = sorted_set (active_paths p ver (authorized r))"
    using r by (rule select_route_cases)
  obtain preference where pref: "intent_path_order intent = Inr preference"
    using e(1) by (rule evaluate_policy_cases)
  have "pid \<in> set (ranked_ids intent preference now clk (with_path_ids paths))"
    using policy_selected(1) [OF e(1) pref] sel e(2)
    by (auto split: if_splits list.splits simp del: ranked_ids_set)
  then have ne: "pid \<noteq> []" using row_id_nonempty usable_rows_subset by fastforce
  show a: "authorized r" using e(2,3) sel gates found by simp
  show "pid \<in> set (active_path_set r)"
    using a ne sel e(2) by (simp add: e(4) sorted_set_def active_paths_def set_insort_key)
qed

theorem selected_path_is_best_usable_witness:
  "\<exists>p. evaluate_policy (call_intent demo_call) (demo_paths True) (Some demo_now) (\<lambda>_. 0) = Inr p \<and>
     selected_path p = Some ''LAN'' \<and>
     path_key (with_path_ids (demo_paths True)) DEFAULT_PATH_ORDER ''LAN''
       \<le> path_key (with_path_ids (demo_paths True)) DEFAULT_PATH_ORDER ''TAIL''"
proof -
  have "case evaluate_policy (call_intent demo_call) (demo_paths True) (Some demo_now) (\<lambda>_. 0) of
      Inr p \<Rightarrow> selected_path p = Some ''LAN'' | Inl _ \<Rightarrow> False" by code_simp
  then obtain p where p: "evaluate_policy (call_intent demo_call) (demo_paths True) (Some demo_now) (\<lambda>_. 0) = Inr p"
    "selected_path p = Some ''LAN''" by (auto split: sum.splits)
  have pref: "intent_path_order (call_intent demo_call) = Inr DEFAULT_PATH_ORDER" by code_simp
  have us: "map row_id (usable_rows (call_intent demo_call) (Some demo_now) (\<lambda>_. 0) (with_path_ids (demo_paths True))) =
      [''LAN'', ''TAIL'']" by code_simp
  have "''TAIL'' \<in> set (map row_id (usable_rows (call_intent demo_call) (Some demo_now) (\<lambda>_. 0)
      (with_path_ids (demo_paths True))))" by (simp add: us)
  then show ?thesis using selected_path_is_best_usable [OF p(1) pref] p by auto
qed

theorem route_authorized_iff_witness:
  "\<exists>r. select_route (\<lambda>_. ''digest'') (call_intent demo_call) (demo_paths True) (verified_paths [''LAN''])
          (JStr demo_now) 300 ''V1'' (Some demo_now) (\<lambda>_. 0) = Inr r \<and> authorized r"
proof -
  obtain r where r: "select_route (\<lambda>_. ''digest'') (call_intent demo_call) (demo_paths True) (verified_paths [''LAN''])
      (JStr demo_now) 300 ''V1'' (Some demo_now) (\<lambda>_. 0) = Inr r"
    by (rule demo_route)
  have pref: "intent_path_order (call_intent demo_call) = Inr DEFAULT_PATH_ORDER" by code_simp
  have "identity_bound (call_intent demo_call)" by code_simp
  moreover have "map row_id (usable_rows (call_intent demo_call) (Some demo_now) (\<lambda>_. 0)
      (with_path_ids (demo_paths True))) \<noteq> []" by code_simp
  moreover have "\<forall>g \<in> set D8_TWO_PHASE_GATES. gate_value (verification_for_path (verified_paths [''LAN''])
      (Some (hd (ranked_ids (call_intent demo_call) DEFAULT_PATH_ORDER (Some demo_now) (\<lambda>_. 0)
        (with_path_ids (demo_paths True)))))) g" by code_simp
  ultimately show ?thesis using route_authorized_iff [OF r pref] r by auto
qed

definition public_call :: service_call where
  "public_call = demo_call\<lparr>call_source_zone := ''ZONE_WAN'', call_target_zone := ''ZONE_FUTURE_PUBLIC_SERVICE'',
     call_class := ''PUBLIC_APPLICATION'', call_gateway := True\<rparr>"


text \<open>
  A binding on hold can still list active paths.  When the candidate has not passed its
  gates, the decision is to hold and the route is not authorised, but every other concurrent path
  whose own gates are set is in the active set of that decision.
\<close>

theorem held_binding_lists_active_paths:
  assumes r: "select_route sha intent paths ver observed ttl version now clk = Inr r"
    and held: "\<not> gates_pass ver (selected_path (route_policy r))"
    and pid: "pid \<in> set (concurrent_paths (route_policy r))" "selected_path (route_policy r) \<noteq> Some pid"
      "gates_pass ver (Some pid)"
  shows "route_decision r = ''HOLD'' \<and> \<not> authorized r \<and> pid \<in> set (active_path_set r)"
proof -
  obtain p expiry t where "route_policy r = p"
    "authorized r \<longleftrightarrow> candidate_decision p = ''CANDIDATE_PATH_SELECTED'' \<and> gates_pass ver (selected_path p)"
    "active_path_set r = sorted_set (active_paths p ver (authorized r))"
    using r by (rule select_route_cases)
  with held pid show ?thesis by (auto simp: route_decision_def sorted_set_def active_paths_def)
qed

theorem held_binding_lists_active_paths_witness:
  "\<exists>r. select_route (\<lambda>_. ''digest'') (call_intent demo_call) (demo_paths True) (verified_paths [''TAIL''])
          (JStr demo_now) 300 ''V1'' (Some demo_now) (\<lambda>_. 0) = Inr r \<and>
     route_decision r = ''HOLD'' \<and> ''TAIL'' \<in> set (active_path_set r)"
proof -
  obtain r where r: "select_route (\<lambda>_. ''digest'') (call_intent demo_call) (demo_paths True) (verified_paths [''TAIL''])
      (JStr demo_now) 300 ''V1'' (Some demo_now) (\<lambda>_. 0) = Inr r"
    and sel: "selected_path (route_policy r) = Some ''LAN''"
    by (rule demo_route)
  obtain p expiry t where p: "evaluate_policy (call_intent demo_call) (demo_paths True) (Some demo_now) (\<lambda>_. 0) = Inr p"
    "route_policy r = p" using r by (rule select_route_cases)
  have "case evaluate_policy (call_intent demo_call) (demo_paths True) (Some demo_now) (\<lambda>_. 0) of
      Inr p \<Rightarrow> concurrent_paths p = [''LAN'', ''TAIL''] | Inl _ \<Rightarrow> False" by code_simp
  then have con: "''TAIL'' \<in> set (concurrent_paths (route_policy r))" by (simp add: p)
  have held: "\<not> gates_pass (verified_paths [''TAIL'']) (selected_path (route_policy r))"
    unfolding sel by code_simp
  have ok: "gates_pass (verified_paths [''TAIL'']) (Some ''TAIL'')" by code_simp
  show ?thesis using held_binding_lists_active_paths [OF r held con _ ok] r sel by simp
qed

text \<open>
  Of two rows with one identifier the later is usable, and the identifier is selected, but the row
  that supplies target and interface is the earlier one, which was denied.
\<close>

lemma denied_row_names_the_target:
  "case evaluate_policy (call_intent demo_call) [demo_path ''LAN_IPV4'' ''LAN'' False, demo_path ''LAN_IPV4'' ''LAN'' True]
      (Some demo_now) (\<lambda>_. 0) of
     Inr p \<Rightarrow> candidate_decision p = ''CANDIDATE_PATH_SELECTED'' \<and> denied_path_set p = [''LAN''] \<and>
       map_option (\<lambda>d. fld d ''available'') (selected_row p) = Some (JBool False)
   | Inl _ \<Rightarrow> False"
  by code_simp

end
