(* ===== verification/NetFailover.thy ===== *)
theory NetFailover
  imports NetProps
begin

text \<open>
  The re-evaluation of a binding that an earlier decision made: which path it holds afterwards
  and in which state, in terms of the paths that are usable now.
\<close>

section \<open>The preference of the binding\<close>

lemma map_of_above: "map_of (rev (zip xs [Suc m..<n])) y \<noteq> Some 0"
proof
  assume "map_of (rev (zip xs [Suc m..<n])) y = Some 0"
  then have "(y, 0) \<in> set (zip xs [Suc m..<n])" by (metis map_of_SomeD set_rev)
  then show False by (auto dest: set_zip_rightD)
qed

lemma rank_of_Cons:
  "rank_of (x # xs) y =
     (case map_of (rev (zip xs [Suc 0..<Suc (length xs)])) y of
        Some n \<Rightarrow> Some n | None \<Rightarrow> if y = x then Some 0 else None)"
proof -
  have "[0..<length (x # xs)] = 0 # [Suc 0..<Suc (length xs)]" by (simp add: upt_rec)
  then show ?thesis by (auto simp: rank_of_def map_add_def split: option.splits)
qed

lemma rank_of_hd: "x \<notin> set xs \<Longrightarrow> rank_of (x # xs) x = Some 0"
proof -
  assume "x \<notin> set xs"
  then have "map_of (rev (zip xs [Suc 0..<Suc (length xs)])) x = None"
    by (auto simp: map_of_eq_None_iff dest: set_zip_leftD)
  then show ?thesis by (simp add: rank_of_Cons)
qed

lemma rank_of_other: "y \<noteq> x \<Longrightarrow> rank_of (x # xs) y \<noteq> Some 0"
  using map_of_above [of xs 0 "Suc (length xs)" y] by (auto simp: rank_of_Cons split: option.splits)

lemma path_key_preferred:
  assumes x: "x \<notin> set xs" and q: "q \<in> row_id ` set rows" "q \<noteq> x" and p: "x \<in> row_id ` set rows"
    and clash: "\<forall>row \<in> set rows. row_id row \<noteq> x \<longrightarrow> py_str (fld (path_data row) ''path_type'') \<noteq> x"
  shows "path_key rows (x # xs) x < path_key rows (x # xs) q"
proof -
  have row: "last (filter (\<lambda>r. row_id r = z) rows) \<in> set rows \<and>
      row_id (last (filter (\<lambda>r. row_id r = z) rows)) = z" if "z \<in> row_id ` set rows" for z
  proof -
    have "filter (\<lambda>r. row_id r = z) rows \<noteq> []" using that by (auto simp: filter_empty_conv)
    from last_in_set [OF this] show ?thesis by simp
  qed
  let ?row = "last (filter (\<lambda>r. row_id r = q) rows)"
  have "row_rank (x # xs) ?row \<noteq> 0"
    using row [OF q(1)] q(2) clash rank_of_other [of q x xs]
      rank_of_other [of "py_str (fld (path_data ?row) ''path_type'')" x xs]
    by (auto simp: row_rank_def split: option.splits)
  moreover have "row_rank (x # xs) (last (filter (\<lambda>r. row_id r = x) rows)) = 0"
    using row [OF p] rank_of_hd [OF x] by (simp add: row_rank_def)
  ultimately show ?thesis by (simp add: path_key_def Let_def)
qed

lemma ranked_ids_preferred:
  assumes "x \<notin> set xs" and p: "x \<in> row_id ` set (usable_rows intent now clk rows)"
    and "\<forall>row \<in> set rows. row_id row \<noteq> x \<longrightarrow> py_str (fld (path_data row) ''path_type'') \<noteq> x"
  shows "\<exists>rest. ranked_ids intent (x # xs) now clk rows = x # rest"
proof -
  let ?ids = "map row_id (usable_rows intent now clk rows)"
  have ne: "?ids \<noteq> []" using p by auto
  then obtain y rest where y: "sort_key (path_key rows (x # xs)) ?ids = y # rest"
    by (metis list.exhaust length_0_conv length_sort)
  have "y \<in> set ?ids" by (metis y list.set_intros(1) set_sort)
  then have rows: "y \<in> row_id ` set rows" "x \<in> row_id ` set rows"
    using p usable_rows_subset by fastforce+
  have "path_key rows (x # xs) y \<le> path_key rows (x # xs) x"
    using sort_key_hd_least [of x ?ids "path_key rows (x # xs)"] p y by simp
  then have "y = x"
    using path_key_preferred [OF assms(1) rows(1) _ rows(2) assms(3)] by force
  with y show ?thesis by (simp add: ranked_ids_def sort_path_ids_def)
qed

section \<open>The intent of a binding\<close>

lemma get_default_dset [simp]:
  "get_default (dset k v d) k' other = (if k' = k then v else get_default d k' other)"
  by (simp add: get_default_def)

lemma preference_irrelevant [simp]:
  "usable_rows (dset ''path_preference'' v intent) now clk rows = usable_rows intent now clk rows"
  "identity_bound (dset ''path_preference'' v intent) = identity_bound intent"
proof -
  have "zone_permits (dset ''path_preference'' v intent) = zone_permits intent"
    "intent_permits (dset ''path_preference'' v intent) = intent_permits intent"
    by (simp_all add: fun_eq_iff zone_permits_def intent_permits_def zone_text_def)
  then have "usable (dset ''path_preference'' v intent) now c d = usable intent now c d" for c d
    by (cases "get_default d ''path_type'' (JStr ''UNKNOWN'')") (simp_all add: usable_def)
  then show "usable_rows (dset ''path_preference'' v intent) now clk rows = usable_rows intent now clk rows"
    by (simp add: usable_rows_def)
  show "identity_bound (dset ''path_preference'' v intent) = identity_bound intent"
    by (simp add: identity_bound_def)
qed

lemma route_update_keys: "dkeys (route_update r) =
    [''decision'', ''authorized'', ''candidate_selection_state'', ''d8_two_phase_gates'',
     ''d8_two_phase_decision'', ''intent_id'', ''source_node'', ''source_zone'', ''target_node'',
     ''target_zone'', ''service_identity'', ''service_class'', ''published_gateway_bound'', ''intent'',
     ''active_path_set'', ''end_to_end_chain'', ''end_to_end_verified'', ''decision_state'',
     ''binding_state'', ''decision_id'', ''observed_at'', ''expires_at'', ''ttl_seconds'',
     ''policy_version'', ''authority_scope'', ''total_field_decision'', ''canonical'']"
  by (simp add: route_update_def BINDING_KEYS_def Let_def)

lemma route_update_distinct: "distinct (dkeys (route_update r))"
  unfolding route_update_keys by code_simp

lemma dget_route_json: "dget (route_json r) k =
    (case dget (route_update r) k of Some v \<Rightarrow> Some v | None \<Rightarrow> dget (policy_json (route_policy r)) k)"
  by (simp add: route_json_def dget_dmerge route_update_distinct)

lemma route_json_fields:
  "fld (dset ''observed_at'' v (route_json r)) ''selected_path'' = option_json (selected_path (route_policy r))"
  "get_default (dset ''observed_at'' v (route_json r)) ''alternate_paths'' d = str_list (alternate_paths (route_policy r))"
  "fld (dset ''observed_at'' v (route_json r)) ''intent'' = JObj (route_intent r)"
  "get_default (dset ''observed_at'' v (route_json r)) ''ttl_seconds'' d = JInt (decision_ttl r)"
proof -
  have none: "dget (route_update r) ''selected_path'' = None" "dget (route_update r) ''alternate_paths'' = None"
    by (simp_all only: map_of_eq_None_iff route_update_keys flip: set_map) simp_all
  show "fld (dset ''observed_at'' v (route_json r)) ''selected_path'' = option_json (selected_path (route_policy r))"
    by (simp add: get_or_none_def dget_route_json none(1)) (simp add: policy_json_def Let_def)
  show "get_default (dset ''observed_at'' v (route_json r)) ''alternate_paths'' d = str_list (alternate_paths (route_policy r))"
    by (simp add: get_default_def dget_route_json none(2)) (simp add: policy_json_def Let_def)
  show "fld (dset ''observed_at'' v (route_json r)) ''intent'' = JObj (route_intent r)"
    by (simp add: get_or_none_def dget_route_json) (simp add: route_update_def BINDING_KEYS_def Let_def)
  show "get_default (dset ''observed_at'' v (route_json r)) ''ttl_seconds'' d = JInt (decision_ttl r)"
    by (simp add: get_default_def dget_route_json) (simp add: route_update_def BINDING_KEYS_def Let_def)
qed

lemma failover_intent_of:
  assumes "fld binding ''selected_path'' = JStr pid" "pid \<noteq> []" "fld binding ''intent'' = JObj intent" "intent \<noteq> []"
    "get_default binding ''alternate_paths'' (JArr []) = str_list alternates" "pid \<notin> set alternates"
  obtains rest where "failover_intent binding = Inr (dset ''path_preference'' (str_list (pid # rest)) intent)"
    "intent_path_order (dset ''path_preference'' (str_list (pid # rest)) intent) =
       Inr (pid # rest @ filter (\<lambda>v. v \<notin> set (pid # rest)) DEFAULT_PATH_ORDER)" "pid \<notin> set rest"
proof -
  let ?rest = "filter (\<lambda>s. s \<noteq> []) alternates"
  have "filter truthy (map JStr alternates) = map JStr ?rest" by (simp add: filter_map o_def)
  then have "failover_intent binding = Inr (dset ''path_preference'' (str_list (pid # ?rest)) intent)"
    using assms by (simp add: failover_intent_def or_else_def py_dict_def py_list_def Let_def)
  moreover have "intent_path_order (dset ''path_preference'' (str_list (pid # ?rest)) intent) =
      Inr (pid # ?rest @ filter (\<lambda>v. v \<notin> set (pid # ?rest)) DEFAULT_PATH_ORDER)"
    by (simp add: intent_path_order_def or_else_def py_list_def Let_def o_def image_image)
  ultimately show thesis using assms(6) by (intro that [of ?rest]) auto
qed

lemma failover_of_selected:
  assumes f: "evaluate_binding_failover sha binding paths ver now clk = Inr f"
    and b: "fld binding ''selected_path'' = JStr pid" "pid \<noteq> []" "fld binding ''intent'' = JObj intent" "intent \<noteq> []"
      "get_default binding ''alternate_paths'' (JArr []) = str_list alternates" "pid \<notin> set alternates"
    and bound: "identity_bound intent"
    and clash: "\<forall>row \<in> set (with_path_ids paths). row_id row \<noteq> pid \<longrightarrow>
      py_str (fld (path_data row) ''path_type'') \<noteq> pid"
  defines "us \<equiv> usable_rows intent now clk (with_path_ids paths)"
    and "next_path \<equiv> selected_path (route_policy (reevaluated f))"
  shows "next_path = None \<longleftrightarrow> us = []"
    and "next_path = Some pid \<longleftrightarrow> pid \<in> row_id ` set us"
    and "binding_state f =
      (if next_path = Some pid \<and> gates_pass ver next_path then ''HEALTHY''
       else if next_path = Some pid \<or> next_path = None then ''PRIMARY_PATH_FAILED''
       else if gates_pass ver next_path then ''ALTERNATE_ACTIVE'' else ''ALTERNATE_VERIFYING'')"
proof -
  obtain rest where i: "failover_intent binding = Inr (dset ''path_preference'' (str_list (pid # rest)) intent)"
    "intent_path_order (dset ''path_preference'' (str_list (pid # rest)) intent) =
       Inr (pid # rest @ filter (\<lambda>v. v \<notin> set (pid # rest)) DEFAULT_PATH_ORDER)" "pid \<notin> set rest"
    using b by (rule failover_intent_of)
  define intent' where "intent' = dset ''path_preference'' (str_list (pid # rest)) intent"
  define tail where "tail = rest @ filter (\<lambda>v. v \<notin> set (pid # rest)) DEFAULT_PATH_ORDER"
  have us: "usable_rows intent' now clk (with_path_ids paths) = us" and bound': "identity_bound intent'"
    using bound by (simp_all add: intent'_def us_def)
  have tail: "pid \<notin> set tail" using i(3) by (auto simp: tail_def)
  obtain ttl version where r: "select_route sha intent' paths ver (fld binding ''observed_at'') ttl version now clk =
      Inr (reevaluated f)"
    and st: "binding_state f = failover_state (option_json next_path) (JStr pid) (authorized (reevaluated f))"
    using f i(1) b(1) by (auto simp: evaluate_binding_failover_def e_bind_InrD intent'_def next_path_def)
  obtain p expiry t where e: "evaluate_policy intent' paths now clk = Inr p" "route_policy (reevaluated f) = p"
    "authorized (reevaluated f) \<longleftrightarrow>
       candidate_decision p = ''CANDIDATE_PATH_SELECTED'' \<and> gates_pass ver (selected_path p)"
    using r by (rule select_route_cases)
  have pref: "intent_path_order intent' = Inr (pid # tail)"
    using i(2) by (simp add: intent'_def tail_def)
  note sel = policy_selected(1,2) [OF e(1) pref]
  have np: "next_path = (case ranked_ids intent' (pid # tail) now clk (with_path_ids paths) of
      [] \<Rightarrow> None | x # _ \<Rightarrow> Some x)"
    using sel(1) bound' by (simp add: next_path_def e(2))
  have ids: "set (ranked_ids intent' (pid # tail) now clk (with_path_ids paths)) = row_id ` set us"
    by (simp add: us)
  have none_ids: "ranked_ids intent' (pid # tail) now clk (with_path_ids paths) = [] \<longleftrightarrow> us = []"
    using ids by (metis empty_set image_is_empty set_empty)
  show "next_path = None \<longleftrightarrow> us = []"
    using none_ids np by (auto split: list.splits)
  have "next_path = Some pid" if "pid \<in> row_id ` set us"
    using ranked_ids_preferred [OF tail _ clash, of intent' now clk] that np us by auto
  then show "next_path = Some pid \<longleftrightarrow> pid \<in> row_id ` set us"
    using ids np by (auto split: list.splits simp del: ranked_ids_set)
  have auth: "authorized (reevaluated f) \<longleftrightarrow> next_path \<noteq> None \<and> gates_pass ver next_path"
    using sel(2) by (simp add: e(2,3) next_path_def)
  have ne: "q \<noteq> []" if "next_path = Some q" for q
  proof -
    have "q \<in> row_id ` set us" using that ids np by (auto split: list.splits simp del: ranked_ids_set)
    then show ?thesis
      using row_id_nonempty usable_rows_subset unfolding us_def by fastforce
  qed
  show "binding_state f =
      (if next_path = Some pid \<and> gates_pass ver next_path then ''HEALTHY''
       else if next_path = Some pid \<or> next_path = None then ''PRIMARY_PATH_FAILED''
       else if gates_pass ver next_path then ''ALTERNATE_ACTIVE'' else ''ALTERNATE_VERIFYING'')"
    using b(2) ne by (cases next_path) (auto simp: st auth failover_state_def option_json_def)
qed

section \<open>The states of failover\<close>

lemma selected_not_alternate:
  assumes "evaluate_policy intent paths now clk = Inr p" "selected_path p = Some pid"
  shows "pid \<notin> set (alternate_paths p)"
  using assms by (auto simp: evaluate_policy_def Let_def e_bind_InrD split: if_splits)

lemma selected_binding:
  assumes "select_route sha intent paths ver obs ttl version now clk = Inr r"
    and "selected_path (route_policy r) = Some pid"
  shows "identity_bound intent" "intent \<noteq> []" "pid \<noteq> []" "route_intent r = intent"
    "pid \<notin> set (alternate_paths (route_policy r))"
proof -
  obtain p expiry t where e: "evaluate_policy intent paths now clk = Inr p" "route_policy r = p"
    "route_intent r = intent"
    using assms(1) by (rule select_route_cases)
  obtain preference where pref: "intent_path_order intent = Inr preference"
    using e(1) by (rule evaluate_policy_cases)
  note sel = policy_selected(1) [OF e(1) pref]
  show "identity_bound intent" using sel assms(2) e(2) by (auto split: if_splits)
  have "pid \<in> set (ranked_ids intent preference now clk (with_path_ids paths))"
    using sel assms(2) e(2) by (auto split: if_splits list.splits simp del: ranked_ids_set)
  then obtain row where row: "row \<in> set (usable_rows intent now clk (with_path_ids paths))" "row_id row = pid"
    by auto
  then show "pid \<noteq> []" using row_id_nonempty usable_rows_subset by fastforce
  have "zone_allowed (evaluate_zone_policy intent)"
    using row(1) usable_rows_zone by (metis empty_iff empty_set)
  then show "intent \<noteq> []"
    by (auto simp: zone_allowed_iff zone_permits_def zone_text_def or_else_def ZONE_PATH_RULES_def)
  show "route_intent r = intent" by (rule e(3))
  show "pid \<notin> set (alternate_paths (route_policy r))"
    using selected_not_alternate [OF e(1)] assms(2) e(2) by simp
qed

text \<open>
  C12: Failover of a binding keeps its path as long as the path is usable, whatever better scored
  or previously preferred paths have appeared, and takes another usable path otherwise; without
  any usable path it selects none.  The state it reports follows: healthy when the kept path has
  passed all gates, an active or a verifying alternate when it moved, and a failed primary path
  in the other cases, among them a kept path whose gates are not all verified.  The path's
  identifier must not be the type of a path with another identifier.
\<close>

theorem failover_state_table:
  assumes r: "select_route sha intent paths0 ver0 obs0 ttl0 version0 now0 clk0 = Inr r"
    and pid: "selected_path (route_policy r) = Some pid"
    and f: "evaluate_binding_failover sha (dset ''observed_at'' obs (route_json r)) paths ver now clk = Inr f"
    and clash: "\<forall>row \<in> set (with_path_ids paths). row_id row \<noteq> pid \<longrightarrow>
      py_str (fld (path_data row) ''path_type'') \<noteq> pid"
  defines "us \<equiv> usable_rows intent now clk (with_path_ids paths)"
    and "next_path \<equiv> selected_path (route_policy (reevaluated f))"
  shows "(next_path = Some pid \<longleftrightarrow> pid \<in> row_id ` set us) \<and> (next_path = None \<longleftrightarrow> us = []) \<and>
    binding_state f =
      (if next_path = Some pid \<and> gates_pass ver next_path then ''HEALTHY''
       else if next_path = Some pid \<or> next_path = None then ''PRIMARY_PATH_FAILED''
       else if gates_pass ver next_path then ''ALTERNATE_ACTIVE'' else ''ALTERNATE_VERIFYING'')"
proof -
  note b = selected_binding [OF r pid]
  have fields: "fld (dset ''observed_at'' obs (route_json r)) ''selected_path'' = JStr pid"
    "fld (dset ''observed_at'' obs (route_json r)) ''intent'' = JObj intent"
    "get_default (dset ''observed_at'' obs (route_json r)) ''alternate_paths'' (JArr []) =
      str_list (alternate_paths (route_policy r))"
    by (simp_all only: route_json_fields pid b(4)) (simp add: option_json_def)
  note t = failover_of_selected [OF f fields(1) b(3) fields(2) b(2) fields(3) b(5,1) clash]
  show ?thesis unfolding us_def next_path_def using t by blast
qed

theorem failover_state_table_witness:
  "\<exists>r f. select_route (\<lambda>_. ''digest'') (call_intent demo_call) (demo_paths True) (verified_paths [''LAN''])
           (JStr demo_now) 300 ''V1'' (Some demo_now) (\<lambda>_. 0) = Inr r \<and>
     evaluate_binding_failover (\<lambda>_. ''digest'') (dset ''observed_at'' (JStr demo_now) (route_json r)) (demo_paths False)
       (verified_paths [''TAIL'']) (Some demo_now) (\<lambda>_. 0) = Inr f \<and>
     binding_state f = ''ALTERNATE_ACTIVE''"
proof -
  obtain r where r: "select_route (\<lambda>_. ''digest'') (call_intent demo_call) (demo_paths True) (verified_paths [''LAN''])
      (JStr demo_now) 300 ''V1'' (Some demo_now) (\<lambda>_. 0) = Inr r"
    and sel: "selected_path (route_policy r) = Some ''LAN''" and alt: "alternate_paths (route_policy r) = [''TAIL'']"
    by (rule demo_route)
  let ?binding = "dset ''observed_at'' (JStr demo_now) (route_json r)"
  define intent where "intent = dset ''path_preference'' (str_list [''LAN'', ''TAIL'']) (call_intent demo_call)"
  have ttl: "decision_ttl r = 300" using r by (rule select_route_cases) simp
  have "route_intent r = call_intent demo_call" using r by (rule select_route_cases)
  then have i: "failover_intent ?binding = Inr intent"
    by (simp only: failover_intent_def route_json_fields sel alt)
      (simp add: or_else_def py_dict_def py_list_def option_json_def intent_def call_intent_def)
  have "case evaluate_policy intent (demo_paths False) (Some demo_now) (\<lambda>_. 0) of
      Inr p \<Rightarrow> selected_path p = Some ''TAIL'' | Inl _ \<Rightarrow> False" unfolding intent_def by code_simp
  then obtain p where p: "evaluate_policy intent (demo_paths False) (Some demo_now) (\<lambda>_. 0) = Inr p"
    "selected_path p = Some ''TAIL''" by (auto split: sum.splits)
  have "selected_path_expiry (demo_paths False) (Some ''TAIL'') = Inr None" by code_simp
  then have x: "selected_path_expiry (demo_paths False) (selected_path p) = Inr None" by (simp add: p(2))
  obtain q where q: "select_route (\<lambda>_. ''digest'') intent (demo_paths False) (verified_paths [''TAIL''])
      (JStr demo_now) 300 (py_str (get_default ?binding ''policy_version'' (JStr ''PER_INTENT_MULTIPATH_V1'')))
      (Some demo_now) (\<lambda>_. 0) = Inr q" "route_policy q = p"
    by (rule select_route_run [OF p(1) x, of 300]) simp
  obtain f where f: "evaluate_binding_failover (\<lambda>_. ''digest'') ?binding (demo_paths False)
      (verified_paths [''TAIL'']) (Some demo_now) (\<lambda>_. 0) = Inr f" "reevaluated f = q"
  proof -
    have "py_int (JInt 300) = Inr 300" by (simp add: py_int_def)
    moreover have "fld ?binding ''observed_at'' = JStr demo_now" by simp
    ultimately show thesis
      by (intro that) (simp_all only: evaluate_binding_failover_def i route_json_fields ttl q e_bind_simps, simp)
  qed
  have clash: "\<forall>row \<in> set (with_path_ids (demo_paths False)). row_id row \<noteq> ''LAN'' \<longrightarrow>
      py_str (fld (path_data row) ''path_type'') \<noteq> ''LAN''" by code_simp
  have "gates_pass (verified_paths [''TAIL'']) (Some ''TAIL'')" by code_simp
  then have "binding_state f = ''ALTERNATE_ACTIVE''"
    using failover_state_table [OF r sel f(1) clash] f(2) q(2) p(2) by simp
  with r f(1) show ?thesis by blast
qed

end
