(* ===== verification/NetOrder.thy ===== *)
theory NetOrder
  imports NetProps "HOL-Library.Multiset"
begin

text \<open>
  The decision does not depend on the order in which the paths were observed, when they carry
  identifiers of their own and the time is given.
\<close>

section \<open>Lists with the same elements\<close>

lemma filter_unique_eq:
  assumes "mset xs = mset ys" "length (filter P xs) \<le> 1"
  shows "filter P ys = filter P xs"
proof -
  have m: "mset (filter P ys) = mset (filter P xs)" by (simp add: assms(1))
  show ?thesis
  proof (cases "filter P xs")
    case Nil
    then show ?thesis using m by simp
  next
    case (Cons x zs)
    with assms(2) have x: "filter P xs = [x]" by simp
    then have "mset (filter P ys) = {#x#}" using m by (simp only: mset.simps)
    then show ?thesis by (simp only: mset_single_iff x)
  qed
qed

lemma find_filter: "find P xs = (case filter P xs of [] \<Rightarrow> None | x # _ \<Rightarrow> Some x)"
  by (induction xs) auto

lemma filter_key_distinct: "distinct (map f xs) \<Longrightarrow> length (filter (\<lambda>x. f x = a) xs) \<le> 1"
proof (induction xs)
  case (Cons x xs)
  show ?case
  proof (cases "f x = a")
    case True
    with Cons.prems have "\<forall>y \<in> set xs. f y \<noteq> a" by (auto simp: rev_image_eqI)
    then have "filter (\<lambda>y. f y = a) xs = []" by (simp add: filter_empty_conv)
    with True show ?thesis by simp
  next
    case False
    with Cons show ?thesis by simp
  qed
qed simp

lemma sorted_set_mset: "mset xs = mset ys \<Longrightarrow> sorted_set xs = sorted_set ys"
  by (metis sorted_list_of_set_sort_remdups sorted_set_def set_mset_mset)

section \<open>Rows with their own identifiers\<close>

definition own_ids :: "net_path list \<Rightarrow> bool" where
  "own_ids paths \<longleftrightarrow> list_all (\<lambda>p. truthy (fld (path_data p) ''path_id'')) paths \<and>
     distinct (map (\<lambda>p. py_str (fld (path_data p) ''path_id'')) paths)"

definition with_own_id :: "net_path \<Rightarrow> net_path" where
  "with_own_id p = p\<lparr>path_data := dset ''path_id'' (JStr (py_str (fld (path_data p) ''path_id''))) (path_data p)\<rparr>"

lemma with_path_ids_own: "own_ids paths \<Longrightarrow> with_path_ids paths = map with_own_id paths"
proof (rule nth_equalityI)
  fix i assume "own_ids paths" "i < length (with_path_ids paths)"
  then show "with_path_ids paths ! i = map with_own_id paths ! i"
    by (simp add: with_path_ids_nth own_ids_def list_all_length path_id_of_def with_own_id_def Let_def)
qed simp

lemma row_id_own [simp]: "row_id (with_own_id p) = py_str (fld (path_data p) ''path_id'')"
  by (simp add: row_id_def with_own_id_def)

lemma distinct_row_ids: "own_ids paths \<Longrightarrow> distinct (map row_id (with_path_ids paths))"
  by (simp add: with_path_ids_own own_ids_def o_def)

lemma row_reasons_now: "row_reasons intent permitted (Some s) c d = row_reasons intent permitted (Some s) c' d"
  by (simp add: row_reasons_def path_is_stale_def)

definition judgement :: "json dict \<Rightarrow> string list \<Rightarrow> string \<Rightarrow> net_path \<Rightarrow> net_path \<times> bool \<times> string list" where
  "judgement intent permitted s row =
     (row, case row_reasons intent permitted (Some s) 0 (path_data row) of Inr j \<Rightarrow> j | Inl _ \<Rightarrow> (False, []))"

lemma judge_rows_now:
  "judge_rows intent permitted (Some s) clk rows = Inr judged \<longleftrightarrow>
   judged = map (judgement intent permitted s) rows \<and>
   (\<forall>row \<in> set rows. \<exists>j. row_reasons intent permitted (Some s) 0 (path_data row) = Inr j)"
proof -
  have now: "row_reasons intent permitted (Some s) (clk i) d = row_reasons intent permitted (Some s) 0 d" for i d
    by (rule row_reasons_now)
  have "judge_rows intent permitted (Some s) clk rows = Inr judged \<longleftrightarrow>
      list_all2 (\<lambda>row y. \<exists>j. row_reasons intent permitted (Some s) 0 (path_data row) = Inr j \<and> y = (row, j)) rows judged"
    unfolding judge_rows_def map_err_Inr list_all2_conv_all_nth
    by (auto simp: nth_enumerate_eq e_bind_InrD now)
  also have "\<dots> \<longleftrightarrow> judged = map (judgement intent permitted s) rows \<and>
      (\<forall>row \<in> set rows. \<exists>j. row_reasons intent permitted (Some s) 0 (path_data row) = Inr j)"
    by (induction rows arbitrary: judged) (auto simp: list_all2_Cons1 judgement_def)
  finally show ?thesis .
qed

text \<open>
  C32: When the paths have identifiers of their own, all different, and the time is given, the
  order in which they were observed does not matter: any permutation of them is evaluated
  without an error as well and has the same candidate, the same alternates, concurrent paths
  and sets, and the same reason.  Only the dictionary of the denials keeps the order.
\<close>

theorem path_order_irrelevant:
  assumes p: "evaluate_policy intent paths (Some s) clk = Inr p"
    and m: "mset paths' = mset paths" and own: "own_ids paths"
  shows "\<exists>p'. evaluate_policy intent paths' (Some s) clk' = Inr p' \<and>
    p'\<lparr>denial_reasons := []\<rparr> = p\<lparr>denial_reasons := []\<rparr>"
proof -
  let ?rows = "with_path_ids paths" and ?rows' = "with_path_ids paths'"
  have own': "own_ids paths'"
  proof -
    have "distinct (map f paths') \<longleftrightarrow> distinct (map f paths)" for f :: "net_path \<Rightarrow> string"
      using m by (intro mset_eq_imp_distinct_iff) simp
    then show ?thesis using own mset_eq_setD [OF m] by (simp add: own_ids_def list_all_iff)
  qed
  have rows: "mset ?rows' = mset ?rows" by (simp add: with_path_ids_own own own' m)
  obtain permitted preference judged where j:
    "permitted_types intent (evaluate_zone_policy intent) = Inr permitted"
    "intent_path_order intent = Inr preference"
    "judge_rows intent permitted (Some s) clk ?rows = Inr judged"
    using p by (auto simp: evaluate_policy_def Let_def e_bind_InrD)
  let ?judged' = "map (judgement intent permitted s) ?rows'"
  have j': "judge_rows intent permitted (Some s) clk' ?rows' = Inr ?judged'"
    using j(3) mset_eq_setD [OF rows] by (simp add: judge_rows_now)
  have mj: "mset ?judged' = mset judged"
    using j(3) rows by (simp add: judge_rows_now)
  have one: "filter (\<lambda>r. row_id r = a) ?rows' = filter (\<lambda>r. row_id r = a) ?rows" for a
    using rows by (intro filter_unique_eq filter_key_distinct distinct_row_ids own) simp
  then have key: "path_key ?rows' = path_key ?rows" by (simp add: path_key_def fun_eq_iff)
  have first: "find (\<lambda>r. Some (row_id r) = x) ?rows' = find (\<lambda>r. Some (row_id r) = x) ?rows" for x
  proof (cases x)
    case None
    then show ?thesis by (simp add: find_filter)
  next
    case (Some a)
    then show ?thesis using one [of a] by (simp add: find_filter)
  qed
  define ids where "ids = sort_path_ids (map (\<lambda>(r, _, _). row_id r) (filter (\<lambda>(_, _, rs). rs = []) judged)) ?rows preference"
  have "mset (map (\<lambda>(r, _, _). row_id r) (filter (\<lambda>(_, _, rs). rs = []) ?judged')) =
      mset (map (\<lambda>(r, _, _). row_id r) (filter (\<lambda>(_, _, rs). rs = []) judged))"
    using mj by simp
  then have ids': "sort_path_ids (map (\<lambda>(r, _, _). row_id r) (filter (\<lambda>(_, _, rs). rs = []) ?judged')) ?rows' preference = ids"
    unfolding sort_path_ids_def key ids_def
    by (intro sort_key_inj_key_eq) (auto simp: inj_on_def path_key_def Let_def)
  have sets: "sorted_set (map f (filter P ?judged')) = sorted_set (map f (filter P judged))" for f P
    using mj by (intro sorted_set_mset) simp
  have available: "sorted_set (map row_id (filter P ?rows')) = sorted_set (map row_id (filter P ?rows))" for P
    using rows by (intro sorted_set_mset) simp
  have ne: "(paths' \<noteq> []) = (paths \<noteq> [])" using m by auto
  obtain concurrent where c: "requested_concurrent intent ids = Inr concurrent"
    using p unfolding evaluate_policy_def Let_def j e_bind_simps ids_def [symmetric]
    by (auto simp: e_bind_InrD)
  obtain decision reason kept where d: "policy_outcome intent (evaluate_zone_policy intent)
      ((case ids of [] \<Rightarrow> None | pid # _ \<Rightarrow> Some pid) \<noteq> None) (paths \<noteq> []) = Inr (decision, reason, kept)"
    using p unfolding evaluate_policy_def Let_def j c e_bind_simps ids_def [symmetric]
    by (auto simp: e_bind_InrD)
  show ?thesis
    using p unfolding evaluate_policy_def Let_def j j' e_bind_simps ids' ids_def [symmetric] first sets available ne c d
      prod.case
    by auto
qed

theorem path_order_irrelevant_witness:
  "\<exists>p'. evaluate_policy (call_intent demo_call) (rev (demo_paths True)) (Some demo_now) (\<lambda>_. 1) = Inr p' \<and>
     selected_path p' = Some ''LAN''"
proof -
  have "case evaluate_policy (call_intent demo_call) (demo_paths True) (Some demo_now) (\<lambda>_. 0) of
      Inr p \<Rightarrow> selected_path p = Some ''LAN'' | Inl _ \<Rightarrow> False" by code_simp
  then obtain p where p: "evaluate_policy (call_intent demo_call) (demo_paths True) (Some demo_now) (\<lambda>_. 0) = Inr p"
    "selected_path p = Some ''LAN''" by (auto split: sum.splits)
  have own: "own_ids (demo_paths True)" by code_simp
  obtain p' where "evaluate_policy (call_intent demo_call) (rev (demo_paths True)) (Some demo_now) (\<lambda>_. 1) = Inr p'"
    "p'\<lparr>denial_reasons := []\<rparr> = p\<lparr>denial_reasons := []\<rparr>"
    using path_order_irrelevant [OF p(1) mset_rev own] by blast
  moreover from arg_cong [OF this(2), of selected_path] have "selected_path p' = selected_path p" by simp
  ultimately show ?thesis using p(2) by auto
qed

end
