(* ===== verification/NetExpiry.thy ===== *)
theory NetExpiry
  imports NetOrder NetFailover
begin

text \<open>
  How long a decision lasts: not beyond the evidence of its path when the path is found again
  under its identifier, and the full time to live when it is not.
\<close>

lemma find_own_path:
  assumes own: "own_ids paths" and p: "p \<in> set paths" "py_str (fld (path_data p) ''path_id'') = pid"
    and other: "\<forall>q \<in> set paths. py_str (fld (path_data q) ''path_id'') \<noteq> pid \<longrightarrow>
      pid \<notin> set (path_identifiers (path_data q))"
  shows "find (\<lambda>q. pid \<in> set (path_identifiers (path_data q))) paths = Some p"
proof -
  have "pid \<in> set (path_identifiers (path_data p))"
    using own p by (auto simp: path_identifiers_def Let_def own_ids_def list_all_iff or_else_def)
  then have "find (\<lambda>q. pid \<in> set (path_identifiers (path_data q))) paths \<noteq> None"
    using p(1) by (auto simp: find_None_iff)
  then obtain q where q: "find (\<lambda>q. pid \<in> set (path_identifiers (path_data q))) paths = Some q" by blast
  then have m: "q \<in> set paths" "pid \<in> set (path_identifiers (path_data q))"
    by (auto simp: find_Some_iff)
  then have "py_str (fld (path_data q) ''path_id'') = pid" using other by blast
  then have "q = p"
    using own p m(1) by (auto simp: own_ids_def distinct_map dest: inj_onD)
  with q show ?thesis by simp
qed

text \<open>
  C33: A decision does not outlive the evidence of its path: when the paths have identifiers of
  their own, all different, none of them a type, or a type and target, of another path, the
  expiry of the decision is at most the expiry of the selected path.
\<close>

theorem decision_ends_with_its_evidence:
  assumes r: "select_route sha intent paths ver observed ttl version now clk = Inr r"
    and pid: "selected_path (route_policy r) = Some pid"
    and own: "own_ids paths" and p: "p \<in> set paths" "py_str (fld (path_data p) ''path_id'') = pid"
    and other: "\<forall>q \<in> set paths. py_str (fld (path_data q) ''path_id'') \<noteq> pid \<longrightarrow>
      pid \<notin> set (path_identifiers (path_data q))"
    and x: "coerce_time (fld (path_data p) ''expires_at'') = Inr (Some x)"
  shows "decision_expiry r \<le> x"
proof -
  obtain pol expiry t where e: "route_policy r = pol" "selected_path_expiry paths (selected_path pol) = Inr expiry"
    "decision_expiry r = (case expiry of Some x \<Rightarrow> min x (t + max 1 ttl * 1000000)
       | None \<Rightarrow> t + max 1 ttl * 1000000)"
    using r by (rule select_route_cases)
  have "pid \<noteq> []" by (rule selected_binding) (fact r, fact pid)
  then have "selected_path_expiry paths (Some pid) = Inr (Some x)"
    by (simp add: selected_path_expiry_def find_own_path [OF own p other] x)
  with e pid show ?thesis by auto
qed

section \<open>Examples\<close>

text \<open>One path whose evidence ends a minute after the decision, with and without names.\<close>

definition early :: string where
  "early = ''0001-01-02T00:00:00Z''"

definition named_path :: net_path where
  "named_path = (demo_path ''LAN_IPV4'' ''LAN'' True)\<lparr>path_data :=
     dset ''expires_at'' (JStr ''0001-01-02T00:01:00Z'') (path_data (demo_path ''LAN_IPV4'' ''LAN'' True))\<rparr>"

definition unnamed_path :: net_path where
  "unnamed_path = named_path\<lparr>path_data := dpop ''path_id'' (dpop ''interface'' (dpop ''target'' (path_data named_path)))\<rparr>"

lemma early_instant: "coerce_time (JStr early) = Inr (Some 172800000000)"
  by code_simp

lemma minute_later: "coerce_time (fld (path_data named_path) ''expires_at'') = Inr (Some 172860000000)"
  "coerce_time (fld (path_data unnamed_path) ''expires_at'') = Inr (Some 172860000000)"
  by code_simp+

lemma early_window: "early \<noteq> []" "in_calendar (172800000000 + max 1 300 * 1000000)"
  by (simp_all add: early_def in_calendar_def day_us_def)

theorem decision_ends_with_its_evidence_witness:
  "\<exists>r. select_route (\<lambda>_. ''digest'') (call_intent demo_call) [named_path] [] (JStr early) 300 ''V1'' (Some early)
          (\<lambda>_. 0) = Inr r \<and> decision_expiry r \<le> 172860000000"
proof -
  have "case evaluate_policy (call_intent demo_call) [named_path] (Some early) (\<lambda>_. 0) of
      Inr p \<Rightarrow> selected_path p = Some ''LAN'' | Inl _ \<Rightarrow> False" by code_simp
  then obtain p where p: "evaluate_policy (call_intent demo_call) [named_path] (Some early) (\<lambda>_. 0) = Inr p"
    "selected_path p = Some ''LAN''" by (auto split: sum.splits)
  have "selected_path_expiry [named_path] (Some ''LAN'') = Inr (Some 172860000000)" by code_simp
  then have x: "selected_path_expiry [named_path] (selected_path p) = Inr (Some 172860000000)" by (simp add: p(2))
  obtain r where r: "select_route (\<lambda>_. ''digest'') (call_intent demo_call) [named_path] [] (JStr early) 300 ''V1''
      (Some early) (\<lambda>_. 0) = Inr r" "route_policy r = p"
    by (rule select_route_at [OF p(1) x early_window(1) early_instant early_window(2)])
  have own: "own_ids [named_path]" and pid: "py_str (fld (path_data named_path) ''path_id'') = ''LAN''"
    by code_simp+
  have "selected_path (route_policy r) = Some ''LAN''" using r(2) p(2) by simp
  from decision_ends_with_its_evidence [OF r(1) this own _ pid _ minute_later(1)] r(1) pid show ?thesis by simp
qed

text \<open>
  Two observed paths of one type without identifier, target and interface get identifiers
  with their positions, under which the expiry of the selected one is not found: the decision,
  authorised by a verification for that identifier, then stands for its full time to live of 300
  seconds although the evidence of both paths ends after 60.
\<close>

theorem numbered_path_outlives_its_evidence:
  "\<exists>r. select_route (\<lambda>_. ''digest'') (call_intent demo_call) [unnamed_path, unnamed_path]
          (verified_paths [''LAN_IPV4@0'']) (JStr early) 300 ''V1'' (Some early) (\<lambda>_. 0) = Inr r \<and>
     authorized r \<and> coerce_time (fld (path_data unnamed_path) ''expires_at'') = Inr (Some 172860000000) \<and>
     172860000000 < decision_expiry r"
proof -
  have "case evaluate_policy (call_intent demo_call) [unnamed_path, unnamed_path] (Some early) (\<lambda>_. 0) of
      Inr p \<Rightarrow> selected_path p = Some ''LAN_IPV4@0'' \<and> candidate_decision p = ''CANDIDATE_PATH_SELECTED''
    | Inl _ \<Rightarrow> False" by code_simp
  then obtain p where p: "evaluate_policy (call_intent demo_call) [unnamed_path, unnamed_path] (Some early) (\<lambda>_. 0) = Inr p"
    "selected_path p = Some ''LAN_IPV4@0''" "candidate_decision p = ''CANDIDATE_PATH_SELECTED''"
    by (auto split: sum.splits)
  have "selected_path_expiry [unnamed_path, unnamed_path] (Some ''LAN_IPV4@0'') = Inr None" by code_simp
  then have x: "selected_path_expiry [unnamed_path, unnamed_path] (selected_path p) = Inr None" by (simp add: p(2))
  obtain r where r: "select_route (\<lambda>_. ''digest'') (call_intent demo_call) [unnamed_path, unnamed_path]
      (verified_paths [''LAN_IPV4@0'']) (JStr early) 300 ''V1'' (Some early) (\<lambda>_. 0) = Inr r" "route_policy r = p"
    "decision_expiry r = 172800000000 + max 1 300 * 1000000"
    by (rule select_route_at [OF p(1) x early_window(1) early_instant early_window(2)]) (simp only: option.case)
  have "gates_pass (verified_paths [''LAN_IPV4@0'']) (Some ''LAN_IPV4@0'')" by code_simp
  then have "authorized r" using select_route_active(1) [OF r(1)] p r(2) by simp
  then show ?thesis using r(1,3) minute_later(2) by auto
qed

end
