(* ===== verification/NetHealing.thy ===== *)
theory NetHealing
  imports PyRepr
begin

text \<open>
  \<open>healing.py\<close>, \<open>rollback_guard.py\<close> and \<open>path_evaluator.qualify_ipv6\<close> of the adaptive network
  capability: the plan of refreshing actions for a list of findings, the guard every action
  passes, and the gates of an IPv6 candidate.
\<close>

section \<open>The guard\<close>

definition LOW_RISK_ACTIONS :: "string list" where
  "LOW_RISK_ACTIONS =
     [''refresh_observation'', ''refresh_dns_state'', ''refresh_peer_state'', ''reprobe_alternate_path'',
      ''switch_application_candidate_path'', ''restart_skill_local_observer'']"

definition FORBIDDEN_ACTIONS :: "string list" where
  "FORBIDDEN_ACTIONS =
     [''restart_host'', ''restart_router'', ''change_wan'', ''flush_firewall'', ''disable_ipv6_globally'',
      ''change_dhcp_globally'', ''delete_routes'', ''reset_tailscale'', ''nvram_set'', ''nvram_commit'']"

definition refusal :: "string \<Rightarrow> string \<Rightarrow> string \<Rightarrow> string \<Rightarrow> json dict" where
  "refusal decision action why rollback =
     [(''decision'', JStr decision), (''action'', JStr action), (''reason'', JStr why),
      (''rollback'', JStr rollback)]"

definition guard_action :: "string \<Rightarrow> string option \<Rightarrow> json dict" where
  "guard_action action preimage =
     (let given = (case preimage of None \<Rightarrow> False | Some r \<Rightarrow> r \<noteq> []) in
      if action \<in> set FORBIDDEN_ACTIONS
      then refusal ''DENY'' action ''FIRST_ROUND_FORBIDDEN_NETWORK_EFFECT'' ''NOT_APPLICABLE_NO_EFFECT_ALLOWED''
      else if action \<notin> set LOW_RISK_ACTIONS
      then refusal ''HOLD'' action ''ACTION_NOT_IN_SKILL_LOCAL_ALLOWLIST'' ''NOT_PROVEN''
      else if action \<in> {''switch_application_candidate_path'', ''restart_skill_local_observer''} \<and> \<not> given
      then refusal ''HOLD'' action ''ROLLBACK_PREIMAGE_REQUIRED'' ''NOT_PROVEN''
      else
        [(''decision'', JStr ''ALLOW_CANDIDATE_ONLY''), (''action'', JStr action),
         (''reason'', JStr ''LOW_RISK_SKILL_LOCAL_ACTION''),
         (''rollback'', JStr (if given then ''restore_or_reselect:'' @ the preimage
                              else ''discard_refreshed_evidence'')),
         (''network_mutation'', JBool False), (''authority_scope'', JStr ''CANDIDATE_ONLY'')])"

section \<open>The healing plan\<close>

definition ACTION_BY_RISK :: "(string \<times> string) list" where
  "ACTION_BY_RISK =
     [(''DNS_DRIFT'', ''refresh_dns_state''), (''STALE_DNS'', ''refresh_dns_state''),
      (''STALE_TAILSCALE_IP'', ''refresh_peer_state''), (''TUNNEL_DRIFT'', ''refresh_peer_state''),
      (''IPV6_DRIFT'', ''reprobe_alternate_path''), (''ROUTE_DRIFT'', ''reprobe_alternate_path''),
      (''ASYMMETRIC_ROUTE'', ''reprobe_alternate_path'')]"

text \<open>\<open>ACTION_BY_RISK.get(risk_id, "refresh_observation")\<close>; the key must be hashable.\<close>

definition action_of :: "json \<Rightarrow> py_error + string" where
  "action_of risk =
     (if \<not> hashable risk then Inl (TypeError ''unhashable type'')
      else Inr (case risk of
        JStr s \<Rightarrow> (case map_of ACTION_BY_RISK s of Some a \<Rightarrow> a | None \<Rightarrow> ''refresh_observation'')
      | _ \<Rightarrow> ''refresh_observation''))"

text \<open>
  \<open>sorted(set(xs))\<close> of hashable values: of equal values the first is kept; strings are ordered,
  numbers are ordered, and a mixture is a \<open>TypeError\<close>.
\<close>

fun dedup_eq :: "json list \<Rightarrow> json list" where
  "dedup_eq [] = []"
| "dedup_eq (x # xs) = x # filter (\<lambda>y. \<not> pyeq x y) (dedup_eq xs)"

definition sorted_values :: "json list \<Rightarrow> py_error + json list" where
  "sorted_values xs =
     (let ys = dedup_eq xs in
      if length ys \<le> 1 then Inr ys
      else if list_all is_str ys then Inr (map JStr (sort (map str_of ys)))
      else if list_all is_int ys then Inr (sort_key int_of ys)
      else Inl (TypeError ''< not supported between these values''))"

definition plan_entry :: "json list \<Rightarrow> string \<Rightarrow> py_error + json dict" where
  "plan_entry risk_ids action =
     e_bind (filter_err (\<lambda>r. e_bind (action_of r) (\<lambda>a. Inr (a = action))) risk_ids) (\<lambda>mine.
     e_bind (sorted_values mine) (\<lambda>ids.
     Inr (dmerge [(''risk_ids'', JArr ids)] (guard_action action None) @
          [(''execution_performed'', JBool False)])))"

fun plan_loop :: "json list \<Rightarrow> json list \<Rightarrow> string list \<Rightarrow> py_error + json dict list" where
  "plan_loop all [] seen = Inr []"
| "plan_loop all (r # rs) seen =
     e_bind (action_of r) (\<lambda>action.
       if action \<in> set seen then plan_loop all rs seen
       else e_bind (plan_entry all action) (\<lambda>entry.
            e_bind (plan_loop all rs (action # seen)) (\<lambda>rest. Inr (entry # rest))))"

definition healing_plans :: "json dict list \<Rightarrow> py_error + json dict list" where
  "healing_plans risks =
     (let ids = map (\<lambda>r. fld r ''risk_id'') risks in plan_loop ids ids [])"

definition plan_low_risk_healing :: "json dict list \<Rightarrow> py_error + json dict" where
  "plan_low_risk_healing risks =
     e_bind (healing_plans risks) (\<lambda>plans. Inr
       [(''state'', JStr ''PLAN_ONLY_NO_NETWORK_EFFECT''), (''plans'', JArr (map JObj plans)),
        (''execution_performed'', JBool False), (''router_mutation'', JBool False),
        (''service_restart'', JBool False)])"

section \<open>IPv6 candidates\<close>

definition IPV6_GATES :: "string list" where
  "IPV6_GATES =
     [''ADDRESS_PRESENT'', ''DEFAULT_ROUTE_PRESENT'', ''SOURCE_SELECTION_VALID'', ''NEXT_HOP_REACHABLE'',
      ''TARGET_REACHABLE'', ''TCP_SERVICE_REACHABLE'', ''RETURN_PATH_VALID'', ''APPLICATION_PASS'']"

definition qualify_ipv6 :: "json dict \<Rightarrow> json dict" where
  "qualify_ipv6 gates =
     (let normalized = map (\<lambda>g. (g, truthy (fld gates g))) IPV6_GATES;
          missing = map fst (filter (\<lambda>(g, ok). \<not> ok) normalized) in
      [(''gates'', JObj (map (\<lambda>(g, ok). (g, JBool ok)) normalized)),
       (''qualified'', JBool (missing = [])), (''missing_gates'', str_list missing),
       (''selectable'', JBool (missing = [])), (''rule'', JStr ''UNQUALIFIED_IPV6_NOT_SELECTABLE'')])"

end
