(* ===== verification/NetHealingProps.thy ===== *)
theory NetHealingProps
  imports NetHealing
begin

text \<open>What the healing plan contains, and when an IPv6 candidate is selectable.\<close>

section \<open>Findings named by strings\<close>

definition planned_action :: "string \<Rightarrow> string" where
  "planned_action s = (case map_of ACTION_BY_RISK s of Some a \<Rightarrow> a | None \<Rightarrow> ''refresh_observation'')"

definition planned_entry :: "string list \<Rightarrow> string \<Rightarrow> json dict" where
  "planned_entry ss a =
     [(''risk_ids'', str_list (sort (dedup (filter (\<lambda>s. planned_action s = a) ss)))),
      (''decision'', JStr ''ALLOW_CANDIDATE_ONLY''), (''action'', JStr a),
      (''reason'', JStr ''LOW_RISK_SKILL_LOCAL_ACTION''), (''rollback'', JStr ''discard_refreshed_evidence''),
      (''network_mutation'', JBool False), (''authority_scope'', JStr ''CANDIDATE_ONLY''),
      (''execution_performed'', JBool False)]"

lemma planned_action_in: "planned_action s \<in>
    {''refresh_dns_state'', ''refresh_peer_state'', ''reprobe_alternate_path'', ''refresh_observation''}"
proof (cases "map_of ACTION_BY_RISK s")
  case (Some a)
  then have "(s, a) \<in> set ACTION_BY_RISK" by (rule map_of_SomeD)
  moreover have "\<forall>r \<in> set ACTION_BY_RISK. snd r \<in>
      {''refresh_dns_state'', ''refresh_peer_state'', ''reprobe_alternate_path'', ''refresh_observation''}"
    by code_simp
  ultimately show ?thesis using Some by (auto simp: planned_action_def)
qed (simp add: planned_action_def)

lemma guard_planned: "guard_action (planned_action s) None =
    [(''decision'', JStr ''ALLOW_CANDIDATE_ONLY''), (''action'', JStr (planned_action s)),
     (''reason'', JStr ''LOW_RISK_SKILL_LOCAL_ACTION''), (''rollback'', JStr ''discard_refreshed_evidence''),
     (''network_mutation'', JBool False), (''authority_scope'', JStr ''CANDIDATE_ONLY'')]"
proof -
  have "\<forall>a \<in> {''refresh_dns_state'', ''refresh_peer_state'', ''reprobe_alternate_path'', ''refresh_observation''}.
    guard_action a None =
    [(''decision'', JStr ''ALLOW_CANDIDATE_ONLY''), (''action'', JStr a),
     (''reason'', JStr ''LOW_RISK_SKILL_LOCAL_ACTION''), (''rollback'', JStr ''discard_refreshed_evidence''),
     (''network_mutation'', JBool False), (''authority_scope'', JStr ''CANDIDATE_ONLY'')]"
    by code_simp
  then show ?thesis using planned_action_in [of s] by blast
qed

lemma action_of_JStr [simp]: "action_of (JStr s) = Inr (planned_action s)"
  by (simp add: action_of_def planned_action_def hashable_def)

lemma dedup_eq_JStr: "dedup_eq (map JStr ss) = map JStr (dedup ss)"
  by (induction ss) (auto simp: filter_map o_def intro: filter_cong)

lemma sorted_values_JStr: "sorted_values (map JStr ss) = Inr (map JStr (sort (dedup ss)))"
proof (cases "length (dedup ss) \<le> 1")
  case True
  then have "sort (dedup ss) = dedup ss" by (intro sorted_sort_id) (auto simp: le_Suc_eq length_Suc_conv)
  with True show ?thesis by (simp add: sorted_values_def dedup_eq_JStr)
next
  case False
  have "list_all is_str (map JStr (dedup ss))" by (simp add: list_all_iff is_str_def)
  with False show ?thesis by (simp add: sorted_values_def dedup_eq_JStr o_def Let_def)
qed

lemma plan_entry_JStr: "plan_entry (map JStr ss) (planned_action s) = Inr (planned_entry ss (planned_action s))"
proof -
  have "filter_err (\<lambda>r. e_bind (action_of r) (\<lambda>a. Inr (a = planned_action s))) (map JStr ss) =
      Inr (map JStr (filter (\<lambda>t. planned_action t = planned_action s) ss))"
    by (induction ss) auto
  then show ?thesis
    by (simp add: plan_entry_def sorted_values_JStr guard_planned planned_entry_def)
qed

lemma plan_loop_JStr:
  "plan_loop (map JStr ss) (map JStr rs) seen =
   Inr (map (planned_entry ss) (filter (\<lambda>a. a \<notin> set seen) (dedup (map planned_action rs))))"
proof (induction rs arbitrary: seen)
  case (Cons r rs)
  have "filter (\<lambda>a. a \<notin> set seen) (filter (\<lambda>y. y \<noteq> x) xs) = filter (\<lambda>a. a \<notin> set (x # seen)) xs" for x xs
    by (auto intro: filter_cong)
  moreover have "filter (\<lambda>a. a \<notin> set seen) (filter (\<lambda>y. y \<noteq> x) xs) = filter (\<lambda>a. a \<notin> set seen) xs"
    if "x \<in> set seen" for x xs
    using that by (auto intro: filter_cong)
  ultimately show ?case
    by (simp add: Cons.IH plan_entry_JStr del: filter_filter set_simps)
qed simp

lemma healing_plans_JStr:
  "map (\<lambda>r. fld r ''risk_id'') risks = map JStr ss \<Longrightarrow>
   healing_plans risks = Inr (map (planned_entry ss) (dedup (map planned_action ss)))"
  by (simp add: healing_plans_def plan_loop_JStr)

text \<open>
  The healing plan of findings with names covers every finding and changes nothing in the
  network: each action is planned once, in the order of its first finding, and only with the
  decision to allow it as a candidate, without network mutation and without execution; every
  finding is listed by the entry of its action, and every entry lists only findings of the input.
\<close>

theorem healing_plan_covers_findings:
  assumes "map (\<lambda>r. fld r ''risk_id'') risks = map JStr ss"
  shows "\<exists>plans. healing_plans risks = Inr plans \<and>
    map (\<lambda>e. fld e ''action'') plans = map JStr (dedup (map planned_action ss)) \<and>
    (\<forall>e \<in> set plans. fld e ''decision'' = JStr ''ALLOW_CANDIDATE_ONLY'' \<and>
       fld e ''network_mutation'' = JBool False \<and> fld e ''execution_performed'' = JBool False \<and>
       set (arr_of (fld e ''risk_ids'')) \<subseteq> JStr ` set ss) \<and>
    (\<forall>s \<in> set ss. \<exists>e \<in> set plans. fld e ''action'' = JStr (planned_action s) \<and>
       JStr s \<in> set (arr_of (fld e ''risk_ids'')))"
proof -
  have entry: "fld (planned_entry ss a) ''action'' = JStr a"
    "fld (planned_entry ss a) ''decision'' = JStr ''ALLOW_CANDIDATE_ONLY''"
    "fld (planned_entry ss a) ''network_mutation'' = JBool False"
    "fld (planned_entry ss a) ''execution_performed'' = JBool False"
    "set (arr_of (fld (planned_entry ss a) ''risk_ids'')) = JStr ` {s \<in> set ss. planned_action s = a}" for a
    by (simp_all add: planned_entry_def)
  show ?thesis
    using healing_plans_JStr [OF assms] by (auto simp: entry o_def)
qed

theorem healing_plan_covers_findings_witness:
  "\<exists>plans. healing_plans [[(''risk_id'', JStr ''IPV6_DRIFT'')], [(''risk_id'', JStr ''PORT_COLLISION'')],
       [(''risk_id'', JStr ''ROUTE_DRIFT'')]] = Inr plans \<and>
     map (\<lambda>e. fld e ''action'') plans = [JStr ''reprobe_alternate_path'', JStr ''refresh_observation'']"
proof -
  have names: "map (\<lambda>r. fld r ''risk_id'') [[(''risk_id'', JStr ''IPV6_DRIFT'')], [(''risk_id'', JStr ''PORT_COLLISION'')],
       [(''risk_id'', JStr ''ROUTE_DRIFT'')]] = map JStr [''IPV6_DRIFT'', ''PORT_COLLISION'', ''ROUTE_DRIFT'']"
    by simp
  have actions: "map JStr (dedup (map planned_action [''IPV6_DRIFT'', ''PORT_COLLISION'', ''ROUTE_DRIFT''])) =
      [JStr ''reprobe_alternate_path'', JStr ''refresh_observation'']" by code_simp
  from healing_plan_covers_findings [OF names] show ?thesis unfolding actions by (elim exE conjE) (intro exI conjI)
qed

section \<open>IPv6 candidates\<close>

lemma ipv6_selectable_iff:
  "fld (qualify_ipv6 gates) ''selectable'' = JBool True \<longleftrightarrow> (\<forall>g \<in> set IPV6_GATES. truthy (fld gates g))"
  by (auto simp: qualify_ipv6_def Let_def filter_empty_conv)

lemma forbidden_action_denied:
  "fld (guard_action a r) ''decision'' = JStr ''DENY'' \<longleftrightarrow> a \<in> set FORBIDDEN_ACTIONS"
  by (simp add: guard_action_def refusal_def Let_def)

end
