(* ===== verification/EdgeQueue.thy ===== *)
theory EdgeQueue
  imports PyRepr SortedKeys
begin

text \<open>
  \<open>tools/total_field/w7tp_intent_field_suite\<close>: \<open>canonical_hash.py\<close>, the content digests, and
  \<open>edge_queue.py\<close>, the queue that an edge node keeps while it is offline: sealed snapshots of the
  sources, entries chained by digests, the queue file, and the revalidation of a queue.

  Arguments of the definitions: \<open>sha\<close> is \<open>hashlib.sha256(...).hexdigest()\<close>, \<open>nfc\<close> is
  \<open>unicodedata.normalize("NFC", ...)\<close>, and \<open>binding_calls\<close> holds what the two functions of
  \<open>w7tp_v2_3_candidate_source.py\<close> return or raise.
\<close>

section \<open>Content digests\<close>

fun normalize_content :: "(string \<Rightarrow> string) \<Rightarrow> string \<Rightarrow> json \<Rightarrow> py_error + json"
  and content_items :: "(string \<Rightarrow> string) \<Rightarrow> string \<Rightarrow> nat \<Rightarrow> json list \<Rightarrow> py_error + json list"
  and content_fields :: "(string \<Rightarrow> string) \<Rightarrow> string \<Rightarrow> json dict \<Rightarrow> json dict \<Rightarrow> py_error + json dict" where
  "normalize_content nfc path (JStr s) = Inr (JStr (nfc s))"
| "normalize_content nfc path (JArr xs) = e_bind (content_items nfc path 0 xs) (\<lambda>ys. Inr (JArr ys))"
| "normalize_content nfc path (JObj d) = e_bind (content_fields nfc path d []) (\<lambda>e. Inr (JObj e))"
| "normalize_content nfc path v = Inr v"
| "content_items nfc path i [] = Inr []"
| "content_items nfc path i (x # xs) =
     e_bind (normalize_content nfc (path @ ''['' @ show_nat i @ '']'') x) (\<lambda>y.
     e_bind (content_items nfc path (Suc i) xs) (\<lambda>ys. Inr (y # ys)))"
| "content_fields nfc path [] acc = Inr acc"
| "content_fields nfc path ((raw_key, v) # d) acc =
     (let key = nfc raw_key in
      if dhas acc key then Inl (FieldApplicationError ''NORMALIZED_KEY_COLLISION'' (path @ ''.'' @ key))
      else e_bind (normalize_content nfc (path @ ''.'' @ key) v) (\<lambda>w.
           content_fields nfc path d (dset key w acc)))"

definition normalize_dict :: "(string \<Rightarrow> string) \<Rightarrow> json dict \<Rightarrow> py_error + json dict" where
  "normalize_dict nfc d = content_fields nfc ''$'' d []"

definition content_digest :: "(string \<Rightarrow> string) \<Rightarrow> (string \<Rightarrow> string) \<Rightarrow> json dict \<Rightarrow> py_error + string" where
  "content_digest sha nfc d = e_bind (normalize_dict nfc d) (\<lambda>n. Inr (sha (dumps_canonical (JObj n))))"

definition field_check :: "bool \<Rightarrow> string \<Rightarrow> string \<Rightarrow> py_error + unit" where
  "field_check ok reason path = check ok (FieldApplicationError reason path)"

section \<open>Sealed snapshots\<close>

definition LEGACY_CANONICAL_V2_SHA256 :: string where
  "LEGACY_CANONICAL_V2_SHA256 = ''a5281f229ced0943072cce373125be16f0d361b9352a71094ad5450a6022d5d0''"

definition CANONICAL_V2_1_SHA256 :: string where
  "CANONICAL_V2_1_SHA256 = ''383aba5b7a9f5d0e948d9b43b83e7dd6b6ec9c27f025fb9069e83810f0ae870d''"

record binding_calls =
  candidate_source :: "py_error + json dict"
  active_canonical :: "py_error + json dict"

text \<open>Loading the route table or the registry; a missing file, a malformed text and a value of another type.\<close>

definition load_json_object :: "world \<Rightarrow> string \<Rightarrow> string \<Rightarrow> py_error + json dict" where
  "load_json_object w path reason =
     (case (case files w path of None \<Rightarrow> None | Some t \<Rightarrow> loads t) of
        Some (JObj d) \<Rightarrow> Inr d | _ \<Rightarrow> Inl (FieldApplicationError reason ''$''))"

definition profile_packet_types :: "json dict \<Rightarrow> json dict" where
  "profile_packet_types routes =
     map (\<lambda>(profile, route). (profile, fld (dict_of route) ''packet_type''))
         (filter (\<lambda>(_, route). is_obj route) (sort_key fst routes))"

definition build_sealed_snapshot ::
  "(string \<Rightarrow> string) \<Rightarrow> binding_calls \<Rightarrow> string \<Rightarrow> string \<Rightarrow> string \<Rightarrow> world \<Rightarrow> py_error + json dict" where
  "build_sealed_snapshot nfc calls route_path registry_path canonical_path w =
     (let sha = sha256 w in
      e_bind (load_json_object w route_path ''SCENARIO_ROUTE_TABLE_INVALID'') (\<lambda>route_table.
      e_bind (load_json_object w registry_path ''CAPABILITY_REGISTRY_INVALID'') (\<lambda>registry.
      e_bind (candidate_source calls) (\<lambda>successor.
      e_bind (active_canonical calls) (\<lambda>active.
      e_bind (case files w canonical_path of None \<Rightarrow> Inl (FileNotFoundError canonical_path)
              | Some t \<Rightarrow> Inr (sha t)) (\<lambda>canonical_hash.
      e_bind (field_check (canonical_hash = CANONICAL_V2_1_SHA256) ''CANONICAL_V2_1_SHA256_MISMATCH'' ''$'') (\<lambda>_.
      e_bind (case fld route_table ''routes'' of JObj r \<Rightarrow> Inr r
              | _ \<Rightarrow> Inl (FieldApplicationError ''SCENARIO_ROUTE_TABLE_INVALID'' ''$'')) (\<lambda>routes.
      e_bind (content_digest sha nfc route_table) (\<lambda>route_sha.
      e_bind (content_digest sha nfc registry) (\<lambda>registry_sha.
      let snapshot =
        [(''schema_version'', JStr ''W7TP-SEALED-EDGE-SNAPSHOT/1.3''),
         (''authority'', JStr ''READ_ONLY_ACTIVE_POINTER_BOUND''),
         (''canonical_v2_1_sha256'', JStr canonical_hash),
         (''canonical_parent_v2_sha256'', JStr LEGACY_CANONICAL_V2_SHA256),
         (''active_canonical_binding'', JObj active), (''successor_candidate_source'', JObj successor),
         (''scenario_route_table_sha256'', JStr route_sha),
         (''capability_registry_sha256'', JStr registry_sha),
         (''profile_packet_types'', JObj (profile_packet_types routes)),
         (''generative_transmission'', JStr ''PROTOCOL_NATIVE_8D_INTENT_FIELD_PACKET''),
         (''offline_output_level'', JStr ''L3_CANDIDATE_ONLY''), (''cloud_fallback'', JStr ''BLOCK''),
         (''founder_root_included'', JBool False), (''mutable'', JBool False)] in
      e_bind (content_digest sha nfc snapshot) (\<lambda>h.
      Inr (snapshot @ [(''content_sha256'', JStr h)]))))))))))))"

definition SNAPSHOT_PREFIX :: string where
  "SNAPSHOT_PREFIX = ''W7TP-SEALED-EDGE-SNAPSHOT/''"

definition snapshot_schemas :: "string list \<Rightarrow> string list" where
  "snapshot_schemas versions = map (\<lambda>v. SNAPSHOT_PREFIX @ v) versions"

text \<open>The named checks in the code's order; the bindings are only called for the schemas that hold them.\<close>

definition base_checks :: "json dict \<Rightarrow> bool \<Rightarrow> bool \<Rightarrow> bool \<Rightarrow> (string \<times> bool) list" where
  "base_checks c known self_hash authority =
     [(''schema'', known), (''self_hash'', self_hash), (''authority'', authority),
      (''offline_level'', fld c ''offline_output_level'' = JStr ''L3_CANDIDATE_ONLY''),
      (''cloud_fallback'', fld c ''cloud_fallback'' = JStr ''BLOCK''),
      (''founder_root_excluded'', fld c ''founder_root_included'' = JBool False),
      (''immutable'', fld c ''mutable'' = JBool False)]"

definition version_checks ::
  "binding_calls \<Rightarrow> json dict \<Rightarrow> json \<Rightarrow> py_error + (string \<times> bool) list \<times> json" where
  "version_checks calls c schema =
     (if schema \<in> JStr ` set (snapshot_schemas [''1.1'', ''1.2'', ''1.3'']) then
        e_bind (if schema \<in> JStr ` set (snapshot_schemas [''1.2'', ''1.3'']) then
                  e_bind (candidate_source calls) (\<lambda>s.
                    Inr [(''successor_candidate_source'', pyeq (fld c ''successor_candidate_source'') (JObj s))])
                else Inr []) (\<lambda>successor.
        e_bind (if schema = JStr (SNAPSHOT_PREFIX @ ''1.3'') then
                  e_bind (active_canonical calls) (\<lambda>a.
                  e_bind (item a ''version'') (\<lambda>version.
                    Inr ([(''active_canonical_binding'', pyeq (fld c ''active_canonical_binding'') (JObj a))], version)))
                else Inr ([], JStr ''2.1'')) (\<lambda>(active, version).
        Inr ([(''canonical_v2_1'', fld c ''canonical_v2_1_sha256'' = JStr CANONICAL_V2_1_SHA256),
              (''canonical_parent_v2'', fld c ''canonical_parent_v2_sha256'' = JStr LEGACY_CANONICAL_V2_SHA256)]
             @ successor @ active, version)))
      else Inr ([(''canonical_v2_legacy'', fld c ''canonical_v2_sha256'' = JStr LEGACY_CANONICAL_V2_SHA256)],
                JStr ''2.0''))"

definition digest_matches ::
  "(string \<Rightarrow> string) \<Rightarrow> (string \<Rightarrow> string) \<Rightarrow> json \<Rightarrow> json dict \<Rightarrow> py_error + bool" where
  "digest_matches sha nfc supplied d =
     (if is_str supplied then e_bind (content_digest sha nfc d) (\<lambda>h. Inr (supplied = JStr h)) else Inr False)"

definition validate_sealed_snapshot ::
  "(string \<Rightarrow> string) \<Rightarrow> (string \<Rightarrow> string) \<Rightarrow> binding_calls \<Rightarrow> json dict \<Rightarrow> py_error + json dict" where
  "validate_sealed_snapshot sha nfc calls snapshot =
     e_bind (normalize_dict nfc snapshot) (\<lambda>candidate.
     let supplied = fld candidate ''content_sha256'';
         c = dpop ''content_sha256'' candidate;
         schema = fld c ''schema_version'' in
     e_bind (in_strings schema (snapshot_schemas [''1.0'', ''1.1'', ''1.2'', ''1.3''])) (\<lambda>known.
     e_bind (digest_matches sha nfc supplied c) (\<lambda>self_hash.
     e_bind (in_strings (fld c ''authority'')
              [''READ_ONLY_CANDIDATE_ONLY'', ''READ_ONLY_ACTIVE_POINTER_BOUND'']) (\<lambda>authority.
     e_bind (version_checks calls c schema) (\<lambda>(more, version).
     let checks = base_checks c known self_hash authority @ more in
     e_bind (field_check (list_all snd checks) ''EDGE_SNAPSHOT_INVALID'' ''$'') (\<lambda>_.
     Inr ([(''state'', JStr ''PASS''), (''checks'', JObj (map (\<lambda>(k, b). (k, JBool b)) checks)),
           (''content_sha256'', supplied), (''canonical_version'', version)] @
          (if schema \<in> JStr ` set (snapshot_schemas [''1.2'', ''1.3''])
           then [(''successor_candidate_version'', JStr ''2.3'')] else []) @
          (if schema = JStr (SNAPSHOT_PREFIX @ ''1.2'') then [(''formal_authority_unchanged'', JBool True)] else []) @
          (if schema = JStr (SNAPSHOT_PREFIX @ ''1.3'')
           then [(''active_authority_pointer_bound'', JBool True),
                 (''legacy_packet_contract_version'', JStr ''2.1'')] else []))))))))"

section \<open>Candidate packets\<close>

definition DIMENSIONS :: "string list" where
  "DIMENSIONS = [''D1'', ''D2'', ''D3'', ''D4'', ''D5'', ''D6'', ''D7'', ''D8'']"

text \<open>A packet is a candidate at level L3 whose decision is left to the Total Field.\<close>

definition l3_only :: "json dict \<Rightarrow> bool" where
  "l3_only c \<longleftrightarrow>
     is_obj (fld c ''D5'') \<and> fld (dict_of (fld c ''D5'')) ''candidate_only'' = JBool True \<and>
     is_obj (fld c ''D6'') \<and> is_obj (fld (dict_of (fld c ''D6'')) ''reconstruction_conditions'') \<and>
     fld (dict_of (fld (dict_of (fld c ''D6'')) ''reconstruction_conditions'')) ''equivalence_level''
       = JStr ''L3_CANDIDATE'' \<and>
     is_obj (fld c ''D8'') \<and> fld (dict_of (fld c ''D8'')) ''candidate_only'' = JBool True \<and>
     fld (dict_of (fld c ''D8'')) ''decision'' = JStr ''PENDING_TOTAL_FIELD_REVIEW''"

definition validate_l3_packet ::
  "(string \<Rightarrow> string) \<Rightarrow> (string \<Rightarrow> string) \<Rightarrow> json dict \<Rightarrow> py_error + string" where
  "validate_l3_packet sha nfc packet =
     e_bind (normalize_dict nfc packet) (\<lambda>candidate.
     let supplied = fld candidate ''content_sha256'';
         c = dpop ''execution_metadata'' (dpop ''content_sha256'' candidate) in
     e_bind (digest_matches sha nfc supplied c) (\<lambda>ok.
     e_bind (field_check ok ''EDGE_PACKET_CONTENT_SHA256_MISMATCH'' ''$'') (\<lambda>_.
     e_bind (field_check (list_all (dhas c) DIMENSIONS) ''EDGE_PACKET_DIMENSIONS_INCOMPLETE'' ''$'') (\<lambda>_.
     e_bind (field_check (l3_only c) ''EDGE_FORMAL_AUTHORITY_BLOCKED'' ''$'') (\<lambda>_.
     Inr (str_of supplied))))))"

section \<open>Entries\<close>

definition ascii_alnum :: "char \<Rightarrow> bool" where
  "ascii_alnum c \<longleftrightarrow> (let n = (of_char c :: nat) in 48 \<le> n \<and> n \<le> 57 \<or> 65 \<le> n \<and> n \<le> 90 \<or> 97 \<le> n \<and> n \<le> 122)"

definition is_node_id :: "string \<Rightarrow> bool" where
  "is_node_id s \<longleftrightarrow>
     s \<noteq> [] \<and> ascii_alnum (hd s) \<and> length s \<le> 64 \<and> list_all (\<lambda>c. ascii_alnum c \<or> c \<in> set ''._-'') (tl s)"

definition is_hash64 :: "json \<Rightarrow> bool" where
  "is_hash64 v = (case v of
     JStr s \<Rightarrow> length s = 64 \<and> list_all (\<lambda>c. is_digit c \<or> 97 \<le> (of_char c :: nat) \<and> (of_char c :: nat) \<le> 102) s
   | _ \<Rightarrow> False)"

definition queue_entry_fields :: "string \<Rightarrow> json \<Rightarrow> string \<Rightarrow> json \<Rightarrow> json dict \<Rightarrow> json dict" where
  "queue_entry_fields node_id snapshot_hash packet_hash previous packet =
     [(''schema_version'', JStr ''W7TP-OFFLINE-L3-QUEUE-ENTRY/1.0''),
      (''state'', JStr ''QUEUED_L3_CANDIDATE_PENDING_TOTAL_FIELD''), (''node_id'', JStr node_id),
      (''snapshot_content_sha256'', snapshot_hash), (''candidate_content_sha256'', JStr packet_hash),
      (''previous_entry_sha256'', previous), (''candidate_packet'', JObj packet),
      (''authority'', JObj [(''edge_d8'', JStr ''BLOCK''), (''formal_pass'', JStr ''BLOCK''),
         (''total_field_revalidation_required'', JBool True)]),
      (''side_effects'', JObj [(''db_write'', JBool False), (''cloud_call'', JBool False),
         (''formal_transaction'', JBool False), (''secret_read'', JBool False)])]"

definition build_queue_entry ::
  "(string \<Rightarrow> string) \<Rightarrow> (string \<Rightarrow> string) \<Rightarrow> binding_calls \<Rightarrow> json dict \<Rightarrow> json dict \<Rightarrow> string \<Rightarrow> json \<Rightarrow>
   py_error + json dict" where
  "build_queue_entry sha nfc calls packet snapshot node_id previous =
     e_bind (field_check (is_node_id node_id) ''EDGE_NODE_ID_INVALID'' ''$'') (\<lambda>_.
     e_bind (validate_sealed_snapshot sha nfc calls snapshot) (\<lambda>validation.
     e_bind (validate_l3_packet sha nfc packet) (\<lambda>packet_hash.
     e_bind (get_attr (get_default packet ''D4'' (JObj [])) ''source_snapshot'' JNull) (\<lambda>source.
     e_bind (field_check (pyeq source (JObj
               [(''scenario_route_table_sha256'', fld snapshot ''scenario_route_table_sha256''),
                (''capability_registry_sha256'', fld snapshot ''capability_registry_sha256'')]))
              ''EDGE_PACKET_SNAPSHOT_MISMATCH'' ''$'') (\<lambda>_.
     e_bind (field_check (previous = JNull \<or> is_hash64 previous) ''EDGE_PREVIOUS_ENTRY_SHA256_INVALID'' ''$'') (\<lambda>_.
     e_bind (normalize_dict nfc packet) (\<lambda>normal_packet.
     let entry = queue_entry_fields node_id (fld validation ''content_sha256'') packet_hash previous normal_packet in
     e_bind (content_digest sha nfc entry) (\<lambda>h.
     Inr (entry @ [(''entry_sha256'', JStr h)])))))))))"

section \<open>The queue file\<close>

definition load_queue :: "world \<Rightarrow> string \<Rightarrow> py_error + json dict list" where
  "load_queue w path =
     (case files w path of
        None \<Rightarrow> Inr []
      | Some t \<Rightarrow>
          (case loads t of
             None \<Rightarrow> Inl (FieldApplicationError ''EDGE_QUEUE_READ_FAILED'' ''$'')
           | Some v \<Rightarrow>
               (case v of
                  JArr xs \<Rightarrow> if list_all is_obj xs then Inr (map dict_of xs)
                             else Inl (FieldApplicationError ''EDGE_QUEUE_INVALID'' ''$'')
                | _ \<Rightarrow> Inl (FieldApplicationError ''EDGE_QUEUE_INVALID'' ''$''))))"

text \<open>\<open>_atomic_write_json\<close>: sorted keys, two blanks of indentation, a final newline; one replacement.\<close>

definition queue_text :: "json dict list \<Rightarrow> string" where
  "queue_text queue = dumps_indent2 (sort_keys (JArr (map JObj queue))) @ [CHR 10]"

definition enqueue_packet ::
  "(string \<Rightarrow> string) \<Rightarrow> binding_calls \<Rightarrow> string \<Rightarrow> json dict \<Rightarrow> json dict \<Rightarrow> string \<Rightarrow> (world, json dict) op" where
  "enqueue_packet nfc calls path packet snapshot node_id w =
     (case e_bind (load_queue w path) (\<lambda>queue.
           e_bind (build_queue_entry (sha256 w) nfc calls packet snapshot node_id
                     (if queue = [] then JNull else fld (last queue) ''entry_sha256'')) (\<lambda>entry.
           Inr (queue, entry))) of
        Inl e \<Rightarrow> (Inl e, w)
      | Inr (queue, entry) \<Rightarrow>
          let h = fld entry ''candidate_content_sha256'' in
          if list_ex (\<lambda>e. fld e ''candidate_content_sha256'' = h) queue
          then (Inr [(''state'', JStr ''ALREADY_QUEUED''), (''candidate_content_sha256'', h),
                     (''queue_depth'', JInt (int (length queue)))], w)
          else (Inr [(''state'', JStr ''QUEUED_L3_CANDIDATE_PENDING_TOTAL_FIELD''),
                     (''entry_sha256'', fld entry ''entry_sha256''), (''candidate_content_sha256'', h),
                     (''queue_depth'', JInt (int (Suc (length queue))))],
                w\<lparr>files := (files w)(path \<mapsto> queue_text (queue @ [entry]))\<rparr>))"

section \<open>Revalidation\<close>

definition revalidate_entry ::
  "(string \<Rightarrow> string) \<Rightarrow> (string \<Rightarrow> string) \<Rightarrow> json \<Rightarrow> nat \<Rightarrow> json \<Rightarrow> json dict \<Rightarrow> py_error + json \<times> string" where
  "revalidate_entry sha nfc snapshot_hash i previous raw_entry =
     (let at = ''$['' @ show_nat i @ '']'' in
      e_bind (normalize_dict nfc raw_entry) (\<lambda>full.
      let supplied = fld full ''entry_sha256''; entry = dpop ''entry_sha256'' full in
      e_bind (content_digest sha nfc entry) (\<lambda>h.
      e_bind (field_check (supplied = JStr h) ''EDGE_QUEUE_ENTRY_SHA256_MISMATCH'' at) (\<lambda>_.
      e_bind (field_check (pyeq (fld entry ''previous_entry_sha256'') previous) ''EDGE_QUEUE_CHAIN_MISMATCH'' at) (\<lambda>_.
      e_bind (field_check (pyeq (fld entry ''snapshot_content_sha256'') snapshot_hash) ''EDGE_QUEUE_SNAPSHOT_STALE'' at) (\<lambda>_.
      e_bind (case fld entry ''candidate_packet'' of JObj p \<Rightarrow> Inr p
              | _ \<Rightarrow> Inl (FieldApplicationError ''EDGE_QUEUE_PACKET_INVALID'' at)) (\<lambda>packet.
      e_bind (validate_l3_packet sha nfc packet) (\<lambda>candidate_hash.
      e_bind (field_check (fld entry ''candidate_content_sha256'' = JStr candidate_hash)
               ''EDGE_QUEUE_PACKET_REF_MISMATCH'' at) (\<lambda>_.
      Inr (supplied, candidate_hash))))))))))"

definition result_row :: "json \<Rightarrow> string \<Rightarrow> bool \<Rightarrow> json dict" where
  "result_row entry_hash candidate_hash duplicate =
     [(''entry_sha256'', entry_hash), (''candidate_content_sha256'', JStr candidate_hash),
      (''state'', JStr (if duplicate then ''DEDUPLICATED'' else ''TOTAL_FIELD_REVALIDATED_L3_CANDIDATE'')),
      (''formal_d8_assigned'', JBool False)]"

fun revalidate_entries ::
  "(string \<Rightarrow> string) \<Rightarrow> (string \<Rightarrow> string) \<Rightarrow> json \<Rightarrow> nat \<Rightarrow> json \<Rightarrow> string list \<Rightarrow> json dict list \<Rightarrow>
   py_error + json dict list" where
  "revalidate_entries sha nfc snapshot_hash i previous seen [] = Inr []"
| "revalidate_entries sha nfc snapshot_hash i previous seen (raw_entry # rest) =
     e_bind (revalidate_entry sha nfc snapshot_hash i previous raw_entry) (\<lambda>(entry_hash, candidate_hash).
     e_bind (revalidate_entries sha nfc snapshot_hash (Suc i) entry_hash (candidate_hash # seen) rest) (\<lambda>rows.
     Inr (result_row entry_hash candidate_hash (candidate_hash \<in> set seen) # rows)))"

definition state_count :: "string \<Rightarrow> json dict list \<Rightarrow> json" where
  "state_count s rows = JInt (int (length (filter (\<lambda>r. fld r ''state'' = JStr s) rows)))"

definition revalidate_queue ::
  "(string \<Rightarrow> string) \<Rightarrow> (string \<Rightarrow> string) \<Rightarrow> binding_calls \<Rightarrow> json dict list \<Rightarrow> json dict \<Rightarrow> string list \<Rightarrow>
   py_error + json dict" where
  "revalidate_queue sha nfc calls queue snapshot seen =
     e_bind (validate_sealed_snapshot sha nfc calls snapshot) (\<lambda>validation.
     e_bind (revalidate_entries sha nfc (fld validation ''content_sha256'') 0 JNull seen queue) (\<lambda>rows.
     let report =
       [(''schema_version'', JStr ''W7TP-EDGE-QUEUE-REVALIDATION/1.0''), (''state'', JStr ''PASS''),
        (''snapshot_content_sha256'', fld validation ''content_sha256''), (''results'', JArr (map JObj rows)),
        (''accepted_count'', state_count ''TOTAL_FIELD_REVALIDATED_L3_CANDIDATE'' rows),
        (''deduplicated_count'', state_count ''DEDUPLICATED'' rows),
        (''formal_d8_assigned'', JBool False), (''archive_requires_explicit_operator_action'', JBool True)] in
     e_bind (content_digest sha nfc report) (\<lambda>h. Inr (report @ [(''content_sha256'', JStr h)]))))"

definition revalidate_queue_file ::
  "(string \<Rightarrow> string) \<Rightarrow> binding_calls \<Rightarrow> string \<Rightarrow> json dict \<Rightarrow> string list \<Rightarrow> world \<Rightarrow> py_error + json dict" where
  "revalidate_queue_file nfc calls path snapshot seen w =
     e_bind (load_queue w path) (\<lambda>queue. revalidate_queue (sha256 w) nfc calls queue snapshot seen)"

end
