(* ===== verification/EdgeNormal.thy ===== *)
theory EdgeNormal
  imports EdgeQueue
begin

text \<open>
  Normal content and sorted dictionaries: normalising is idempotent, the file of the queue keeps
  normal entries up to the order of their keys, and no check of the queue depends on that order.
\<close>

section \<open>What is relied on\<close>

definition ascii :: "string \<Rightarrow> bool" where
  "ascii s \<longleftrightarrow> list_all (\<lambda>c. (of_char c :: nat) < 128) s"

text \<open>NFC is idempotent and leaves ASCII texts alone; SHA-256 digests are 64 hexadecimal digits.\<close>

definition nfc_ok :: "(string \<Rightarrow> string) \<Rightarrow> bool" where
  "nfc_ok nfc \<longleftrightarrow> (\<forall>s. nfc (nfc s) = nfc s) \<and> (\<forall>s. ascii s \<longrightarrow> nfc s = s)"

definition digest_ok :: "(string \<Rightarrow> string) \<Rightarrow> bool" where
  "digest_ok sha \<longleftrightarrow> (\<forall>x. is_hash64 (JStr (sha x)))"

lemma hex64_ascii: "is_hash64 (JStr s) \<Longrightarrow> ascii s"
  by (auto simp: is_hash64_def ascii_def is_digit_def list_all_iff)

section \<open>Normal content\<close>

fun content_normal :: "(string \<Rightarrow> string) \<Rightarrow> json \<Rightarrow> bool" where
  "content_normal nfc (JStr s) = (nfc s = s)"
| "content_normal nfc (JArr xs) = (\<forall>x \<in> set xs. content_normal nfc x)"
| "content_normal nfc (JObj d) =
     (distinct (map fst d) \<and> (\<forall>p \<in> set d. nfc (fst p) = fst p \<and> content_normal nfc (snd p)))"
| "content_normal nfc v = True"

lemma content_normal_jwf: "content_normal nfc v \<Longrightarrow> jwf v"
  by (induction nfc v rule: content_normal.induct) auto

lemma dhas_keys: "dhas d k \<longleftrightarrow> k \<in> set (dkeys d)"
  by (metis dget_None_keys dhas_def)

lemma dset_new_keys:
  "content_normal nfc (JObj acc) \<Longrightarrow> nfc k = k \<Longrightarrow> content_normal nfc v \<Longrightarrow> \<not> dhas acc k \<Longrightarrow>
   content_normal nfc (JObj (dset k v acc))"
  by (auto simp: dset_new dhas_keys)

lemma normalize_content_normal:
  assumes idem: "\<And>s. nfc (nfc s) = nfc s"
  shows "normalize_content nfc path v = Inr n \<Longrightarrow> content_normal nfc n"
    and "content_items nfc path i xs = Inr ys \<Longrightarrow> \<forall>y \<in> set ys. content_normal nfc y"
    and "content_fields nfc path d acc = Inr e \<Longrightarrow> content_normal nfc (JObj acc) \<Longrightarrow> content_normal nfc (JObj e)"
  using idem
proof (induction nfc path v and nfc path i xs and nfc path d acc
    arbitrary: n and ys and e rule: normalize_content_content_items_content_fields.induct)
  case (8 nfc path raw_key v d acc)
  from "8.prems"(1) obtain w where new: "\<not> dhas acc (nfc raw_key)"
    and w: "normalize_content nfc (path @ ''.'' @ nfc raw_key) v = Inr w"
    and e: "content_fields nfc path d (dset (nfc raw_key) w acc) = Inr e"
    by (auto simp: e_bind_InrD Let_def split: if_splits)
  from "8.IH"(1) [OF refl new w "8.prems"(3)] have "content_normal nfc w" .
  with "8.prems"(2,3) new have "content_normal nfc (JObj (dset (nfc raw_key) w acc))"
    by (intro dset_new_keys) simp_all
  from "8.IH"(2) [OF refl new w e this "8.prems"(3)] show ?case .
qed (auto simp: e_bind_InrD)

text \<open>Normal values are left as they are.\<close>

lemma normalize_content_fixed:
  shows "content_normal nfc v \<Longrightarrow> normalize_content nfc path v = Inr v"
    and "\<forall>x \<in> set xs. content_normal nfc x \<Longrightarrow> content_items nfc path i xs = Inr xs"
    and "content_normal nfc (JObj (acc @ d)) \<Longrightarrow> content_fields nfc path d acc = Inr (acc @ d)"
proof (induction nfc path v and nfc path i xs and nfc path d acc
    rule: normalize_content_content_items_content_fields.induct)
  case (8 nfc path raw_key v d acc)
  then have key: "nfc raw_key = raw_key" and new: "\<not> dhas acc raw_key" and v: "content_normal nfc v"
    by (auto simp: dhas_keys)
  from "8.IH"(1) [OF refl] key new v
  have w: "normalize_content nfc (path @ ''.'' @ raw_key) v = Inr v" by simp
  from new have snoc: "dset raw_key v acc = acc @ [(raw_key, v)]" by (simp add: dset_new dhas_keys)
  from "8.IH"(2) [OF refl, of v] w key new "8.prems"
  have "content_fields nfc path d (acc @ [(raw_key, v)]) = Inr ((acc @ [(raw_key, v)]) @ d)"
    by (simp add: snoc del: content_normal.simps)
  with key new w show ?case by (simp add: Let_def snoc)
qed auto

lemma content_digest_normal:
  "content_normal nfc (JObj d) \<Longrightarrow> content_digest sha nfc d = Inr (sha (dumps_canonical (JObj d)))"
  using normalize_content_fixed(3) [of nfc "[]" d] by (simp add: content_digest_def normalize_dict_def)

lemma normalize_dict_normal:
  assumes "nfc_ok nfc" "normalize_dict nfc d = Inr n"
  shows "content_normal nfc (JObj n)"
proof -
  have idem: "\<And>s. nfc (nfc s) = nfc s" using assms(1) by (simp add: nfc_ok_def)
  from normalize_content_normal(3) [OF idem assms(2) [unfolded normalize_dict_def]] show ?thesis by simp
qed

lemma normalize_dict_fixed: "content_normal nfc (JObj d) \<Longrightarrow> normalize_dict nfc d = Inr d"
  using normalize_content_fixed(3) [of nfc "[]" d] by (simp add: normalize_dict_def)

section \<open>Sorted dictionaries\<close>

text \<open>The dictionary that is read back after \<open>sort_keys=True\<close>.\<close>

definition sorted_dict :: "json dict \<Rightarrow> json dict" where
  "sorted_dict d = dict_of (sort_keys (JObj d))"

lemma sort_keys_dict: "sort_keys (JObj d) = JObj (sorted_dict d)"
  by (simp add: sorted_dict_def)

lemma sorted_dict_alt: "sorted_dict d = map_vals sort_keys (sort_key fst d)"
  by (simp add: sorted_dict_def sort_keys_JObj del: sort_keys.simps)

lemma sorted_dict_idem [simp]: "sorted_dict (sorted_dict d) = sorted_dict d"
  using sort_keys_idem [of "JObj d"] by (simp add: sort_keys_dict del: sort_keys.simps sort_keys_idem)

lemma fld_sorted: "dict_wf d \<Longrightarrow> fld (sorted_dict d) k = sort_keys (fld d k)"
  unfolding sorted_dict_def by (rule fld_sort_keys)

lemma set_sorted: "set (sorted_dict d) = (\<lambda>(k, v). (k, sort_keys v)) ` set d"
  by (simp add: sorted_dict_alt map_vals_def)

lemma dhas_sorted [simp]: "dhas (sorted_dict d) k = dhas d k"
  by (force simp: dhas_keys set_sorted)

lemma content_normal_sort_keys: "content_normal nfc v \<Longrightarrow> content_normal nfc (sort_keys v)"
proof (induction nfc v rule: content_normal.induct)
  case (3 nfc d)
  have "mset (map fst (sort_key fst (map (\<lambda>(k, v). (k, sort_keys v)) d))) = mset (map fst d)"
    by (simp add: case_prod_beta o_def image_mset.compositionality)
  then have "distinct (map fst (sort_key fst (map (\<lambda>(k, v). (k, sort_keys v)) d)))"
    using "3.prems" by (metis content_normal.simps(3) mset_eq_imp_distinct_iff)
  moreover have "nfc (fst p) = fst p \<and> content_normal nfc (sort_keys (snd p))" if "p \<in> set d" for p
    using "3.IH" [OF that] "3.prems" that by simp
  ultimately show ?case by auto
qed auto

lemma content_normal_sorted: "content_normal nfc (JObj d) \<Longrightarrow> content_normal nfc (JObj (sorted_dict d))"
  using content_normal_sort_keys [of nfc "JObj d"] by (simp add: sort_keys_dict del: sort_keys.simps content_normal.simps)

lemma content_normal_dpop: "content_normal nfc (JObj d) \<Longrightarrow> content_normal nfc (JObj (dpop k d))"
  using set_dpop_subset [of k d] by (fastforce intro: distinct_delete)

lemma content_normal_fld: "content_normal nfc (JObj d) \<Longrightarrow> content_normal nfc (fld d k)"
  by (auto simp: get_or_none_def split: option.split dest: dget_Some_set)

text \<open>Removing a key commutes with sorting, so the digests do not depend on the order.\<close>

lemma dpop_map_vals: "dpop k (map_vals f d) = map_vals f (dpop k d)"
  by (induction d) auto

lemma dpop_sort: "dpop k (sort_key fst d) = sort_key fst (dpop k d)"
  by (simp add: AList.delete_eq filter_sort)

lemma dpop_sorted: "dpop k (sorted_dict d) = sorted_dict (dpop k d)"
  by (simp add: sorted_dict_alt dpop_map_vals dpop_sort)

lemma canonical_sorted: "dumps_canonical (JObj (sorted_dict d)) = dumps_canonical (JObj d)"
  by (simp add: dumps_canonical_def sort_keys_dict del: sort_keys.simps)

end
