(* ===== verification/EdgeEntry.thy ===== *)
theory EdgeEntry
  imports EdgeNormal
begin

text \<open>
  One entry of the queue: what its construction guarantees, and that the revalidation accepts it
  as it is read back from the file, with its keys sorted.
\<close>

section \<open>Packets\<close>

lemma is_str_iff: "is_str v \<longleftrightarrow> (\<exists>s. v = JStr s)"
  by (cases v) (auto simp: is_str_def)

lemma holds_Inr [simp]: "(\<exists>a. r = Inr a \<and> a) \<longleftrightarrow> r = Inr True"
  by auto

lemma digest_matches_Inr:
  "digest_matches sha nfc v d = Inr True \<longleftrightarrow> (\<exists>h. content_digest sha nfc d = Inr h \<and> v = JStr h)"
  by (auto simp: digest_matches_def is_str_iff e_bind_InrD split: if_splits)

lemma field_check_Inr [simp]: "field_check ok reason path = Inr u \<longleftrightarrow> ok"
  by (simp add: field_check_def)

definition edge_body :: "json dict \<Rightarrow> json dict" where
  "edge_body n = dpop ''execution_metadata'' (dpop ''content_sha256'' n)"

definition candidate_ok :: "json dict \<Rightarrow> bool" where
  "candidate_ok c \<longleftrightarrow> list_all (dhas c) DIMENSIONS \<and> l3_only c"

lemma validate_l3_packet_Inr:
  "validate_l3_packet sha nfc packet = Inr h \<longleftrightarrow>
   (\<exists>n. normalize_dict nfc packet = Inr n \<and> content_digest sha nfc (edge_body n) = Inr h \<and>
        fld n ''content_sha256'' = JStr h \<and> candidate_ok (edge_body n))"
  by (auto simp: validate_l3_packet_def e_bind_InrD Let_def edge_body_def candidate_ok_def
      digest_matches_Inr)

lemma is_obj_sorted [simp]: "is_obj (sort_keys v) = is_obj v"
  by (cases v) (simp_all add: is_obj_def)

lemma sorted_eq_leaf [simp]:
  "sort_keys v = JStr s \<longleftrightarrow> v = JStr s" "sort_keys v = JBool b \<longleftrightarrow> v = JBool b" "sort_keys v = JNull \<longleftrightarrow> v = JNull"
  by (cases v; simp)+

lemma fld_dict_of_sorted:
  "is_obj v \<Longrightarrow> jwf v \<Longrightarrow> fld (dict_of (sort_keys v)) k = sort_keys (fld (dict_of v) k)"
  by (cases v) (simp_all add: is_obj_def fld_sort_keys del: sort_keys.simps jwf.simps)

lemma jwf_dict_of: "jwf v \<Longrightarrow> dict_wf (dict_of v)"
  by (cases v) auto

lemma l3_only_sorted: "dict_wf c \<Longrightarrow> l3_only (sorted_dict c) = l3_only c"
  by (auto simp: l3_only_def fld_sorted fld_dict_of_sorted jwf_dict_of jwf_fld
      simp del: sort_keys.simps jwf.simps)

lemma candidate_ok_sorted: "dict_wf c \<Longrightarrow> candidate_ok (sorted_dict c) = candidate_ok c"
  by (simp add: candidate_ok_def l3_only_sorted list_all_iff del: jwf.simps)

lemma edge_body_sorted: "edge_body (sorted_dict n) = sorted_dict (edge_body n)"
  by (simp add: edge_body_def dpop_sorted)

lemma edge_body_normal:
  "content_normal nfc (JObj n) \<Longrightarrow> content_normal nfc (JObj (edge_body n))"
  unfolding edge_body_def by (intro content_normal_dpop)

text \<open>A validated packet is accepted again, with the same hash, in its normal form with sorted keys.\<close>

lemma packet_revalidates:
  assumes "nfc_ok nfc" and "validate_l3_packet sha nfc packet = Inr h" and "normalize_dict nfc packet = Inr n"
  shows "validate_l3_packet sha nfc (sorted_dict n) = Inr h"
proof -
  have n: "content_normal nfc (JObj n)" using assms(1,3) by (rule normalize_dict_normal)
  note body = edge_body_normal [OF n]
  from assms(2,3) have d: "content_digest sha nfc (edge_body n) = Inr h"
    and f: "fld n ''content_sha256'' = JStr h" and ok: "candidate_ok (edge_body n)"
    by (auto simp: validate_l3_packet_Inr)
  have "content_digest sha nfc (edge_body (sorted_dict n)) = Inr h"
    using d body content_normal_sorted [OF body]
    by (simp add: edge_body_sorted content_digest_normal canonical_sorted del: content_normal.simps)
  moreover have "candidate_ok (edge_body (sorted_dict n))"
    using ok content_normal_jwf [OF body] by (simp add: edge_body_sorted candidate_ok_sorted del: jwf.simps)
  moreover have "fld (sorted_dict n) ''content_sha256'' = JStr h"
    using f content_normal_jwf [OF n] by (simp add: fld_sorted del: jwf.simps)
  ultimately show ?thesis
    using normalize_dict_fixed [OF content_normal_sorted [OF n]] by (auto simp: validate_l3_packet_Inr)
qed

section \<open>Entries\<close>

text \<open>The hash of the snapshot that a validation reports is the snapshot's own, a normal text.\<close>

lemma validated_hash:
  assumes "validate_sealed_snapshot sha nfc calls snapshot = Inr v"
  shows "\<exists>n s. normalize_dict nfc snapshot = Inr n \<and> fld n ''content_sha256'' = JStr s \<and>
    fld v ''content_sha256'' = JStr s"
  using assms
  by (auto simp: validate_sealed_snapshot_def e_bind_InrD Let_def base_checks_def digest_matches_Inr)

lemma validated_hash_normal:
  assumes "nfc_ok nfc" and "validate_sealed_snapshot sha nfc calls snapshot = Inr v"
  obtains s where "fld v ''content_sha256'' = JStr s" and "nfc s = s"
proof -
  obtain n s where n: "normalize_dict nfc snapshot = Inr n" and s: "fld n ''content_sha256'' = JStr s"
    and v: "fld v ''content_sha256'' = JStr s"
    using validated_hash [OF assms(2)] by blast
  from content_normal_fld [OF normalize_dict_normal [OF assms(1) n], of "''content_sha256''"] s
  have "nfc s = s" by simp
  with v show thesis by (rule that)
qed

lemma packet_hash_normal:
  assumes "nfc_ok nfc" and "validate_l3_packet sha nfc packet = Inr h"
  shows "nfc h = h"
proof -
  obtain n where n: "normalize_dict nfc packet = Inr n" and h: "fld n ''content_sha256'' = JStr h"
    using assms(2) by (auto simp: validate_l3_packet_Inr)
  from content_normal_fld [OF normalize_dict_normal [OF assms(1) n], of "''content_sha256''"] h
  show ?thesis by simp
qed

text \<open>An entry as the queue keeps it: sealed, bound to the entry before it, with a valid packet.\<close>

definition sound_entry ::
  "(string \<Rightarrow> string) \<Rightarrow> (string \<Rightarrow> string) \<Rightarrow> json \<Rightarrow> json dict \<Rightarrow> string \<Rightarrow> string \<Rightarrow> string \<Rightarrow> bool" where
  "sound_entry sha nfc previous e h c s \<longleftrightarrow>
     content_normal nfc (JObj e) \<and> sorted_dict e = e \<and>
     fld e ''entry_sha256'' = JStr h \<and> content_digest sha nfc (dpop ''entry_sha256'' e) = Inr h \<and>
     fld e ''previous_entry_sha256'' = previous \<and> fld e ''snapshot_content_sha256'' = JStr s \<and>
     fld e ''candidate_content_sha256'' = JStr c \<and>
     (\<exists>p. fld e ''candidate_packet'' = JObj p \<and> validate_l3_packet sha nfc p = Inr c)"

lemma sound_entry_revalidates:
  assumes "sound_entry sha nfc previous e h c s"
  shows "revalidate_entry sha nfc (JStr s') i previous e =
    (if s = s' then Inr (JStr h, c)
     else Inl (FieldApplicationError ''EDGE_QUEUE_SNAPSHOT_STALE'' (''$['' @ show_nat i @ '']'')))"
proof -
  from assms obtain p where e: "content_normal nfc (JObj e)" "fld e ''entry_sha256'' = JStr h"
      "content_digest sha nfc (dpop ''entry_sha256'' e) = Inr h" "fld e ''previous_entry_sha256'' = previous"
      "fld e ''snapshot_content_sha256'' = JStr s" "fld e ''candidate_content_sha256'' = JStr c"
    and p: "fld e ''candidate_packet'' = JObj p" "validate_l3_packet sha nfc p = Inr c"
    by (auto simp: sound_entry_def)
  from normalize_dict_fixed [OF e(1)] e(2-) p show ?thesis
    by (simp add: revalidate_entry_def Let_def field_check_def check_def)
qed

lemma ascii_fixed: "nfc_ok nfc \<Longrightarrow> ascii s \<Longrightarrow> nfc s = s"
  by (simp add: nfc_ok_def)

lemma digest_fixed: "nfc_ok nfc \<Longrightarrow> digest_ok sha \<Longrightarrow> nfc (sha x) = sha x"
  by (simp add: ascii_fixed hex64_ascii digest_ok_def)

lemma node_id_ascii:
  assumes "is_node_id s"
  shows "ascii s"
proof -
  have "(of_char c :: nat) < 128" if "ascii_alnum c \<or> c \<in> set ''._-''" for c
    using that by (auto simp: ascii_alnum_def Let_def)
  moreover from assms obtain c t where "s = c # t" "ascii_alnum c" "\<forall>x \<in> set t. ascii_alnum x \<or> x \<in> set ''._-''"
    by (cases s) (auto simp: is_node_id_def list_all_iff)
  ultimately show ?thesis by (auto simp: ascii_def list_all_iff)
qed

lemma queue_entry_fields_normal:
  assumes "nfc_ok nfc" and "ascii node_id" and "content_normal nfc snap" and "nfc h = h"
    and "content_normal nfc previous" and "content_normal nfc (JObj p)"
  shows "content_normal nfc (JObj (queue_entry_fields node_id snap h previous p))"
  using assms(2-) ascii_fixed [OF assms(1)] unfolding queue_entry_fields_def
  by (simp add: ascii_def)

text \<open>The construction of an entry, and the entry as it comes back from the queue file.\<close>

lemma build_queue_entry_Inr:
  assumes "build_queue_entry sha nfc calls packet snapshot node_id previous = Inr e"
  obtains v c n h where "is_node_id node_id" and "validate_sealed_snapshot sha nfc calls snapshot = Inr v"
    and "validate_l3_packet sha nfc packet = Inr c" and "previous = JNull \<or> is_hash64 previous"
    and "normalize_dict nfc packet = Inr n"
    and "content_digest sha nfc (queue_entry_fields node_id (fld v ''content_sha256'') c previous n) = Inr h"
    and "e = queue_entry_fields node_id (fld v ''content_sha256'') c previous n @ [(''entry_sha256'', JStr h)]"
  using assms by (auto simp: build_queue_entry_def e_bind_InrD Let_def)

lemma fld_entry:
  fixes nid snap c previous n h
  defines "e \<equiv> queue_entry_fields nid snap c previous n @ [(''entry_sha256'', JStr h)]"
  shows "fld e ''entry_sha256'' = JStr h" "fld e ''previous_entry_sha256'' = previous"
    "fld e ''snapshot_content_sha256'' = snap" "fld e ''candidate_content_sha256'' = JStr c"
    "fld e ''candidate_packet'' = JObj n"
    "dpop ''entry_sha256'' e = queue_entry_fields nid snap c previous n"
  by (simp_all add: e_def queue_entry_fields_def)

lemma entry_with_digest_normal:
  assumes "content_normal nfc (JObj (queue_entry_fields nid snap c previous n))" "nfc h = h" "nfc_ok nfc"
  shows "content_normal nfc (JObj (queue_entry_fields nid snap c previous n @ [(''entry_sha256'', JStr h)]))"
  using assms(1,2) ascii_fixed [OF assms(3)] unfolding queue_entry_fields_def by (simp add: ascii_def)

lemma sort_keys_hash: "previous = JNull \<or> is_hash64 previous \<Longrightarrow> sort_keys previous = previous"
  by (cases previous) (simp_all add: is_hash64_def)

lemma hash_normal:
  "nfc_ok nfc \<Longrightarrow> previous = JNull \<or> is_hash64 previous \<Longrightarrow> content_normal nfc previous"
  by (cases previous) (auto simp: is_hash64_def intro!: ascii_fixed hex64_ascii)

lemma built_entry_sound:
  assumes nfc: "nfc_ok nfc" and sha: "digest_ok sha"
    and built: "build_queue_entry sha nfc calls packet snapshot node_id previous = Inr e"
    and v: "validate_sealed_snapshot sha nfc calls snapshot = Inr v"
  shows "\<exists>h c s. sound_entry sha nfc previous (sorted_dict e) h c s \<and> fld v ''content_sha256'' = JStr s \<and>
    fld e ''entry_sha256'' = JStr h \<and> fld e ''candidate_content_sha256'' = JStr c \<and>
    content_normal nfc (JObj e)"
proof -
  obtain s where s: "fld v ''content_sha256'' = JStr s" "nfc s = s"
    using nfc v by (rule validated_hash_normal)
  obtain c n h where node: "is_node_id node_id" and c: "validate_l3_packet sha nfc packet = Inr c"
    and prev: "previous = JNull \<or> is_hash64 previous" and n: "normalize_dict nfc packet = Inr n"
    and h: "content_digest sha nfc (queue_entry_fields node_id (JStr s) c previous n) = Inr h"
    and e: "e = queue_entry_fields node_id (JStr s) c previous n @ [(''entry_sha256'', JStr h)]"
    using built v s(1) by (auto elim!: build_queue_entry_Inr)
  have body: "content_normal nfc (JObj (queue_entry_fields node_id (JStr s) c previous n))"
    by (rule queue_entry_fields_normal [OF nfc node_id_ascii [OF node] _ packet_hash_normal [OF nfc c]
          hash_normal [OF nfc prev] normalize_dict_normal [OF nfc n]]) (simp add: s)
  have hash: "h = sha (dumps_canonical (JObj (queue_entry_fields node_id (JStr s) c previous n)))"
    using h content_digest_normal [OF body] by simp
  have whole: "content_normal nfc (JObj e)"
    unfolding e by (rule entry_with_digest_normal [OF body _ nfc]) (simp add: hash digest_fixed nfc sha)
  note wf = content_normal_jwf [OF whole]
  note fields = fld_entry [of node_id "JStr s" c previous n h, folded e]
  have "sound_entry sha nfc previous (sorted_dict e) h c s"
    unfolding sound_entry_def
  proof (intro conjI)
    show "content_digest sha nfc (dpop ''entry_sha256'' (sorted_dict e)) = Inr h"
      using content_digest_normal [OF content_normal_sorted [OF body]]
      by (simp add: dpop_sorted fields canonical_sorted hash)
    show "\<exists>p. fld (sorted_dict e) ''candidate_packet'' = JObj p \<and> validate_l3_packet sha nfc p = Inr c"
      using packet_revalidates [OF nfc c n] wf
      by (simp add: fld_sorted fields sort_keys_dict del: sort_keys.simps jwf.simps)
  qed (use wf content_normal_sorted [OF whole] in
      \<open>simp_all add: fld_sorted fields sort_keys_hash [OF prev] del: jwf.simps content_normal.simps\<close>)
  with s(1) whole fields show ?thesis by blast
qed

end
