(* ===== verification/EdgeRuns.thy ===== *)
theory EdgeRuns
  imports EdgeEntry
begin

text \<open>
  Runs of the queue: a step enqueues any packet under any snapshot or changes other files, the
  queue file always holds a sound chain, and what the revalidation says of such a chain.
\<close>

section \<open>Sound chains\<close>

definition chain_tip :: "json \<Rightarrow> json dict list \<Rightarrow> json" where
  "chain_tip previous q = (if q = [] then previous else fld (last q) ''entry_sha256'')"

definition candidate_of :: "json dict \<Rightarrow> string" where
  "candidate_of e = str_of (fld e ''candidate_content_sha256'')"

fun sound_chain :: "(string \<Rightarrow> string) \<Rightarrow> (string \<Rightarrow> string) \<Rightarrow> json \<Rightarrow> json dict list \<Rightarrow> bool" where
  "sound_chain sha nfc previous [] = True"
| "sound_chain sha nfc previous (e # q) =
     ((\<exists>h c s. sound_entry sha nfc previous e h c s) \<and> sound_chain sha nfc (fld e ''entry_sha256'') q)"

definition sound_queue :: "(string \<Rightarrow> string) \<Rightarrow> (string \<Rightarrow> string) \<Rightarrow> json dict list \<Rightarrow> bool" where
  "sound_queue sha nfc q \<longleftrightarrow> sound_chain sha nfc JNull q \<and> distinct (map candidate_of q)"

lemma sound_chain_snoc:
  "sound_chain sha nfc previous (q @ [e]) \<longleftrightarrow>
   sound_chain sha nfc previous q \<and> (\<exists>h c s. sound_entry sha nfc (chain_tip previous q) e h c s)"
  by (induction q arbitrary: previous) (auto simp: chain_tip_def)

lemma sound_chain_entry:
  "sound_chain sha nfc previous q \<Longrightarrow> e \<in> set q \<Longrightarrow> \<exists>p h c s. sound_entry sha nfc p e h c s"
  by (induction q arbitrary: previous) auto

lemma sound_entry_candidate:
  "sound_entry sha nfc p e h c s \<Longrightarrow> fld e ''candidate_content_sha256'' = JStr (candidate_of e)"
  by (simp add: sound_entry_def candidate_of_def)

lemma sound_entry_normal: "sound_entry sha nfc p e h c s \<Longrightarrow> content_normal nfc (JObj e)"
  by (simp add: sound_entry_def)

section \<open>The file\<close>

lemma load_written:
  assumes "\<And>e. e \<in> set q \<Longrightarrow> content_normal nfc (JObj e)" and "files w path = Some (queue_text q)"
  shows "load_queue w path = Inr (map sorted_dict q)"
proof -
  have sorted: "sort_keys (JArr (map JObj q)) = JArr (map JObj (map sorted_dict q))"
    by (simp add: sort_keys_dict o_def del: sort_keys.simps(2))
  have "jwf (JArr (map JObj q))" using assms(1) content_normal_jwf by fastforce
  from indented.receive_emit [OF jwf_sort_keys [OF this]]
  have "loads (queue_text q) = Some (JArr (map JObj (map sorted_dict q)))"
    by (simp only: queue_text_def sorted)
  then show ?thesis using assms(2)
    by (simp add: load_queue_def list_all_iff is_obj_def o_def)
qed

lemma sound_chain_sorted: "sound_chain sha nfc previous q \<Longrightarrow> map sorted_dict q = q"
  by (rule map_idI) (auto dest!: sound_chain_entry simp: sound_entry_def)

text \<open>One call of \<open>enqueue_packet\<close> on a sound queue: nothing happens, or one sound entry is appended.\<close>

lemma enqueue_keeps_sound:
  assumes nfc: "nfc_ok nfc" and sha: "digest_ok (sha256 w)"
    and q: "load_queue w path = Inr q" "sound_queue (sha256 w) nfc q"
    and run: "enqueue_packet nfc calls path packet snapshot node_id w = (r, w')"
  shows "w' = w \<and> (\<forall>x. r = Inr x \<longrightarrow> fld x ''state'' = JStr ''ALREADY_QUEUED'') \<or>
    (\<exists>e v. validate_sealed_snapshot (sha256 w) nfc calls snapshot = Inr v \<and>
      fld e ''snapshot_content_sha256'' = fld v ''content_sha256'' \<and>
      load_queue w' path = Inr (q @ [e]) \<and> sound_queue (sha256 w) nfc (q @ [e]) \<and>
      sha256 w' = sha256 w \<and>
      (\<forall>x. r = Inr x \<longrightarrow> fld e ''candidate_content_sha256'' = fld x ''candidate_content_sha256''))"
proof -
  let ?sha = "sha256 w"
  have tip: "(if q = [] then JNull else fld (last q) ''entry_sha256'') = chain_tip JNull q"
    by (simp add: chain_tip_def)
  consider (same) "w' = w" "\<forall>x. r = Inr x \<longrightarrow> fld x ''state'' = JStr ''ALREADY_QUEUED''"
    | (new) e where "build_queue_entry ?sha nfc calls packet snapshot node_id (chain_tip JNull q) = Inr e"
      "\<forall>x \<in> set q. fld x ''candidate_content_sha256'' \<noteq> fld e ''candidate_content_sha256''"
      "w' = w\<lparr>files := (files w)(path \<mapsto> queue_text (q @ [e]))\<rparr>"
      "\<forall>x. r = Inr x \<longrightarrow> fld x ''candidate_content_sha256'' = fld e ''candidate_content_sha256''"
  proof (cases "build_queue_entry ?sha nfc calls packet snapshot node_id (chain_tip JNull q)")
    case (Inl err)
    have "enqueue_packet nfc calls path packet snapshot node_id w = (Inl err, w)"
      by (simp add: enqueue_packet_def q(1) tip Inl)
    with run show thesis by (intro same) auto
  next
    case (Inr e)
    let ?again = "list_ex (\<lambda>x. fld x ''candidate_content_sha256'' = fld e ''candidate_content_sha256'') q"
    note result = enqueue_packet_def [of nfc calls path packet snapshot node_id w, unfolded q(1) e_bind_simps tip Inr
        sum.case prod.case Let_def]
    show thesis
    proof (cases ?again)
      case True
      with run result show thesis by (intro same) auto
    next
      case False
      with run result have "w' = w\<lparr>files := (files w)(path \<mapsto> queue_text (q @ [e]))\<rparr>" "\<forall>x. r = Inr x \<longrightarrow> fld x ''candidate_content_sha256'' = fld e ''candidate_content_sha256''" by auto
      with Inr False show thesis by (intro new [of e]) (simp_all add: list_ex_iff)
    qed
  qed
  then show ?thesis
  proof cases
    case (new e)
    note built = new(1) and new = new(2) and w' = new(3) and reported = new(4)
    from built obtain v where v: "validate_sealed_snapshot ?sha nfc calls snapshot = Inr v"
      by (auto elim: build_queue_entry_Inr)
    from built_entry_sound [OF nfc sha built v] obtain h c s where
      sound: "sound_entry ?sha nfc (chain_tip JNull q) (sorted_dict e) h c s"
      and s: "fld v ''content_sha256'' = JStr s" and c: "fld e ''candidate_content_sha256'' = JStr c"
      and e: "content_normal nfc (JObj e)"
      by blast
    from q(2) have chain: "sound_chain ?sha nfc JNull q" and dist: "distinct (map candidate_of q)"
      by (simp_all add: sound_queue_def)
    have "load_queue w' path = Inr (q @ [sorted_dict e])"
    proof -
      have "content_normal nfc (JObj x)" if "x \<in> set (q @ [e])" for x
        using that e chain by (auto dest!: sound_chain_entry intro: sound_entry_normal simp del: content_normal.simps)
      from load_written [OF this, of "q @ [e]" w' path] show ?thesis
        using sound_chain_sorted [OF chain] by (simp add: w')
    qed
    moreover have "candidate_of (sorted_dict e) \<notin> candidate_of ` set q"
    proof
      assume "candidate_of (sorted_dict e) \<in> candidate_of ` set q"
      then obtain x where x: "x \<in> set q" "candidate_of x = candidate_of (sorted_dict e)" by auto
      from sound_chain_entry [OF chain x(1)] obtain p h' c' s' where "sound_entry ?sha nfc p x h' c' s'" by blast
      from sound_entry_candidate [OF this] x(2) have "fld x ''candidate_content_sha256'' = JStr (candidate_of (sorted_dict e))"
        by simp
      also have "\<dots> = fld e ''candidate_content_sha256''"
        using c content_normal_jwf [OF e] by (simp add: candidate_of_def fld_sorted del: jwf.simps)
      finally show False using new x(1) by simp
    qed
    moreover have "sound_queue ?sha nfc (q @ [sorted_dict e])"
      using chain dist sound calculation(2) by (auto simp: sound_queue_def sound_chain_snoc)
    moreover have "fld (sorted_dict e) ''snapshot_content_sha256'' = fld v ''content_sha256''"
    proof -
      from built v have "fld e ''snapshot_content_sha256'' = fld v ''content_sha256''"
        by (auto elim!: build_queue_entry_Inr simp: fld_entry)
      with s content_normal_jwf [OF e] show ?thesis by (simp add: fld_sorted del: jwf.simps)
    qed
    moreover have "sha256 w' = sha256 w" by (simp add: w')
    moreover have "\<forall>x. r = Inr x \<longrightarrow> fld (sorted_dict e) ''candidate_content_sha256'' = fld x ''candidate_content_sha256''"
      using reported c content_normal_jwf [OF e] by (simp add: fld_sorted del: jwf.simps)
    ultimately show ?thesis using v by blast
  qed simp
qed

section \<open>Steps\<close>

inductive edge_step :: "(string \<Rightarrow> string) \<Rightarrow> string \<Rightarrow> world \<Rightarrow> world \<Rightarrow> bool" for nfc path where
  enqueue: "enqueue_packet nfc calls path packet snapshot node_id w = (r, w') \<Longrightarrow> edge_step nfc path w w'"
| other: "files w' path = files w path \<Longrightarrow> sha256 w' = sha256 w \<Longrightarrow> edge_step nfc path w w'"

definition queue_reached :: "(string \<Rightarrow> string) \<Rightarrow> string \<Rightarrow> world \<Rightarrow> bool" where
  "queue_reached nfc path w \<longleftrightarrow> (\<exists>w0. files w0 path = None \<and> (edge_step nfc path)\<^sup>*\<^sup>* w0 w)"

lemma load_queue_cong: "files w' path = files w path \<Longrightarrow> load_queue w' path = load_queue w path"
  by (simp add: load_queue_def)

lemma step_sound:
  assumes "nfc_ok nfc" and "edge_step nfc path w w'" and "digest_ok (sha256 w)"
    and "load_queue w path = Inr q" "sound_queue (sha256 w) nfc q"
  shows "sha256 w' = sha256 w \<and> (\<exists>q'. load_queue w' path = Inr (q @ q') \<and> sound_queue (sha256 w) nfc (q @ q'))"
  using assms(2)
proof cases
  case (enqueue calls packet snapshot node_id r)
  from enqueue_keeps_sound [OF assms(1,3-5) this] assms(4,5) show ?thesis
    by (elim disjE exE conjE) (metis append_Nil2, blast)
next
  case other
  with assms(4,5) load_queue_cong [OF other(1)] show ?thesis by (metis append_Nil2)
qed

lemma steps_sound:
  assumes "nfc_ok nfc" and "(edge_step nfc path)\<^sup>*\<^sup>* w w'" and "digest_ok (sha256 w)"
    and "load_queue w path = Inr q" "sound_queue (sha256 w) nfc q"
  shows "sha256 w' = sha256 w \<and> (\<exists>q'. load_queue w' path = Inr (q @ q') \<and> sound_queue (sha256 w) nfc (q @ q'))"
  using assms(2)
proof (induction rule: rtranclp_induct)
  case base
  with assms show ?case by (metis append_Nil2)
next
  case (step y z)
  then obtain q1 where y: "sha256 y = sha256 w" "load_queue y path = Inr (q @ q1)" "sound_queue (sha256 w) nfc (q @ q1)"
    by blast
  from step_sound [OF assms(1) step.hyps(2)] y assms(3) show ?case by (metis append_assoc)
qed

lemma reached_sound:
  assumes "nfc_ok nfc" and "queue_reached nfc path w" and "digest_ok (sha256 w)"
  shows "\<exists>q. load_queue w path = Inr q \<and> sound_queue (sha256 w) nfc q"
proof -
  from assms(2) obtain w0 where w0: "files w0 path = None" "(edge_step nfc path)\<^sup>*\<^sup>* w0 w"
    by (auto simp: queue_reached_def)
  have sha: "sha256 w = sha256 w0" using w0(2)
    by (induction rule: rtranclp_induct) (auto elim!: edge_step.cases simp: enqueue_packet_def Let_def split: sum.splits if_splits)
  have "load_queue w0 path = Inr []" by (simp add: load_queue_def w0)
  from steps_sound [OF assms(1) w0(2) _ this] assms(3) sha show ?thesis by (simp add: sound_queue_def)
qed

end
