(* ===== verification/EdgeDemo.thy ===== *)
theory EdgeDemo
  imports EdgeRuns
begin

text \<open>A concrete snapshot, candidate packets and a toy digest, on which the properties of the queue are applied.\<close>

definition demo_calls :: binding_calls where
  "demo_calls = \<lparr>candidate_source = Inl (RuntimeError ''absent''), active_canonical = Inl (RuntimeError ''absent'')\<rparr>"

definition demo_snapshot :: "string \<Rightarrow> json dict" where
  "demo_snapshot x =
     [(''schema_version'', JStr ''W7TP-SEALED-EDGE-SNAPSHOT/1.0''), (''authority'', JStr ''READ_ONLY_CANDIDATE_ONLY''),
      (''canonical_v2_sha256'', JStr LEGACY_CANONICAL_V2_SHA256), (''scenario_route_table_sha256'', JStr x),
      (''capability_registry_sha256'', JStr ''c0''), (''offline_output_level'', JStr ''L3_CANDIDATE_ONLY''),
      (''cloud_fallback'', JStr ''BLOCK''), (''founder_root_included'', JBool False), (''mutable'', JBool False)]"

definition demo_body :: "string \<Rightarrow> json dict" where
  "demo_body x =
     [(''D1'', JStr x), (''D2'', JNull), (''D3'', JNull),
      (''D4'', JObj [(''source_snapshot'', JObj [(''scenario_route_table_sha256'', JStr x),
         (''capability_registry_sha256'', JStr ''c0'')])]),
      (''D5'', JObj [(''candidate_only'', JBool True)]),
      (''D6'', JObj [(''reconstruction_conditions'', JObj [(''equivalence_level'', JStr ''L3_CANDIDATE'')])]),
      (''D7'', JNull),
      (''D8'', JObj [(''candidate_only'', JBool True), (''decision'', JStr ''PENDING_TOTAL_FIELD_REVIEW'')])]"

definition demo_seal :: "(string \<Rightarrow> string) \<Rightarrow> json dict \<Rightarrow> string" where
  "demo_seal sha d = sha (dumps_canonical (JObj d))"

definition demo_sealed :: "(string \<Rightarrow> string) \<Rightarrow> json dict \<Rightarrow> json dict" where
  "demo_sealed sha d = d @ [(''content_sha256'', JStr (demo_seal sha d))]"

definition plain_nfc :: "string \<Rightarrow> string" where
  "plain_nfc s = s"

lemma plain_ok [simp]: "nfc_ok plain_nfc"
  by (simp add: nfc_ok_def plain_nfc_def)

lemma demo_normal:
  "content_normal plain_nfc (JObj (demo_snapshot x))" "content_normal plain_nfc (JObj (demo_body x))"
  "content_normal plain_nfc (JObj (demo_sealed sha (demo_snapshot x)))" "content_normal plain_nfc (JObj (demo_sealed sha (demo_body x)))"
  by (simp_all add: demo_snapshot_def demo_body_def demo_sealed_def plain_nfc_def)

lemma demo_pops:
  "dpop ''content_sha256'' (demo_sealed sha (demo_snapshot x)) = demo_snapshot x"
  "dpop ''content_sha256'' (demo_sealed sha (demo_body x)) = demo_body x"
  "dpop ''execution_metadata'' (demo_body x) = demo_body x"
  "fld (demo_sealed sha (demo_snapshot x)) ''content_sha256'' = JStr (demo_seal sha (demo_snapshot x))"
  "fld (demo_sealed sha (demo_body x)) ''content_sha256'' = JStr (demo_seal sha (demo_body x))"
  by (simp_all add: demo_snapshot_def demo_body_def demo_sealed_def)

lemma edge_digest:
  "content_digest sha plain_nfc (demo_snapshot x) = Inr (demo_seal sha (demo_snapshot x))"
  "content_digest sha plain_nfc (demo_body x) = Inr (demo_seal sha (demo_body x))"
  using demo_normal(1,2) [of x] by (simp_all add: content_digest_normal demo_seal_def del: content_normal.simps)

lemma demo_snapshot_valid:
  "\<exists>v. validate_sealed_snapshot sha plain_nfc calls (demo_sealed sha (demo_snapshot x)) = Inr v \<and>
    fld v ''content_sha256'' = JStr (demo_seal sha (demo_snapshot x))"
proof -
  have "fld (demo_sealed sha (demo_snapshot x)) ''schema_version'' = JStr ''W7TP-SEALED-EDGE-SNAPSHOT/1.0''"
    "fld (demo_sealed sha (demo_snapshot x)) ''authority'' = JStr ''READ_ONLY_CANDIDATE_ONLY''"
    "fld (demo_sealed sha (demo_snapshot x)) ''offline_output_level'' = JStr ''L3_CANDIDATE_ONLY''"
    "fld (demo_sealed sha (demo_snapshot x)) ''cloud_fallback'' = JStr ''BLOCK''"
    "fld (demo_sealed sha (demo_snapshot x)) ''founder_root_included'' = JBool False"
    "fld (demo_sealed sha (demo_snapshot x)) ''mutable'' = JBool False"
    "fld (demo_snapshot x) ''canonical_v2_sha256'' = JStr LEGACY_CANONICAL_V2_SHA256"
    by (simp_all add: demo_snapshot_def demo_sealed_def)
  then show ?thesis
    using normalize_dict_fixed [OF demo_normal(3)]
    by (simp add: validate_sealed_snapshot_def demo_pops Let_def digest_matches_def is_str_def edge_digest
        version_checks_def base_checks_def snapshot_schemas_def SNAPSHOT_PREFIX_def field_check_def check_def)
qed

lemma demo_packet_valid: "validate_l3_packet sha plain_nfc (demo_sealed sha (demo_body x)) = Inr (demo_seal sha (demo_body x))"
proof -
  have "candidate_ok (demo_body x)"
    by (simp add: candidate_ok_def DIMENSIONS_def dhas_def demo_body_def l3_only_def is_obj_def)
  then show ?thesis
    using normalize_dict_fixed [OF demo_normal(4)]
    by (simp add: validate_l3_packet_Inr edge_body_def demo_pops edge_digest)
qed

abbreviation demo_node :: string where
  "demo_node \<equiv> ''edge-1''"

lemma demo_built:
  assumes "digest_ok sha" and "previous = JNull \<or> is_hash64 previous"
  shows "\<exists>e. build_queue_entry sha plain_nfc calls (demo_sealed sha (demo_body x)) (demo_sealed sha (demo_snapshot x)) demo_node previous
      = Inr e \<and> fld e ''candidate_content_sha256'' = JStr (demo_seal sha (demo_body x))"
proof -
  obtain v where v: "validate_sealed_snapshot sha plain_nfc calls (demo_sealed sha (demo_snapshot x)) = Inr v"
    "fld v ''content_sha256'' = JStr (demo_seal sha (demo_snapshot x))"
    using demo_snapshot_valid by blast
  have node: "is_node_id demo_node" by (simp add: is_node_id_def ascii_alnum_def Let_def)
  have source: "get_attr (get_default (demo_sealed sha (demo_body x)) ''D4'' (JObj [])) ''source_snapshot'' JNull =
     Inr (JObj [(''scenario_route_table_sha256'', fld (demo_sealed sha (demo_snapshot x)) ''scenario_route_table_sha256''),
                (''capability_registry_sha256'', fld (demo_sealed sha (demo_snapshot x)) ''capability_registry_sha256'')])"
    by (simp add: get_attr_def get_default_def demo_sealed_def demo_body_def demo_snapshot_def)
  have body: "content_normal plain_nfc (JObj (queue_entry_fields demo_node (JStr (demo_seal sha (demo_snapshot x)))
      (demo_seal sha (demo_body x)) previous (demo_sealed sha (demo_body x))))"
    by (rule queue_entry_fields_normal [OF plain_ok _ _ _ hash_normal [OF plain_ok assms(2)] demo_normal(4)])
      (simp_all add: ascii_def plain_nfc_def)
  show ?thesis
    by (simp add: build_queue_entry_def field_check_def check_def node v demo_packet_valid source assms(2)
        normalize_dict_fixed [OF demo_normal(4)] content_digest_normal [OF body] Let_def fld_entry)
qed

text \<open>An enqueue of the demo packet under the demo snapshot.\<close>

lemma demo_enqueue:
  assumes sha: "digest_ok (sha256 w)" and q: "load_queue w path = Inr q"
    and tip: "chain_tip JNull q = JNull \<or> is_hash64 (chain_tip JNull q)"
    and new: "JStr (demo_seal (sha256 w) (demo_body x)) \<notin> (\<lambda>e. fld e ''candidate_content_sha256'') ` set q"
  shows "\<exists>r w'. enqueue_packet plain_nfc calls path (demo_sealed (sha256 w) (demo_body x))
      (demo_sealed (sha256 w) (demo_snapshot x)) demo_node w = (Inr r, w') \<and>
    fld r ''state'' = JStr ''QUEUED_L3_CANDIDATE_PENDING_TOTAL_FIELD'' \<and>
    fld r ''candidate_content_sha256'' = JStr (demo_seal (sha256 w) (demo_body x))"
proof -
  obtain e where e: "build_queue_entry (sha256 w) plain_nfc calls (demo_sealed (sha256 w) (demo_body x))
      (demo_sealed (sha256 w) (demo_snapshot x)) demo_node (chain_tip JNull q) = Inr e"
    "fld e ''candidate_content_sha256'' = JStr (demo_seal (sha256 w) (demo_body x))"
    using demo_built [OF sha tip] by blast
  have "\<not> list_ex (\<lambda>y. fld y ''candidate_content_sha256'' = JStr (demo_seal (sha256 w) (demo_body x))) q"
    using new by (auto simp: list_ex_iff image_iff)
  with e show ?thesis
    by (simp add: enqueue_packet_def q chain_tip_def Let_def)
qed

end
