(* ===== verification/EdgeProps.thy ===== *)
theory EdgeProps
  imports EdgeDemo
begin

text \<open>
  What the offline queue guarantees: a queue that was only written by \<open>enqueue_packet\<close> is accepted
  exactly by the snapshot that sealed all its entries, a queue with two seals is never accepted,
  and the last digest of an accepted queue determines its contents.
\<close>

section \<open>Revalidation of sound chains\<close>

definition stale_at :: "nat \<Rightarrow> py_error" where
  "stale_at i = FieldApplicationError ''EDGE_QUEUE_SNAPSHOT_STALE'' (''$['' @ show_nat i @ '']'')"

definition first_stale :: "json \<Rightarrow> json dict list \<Rightarrow> nat option" where
  "first_stale s q = find_pos (\<lambda>e. fld e ''snapshot_content_sha256'' \<noteq> s) q"

definition sound_row :: "string list \<Rightarrow> json dict \<Rightarrow> json dict" where
  "sound_row seen e = result_row (fld e ''entry_sha256'') (candidate_of e) (candidate_of e \<in> set seen)"

lemma sound_rows:
  "sound_chain sha nfc previous q \<Longrightarrow> distinct (map candidate_of q) \<Longrightarrow>
   set (map candidate_of q) \<inter> set new = {} \<Longrightarrow>
   revalidate_entries sha nfc (JStr s) i previous (new @ seen) q =
   (case first_stale (JStr s) q of
      None \<Rightarrow> Inr (map (sound_row seen) q) | Some j \<Rightarrow> Inl (stale_at (i + j)))"
proof (induction q arbitrary: i previous new)
  case Nil
  show ?case by (simp add: first_stale_def)
next
  case (Cons e q)
  then obtain h c s' where e: "sound_entry sha nfc previous e h c s'" by auto
  then have fields: "fld e ''entry_sha256'' = JStr h" "fld e ''snapshot_content_sha256'' = JStr s'" "candidate_of e = c"
    by (auto simp: sound_entry_def candidate_of_def)
  have "revalidate_entries sha nfc (JStr s) (Suc i) (JStr h) ((c # new) @ seen) q =
    (case first_stale (JStr s) q of None \<Rightarrow> Inr (map (sound_row seen) q) | Some j \<Rightarrow> Inl (stale_at (Suc i + j)))"
    using Cons.prems fields by (intro Cons.IH) auto
  with sound_entry_revalidates [OF e, of s i] fields Cons.prems show ?case
    by (auto simp: first_stale_def stale_at_def sound_row_def split: option.splits)
qed

lemma row_normal:
  assumes "nfc_ok nfc" and "sound_entry sha nfc p e h c s"
  shows "content_normal nfc (JObj (sound_row seen e))"
proof -
  note fields = content_normal_fld [OF sound_entry_normal [OF assms(2)]]
  from fields [of "''entry_sha256''"] fields [of "''candidate_content_sha256''"] assms(2)
  have "nfc h = h" "nfc c = c" by (simp_all add: sound_entry_def)
  with assms(2) ascii_fixed [OF assms(1)] show ?thesis
    by (simp add: sound_row_def result_row_def sound_entry_def candidate_of_def ascii_def)
qed

lemma state_counts:
  "state_count ''TOTAL_FIELD_REVALIDATED_L3_CANDIDATE'' (map (sound_row seen) q) =
     JInt (int (length (filter (\<lambda>e. candidate_of e \<notin> set seen) q)))"
  "state_count ''DEDUPLICATED'' (map (sound_row seen) q) =
     JInt (int (length (filter (\<lambda>e. candidate_of e \<in> set seen) q)))"
  by (simp_all add: state_count_def filter_map o_def sound_row_def result_row_def)

text \<open>A sound queue is accepted by the snapshot of all its entries, and refused at the first other seal.\<close>

lemma sound_queue_revalidates:
  assumes nfc: "nfc_ok nfc" and q: "sound_queue sha nfc q"
    and v: "validate_sealed_snapshot sha nfc calls snapshot = Inr v"
  shows "case first_stale (fld v ''content_sha256'') q of
      None \<Rightarrow> (\<exists>r. revalidate_queue sha nfc calls q snapshot seen = Inr r \<and>
        fld r ''accepted_count'' = JInt (int (length (filter (\<lambda>e. candidate_of e \<notin> set seen) q))) \<and>
        fld r ''deduplicated_count'' = JInt (int (length (filter (\<lambda>e. candidate_of e \<in> set seen) q))))
    | Some i \<Rightarrow> revalidate_queue sha nfc calls q snapshot seen = Inl (stale_at i)"
proof -
  obtain s where s: "fld v ''content_sha256'' = JStr s" "nfc s = s"
    using nfc v by (rule validated_hash_normal)
  from q have rows: "revalidate_entries sha nfc (JStr s) 0 JNull seen q =
      (case first_stale (JStr s) q of None \<Rightarrow> Inr (map (sound_row seen) q) | Some j \<Rightarrow> Inl (stale_at j))"
    using sound_rows [of sha nfc JNull q "[]" s 0 seen] by (simp add: sound_queue_def split: option.splits)
  have normal: "\<forall>e \<in> set q. content_normal nfc (JObj (sound_row seen e))"
    using q sound_chain_entry row_normal [OF nfc] by (metis sound_queue_def)
  show ?thesis
  proof (cases "first_stale (JStr s) q")
    case (Some i)
    with rows v s show ?thesis by (simp add: revalidate_queue_def)
  next
    case None
    have "content_normal nfc (JObj [(''schema_version'', JStr ''W7TP-EDGE-QUEUE-REVALIDATION/1.0''), (''state'', JStr ''PASS''),
        (''snapshot_content_sha256'', fld v ''content_sha256''), (''results'', JArr (map JObj (map (sound_row seen) q))),
        (''accepted_count'', state_count ''TOTAL_FIELD_REVALIDATED_L3_CANDIDATE'' (map (sound_row seen) q)),
        (''deduplicated_count'', state_count ''DEDUPLICATED'' (map (sound_row seen) q)),
        (''formal_d8_assigned'', JBool False), (''archive_requires_explicit_operator_action'', JBool True)])"
      using normal s ascii_fixed [OF nfc] by (simp add: state_count_def ascii_def del: content_normal.simps(3) add: content_normal.simps(3) [of nfc "_ # _"])
    with None rows v s show ?thesis
      by (simp add: revalidate_queue_def Let_def content_digest_normal state_counts del: content_normal.simps)
  qed
qed

section \<open>Queues as the code builds them\<close>

text \<open>
  C13: the revalidation of a queue file that only \<open>enqueue_packet\<close> has written, from no file on,
  is determined by the seals: under a valid snapshot whose hash all entries carry it passes, and
  counts as accepted the candidates not seen before and as deduplicated the others; otherwise it
  raises \<open>EDGE_QUEUE_SNAPSHOT_STALE\<close> at the first entry with another seal.  No other error occurs.
\<close>

theorem queue_accepted_by_its_seal:
  assumes "nfc_ok nfc" and "digest_ok (sha256 w)" and "queue_reached nfc path w"
    and "validate_sealed_snapshot (sha256 w) nfc calls snapshot = Inr v"
  shows "\<exists>q. load_queue w path = Inr q \<and>
    (case first_stale (fld v ''content_sha256'') q of
       None \<Rightarrow> (\<exists>r. revalidate_queue_file nfc calls path snapshot seen w = Inr r \<and>
         fld r ''accepted_count'' = JInt (int (length (filter (\<lambda>e. candidate_of e \<notin> set seen) q))) \<and>
         fld r ''deduplicated_count'' = JInt (int (length (filter (\<lambda>e. candidate_of e \<in> set seen) q))))
     | Some i \<Rightarrow> revalidate_queue_file nfc calls path snapshot seen w = Inl (stale_at i))"
proof -
  obtain q where q: "load_queue w path = Inr q" "sound_queue (sha256 w) nfc q"
    using reached_sound [OF assms(1,3,2)] by blast
  from sound_queue_revalidates [OF assms(1) q(2) assms(4), of seen] q(1) show ?thesis
    by (intro exI [of _ q]) (simp add: revalidate_queue_file_def split: option.splits)
qed

definition edge_world :: "(string \<Rightarrow> string) \<Rightarrow> world" where
  "edge_world sha = \<lparr>files = \<lambda>_. None, clock = \<lambda>_. '''', ticks = 0, sha256 = sha, scope_depth = 0, lock_held = False\<rparr>"

lemma reached_start [simp]: "queue_reached nfc path (edge_world sha)"
  by (auto simp: queue_reached_def edge_world_def intro!: exI [of _ "edge_world sha"])

lemma reached_enqueue:
  assumes "queue_reached nfc path w" and "enqueue_packet nfc calls path packet snapshot node_id w = (r, w')"
  shows "queue_reached nfc path w'"
  using assms edge_step.enqueue [OF assms(2)] unfolding queue_reached_def by (meson rtranclp.rtrancl_into_rtrancl)

text \<open>The first enqueue of the demonstration: one entry, sealed by the snapshot.\<close>

lemma first_enqueue:
  assumes "digest_ok sha"
  obtains r w e where "enqueue_packet plain_nfc demo_calls path (demo_sealed sha (demo_body x))
      (demo_sealed sha (demo_snapshot x)) demo_node (edge_world sha) = (Inr r, w)"
    and "queue_reached plain_nfc path w" and "sha256 w = sha" and "load_queue w path = Inr [e]"
    and "sound_queue sha plain_nfc [e]" and "fld e ''candidate_content_sha256'' = JStr (demo_seal sha (demo_body x))"
    and "fld e ''snapshot_content_sha256'' = JStr (demo_seal sha (demo_snapshot x))"
proof -
  let ?w = "edge_world sha"
  have sha: "sha256 ?w = sha" by (simp add: edge_world_def)
  have q: "load_queue ?w path = Inr []" by (simp add: load_queue_def edge_world_def)
  obtain r w where run: "enqueue_packet plain_nfc demo_calls path (demo_sealed sha (demo_body x))
      (demo_sealed sha (demo_snapshot x)) demo_node ?w = (Inr r, w)"
    and queued: "fld r ''state'' = JStr ''QUEUED_L3_CANDIDATE_PENDING_TOTAL_FIELD''"
    using demo_enqueue [of ?w path "[]" x demo_calls] assms q by (auto simp: sha chain_tip_def)
  obtain v where v: "validate_sealed_snapshot sha plain_nfc demo_calls (demo_sealed sha (demo_snapshot x)) = Inr v"
    "fld v ''content_sha256'' = JStr (demo_seal sha (demo_snapshot x))"
    using demo_snapshot_valid by blast
  have "sound_queue sha plain_nfc []" by (simp add: sound_queue_def)
  with enqueue_keeps_sound [OF plain_ok _ q _ run] assms sha queued v obtain e where
    "fld e ''snapshot_content_sha256'' = fld v ''content_sha256''" "load_queue w path = Inr [e]"
    "sound_queue sha plain_nfc [e]" "sha256 w = sha"
    "fld e ''candidate_content_sha256'' = fld r ''candidate_content_sha256''"
    by auto
  moreover from demo_enqueue [of ?w path "[]" x demo_calls] assms q run
  have "fld r ''candidate_content_sha256'' = JStr (demo_seal sha (demo_body x))" by (simp add: sha chain_tip_def)
  ultimately show thesis using run reached_enqueue [OF reached_start run] v(2) by (intro that) auto
qed

definition zero_sha :: "string \<Rightarrow> string" where
  "zero_sha s = replicate 64 (CHR ''0'')"

lemma zero_sha_ok: "digest_ok zero_sha"
  by (simp add: digest_ok_def zero_sha_def is_hash64_def is_digit_def list_all_iff)

lemma queue_accepted_by_its_seal_witness:
  "\<exists>w q r. queue_reached plain_nfc ''queue.json'' w \<and> load_queue w ''queue.json'' = Inr q \<and> length q = 1 \<and>
     revalidate_queue_file plain_nfc demo_calls ''queue.json'' (demo_sealed zero_sha (demo_snapshot ''r1'')) [] w = Inr r \<and>
     fld r ''accepted_count'' = JInt 1 \<and> fld r ''deduplicated_count'' = JInt 0"
proof -
  obtain w e where w: "queue_reached plain_nfc ''queue.json'' w" "sha256 w = zero_sha"
    "load_queue w ''queue.json'' = Inr [e]"
    and seal: "fld e ''snapshot_content_sha256'' = JStr (demo_seal zero_sha (demo_snapshot ''r1''))"
    using zero_sha_ok by (rule first_enqueue [of _ "''queue.json''" "''r1''"])
  obtain v where v: "validate_sealed_snapshot zero_sha plain_nfc demo_calls (demo_sealed zero_sha (demo_snapshot ''r1'')) = Inr v"
    "fld v ''content_sha256'' = JStr (demo_seal zero_sha (demo_snapshot ''r1''))"
    using demo_snapshot_valid by blast
  from seal v(2) have "first_stale (fld v ''content_sha256'') [e] = None" by (simp add: first_stale_def)
  with queue_accepted_by_its_seal [OF plain_ok _ w(1), of demo_calls _ v "[]"] zero_sha_ok w v(1) show ?thesis
    by (intro exI [of _ w] exI [of _ "[e]"]) auto
qed

lemma first_stale_mixed:
  assumes "e \<in> set q" and "e' \<in> set q" and "fld e ''snapshot_content_sha256'' \<noteq> fld e' ''snapshot_content_sha256''"
  shows "first_stale s q \<noteq> None"
  using assms unfolding first_stale_def find_pos_None not_not by metis

text \<open>
  C14: \<open>enqueue_packet\<close> appends a packet under any valid snapshot, whatever snapshot sealed the
  entries before it.  From then on the queue is refused under every snapshot, however many packets
  are enqueued after it: the first entry carries one seal, the new one another, and no operation
  removes an entry.
\<close>

theorem mixed_queue_never_accepted:
  assumes nfc: "nfc_ok nfc" and sha: "digest_ok (sha256 w)" and reached: "queue_reached nfc path w"
    and q: "load_queue w path = Inr (e # q)"
    and run: "enqueue_packet nfc calls path packet snapshot node_id w = (Inr r, w1)"
    and queued: "fld r ''state'' = JStr ''QUEUED_L3_CANDIDATE_PENDING_TOTAL_FIELD''"
    and v: "validate_sealed_snapshot (sha256 w) nfc calls snapshot = Inr v"
    and seal: "fld e ''snapshot_content_sha256'' \<noteq> fld v ''content_sha256''"
    and later: "(edge_step nfc path)\<^sup>*\<^sup>* w1 w2"
  shows "\<exists>err. revalidate_queue_file nfc calls' path snapshot' seen w2 = Inl err"
proof -
  from reached_sound [OF nfc reached sha] q have sound: "sound_queue (sha256 w) nfc (e # q)" by simp
  from enqueue_keeps_sound [OF nfc sha q sound run] v queued obtain e' where
    e': "fld e' ''snapshot_content_sha256'' = fld v ''content_sha256''"
    and q1: "load_queue w1 path = Inr ((e # q) @ [e'])" "sound_queue (sha256 w) nfc ((e # q) @ [e'])"
    and sha1: "sha256 w1 = sha256 w"
    by auto
  from steps_sound [OF nfc later _ q1(1)] sha sha1 q1(2) obtain q2 where
    q2: "load_queue w2 path = Inr (((e # q) @ [e']) @ q2)" "sound_queue (sha256 w) nfc (((e # q) @ [e']) @ q2)"
    and sha2: "sha256 w2 = sha256 w"
    by auto
  let ?q = "((e # q) @ [e']) @ q2"
  show ?thesis
  proof (cases "validate_sealed_snapshot (sha256 w) nfc calls' snapshot'")
    case (Inl err)
    with q2 sha2 show ?thesis by (simp add: revalidate_queue_file_def revalidate_queue_def)
  next
    case (Inr v')
    have "first_stale (fld v' ''content_sha256'') ?q \<noteq> None"
      by (rule first_stale_mixed [of e _ e']) (use seal e' in auto)
    with sound_queue_revalidates [OF nfc q2(2) Inr, of seen] q2(1) sha2 show ?thesis
      by (auto simp: revalidate_queue_file_def split: option.splits)
  qed
qed

definition two_sha :: "string \<Rightarrow> string" where
  "two_sha s =
     replicate 64 (if s \<in> {dumps_canonical (JObj (demo_snapshot ''r2'')), dumps_canonical (JObj (demo_body ''r2''))}
                   then CHR ''1'' else CHR ''0'')"

lemma two_sha_ok: "digest_ok two_sha"
  by (simp add: digest_ok_def two_sha_def is_hash64_def is_digit_def list_all_iff)

lemma demo_texts_differ:
  "dumps_canonical (JObj (demo_snapshot ''r1'')) \<noteq> dumps_canonical (JObj (demo_snapshot ''r2''))"
  "dumps_canonical (JObj (demo_snapshot ''r1'')) \<noteq> dumps_canonical (JObj (demo_body ''r2''))"
  "dumps_canonical (JObj (demo_body ''r1'')) \<noteq> dumps_canonical (JObj (demo_snapshot ''r2''))"
  "dumps_canonical (JObj (demo_body ''r1'')) \<noteq> dumps_canonical (JObj (demo_body ''r2''))"
proof -
  note wf = demo_normal(1,2) [THEN content_normal_jwf]
  show "dumps_canonical (JObj (demo_snapshot ''r1'')) \<noteq> dumps_canonical (JObj (demo_snapshot ''r2''))"
    using canonical_fields [OF wf(1) wf(1), of "''r1''" "''r2''" "''scenario_route_table_sha256''"] by (auto simp: demo_snapshot_def)
  show "dumps_canonical (JObj (demo_snapshot ''r1'')) \<noteq> dumps_canonical (JObj (demo_body ''r2''))"
    using canonical_fields [OF wf(1) wf(2), of "''r1''" "''r2''" "''D1''"] by (auto simp: demo_snapshot_def demo_body_def)
  show "dumps_canonical (JObj (demo_body ''r1'')) \<noteq> dumps_canonical (JObj (demo_snapshot ''r2''))"
    using canonical_fields [OF wf(2) wf(1), of "''r1''" "''r2''" "''D1''"] by (auto simp: demo_snapshot_def demo_body_def)
  show "dumps_canonical (JObj (demo_body ''r1'')) \<noteq> dumps_canonical (JObj (demo_body ''r2''))"
    using canonical_fields [OF wf(2) wf(2), of "''r1''" "''r2''" "''D1''"] by (auto simp: demo_body_def)
qed

lemma two_seals:
  "demo_seal two_sha (demo_snapshot ''r1'') = replicate 64 (CHR ''0'')"
  "demo_seal two_sha (demo_snapshot ''r2'') = replicate 64 (CHR ''1'')"
  "demo_seal two_sha (demo_body ''r1'') = replicate 64 (CHR ''0'')"
  "demo_seal two_sha (demo_body ''r2'') = replicate 64 (CHR ''1'')"
  using demo_texts_differ by (simp_all add: demo_seal_def two_sha_def)

lemma mixed_queue_never_accepted_witness:
  "\<exists>w r w1 err. enqueue_packet plain_nfc demo_calls ''queue.json'' (demo_sealed two_sha (demo_body ''r2''))
       (demo_sealed two_sha (demo_snapshot ''r2'')) demo_node w = (Inr r, w1) \<and>
     fld r ''state'' = JStr ''QUEUED_L3_CANDIDATE_PENDING_TOTAL_FIELD'' \<and>
     revalidate_queue_file plain_nfc demo_calls ''queue.json'' (demo_sealed two_sha (demo_snapshot ''r2'')) [] w1 = Inl err"
proof -
  obtain w e where w: "queue_reached plain_nfc ''queue.json'' w" "sha256 w = two_sha"
    "load_queue w ''queue.json'' = Inr [e]" "sound_queue two_sha plain_nfc [e]"
    and c: "fld e ''candidate_content_sha256'' = JStr (demo_seal two_sha (demo_body ''r1''))"
    and seal: "fld e ''snapshot_content_sha256'' = JStr (demo_seal two_sha (demo_snapshot ''r1''))"
    using two_sha_ok by (rule first_enqueue [of _ "''queue.json''" "''r1''"])
  obtain v where v: "validate_sealed_snapshot two_sha plain_nfc demo_calls (demo_sealed two_sha (demo_snapshot ''r2'')) = Inr v"
    "fld v ''content_sha256'' = JStr (demo_seal two_sha (demo_snapshot ''r2''))"
    using demo_snapshot_valid by blast
  have "is_hash64 (chain_tip JNull [e])"
    using w(4) two_sha_ok by (auto simp: sound_queue_def sound_entry_def chain_tip_def digest_ok_def
        content_digest_def e_bind_InrD)
  then obtain r w1 where run: "enqueue_packet plain_nfc demo_calls ''queue.json'' (demo_sealed two_sha (demo_body ''r2''))
      (demo_sealed two_sha (demo_snapshot ''r2'')) demo_node w = (Inr r, w1)"
    and queued: "fld r ''state'' = JStr ''QUEUED_L3_CANDIDATE_PENDING_TOTAL_FIELD''"
    using demo_enqueue [of w "''queue.json''" "[e]" "''r2''" demo_calls] two_sha_ok w c by (auto simp: two_seals)
  have "fld e ''snapshot_content_sha256'' \<noteq> fld v ''content_sha256''" by (simp add: seal v(2) two_seals)
  with mixed_queue_never_accepted [OF plain_ok _ w(1,3) run queued _ _ rtranclp.rtrancl_refl, of v] w(2) v(1) two_sha_ok
  show ?thesis using run queued by metis
qed

end
