(* ===== verification/EdgeChain.thy ===== *)
theory EdgeChain
  imports EdgeProps
begin

text \<open>
  The chain of digests of an accepted queue: the last one determines all the entries, unless two
  entries exhibit a collision of the digest function.
\<close>

section \<open>Links\<close>

text \<open>The text whose digest seals an entry.\<close>

definition sealed_text :: "(string \<Rightarrow> string) \<Rightarrow> json dict \<Rightarrow> string" where
  "sealed_text nfc e =
     (case normalize_dict nfc e of
        Inr n \<Rightarrow> dumps_canonical (JObj (dpop ''entry_sha256'' n)) | Inl _ \<Rightarrow> [])"

text \<open>Entries with the same normal content, whatever the order of their keys.\<close>

definition same_entry :: "(string \<Rightarrow> string) \<Rightarrow> json dict \<Rightarrow> json dict \<Rightarrow> bool" where
  "same_entry nfc e e' \<longleftrightarrow>
     (\<exists>n n'. normalize_dict nfc e = Inr n \<and> normalize_dict nfc e' = Inr n' \<and>
        (\<forall>k. map_option sort_keys (dget n k) = map_option sort_keys (dget n' k)))"

definition link :: "(string \<Rightarrow> string) \<Rightarrow> (string \<Rightarrow> string) \<Rightarrow> json \<Rightarrow> json dict \<Rightarrow> string \<Rightarrow> bool" where
  "link sha nfc previous e h \<longleftrightarrow>
     h = sha (sealed_text nfc e) \<and>
     (\<exists>n. normalize_dict nfc e = Inr n \<and> fld n ''entry_sha256'' = JStr h \<and>
        pyeq (fld n ''previous_entry_sha256'') previous)"

fun links :: "(string \<Rightarrow> string) \<Rightarrow> (string \<Rightarrow> string) \<Rightarrow> json \<Rightarrow> json dict list \<Rightarrow> string list \<Rightarrow> bool" where
  "links sha nfc previous [] [] = True"
| "links sha nfc previous (e # q) (h # hs) = (link sha nfc previous e h \<and> links sha nfc (JStr h) q hs)"
| "links sha nfc previous _ _ = False"

definition hash_tip :: "json \<Rightarrow> string list \<Rightarrow> json" where
  "hash_tip previous hs = (if hs = [] then previous else JStr (last hs))"

lemma links_Nil [simp]: "links sha nfc previous [] hs \<longleftrightarrow> hs = []" "links sha nfc previous (e # q) [] \<longleftrightarrow> False"
  by (cases hs) simp_all

lemma hash_tip_simps [simp]: "hash_tip previous [] = previous" "hash_tip previous (hs @ [h]) = JStr h"
  "hash_tip previous (h # hs) = hash_tip (JStr h) hs"
  by (simp_all add: hash_tip_def)

lemma links_snoc:
  "links sha nfc previous (q @ [e]) hs \<longleftrightarrow>
   (\<exists>hs' h. hs = hs' @ [h] \<and> links sha nfc previous q hs' \<and> link sha nfc (hash_tip previous hs') e h)"
proof (induction q arbitrary: previous hs)
  case Nil
  show ?case by (cases hs) auto
next
  case (Cons a q)
  show ?case
  proof (cases hs)
    case (Cons h hs1)
    have "(\<exists>hs' h'. h # hs1 = hs' @ [h'] \<and> links sha nfc previous (a # q) hs' \<and> link sha nfc (hash_tip previous hs') e h') \<longleftrightarrow>
      link sha nfc previous a h \<and>
      (\<exists>hs' h'. hs1 = hs' @ [h'] \<and> links sha nfc (JStr h) q hs' \<and> link sha nfc (hash_tip (JStr h) hs') e h')"
      by (auto simp: Cons_eq_append_conv)
    with Cons.IH [of "JStr h" hs1] Cons show ?thesis by simp
  qed simp
qed

definition row_hash :: "json dict \<Rightarrow> string" where
  "row_hash r = str_of (fld r ''entry_sha256'')"

lemma entry_link:
  assumes "nfc_ok nfc" and "revalidate_entry sha nfc s i previous e = Inr (x, c)"
  shows "\<exists>h. x = JStr h \<and> link sha nfc previous e h"
proof -
  from assms(2) obtain n h where n: "normalize_dict nfc e = Inr n" and x: "x = fld n ''entry_sha256''" "x = JStr h"
    and h: "content_digest sha nfc (dpop ''entry_sha256'' n) = Inr h"
    and p: "pyeq (fld n ''previous_entry_sha256'') previous"
    by (auto simp: revalidate_entry_def Let_def e_bind_InrD)
  from content_digest_normal [OF content_normal_dpop [OF normalize_dict_normal [OF assms(1) n]]] h
  have "h = sha (sealed_text nfc e)" by (simp add: sealed_text_def n)
  with n x p show ?thesis by (auto simp: link_def)
qed

lemma entries_links:
  assumes "nfc_ok nfc"
  shows "revalidate_entries sha nfc s i previous seen q = Inr rows \<Longrightarrow>
    links sha nfc previous q (map row_hash rows) \<and> (\<forall>r \<in> set rows. is_str (fld r ''entry_sha256''))"
proof (induction q arbitrary: i previous seen rows)
  case (Cons e q)
  from Cons.prems obtain x c rest where e: "revalidate_entry sha nfc s i previous e = Inr (x, c)"
    and rest: "revalidate_entries sha nfc s (Suc i) x (c # seen) q = Inr rest"
    and rows: "rows = result_row x c (c \<in> set seen) # rest"
    by (auto simp: e_bind_InrD)
  from entry_link [OF assms e] obtain h where h: "x = JStr h" "link sha nfc previous e h" by blast
  from rows have "map row_hash rows = h # map row_hash rest" by (simp add: row_hash_def result_row_def h)
  with Cons.IH [OF rest] h rows show ?case by (simp add: result_row_def is_str_def)
qed simp

section \<open>Equal digests\<close>

definition collision :: "(string \<Rightarrow> string) \<Rightarrow> (string \<Rightarrow> string) \<Rightarrow> json dict list \<Rightarrow> json dict list \<Rightarrow> bool" where
  "collision sha nfc q q' \<longleftrightarrow>
     (\<exists>e \<in> set q. \<exists>e' \<in> set q'. sealed_text nfc e \<noteq> sealed_text nfc e' \<and>
        sha (sealed_text nfc e) = sha (sealed_text nfc e'))"

lemma sorted_dget: "dict_wf d \<Longrightarrow> dget (sorted_dict d) k = map_option sort_keys (dget d k)"
  by (simp add: sorted_dict_alt map_vals_def dget_map_snd dget_sort_key)

lemma same_text_same_entry:
  assumes nfc: "nfc_ok nfc" and "link sha nfc p e h" "link sha nfc p' e' h"
    and eq: "sealed_text nfc e = sealed_text nfc e'"
  shows "same_entry nfc e e' \<and> (p = JNull \<or> is_str p \<longrightarrow> p' = JNull \<or> is_str p' \<longrightarrow> p = p')"
proof -
  from assms obtain n n' where n: "normalize_dict nfc e = Inr n" "normalize_dict nfc e' = Inr n'"
    and h: "fld n ''entry_sha256'' = JStr h" "fld n' ''entry_sha256'' = JStr h"
    and p: "pyeq (fld n ''previous_entry_sha256'') p" "pyeq (fld n' ''previous_entry_sha256'') p'"
    by (auto simp: link_def)
  let ?b = "dpop ''entry_sha256'' n" let ?b' = "dpop ''entry_sha256'' n'"
  have wf: "dict_wf n" "dict_wf n'" using normalize_dict_normal [OF nfc] n content_normal_jwf by blast+
  then have wfb: "dict_wf ?b" "dict_wf ?b'" by (simp_all del: jwf.simps)
  have "dumps_canonical (JObj ?b) = dumps_canonical (JObj ?b')" using eq n by (simp add: sealed_text_def)
  from canonical.emit_inj [OF wfb this] have body: "sorted_dict ?b = sorted_dict ?b'" by (simp add: sorted_dict_def)
  have get: "map_option sort_keys (dget n k) = map_option sort_keys (dget n' k)" for k
  proof (cases "k = ''entry_sha256''")
    case True
    with h show ?thesis by (auto simp: get_or_none_def split: option.splits)
  next
    case False
    from body have "map_option sort_keys (dget ?b k) = map_option sort_keys (dget ?b' k)"
      using wfb by (metis sorted_dget)
    with False show ?thesis by simp
  qed
  then have "sort_keys (fld n ''previous_entry_sha256'') = sort_keys (fld n' ''previous_entry_sha256'')"
    by (metis fld_sorted sorted_dget wf get_or_none_def)
  with p have "p = p'" if "p = JNull \<or> is_str p" "p' = JNull \<or> is_str p'"
    using that by (auto simp: is_str_iff)
  with get n show ?thesis by (auto simp: same_entry_def)
qed

lemma links_same:
  assumes nfc: "nfc_ok nfc"
  shows "links sha nfc JNull q hs \<Longrightarrow> links sha nfc JNull q' hs' \<Longrightarrow> hash_tip JNull hs = hash_tip JNull hs' \<Longrightarrow>
    \<not> collision sha nfc q q' \<Longrightarrow> list_all2 (same_entry nfc) q q'"
proof (induction q arbitrary: q' hs hs' rule: rev_induct)
  case Nil
  then show ?case by (cases q' rule: rev_cases) (auto simp: hash_tip_def links_snoc split: if_splits)
next
  case (snoc e q)
  then obtain hs1 h where hs: "hs = hs1 @ [h]" "links sha nfc JNull q hs1" "link sha nfc (hash_tip JNull hs1) e h"
    by (auto simp: links_snoc)
  show ?case
  proof (cases q' rule: rev_cases)
    case Nil
    with snoc.prems hs show ?thesis by (simp add: hash_tip_def)
  next
    case (snoc q1' e')
    with snoc.prems obtain hs1' h' where hs': "hs' = hs1' @ [h']" "links sha nfc JNull q1' hs1'"
      "link sha nfc (hash_tip JNull hs1') e' h'"
      by (auto simp: links_snoc)
    from snoc.prems(3) hs(1) hs'(1) have "h' = h" by (simp add: hash_tip_def)
    with hs(3) hs'(3) snoc.prems(4) snoc have "sealed_text nfc e = sealed_text nfc e'"
      by (auto simp: collision_def link_def)
    from same_text_same_entry [OF nfc hs(3) hs'(3) [unfolded \<open>h' = h\<close>] this]
    have same: "same_entry nfc e e'" and tips: "hash_tip JNull hs1 = hash_tip JNull hs1'"
      by (auto simp: hash_tip_def is_str_def split: if_splits)
    have "\<not> collision sha nfc q q1'" using snoc.prems(4) snoc by (auto simp: collision_def)
    from snoc.IH [OF hs(2) hs'(2) tips this] same snoc show ?thesis by (simp add: list_all2_appendI)
  qed
qed

section \<open>Accepted queues\<close>

text \<open>The digest of the last row of a revalidation report.\<close>

definition report_tip :: "json dict \<Rightarrow> json" where
  "report_tip r =
     (case fld r ''results'' of
        JArr rows \<Rightarrow> if rows = [] then JNull else fld (dict_of (last rows)) ''entry_sha256''
      | _ \<Rightarrow> JNull)"

lemma report_links:
  assumes "nfc_ok nfc" and "revalidate_queue sha nfc calls q snapshot seen = Inr r"
  shows "\<exists>hs. links sha nfc JNull q hs \<and> report_tip r = hash_tip JNull hs"
proof -
  from assms(2) obtain s rows where rows: "revalidate_entries sha nfc s 0 JNull seen q = Inr rows"
    and r: "fld r ''results'' = JArr (map JObj rows)"
    by (auto simp: revalidate_queue_def e_bind_InrD Let_def)
  note l = entries_links [OF assms(1) rows]
  then have "fld (last rows) ''entry_sha256'' = JStr (row_hash (last rows))" if "rows \<noteq> []"
    using that last_in_set [OF that] by (fastforce simp: row_hash_def is_str_iff)
  with l r show ?thesis
    by (intro exI [of _ "map row_hash rows"]) (simp add: report_tip_def hash_tip_def last_map)
qed

text \<open>
  C22: of two queues that both pass the revalidation, under any snapshots, and whose reports end in
  the same entry digest, the entries agree one by one in every field of their normal form, the
  packets included; the only alternative is that one entry of each queue exhibits a collision, two
  different sealed texts with one digest.  In particular both queues have the same length.
\<close>

theorem queue_tip_determines_entries:
  assumes "nfc_ok nfc"
    and "revalidate_queue sha nfc calls q snapshot seen = Inr r"
    and "revalidate_queue sha nfc calls' q' snapshot' seen' = Inr r'"
    and "report_tip r = report_tip r'"
  shows "list_all2 (same_entry nfc) q q' \<or> collision sha nfc q q'"
  using report_links [OF assms(1,2)] report_links [OF assms(1,3)] assms(4) links_same [OF assms(1)] by metis

lemma one_entry_tip:
  assumes "nfc_ok nfc" and "revalidate_queue sha nfc calls [e] snapshot seen = Inr r"
  shows "report_tip r = JStr (sha (sealed_text nfc e))"
  using report_links [OF assms] by (auto simp: neq_Nil_conv link_def elim!: links.elims)

lemma queue_tip_determines_entries_witness:
  "\<exists>e r r'. revalidate_queue zero_sha plain_nfc demo_calls [e] (demo_sealed zero_sha (demo_snapshot ''r1'')) [] = Inr r \<and>
     revalidate_queue zero_sha plain_nfc demo_calls [e] (demo_sealed zero_sha (demo_snapshot ''r1''))
       [demo_seal zero_sha (demo_body ''r1'')] = Inr r' \<and>
     (list_all2 (same_entry plain_nfc) [e] [e] \<or> collision zero_sha plain_nfc [e] [e])"
proof -
  let ?snapshot = "demo_sealed zero_sha (demo_snapshot ''r1'')"
  obtain w e where e: "sound_queue zero_sha plain_nfc [e]"
    "fld e ''snapshot_content_sha256'' = JStr (demo_seal zero_sha (demo_snapshot ''r1''))"
    using zero_sha_ok by (rule first_enqueue [of _ "''queue.json''" "''r1''"])
  obtain v where v: "validate_sealed_snapshot zero_sha plain_nfc demo_calls ?snapshot = Inr v"
    "fld v ''content_sha256'' = JStr (demo_seal zero_sha (demo_snapshot ''r1''))"
    using demo_snapshot_valid by blast
  have "first_stale (fld v ''content_sha256'') [e] = None" using e(2) v(2) by (simp add: first_stale_def)
  with sound_queue_revalidates [OF plain_ok e(1) v(1)]
  have passes: "\<exists>r. revalidate_queue zero_sha plain_nfc demo_calls [e] ?snapshot seen = Inr r" for seen
    by (simp split: option.splits) metis
  then obtain r r' where r: "revalidate_queue zero_sha plain_nfc demo_calls [e] ?snapshot [] = Inr r"
    and r': "revalidate_queue zero_sha plain_nfc demo_calls [e] ?snapshot [demo_seal zero_sha (demo_body ''r1'')] = Inr r'"
    by blast
  from one_entry_tip [OF plain_ok r] one_entry_tip [OF plain_ok r'] have "report_tip r = report_tip r'" by simp
  from queue_tip_determines_entries [OF plain_ok r r' this] r r' show ?thesis by blast
qed

end
