(* ===== verification/EdgeSnapshot.thy ===== *)
theory EdgeSnapshot
  imports EdgeDemo
begin

text \<open>Sealed snapshots: a snapshot that was built is accepted as long as the bindings it holds are in force.\<close>

section \<open>Built snapshots\<close>

definition snapshot_fields :: "json dict \<Rightarrow> json dict \<Rightarrow> string \<Rightarrow> string \<Rightarrow> json dict \<Rightarrow> json dict" where
  "snapshot_fields active successor route_sha registry_sha profiles =
     [(''schema_version'', JStr ''W7TP-SEALED-EDGE-SNAPSHOT/1.3''),
      (''authority'', JStr ''READ_ONLY_ACTIVE_POINTER_BOUND''),
      (''canonical_v2_1_sha256'', JStr CANONICAL_V2_1_SHA256),
      (''canonical_parent_v2_sha256'', JStr LEGACY_CANONICAL_V2_SHA256),
      (''active_canonical_binding'', JObj active), (''successor_candidate_source'', JObj successor),
      (''scenario_route_table_sha256'', JStr route_sha),
      (''capability_registry_sha256'', JStr registry_sha),
      (''profile_packet_types'', JObj profiles),
      (''generative_transmission'', JStr ''PROTOCOL_NATIVE_8D_INTENT_FIELD_PACKET''),
      (''offline_output_level'', JStr ''L3_CANDIDATE_ONLY''), (''cloud_fallback'', JStr ''BLOCK''),
      (''founder_root_included'', JBool False), (''mutable'', JBool False)]"

lemma built_snapshot:
  assumes "build_sealed_snapshot nfc calls route_path registry_path canonical_path w = Inr s"
  obtains active successor route_sha registry_sha profiles h where
    "active_canonical calls = Inr active" and "candidate_source calls = Inr successor"
    and "content_digest (sha256 w) nfc (snapshot_fields active successor route_sha registry_sha profiles) = Inr h"
    and "s = snapshot_fields active successor route_sha registry_sha profiles @ [(''content_sha256'', JStr h)]"
    and "\<exists>table. load_json_object w route_path ''SCENARIO_ROUTE_TABLE_INVALID'' = Inr table \<and>
      content_digest (sha256 w) nfc table = Inr route_sha"
    and "\<exists>registry. load_json_object w registry_path ''CAPABILITY_REGISTRY_INVALID'' = Inr registry \<and>
      content_digest (sha256 w) nfc registry = Inr registry_sha"
  using assms
  by (auto simp: build_sealed_snapshot_def e_bind_InrD Let_def snapshot_fields_def)

lemma content_digest_value:
  assumes "nfc_ok nfc" and "content_digest sha nfc d = Inr h"
  shows "\<exists>x. h = sha x"
  using assms by (auto simp: content_digest_def e_bind_InrD)

lemma literals_fixed:
  assumes "nfc_ok nfc"
  shows "nfc CANONICAL_V2_1_SHA256 = CANONICAL_V2_1_SHA256" "nfc LEGACY_CANONICAL_V2_SHA256 = LEGACY_CANONICAL_V2_SHA256"
  by (rule ascii_fixed [OF assms]; simp add: ascii_def CANONICAL_V2_1_SHA256_def LEGACY_CANONICAL_V2_SHA256_def)+

text \<open>Normalising a built snapshot changes at most the table of packet types.\<close>

lemma normalized_obj: "normalize_content nfc path (JObj d) = Inr v \<Longrightarrow> \<exists>e. v = JObj e"
  by (auto simp: e_bind_InrD)

lemma snapshot_normalised:
  assumes nfc: "nfc_ok nfc" and hashes: "nfc r = r" "nfc g = g"
    and bindings: "content_normal nfc (JObj active)" "content_normal nfc (JObj successor)"
    and n: "normalize_dict nfc (snapshot_fields active successor r g profiles) = Inr n"
  shows "\<exists>profiles'. n = snapshot_fields active successor r g profiles'"
proof -
  note fixed = normalize_content_fixed(1) [OF bindings(1)] normalize_content_fixed(1) [OF bindings(2)]
  from n show ?thesis
    unfolding normalize_dict_def snapshot_fields_def
    using ascii_fixed [OF nfc] fixed literals_fixed [OF nfc] hashes
    by (auto simp: ascii_def dhas_def e_bind_InrD Let_def dest!: normalized_obj
        simp del: normalize_content.simps(3) split: if_splits)
qed

lemma content_fields_snoc:
  "content_fields nfc path (d @ [(k, v)]) acc =
   e_bind (content_fields nfc path d acc) (\<lambda>e. content_fields nfc path [(k, v)] e)"
proof (induction d arbitrary: acc)
  case (Cons p d)
  obtain k' v' where "p = (k', v')" by (cases p)
  with Cons show ?case
    by (cases "normalize_content nfc (path @ ''.'' @ nfc k') v'") (simp_all add: Let_def)
qed simp

lemma sealed_snapshot_normalised:
  assumes nfc: "nfc_ok nfc" and n: "normalize_dict nfc d = Inr n" and h: "nfc h = h"
    and new: "\<not> dhas n ''content_sha256''"
  shows "normalize_dict nfc (d @ [(''content_sha256'', JStr h)]) = Inr (n @ [(''content_sha256'', JStr h)])"
proof -
  have "nfc ''content_sha256'' = ''content_sha256''" by (rule ascii_fixed [OF nfc]) (simp add: ascii_def)
  with n h new show ?thesis
    by (simp add: normalize_dict_def content_fields_snoc Let_def dset_new dhas_keys)
qed

definition bindings_in_force :: "json dict \<Rightarrow> json dict \<Rightarrow> json dict \<Rightarrow> json dict \<Rightarrow> bool" where
  "bindings_in_force active successor active' successor' \<longleftrightarrow>
     pyeq (JObj active) (JObj active') \<and> pyeq (JObj successor) (JObj successor')"

text \<open>
  C31: a snapshot that \<open>build_sealed_snapshot\<close> returned, holding the bindings of that moment, passes
  \<open>validate_sealed_snapshot\<close> exactly while both bindings equal those in force, with its own content
  hash and the version of the active binding; once one of them has changed it is refused as
  \<open>EDGE_SNAPSHOT_INVALID\<close>.
\<close>

theorem built_snapshot_validates:
  assumes nfc: "nfc_ok nfc" and sha: "digest_ok (sha256 w)"
    and built: "build_sealed_snapshot nfc calls route_path registry_path canonical_path w = Inr s"
    and old: "active_canonical calls = Inr active" "candidate_source calls = Inr successor"
    and normal: "content_normal nfc (JObj active)" "content_normal nfc (JObj successor)"
    and now: "active_canonical calls' = Inr active'" "candidate_source calls' = Inr successor'"
    and version: "dget active' ''version'' = Some version"
  shows "if bindings_in_force active successor active' successor'
    then \<exists>v. validate_sealed_snapshot (sha256 w) nfc calls' s = Inr v \<and> fld v ''state'' = JStr ''PASS'' \<and>
      fld v ''content_sha256'' = fld s ''content_sha256'' \<and> fld v ''canonical_version'' = version
    else validate_sealed_snapshot (sha256 w) nfc calls' s = Inl (FieldApplicationError ''EDGE_SNAPSHOT_INVALID'' ''$'')"
proof -
  obtain active0 successor0 r g profiles h where "active_canonical calls = Inr active0"
    and "candidate_source calls = Inr successor0"
    and h0: "content_digest (sha256 w) nfc (snapshot_fields active0 successor0 r g profiles) = Inr h"
    and s0: "s = snapshot_fields active0 successor0 r g profiles @ [(''content_sha256'', JStr h)]"
    and r: "\<exists>table. content_digest (sha256 w) nfc table = Inr r"
    and g: "\<exists>registry. content_digest (sha256 w) nfc registry = Inr g"
    by (rule built_snapshot [OF built]) metis
  with old have h: "content_digest (sha256 w) nfc (snapshot_fields active successor r g profiles) = Inr h"
    and s: "s = snapshot_fields active successor r g profiles @ [(''content_sha256'', JStr h)]"
    by simp_all
  have hex: "nfc x = x" if "content_digest (sha256 w) nfc d = Inr x" for x d
    using content_digest_value [OF nfc that] digest_fixed [OF nfc sha] by auto
  obtain n where n: "normalize_dict nfc (snapshot_fields active successor r g profiles) = Inr n"
    and digest: "h = sha256 w (dumps_canonical (JObj n))"
    using h by (auto simp: content_digest_def e_bind_InrD)
  then obtain profiles' where n': "n = snapshot_fields active successor r g profiles'"
    using snapshot_normalised [OF nfc _ _ normal n] r g hex by blast
  define c where "c = n @ [(''content_sha256'', JStr h)]"
  have c: "normalize_dict nfc s = Inr c"
    unfolding s c_def by (rule sealed_snapshot_normalised [OF nfc n hex [OF h]])
      (simp add: n' dhas_def snapshot_fields_def)
  have d: "content_digest (sha256 w) nfc n = Inr h"
    using content_digest_normal [OF normalize_dict_normal [OF nfc n]] digest by simp
  have pop: "fld c ''content_sha256'' = JStr h" "dpop ''content_sha256'' c = n" "fld s ''content_sha256'' = JStr h"
    by (simp_all add: c_def n' s snapshot_fields_def)
  have fields: "fld n ''schema_version'' = JStr ''W7TP-SEALED-EDGE-SNAPSHOT/1.3''"
    "fld n ''authority'' = JStr ''READ_ONLY_ACTIVE_POINTER_BOUND''"
    "fld n ''canonical_v2_1_sha256'' = JStr CANONICAL_V2_1_SHA256"
    "fld n ''canonical_parent_v2_sha256'' = JStr LEGACY_CANONICAL_V2_SHA256"
    "fld n ''active_canonical_binding'' = JObj active" "fld n ''successor_candidate_source'' = JObj successor"
    "fld n ''offline_output_level'' = JStr ''L3_CANDIDATE_ONLY''" "fld n ''cloud_fallback'' = JStr ''BLOCK''"
    "fld n ''founder_root_included'' = JBool False" "fld n ''mutable'' = JBool False"
    by (simp_all add: n' snapshot_fields_def)
  have item: "item active' ''version'' = Inr version" using version by (simp add: item_Inr)
  show ?thesis
    unfolding validate_sealed_snapshot_def c e_bind_simps Let_def pop
    by (simp only: fields)
      (auto simp: now item d digest_matches_def is_str_def version_checks_def base_checks_def snapshot_schemas_def
        SNAPSHOT_PREFIX_def field_check_def check_def fields bindings_in_force_def)
qed

definition pinned_sha :: "string \<Rightarrow> string" where
  "pinned_sha s = CANONICAL_V2_1_SHA256"

lemma pinned_sha_ok: "digest_ok pinned_sha"
  by (simp add: digest_ok_def pinned_sha_def CANONICAL_V2_1_SHA256_def is_hash64_def is_digit_def)

definition source_world :: world where
  "source_world = \<lparr>files = [''routes.json'' \<mapsto> dumps_indent2 (JObj [(''routes'',
       JObj [(''web'', JObj [(''packet_type'', JStr ''WEB'')]), (''app'', JNull)])]) @ [CHR 10],
     ''registry.json'' \<mapsto> dumps_indent2 (JObj []) @ [CHR 10], ''canonical.md'' \<mapsto> ''canonical''],
     clock = \<lambda>_. [], ticks = 0, sha256 = pinned_sha, scope_depth = 0, lock_held = False\<rparr>"

definition bound_calls :: binding_calls where
  "bound_calls = \<lparr>candidate_source = Inr [(''version'', JStr ''2.3'')], active_canonical = Inr [(''version'', JStr ''2.2'')]\<rparr>"

lemma source_files:
  "load_json_object source_world ''routes.json'' reason = Inr [(''routes'',
     JObj [(''web'', JObj [(''packet_type'', JStr ''WEB'')]), (''app'', JNull)])]"
  "load_json_object source_world ''registry.json'' reason = Inr []"
  "files source_world ''canonical.md'' = Some ''canonical''"
  by (simp_all add: load_json_object_def source_world_def indented.receive_emit)

lemma source_snapshot:
  "\<exists>s. build_sealed_snapshot plain_nfc bound_calls ''routes.json'' ''registry.json'' ''canonical.md'' source_world = Inr s"
proof -
  have world: "sha256 source_world = pinned_sha" by (simp add: source_world_def)
  show ?thesis
    by (simp add: build_sealed_snapshot_def source_files Let_def world pinned_sha_def field_check_def check_def
        bound_calls_def content_digest_def normalize_dict_def plain_nfc_def dhas_def profile_packet_types_def
        is_obj_def e_bind_def)
qed

lemma built_snapshot_validates_witness:
  "\<exists>s v. build_sealed_snapshot plain_nfc bound_calls ''routes.json'' ''registry.json'' ''canonical.md'' source_world = Inr s \<and>
     validate_sealed_snapshot pinned_sha plain_nfc bound_calls s = Inr v \<and> fld v ''canonical_version'' = JStr ''2.2''"
proof -
  obtain s where s: "build_sealed_snapshot plain_nfc bound_calls ''routes.json'' ''registry.json'' ''canonical.md''
      source_world = Inr s"
    using source_snapshot by blast
  have world: "sha256 source_world = pinned_sha" by (simp add: source_world_def)
  have calls: "active_canonical bound_calls = Inr [(''version'', JStr ''2.2'')]"
    "candidate_source bound_calls = Inr [(''version'', JStr ''2.3'')]"
    by (simp_all add: bound_calls_def)
  have "digest_ok (sha256 source_world)" by (simp add: world pinned_sha_ok)
  from built_snapshot_validates [OF plain_ok this s calls _ _ calls, of "JStr ''2.2''"]
  have "\<exists>v. validate_sealed_snapshot pinned_sha plain_nfc bound_calls s = Inr v \<and>
      fld v ''canonical_version'' = JStr ''2.2''"
    by (auto simp: world plain_nfc_def bindings_in_force_def)
  with s show ?thesis by blast
qed

end
