(* ===== verification/Spec2Isabelle.thy ===== *)
theory Spec2Isabelle
  imports ActionProps WorkProps EvidenceProps AdiClosure IntentProps ArbitrationProps CapabilityProps NativeConflict NetFailover NetExpiry NetHealingProps
    EdgeChain EdgeSnapshot
begin

text \<open>
  The core of the repository, \<open>src/core\<close>, decides what an agent may do, remembers what it has
  done, and looks up states without guessing; the service \<open>src/services/w7tp_native_adi\<close> keeps
  states by time and carries them to other machines; the adaptive network capability decides over
  which carrier an intent may reach a service; the offline edge queue keeps candidates until they
  can be revalidated.  The parts, and the theories that model them:

  \<^item> \<open>execution_continuity.py\<close>, the ledger of actions with external effects and the re-entrant
    lock around every change of it: \<open>ActionLedger\<close> (state and operations of the class),
    \<open>ActionInvariant\<close> (what every process keeps of the file), \<open>ActionProps\<close>.
  \<^item> \<open>work_ledger.py\<close>, the ledger of tasks, read once and saved with a check that the file has
    not changed: \<open>WorkLedger\<close>, \<open>WorkInvariant\<close>, \<open>WorkMemory\<close> (the object's data stays a Python
    value, errors included), \<open>WorkProps\<close>.
  \<^item> \<open>intent_continuity.py\<close>, which reads candidates for events out of conversation text, projects
    the verified ones to events and applies them to the two ledgers: \<open>ConversationEvents\<close>,
    \<open>ConversationProps\<close>, \<open>IntentContinuity\<close>, \<open>IntentProps\<close>.
  \<^item> \<open>adi_native/evidence_ledger.py\<close>, two hash chains: \<open>EvidenceLedger\<close>, \<open>EvidenceProps\<close>.
  \<^item> \<open>adi_native/models.py\<close>, \<open>distance.py\<close>, \<open>projection.py\<close>, \<open>index.py\<close>, \<open>verifier.py\<close>,
    \<open>spiral.py\<close>, the search for the nearest state that is closed under evidence: \<open>AdiModels\<close>,
    \<open>AdiPath\<close>, \<open>AdiIndex\<close>, \<open>AdiSpiral\<close>, \<open>AdiClosure\<close>.
  \<^item> \<open>external_effect_gate.py\<close>: \<open>EffectGate\<close>, over the instants of \<open>PyTime\<close>.
  \<^item> \<open>resource_arbitration.py\<close>: \<open>ResourceProbes\<close> (what each probe makes of its observations),
    \<open>Arbitration\<close>, \<open>ArbitrationProps\<close>.
  \<^item> \<open>capability_internalization.py\<close>: \<open>Capability\<close> (registry, dependency graph, selection),
    \<open>CapabilityContext\<close> (the projection for a task and its validator), \<open>CapabilityProps\<close>.
  \<^item> \<open>services/w7tp_native_adi/core.py\<close> and \<open>service.py\<close>: \<open>NativeSpiral\<close> (\<open>spiral_position\<close>),
    \<open>NativeRecord\<close> (normal JSON values, digests, records), \<open>NativeStore\<close> (the class \<open>SpacetimeADI\<close>:
    \<open>native_store\<close> is its attributes; accepting, inserting, searching, log and snapshot),
    \<open>NativePacket\<close> (\<open>packet\<close>, \<open>_validate_packet\<close>, \<open>reconstruct\<close>), \<open>NativeService\<close> (restart and HTTP
    routes), \<open>NativeInvariant\<close>, \<open>NativeRuns\<close> (the states a service can be in), \<open>NativeReplica\<close>,
    \<open>NativeTransfer\<close>, \<open>NativeReload\<close> (what \<open>json.loads\<close> gives back of records and log), \<open>NativeDurable\<close>,
    \<open>NativeRestart\<close>, \<open>NativeConflict\<close>.
  \<^item> \<open>capabilities/w7tp-8d-adi-adaptive-network\<close>: \<open>NetPolicy\<close> (\<open>zone_policy.py\<close> and \<open>policy_engine.py\<close>,
    record \<open>policy\<close>), \<open>NetRoute\<close> (\<open>route_selector.py\<close>, \<open>consumer.py\<close>, \<open>failover.py\<close>, record \<open>route\<close>),
    \<open>NetHealing\<close> (\<open>healing.py\<close>, \<open>rollback_guard.py\<close>, \<open>qualify_ipv6\<close>), \<open>NetProps\<close>, \<open>NetFailover\<close>,
    \<open>NetOrder\<close>, \<open>NetExpiry\<close>, \<open>NetHealingProps\<close>.
  \<^item> \<open>tools/total_field/w7tp_intent_field_suite\<close>, \<open>canonical_hash.py\<close> and \<open>edge_queue.py\<close>:
    \<open>EdgeQueue\<close> (normal content, snapshots, packets, entries, the queue file, revalidation),
    \<open>EdgeNormal\<close> (normal content and sorted keys), \<open>EdgeEntry\<close> (one entry), \<open>EdgeRuns\<close> (the queues
    that calls can build), \<open>EdgeProps\<close>, \<open>EdgeChain\<close>, \<open>EdgeSnapshot\<close>, \<open>EdgeDemo\<close> (concrete inputs).

  Below them: \<open>Prelude\<close> (dictionaries as association lists in insertion order, lists),
  \<open>Json\<close>, \<open>JsonText\<close>, \<open>JsonCodec\<close>, \<open>JsonRoundtrip\<close>, \<open>SortedKeys\<close> (values, \<open>json.dumps\<close> in
  its layouts, \<open>json.loads\<close>, and that reading gives back what was written), \<open>PyStr\<close>, \<open>PyRepr\<close>,
  \<open>PyTime\<close>, \<open>PyLines\<close>, \<open>PlainText\<close> (string methods, \<open>str\<close> and \<open>repr\<close>, \<open>datetime.fromisoformat\<close>,
  \<open>splitlines\<close>, texts of one line), \<open>PyWorld\<close> (errors, the
  file store, the clock and state-passing operations that may raise), \<open>EntryTable\<close> (a file of
  entries with distinct identifiers, shared by the two ledgers).

  How the code is modelled.  An exception is the left value of a sum; the state that a failing
  operation leaves behind is part of its result, because the ledgers keep changes made before an
  error.  A Python object and the files it works on are passed together (\<open>obj_op\<close>).  Every class
  method and function is one definition with the code's checks in the code's order.  Strings are
  lists of UTF-8 bytes.  Processes interleave at the granularity of the lock: an operation of the
  action ledger reloads and saves inside one lock scope, which is one step of \<open>ActionInvariant\<close>.

  What the lemmas show.  Ledgers: an effect is claimed at most once per idempotency key for any
  interleaving of processes, finished entries are never rewritten, no update is lost, a
  successful call on an object that agrees with its file is in the file, the outcome of the main calls on every branch, and how a
  failed update makes a later call break the file.  Chains: two valid chains with the same head agree record by record or
  exhibit a digest collision (locale \<open>hash_chain\<close>).  Search: the resolver reports exactly the only
  causal path, the shells partition the reachable candidates by distance, and a reported fixed
  point is the only closed candidate in the nearest shell that has one.  Conversations: candidates
  are those of the lines, an event needs a receipt of the Total Field, no event reopens a task.
  Gate, arbitration, capabilities: exact conditions for a mutation, for a selection, for an
  accepted dependency graph and for the capabilities a task requires.  Native service: the spiral
  visits every point once, stored records keep their digests and places in every reachable state,
  a replica that applies the packet built for it holds the sender's state, and a start after a crash
  between log and snapshot gives back the state after the insert, unless an earlier request was
  refused after it had changed a file: a packet that collides is logged before it
  is refused and blocks the next start.  Network: the candidate is the best usable path, a decision is authorised exactly when its first path is verified, the WAN reaches nothing but the
  published service, failover keeps a usable path, the order of observation does not matter, and a
  decision ends with the evidence of its path unless the path is only numbered.  Edge queue: a queue
  built by any calls is accepted exactly by the snapshot that sealed all its entries, a queue with two
  seals is never accepted again, the last digest determines the entries, and a built snapshot is
  valid while its bindings are in force.

  Locales: \<open>codec\<close> (a writer and reader that agree, \<open>JsonRoundtrip\<close>; interpreted on the four layouts
  in use), \<open>entry_table\<close> and \<open>entry_file\<close> (interpreted on the readers of both ledgers), \<open>hash_chain\<close>
  (interpreted on both chains).

  Bounds.  Recursions that are not structural end by a measure: the parser by the number of
  tokens, the depth-first search of the dependency graph by the identifiers off the path, the
  requirement work list by the identifiers not yet required.  The walk over transition rules
  recurses on the number of states, which \<open>resolver_finds_the_only_path\<close> shows to be enough.

  Parameters and hypotheses.  SHA-256 is an argument; tamper evidence names the colliding texts
  instead of assuming that there are none.  \<open>total_field_validate\<close>, the JSON schema validator, the
  observations of the probes, the clock, the iteration order of sets and \<open>Path.resolve\<close> are
  arguments.  So are NFC (relied on: it is idempotent and leaves ASCII alone, \<open>nfc_ok\<close>), the two
  bindings of \<open>w7tp_v2_3_candidate_source.py\<close>, and in the edge queue digests are relied on to be 64
  hexadecimal digits (\<open>digest_ok\<close>).

  Not modelled.  Floating point numbers (in payloads too; the score of a network path is the rational
  number it is), invalid UTF-8, partial writes, failures of the disk, lock files as
  entries of the file store, concurrent changes within one lock scope.  Identifiers and time
  stamps are compared as strings.  \<open>casefold\<close>, \<open>upper\<close> and \<open>lower\<close> act on ASCII letters (and
  \<open>casefold\<close> in the conversation reader on the code points its expressions need);
  \<open>datetime.fromisoformat\<close> reads the formats of Python 3.7 to 3.10; decimal digits are those of
  Unicode 14.  Of the native service: sockets, headers, signals and threads (its lock makes an
  operation one step), and the command line.  Of the network capability: the probes, the labels
  derived from them, \<open>score_path\<close>, the runtime server and the report files.  Elsewhere: the Odoo addons (models inside a framework that is not in the
  repository), web services, tools and release scripts (they drive git, remote hosts and
  external services, the edge queue apart), frozen release copies, and tests.  In \<open>src/core\<close>: the state transition
  packets, metric tensors and carbon accounting (builders over floats), the HTTP client of
  \<open>msi_local_llm_route.py\<close> and the brain router with its cloud channel.
\<close>

end
